(* ===== verification/Prelude.thy ===== *)
theory Prelude
  imports Complex_Main "HOL-Library.List_Lexorder" "HOL-Library.Char_ord" "HOL-Library.Multiset"
    "HOL-Library.Word" "HOL-Library.Product_Lexorder"
begin

text \<open>
  What every component of the backend shares: the 64-bit signed arithmetic of Go's
  \<^verbatim>\<open>int\<close>, \<^verbatim>\<open>int64\<close> and \<^verbatim>\<open>time.Duration\<close>, the clock, \<^verbatim>\<open>strings.TrimSpace\<close> on byte
  strings, loops that accumulate a sum, and the interface of a lifecycle (a status
  with a transition table).  A Go string is a list of bytes (\<^typ>\<open>string\<close>), a Go
  \<^verbatim>\<open>error\<close> that may be nil is an option, a Go pointer that may be nil is an option.
\<close>

named_theorems arith64 "facts about the 64-bit signed integers of Go"
named_theorems lifecycle_simps "evaluation of the transition tables"
named_theorems preserves "operations that keep an invariant"

section \<open>Go's 64-bit signed integers\<close>

definition i64 :: "int \<Rightarrow> int" where
  "i64 x = (x + 2 ^ 63) mod 2 ^ 64 - 2 ^ 63"

definition in_i64 :: "int \<Rightarrow> bool" where
  "in_i64 x = (- (2 ^ 63) \<le> x \<and> x < 2 ^ 63)"

lemma i64_id [simp]: "in_i64 x \<Longrightarrow> i64 x = x"
  by (simp add: i64_def in_i64_def)

lemma i64_in_range [simp]: "in_i64 (i64 x)"
proof -
  have "0 \<le> (x + 2 ^ 63) mod 2 ^ 64" and "(x + 2 ^ 63) mod 2 ^ 64 < 2 ^ 64"
    by simp_all
  then show ?thesis unfolding i64_def in_i64_def by auto
qed

lemma i64_mod: "i64 x mod 2 ^ 64 = x mod 2 ^ 64"
proof -
  have "i64 x mod 2 ^ 64 = ((x + 2 ^ 63) mod 2 ^ 64 - 2 ^ 63) mod 2 ^ 64"
    by (simp add: i64_def)
  also have "\<dots> = (x + 2 ^ 63 - 2 ^ 63) mod 2 ^ 64"
    by (rule mod_diff_left_eq)
  finally show ?thesis by simp
qed

lemma i64_cong: "x mod 2 ^ 64 = y mod 2 ^ 64 \<Longrightarrow> i64 x = i64 y"
  unfolding i64_def by (metis mod_add_left_eq)

lemma i64_add_left [arith64]: "i64 (i64 x + y) = i64 (x + y)"
  by (rule i64_cong) (metis i64_mod mod_add_left_eq)

lemma i64_add_right [arith64]: "i64 (x + i64 y) = i64 (x + y)"
  by (metis add.commute i64_add_left)

lemma i64_diff_left [arith64]: "i64 (i64 x - y) = i64 (x - y)"
  by (rule i64_cong) (metis i64_mod mod_diff_left_eq)

lemma in_i64I [arith64]: "- (2 ^ 63) \<le> x \<Longrightarrow> x < 2 ^ 63 \<Longrightarrow> in_i64 x"
  by (simp add: in_i64_def)

lemma in_i64_le: "0 \<le> x \<Longrightarrow> x \<le> y \<Longrightarrow> in_i64 y \<Longrightarrow> in_i64 x"
  by (simp add: in_i64_def)

text \<open>A loop that adds one field of every element of a slice to a counter that starts at 0.\<close>

primrec sum64 :: "int \<Rightarrow> int list \<Rightarrow> int" where
  "sum64 acc [] = acc"
| "sum64 acc (x # xs) = sum64 (i64 (acc + x)) xs"

lemma sum64_eq: "in_i64 acc \<Longrightarrow> sum64 acc xs = i64 (acc + sum_list xs)"
  by (induction xs arbitrary: acc) (simp_all add: arith64 algebra_simps)

lemma sum64_zero: "sum64 0 xs = i64 (sum_list xs)"
  using sum64_eq [of 0 xs] by (simp add: in_i64_def)

lemma sum64_exact: "in_i64 (sum_list xs) \<Longrightarrow> sum64 0 xs = sum_list xs"
  by (simp add: sum64_zero)

section \<open>The clock\<close>

text \<open>
  A \<^verbatim>\<open>time.Time\<close> is the number of nanoseconds since the zero time of Go, so that
  \<^verbatim>\<open>IsZero\<close> is the comparison with 0.  \<^verbatim>\<open>Sub\<close> saturates at the bounds of a Duration.
\<close>

type_synonym time = int
type_synonym duration = int

abbreviation (input) IsZero :: "time \<Rightarrow> bool" where "IsZero t \<equiv> t = 0"

definition time_sub :: "time \<Rightarrow> time \<Rightarrow> duration" where
  "time_sub t u = max (- (2 ^ 63)) (min (2 ^ 63 - 1) (t - u))"

definition Second :: duration where "Second = 1000000000"
definition Minute :: duration where "Minute = 60000000000"
definition Hour :: duration where "Hour = 3600000000000"

lemma time_sub_in_range [simp]: "in_i64 (time_sub t u)"
  by (simp add: time_sub_def in_i64_def)

lemma time_sub_exact: "in_i64 (t - u) \<Longrightarrow> time_sub t u = t - u"
  by (simp add: time_sub_def in_i64_def)

lemma time_sub_pos_iff: "0 < time_sub t u \<longleftrightarrow> u < t"
  by (auto simp: time_sub_def)

lemma time_sub_mono: "t \<le> t' \<Longrightarrow> time_sub t u \<le> time_sub t' u"
  by (auto simp: time_sub_def)

section \<open>Floating point\<close>

text \<open>
  A \<^verbatim>\<open>float64\<close> by its value: the finite ones are rationals.  Only comparisons are interpreted, which
  are exact; every comparison with NaN is false.
\<close>

datatype f64 = NaN | PInf | NInf | Fin rat

fun flt :: "f64 \<Rightarrow> f64 \<Rightarrow> bool" where
  "flt NaN _ = False"
| "flt _ NaN = False"
| "flt (Fin a) (Fin b) = (a < b)"
| "flt NInf y = (y \<noteq> NInf)"
| "flt x PInf = (x \<noteq> PInf)"
| "flt _ _ = False"

fun feq :: "f64 \<Rightarrow> f64 \<Rightarrow> bool" where
  "feq NaN _ = False"
| "feq x y = (x = y)"

definition fle :: "f64 \<Rightarrow> f64 \<Rightarrow> bool" where
  "fle x y = (flt x y \<or> feq x y)"

text \<open>The arithmetic of the processor, where a definition needs it, is an argument.\<close>

record FloatOps =
  fo_add :: "f64 \<Rightarrow> f64 \<Rightarrow> f64"
  fo_mul :: "f64 \<Rightarrow> f64 \<Rightarrow> f64"
  fo_div :: "f64 \<Rightarrow> f64 \<Rightarrow> f64"
  fo_sqrt :: "f64 \<Rightarrow> f64"
  fo_ofInt :: "int \<Rightarrow> f64"

section \<open>strings.TrimSpace\<close>

text \<open>
  The white space of Unicode in UTF-8: six bytes of ASCII, U+0085 and U+00A0 (two
  bytes), U+1680, U+2000 to U+200A, U+2028, U+2029, U+202F, U+205F and U+3000
  (three bytes).
\<close>

definition space1 :: "char \<Rightarrow> bool" where
  "space1 c = (let n = of_char c :: nat in (9 \<le> n \<and> n \<le> 13) \<or> n = 32)"

definition space2 :: "char \<Rightarrow> char \<Rightarrow> bool" where
  "space2 c d = (let m = of_char c :: nat; n = of_char d :: nat in m = 0xC2 \<and> (n = 0x85 \<or> n = 0xA0))"

definition space3 :: "char \<Rightarrow> char \<Rightarrow> char \<Rightarrow> bool" where
  "space3 c d e =
     (let m = of_char c :: nat; n = of_char d :: nat; k = of_char e :: nat in
       (m = 0xE1 \<and> n = 0x9A \<and> k = 0x80) \<or>
       (m = 0xE2 \<and> n = 0x80 \<and> ((0x80 \<le> k \<and> k \<le> 0x8A) \<or> k = 0xA8 \<or> k = 0xA9 \<or> k = 0xAF)) \<or>
       (m = 0xE2 \<and> n = 0x81 \<and> k = 0x9F) \<or>
       (m = 0xE3 \<and> n = 0x80 \<and> k = 0x80))"

fun trim_by :: "(char \<Rightarrow> char \<Rightarrow> bool) \<Rightarrow> (char \<Rightarrow> char \<Rightarrow> char \<Rightarrow> bool) \<Rightarrow> string \<Rightarrow> string" where
  "trim_by p2 p3 [] = []"
| "trim_by p2 p3 [c] = (if space1 c then [] else [c])"
| "trim_by p2 p3 [c, d] =
     (if space1 c then trim_by p2 p3 [d] else if p2 c d then [] else [c, d])"
| "trim_by p2 p3 (c # d # e # s) =
     (if space1 c then trim_by p2 p3 (d # e # s)
      else if p2 c d then trim_by p2 p3 (e # s)
      else if p3 c d e then trim_by p2 p3 s
      else c # d # e # s)"

definition TrimLeftSpace :: "string \<Rightarrow> string" where
  "TrimLeftSpace s = trim_by space2 space3 s"

definition TrimRightSpace :: "string \<Rightarrow> string" where
  "TrimRightSpace s = rev (trim_by (\<lambda>c d. space2 d c) (\<lambda>c d e. space3 e d c) (rev s))"

definition TrimSpace :: "string \<Rightarrow> string" where
  "TrimSpace s = TrimRightSpace (TrimLeftSpace s)"

lemma TrimSpace_Nil [simp]: "TrimSpace [] = []"
  by (simp add: TrimSpace_def TrimRightSpace_def TrimLeftSpace_def)

lemma trim_by_suffix: "\<exists>us. s = us @ trim_by p2 p3 s"
proof (induction p2 p3 s rule: trim_by.induct)
  case (4 p2 p3 c d e s)
  then show ?case
    by (auto) (metis append_Cons)+
qed auto

lemma trim_by_length: "length (trim_by p2 p3 s) \<le> length s"
  using trim_by_suffix [of s p2 p3] by (metis le_add2 length_append)

lemma trim_by_idem: "trim_by p2 p3 (trim_by p2 p3 s) = trim_by p2 p3 s"
  by (induction p2 p3 s rule: trim_by.induct) auto

lemma trim_by_fixed_prefix:
  assumes "trim_by p2 p3 (u @ v) = u @ v"
  shows "trim_by p2 p3 u = u"
proof -
  have ne: "trim_by p2 p3 s \<noteq> c # s" "trim_by p2 p3 s \<noteq> c # d # s" "trim_by p2 p3 s \<noteq> c # d # e # s"
    for c d e s
    using trim_by_length [of p2 p3 s] by auto
  show ?thesis
  proof (cases "(p2, p3, u)" rule: trim_by.cases)
    case (2 _ _ c)
    then show ?thesis using assms ne by (cases v; cases "tl v") (auto split: if_splits)
  next
    case (3 _ _ c d)
    then show ?thesis using assms ne by (cases v) (auto split: if_splits)
  next
    case (4 _ _ c d e s)
    then show ?thesis using assms ne(1) [of "d # e # s @ v" c] ne(2) [of "e # s @ v" c d]
        ne(3) [of "s @ v" c d e] by (auto split: if_splits)
  qed auto
qed

lemma TrimSpace_idem [simp]: "TrimSpace (TrimSpace s) = TrimSpace s"
proof -
  let ?q2 = "\<lambda>c d. space2 d c" and ?q3 = "\<lambda>c d e. space3 e d c"
  define t where "t = TrimLeftSpace s"
  obtain us where us: "rev t = us @ trim_by ?q2 ?q3 (rev t)"
    using trim_by_suffix by blast
  then have pre: "t = TrimRightSpace t @ rev us"
    by (metis TrimRightSpace_def rev_append rev_rev_ident)
  have "trim_by space2 space3 t = t"
    by (simp add: t_def TrimLeftSpace_def trim_by_idem)
  then have "TrimLeftSpace (TrimRightSpace t) = TrimRightSpace t"
    unfolding TrimLeftSpace_def using pre trim_by_fixed_prefix by metis
  moreover have "TrimRightSpace (TrimRightSpace t) = TrimRightSpace t"
    by (simp add: TrimRightSpace_def trim_by_idem)
  ultimately show ?thesis by (simp add: TrimSpace_def t_def)
qed

text \<open>A string literal outside ASCII, as its UTF-8 bytes.\<close>

definition bytes :: "nat list \<Rightarrow> string" where
  "bytes = map char_of"

definition plain :: "char \<Rightarrow> bool" where
  "plain c = (let n = of_char c :: nat in 33 \<le> n \<and> n \<le> 126)"

lemma trim_by_plain:
  assumes "s \<noteq> []" and "\<not> space1 (hd s)" and "\<And>d. \<not> p2 (hd s) d" and "\<And>d e. \<not> p3 (hd s) d e"
  shows "trim_by p2 p3 s = s"
  using assms by (cases "(p2, p3, s)" rule: trim_by.cases) auto

lemma TrimSpace_plain:
  assumes "s \<noteq> []" and "plain (hd s)" and "plain (last s)"
  shows "TrimSpace s = s"
proof -
  have 1: "\<not> space1 c" "\<not> space2 c d" "\<not> space2 d c" "\<not> space3 c d e" "\<not> space3 e d c" if "plain c" for c d e
    using that by (auto simp: plain_def space1_def space2_def space3_def Let_def)
  have "TrimLeftSpace s = s"
    unfolding TrimLeftSpace_def using assms 1 by (intro trim_by_plain) auto
  moreover have "TrimRightSpace s = s"
    unfolding TrimRightSpace_def using assms 1 by (subst trim_by_plain) (auto simp: hd_rev)
  ultimately show ?thesis by (simp add: TrimSpace_def)
qed

text \<open>Decimal text of a Go integer (\<^verbatim>\<open>%d\<close>).\<close>

fun showNat :: "nat \<Rightarrow> string" where
  "showNat n = (if n < 10 then [char_of (48 + n)] else showNat (n div 10) @ [char_of (48 + n mod 10)])"

declare showNat.simps [simp del]

lemma readNat: "foldl (\<lambda>a c. a * 10 + (of_char c - 48)) 0 (showNat n) = (n :: nat)"
  by (induction n rule: showNat.induct) (subst showNat.simps, simp)

lemma showNat_inj: "showNat m = showNat n \<Longrightarrow> m = n"
  by (metis readNat)

definition showInt :: "int \<Rightarrow> string" where
  "showInt i = (if i < 0 then CHR ''-'' # showNat (nat (- i)) else showNat (nat i))"

section \<open>Lifecycles\<close>

text \<open>
  The contract of a status field that moves along a transition table: \<^term>\<open>norm\<close> reads the
  stored value (an empty status means the initial one), \<^term>\<open>can\<close> is the table, \<^term>\<open>fin\<close> the
  terminal statuses.  A provider promises that the table respects \<^term>\<open>norm\<close>, allows to stay,
  and never leaves a terminal status.
\<close>

locale lifecycle =
  fixes norm :: "'s \<Rightarrow> 's"
    and can :: "'s \<Rightarrow> 's \<Rightarrow> bool"
    and fin :: "'s \<Rightarrow> bool"
  assumes norm_norm: "norm (norm s) = norm s"
    and can_stay: "norm s = norm t \<Longrightarrow> can s t"
    and can_norm: "can (norm s) (norm t) = can s t"
    and fin_norm: "fin (norm s) = fin s"
    and fin_absorbing: "fin s \<Longrightarrow> can s t \<Longrightarrow> norm t = norm s"
begin

lemma path_from_fin:
  assumes "can\<^sup>*\<^sup>* s t" and "fin s"
  shows "norm t = norm s"
  using assms
proof (induction rule: rtranclp_induct)
  case (step y z)
  then have "norm y = norm s" by blast
  then have "fin y" using fin_norm \<open>fin s\<close> by metis
  then show ?case using fin_absorbing step by metis
qed simp

lemma fin_kept:
  assumes "can\<^sup>*\<^sup>* s t" and "fin s"
  shows "fin t"
  using path_from_fin [OF assms] assms(2) fin_norm by metis

lemma leaves_only_live:
  assumes "can s t" and "norm t \<noteq> norm s"
  shows "\<not> fin s"
  using assms fin_absorbing by blast

lemma two_fins_on_path:
  assumes "can\<^sup>*\<^sup>* s t" and "fin s" and "fin t"
  shows "norm s = norm t"
  using path_from_fin assms by metis

end

lemma find_SomeD: "List.find P xs = Some x \<Longrightarrow> P x \<and> x \<in> set xs"
  by (auto simp: find_Some_iff)

section \<open>Tables\<close>

text \<open>
  A database table is the list of its rows.  \<^verbatim>\<open>First\<close> with a key returns the first match,
  \<^verbatim>\<open>Save\<close> and \<^verbatim>\<open>Updates\<close> write the rows of the key, \<^verbatim>\<open>Create\<close> appends, \<^verbatim>\<open>Delete\<close>
  removes.  The column a table is searched by is unique.
\<close>

definition tfind :: "('r \<Rightarrow> 'k) \<Rightarrow> 'r list \<Rightarrow> 'k \<Rightarrow> 'r option" where
  "tfind key rows k = List.find (\<lambda>r. key r = k) rows"

definition tsave :: "('r \<Rightarrow> 'k) \<Rightarrow> 'r \<Rightarrow> 'r list \<Rightarrow> 'r list" where
  "tsave key r rows = map (\<lambda>x. if key x = key r then r else x) rows"

definition tadd :: "'r \<Rightarrow> 'r list \<Rightarrow> 'r list" where
  "tadd r rows = rows @ [r]"

text \<open>gorm's \<^verbatim>\<open>Save\<close> of a row that is no longer there inserts it.\<close>

definition tupsert :: "('r \<Rightarrow> 'k) \<Rightarrow> 'r \<Rightarrow> 'r list \<Rightarrow> 'r list" where
  "tupsert key r rows = (if list_ex (\<lambda>x. key x = key r) rows then tsave key r rows else tadd r rows)"

definition tdelete :: "('r \<Rightarrow> 'k) \<Rightarrow> 'k \<Rightarrow> 'r list \<Rightarrow> 'r list" where
  "tdelete key k rows = filter (\<lambda>x. key x \<noteq> k) rows"

definition tunique :: "('r \<Rightarrow> 'k) \<Rightarrow> 'r list \<Rightarrow> bool" where
  "tunique key rows = distinct (map key rows)"

lemma tfind_simps [simp]:
  "tfind key [] k = None"
  "tfind key (r # rows) k = (if key r = k then Some r else tfind key rows k)"
  by (simp_all add: tfind_def)

lemma tsave_simps [simp]:
  "tsave key r [] = []"
  "tsave key r (x # rows) = (if key x = key r then r else x) # tsave key r rows"
  by (simp_all add: tsave_def)

lemma tadd_Nil [simp]: "tadd r [] = [r]" and tadd_Cons [simp]: "tadd r (x # rows) = x # tadd r rows"
  by (simp_all add: tadd_def)

lemma tdelete_simps [simp]:
  "tdelete key k [] = []"
  "tdelete key k (x # rows) = (if key x = k then tdelete key k rows else x # tdelete key k rows)"
  by (simp_all add: tdelete_def)

lemma tunique_Nil [simp]: "tunique key []"
  by (simp add: tunique_def)

lemma tfind_key: "tfind key rows k = Some r \<Longrightarrow> key r = k"
  by (induction rows) (auto split: if_splits)

lemma tfind_mem: "tfind key rows k = Some r \<Longrightarrow> r \<in> set rows"
  by (induction rows) (auto split: if_splits)

lemma tfind_None: "tfind key rows k = None \<longleftrightarrow> k \<notin> key ` set rows"
  by (induction rows) auto

lemma tfind_unique: "tunique key rows \<Longrightarrow> r \<in> set rows \<Longrightarrow> tfind key rows (key r) = Some r"
  unfolding tunique_def by (induction rows) auto

lemma tfind_tsave:
  "tfind key (tsave key r rows) k =
     (if k = key r then map_option (\<lambda>_. r) (tfind key rows k) else tfind key rows k)"
  by (induction rows) auto

lemma tfind_tadd:
  "tfind key (tadd r rows) k =
     (case tfind key rows k of Some x \<Rightarrow> Some x | None \<Rightarrow> if key r = k then Some r else None)"
  by (induction rows) auto

lemma tfind_tdelete: "tfind key (tdelete key k rows) k' = (if k' = k then None else tfind key rows k')"
  by (induction rows) auto

lemma tsave_keys [simp]: "map key (tsave key r rows) = map key rows"
  by (induction rows) auto

lemma tsave_unique: "tunique key rows \<Longrightarrow> tunique key (tsave key r rows)"
  by (simp add: tunique_def)

lemma tadd_unique: "tunique key rows \<Longrightarrow> tfind key rows (key r) = None \<Longrightarrow> tunique key (tadd r rows)"
  by (simp add: tunique_def tadd_def tfind_None)

lemma tdelete_unique: "tunique key rows \<Longrightarrow> tunique key (tdelete key k rows)"
  by (simp add: tunique_def tdelete_def distinct_map_filter)

lemma tadd_set [simp]: "set (tadd r rows) = insert r (set rows)"
  by (simp add: tadd_def)

lemma tfind_tupsert: "tfind key (tupsert key r rows) k = (if k = key r then Some r else tfind key rows k)"
proof (cases "tfind key rows (key r)")
  case None
  then have "\<not> list_ex (\<lambda>x. key x = key r) rows" by (auto simp: tfind_None list_ex_iff image_iff)
  then show ?thesis using None by (auto simp: tupsert_def tfind_tadd split: option.splits)
next
  case (Some x)
  then have "list_ex (\<lambda>x. key x = key r) rows"
    by (auto simp: list_ex_iff dest: tfind_mem tfind_key)
  then show ?thesis using Some by (simp add: tupsert_def tfind_tsave)
qed

lemma tupsert_unique: "tunique key rows \<Longrightarrow> tunique key (tupsert key r rows)"
  by (fastforce simp: tupsert_def tsave_unique list_ex_iff tfind_None image_iff intro!: tadd_unique)

lemma tdelete_set [simp]: "set (tdelete key k rows) = {x \<in> set rows. key x \<noteq> k}"
  by (simp add: tdelete_def)

lemma tsave_set: "x \<in> set (tsave key r rows) \<Longrightarrow> x = r \<or> x \<in> set rows"
  by (auto simp: tsave_def split: if_splits)

lemma tunique_perm: "tunique key xs \<Longrightarrow> mset ys = mset xs \<Longrightarrow> tunique key ys"
  unfolding tunique_def by (metis mset_eq_imp_distinct_iff mset_map)

lemma tfind_perm:
  assumes "tunique key xs" and "mset ys = mset xs"
  shows "tfind key ys k = tfind key xs k"
proof (cases "tfind key xs k")
  case None
  then have "tfind key ys k = None" using mset_eq_setD [OF assms(2)] by (simp add: tfind_None)
  then show ?thesis using None by simp
next
  case (Some r)
  then have "r \<in> set ys" and "key r = k"
    using mset_eq_setD [OF assms(2)] by (auto dest: tfind_mem tfind_key)
  then show ?thesis using tfind_unique [OF tunique_perm [OF assms]] Some by auto
qed

text \<open>What a service relies on when it talks to a repository.\<close>

locale repository =
  fixes valid :: "'db \<Rightarrow> bool"
    and key :: "'r \<Rightarrow> 'k"
    and get :: "'db \<Rightarrow> 'k \<Rightarrow> 'r option"
    and save :: "'r \<Rightarrow> 'db \<Rightarrow> 'db"
    and add :: "'r \<Rightarrow> 'db \<Rightarrow> 'db"
    and delete :: "'k \<Rightarrow> 'db \<Rightarrow> 'db"
  assumes get_key: "get db k = Some r \<Longrightarrow> key r = k"
    and get_save: "get (save r db) k = (if k = key r then map_option (\<lambda>_. r) (get db k) else get db k)"
    and get_add: "get db (key r) = None \<Longrightarrow> get (add r db) k = (if k = key r then Some r else get db k)"
    and get_delete: "get (delete k db) k' = (if k' = k then None else get db k')"
    and valid_save: "valid db \<Longrightarrow> valid (save r db)"
    and valid_add: "valid db \<Longrightarrow> get db (key r) = None \<Longrightarrow> valid (add r db)"
    and valid_delete: "valid db \<Longrightarrow> valid (delete k db)"
begin

lemma read_own_write: "get db (key r) = Some r0 \<Longrightarrow> get (save r db) (key r) = Some r"
  by (simp add: get_save)

lemma write_frame: "k \<noteq> key r \<Longrightarrow> get (save r db) k = get db k"
  by (simp add: get_save)

lemma last_write_wins: "key r = key r' \<Longrightarrow> get (save r' (save r db)) k = get (save r' db) k"
  by (cases "get db (key r')") (auto simp: get_save)

lemma create_then_delete: "get db (key r) = None \<Longrightarrow> get (delete (key r) (add r db)) k = get db k"
  by (simp add: get_delete get_add)

end

lemma table_repository:
  "repository (tunique key) key (tfind key) (tsave key) tadd (tdelete key)"
proof
  show "tfind key db k = Some r \<Longrightarrow> key r = k" for db k r by (rule tfind_key)
qed (simp_all add: tfind_tsave tfind_tadd tfind_tdelete tsave_unique tadd_unique tdelete_unique split: option.split)

text \<open>Integer division of a duration truncates towards zero.\<close>

definition divTrunc :: "int \<Rightarrow> int \<Rightarrow> int" where
  "divTrunc a b = (if a < 0 then - ((- a) div b) else a div b)"

text \<open>The limit of the listings of \<^verbatim>\<open>storage/\<close>.\<close>

definition defaultListLimit :: nat where "defaultListLimit = 1000"

end
