(* ===== verification/AgentDag.thy ===== *)
theory AgentDag
  imports Prelude
begin

text \<open>
  \<^verbatim>\<open>domain/agent/agent.go\<close>: the agent graph, its validation, the topological sort and the
  compilation of an agent.  The Go map of edges is an association list with distinct keys, in
  the order of iteration; a value of a JSON configuration is a string, a number or something else.
\<close>

section \<open>Nodes and graphs\<close>

datatype NodeType = NodeLLMCall | NodeToolCall | NodeRagRetrieve | NodeCondition | NodeHumanReview
  | NodeSubAgent | OtherNode string

datatype Any = AString string | ANumber f64 | AOther

record Node =
  nd_ID :: string
  nd_Type :: NodeType
  nd_Ref :: string
  nd_Config :: "string \<Rightarrow> Any option"

datatype AgentError = ErrCycle | ErrNoEntry "string list" | ErrDuplicateNode string
  | ErrMissingSource string | ErrMissingTarget string | ErrNodeIDEmpty | ErrNodeType string
  | ErrToolRef | ErrRagRef | ErrSubAgentRef | ErrIdentity | ErrRunNotPaused | ErrAgentNotCompiled
  | ErrCompile string AgentError

definition NodeValidate :: "Node \<Rightarrow> AgentError option" where
  "NodeValidate n =
     (if nd_ID n = [] then Some ErrNodeIDEmpty
      else case nd_Type n of
        OtherNode t \<Rightarrow> Some (ErrNodeType t)
      | _ \<Rightarrow>
         if nd_Type n = NodeToolCall \<and> nd_Ref n = [] then Some ErrToolRef
         else if nd_Type n = NodeRagRetrieve \<and> nd_Ref n = [] then Some ErrRagRef
         else if nd_Type n = NodeSubAgent \<and> nd_Ref n = [] then Some ErrSubAgentRef
         else None)"

record DAG =
  dg_Nodes :: "Node list"
  dg_Edges :: "(string \<times> string list) list"

text \<open>The last node with an id wins in the map.\<close>

definition NodeByID :: "DAG \<Rightarrow> string \<Rightarrow> Node option" where
  "NodeByID d k = List.find (\<lambda>n. nd_ID n = k) (rev (dg_Nodes d))"

definition nodeIDs :: "DAG \<Rightarrow> string list" where
  "nodeIDs d = map nd_ID (dg_Nodes d)"

definition edgePairs :: "(string \<times> string list) list \<Rightarrow> (string \<times> string) list" where
  "edgePairs es = concat (map (\<lambda>(from, tos). map (Pair from) tos) es)"

definition adjOf :: "(string \<times> string list) list \<Rightarrow> string \<Rightarrow> string list" where
  "adjOf es u = (case map_of es u of None \<Rightarrow> [] | Some tos \<Rightarrow> tos)"

text \<open>The counters of incoming edges, over the ids that have one.\<close>

definition countIn :: "(string \<times> string list) list \<Rightarrow> string \<Rightarrow> int" where
  "countIn es = foldl (\<lambda>indeg (from, to). indeg(to := indeg to + 1)) (\<lambda>_. 0) (edgePairs es)"

definition entryNode :: "DAG \<Rightarrow> AgentError + string" where
  "entryNode d =
     (let keys = remdups (nodeIDs d @ map snd (edgePairs (dg_Edges d)));
          entries = filter (\<lambda>k. countIn (dg_Edges d) k = 0) keys in
      case entries of
        [] \<Rightarrow> Inl (ErrNoEntry [])
      | [e] \<Rightarrow> Inr e
      | _ \<Rightarrow> Inl (ErrNoEntry (sort entries)))"

section \<open>Topological sort\<close>

definition relax :: "string \<Rightarrow> (string \<Rightarrow> int) \<times> string list \<Rightarrow> (string \<Rightarrow> int) \<times> string list" where
  "relax nxt st =
     (let (indeg, queue) = st;
          indeg = indeg(nxt := indeg nxt - 1) in
      if indeg nxt = 0 then (indeg, queue @ [nxt]) else (indeg, queue))"

definition targets :: "(string \<times> string list) list \<Rightarrow> string list" where
  "targets es = remdups (concat (map snd es))"

definition positives :: "(string \<times> string list) list \<Rightarrow> (string \<Rightarrow> int) \<Rightarrow> nat" where
  "positives es indeg = length (filter (\<lambda>v. 0 < indeg v) (targets es))"

lemma positives_dec:
  assumes "v \<in> set (targets es)"
  shows "positives es (indeg(v := indeg v - 1)) + (if indeg v = 1 then 1 else 0) \<le> positives es indeg
    \<or> \<not> 0 < indeg v \<and> positives es (indeg(v := indeg v - 1)) = positives es indeg"
proof -
  have d: "distinct (targets es)" by (simp add: targets_def)
  have s: "positives es f = card {u \<in> set (targets es). 0 < f u}" for f
    unfolding positives_def using d by (metis distinct_card distinct_filter set_filter)
  let ?A = "{u \<in> set (targets es). 0 < indeg u}"
  let ?B = "{u \<in> set (targets es). 0 < (indeg(v := indeg v - 1)) u}"
  have fin: "finite ?A" by simp
  show ?thesis
  proof (cases "indeg v = 1")
    case True
    have "?B = ?A - {v}" using True by auto
    moreover have "v \<in> ?A" using True assms by simp
    ultimately have "card ?B + 1 = card ?A" using card_Suc_Diff1 [OF fin, of v] by simp
    then show ?thesis using True s by simp
  next
    case False
    have "?B = ?A" using False by auto
    then show ?thesis using False s by simp
  qed
qed

lemma relax_measure:
  assumes "v \<in> set (targets es)"
  shows "length (snd (relax v (indeg, queue))) + positives es (fst (relax v (indeg, queue)))
    \<le> length queue + positives es indeg"
  using positives_dec [OF assms, of indeg] by (auto simp: relax_def Let_def)

lemma fold_relax_measure:
  assumes "set succ \<subseteq> set (targets es)"
  shows "length (snd (fold relax succ st)) + positives es (fst (fold relax succ st))
    \<le> length (snd st) + positives es (fst st)"
  using assms
proof (induction succ arbitrary: st)
  case (Cons v succ)
  have "length (snd (relax v st)) + positives es (fst (relax v st)) \<le> length (snd st) + positives es (fst st)"
    using relax_measure [of v es "fst st" "snd st"] Cons.prems by simp
  then show ?case using Cons.IH [of "relax v st"] Cons.prems by simp
qed simp

lemma adjOf_targets: "set (adjOf es u) \<subseteq> set (targets es)"
proof (cases "map_of es u")
  case (Some tos)
  then show ?thesis using map_of_SomeD [OF Some] by (force simp: adjOf_def targets_def)
qed (simp add: adjOf_def)

function kahn ::
    "(string \<times> string list) list \<Rightarrow> (string \<Rightarrow> int) \<Rightarrow> string list \<Rightarrow> string list \<Rightarrow> string list" where
  "kahn es indeg [] order = order"
| "kahn es indeg (cur # queue) order =
     (let (indeg, queue) = fold relax (sort (adjOf es cur)) (indeg, queue)
      in kahn es indeg queue (order @ [cur]))"
  by pat_completeness auto
termination
proof (relation "measure (\<lambda>(es, indeg, queue, order). length queue + positives es indeg)")
  fix es :: "(string \<times> string list) list" and indeg cur queue order x xa y
  assume "x = fold relax (sort (adjOf es cur)) (indeg, queue)" and "(xa, y) = x"
  then show "((es, xa, y, order @ [cur]), es, indeg, cur # queue, order)
      \<in> measure (\<lambda>(es, indeg, queue, order). length queue + positives es indeg)"
    using fold_relax_measure [of "sort (adjOf es cur)" es "(indeg, queue)"] adjOf_targets [of es cur]
    by (metis (no_types, lifting) add_Suc case_prod_conv fst_conv in_measure le_imp_less_Suc length_Cons set_sort snd_conv)
qed simp

fun checkEdges :: "string list \<Rightarrow> (string \<times> string list) list \<Rightarrow> AgentError option" where
  "checkEdges ids [] = None"
| "checkEdges ids ((from, tos) # es) =
     (if from \<notin> set ids then Some (ErrMissingSource from)
      else case List.find (\<lambda>to. to \<notin> set ids) tos of
        Some to \<Rightarrow> Some (ErrMissingTarget to)
      | None \<Rightarrow> checkEdges ids es)"

definition TopoSort :: "DAG \<Rightarrow> AgentError + string list" where
  "TopoSort d =
     (case checkEdges (nodeIDs d) (dg_Edges d) of
        Some e \<Rightarrow> Inl e
      | None \<Rightarrow>
         let indeg = countIn (dg_Edges d);
             queue = sort (filter (\<lambda>k. indeg k = 0) (remdups (nodeIDs d)));
             order = kahn (dg_Edges d) indeg queue [] in
         if length order \<noteq> length (dg_Nodes d) then Inl ErrCycle else Inr order)"

primrec validateNodes :: "string list \<Rightarrow> Node list \<Rightarrow> AgentError option" where
  "validateNodes seen [] = None"
| "validateNodes seen (n # ns) =
     (case NodeValidate n of
        Some e \<Rightarrow> Some e
      | None \<Rightarrow> if nd_ID n \<in> set seen then Some (ErrDuplicateNode (nd_ID n))
               else validateNodes (nd_ID n # seen) ns)"

definition DAGValidate :: "DAG \<Rightarrow> AgentError option" where
  "DAGValidate d =
     (case validateNodes [] (dg_Nodes d) of
        Some e \<Rightarrow> Some e
      | None \<Rightarrow> (case TopoSort d of
          Inl e \<Rightarrow> Some e
        | Inr _ \<Rightarrow> (case entryNode d of Inl e \<Rightarrow> Some e | Inr _ \<Rightarrow> None)))"

section \<open>Agents\<close>

datatype AgentStatus = AgentStatusDraft | AgentStatusCompiled | AgentStatusPublished | OtherAgentStatus string

record Agent =
  ag_ID :: string
  ag_TenantID :: string
  ag_Name :: string
  ag_Description :: string
  ag_DAG :: DAG
  ag_Status :: AgentStatus
  ag_CreatedBy :: string
  ag_CreatedAt :: time
  ag_UpdatedAt :: time

definition NewAgent :: "time \<Rightarrow> string \<Rightarrow> string \<Rightarrow> string \<Rightarrow> DAG \<Rightarrow> string \<Rightarrow> AgentError + Agent" where
  "NewAgent now id0 tenantID name dag createdBy =
     (if id0 = [] \<or> tenantID = [] \<or> name = [] then Inl ErrIdentity
      else Inr \<lparr>ag_ID = id0, ag_TenantID = tenantID, ag_Name = name, ag_Description = [], ag_DAG = dag,
        ag_Status = AgentStatusDraft, ag_CreatedBy = createdBy, ag_CreatedAt = now, ag_UpdatedAt = now\<rparr>)"

definition Compile :: "time \<Rightarrow> Agent \<Rightarrow> AgentError option \<times> Agent" where
  "Compile now a =
     (case DAGValidate (ag_DAG a) of
        Some e \<Rightarrow> (Some (ErrCompile (ag_ID a) e), a)
      | None \<Rightarrow> (None, a\<lparr>ag_Status := AgentStatusCompiled, ag_UpdatedAt := now\<rparr>))"

section \<open>Correctness of the sort\<close>

definition edgeRel :: "(string \<times> string list) list \<Rightarrow> (string \<times> string) set" where
  "edgeRel es = set (edgePairs es)"

definition remaining :: "(string \<times> string list) list \<Rightarrow> string set \<Rightarrow> string \<Rightarrow> nat" where
  "remaining es S v = length (filter (\<lambda>(a, b). b = v \<and> a \<notin> S) (edgePairs es))"

definition topoOrder :: "(string \<times> string) set \<Rightarrow> string list \<Rightarrow> bool" where
  "topoOrder E order = (\<forall>xs v ys. order = xs @ v # ys \<longrightarrow> (\<forall>u. (u, v) \<in> E \<longrightarrow> u \<in> set xs))"

lemma edgePairs_simps [simp]:
  "edgePairs [] = []"
  "edgePairs ((u, vs) # es) = map (Pair u) vs @ edgePairs es"
  by (simp_all add: edgePairs_def)

lemma foldl_count:
  "foldl (\<lambda>indeg (from, to). indeg(to := indeg to + 1)) f ps v = f v + int (length (filter (\<lambda>(a, b). b = v) ps))"
  by (induction ps arbitrary: f) auto

lemma countIn_remaining: "countIn es v = int (remaining es {} v)"
  by (simp add: countIn_def remaining_def foldl_count)

lemma remaining_zero: "remaining es S v = 0 \<longleftrightarrow> (\<forall>u. (u, v) \<in> edgeRel es \<longrightarrow> u \<in> S)"
  by (auto simp: remaining_def edgeRel_def filter_empty_conv)

lemma adjOf_simps [simp]:
  "adjOf [] c = []"
  "adjOf ((u, vs) # es) c = (if u = c then vs else adjOf es c)"
  by (simp_all add: adjOf_def)

lemma adjOf_absent: "c \<notin> fst ` set es \<Longrightarrow> adjOf es c = []"
  by (induction es) auto

lemma adjOf_edge: "v \<in> set (adjOf es c) \<Longrightarrow> (c, v) \<in> edgeRel es"
  by (induction es) (auto simp: edgeRel_def split: if_splits)

lemma remaining_Cons:
  "remaining ((u, vs) # es) S v = (if u \<notin> S then count_list vs v else 0) + remaining es S v"
  by (induction vs) (auto simp: remaining_def)

lemma remaining_insert:
  assumes "distinct (map fst es)" and "c \<notin> S"
  shows "remaining es (insert c S) v + count_list (adjOf es c) v = remaining es S v"
  using assms
proof (induction es)
  case (Cons e es)
  obtain u vs where e: "e = (u, vs)" by fastforce
  show ?case
  proof (cases "u = c")
    case True
    have c: "c \<notin> fst ` set es" using Cons.prems True e by auto
    have "remaining es (insert c S) v = remaining es S v"
      using Cons.IH Cons.prems c adjOf_absent [OF c] by simp
    then show ?thesis using True e Cons.prems(2) by (simp add: remaining_Cons)
  next
    case False
    then show ?thesis using Cons e by (simp add: remaining_Cons)
  qed
qed (simp add: remaining_def)

lemma relax_eq:
  "relax a (f, q) = (f(a := f a - 1), if f a = 1 then q @ [a] else q)"
  by (simp add: relax_def Let_def)

lemma fold_relax:
  assumes "\<And>v. int (count_list succ v) \<le> f v"
  shows "\<exists>new. fold relax succ (f, q) = ((\<lambda>v. f v - int (count_list succ v)), q @ new) \<and> distinct new
    \<and> set new = {v \<in> set succ. f v = int (count_list succ v)}"
  using assms
proof (induction succ arbitrary: f q)
  case (Cons a succ)
  let ?f = "f(a := f a - 1)"
  have p: "int (count_list succ v) \<le> ?f v" for v
    using Cons.prems [of v] by (auto split: if_splits)
  from Cons.IH [OF p, of "if f a = 1 then q @ [a] else q"] obtain new where
    new: "fold relax succ (?f, if f a = 1 then q @ [a] else q) =
        ((\<lambda>v. ?f v - int (count_list succ v)), (if f a = 1 then q @ [a] else q) @ new)"
      "distinct new" "set new = {v \<in> set succ. ?f v = int (count_list succ v)}" by blast
  have e: "(\<lambda>v. ?f v - int (count_list succ v)) = (\<lambda>v. f v - int (count_list (a # succ) v))"
    by (auto simp: fun_eq_iff)
  show ?case
  proof (cases "f a = 1")
    case True
    then have z: "count_list succ a = 0" using p [of a] by simp
    then have na: "a \<notin> set succ" by (simp add: count_list_0_iff)
    have F: "fold relax (a # succ) (f, q) = ((\<lambda>v. f v - int (count_list (a # succ) v)), q @ (a # new))"
      using new(1) unfolding e by (simp add: relax_eq True)
    have "a \<notin> set new" using new(3) na by blast
    moreover have "set (a # new) = {v \<in> set (a # succ). f v = int (count_list (a # succ) v)}"
      using new(3) na z True by auto
    ultimately show ?thesis using F new(2) by (intro exI [of _ "a # new"]) (simp only: distinct.simps simp_thms)
  next
    case False
    have "{v \<in> set succ. ?f v = int (count_list succ v)} =
        {v \<in> set (a # succ). f v = int (count_list (a # succ) v)}"
    proof (rule set_eqI)
      fix v
      show "v \<in> {v \<in> set succ. ?f v = int (count_list succ v)} \<longleftrightarrow>
          v \<in> {v \<in> set (a # succ). f v = int (count_list (a # succ) v)}"
      proof (cases "v = a")
        case True
        define n where "n = count_list succ a"
        have L: "a \<in> {v \<in> set succ. ?f v = int (count_list succ v)} \<longleftrightarrow> a \<in> set succ \<and> f a - 1 = int n"
          by (simp add: n_def)
        have R: "a \<in> {v \<in> set (a # succ). f v = int (count_list (a # succ) v)} \<longleftrightarrow> f a = int (Suc n)"
          by (simp add: n_def)
        have "a \<notin> set succ \<Longrightarrow> n = 0" by (simp add: n_def)
        then show ?thesis unfolding True L R using False by (cases "a \<in> set succ") auto
      next
        case False
        then show ?thesis by simp
      qed
    qed
    then show ?thesis using new e False
      by (intro exI [of _ new]) (simp add: relax_eq)
  qed
qed simp

definition kahnInv :: "(string \<times> string list) list \<Rightarrow> string set \<Rightarrow> (string \<Rightarrow> int) \<Rightarrow> string list \<Rightarrow> string list \<Rightarrow> bool" where
  "kahnInv es V indeg queue order =
     (distinct (order @ queue) \<and> set (order @ queue) = {v \<in> V. indeg v = 0}
      \<and> (\<forall>v. indeg v = int (remaining es (set order) v)) \<and> topoOrder (edgeRel es) order)"

lemma topoOrder_snoc:
  "topoOrder E (order @ [c]) \<longleftrightarrow> topoOrder E order \<and> (\<forall>u. (u, c) \<in> E \<longrightarrow> u \<in> set order)"
proof
  assume *: "topoOrder E (order @ [c])"
  have "topoOrder E order"
    unfolding topoOrder_def
  proof (intro allI impI)
    fix xs v ys u assume "order = xs @ v # ys" and "(u, v) \<in> E"
    then show "u \<in> set xs" using * unfolding topoOrder_def by (metis append_Cons append_assoc)
  qed
  moreover have "(u, c) \<in> E \<Longrightarrow> u \<in> set order" for u
    using * unfolding topoOrder_def by blast
  ultimately show "topoOrder E order \<and> (\<forall>u. (u, c) \<in> E \<longrightarrow> u \<in> set order)" by blast
next
  assume *: "topoOrder E order \<and> (\<forall>u. (u, c) \<in> E \<longrightarrow> u \<in> set order)"
  show "topoOrder E (order @ [c])"
    unfolding topoOrder_def
  proof (intro allI impI)
    fix xs v ys u assume o: "order @ [c] = xs @ v # ys" and e: "(u, v) \<in> E"
    show "u \<in> set xs"
    proof (cases ys rule: rev_cases)
      case Nil
      then show ?thesis using o e * by simp
    next
      case (snoc zs z)
      then have "order = xs @ v # zs" using o by (metis append_Cons append_assoc butlast_snoc)
      then show ?thesis using * e unfolding topoOrder_def by blast
    qed
  qed
qed

lemma kahnInv_step:
  assumes inv: "kahnInv es V indeg (cur # queue) order" and d: "distinct (map fst es)"
    and V: "snd ` edgeRel es \<subseteq> V"
  shows "\<exists>indeg' queue'. fold relax (sort (adjOf es cur)) (indeg, queue) = (indeg', queue')
    \<and> kahnInv es V indeg' queue' (order @ [cur])"
proof -
  let ?s = "sort (adjOf es cur)"
  have cur: "cur \<notin> set order" and dd: "distinct (order @ cur # queue)"
    and st: "set (order @ cur # queue) = {v \<in> V. indeg v = 0}"
    and ind: "\<And>v. indeg v = int (remaining es (set order) v)"
    and tp: "topoOrder (edgeRel es) order"
    using inv by (auto simp: kahnInv_def)
  have cs: "count_list ?s v = count_list (adjOf es cur) v" for v
    by (metis count_mset mset_sort)
  have R: "remaining es (insert cur (set order)) v + count_list (adjOf es cur) v = remaining es (set order) v" for v
    by (rule remaining_insert [OF d cur])
  have le: "int (count_list ?s v) \<le> indeg v" for v
    unfolding cs ind using R [of v] by simp
  from fold_relax [of ?s indeg queue, OF le] obtain new where
    f: "fold relax ?s (indeg, queue) = ((\<lambda>v. indeg v - int (count_list ?s v)), queue @ new)"
    and dn: "distinct new" and sn: "set new = {v \<in> set ?s. indeg v = int (count_list ?s v)}" by blast
  let ?f = "\<lambda>v. indeg v - int (count_list ?s v)"
  have fr: "?f v = int (remaining es (set (order @ [cur])) v)" for v
    using R [of v] by (simp add: ind cs)
  have pos: "v \<in> set new \<Longrightarrow> 0 < indeg v" for v
    using sn by (auto simp: cs) (metis count_list_0_iff of_nat_0_less_iff neq0_conv)
  have inE: "v \<in> set ?s \<Longrightarrow> v \<in> V" for v
  proof -
    assume "v \<in> set ?s"
    then have "(cur, v) \<in> edgeRel es" using adjOf_edge by simp
    then show "v \<in> V" using V by force
  qed
  have "set (order @ [cur] @ queue @ new) = {v \<in> V. ?f v = 0}"
  proof (rule set_eqI)
    fix v
    show "v \<in> set (order @ [cur] @ queue @ new) \<longleftrightarrow> v \<in> {v \<in> V. ?f v = 0}"
    proof (cases "v \<in> set (order @ cur # queue)")
      case True
      then have "indeg v = 0" "v \<in> V" using st by auto
      then show ?thesis using True le [of v] by auto
    next
      case False
      then have "v \<in> V \<Longrightarrow> indeg v \<noteq> 0" using st by auto
      then have "?f v = 0 \<and> v \<in> V \<longleftrightarrow> v \<in> set new"
        using sn inE by (auto simp: count_list_0_iff)
      then show ?thesis using False by auto
    qed
  qed
  moreover have "distinct (order @ [cur] @ queue @ new)"
    using dd dn pos st by (auto simp: set_eq_iff) (metis less_irrefl)+
  moreover have "topoOrder (edgeRel es) (order @ [cur])"
  proof -
    have "indeg cur = 0" using st by auto
    then have "\<forall>u. (u, cur) \<in> edgeRel es \<longrightarrow> u \<in> set order" by (simp add: ind remaining_zero)
    then show ?thesis using tp by (simp add: topoOrder_snoc)
  qed
  ultimately have "kahnInv es V ?f (queue @ new) (order @ [cur])"
    using fr by (simp add: kahnInv_def)
  then show ?thesis using f by blast
qed

lemma kahn_spec:
  assumes "kahnInv es V indeg queue order" and "distinct (map fst es)" and "snd ` edgeRel es \<subseteq> V"
  shows "kahnInv es V (\<lambda>v. int (remaining es (set (kahn es indeg queue order)) v)) [] (kahn es indeg queue order)"
  using assms
proof (induction es indeg queue order rule: kahn.induct)
  case (1 es indeg order)
  have e: "(\<lambda>v. int (remaining es (set order) v)) = indeg"
    using 1(1) unfolding kahnInv_def by (intro ext) (elim conjE, erule allE, erule sym)
  show ?case unfolding kahn.simps(1) e by (rule 1(1))
next
  case (2 es indeg cur queue order)
  obtain indeg' queue' where s: "fold relax (sort (adjOf es cur)) (indeg, queue) = (indeg', queue')"
    and i: "kahnInv es V indeg' queue' (order @ [cur])"
    using kahnInv_step [OF 2(2-4)] by blast
  show ?case using 2(1) [OF s [symmetric] refl i 2(3,4)] by (simp add: s)
qed

lemma topoOrder_before:
  assumes "topoOrder E order" and "(u, v) \<in> E" and "v \<in> set order"
  obtains xs ys zs where "order = xs @ u # ys @ v # zs"
proof -
  obtain as bs where o: "order = as @ v # bs" using split_list [OF assms(3)] by blast
  then have "u \<in> set as" using assms(1,2) unfolding topoOrder_def by blast
  then obtain xs ys where "as = xs @ u # ys" by (meson split_list)
  then show ?thesis using that o by simp
qed

lemma topoOrder_acyclic:
  assumes "topoOrder E order" and "fst ` E \<union> snd ` E \<subseteq> set order"
  shows "acyclic E"
proof -
  define pos where "pos v = length (takeWhile (\<lambda>x. x \<noteq> v) order)" for v
  have "pos u < pos v" if uv: "(u, v) \<in> E" for u v
  proof -
    have v: "v \<in> set order" using uv assms(2) by force
    obtain as bs where o: "order = as @ v # bs" "v \<notin> set as" using split_list_first [OF v] by blast
    then have ua: "u \<in> set as" using assms(1) uv unfolding topoOrder_def by blast
    have "takeWhile (\<lambda>x. x \<noteq> v) (as @ v # bs) = as" using o(2) by (induction as) auto
    then have "pos v = length as" using o(1) by (simp add: pos_def)
    moreover have "pos u < length as"
    proof -
      have "takeWhile (\<lambda>x. x \<noteq> u) order = takeWhile (\<lambda>x. x \<noteq> u) as"
        using o ua by (simp add: takeWhile_append1)
      moreover have "length (takeWhile (\<lambda>x. x \<noteq> u) as) < length as"
        using ua by (induction as) auto
      ultimately show ?thesis by (simp add: pos_def)
    qed
    ultimately show ?thesis by simp
  qed
  then have "acyclic (E\<inverse>)" by (intro acyclicI_order [of _ pos]) auto
  then show ?thesis by simp
qed

lemma stuck_cycle:
  assumes "finite E" and "R \<noteq> {}" and "\<And>v. v \<in> R \<Longrightarrow> \<exists>u \<in> R. (u, v) \<in> E"
  shows "\<not> acyclic E"
proof
  assume "acyclic E"
  then have "wf E" using finite_acyclic_wf [OF assms(1)] by simp
  then obtain v where "v \<in> R" "\<forall>u. (u, v) \<in> E \<longrightarrow> u \<notin> R"
    using assms(2) by (meson ex_in_conv wfE_min)
  then show False using assms(3) by blast
qed

lemma checkEdges_None:
  "checkEdges ids es = None \<longleftrightarrow> fst ` set es \<subseteq> set ids \<and> snd ` edgeRel es \<subseteq> set ids"
  by (induction ids es rule: checkEdges.induct)
    (auto simp: edgeRel_def find_None_iff image_Un image_image split: option.splits dest: find_SomeD)

lemma edgeRel_fst: "fst ` edgeRel es \<subseteq> fst ` set es"
  by (induction es) (force simp: edgeRel_def)+

definition validEdges :: "DAG \<Rightarrow> bool" where
  "validEdges d = (fst ` set (dg_Edges d) \<subseteq> set (nodeIDs d) \<and> snd ` edgeRel (dg_Edges d) \<subseteq> set (nodeIDs d))"

lemma kahn_start:
  fixes d :: DAG
  defines "es \<equiv> dg_Edges d"
  defines "ord \<equiv> kahn es (countIn es) (sort (filter (\<lambda>k. countIn es k = 0) (remdups (nodeIDs d)))) []"
  assumes "distinct (map fst es)" and "validEdges d"
  shows "distinct ord" and "topoOrder (edgeRel es) ord"
    and "set ord = {v \<in> set (nodeIDs d). \<forall>u. (u, v) \<in> edgeRel es \<longrightarrow> u \<in> set ord}"
proof -
  have "kahnInv es (set (nodeIDs d)) (countIn es) (sort (filter (\<lambda>k. countIn es k = 0) (remdups (nodeIDs d)))) []"
    by (auto simp: kahnInv_def countIn_remaining topoOrder_def)
  from kahn_spec [OF this assms(3)] assms(4)
  have "kahnInv es (set (nodeIDs d)) (\<lambda>v. int (remaining es (set ord) v)) [] ord"
    by (simp add: ord_def validEdges_def es_def)
  then show "distinct ord" "topoOrder (edgeRel es) ord"
    "set ord = {v \<in> set (nodeIDs d). \<forall>u. (u, v) \<in> edgeRel es \<longrightarrow> u \<in> set ord}"
    by (simp_all add: kahnInv_def remaining_zero)
qed

lemma TopoSort_cases:
  assumes "distinct (map fst (dg_Edges d))" and "distinct (nodeIDs d)" and "validEdges d"
  shows "(\<exists>order. TopoSort d = Inr order \<and> acyclic (edgeRel (dg_Edges d)) \<and> distinct order
      \<and> set order = set (nodeIDs d) \<and> topoOrder (edgeRel (dg_Edges d)) order)
    \<or> (TopoSort d = Inl ErrCycle \<and> \<not> acyclic (edgeRel (dg_Edges d)))"
proof -
  let ?es = "dg_Edges d" and ?V = "set (nodeIDs d)"
  let ?o = "kahn ?es (countIn ?es) (sort (filter (\<lambda>k. countIn ?es k = 0) (remdups (nodeIDs d)))) []"
  note K = kahn_start [OF assms(1,3)]
  have c: "checkEdges (nodeIDs d) ?es = None"
    using assms(3) by (simp add: checkEdges_None validEdges_def)
  have sub: "set ?o \<subseteq> ?V" using K(3) by blast
  have n: "length (dg_Nodes d) = card ?V"
    using distinct_card [OF assms(2)] by (simp add: nodeIDs_def)
  have o: "length ?o = card (set ?o)" using distinct_card [OF K(1)] by simp
  show ?thesis
  proof (cases "set ?o = ?V")
    case True
    have "fst ` edgeRel ?es \<union> snd ` edgeRel ?es \<subseteq> set ?o"
      using assms(3) edgeRel_fst [of ?es] unfolding True validEdges_def by blast
    from topoOrder_acyclic [OF K(2) this] show ?thesis
      using True K(1,2) c n o by (simp add: TopoSort_def Let_def)
  next
    case False
    have "card (set ?o) < card ?V" using False sub by (intro psubset_card_mono) auto
    then have t: "TopoSort d = Inl ErrCycle" using c n o by (simp add: TopoSort_def Let_def)
    have "\<not> acyclic (edgeRel ?es)"
    proof (rule stuck_cycle [where R = "?V - set ?o"])
      show "finite (edgeRel ?es)" by (simp add: edgeRel_def)
      show "?V - set ?o \<noteq> {}" using False sub by blast
      fix v assume v: "v \<in> ?V - set ?o"
      then obtain u where "(u, v) \<in> edgeRel ?es" "u \<notin> set ?o" using K(3) by blast
      moreover have "u \<in> ?V" using calculation(1) edgeRel_fst [of ?es] assms(3) unfolding validEdges_def by force
      ultimately show "\<exists>u \<in> ?V - set ?o. (u, v) \<in> edgeRel ?es" by blast
    qed
    then show ?thesis using t by blast
  qed
qed

section \<open>Iteration order of the edge map\<close>

lemma kahn_cong:
  assumes "adjOf es = adjOf es'"
  shows "kahn es indeg queue order = kahn es' indeg queue order"
  using assms
proof (induction es indeg queue order rule: kahn.induct)
  case (2 es indeg cur queue order)
  obtain f q where "fold relax (sort (adjOf es cur)) (indeg, queue) = (f, q)" by fastforce
  then show ?case using 2 by simp
qed simp

lemma adjOf_perm:
  assumes "mset es = mset es'" and "distinct (map fst es)"
  shows "adjOf es = adjOf es'"
proof -
  have "map_of es = map_of es'"
    using assms by (metis map_of_eqI mset_map mset_eq_imp_distinct_iff mset_eq_setD map_of_inject_set)
  then show ?thesis by (simp add: adjOf_def fun_eq_iff)
qed

lemma remaining_perm: "mset es = mset es' \<Longrightarrow> remaining es S v = remaining es' S v"
proof -
  assume a: "mset es = mset es'"
  have m: "mset (edgePairs es) = (\<Sum>e \<in># mset es. mset (case e of (u, vs) \<Rightarrow> map (Pair u) vs))" for es
    by (induction es) (auto simp: edgePairs_def)
  have "mset (edgePairs es) = mset (edgePairs es')" using a by (simp add: m)
  then show ?thesis unfolding remaining_def by (metis mset_filter size_mset)
qed

lemma TopoSort_perm:
  assumes "mset (dg_Edges d) = mset (dg_Edges d')" and "dg_Nodes d = dg_Nodes d'"
    and "distinct (map fst (dg_Edges d))" and "validEdges d"
  shows "TopoSort d = TopoSort d'"
proof -
  have v: "validEdges d'"
  proof -
    have "edgeRel (dg_Edges d) = edgeRel (dg_Edges d')"
      using mset_eq_setD [OF assms(1)] by (simp add: edgeRel_def edgePairs_def)
    then show ?thesis
      using assms(2,4) mset_eq_setD [OF assms(1)] by (simp add: validEdges_def nodeIDs_def)
  qed
  have c: "countIn (dg_Edges d) = countIn (dg_Edges d')"
    using remaining_perm [OF assms(1)] by (simp add: countIn_remaining fun_eq_iff)
  have k: "kahn (dg_Edges d) f q r = kahn (dg_Edges d') f q r" for f q r
    by (rule kahn_cong [OF adjOf_perm [OF assms(1,3)]])
  have "nodeIDs d = nodeIDs d'" using assms(2) by (simp add: nodeIDs_def)
  moreover have "checkEdges (nodeIDs d) (dg_Edges d) = None" "checkEdges (nodeIDs d') (dg_Edges d') = None"
    using assms(4) v by (simp_all add: checkEdges_None validEdges_def)
  ultimately show ?thesis using c k assms(2) by (simp add: TopoSort_def)
qed

lemma validateNodes_None:
  "validateNodes seen ns = None \<longleftrightarrow>
     list_all (\<lambda>n. NodeValidate n = None) ns \<and> distinct (map nd_ID ns) \<and> nd_ID ` set ns \<inter> set seen = {}"
  by (induction ns arbitrary: seen) (auto split: option.splits)

lemma entryNode_Inr:
  assumes "validEdges d"
  shows "(\<exists>e. entryNode d = Inr e) \<longleftrightarrow>
    (\<exists>!e. e \<in> set (nodeIDs d) \<and> (\<forall>u. (u, e) \<notin> edgeRel (dg_Edges d)))"
proof -
  let ?P = "\<lambda>k. countIn (dg_Edges d) k = 0"
  let ?keys = "remdups (nodeIDs d @ map snd (edgePairs (dg_Edges d)))"
  let ?l = "filter ?P ?keys"
  have z: "?P k \<longleftrightarrow> (\<forall>u. (u, k) \<notin> edgeRel (dg_Edges d))" for k
    by (simp add: countIn_remaining remaining_zero)
  have keys: "set ?keys = set (nodeIDs d)"
    using assms by (auto simp: validEdges_def edgeRel_def)
  have sl: "set ?l = {e \<in> set (nodeIDs d). \<forall>u. (u, e) \<notin> edgeRel (dg_Edges d)}"
    using keys z by auto
  have "distinct ?l" by simp
  then have one: "(\<exists>e. ?l = [e]) \<longleftrightarrow> (\<exists>!e. e \<in> set ?l)"
    by (cases ?l; cases "tl ?l") auto
  have "(\<exists>e. entryNode d = Inr e) \<longleftrightarrow> (\<exists>e. ?l = [e])"
    unfolding entryNode_def Let_def by (cases ?l; cases "tl ?l") auto
  then show ?thesis unfolding one sl by simp
qed

section \<open>Properties\<close>

text \<open>C8: Topological sort.  For a graph with distinct node ids and known edge ends, the sort returns
  every node exactly once with the source of each edge before its target when the graph has no cycle, and
  reports the cycle when it has one.\<close>
theorem topo_sort_correct:
  assumes "distinct (map fst (dg_Edges d))" and "distinct (nodeIDs d)" and "validEdges d"
  shows "(case TopoSort d of
      Inr order \<Rightarrow> acyclic (edgeRel (dg_Edges d)) \<and> mset order = mset (nodeIDs d)
        \<and> (\<forall>(u, v) \<in> edgeRel (dg_Edges d). \<exists>xs ys zs. order = xs @ u # ys @ v # zs)
    | Inl e \<Rightarrow> e = ErrCycle \<and> \<not> acyclic (edgeRel (dg_Edges d)))"
  using TopoSort_cases [OF assms]
proof (elim disjE exE conjE)
  fix order
  assume t: "TopoSort d = Inr order" and a: "acyclic (edgeRel (dg_Edges d))" and o: "distinct order"
    "set order = set (nodeIDs d)" "topoOrder (edgeRel (dg_Edges d)) order"
  have "\<exists>xs ys zs. order = xs @ u # ys @ v # zs" if "(u, v) \<in> edgeRel (dg_Edges d)" for u v
  proof -
    have "v \<in> snd ` edgeRel (dg_Edges d)" using that by (metis imageI snd_conv)
    then have "v \<in> set order" using assms(3) o(2) unfolding validEdges_def by blast
    then show ?thesis using topoOrder_before [OF o(3) that] by metis
  qed
  moreover have "mset order = mset (nodeIDs d)"
    using o(1,2) assms(2) by (simp add: set_eq_iff_mset_eq_distinct)
  ultimately show ?thesis using t a by auto
qed simp

definition demoNode :: "string \<Rightarrow> Node" where
  "demoNode k = \<lparr>nd_ID = k, nd_Type = NodeLLMCall, nd_Ref = [], nd_Config = (\<lambda>_. None)\<rparr>"

definition demoDag :: DAG where
  "demoDag = \<lparr>dg_Nodes = [demoNode ''c'', demoNode ''b'', demoNode ''a''],
     dg_Edges = [(''c'', [''a'', ''b'']), (''a'', [''b''])]\<rparr>"

lemma demoDag_ok: "distinct (map fst (dg_Edges demoDag)) \<and> distinct (nodeIDs demoDag) \<and> validEdges demoDag"
  by (simp add: demoDag_def nodeIDs_def demoNode_def validEdges_def edgeRel_def)

lemma demoDag_sorted: "TopoSort demoDag = Inr [''c'', ''a'', ''b'']"
  by (simp add: TopoSort_def demoDag_def nodeIDs_def demoNode_def countIn_def relax_def Let_def)

lemma topo_sort_correct_witness:
  "mset [''c'', ''a'', ''b''] = mset (nodeIDs demoDag) \<and> acyclic (edgeRel (dg_Edges demoDag))"
  using topo_sort_correct [of demoDag] demoDag_ok by (simp add: demoDag_sorted)

text \<open>The compiled order does not depend on how Go iterates over the map of edges: two
  listings of the same map give the same result.\<close>
theorem topo_sort_map_order_irrelevant:
  assumes "mset (dg_Edges d) = mset es" and "distinct (map fst (dg_Edges d))" and "validEdges d"
  shows "TopoSort (d\<lparr>dg_Edges := es\<rparr>) = TopoSort d"
  using TopoSort_perm [of d "d\<lparr>dg_Edges := es\<rparr>"] assms by simp

lemma topo_sort_map_order_irrelevant_witness:
  "TopoSort (demoDag\<lparr>dg_Edges := [(''a'', [''b'']), (''c'', [''a'', ''b''])]\<rparr>) = Inr [''c'', ''a'', ''b'']"
  using topo_sort_map_order_irrelevant [of demoDag "[(''a'', [''b'']), (''c'', [''a'', ''b''])]"] demoDag_ok
  by (simp add: demoDag_sorted) (simp add: demoDag_def)

text \<open>What compilation accepts.  An agent compiles exactly when all its nodes are well formed and
  their ids distinct, every edge joins known nodes, the graph has no cycle, and exactly one node has no
  incoming edge; the agent then becomes compiled, and otherwise nothing of it changes.\<close>
theorem compile_accepts_iff:
  assumes "distinct (map fst (dg_Edges (ag_DAG a)))"
  shows "(fst (Compile now a) = None \<longleftrightarrow>
      list_all (\<lambda>n. NodeValidate n = None) (dg_Nodes (ag_DAG a)) \<and> distinct (nodeIDs (ag_DAG a))
      \<and> validEdges (ag_DAG a) \<and> acyclic (edgeRel (dg_Edges (ag_DAG a)))
      \<and> (\<exists>!e. e \<in> set (nodeIDs (ag_DAG a)) \<and> (\<forall>u. (u, e) \<notin> edgeRel (dg_Edges (ag_DAG a)))))
    \<and> (if fst (Compile now a) = None
       then snd (Compile now a) = a\<lparr>ag_Status := AgentStatusCompiled, ag_UpdatedAt := now\<rparr>
       else snd (Compile now a) = a)"
proof -
  let ?d = "ag_DAG a"
  have c: "fst (Compile now a) = None \<longleftrightarrow> DAGValidate ?d = None"
    by (simp add: Compile_def split: option.splits)
  have t: "(\<exists>order. TopoSort ?d = Inr order) \<longleftrightarrow> validEdges ?d \<and> acyclic (edgeRel (dg_Edges ?d))"
    if "distinct (nodeIDs ?d)"
  proof (cases "validEdges ?d")
    case True
    then show ?thesis using TopoSort_cases [OF assms that True] by auto
  next
    case False
    then show ?thesis using checkEdges_None [of "nodeIDs ?d" "dg_Edges ?d"]
      by (auto simp: TopoSort_def validEdges_def split: option.splits)
  qed
  have v: "DAGValidate ?d = None \<longleftrightarrow>
      (list_all (\<lambda>n. NodeValidate n = None) (dg_Nodes ?d) \<and> distinct (nodeIDs ?d))
      \<and> (\<exists>order. TopoSort ?d = Inr order) \<and> (\<exists>e. entryNode ?d = Inr e)"
    using validateNodes_None [of "[]" "dg_Nodes ?d"]
    by (auto simp: DAGValidate_def nodeIDs_def split: option.splits sum.splits)
  have r: "if fst (Compile now a) = None
       then snd (Compile now a) = a\<lparr>ag_Status := AgentStatusCompiled, ag_UpdatedAt := now\<rparr>
       else snd (Compile now a) = a"
    by (simp add: Compile_def split: option.splits)
  have iff: "fst (Compile now a) = None \<longleftrightarrow>
      list_all (\<lambda>n. NodeValidate n = None) (dg_Nodes ?d) \<and> distinct (nodeIDs ?d)
      \<and> validEdges ?d \<and> acyclic (edgeRel (dg_Edges ?d))
      \<and> (\<exists>!e. e \<in> set (nodeIDs ?d) \<and> (\<forall>u. (u, e) \<notin> edgeRel (dg_Edges ?d)))"
  proof (cases "distinct (nodeIDs ?d) \<and> validEdges ?d")
    case True
    then show ?thesis unfolding c v by (simp only: t entryNode_Inr simp_thms)
  next
    case False
    then show ?thesis unfolding c v by (cases "distinct (nodeIDs ?d)") (simp_all add: t)
  qed
  show ?thesis using iff r by (rule conjI)
qed

definition demoAgent :: Agent where
  "demoAgent = \<lparr>ag_ID = ''ag'', ag_TenantID = ''acme'', ag_Name = ''x'', ag_Description = [], ag_DAG = demoDag,
     ag_Status = AgentStatusDraft, ag_CreatedBy = [], ag_CreatedAt = 0, ag_UpdatedAt = 0\<rparr>"

lemma compile_accepts_iff_witness: "\<exists>!e. e \<in> set (nodeIDs demoDag) \<and> (\<forall>u. (u, e) \<notin> edgeRel (dg_Edges demoDag))"
proof -
  have "validateNodes [] (dg_Nodes demoDag) = None" and "entryNode demoDag = Inr ''c''"
    by (simp_all add: demoDag_def demoNode_def NodeValidate_def entryNode_def nodeIDs_def countIn_def)
  then have "fst (Compile 1 demoAgent) = None"
    by (simp add: Compile_def demoAgent_def DAGValidate_def demoDag_sorted)
  then show ?thesis
    using compile_accepts_iff [of demoAgent 1] demoDag_ok by (simp add: demoAgent_def)
qed

end
