(* ===== verification/Utf8.thy ===== *)
theory Utf8
  imports Prelude
begin

text \<open>
  Runes of a Go string: \<^verbatim>\<open>range\<close> over a string and \<^verbatim>\<open>[]rune(s)\<close> decode UTF-8, a byte that
  starts no valid sequence gives U+FFFD and is one byte wide; \<^verbatim>\<open>string(r)\<close> encodes.  Also the searches of
  the \<^verbatim>\<open>strings\<close> package.
\<close>

section \<open>Decoding and encoding\<close>

definition RuneError :: nat where "RuneError = 0xFFFD"

definition inRange :: "nat \<Rightarrow> nat \<Rightarrow> char \<Rightarrow> bool" where
  "inRange lo hi c = (lo \<le> of_char c \<and> of_char c \<le> hi)"

text \<open>The rune at the head of a string and its width.\<close>

fun decode1 :: "string \<Rightarrow> nat \<times> nat" where
  "decode1 [] = (RuneError, 0)"
| "decode1 (c # s) =
     (let b = of_char c :: nat in
      if b < 0x80 then (b, 1)
      else if b < 0xC2 \<or> 0xF4 < b then (RuneError, 1)
      else if b < 0xE0 then
        (case s of
           d # _ \<Rightarrow> if inRange 0x80 0xBF d then ((b - 0xC0) * 64 + (of_char d - 0x80), 2) else (RuneError, 1)
         | [] \<Rightarrow> (RuneError, 1))
      else if b < 0xF0 then
        (case s of
           d # e # _ \<Rightarrow>
             if inRange (if b = 0xE0 then 0xA0 else 0x80) (if b = 0xED then 0x9F else 0xBF) d \<and> inRange 0x80 0xBF e
             then ((b - 0xE0) * 4096 + (of_char d - 0x80) * 64 + (of_char e - 0x80), 3)
             else (RuneError, 1)
         | _ \<Rightarrow> (RuneError, 1))
      else
        (case s of
           d # e # f # _ \<Rightarrow>
             if inRange (if b = 0xF0 then 0x90 else 0x80) (if b = 0xF4 then 0x8F else 0xBF) d \<and> inRange 0x80 0xBF e
                \<and> inRange 0x80 0xBF f
             then ((b - 0xF0) * 262144 + (of_char d - 0x80) * 4096 + (of_char e - 0x80) * 64 + (of_char f - 0x80), 4)
             else (RuneError, 1)
         | _ \<Rightarrow> (RuneError, 1)))"

lemma decode1_width: "s \<noteq> [] \<Longrightarrow> 1 \<le> snd (decode1 s)"
  by (cases s) (auto simp: Let_def split: list.splits)

function runes :: "string \<Rightarrow> nat list" where
  "runes [] = []"
| "runes (c # s) = fst (decode1 (c # s)) # runes (drop (snd (decode1 (c # s)) - 1) s)"
  by pat_completeness auto
termination by (relation "measure length") auto

definition encode1 :: "nat \<Rightarrow> string" where
  "encode1 r0 =
     (let r = (if 0x10FFFF < r0 \<or> (0xD800 \<le> r0 \<and> r0 \<le> 0xDFFF) then RuneError else r0) in
      if r < 0x80 then [char_of r]
      else if r < 0x800 then [char_of (0xC0 + r div 64), char_of (0x80 + r mod 64)]
      else if r < 0x10000 then
        [char_of (0xE0 + r div 4096), char_of (0x80 + r div 64 mod 64), char_of (0x80 + r mod 64)]
      else [char_of (0xF0 + r div 262144), char_of (0x80 + r div 4096 mod 64),
            char_of (0x80 + r div 64 mod 64), char_of (0x80 + r mod 64)])"

definition encode :: "nat list \<Rightarrow> string" where
  "encode rs = concat (map encode1 rs)"

lemma runes_length: "length (runes s) \<le> length s"
  by (induction s rule: runes.induct) auto

lemma encode_append [simp]: "encode (xs @ ys) = encode xs @ encode ys"
  by (simp add: encode_def)

definition validRune :: "nat \<Rightarrow> bool" where
  "validRune r = (r \<le> 0x10FFFF \<and> \<not> (0xD800 \<le> r \<and> r \<le> 0xDFFF))"

section \<open>Searching\<close>

fun prefixOf :: "string \<Rightarrow> string \<Rightarrow> bool" where
  "prefixOf [] s = True"
| "prefixOf (p # ps) [] = False"
| "prefixOf (p # ps) (c # cs) = (p = c \<and> prefixOf ps cs)"

text \<open>\<^verbatim>\<open>strings.Index\<close>: the first position of a word, None for -1.\<close>

fun indexOf :: "string \<Rightarrow> string \<Rightarrow> nat option" where
  "indexOf [] w = (if w = [] then Some 0 else None)"
| "indexOf (c # s) w = (if prefixOf w (c # s) then Some 0 else map_option Suc (indexOf s w))"

text \<open>\<^verbatim>\<open>strings.LastIndex\<close> for a word that is not empty.\<close>

fun lastIndexOf :: "string \<Rightarrow> string \<Rightarrow> nat option" where
  "lastIndexOf [] w = None"
| "lastIndexOf (c # s) w =
     (case lastIndexOf s w of
        Some i \<Rightarrow> Some (Suc i)
      | None \<Rightarrow> if prefixOf w (c # s) then Some 0 else None)"

lemma prefixOf_iff: "prefixOf p s \<longleftrightarrow> (\<exists>t. s = p @ t)"
  by (induction p s rule: prefixOf.induct) auto

lemma indexOf_Some:
  "indexOf s w = Some i \<Longrightarrow> \<exists>t. s = take i s @ w @ t \<and> i + length w \<le> length s"
proof (induction s w arbitrary: i rule: indexOf.induct)
  case (2 c s w)
  show ?case
  proof (cases "prefixOf w (c # s)")
    case True
    then obtain t where "c # s = w @ t" by (auto simp: prefixOf_iff)
    moreover have "i = 0" using 2(2) True by simp
    ultimately show ?thesis by (metis append_self_conv2 le_add1 length_append add_0 take0)
  next
    case False
    then obtain j where j: "indexOf s w = Some j" "i = Suc j" using 2(2) by auto
    then show ?thesis using 2(1) [OF False j(1)] by auto
  qed
qed (auto split: if_splits)

lemma indexOf_None: "indexOf s w = None \<Longrightarrow> s \<noteq> u @ w @ v"
proof (induction s w arbitrary: u rule: indexOf.induct)
  case (2 c s w)
  then have a: "\<not> prefixOf w (c # s)" and b: "indexOf s w = None" by (auto split: if_splits)
  show ?case
  proof (cases u)
    case Nil
    then show ?thesis using a by (auto simp: prefixOf_iff)
  next
    case (Cons d u')
    then show ?thesis using 2(1) [OF a b, of u'] by auto
  qed
qed (auto split: if_splits)

end
