(* ===== verification/LlmChat.thy ===== *)
theory LlmChat
  imports Utf8
begin

text \<open>
  \<^verbatim>\<open>domain/llm/chat.go\<close>: chat requests and their validation, usage, responses, and the token
  estimate by runes.
\<close>

definition RoleSystem :: string where "RoleSystem = ''system''"
definition RoleUser :: string where "RoleUser = ''user''"
definition RoleAssistant :: string where "RoleAssistant = ''assistant''"
definition RoleTool :: string where "RoleTool = ''tool''"

datatype LlmError = ErrNoMessages | ErrInvalidRole | ErrEmptyModel | ErrInvalidTemperature
  | ErrInvalidTopP | ErrInvalidMaxTokens
  | ErrEmptyTemplate | ErrMissingVariable | ErrUnclosedPlaceholder | ErrNoVersion
  | ErrVersionNotFound | ErrInvalidWeight
  | ErrNoBackend | ErrNoHealthyBackend | ErrModelNotFound
  | ErrEmptyDocument | ErrInvalidChunkSize | ErrInvalidOverlap | ErrDimensionMismatch

record Message =
  msg_Role :: string
  msg_Content :: string
  msg_Name :: string

definition ValidRole :: "string \<Rightarrow> bool" where
  "ValidRole role = (role = RoleSystem \<or> role = RoleUser \<or> role = RoleAssistant \<or> role = RoleTool)"

record ChatRequest =
  cr_Model :: string
  cr_Messages :: "Message list"
  cr_Temperature :: f64
  cr_TopP :: f64
  cr_MaxTokens :: int
  cr_Stream :: bool
  cr_Stop :: "string list"
  cr_StreamOptions :: "bool option"
  cr_User :: string

definition ChatValidate :: "ChatRequest \<Rightarrow> LlmError option" where
  "ChatValidate r =
     (if TrimSpace (cr_Model r) = [] then Some ErrEmptyModel
      else if cr_Messages r = [] then Some ErrNoMessages
      else if list_ex (\<lambda>m. \<not> ValidRole (msg_Role m)) (cr_Messages r) then Some ErrInvalidRole
      else if \<not> feq (cr_Temperature r) (Fin 0) \<and> (flt (cr_Temperature r) (Fin 0) \<or> flt (Fin 2) (cr_Temperature r))
      then Some ErrInvalidTemperature
      else if \<not> feq (cr_TopP r) (Fin 0) \<and> (fle (cr_TopP r) (Fin 0) \<or> flt (Fin 1) (cr_TopP r))
      then Some ErrInvalidTopP
      else if cr_MaxTokens r < 0 then Some ErrInvalidMaxTokens
      else None)"

fun promptLoop :: "bool \<Rightarrow> Message list \<Rightarrow> string" where
  "promptLoop isFirst [] = []"
| "promptLoop isFirst (m # ms) =
     (if isFirst then [] else [char_of (10 :: nat)]) @ msg_Role m @ '': '' @ msg_Content m @ promptLoop False ms"

definition Prompt :: "ChatRequest \<Rightarrow> string" where
  "Prompt r = promptLoop True (cr_Messages r)"

record Usage =
  us_Prompt :: int
  us_Completion :: int
  us_Total :: int

definition UsageAdd :: "Usage \<Rightarrow> Usage \<Rightarrow> Usage" where
  "UsageAdd u v = \<lparr>us_Prompt = i64 (us_Prompt u + us_Prompt v),
     us_Completion = i64 (us_Completion u + us_Completion v), us_Total = i64 (us_Total u + us_Total v)\<rparr>"

definition UsageNormalize :: "Usage \<Rightarrow> Usage" where
  "UsageNormalize u = (if us_Total u = 0 then u\<lparr>us_Total := i64 (us_Prompt u + us_Completion u)\<rparr> else u)"

record Choice =
  ch_Index :: int
  ch_Message :: Message
  ch_FinishReason :: string

record ChatResponse =
  rp_ID :: string
  rp_Model :: string
  rp_Choices :: "Choice list"
  rp_Usage :: Usage
  rp_Created :: int

definition ResponseText :: "ChatResponse \<Rightarrow> string" where
  "ResponseText r = (case rp_Choices r of [] \<Rightarrow> [] | c # _ \<Rightarrow> msg_Content (ch_Message c))"

record EmbeddingRequest =
  er_Model :: string
  er_Input :: "string list"
  er_User :: string

definition EmbeddingValidate :: "EmbeddingRequest \<Rightarrow> LlmError option" where
  "EmbeddingValidate r =
     (if TrimSpace (er_Model r) = [] then Some ErrEmptyModel
      else if er_Input r = [] then Some ErrNoMessages else None)"

definition isCJK :: "nat \<Rightarrow> bool" where
  "isCJK r = ((0x4E00 \<le> r \<and> r \<le> 0x9FFF) \<or> (0x3400 \<le> r \<and> r \<le> 0x4DBF) \<or> (0x3040 \<le> r \<and> r \<le> 0x30FF)
     \<or> (0xAC00 \<le> r \<and> r \<le> 0xD7AF))"

text \<open>The counters stay below three times the length of the string; they are natural numbers here.\<close>

primrec tokenLoop :: "nat \<Rightarrow> nat \<Rightarrow> nat list \<Rightarrow> nat \<times> nat" where
  "tokenLoop cjk other [] = (cjk, other)"
| "tokenLoop cjk other (r # rs) =
     (if isCJK r then tokenLoop (cjk + 1) other rs else tokenLoop cjk (other + length (encode1 r)) rs)"

definition EstimateTokens :: "string \<Rightarrow> nat" where
  "EstimateTokens s =
     (if s = [] then 0
      else let (cjk, other) = tokenLoop 0 0 (runes s); est = cjk + other div 4 in
        if est = 0 then 1 else est)"

lemma tokenLoop_eq:
  "tokenLoop c b rs = (c + length (filter isCJK rs), b + sum_list (map (length \<circ> encode1) (filter (\<lambda>r. \<not> isCJK r) rs)))"
  by (induction rs arbitrary: c b) auto

lemma encode1_length: "1 \<le> length (encode1 r) \<and> length (encode1 r) \<le> 4"
  by (simp add: encode1_def Let_def)

lemma EstimateTokens_bounds:
  "s \<noteq> [] \<Longrightarrow> 1 \<le> EstimateTokens s \<and> EstimateTokens s \<le> length s"
proof -
  assume s: "s \<noteq> []"
  let ?rs = "runes s" and ?p = "isCJK"
  have len: "length ?rs = length (filter ?p ?rs) + length (filter (\<lambda>r. \<not> ?p r) ?rs)"
    by (rule sum_length_filter_compl [symmetric])
  have "sum_list (map (length \<circ> encode1) xs) \<le> 4 * length xs" for xs
    using encode1_length by (induction xs) (auto intro: add_mono)
  then have "sum_list (map (length \<circ> encode1) (filter (\<lambda>r. \<not> ?p r) ?rs)) div 4 \<le> length (filter (\<lambda>r. \<not> ?p r) ?rs)"
    by (metis div_le_mono nonzero_mult_div_cancel_left zero_neq_numeral)
  then have "length (filter ?p ?rs) + sum_list (map (length \<circ> encode1) (filter (\<lambda>r. \<not> ?p r) ?rs)) div 4 \<le> length s"
    using len runes_length [of s] by linarith
  then show ?thesis using s by (auto simp: EstimateTokens_def tokenLoop_eq Let_def Suc_le_eq)
qed

end
