(* ===== verification/LlmRoute.thy ===== *)
theory LlmRoute
  imports LlmChat
begin

text \<open>
  \<^verbatim>\<open>domain/llm/route.go\<close>, the route table in memory, and \<^verbatim>\<open>app/llmgateway/routing.go\<close>, the route
  table over the repository: health, and the order in which the backends of a model are tried.
  The mutex makes each operation atomic.
\<close>

section \<open>The table in memory\<close>

datatype Strategy = StrategyPriority | StrategyRoundRobin | StrategyWeighted | NoStrategy | OtherStrategy string

record Backend =
  bk_Name :: string
  bk_Endpoint :: string
  bk_Weight :: int
  bk_Healthy :: bool
  bk_ServiceID :: string

record Route =
  ro_Model :: string
  ro_Strategy :: Strategy
  ro_Backends :: "Backend list"

record RouteTable =
  rt_routes :: "Route list"
  rt_cursor :: "string \<Rightarrow> nat"

definition NewRouteTable :: RouteTable where
  "NewRouteTable = \<lparr>rt_routes = [], rt_cursor = (\<lambda>_. 0)\<rparr>"

definition RouteUpsert :: "Route \<Rightarrow> RouteTable \<Rightarrow> LlmError option \<times> RouteTable" where
  "RouteUpsert r t =
     (if TrimSpace (ro_Model r) = [] then (Some ErrEmptyModel, t)
      else if ro_Backends r = [] then (Some ErrNoBackend, t)
      else let r = (if ro_Strategy r = NoStrategy then r\<lparr>ro_Strategy := StrategyPriority\<rparr> else r)
           in (None, t\<lparr>rt_routes := tupsert ro_Model r (rt_routes t)\<rparr>))"

definition RouteRemove :: "string \<Rightarrow> RouteTable \<Rightarrow> RouteTable" where
  "RouteRemove model t = t\<lparr>rt_routes := tdelete ro_Model model (rt_routes t), rt_cursor := (rt_cursor t)(model := 0)\<rparr>"

definition RouteGet :: "string \<Rightarrow> RouteTable \<Rightarrow> Route option" where
  "RouteGet model t = tfind ro_Model (rt_routes t) model"

definition RouteList :: "RouteTable \<Rightarrow> Route list" where
  "RouteList t = sort_key ro_Model (rt_routes t)"

definition RouteModels :: "RouteTable \<Rightarrow> string list" where
  "RouteModels t = sort (map ro_Model (rt_routes t))"

primrec setHealthLoop :: "string \<Rightarrow> bool \<Rightarrow> Backend list \<Rightarrow> Backend list option" where
  "setHealthLoop backend healthy [] = None"
| "setHealthLoop backend healthy (b # bs) =
     (if bk_Name b = backend then Some (b\<lparr>bk_Healthy := healthy\<rparr> # bs)
      else map_option ((#) b) (setHealthLoop backend healthy bs))"

definition SetHealth :: "string \<Rightarrow> string \<Rightarrow> bool \<Rightarrow> RouteTable \<Rightarrow> bool \<times> RouteTable" where
  "SetHealth model backend healthy t =
     (case tfind ro_Model (rt_routes t) model of
        None \<Rightarrow> (False, t)
      | Some r \<Rightarrow> (case setHealthLoop backend healthy (ro_Backends r) of
          None \<Rightarrow> (False, t)
        | Some bs \<Rightarrow> (True, t\<lparr>rt_routes := tsave ro_Model (r\<lparr>ro_Backends := bs\<rparr>) (rt_routes t)\<rparr>)))"

definition byWeight :: "Backend list \<Rightarrow> Backend list" where
  "byWeight = sort_key (\<lambda>b. (- bk_Weight b, bk_Name b))"

definition pickLocked :: "Route \<Rightarrow> RouteTable \<Rightarrow> (LlmError + Backend list) \<times> RouteTable" where
  "pickLocked r t =
     (let healthy = filter bk_Healthy (ro_Backends r) in
      if healthy = [] then (Inl ErrNoHealthyBackend, t)
      else case ro_Strategy r of
        StrategyRoundRobin \<Rightarrow>
          let n = length healthy; start = rt_cursor t (ro_Model r) mod n in
          (Inr (drop start healthy @ take start healthy),
           t\<lparr>rt_cursor := (rt_cursor t)(ro_Model r := (start + 1) mod n)\<rparr>)
      | _ \<Rightarrow> (Inr (byWeight healthy), t))"

definition Pick :: "string \<Rightarrow> RouteTable \<Rightarrow> (LlmError + Backend list) \<times> RouteTable" where
  "Pick model t =
     (case tfind ro_Model (rt_routes t) model of
        None \<Rightarrow> (Inl ErrModelNotFound, t)
      | Some r \<Rightarrow> pickLocked r t)"

interpretation routeRepo: repository "tunique ro_Model" ro_Model "tfind ro_Model" "tsave ro_Model" tadd "tdelete ro_Model"
  by (rule table_repository)

section \<open>The table over the repository\<close>

text \<open>\<^term>\<open>routesOf\<close> is what the repository lists for a tenant, None on an error.\<close>

definition fallbackTenant :: string where "fallbackTenant = ''default''"

record RepoTable =
  rp_healthy :: "string \<Rightarrow> bool option"
  rp_cursor :: "string \<Rightarrow> nat"

definition backendKey :: "string \<Rightarrow> string \<Rightarrow> string" where
  "backendKey model name = model @ ''/'' @ name"

definition RepoSetHealth :: "string \<Rightarrow> string \<Rightarrow> bool \<Rightarrow> RepoTable \<Rightarrow> bool \<times> RepoTable" where
  "RepoSetHealth model backend healthy t =
     (let k = backendKey model backend in
      if rp_healthy t k = None then (False, t)
      else (True, t\<lparr>rp_healthy := (rp_healthy t)(k := Some healthy)\<rparr>))"

definition lookupRoute :: "(string \<Rightarrow> Route list option) \<Rightarrow> string \<Rightarrow> string \<Rightarrow> Route option" where
  "lookupRoute routesOf tenantID model =
     (let candidates = tenantID # (if tenantID \<noteq> fallbackTenant then [fallbackTenant] else []);
          hit = (\<lambda>tid. if tid = [] then None
                       else case routesOf tid of
                         None \<Rightarrow> None
                       | Some routes \<Rightarrow> List.find (\<lambda>r. ro_Model r = model) routes) in
      case candidates of
        [a] \<Rightarrow> hit a
      | a # b # _ \<Rightarrow> (case hit a of Some r \<Rightarrow> Some r | None \<Rightarrow> hit b)
      | [] \<Rightarrow> None)"

primrec healthyLoop ::
    "string \<Rightarrow> (string \<Rightarrow> bool option) \<Rightarrow> Backend list \<Rightarrow> Backend list \<times> (string \<Rightarrow> bool option)" where
  "healthyLoop model h [] = ([], h)"
| "healthyLoop model h (b # bs) =
     (let k = backendKey model (bk_Name b) in
      if h k = Some False then healthyLoop model h bs
      else let h = (if h k = None then h(k := Some True) else h);
               (rest, h') = healthyLoop model h bs
           in (b\<lparr>bk_Healthy := True\<rparr> # rest, h'))"

definition clampWeight :: "Backend \<Rightarrow> int" where
  "clampWeight b = (if bk_Weight b < 1 then 1 else bk_Weight b)"

fun primaryLoop :: "int \<Rightarrow> nat \<Rightarrow> Backend list \<Rightarrow> nat" where
  "primaryLoop pick i [] = 0"
| "primaryLoop pick i (b # bs) =
     (let pick = i64 (pick - clampWeight b) in if pick < 0 then i else primaryLoop pick (Suc i) bs)"

text \<open>\<^term>\<open>rnd total\<close> is the outcome of \<^verbatim>\<open>rand.Intn(total)\<close>.\<close>

definition orderBackends :: "(int \<Rightarrow> int) \<Rightarrow> Strategy \<Rightarrow> Backend list \<Rightarrow> Backend list" where
  "orderBackends rnd strategy healthy =
     (if strategy = StrategyWeighted then
        (let total = sum64 0 (map clampWeight healthy) in
         if total \<le> 0 then byWeight healthy
         else let primary = primaryLoop (rnd total) 0 healthy in
           healthy ! primary # byWeight (take primary healthy @ drop (Suc primary) healthy))
      else byWeight healthy)"

definition PickForTenant ::
    "(string \<Rightarrow> Route list option) \<Rightarrow> (int \<Rightarrow> int) \<Rightarrow> string \<Rightarrow> string \<Rightarrow> RepoTable
      \<Rightarrow> (LlmError + Backend list) \<times> RepoTable" where
  "PickForTenant routesOf rnd tenantID model t =
     (case lookupRoute routesOf tenantID model of
        None \<Rightarrow> (Inl ErrModelNotFound, t)
      | Some r \<Rightarrow>
         let (healthy, h) = healthyLoop model (rp_healthy t) (ro_Backends r);
             t = t\<lparr>rp_healthy := h\<rparr> in
         if healthy = [] then (Inl ErrNoHealthyBackend, t)
         else let strategy = (if ro_Strategy r = NoStrategy then StrategyPriority else ro_Strategy r) in
           if strategy = StrategyRoundRobin then
             (let n = length healthy; start = rp_cursor t model mod n in
              (Inr (drop start healthy @ take start healthy),
               t\<lparr>rp_cursor := (rp_cursor t)(model := (start + 1) mod n)\<rparr>))
           else (Inr (orderBackends rnd strategy healthy), t))"

section \<open>Order of the backends\<close>

lemma byWeight_mset [simp]: "mset (byWeight bs) = mset bs"
  by (simp add: byWeight_def)

lemma byWeight_sorted: "sorted (map (\<lambda>b. (- bk_Weight b, bk_Name b)) (byWeight bs))"
  unfolding byWeight_def by (rule sorted_sort_key)

lemma rotate_mset: "mset (drop n xs @ take n xs) = mset xs"
  by (metis add.commute append_take_drop_id mset_append)

lemma healthyLoop_perm:
  "map bk_Name (fst (healthyLoop model h bs)) = map bk_Name (filter (\<lambda>b. h (backendKey model (bk_Name b)) \<noteq> Some False) bs)"
proof (induction bs arbitrary: h)
  case (Cons b bs)
  let ?k = "backendKey model (bk_Name b)"
  have eq: "filter (\<lambda>b. (h(?k := Some True)) (backendKey model (bk_Name b)) \<noteq> Some False) bs
      = filter (\<lambda>b. h (backendKey model (bk_Name b)) \<noteq> Some False) bs" if "h ?k = None"
    using that by (intro filter_cong) auto
  show ?case
  proof (cases "h ?k")
    case None
    show ?thesis using Cons [of "h(?k := Some True)"] eq [OF None] None
      by (simp add: Let_def case_prod_unfold del: fun_upd_apply)
  next
    case (Some v)
    then show ?thesis using Cons [of h] by (auto simp: Let_def case_prod_unfold)
  qed
qed simp

definition prefixW :: "Backend list \<Rightarrow> nat \<Rightarrow> int" where
  "prefixW bs j = sum_list (map clampWeight (take j bs))"

lemma prefixW_simps [simp]:
  "prefixW bs 0 = 0" "prefixW (b # bs) (Suc j) = clampWeight b + prefixW bs j"
  by (simp_all add: prefixW_def)

lemma clampWeight_pos: "1 \<le> clampWeight b"
  by (simp add: clampWeight_def)

lemma prefixW_nonneg: "0 \<le> prefixW bs j"
proof (induction bs arbitrary: j)
  case (Cons b bs)
  have "0 \<le> clampWeight b" using clampWeight_pos [of b] by linarith
  then show ?case using Cons by (cases j) auto
qed (simp add: prefixW_def)

lemma prefixW_Suc: "j < length bs \<Longrightarrow> prefixW bs (Suc j) = prefixW bs j + clampWeight (bs ! j)"
  by (simp add: prefixW_def take_Suc_conv_app_nth)

lemma prefixW_mono: "i \<le> j \<Longrightarrow> prefixW bs i \<le> prefixW bs j"
proof (induction bs arbitrary: i j)
  case (Cons b bs)
  have "0 \<le> clampWeight b" using clampWeight_pos [of b] by linarith
  then show ?case using Cons prefixW_nonneg [of bs "j - 1"] by (cases i; cases j) auto
qed (simp add: prefixW_def)

lemma primaryLoop_bucket:
  assumes "0 \<le> x" and "in_i64 x" and "list_all (\<lambda>b. in_i64 (bk_Weight b)) bs"
    and "x < prefixW bs (length bs)"
  shows "\<exists>j < length bs. primaryLoop x k bs = k + j \<and> prefixW bs j \<le> x \<and> x < prefixW bs (Suc j)"
  using assms
proof (induction bs arbitrary: x k)
  case (Cons b bs)
  have w: "1 \<le> clampWeight b" by (rule clampWeight_pos)
  have "in_i64 (x - clampWeight b)"
    using Cons.prems(1-3) by (auto simp: in_i64_def clampWeight_def)
  then have i: "i64 (x - clampWeight b) = x - clampWeight b" by simp
  show ?case
  proof (cases "x < clampWeight b")
    case True
    then show ?thesis using i Cons.prems(1) by (intro exI [of _ 0]) simp
  next
    case False
    let ?x = "x - clampWeight b"
    have "0 \<le> ?x" "in_i64 ?x" "list_all (\<lambda>b. in_i64 (bk_Weight b)) bs" "?x < prefixW bs (length bs)"
      using False Cons.prems w by (auto simp: in_i64_def)
    from Cons.IH [OF this, of "Suc k"] obtain j where
      "j < length bs" "primaryLoop ?x (Suc k) bs = Suc k + j" "prefixW bs j \<le> ?x" "?x < prefixW bs (Suc j)" by blast
    then show ?thesis using False i by (intro exI [of _ "Suc j"]) simp
  qed
qed simp

lemma primaryLoop_iff:
  assumes "0 \<le> x" and "in_i64 x" and "list_all (\<lambda>b. in_i64 (bk_Weight b)) bs"
    and "x < prefixW bs (length bs)"
  shows "primaryLoop x 0 bs = j \<and> j < length bs \<longleftrightarrow> j < length bs \<and> prefixW bs j \<le> x \<and> x < prefixW bs (Suc j)"
proof -
  obtain i where i: "i < length bs" "primaryLoop x 0 bs = i" "prefixW bs i \<le> x" "x < prefixW bs (Suc i)"
    using primaryLoop_bucket [OF assms, of 0] by auto
  have "i = j" if "prefixW bs j \<le> x" "x < prefixW bs (Suc j)"
    using that i(3,4) prefixW_mono [of "Suc i" j bs] prefixW_mono [of "Suc j" i bs] by linarith
  then show ?thesis using i by blast
qed

lemma primaryLoop_lt:
  assumes "0 \<le> x" and "in_i64 x" and "list_all (\<lambda>b. in_i64 (bk_Weight b)) bs"
    and "x < prefixW bs (length bs)"
  shows "primaryLoop x 0 bs < length bs"
  using primaryLoop_bucket [OF assms, of 0] by auto

section \<open>Runs of picks\<close>

fun pickHeads :: "nat \<Rightarrow> string \<Rightarrow> RouteTable \<Rightarrow> string list" where
  "pickHeads 0 model t = []"
| "pickHeads (Suc k) model t =
     (case Pick model t of
        (Inr (b # _), t') \<Rightarrow> bk_Name b # pickHeads k model t'
      | (_, t') \<Rightarrow> pickHeads k model t')"

lemma pickHeads_round_robin:
  assumes "tfind ro_Model (rt_routes t) model = Some r" and "ro_Strategy r = StrategyRoundRobin"
    and "filter bk_Healthy (ro_Backends r) = hs" and "hs \<noteq> []"
  shows "pickHeads k model t = map (\<lambda>i. bk_Name (hs ! ((rt_cursor t model + i) mod length hs))) [0..<k]"
  using assms
proof (induction k arbitrary: t)
  case (Suc k)
  let ?n = "length hs" and ?s = "rt_cursor t model mod length hs"
  let ?t = "t\<lparr>rt_cursor := (rt_cursor t)(model := (?s + 1) mod ?n)\<rparr>"
  have m: "ro_Model r = model" by (rule tfind_key [OF Suc.prems(1)])
  have sn: "?s < ?n" using Suc.prems(4) by simp
  have p: "Pick model t = (Inr (drop ?s hs @ take ?s hs), ?t)"
    using Suc.prems m by (simp add: Pick_def pickLocked_def Let_def)
  have d: "drop ?s hs = hs ! ?s # drop (Suc ?s) hs" using sn by (simp add: Cons_nth_drop_Suc)
  have IH: "pickHeads k model ?t = map (\<lambda>i. bk_Name (hs ! ((rt_cursor ?t model + i) mod ?n))) [0..<k]"
    using Suc.IH [of ?t] Suc.prems by simp
  have e: "(rt_cursor ?t model + i) mod ?n = (rt_cursor t model + Suc i) mod ?n" for i
  proof -
    have "(rt_cursor ?t model + i) mod ?n = ((?s + 1) mod ?n + i) mod ?n" by simp
    also have "\<dots> = (?s + 1 + i) mod ?n" by (rule mod_add_left_eq)
    also have "\<dots> = (?s + (1 + i)) mod ?n" by (simp only: add.assoc)
    also have "\<dots> = (rt_cursor t model + (1 + i)) mod ?n" by (rule mod_add_left_eq)
    finally show ?thesis by simp
  qed
  have "pickHeads (Suc k) model t = bk_Name (hs ! ?s) # map (\<lambda>i. bk_Name (hs ! ((rt_cursor t model + Suc i) mod ?n))) [0..<k]"
    unfolding pickHeads.simps p d using IH unfolding e by simp
  also have "\<dots> = map (\<lambda>i. bk_Name (hs ! ((rt_cursor t model + i) mod ?n))) (0 # map Suc [0..<k])"
    by (simp add: comp_def)
  also have "0 # map Suc [0..<k] = [0..<Suc k]" by (simp add: map_Suc_upt upt_conv_Cons del: upt_Suc)
  finally show ?case .
qed simp

lemma mod_add_left_imp:
  fixes x y n c :: nat
  assumes "x < n" and "y < n" and "(c + x) mod n = (c + y) mod n"
  shows "x = y"
proof -
  have le: "a = b" if "b \<le> a" "a < n" "(c + a) mod n = (c + b) mod n" for a b
  proof -
    have "n dvd (c + a) - (c + b)" using that(3) mod_eq_dvd_iff_nat [OF add_left_mono [OF that(1)], of c n] by blast
    moreover have "(c + a) - (c + b) = a - b" by arith
    ultimately have "n dvd a - b" by (rule subst [of _ _ "\<lambda>z. n dvd z", rotated])
    then have "a - b = 0" using that(2) nat_dvd_not_less [of "a - b" n] by linarith
    then show ?thesis using that(1) by simp
  qed
  show ?thesis
  proof (cases "x \<le> y")
    case True
    then show ?thesis by (rule le [OF _ assms(2) assms(3) [symmetric], symmetric])
  next
    case False
    then have "y \<le> x" by simp
    then show ?thesis by (rule le [OF _ assms(1) assms(3)])
  qed
qed

lemma rotated_indices: "0 < n \<Longrightarrow> mset (map (\<lambda>i. (c + i) mod n) [0..<n]) = mset [0..<n]"
proof -
  assume n: "0 < n"
  have inj: "inj_on (\<lambda>i. (c + i) mod n) {0..<n}"
  proof (rule inj_onI)
    fix x y assume "x \<in> {0..<n}" "y \<in> {0..<n}" "(c + x) mod n = (c + y) mod n"
    then show "x = y"
      using mod_add_left_imp [of x n y c] by simp
  qed
  have sub: "(\<lambda>i. (c + i) mod n) ` {0..<n} \<subseteq> {0..<n}" using n by auto
  have "(\<lambda>i. (c + i) mod n) ` {0..<n} = {0..<n}"
    using endo_inj_surj [OF _ sub inj] by simp
  then have "set (map (\<lambda>i. (c + i) mod n) [0..<n]) = set [0..<n]" by (simp only: set_map set_upt)
  moreover have "distinct (map (\<lambda>i. (c + i) mod n) [0..<n])"
    using inj by (simp only: distinct_map distinct_upt set_upt simp_thms)
  ultimately show ?thesis by (metis distinct_upt set_eq_iff_mset_eq_distinct)
qed

section \<open>Properties\<close>

text \<open>Choice of backends.  For a known model the table offers exactly its healthy backends, each once;
  outside round robin they come in order of falling weight and then of name; it fails only when
  none is healthy; and choosing changes nothing but the round-robin cursor.\<close>
theorem pick_offers_healthy:
  assumes "tfind ro_Model (rt_routes t) model = Some r"
  shows "(case Pick model t of
      (Inr bs, t') \<Rightarrow> mset bs = mset (filter bk_Healthy (ro_Backends r)) \<and> bs \<noteq> []
        \<and> rt_routes t' = rt_routes t
        \<and> (ro_Strategy r \<noteq> StrategyRoundRobin \<longrightarrow> sorted (map (\<lambda>b. (- bk_Weight b, bk_Name b)) bs) \<and> t' = t)
    | (Inl e, t') \<Rightarrow> e = ErrNoHealthyBackend \<and> filter bk_Healthy (ro_Backends r) = [] \<and> t' = t)"
proof (cases "filter bk_Healthy (ro_Backends r) = []")
  case True
  then show ?thesis by (simp add: Pick_def assms pickLocked_def)
next
  case False
  let ?h = "filter bk_Healthy (ro_Backends r)"
  have ne: "byWeight ?h \<noteq> []" using False by (metis byWeight_mset mset_zero_iff)
  have rot: "mset (drop k ?h) + mset (take k ?h) = mset ?h" for k
    using rotate_mset [of k ?h] by simp
  have nz: "\<not> (drop k ?h = [] \<and> take k ?h = [])" for k
    using False by (metis append_take_drop_id append_Nil)
  show ?thesis
  proof (cases "ro_Strategy r = StrategyRoundRobin")
    case True
    let ?k = "rt_cursor t (ro_Model r) mod length ?h"
    have "Pick model t = (Inr (drop ?k ?h @ take ?k ?h), t\<lparr>rt_cursor := (rt_cursor t)(ro_Model r := (?k + 1) mod length ?h)\<rparr>)"
      using True False by (simp add: Pick_def assms pickLocked_def Let_def)
    then show ?thesis using True rot [of ?k] nz [of ?k] by (simp only: prod.case sum.case mset_append) simp
  next
    case nr: False
    have "Pick model t = (Inr (byWeight ?h), t)"
      using nr False by (cases "ro_Strategy r") (simp_all add: Pick_def assms pickLocked_def Let_def)
    then show ?thesis using ne by (simp add: byWeight_sorted)
  qed
qed

definition demoRoute :: Route where
  "demoRoute = \<lparr>ro_Model = ''m'', ro_Strategy = StrategyRoundRobin,
     ro_Backends = [\<lparr>bk_Name = ''a'', bk_Endpoint = [], bk_Weight = 1, bk_Healthy = True, bk_ServiceID = []\<rparr>,
       \<lparr>bk_Name = ''b'', bk_Endpoint = [], bk_Weight = 3, bk_Healthy = True, bk_ServiceID = []\<rparr>,
       \<lparr>bk_Name = ''c'', bk_Endpoint = [], bk_Weight = 2, bk_Healthy = False, bk_ServiceID = []\<rparr>]\<rparr>"

definition demoTable :: RouteTable where
  "demoTable = snd (RouteUpsert demoRoute NewRouteTable)"

lemma demoTable_find: "tfind ro_Model (rt_routes demoTable) ''m'' = Some demoRoute"
  by (simp add: demoTable_def RouteUpsert_def NewRouteTable_def demoRoute_def TrimSpace_plain plain_def tupsert_def)

lemma pick_offers_healthy_witness:
  "\<exists>bs t'. Pick ''m'' demoTable = (Inr bs, t') \<and> mset bs = mset (filter bk_Healthy (ro_Backends demoRoute))"
  using pick_offers_healthy [OF demoTable_find]
  by (cases "Pick ''m'' demoTable"; cases "fst (Pick ''m'' demoTable)") (auto simp: demoRoute_def)

text \<open>Round robin is fair.  Over as many consecutive picks as a round-robin model has healthy
  backends, whatever the cursor was, each of them is tried first exactly once; the i-th pick starts
  with the backend i places after the cursor.\<close>
theorem round_robin_fair:
  assumes "tfind ro_Model (rt_routes t) model = Some r" and "ro_Strategy r = StrategyRoundRobin"
    and "filter bk_Healthy (ro_Backends r) = hs" and "hs \<noteq> []"
  shows "mset (pickHeads (length hs) model t) = mset (map bk_Name hs)
    \<and> pickHeads k model t = map (\<lambda>i. bk_Name (hs ! ((rt_cursor t model + i) mod length hs))) [0..<k]"
proof -
  let ?n = "length hs"
  have "pickHeads ?n model t = map (\<lambda>i. bk_Name (hs ! i)) (map (\<lambda>i. (rt_cursor t model + i) mod ?n) [0..<?n])"
    unfolding pickHeads_round_robin [OF assms] by simp
  then have "mset (pickHeads ?n model t)
      = image_mset (\<lambda>i. bk_Name (hs ! i)) (mset (map (\<lambda>i. (rt_cursor t model + i) mod ?n) [0..<?n]))"
    by (simp only: mset_map)
  also have "\<dots> = image_mset (\<lambda>i. bk_Name (hs ! i)) (mset [0..<?n])"
    using rotated_indices [of ?n "rt_cursor t model"] assms(4) by simp
  also have "\<dots> = mset (map (\<lambda>i. bk_Name (hs ! i)) [0..<?n])" by (simp only: mset_map)
  also have "map (\<lambda>i. bk_Name (hs ! i)) [0..<?n] = map bk_Name hs"
    by (rule nth_equalityI) simp_all
  finally show ?thesis using pickHeads_round_robin [OF assms] by blast
qed

lemma round_robin_fair_witness: "mset (pickHeads 2 ''m'' demoTable) = {#''a'', ''b''#}"
proof -
  have f: "filter bk_Healthy (ro_Backends demoRoute) = take 2 (ro_Backends demoRoute)"
    by (simp add: demoRoute_def)
  have "mset (pickHeads (length (take 2 (ro_Backends demoRoute))) ''m'' demoTable) = mset (map bk_Name (take 2 (ro_Backends demoRoute)))"
    using round_robin_fair [OF demoTable_find _ f, of 0] by (simp add: demoRoute_def)
  moreover have "length (take 2 (ro_Backends demoRoute)) = 2" by (simp add: demoRoute_def)
  ultimately show ?thesis by (simp only:) (simp add: demoRoute_def)
qed

text \<open>The weighted choice is proportional.  Of the outcomes of the random draw over the total weight, exactly
  as many make the i-th healthy backend the first choice as its weight (at least 1) says, and every
  outcome offers each healthy backend once.  The weights and their total fit a Go int.\<close>
theorem weighted_pick_proportional:
  assumes "list_all (\<lambda>b. in_i64 (bk_Weight b)) hs" and "in_i64 (sum_list (map clampWeight hs))" and "i < length hs"
  shows "card {x. 0 \<le> x \<and> x < sum64 0 (map clampWeight hs) \<and> primaryLoop x 0 hs = i} = nat (clampWeight (hs ! i))
    \<and> (\<forall>x. \<not> (0 \<le> x \<and> x < sum64 0 (map clampWeight hs))
         \<or> mset (orderBackends (\<lambda>_. x) StrategyWeighted hs) = mset hs
           \<and> hd (orderBackends (\<lambda>_. x) StrategyWeighted hs) = hs ! primaryLoop x 0 hs)"
proof
  let ?T = "sum64 0 (map clampWeight hs)"
  have T: "?T = prefixW hs (length hs)" using sum64_exact [OF assms(2)] by (simp add: prefixW_def)
  have inr: "in_i64 x" if "0 \<le> x" "x < ?T" for x
    using that assms(2) by (auto simp: sum64_exact in_i64_def)
  have bnd: "0 \<le> prefixW hs i" "prefixW hs (Suc i) \<le> ?T"
    using prefixW_nonneg prefixW_mono [of "Suc i" "length hs" hs] assms(3) T by simp_all
  have "{x. 0 \<le> x \<and> x < ?T \<and> primaryLoop x 0 hs = i} = {prefixW hs i ..< prefixW hs (Suc i)}"
  proof (rule set_eqI)
    fix x
    show "x \<in> {x. 0 \<le> x \<and> x < ?T \<and> primaryLoop x 0 hs = i} \<longleftrightarrow> x \<in> {prefixW hs i ..< prefixW hs (Suc i)}"
    proof (cases "0 \<le> x \<and> x < ?T")
      case True
      then show ?thesis
        using primaryLoop_iff [where x = x and j = i, OF _ inr assms(1)] assms(3) T by auto
    next
      case False
      then show ?thesis using bnd by auto
    qed
  qed
  then show "card {x. 0 \<le> x \<and> x < ?T \<and> primaryLoop x 0 hs = i} = nat (clampWeight (hs ! i))"
    using prefixW_Suc [OF assms(3)] by simp
  have "mset (orderBackends (\<lambda>_. x) StrategyWeighted hs) = mset hs
      \<and> hd (orderBackends (\<lambda>_. x) StrategyWeighted hs) = hs ! primaryLoop x 0 hs" if "0 \<le> x \<and> x < ?T" for x
  proof -
    let ?p = "primaryLoop x 0 hs"
    have p: "?p < length hs" using primaryLoop_lt [where x = x, OF _ inr assms(1)] that T by simp
    then have "hs = take ?p hs @ hs ! ?p # drop (Suc ?p) hs" by (rule id_take_nth_drop)
    then have "mset (hs ! ?p # take ?p hs @ drop (Suc ?p) hs) = mset hs"
      by (metis mset_append mset.simps(2) union_mset_add_mset_right)
    moreover have "0 < ?T" using that by linarith
    ultimately show ?thesis by (simp add: orderBackends_def Let_def)
  qed
  then show "\<forall>x. \<not> (0 \<le> x \<and> x < ?T) \<or> mset (orderBackends (\<lambda>_. x) StrategyWeighted hs) = mset hs
           \<and> hd (orderBackends (\<lambda>_. x) StrategyWeighted hs) = hs ! primaryLoop x 0 hs" by blast
qed

lemma weighted_pick_proportional_witness:
  "card {x. 0 \<le> x \<and> x < sum64 0 (map clampWeight (ro_Backends demoRoute)) \<and> primaryLoop x 0 (ro_Backends demoRoute) = 1} = 3"
  using weighted_pick_proportional [of "ro_Backends demoRoute" 1]
  by (simp add: demoRoute_def in_i64_def clampWeight_def)

end
