(* ===== verification/LlmPrompt.thy ===== *)
theory LlmPrompt
  imports LlmChat
begin

text \<open>
  \<^verbatim>\<open>domain/llm/prompt.go\<close>: prompt templates with placeholders in double braces, their versions, and the
  weighted choice of a version by a 64-bit seed.
\<close>

unbundle bit_operations_syntax

section \<open>Templates\<close>

record PromptTemplate =
  pt_Content :: string

definition openMark :: string where "openMark = ''{{''"
definition closeMark :: string where "closeMark = ''}}''"

lemma indexOf_bound: "indexOf s w = Some i \<Longrightarrow> i + length w \<le> length s"
  using indexOf_Some by blast

function variablesLoop :: "string \<Rightarrow> LlmError + string list" where
  "variablesLoop rest =
     (case indexOf rest openMark of
        None \<Rightarrow> Inr []
      | Some start \<Rightarrow>
          let rest = drop (start + 2) rest in
          case indexOf rest closeMark of
            None \<Rightarrow> Inl ErrUnclosedPlaceholder
          | Some end' \<Rightarrow>
              let name = TrimSpace (take end' rest) in
              case variablesLoop (drop (end' + 2) rest) of
                Inl e \<Rightarrow> Inl e
              | Inr names \<Rightarrow> Inr (if name \<noteq> [] then name # names else names))"
  by pat_completeness auto
termination
  by (relation "measure length") (auto simp: openMark_def closeMark_def dest!: indexOf_bound)

declare variablesLoop.simps [simp del]

definition Variables :: "PromptTemplate \<Rightarrow> LlmError + string list" where
  "Variables t =
     (case variablesLoop (pt_Content t) of
        Inl e \<Rightarrow> Inl e
      | Inr names \<Rightarrow> Inr (sort (remdups names)))"

text \<open>\<^verbatim>\<open>vars[name]\<close>: an absent key gives the empty string.\<close>

definition valueOf :: "(string \<Rightarrow> string option) \<Rightarrow> string \<Rightarrow> string" where
  "valueOf vars name = (case vars name of Some v \<Rightarrow> v | None \<Rightarrow> [])"

function renderLoop :: "(string \<Rightarrow> string option) \<Rightarrow> string \<Rightarrow> string \<Rightarrow> LlmError + string" where
  "renderLoop vars b rest =
     (case indexOf rest openMark of
        None \<Rightarrow> Inr (b @ rest)
      | Some start \<Rightarrow>
          let b = b @ take start rest; rest = drop (start + 2) rest in
          case indexOf rest closeMark of
            None \<Rightarrow> Inl ErrUnclosedPlaceholder
          | Some end' \<Rightarrow>
              let name = TrimSpace (take end' rest) in
              renderLoop vars (b @ valueOf vars name) (drop (end' + 2) rest))"
  by pat_completeness auto
termination
  by (relation "measure (\<lambda>(vars, b, rest). length rest)") (auto simp: openMark_def closeMark_def dest!: indexOf_bound)

declare renderLoop.simps [simp del]

definition Render :: "(string \<Rightarrow> string option) \<Rightarrow> PromptTemplate \<Rightarrow> LlmError + string" where
  "Render vars t =
     (if TrimSpace (pt_Content t) = [] then Inl ErrEmptyTemplate
      else case Variables t of
        Inl e \<Rightarrow> Inl e
      | Inr names \<Rightarrow>
          if list_ex (\<lambda>n. vars n = None) names then Inl ErrMissingVariable
          else renderLoop vars [] (pt_Content t))"

section \<open>Versions\<close>

record PromptVersion =
  pv_Version :: int
  pv_Content :: string
  pv_Note :: string
  pv_Weight :: int

definition pv_Template :: "PromptVersion \<Rightarrow> PromptTemplate" where
  "pv_Template v = \<lparr>pt_Content = pv_Content v\<rparr>"

record PromptDoc =
  pr_Name :: string
  pr_Versions :: "PromptVersion list"
  pr_ActiveVersion :: int

definition nextVersion :: "PromptVersion list \<Rightarrow> int" where
  "nextVersion vs = foldl (\<lambda>next v. if pv_Version v \<ge> next then i64 (pv_Version v + 1) else next) 1 vs"

definition AddVersion :: "string \<Rightarrow> string \<Rightarrow> PromptDoc \<Rightarrow> (LlmError + PromptVersion) \<times> PromptDoc" where
  "AddVersion content note p =
     (if TrimSpace content = [] then (Inl ErrEmptyTemplate, p)
      else case Variables \<lparr>pt_Content = content\<rparr> of
        Inl e \<Rightarrow> (Inl e, p)
      | Inr _ \<Rightarrow>
          let nv = \<lparr>pv_Version = nextVersion (pr_Versions p), pv_Content = content, pv_Note = note, pv_Weight = 0\<rparr>
          in (Inr nv, p\<lparr>pr_Versions := pr_Versions p @ [nv]\<rparr>))"

definition Version :: "int \<Rightarrow> PromptDoc \<Rightarrow> LlmError + PromptVersion" where
  "Version n p =
     (case List.find (\<lambda>v. pv_Version v = n) (pr_Versions p) of
        Some v \<Rightarrow> Inr v
      | None \<Rightarrow> Inl ErrVersionNotFound)"

definition later :: "PromptVersion \<Rightarrow> PromptVersion \<Rightarrow> PromptVersion" where
  "later best v = (if pv_Version v > pv_Version best then v else best)"

definition Latest :: "PromptDoc \<Rightarrow> LlmError + PromptVersion" where
  "Latest p =
     (case pr_Versions p of
        [] \<Rightarrow> Inl ErrNoVersion
      | v # vs \<Rightarrow> Inr (foldl later v vs))"

definition ActiveVersionOf :: "PromptDoc \<Rightarrow> LlmError + PromptVersion" where
  "ActiveVersionOf p = (if pr_ActiveVersion p = 0 then Latest p else Version (pr_ActiveVersion p) p)"

definition Activate :: "int \<Rightarrow> PromptDoc \<Rightarrow> LlmError option \<times> PromptDoc" where
  "Activate n p =
     (case Version n p of
        Inl e \<Rightarrow> (Some e, p)
      | Inr _ \<Rightarrow> (None, p\<lparr>pr_ActiveVersion := n\<rparr>))"

definition weightedOf :: "PromptVersion list \<Rightarrow> PromptVersion list" where
  "weightedOf vs = filter (\<lambda>v. pv_Weight v > 0) vs"

fun bucketLoop :: "int \<Rightarrow> int \<Rightarrow> PromptVersion list \<Rightarrow> PromptVersion option" where
  "bucketLoop bucket acc [] = None"
| "bucketLoop bucket acc (v # vs) =
     (let acc = i64 (acc + pv_Weight v) in if bucket < acc then Some v else bucketLoop bucket acc vs)"

text \<open>\<^verbatim>\<open>sort.Slice\<close> is not stable; the versions of a prompt differ, so it has one result.\<close>

definition PickVariant :: "64 word \<Rightarrow> PromptDoc \<Rightarrow> LlmError + PromptVersion" where
  "PickVariant seed p =
     (let weighted = weightedOf (pr_Versions p); total = sum64 0 (map pv_Weight weighted) in
      if total = 0 then ActiveVersionOf p
      else
        let sorted = sort_key pv_Version weighted;
            bucket = i64 (uint (seed mod word_of_int total)) in
        case bucketLoop bucket 0 sorted of
          Some v \<Rightarrow> Inr v
        | None \<Rightarrow> Inr (last sorted))"

fun setWeightLoop :: "int \<Rightarrow> int \<Rightarrow> PromptVersion list \<Rightarrow> PromptVersion list option" where
  "setWeightLoop version weight [] = None"
| "setWeightLoop version weight (v # vs) =
     (if pv_Version v = version then Some (v\<lparr>pv_Weight := weight\<rparr> # vs)
      else map_option ((#) v) (setWeightLoop version weight vs))"

definition SetWeight :: "int \<Rightarrow> int \<Rightarrow> PromptDoc \<Rightarrow> LlmError option \<times> PromptDoc" where
  "SetWeight version weight p =
     (if weight < 0 then (Some ErrInvalidWeight, p)
      else case setWeightLoop version weight (pr_Versions p) of
        None \<Rightarrow> (Some ErrVersionNotFound, p)
      | Some vs \<Rightarrow> (None, p\<lparr>pr_Versions := vs\<rparr>))"

definition hashPrime :: "64 word" where "hashPrime = 1099511628211"

primrec hashLoop :: "64 word \<Rightarrow> string \<Rightarrow> 64 word" where
  "hashLoop h [] = h"
| "hashLoop h (c # s) = hashLoop ((h XOR of_nat (of_char c)) * hashPrime) s"

definition HashSeed :: "string \<Rightarrow> 64 word" where
  "HashSeed s = hashLoop 1469598103934665603 s"

section \<open>Templates as pieces\<close>

text \<open>A template is a list of literals, each followed by a placeholder, and a last literal.\<close>

primrec unparse :: "(string \<times> string) list \<Rightarrow> string \<Rightarrow> string" where
  "unparse [] e = e"
| "unparse (p # ps) e = fst p @ openMark @ snd p @ closeMark @ unparse ps e"

definition cleanBefore :: "string \<Rightarrow> string \<Rightarrow> bool" where
  "cleanBefore s w = (indexOf (s @ w) w = Some (length s))"

definition wellFormed :: "(string \<times> string) list \<Rightarrow> string \<Rightarrow> bool" where
  "wellFormed ps e = (list_all (\<lambda>p. cleanBefore (fst p) openMark \<and> cleanBefore (snd p) closeMark) ps
     \<and> indexOf e openMark = None)"

definition suppliedAll :: "(string \<Rightarrow> string option) \<Rightarrow> (string \<times> string) list \<Rightarrow> bool" where
  "suppliedAll vars ps = list_all (\<lambda>p. TrimSpace (snd p) = [] \<or> vars (TrimSpace (snd p)) \<noteq> None) ps"

primrec fill :: "(string \<Rightarrow> string option) \<Rightarrow> (string \<times> string) list \<Rightarrow> string \<Rightarrow> string" where
  "fill vars [] e = e"
| "fill vars (p # ps) e = fst p @ valueOf vars (TrimSpace (snd p)) @ fill vars ps e"

lemma prefixOf_take: "prefixOf w s \<longleftrightarrow> take (length w) s = w"
  by (induction w s rule: prefixOf.induct) auto

lemma cleanBefore_app: "w \<noteq> [] \<Longrightarrow> indexOf (s @ w @ r) w = Some (length s) \<longleftrightarrow> cleanBefore s w"
proof (induction s)
  case Nil
  then show ?case by (cases w) (simp_all add: cleanBefore_def prefixOf_take)
next
  case (Cons c s)
  have "take (length w) ((c # s @ w) @ r) = take (length w) (c # s @ w)" by (simp add: take_Cons')
  then have "prefixOf w (c # s @ w @ r) = prefixOf w (c # s @ w)" by (simp add: prefixOf_take)
  then show ?case using Cons by (auto simp: cleanBefore_def)
qed

lemma marks [simp]: "openMark \<noteq> []" "closeMark \<noteq> []" "length openMark = 2" "length closeMark = 2"
  by (simp_all add: openMark_def closeMark_def)

lemma indexOf_split:
  assumes "indexOf s w = Some i" and "w \<noteq> []"
  obtains t where "s = take i s @ w @ t" and "cleanBefore (take i s) w" and "i + length w \<le> length s"
    and "drop (i + length w) s = t"
proof -
  obtain t where t: "s = take i s @ w @ t" "i + length w \<le> length s" using indexOf_Some [OF assms(1)] by blast
  have "drop (i + length w) s = t"
    by (subst t(1)) (use t(2) in simp)
  moreover have "cleanBefore (take i s) w"
    using cleanBefore_app [OF assms(2), of "take i s" t] t assms(1) by simp
  ultimately show thesis using that t by blast
qed

lemma drop_marks:
  "drop (length l + 2) (l @ openMark @ x) = x" "drop (length l + 2) (l @ closeMark @ x) = x"
  by (simp_all add: openMark_def closeMark_def)

lemma index_wellFormed:
  assumes "cleanBefore l openMark" and "cleanBefore n closeMark"
  shows "indexOf (l @ openMark @ n @ closeMark @ x) openMark = Some (length l)"
    and "indexOf (n @ closeMark @ x) closeMark = Some (length n)"
  using assms by (simp_all add: cleanBefore_app)

lemma variablesLoop_pieces:
  "wellFormed ps e \<Longrightarrow> variablesLoop (unparse ps e) = Inr (filter (\<lambda>n. n \<noteq> []) (map (TrimSpace \<circ> snd) ps))"
proof (induction ps)
  case Nil
  then show ?case by (subst variablesLoop.simps) (simp add: wellFormed_def)
next
  case (Cons p ps)
  then have c: "cleanBefore (fst p) openMark" "cleanBefore (snd p) closeMark" and w: "wellFormed ps e"
    by (simp_all add: wellFormed_def)
  show ?case using Cons.IH [OF w]
    by (subst variablesLoop.simps)
       (simp only: unparse.simps index_wellFormed [OF c] drop_marks option.case Let_def take_append, simp add: drop_marks comp_def)
qed

lemma renderLoop_pieces:
  "wellFormed ps e \<Longrightarrow> renderLoop vars b (unparse ps e) = Inr (b @ fill vars ps e)"
proof (induction ps arbitrary: b)
  case Nil
  then show ?case by (subst renderLoop.simps) (simp add: wellFormed_def)
next
  case (Cons p ps)
  then have c: "cleanBefore (fst p) openMark" "cleanBefore (snd p) closeMark" and w: "wellFormed ps e"
    by (simp_all add: wellFormed_def)
  show ?case using Cons.IH [OF w]
    by (subst renderLoop.simps)
       (simp only: unparse.simps index_wellFormed [OF c] drop_marks option.case Let_def take_append, simp add: drop_marks)
qed

lemma variablesLoop_Inr:
  "variablesLoop s = Inr names \<Longrightarrow> \<exists>ps e. wellFormed ps e \<and> s = unparse ps e"
proof (induction s arbitrary: names rule: variablesLoop.induct)
  case (1 rest)
  show ?case
  proof (cases "indexOf rest openMark")
    case None
    then have "wellFormed [] rest \<and> rest = unparse [] rest" by (simp add: wellFormed_def)
    then show ?thesis by blast
  next
    case (Some st)
    let ?r = "drop (st + 2) rest"
    obtain en where en: "indexOf ?r closeMark = Some en"
      using 1(2) Some by (subst (asm) variablesLoop.simps) (auto simp: Let_def split: option.splits)
    obtain ns where "variablesLoop (drop (en + 2) ?r) = Inr ns"
      using 1(2) Some en by (subst (asm) variablesLoop.simps) (auto simp: Let_def split: sum.splits)
    from 1(1) [OF Some refl en refl this] obtain ps e where
      pe: "wellFormed ps e" "drop (en + 2) ?r = unparse ps e" by blast
    from indexOf_split [OF Some marks(1)] have a: "rest = take st rest @ openMark @ ?r" "cleanBefore (take st rest) openMark"
      by (metis marks(3))+
    from indexOf_split [OF en marks(2)] have b: "?r = take en ?r @ closeMark @ unparse ps e" "cleanBefore (take en ?r) closeMark"
      by (metis marks(4) pe(2))+
    have "rest = unparse ((take st rest, take en ?r) # ps) e" using a(1) b(1) by simp
    moreover have "wellFormed ((take st rest, take en ?r) # ps) e" using a(2) b(2) pe(1) by (simp add: wellFormed_def)
    ultimately show ?thesis by blast
  qed
qed

section \<open>Lemmas on versions\<close>

lemma nextVersion_fold:
  assumes "list_all (\<lambda>v. pv_Version v < 9223372036854775807) vs" and "n \<le> 9223372036854775807" and "1 \<le> n"
  shows "n \<le> foldl (\<lambda>next v. if pv_Version v \<ge> next then i64 (pv_Version v + 1) else next) n vs
    \<and> list_all (\<lambda>v. pv_Version v < foldl (\<lambda>next v. if pv_Version v \<ge> next then i64 (pv_Version v + 1) else next) n vs) vs"
  using assms
proof (induction vs arbitrary: n)
  case (Cons v vs)
  let ?f = "\<lambda>next v. if pv_Version v \<ge> next then i64 (pv_Version v + 1) else next"
  let ?n = "?f n v"
  have e: "?n = (if pv_Version v \<ge> n then pv_Version v + 1 else n)"
    using Cons.prems by (simp add: in_i64_def)
  have "list_all (\<lambda>v. pv_Version v < 9223372036854775807) vs" "?n \<le> 9223372036854775807" "1 \<le> ?n"
    unfolding e using Cons.prems by auto
  from Cons.IH [OF this] have "?n \<le> foldl ?f ?n vs \<and> list_all (\<lambda>v. pv_Version v < foldl ?f ?n vs) vs" .
  moreover have "n \<le> ?n" "pv_Version v < ?n" unfolding e by auto
  ultimately show ?case unfolding foldl_Cons list.pred_inject(2) by (meson order.trans order.strict_trans2)
qed simp

lemma nextVersion_fresh:
  assumes "list_all (\<lambda>v. pv_Version v < 9223372036854775807) vs"
  shows "1 \<le> nextVersion vs" and "list_all (\<lambda>v. pv_Version v < nextVersion vs) vs"
  using nextVersion_fold [OF assms, of 1] by (simp_all add: nextVersion_def)

lemma foldl_later:
  "foldl later b vs \<in> insert b (set vs) \<and> pv_Version b \<le> pv_Version (foldl later b vs)
   \<and> list_all (\<lambda>v. pv_Version v \<le> pv_Version (foldl later b vs)) vs"
proof (induction vs arbitrary: b)
  case (Cons v vs)
  have "later b v \<in> {b, v}" "pv_Version b \<le> pv_Version (later b v)" "pv_Version v \<le> pv_Version (later b v)"
    by (auto simp: later_def)
  then show ?case using Cons [of "later b v"] by auto
qed simp

lemma find_append: "List.find P (xs @ ys) = (case List.find P xs of Some x \<Rightarrow> Some x | None \<Rightarrow> List.find P ys)"
  by (induction xs) auto

definition versionPrefix :: "PromptVersion list \<Rightarrow> nat \<Rightarrow> int" where
  "versionPrefix vs j = sum_list (map pv_Weight (take j vs))"

lemma versionPrefix_mono:
  assumes "list_all (\<lambda>v. 0 < pv_Weight v) vs" and "i \<le> j"
  shows "versionPrefix vs i \<le> versionPrefix vs j"
  using assms
proof (induction vs arbitrary: i j)
  case (Cons v vs)
  then show ?case
    using Cons.IH [of 0 "j - 1"] by (cases i; cases j) (auto simp: versionPrefix_def)
qed (simp add: versionPrefix_def)

lemma versionPrefix_Suc: "j < length vs \<Longrightarrow> versionPrefix vs (Suc j) = versionPrefix vs j + pv_Weight (vs ! j)"
  by (simp add: versionPrefix_def take_Suc_conv_app_nth)

lemma bucketLoop_hit:
  assumes "list_all (\<lambda>v. 0 < pv_Weight v) vs" and "0 \<le> acc" and "acc + versionPrefix vs (length vs) \<le> 9223372036854775807"
    and "acc \<le> x" and "x < acc + versionPrefix vs (length vs)"
  shows "\<exists>j < length vs. bucketLoop x acc vs = Some (vs ! j) \<and> acc + versionPrefix vs j \<le> x \<and> x < acc + versionPrefix vs (Suc j)"
  using assms
proof (induction vs arbitrary: acc)
  case (Cons v vs)
  have w: "0 < pv_Weight v" and ws: "list_all (\<lambda>v. 0 < pv_Weight v) vs" using Cons.prems(1) by auto
  have p: "0 \<le> versionPrefix vs (length vs)"
    using versionPrefix_mono [OF ws, of 0 "length vs"] by (simp add: versionPrefix_def)
  have s: "versionPrefix (v # vs) (Suc k) = pv_Weight v + versionPrefix vs k" for k by (simp add: versionPrefix_def)
  have i: "i64 (acc + pv_Weight v) = acc + pv_Weight v"
    using Cons.prems(2,3) w p by (simp add: in_i64_def s)
  show ?case
  proof (cases "x < acc + pv_Weight v")
    case True
    then show ?thesis using i Cons.prems(4) by (intro exI [of _ 0]) (simp add: Let_def s, simp add: versionPrefix_def)
  next
    case False
    have "0 \<le> acc + pv_Weight v" "acc + pv_Weight v + versionPrefix vs (length vs) \<le> 9223372036854775807"
      "acc + pv_Weight v \<le> x" "x < acc + pv_Weight v + versionPrefix vs (length vs)"
      using False Cons.prems w by (simp_all add: s)
    from Cons.IH [OF ws this] obtain j where "j < length vs" "bucketLoop x (acc + pv_Weight v) vs = Some (vs ! j)"
      "acc + pv_Weight v + versionPrefix vs j \<le> x" "x < acc + pv_Weight v + versionPrefix vs (Suc j)" by blast
    then show ?thesis using False i by (intro exI [of _ "Suc j"]) (simp add: Let_def s)
  qed
qed (simp add: versionPrefix_def)

lemma seed_bucket:
  assumes "0 < tot" and "in_i64 tot"
  shows "i64 (uint (seed mod (word_of_int tot :: 64 word))) = uint seed mod tot"
proof -
  have t: "uint (word_of_int tot :: 64 word) = tot"
    using assms by (simp add: uint_word_of_int in_i64_def)
  have "uint (seed mod (word_of_int tot :: 64 word)) = uint seed mod tot"
    by (simp add: uint_mod_distrib t)
  moreover have "0 \<le> uint seed mod tot" "uint seed mod tot < tot" using assms(1) by simp_all
  ultimately show ?thesis using assms(2) by (simp add: in_i64_def)
qed

lemma PickVariant_bucket:
  assumes "0 < sum64 0 (map pv_Weight (weightedOf (pr_Versions p)))"
    and "in_i64 (sum_list (map pv_Weight (weightedOf (pr_Versions p))))"
  defines "ws \<equiv> sort_key pv_Version (weightedOf (pr_Versions p))"
    and "T \<equiv> sum64 0 (map pv_Weight (weightedOf (pr_Versions p)))"
  shows "\<exists>j < length ws. PickVariant seed p = Inr (ws ! j) \<and> versionPrefix ws j \<le> uint seed mod T
    \<and> uint seed mod T < versionPrefix ws (Suc j)" and "T = versionPrefix ws (length ws)"
proof -
  have m: "mset (map pv_Weight ws) = mset (map pv_Weight (weightedOf (pr_Versions p)))"
    by (simp add: ws_def)
  have "sum_list (map pv_Weight ws) = sum_list (map pv_Weight (weightedOf (pr_Versions p)))"
    by (metis m sum_mset_sum_list)
  then show T: "T = versionPrefix ws (length ws)"
    using assms(2) by (simp add: T_def versionPrefix_def sum64_exact)
  have inT: "in_i64 T" using assms(2) by (simp add: T_def sum64_exact)
  have pos: "list_all (\<lambda>v. 0 < pv_Weight v) ws"
    by (auto simp: ws_def weightedOf_def list_all_iff)
  have b: "0 \<le> uint seed mod T" "uint seed mod T < T" using assms(1) by (simp_all add: T_def)
  have "0 + versionPrefix ws (length ws) \<le> 9223372036854775807" using inT T by (simp add: in_i64_def)
  from bucketLoop_hit [OF pos _ this, of "uint seed mod T"] b T obtain j where j: "j < length ws"
    "bucketLoop (uint seed mod T) 0 ws = Some (ws ! j)" "versionPrefix ws j \<le> uint seed mod T"
    "uint seed mod T < versionPrefix ws (Suc j)" by auto
  have "PickVariant seed p = Inr (ws ! j)"
    using assms(1) j(2) seed_bucket [OF _ inT, of seed] unfolding T_def [symmetric] ws_def
    by (simp add: PickVariant_def Let_def T_def [symmetric])
  with j show "\<exists>j < length ws. PickVariant seed p = Inr (ws ! j) \<and> versionPrefix ws j \<le> uint seed mod T
    \<and> uint seed mod T < versionPrefix ws (Suc j)" by blast
qed

section \<open>Properties\<close>

text \<open>C9: Rendering.  A prompt renders to a text exactly when it is not blank and splits into literals and closed
  placeholders all of whose (trimmed) names are supplied; the text is then the literals with each placeholder
  replaced by its value.  Values are copied in one pass and never scanned again for placeholders.\<close>
theorem prompt_render_characterised:
  "Render vars t = Inr out \<longleftrightarrow>
     TrimSpace (pt_Content t) \<noteq> []
     \<and> (\<exists>ps e. wellFormed ps e \<and> pt_Content t = unparse ps e \<and> suppliedAll vars ps \<and> out = fill vars ps e)"
proof -
  have sup: "suppliedAll vars ps \<longleftrightarrow> \<not> list_ex (\<lambda>n. vars n = None) (sort (remdups (filter (\<lambda>n. n \<noteq> []) (map (TrimSpace \<circ> snd) ps))))" for ps
    by (auto simp: suppliedAll_def list_ex_iff list_all_iff)
  have iff: "Render vars t = Inr out \<longleftrightarrow> TrimSpace (pt_Content t) \<noteq> [] \<and> suppliedAll vars ps \<and> out = fill vars ps e"
    if "wellFormed ps e" "pt_Content t = unparse ps e" for ps e
    unfolding sup using variablesLoop_pieces [OF that(1)] renderLoop_pieces [OF that(1), of vars "[]"] that(2)
    by (auto simp: Render_def Variables_def)
  have "\<exists>ps e. wellFormed ps e \<and> pt_Content t = unparse ps e" if "Render vars t = Inr out"
    using that variablesLoop_Inr [of "pt_Content t"]
    by (auto simp: Render_def Variables_def split: if_splits sum.splits)
  with iff show ?thesis by blast
qed

text \<open>A new version.  While no version number has reached the largest Go int, adding a version either fails
  and changes nothing or appends one whose number is larger than all the others; it is then found under its
  number and is the latest, and every other number still finds what it found before.\<close>
theorem add_version_fresh:
  assumes "list_all (\<lambda>v. pv_Version v < 9223372036854775807) (pr_Versions p)"
  shows "(case AddVersion content note p of
      (Inl e, p') \<Rightarrow> p' = p \<and> (e = ErrEmptyTemplate \<or> e = ErrUnclosedPlaceholder)
    | (Inr nv, p') \<Rightarrow> list_all (\<lambda>v. pv_Version v < pv_Version nv) (pr_Versions p) \<and> 1 \<le> pv_Version nv
        \<and> Version (pv_Version nv) p' = Inr nv \<and> Latest p' = Inr nv
        \<and> (\<forall>n. n = pv_Version nv \<or> Version n p' = Version n p))"
proof (cases "AddVersion content note p")
  case (Pair r p')
  show ?thesis
  proof (cases r)
    case (Inl e)
    have "variablesLoop s = Inl e' \<Longrightarrow> e' = ErrUnclosedPlaceholder" for s e'
      by (induction s rule: variablesLoop.induct, subst (asm) (2) variablesLoop.simps)
         (auto simp: Let_def split: option.splits sum.splits)
    then show ?thesis using Pair Inl
      by (auto simp: AddVersion_def Let_def Variables_def split: if_splits sum.splits)
  next
    case (Inr nv)
    note fresh = nextVersion_fresh [OF assms]
    have nv: "pv_Version nv = nextVersion (pr_Versions p)" and p': "pr_Versions p' = pr_Versions p @ [nv]"
      using Pair Inr by (auto simp: AddVersion_def Let_def split: if_splits sum.splits)
    have lt: "\<And>v. v \<in> set (pr_Versions p) \<Longrightarrow> pv_Version v < pv_Version nv"
      using fresh(2) nv by (simp add: list_all_iff)
    have none: "List.find (\<lambda>v. pv_Version v = pv_Version nv) (pr_Versions p) = None"
      using lt by (fastforce simp: find_None_iff)
    have "Latest p' = Inr nv"
    proof (cases "pr_Versions p")
      case (Cons v vs)
      have "pv_Version (foldl later v vs) < pv_Version nv" using foldl_later [of v vs] lt Cons by auto
      then show ?thesis by (simp add: Latest_def p' Cons later_def)
    qed (simp add: Latest_def p')
    moreover have "Version n p' = Version n p" if "n \<noteq> pv_Version nv" for n
      using that by (auto simp: Version_def p' find_append split: option.splits)
    ultimately show ?thesis using Pair Inr fresh nv none
      by (auto simp: Version_def p' find_append)
  qed
qed

definition demoPrompt :: PromptDoc where
  "demoPrompt = \<lparr>pr_Name = ''p'', pr_Versions =
     [\<lparr>pv_Version = 2, pv_Content = ''b'', pv_Note = [], pv_Weight = 3\<rparr>,
      \<lparr>pv_Version = 1, pv_Content = ''a'', pv_Note = [], pv_Weight = 1\<rparr>],
     pr_ActiveVersion = 0\<rparr>"

lemma add_version_fresh_witness:
  "pv_Version (projr (fst (AddVersion ''hi'' [] demoPrompt))) = 3
   \<and> Latest (snd (AddVersion ''hi'' [] demoPrompt)) = fst (AddVersion ''hi'' [] demoPrompt)"
proof -
  have n: "nextVersion (pr_Versions demoPrompt) = 3" by (simp add: nextVersion_def demoPrompt_def in_i64_def)
  have v: "Variables \<lparr>pt_Content = ''hi''\<rparr> = Inr []"
    by (simp add: Variables_def variablesLoop.simps [of "''hi''"] openMark_def)
  have t: "TrimSpace ''hi'' = ''hi''" by (simp add: TrimSpace_plain plain_def)
  have a: "fst (AddVersion ''hi'' [] demoPrompt) = Inr \<lparr>pv_Version = 3, pv_Content = ''hi'', pv_Note = [], pv_Weight = 0\<rparr>"
    by (simp add: AddVersion_def t v n Let_def)
  have "list_all (\<lambda>v. pv_Version v < 9223372036854775807) (pr_Versions demoPrompt)" by (simp add: demoPrompt_def)
  from add_version_fresh [OF this, of "''hi''" "[]"] a show ?thesis
    by (auto simp: case_prod_unfold split: prod.splits)
qed

text \<open>Experiments are proportional.  With distinct version numbers and a total weight that fits a Go int, the version
  chosen depends on the seed modulo the total weight only, and exactly as many residues choose a
  version as its weight says.\<close>
theorem pick_variant_proportional:
  assumes "distinct (map pv_Version (pr_Versions p))" and "in_i64 (sum_list (map pv_Weight (weightedOf (pr_Versions p))))"
    and "v \<in> set (pr_Versions p)" and "0 < pv_Weight v"
  shows "card {x. 0 \<le> x \<and> x < sum64 0 (map pv_Weight (weightedOf (pr_Versions p))) \<and> PickVariant (word_of_int x) p = Inr v}
      = nat (pv_Weight v)
    \<and> PickVariant seed p = PickVariant (word_of_int (uint seed mod sum64 0 (map pv_Weight (weightedOf (pr_Versions p))))) p"
proof -
  define ws where "ws = sort_key pv_Version (weightedOf (pr_Versions p))"
  define T where "T = sum64 0 (map pv_Weight (weightedOf (pr_Versions p)))"
  have set: "set ws = set (weightedOf (pr_Versions p))" by (simp add: ws_def)
  have "distinct (weightedOf (pr_Versions p))" using assms(1) by (simp add: weightedOf_def distinct_map)
  then have dist: "distinct ws" by (simp add: ws_def)
  have pos: "list_all (\<lambda>v. 0 < pv_Weight v) ws" using set by (auto simp: weightedOf_def list_all_iff)
  have "v \<in> set ws" using assms(3,4) set by (simp add: weightedOf_def)
  then obtain i where i: "i < length ws" "ws ! i = v" by (auto simp: in_set_conv_nth)
  have Teq: "T = sum_list (map pv_Weight (weightedOf (pr_Versions p)))" using assms(2) by (simp add: T_def sum64_exact)
  have "v \<in> set (weightedOf (pr_Versions p))" using assms(3,4) by (simp add: weightedOf_def)
  then have "pv_Weight v \<le> T"
    unfolding Teq by (intro member_le_sum_list) (auto simp: weightedOf_def)
  then have T0: "0 < T" using assms(4) by linarith
  note bucket = PickVariant_bucket [OF T0 [unfolded T_def] assms(2), folded ws_def T_def]
  have in_T: "in_i64 T" using assms(2) Teq by simp
  have word: "uint (word_of_int x :: 64 word) = x" if "0 \<le> x" "x < T" for x
    using that in_T by (simp add: uint_word_of_int in_i64_def)
  have uniq: "j = k" if "versionPrefix ws j \<le> x" "x < versionPrefix ws (Suc j)"
      "versionPrefix ws k \<le> x" "x < versionPrefix ws (Suc k)" for j k x
    using that versionPrefix_mono [OF pos, of "Suc j" k] versionPrefix_mono [OF pos, of "Suc k" j] by linarith
  have iff: "PickVariant (word_of_int x) p = Inr v \<longleftrightarrow> versionPrefix ws i \<le> x \<and> x < versionPrefix ws (Suc i)"
    if x: "0 \<le> x" "x < T" for x
  proof -
    have m: "uint (word_of_int x :: 64 word) mod T = x" using word [OF x] x by simp
    obtain j where j: "j < length ws" "PickVariant (word_of_int x) p = Inr (ws ! j)"
      "versionPrefix ws j \<le> x" "x < versionPrefix ws (Suc j)" using bucket(1) [of "word_of_int x"] m by auto
    show ?thesis using j i dist uniq [of j x i] by (auto simp: nth_eq_iff_index_eq)
  qed
  have b: "0 \<le> versionPrefix ws i" "versionPrefix ws (Suc i) \<le> T"
    using versionPrefix_mono [OF pos, of 0 i] versionPrefix_mono [OF pos, of "Suc i" "length ws"] i(1) bucket(2)
    by (simp_all add: versionPrefix_def)
  have "{x. 0 \<le> x \<and> x < T \<and> PickVariant (word_of_int x) p = Inr v} = {versionPrefix ws i ..< versionPrefix ws (Suc i)}"
    using iff b by auto
  then have "card {x. 0 \<le> x \<and> x < T \<and> PickVariant (word_of_int x) p = Inr v} = nat (pv_Weight v)"
    using versionPrefix_Suc [OF i(1)] i(2) by simp
  moreover have "PickVariant seed p = PickVariant (word_of_int (uint seed mod T)) p"
  proof -
    have "uint (word_of_int (uint seed mod T) :: 64 word) = uint seed mod T" using word T0 by simp
    then have "seed mod word_of_int T = (word_of_int (uint seed mod T) :: 64 word) mod word_of_int T"
      using word [of "uint seed mod T"] in_T T0
      by (simp add: word_uint_eq_iff uint_mod_distrib uint_word_of_int in_i64_def)
    then show ?thesis by (simp only: PickVariant_def T_def [symmetric] Let_def)
  qed
  ultimately show ?thesis by (simp only: T_def)
qed

lemma pick_variant_proportional_witness:
  "card {x. 0 \<le> x \<and> x < sum64 0 (map pv_Weight (weightedOf (pr_Versions demoPrompt)))
     \<and> PickVariant (word_of_int x) demoPrompt = Inr (hd (pr_Versions demoPrompt))} = 3"
proof -
  have "distinct (map pv_Version (pr_Versions demoPrompt))"
    "in_i64 (sum_list (map pv_Weight (weightedOf (pr_Versions demoPrompt))))"
    "hd (pr_Versions demoPrompt) \<in> set (pr_Versions demoPrompt)" "0 < pv_Weight (hd (pr_Versions demoPrompt))"
    by (simp_all add: demoPrompt_def weightedOf_def in_i64_def)
  from pick_variant_proportional [OF this, of 0] show ?thesis by (simp add: demoPrompt_def)
qed

section \<open>The seed\<close>

lemma hashPrime_cancel: "(x :: 64 word) * hashPrime = y * hashPrime \<Longrightarrow> x = y"
proof -
  assume "x * hashPrime = y * hashPrime"
  then have "x * (hashPrime * 14886173955864302971) = y * (hashPrime * 14886173955864302971)"
    by (simp only: mult.assoc [symmetric])
  moreover have "hashPrime * 14886173955864302971 = 1" by (simp add: hashPrime_def)
  ultimately show ?thesis by simp
qed

lemma hashLoop_append: "hashLoop h (s @ t) = hashLoop (hashLoop h s) t"
  by (induction s arbitrary: h) simp_all

lemma xor_cancel: "(h :: 64 word) XOR x = h XOR y \<Longrightarrow> x = y"
proof -
  assume "h XOR x = h XOR y"
  then have "(h XOR h) XOR x = (h XOR h) XOR y" by (simp only: xor.assoc)
  then show ?thesis by (simp only: xor_self_eq xor.left_neutral)
qed

lemma hashLoop_inj: "hashLoop h s = hashLoop g s \<Longrightarrow> h = g"
proof (induction s arbitrary: h g)
  case (Cons c s)
  from Cons.IH Cons.prems have "(h XOR of_nat (of_char c)) * hashPrime = (g XOR of_nat (of_char c)) * hashPrime"
    by (simp only: hashLoop.simps)
  then have "h XOR of_nat (of_char c) = g XOR of_nat (of_char c)" by (rule hashPrime_cancel)
  then have "of_nat (of_char c) XOR h = of_nat (of_char c) XOR g"
    by (simp only: xor.commute [of _ "of_nat (of_char c)"])
  then show ?case by (rule xor_cancel)
qed simp

lemma char_unat: "unat (of_nat (of_char c) :: 64 word) = of_char c"
proof -
  have l: "(of_char c :: nat) < 256" by simp
  have p: "(256::nat) \<le> 2 ^ 64" by simp
  have n: "LENGTH(64) = 64" by simp
  have "(of_char c :: nat) < 2 ^ 64" by (rule order.strict_trans2 [OF l p])
  then have "(of_char c :: nat) mod 2 ^ 64 = of_char c" by (rule mod_less)
  then show ?thesis unfolding unat_of_nat n .
qed

lemma byte_word_inj: "(of_nat (of_char c) :: 64 word) = of_nat (of_char d) \<Longrightarrow> c = d"
proof -
  assume e: "(of_nat (of_char c) :: 64 word) = of_nat (of_char d)"
  have "(of_char c :: nat) = of_char d" using arg_cong [OF e, of unat] unfolding char_unat .
  then show ?thesis by simp
qed

text \<open>The seed separates.  Two keys that differ in exactly one byte, wherever it stands, have different seeds: no step
  of the hash loses information.\<close>
theorem hash_seed_separates:
  "HashSeed (s @ [c] @ t) = HashSeed (s @ [d] @ t) \<longleftrightarrow> c = d"
proof -
  have "c = d" if "hashLoop h ([c] @ t) = hashLoop h ([d] @ t)" for h
  proof -
    have "(h XOR of_nat (of_char c)) * hashPrime = (h XOR of_nat (of_char d)) * hashPrime"
      by (rule hashLoop_inj [of _ t]) (use that in simp)
    then show ?thesis by (blast dest: hashPrime_cancel xor_cancel byte_word_inj)
  qed
  then show ?thesis by (auto simp: HashSeed_def hashLoop_append)
qed

end
