(* ===== verification/JobDomain.thy ===== *)
theory JobDomain
  imports Prelude
begin

text \<open>
  \<^verbatim>\<open>domain/job\<close>: the job status machine (\<^verbatim>\<open>statemachine.go\<close>), the job entity
  (\<^verbatim>\<open>job.go\<close>), the compute resource (\<^verbatim>\<open>resource.go\<close>) and the memory allocator
  (\<^verbatim>\<open>allocator.go\<close>).  A status is a Go string: the constructors are the declared
  constants, \<^verbatim>\<open>NoStatus\<close> the empty string, \<^verbatim>\<open>OtherStatus\<close> any other one.
\<close>

section \<open>Enumerations\<close>

datatype ResourceType = ResourceTypeGPU | ResourceTypeNPU | ResourceTypeCPU | OtherResourceType string

datatype ResourceStatus = ResourceStatusAvailable | ResourceStatusAllocated
  | ResourceStatusMaintenance | ResourceStatusError | OtherResourceStatus string

datatype JobType = JobTypeTraining | JobTypeInference | JobTypeBatch | OtherJobType string

datatype JobStatus = NoStatus | JobStatusPending | JobStatusRunning | JobStatusPaused
  | JobStatusRetrying | JobStatusCompleted | JobStatusFailed | JobStatusCancelled
  | OtherStatus string

datatype JobState = JobStatePending | JobStateRunning | JobStateCompleted | JobStateFailed
  | JobStateTerminated | JobStateAborted | JobStateTerminating | JobStateAborting
  | JobStateRestarting | JobStateCompleting | OtherState string

section \<open>The status machine\<close>

definition terminalStatuses :: "JobStatus list" where
  "terminalStatuses = [JobStatusCompleted, JobStatusFailed, JobStatusCancelled]"

fun allowedTransitions :: "JobStatus \<Rightarrow> JobStatus list option" where
  "allowedTransitions JobStatusPending = Some
     [JobStatusRunning, JobStatusPaused, JobStatusCompleted, JobStatusFailed, JobStatusCancelled]"
| "allowedTransitions JobStatusRunning = Some
     [JobStatusPaused, JobStatusRetrying, JobStatusCompleted, JobStatusFailed, JobStatusCancelled]"
| "allowedTransitions JobStatusRetrying = Some
     [JobStatusPending, JobStatusRunning, JobStatusFailed, JobStatusCancelled]"
| "allowedTransitions JobStatusPaused = Some
     [JobStatusRunning, JobStatusPending, JobStatusCompleted, JobStatusFailed, JobStatusCancelled]"
| "allowedTransitions _ = None"

definition NormalizeStatus :: "JobStatus \<Rightarrow> JobStatus" where
  "NormalizeStatus s = (if s = NoStatus then JobStatusPending else s)"

definition IsTerminal :: "JobStatus \<Rightarrow> bool" where
  "IsTerminal s = (NormalizeStatus s \<in> set terminalStatuses)"

definition IsActive :: "JobStatus \<Rightarrow> bool" where
  "IsActive s = (\<not> IsTerminal s)"

definition CanTransition :: "JobStatus \<Rightarrow> JobStatus \<Rightarrow> bool" where
  "CanTransition from0 to0 =
     (let from = NormalizeStatus from0; to = NormalizeStatus to0 in
      if from = to then True
      else case allowedTransitions from of
             None \<Rightarrow> False
           | Some next \<Rightarrow> to \<in> set next)"

fun MapVolcanoState :: "JobState \<Rightarrow> JobStatus option" where
  "MapVolcanoState JobStatePending = Some JobStatusPending"
| "MapVolcanoState JobStateRunning = Some JobStatusRunning"
| "MapVolcanoState JobStateCompleted = Some JobStatusCompleted"
| "MapVolcanoState JobStateFailed = Some JobStatusFailed"
| "MapVolcanoState JobStateAborted = Some JobStatusFailed"
| "MapVolcanoState JobStateTerminated = Some JobStatusFailed"
| "MapVolcanoState _ = None"

definition VolcanoStateToJobStatus :: "JobState \<Rightarrow> JobStatus" where
  "VolcanoStateToJobStatus state =
     (case MapVolcanoState state of Some status \<Rightarrow> status | None \<Rightarrow> JobStatusPending)"

lemmas status_defs [lifecycle_simps] =
  CanTransition_def IsTerminal_def NormalizeStatus_def terminalStatuses_def

lemma IsTerminal_iff:
  "IsTerminal s \<longleftrightarrow> s = JobStatusCompleted \<or> s = JobStatusFailed \<or> s = JobStatusCancelled"
  by (auto simp: lifecycle_simps)

lemma MapVolcanoState_not_empty [simp]: "MapVolcanoState st = Some s \<Longrightarrow> NormalizeStatus s = s"
  by (cases st) (auto simp: NormalizeStatus_def)

interpretation js: lifecycle NormalizeStatus CanTransition IsTerminal
proof
  show "IsTerminal s \<Longrightarrow> CanTransition s t \<Longrightarrow> NormalizeStatus t = NormalizeStatus s" for s t
    by (cases s) (auto simp: lifecycle_simps Let_def split: if_splits)
qed (auto simp: lifecycle_simps)

section \<open>The job entity\<close>

record Job =
  job_ID :: string
  job_ClusterID :: string
  job_Name :: string
  job_Type :: JobType
  job_Status :: JobStatus
  job_Memory :: int

definition transition :: "JobStatus \<Rightarrow> Job \<Rightarrow> bool \<times> Job" where
  "transition next j =
     (let current = NormalizeStatus (job_Status j);
          j = j\<lparr>job_Status := current\<rparr> in
      if current = next \<or> \<not> CanTransition current next then (False, j)
      else (True, j\<lparr>job_Status := next\<rparr>))"

definition ApplyVolcanoState :: "JobState \<Rightarrow> Job \<Rightarrow> bool \<times> Job" where
  "ApplyVolcanoState state j =
     (case MapVolcanoState state of
        None \<Rightarrow> (False, j)
      | Some next \<Rightarrow> transition next j)"

definition MarkRunning :: "Job \<Rightarrow> bool \<times> Job" where
  "MarkRunning = transition JobStatusRunning"
definition MarkPending :: "Job \<Rightarrow> bool \<times> Job" where
  "MarkPending = transition JobStatusPending"
definition MarkCancelled :: "Job \<Rightarrow> bool \<times> Job" where
  "MarkCancelled = transition JobStatusCancelled"
definition MarkCompleted :: "Job \<Rightarrow> bool \<times> Job" where
  "MarkCompleted = transition JobStatusCompleted"
definition MarkFailed :: "Job \<Rightarrow> bool \<times> Job" where
  "MarkFailed = transition JobStatusFailed"

lemma transition_path:
  "CanTransition\<^sup>*\<^sup>* (job_Status j) (job_Status (snd (transition next j)))"
proof -
  have 1: "CanTransition (job_Status j) (NormalizeStatus (job_Status j))"
    by (simp add: js.can_stay js.norm_norm)
  show ?thesis
    unfolding transition_def Let_def using 1
    by (auto intro: rtranclp.rtrancl_into_rtrancl [OF r_into_rtranclp])
qed

lemma transition_True_iff:
  "fst (transition next j) \<longleftrightarrow>
     NormalizeStatus (job_Status j) \<noteq> next \<and> CanTransition (job_Status j) next"
  by (auto simp: transition_def Let_def lifecycle_simps)

lemma transition_status:
  "job_Status (snd (transition next j)) =
     (if fst (transition next j) then next else NormalizeStatus (job_Status j))"
  by (auto simp: transition_def Let_def)

lemma transition_frame:
  "\<exists>s. snd (transition next j) = j\<lparr>job_Status := s\<rparr>"
  by (auto simp: transition_def Let_def)

section \<open>Resources and the allocator\<close>

record Resource =
  res_ID :: string
  res_ClusterID :: string
  res_Name :: string
  res_Type :: ResourceType
  res_Vendor :: string
  res_Model :: string
  res_TotalGPUs :: int
  res_UsedGPUs :: int
  res_TotalMemory :: int
  res_AvailableMemory :: int
  res_Status :: ResourceStatus
  res_NodeName :: string

definition IsAvailable :: "Resource \<Rightarrow> bool" where
  "IsAvailable r = (res_Status r = ResourceStatusAvailable)"

definition GPUCount :: "Resource \<Rightarrow> int" where
  "GPUCount r = (if res_TotalGPUs r > 0 then res_TotalGPUs r else 1)"

definition GPUAllocated :: "Resource \<Rightarrow> int" where
  "GPUAllocated r =
     (if res_UsedGPUs r > 0 then res_UsedGPUs r
      else if res_Status r = ResourceStatusAllocated then GPUCount r
      else 0)"

definition minInt :: "int \<Rightarrow> int \<Rightarrow> int" where
  "minInt a b = (if a < b then a else b)"

definition ResourceAllocate :: "int \<Rightarrow> Resource \<Rightarrow> int \<times> Resource" where
  "ResourceAllocate memory r =
     (if \<not> IsAvailable r \<or> memory \<le> 0 then (0, r)
      else let allocate = minInt (res_AvailableMemory r) memory;
               r = r\<lparr>res_AvailableMemory := i64 (res_AvailableMemory r - allocate)\<rparr>;
               r = (if res_AvailableMemory r = 0 then r\<lparr>res_Status := ResourceStatusAllocated\<rparr> else r)
           in (allocate, r))"

primrec availableLoop :: "int \<Rightarrow> Resource list \<Rightarrow> int" where
  "availableLoop availableMemory [] = availableMemory"
| "availableLoop availableMemory (res # resources) =
     availableLoop (if IsAvailable res then i64 (availableMemory + res_AvailableMemory res)
                    else availableMemory) resources"

definition CanSchedule :: "Job \<Rightarrow> Resource list \<Rightarrow> bool" where
  "CanSchedule job resources = (availableLoop 0 resources \<ge> job_Memory job)"

primrec allocateLoop :: "int \<Rightarrow> Resource list \<Rightarrow> int \<times> Resource list" where
  "allocateLoop remainingMemory [] = (remainingMemory, [])"
| "allocateLoop remainingMemory (r # resources) =
     (if remainingMemory \<le> 0 then (remainingMemory, r # resources)
      else let (a, r') = ResourceAllocate remainingMemory r;
               (rem, rs') = allocateLoop (i64 (remainingMemory - a)) resources
           in (rem, r' # rs'))"

definition Allocate :: "Job \<Rightarrow> Resource list \<Rightarrow> Resource list" where
  "Allocate job resources = snd (allocateLoop (job_Memory job) resources)"

definition freeMem :: "Resource list \<Rightarrow> int" where
  "freeMem rs = sum_list (map res_AvailableMemory (filter IsAvailable rs))"

definition wf_resource :: "Resource \<Rightarrow> bool" where
  "wf_resource r = (0 \<le> res_AvailableMemory r \<and> in_i64 (res_AvailableMemory r))"

lemma minInt_min [simp]: "minInt a b = min a b"
  by (simp add: minInt_def)

lemma freeMem_simps [simp]:
  "freeMem [] = 0"
  "freeMem (r # rs) = (if IsAvailable r then res_AvailableMemory r else 0) + freeMem rs"
  by (simp_all add: freeMem_def)

lemma freeMem_nonneg: "list_all wf_resource rs \<Longrightarrow> 0 \<le> freeMem rs"
  by (induction rs) (auto simp: wf_resource_def)

lemma availableLoop_eq:
  "in_i64 acc \<Longrightarrow> availableLoop acc rs = i64 (acc + freeMem rs)"
  by (induction rs arbitrary: acc) (simp_all add: arith64 algebra_simps)

lemma CanSchedule_iff: "CanSchedule job rs \<longleftrightarrow> job_Memory job \<le> i64 (freeMem rs)"
  by (simp add: CanSchedule_def availableLoop_eq in_i64_def)

lemma ResourceAllocate_wf:
  assumes "wf_resource r" and "ResourceAllocate m r = (a, r')"
  shows "wf_resource r' \<and> 0 \<le> a \<and> res_AvailableMemory r' = res_AvailableMemory r - a
     \<and> freeMem [r'] = freeMem [r] - a \<and> a = (if IsAvailable r then min (res_AvailableMemory r) (max 0 m) else 0)"
  using assms
  by (auto simp: ResourceAllocate_def wf_resource_def in_i64_def Let_def IsAvailable_def min_def
      split: if_splits)

lemma allocateLoop_spec:
  assumes "list_all wf_resource rs" and "in_i64 m"
  shows "list_all wf_resource (snd (allocateLoop m rs)) \<and>
     fst (allocateLoop m rs) = m - min (max 0 m) (freeMem rs) \<and>
     freeMem (snd (allocateLoop m rs)) = freeMem rs - min (max 0 m) (freeMem rs)"
  using assms
proof (induction rs arbitrary: m)
  case (Cons r rs)
  obtain a r' where ra: "ResourceAllocate m r = (a, r')" by fastforce
  note R = ResourceAllocate_wf [OF _ ra]
  have wr: "wf_resource r" and wrs: "list_all wf_resource rs" using Cons.prems by simp_all
  have f0: "0 \<le> freeMem rs" by (rule freeMem_nonneg [OF wrs])
  show ?case
  proof (cases "m \<le> 0")
    case True
    have "0 \<le> freeMem (r # rs)" by (rule freeMem_nonneg [OF Cons.prems(1)])
    then show ?thesis using True Cons.prems by (auto simp: min_def)
  next
    case False
    have *: "in_i64 (m - a)" using R [OF wr] Cons.prems(2) False
      by (auto simp: in_i64_def wf_resource_def split: if_splits)
    then have ** : "i64 (m - a) = m - a" by simp
    obtain rem rs' where rl: "allocateLoop (m - a) rs = (rem, rs')" by fastforce
    note IH = Cons.IH [OF wrs *, unfolded rl]
    have eq: "allocateLoop m (r # rs) = (rem, r' # rs')" using False ra rl ** by simp
    have wr': "wf_resource r'" and fr: "freeMem [r'] = freeMem [r] - a"
      and a: "a = (if IsAvailable r then min (res_AvailableMemory r) (max 0 m) else 0)"
      using R [OF wr] by blast+
    have b: "freeMem (r # rs) = freeMem [r] + freeMem rs" "freeMem (r' # rs') = freeMem [r'] + freeMem rs'"
      by simp_all
    have "freeMem [r] = (if IsAvailable r then res_AvailableMemory r else 0)"
      and "0 \<le> res_AvailableMemory r" using wr by (simp_all add: wf_resource_def)
    then have "rem = m - min (max 0 m) (freeMem (r # rs))"
      and "freeMem (r' # rs') = freeMem (r # rs) - min (max 0 m) (freeMem (r # rs))"
      using IH a False f0 b fr by (auto simp del: freeMem_simps simp: min_def max_def split: if_splits)
    then show ?thesis using IH wr' unfolding eq by simp
  qed
qed (auto simp: in_i64_def)

section \<open>Properties\<close>

datatype JobEvent = Volcano JobState | EvRunning | EvPending | EvCancelled | EvCompleted | EvFailed

fun jobEvent :: "JobEvent \<Rightarrow> Job \<Rightarrow> bool \<times> Job" where
  "jobEvent (Volcano st) = ApplyVolcanoState st"
| "jobEvent EvRunning = MarkRunning"
| "jobEvent EvPending = MarkPending"
| "jobEvent EvCancelled = MarkCancelled"
| "jobEvent EvCompleted = MarkCompleted"
| "jobEvent EvFailed = MarkFailed"

lemmas mark_defs = MarkRunning_def MarkPending_def MarkCancelled_def MarkCompleted_def MarkFailed_def

definition runJobEvents :: "JobEvent list \<Rightarrow> Job \<Rightarrow> Job" where
  "runJobEvents evs j = fold (\<lambda>e j. snd (jobEvent e j)) evs j"

lemma jobEvent_path: "CanTransition\<^sup>*\<^sup>* (job_Status j) (job_Status (snd (jobEvent e j)))"
  by (cases e) (auto simp: mark_defs transition_path ApplyVolcanoState_def split: option.splits)

lemma jobEvent_frame: "\<exists>s. snd (jobEvent e j) = j\<lparr>job_Status := s\<rparr>"
  using transition_frame
  by (cases e) (auto simp: mark_defs ApplyVolcanoState_def split: option.splits intro: exI [of _ "job_Status j"])

lemma jobEvent_fin:
  assumes "IsTerminal (job_Status j)"
  shows "jobEvent e j = (False, j)"
proof -
  have "transition next j = (False, j)" if "next = NormalizeStatus next" for "next"
    using assms that js.fin_absorbing [OF assms, of "next"]
    by (cases "job_Status j") (auto simp: transition_def Let_def lifecycle_simps split: if_splits)
  then show ?thesis
    by (cases e) (auto simp: mark_defs ApplyVolcanoState_def NormalizeStatus_def split: option.splits
        dest: MapVolcanoState_not_empty)
qed

lemma runJobEvents_simps [simp]:
  "runJobEvents [] j = j"
  "runJobEvents (e # es) j = runJobEvents es (snd (jobEvent e j))"
  "runJobEvents (es @ fs) j = runJobEvents fs (runJobEvents es j)"
  by (simp_all add: runJobEvents_def)

text \<open>C1: Once some prefix of the cluster reports and Mark calls received by a job has
  brought it to a terminal status, every later report and call, in any order, leaves the whole
  job record as it is; and no call ever changes anything but the status.\<close>
theorem job_terminal_is_final:
  "(IsTerminal (job_Status (runJobEvents es j)) \<longrightarrow> runJobEvents (es @ fs) j = runJobEvents es j)
   \<and> (\<exists>s. runJobEvents es j = j\<lparr>job_Status := s\<rparr>)"
proof
  show "IsTerminal (job_Status (runJobEvents es j)) \<longrightarrow> runJobEvents (es @ fs) j = runJobEvents es j"
    by (induction fs arbitrary: es j) (auto simp: jobEvent_fin)
  show "\<exists>s. runJobEvents es j = j\<lparr>job_Status := s\<rparr>"
  proof (induction es arbitrary: j)
    case Nil
    show ?case by (auto intro: exI [of _ "job_Status j"])
  next
    case (Cons e es)
    obtain s where "snd (jobEvent e j) = j\<lparr>job_Status := s\<rparr>" using jobEvent_frame by blast
    then show ?case using Cons [of "j\<lparr>job_Status := s\<rparr>"] by auto
  qed
qed

definition demoJob :: Job where
  "demoJob = \<lparr>job_ID = ''job-1'', job_ClusterID = ''cluster-001'', job_Name = ''train'',
     job_Type = JobTypeTraining, job_Status = NoStatus, job_Memory = 24\<rparr>"

lemma job_terminal_is_final_witness:
  "runJobEvents ([Volcano JobStateRunning, Volcano JobStateAborted] @ [EvRunning, EvCompleted]) demoJob
     = demoJob\<lparr>job_Status := JobStatusFailed\<rparr>"
proof -
  have *: "runJobEvents [Volcano JobStateRunning, Volcano JobStateAborted] demoJob
      = demoJob\<lparr>job_Status := JobStatusFailed\<rparr>"
    by (simp add: ApplyVolcanoState_def transition_def demoJob_def lifecycle_simps)
  show ?thesis
    using job_terminal_is_final [of "[Volcano JobStateRunning, Volcano JobStateAborted]" demoJob
        "[EvRunning, EvCompleted]"]
    unfolding * by (simp only: IsTerminal_iff) simp
qed

text \<open>When the admission check accepts a job, the allocator takes exactly the job's
  memory from the available resources, leaves no resource negative, and afterwards the
  available memory has dropped by that amount.  Memory figures are non-negative and their
  total fits a Go int, the job asks for a non-negative amount.\<close>
theorem allocate_serves_admitted_job:
  assumes "list_all wf_resource rs" and "in_i64 (freeMem rs)"
    and "0 \<le> job_Memory job" and "in_i64 (job_Memory job)"
    and "CanSchedule job rs"
  shows "fst (allocateLoop (job_Memory job) rs) = 0
    \<and> freeMem (Allocate job rs) = freeMem rs - job_Memory job
    \<and> list_all wf_resource (Allocate job rs)"
  using allocateLoop_spec [OF assms(1,4)] assms(2,3,5)
  by (simp add: Allocate_def CanSchedule_iff)

definition demoResource :: "int \<Rightarrow> Resource" where
  "demoResource m = \<lparr>res_ID = ''r'', res_ClusterID = ''cluster-001'', res_Name = ''gpu'',
     res_Type = ResourceTypeGPU, res_Vendor = ''NVIDIA'', res_Model = ''A800'', res_TotalGPUs = 8,
     res_UsedGPUs = 0, res_TotalMemory = 80, res_AvailableMemory = m,
     res_Status = ResourceStatusAvailable, res_NodeName = ''n1''\<rparr>"

lemma allocate_serves_admitted_job_witness:
  "freeMem (Allocate demoJob [demoResource 16, demoResource 16])
     = freeMem [demoResource 16, demoResource 16] - 24"
proof -
  have m: "job_Memory demoJob = 24" by (simp add: demoJob_def)
  have f: "freeMem [demoResource 16, demoResource 16] = 32"
    by (simp add: demoResource_def IsAvailable_def)
  show ?thesis
    using allocate_serves_admitted_job [of "[demoResource 16, demoResource 16]" demoJob] m f
    by (simp add: CanSchedule_iff in_i64_def wf_resource_def demoResource_def)
qed

end
