(* ===== verification/Models.thy ===== *)
theory Models
  imports JobDomain
begin

text \<open>
  The persisted rows of \<^verbatim>\<open>models/models.go\<close> and \<^verbatim>\<open>models/auth.go\<close> that the services work
  on: the job row with its derived totals, and the tenant quota.  Status strings are those of
  \<^verbatim>\<open>domain/job\<close>; the association pointer \<^verbatim>\<open>Tenant\<close> of a quota is never loaded and left out.
\<close>

datatype ModelJobType = MJTraining | MJInference | MJBatch | MJDataClean | MJDataAugment | MJDataETL
  | MJDataAnnotation | OtherModelJobType string

record JobRow =
  jr_ID :: string
  jr_ClusterID :: string
  jr_Name :: string
  jr_Type :: ModelJobType
  jr_Status :: JobStatus
  jr_Priority :: int
  jr_Image :: string
  jr_Command :: string
  jr_GPUs :: int
  jr_Memory :: int
  jr_GPUMemory :: int
  jr_GPUCores :: int
  jr_Distributed :: bool
  jr_Framework :: string
  jr_Replicas :: int
  jr_MinAvailable :: int
  jr_DatasetName :: string
  jr_MountPath :: string
  jr_TenantID :: string
  jr_VolcanoJobName :: string
  jr_QueueName :: string
  jr_CreatedAt :: time
  jr_UpdatedAt :: time
  jr_FailureReason :: string
  jr_SubmitAttempts :: int
  jr_LastSubmitAt :: time
  jr_MaxRuntime :: int
  jr_StartedAt :: "time option"
  jr_CheckpointEnabled :: bool
  jr_CheckpointInterval :: int
  jr_CheckpointMaxRetries :: int
  jr_LatestCheckpointURI :: string
  jr_LatestCheckpointStep :: int
  jr_LatestCheckpointAt :: "time option"
  jr_LatestCheckpointHash :: string
  jr_LatestCheckpointSizeBytes :: int
  jr_ResumeFrom :: string
  jr_RetryAttempts :: int
  jr_RegisterModelEnabled :: bool
  jr_RegisterModelID :: string
  jr_RegisterVersionTag :: string
  jr_RegisteredVersionID :: string
  jr_RegisterAdapterEnabled :: bool
  jr_AdapterBaseModel :: string
  jr_AdapterMethod :: string
  jr_AdapterRank :: int
  jr_RegisteredAdapterID :: string
  jr_CodeCommit :: string
  jr_CodeRepo :: string
  jr_TemplateID :: string
  jr_DatasetID :: string
  jr_DatasetVersion :: string
  jr_DataSpecJSON :: string

definition jrEffectiveReplicas :: "JobRow \<Rightarrow> int" where
  "jrEffectiveReplicas j =
     (if \<not> jr_Distributed j \<or> jr_Replicas j \<le> 0 then 1 else i64 (1 + jr_Replicas j))"

definition jrTotalGPUs :: "JobRow \<Rightarrow> int" where
  "jrTotalGPUs j = (if jr_GPUs j \<le> 0 then 0 else i64 (jr_GPUs j * jrEffectiveReplicas j))"

definition jrTotalMemory :: "JobRow \<Rightarrow> int" where
  "jrTotalMemory j = (if jr_Memory j \<le> 0 then 0 else i64 (jr_Memory j * jrEffectiveReplicas j))"

fun statusIsTerminal :: "JobStatus \<Rightarrow> bool" where
  "statusIsTerminal JobStatusCompleted = True"
| "statusIsTerminal JobStatusFailed = True"
| "statusIsTerminal JobStatusCancelled = True"
| "statusIsTerminal _ = False"

definition jrIsTerminal :: "JobRow \<Rightarrow> bool" where
  "jrIsTerminal j = statusIsTerminal (jr_Status j)"

lemma statusIsTerminal_eq: "statusIsTerminal s = IsTerminal s"
  by (cases s) (simp_all add: lifecycle_simps)

definition emptyJobRow :: JobRow where
  "emptyJobRow = \<lparr>jr_ID = [], jr_ClusterID = [], jr_Name = [], jr_Type = OtherModelJobType [], jr_Status =
     NoStatus, jr_Priority = 0, jr_Image = [], jr_Command = [], jr_GPUs = 0, jr_Memory = 0,
     jr_GPUMemory = 0, jr_GPUCores = 0, jr_Distributed = False, jr_Framework = [], jr_Replicas = 0,
     jr_MinAvailable = 0, jr_DatasetName = [], jr_MountPath = [], jr_TenantID = [],
     jr_VolcanoJobName = [], jr_QueueName = [], jr_CreatedAt = 0, jr_UpdatedAt = 0, jr_FailureReason
     = [], jr_SubmitAttempts = 0, jr_LastSubmitAt = 0, jr_MaxRuntime = 0, jr_StartedAt = None,
     jr_CheckpointEnabled = False, jr_CheckpointInterval = 0, jr_CheckpointMaxRetries = 0,
     jr_LatestCheckpointURI = [], jr_LatestCheckpointStep = 0, jr_LatestCheckpointAt = None,
     jr_LatestCheckpointHash = [], jr_LatestCheckpointSizeBytes = 0, jr_ResumeFrom = [],
     jr_RetryAttempts = 0, jr_RegisterModelEnabled = False, jr_RegisterModelID = [],
     jr_RegisterVersionTag = [], jr_RegisteredVersionID = [], jr_RegisterAdapterEnabled = False,
     jr_AdapterBaseModel = [], jr_AdapterMethod = [], jr_AdapterRank = 0, jr_RegisteredAdapterID =
     [], jr_CodeCommit = [], jr_CodeRepo = [], jr_TemplateID = [], jr_DatasetID = [],
     jr_DatasetVersion = [], jr_DataSpecJSON = []\<rparr>"

record Quota =
  q_ID :: string
  q_TenantID :: string
  q_GPUQuota :: int
  q_GPUUsed :: int
  q_MemoryQuotaGB :: int
  q_MemoryUsedGB :: int
  q_JobQuota :: int
  q_JobUsed :: int
  q_UpdatedAt :: time

definition emptyQuota :: Quota where
  "emptyQuota = \<lparr>q_ID = [], q_TenantID = [], q_GPUQuota = 0, q_GPUUsed = 0, q_MemoryQuotaGB = 0,
     q_MemoryUsedGB = 0, q_JobQuota = 0, q_JobUsed = 0, q_UpdatedAt = 0\<rparr>"

interpretation jobRepo: repository "tunique jr_ID" jr_ID "tfind jr_ID" "tsave jr_ID" tadd "tdelete jr_ID"
  by (rule table_repository)

interpretation quotaRepo: repository "tunique q_TenantID" q_TenantID "tfind q_TenantID"
  "tsave q_TenantID" tadd "tdelete q_TenantID"
  by (rule table_repository)

end
