(* ===== verification/QuotaStore.thy ===== *)
theory QuotaStore
  imports Models
begin

text \<open>
  \<^verbatim>\<open>storage/enterprise.go\<close>: the transaction retry loop and the tenant quota ledger
  (reserve, release, adjust, upsert), and \<^verbatim>\<open>quota/reconciler.go\<close>, which recomputes the ledger
  from the active jobs.  The database is the list of quota rows.  What the database itself may do to
  the n-th attempt of a transaction (fail before it commits) is the argument \<^term>\<open>fault\<close>; a failed
  transaction is rolled back.
\<close>

section \<open>Errors of the store and the retry loop\<close>

datatype StoreError = QuotaExceeded string int int int | QuotaNotConfigured string
  | RecordNotFound | DbError string | StillConflicting nat StoreError

text \<open>
  \<^verbatim>\<open>strings.ToLower\<close> as far as a search for an ASCII word can see it: ASCII letters, and the two
  other code points whose lower case is an ASCII letter (U+212A, U+0130).
\<close>

fun lowerSearch :: "string \<Rightarrow> string" where
  "lowerSearch [] = []"
| "lowerSearch (c # s) =
     (let n = of_char c :: nat in
      if 65 \<le> n \<and> n \<le> 90 then char_of (n + 32) # lowerSearch s
      else case s of
        [] \<Rightarrow> [c]
      | d # s2 \<Rightarrow>
          if n = 0xC4 \<and> of_char d = (0xB0 :: nat) then CHR ''i'' # lowerSearch s2
          else (case s2 of
              [] \<Rightarrow> c # lowerSearch s
            | e # s3 \<Rightarrow>
                if n = 0xE2 \<and> of_char d = (0x84 :: nat) \<and> of_char e = (0xAA :: nat)
                then CHR ''k'' # lowerSearch s3
                else c # lowerSearch s))"

primrec hasPrefix :: "string \<Rightarrow> string \<Rightarrow> bool" where
  "hasPrefix s [] = True"
| "hasPrefix s (p # ps) = (case s of [] \<Rightarrow> False | c # cs \<Rightarrow> c = p \<and> hasPrefix cs ps)"

fun containsStr :: "string \<Rightarrow> string \<Rightarrow> bool" where
  "containsStr [] w = (w = [])"
| "containsStr (c # s) w = (hasPrefix (c # s) w \<or> containsStr s w)"

definition isTransientMsg :: "string \<Rightarrow> bool" where
  "isTransientMsg text =
     (let msg = lowerSearch text in
       containsStr msg ''database is locked'' \<or> containsStr msg ''sqlite_busy''
       \<or> containsStr msg ''locked'' \<or> containsStr msg ''serialization failure''
       \<or> containsStr msg ''40p01'' \<or> containsStr msg ''40001'')"

fun errText :: "StoreError \<Rightarrow> string" where
  "errText (QuotaNotConfigured tenant) = ''quota not configured for tenant '' @ tenant"
| "errText RecordNotFound = ''record not found''"
| "errText (DbError msg) = msg"
| "errText (QuotaExceeded kind used asked limit) =
     ''quota exceeded: '' @ kind @ '' quota exceeded: used '' @ showInt used @ '' + requested ''
       @ showInt asked @ '' > limit '' @ showInt limit"
| "errText (StillConflicting n e) =
     ''transaction still conflicting after '' @ showNat n @ '' attempts: '' @ errText e"

definition isTransientLockError :: "StoreError option \<Rightarrow> bool" where
  "isTransientLockError err = (case err of None \<Rightarrow> False | Some e \<Rightarrow> isTransientMsg (errText e))"

fun finalError :: "StoreError \<Rightarrow> bool" where
  "finalError (QuotaExceeded _ _ _ _) = True"
| "finalError RecordNotFound = True"
| "finalError _ = False"

definition Transaction ::
    "StoreError option \<Rightarrow> ('db \<Rightarrow> StoreError option \<times> 'db) \<Rightarrow> 'db \<Rightarrow> StoreError option \<times> 'db" where
  "Transaction fault fn db =
     (case fault of
        Some e \<Rightarrow> (Some e, db)
      | None \<Rightarrow> (case fn db of (None, db') \<Rightarrow> (None, db') | (Some e, _) \<Rightarrow> (Some e, db)))"

definition maxAttempts :: nat where "maxAttempts = 10"
definition baseBackoff :: duration where "baseBackoff = 5000000"
definition maxBackoffStep :: duration where "maxBackoffStep = 800000000"

definition retryBackoff :: "nat \<Rightarrow> duration" where
  "retryBackoff attempt =
     (let backoff = i64 (baseBackoff * 2 ^ attempt) in
      if backoff > maxBackoffStep \<or> backoff \<le> 0 then maxBackoffStep else backoff)"

primrec retryLoop ::
    "nat \<Rightarrow> (nat \<Rightarrow> StoreError option) \<Rightarrow> ('db \<Rightarrow> StoreError option \<times> 'db) \<Rightarrow> StoreError option
      \<Rightarrow> 'db \<Rightarrow> StoreError option \<times> 'db" where
  "retryLoop 0 fault fn lastErr db =
     (Some (StillConflicting maxAttempts (case lastErr of Some e \<Rightarrow> e | None \<Rightarrow> DbError [])), db)"
| "retryLoop (Suc left) fault fn lastErr db =
     (case Transaction (fault (maxAttempts - Suc left)) fn db of
        (None, db') \<Rightarrow> (None, db')
      | (Some e, db') \<Rightarrow>
          if finalError e then (Some e, db')
          else if \<not> isTransientLockError (Some e) then (Some e, db')
          else retryLoop left fault fn (Some e) db')"

definition retryTx ::
    "(nat \<Rightarrow> StoreError option) \<Rightarrow> ('db \<Rightarrow> StoreError option \<times> 'db) \<Rightarrow> 'db \<Rightarrow> StoreError option \<times> 'db" where
  "retryTx fault fn db = retryLoop maxAttempts fault fn None db"

lemma retryLoop_cases:
  "(\<exists>e. retryLoop n fault fn le db = (Some e, db)) \<or>
   (\<exists>db'. fn db = (None, db') \<and> retryLoop n fault fn le db = (None, db'))"
proof (induction n arbitrary: le)
  case (Suc n)
  show ?case
  proof (cases "fault (maxAttempts - Suc n)")
    case None
    show ?thesis
    proof (cases "fn db")
      case (Pair r db')
      then show ?thesis using None Suc [of r] by (cases r) (auto simp: Transaction_def)
    qed
  next
    case (Some e)
    then show ?thesis using Suc [of "Some e"] by (auto simp: Transaction_def)
  qed
qed simp

lemma retryTx_cases:
  obtains (err) e where "retryTx fault fn db = (Some e, db)"
  | (ok) db' where "fn db = (None, db')" and "retryTx fault fn db = (None, db')"
  using retryLoop_cases [of maxAttempts fault fn None db] unfolding retryTx_def by blast

lemma retryTx_error_keeps: "retryTx fault fn db = (Some e, db') \<Longrightarrow> db' = db"
  by (cases rule: retryTx_cases [of fault fn db]) auto

lemma retryTx_ok: "retryTx fault fn db = (None, db') \<Longrightarrow> fn db = (None, db')"
  by (cases rule: retryTx_cases [of fault fn db]) auto

lemma retryTx_no_fault:
  "fault 0 = None \<Longrightarrow> fn db = (None, db') \<Longrightarrow> retryTx fault fn db = (None, db')"
  by (simp add: retryTx_def maxAttempts_def eval_nat_numeral Transaction_def)

section \<open>The quota ledger\<close>

type_synonym quota_db = "Quota list"

definition GetQuota :: "string \<Rightarrow> quota_db \<Rightarrow> StoreError + Quota" where
  "GetQuota tenant db =
     (case tfind q_TenantID db tenant of None \<Rightarrow> Inl RecordNotFound | Some q \<Rightarrow> Inr q)"

definition reserveBody ::
    "time \<Rightarrow> string \<Rightarrow> int \<Rightarrow> int \<Rightarrow> int \<Rightarrow> quota_db \<Rightarrow> StoreError option \<times> quota_db" where
  "reserveBody now tenant gpus memGB jobs db =
     (case tfind q_TenantID db tenant of
        None \<Rightarrow> (Some (QuotaNotConfigured tenant), db)
      | Some q \<Rightarrow>
         if i64 (q_GPUUsed q + gpus) > q_GPUQuota q
         then (Some (QuotaExceeded ''gpu'' (q_GPUUsed q) gpus (q_GPUQuota q)), db)
         else if i64 (q_MemoryUsedGB q + memGB) > q_MemoryQuotaGB q
         then (Some (QuotaExceeded ''memory'' (q_MemoryUsedGB q) memGB (q_MemoryQuotaGB q)), db)
         else if i64 (q_JobUsed q + jobs) > q_JobQuota q
         then (Some (QuotaExceeded ''job'' (q_JobUsed q) jobs (q_JobQuota q)), db)
         else (None, tsave q_TenantID
                (q\<lparr>q_GPUUsed := i64 (q_GPUUsed q + gpus),
                   q_MemoryUsedGB := i64 (q_MemoryUsedGB q + memGB),
                   q_JobUsed := i64 (q_JobUsed q + jobs), q_UpdatedAt := now\<rparr>) db))"

definition CheckAndReserve ::
    "(nat \<Rightarrow> StoreError option) \<Rightarrow> time \<Rightarrow> string \<Rightarrow> int \<Rightarrow> int \<Rightarrow> int \<Rightarrow> quota_db
      \<Rightarrow> StoreError option \<times> quota_db" where
  "CheckAndReserve fault now tenant gpus memGB jobs db =
     retryTx fault (reserveBody now tenant gpus memGB jobs) db"

definition releaseBody ::
    "time \<Rightarrow> string \<Rightarrow> int \<Rightarrow> int \<Rightarrow> int \<Rightarrow> quota_db \<Rightarrow> StoreError option \<times> quota_db" where
  "releaseBody now tenant gpus memGB jobs db =
     (case tfind q_TenantID db tenant of
        None \<Rightarrow> (Some RecordNotFound, db)
      | Some q \<Rightarrow> (None, tsave q_TenantID
                (q\<lparr>q_GPUUsed := max 0 (i64 (q_GPUUsed q - gpus)),
                   q_MemoryUsedGB := max 0 (i64 (q_MemoryUsedGB q - memGB)),
                   q_JobUsed := max 0 (i64 (q_JobUsed q - jobs)), q_UpdatedAt := now\<rparr>) db))"

definition Release ::
    "(nat \<Rightarrow> StoreError option) \<Rightarrow> time \<Rightarrow> string \<Rightarrow> int \<Rightarrow> int \<Rightarrow> int \<Rightarrow> quota_db
      \<Rightarrow> StoreError option \<times> quota_db" where
  "Release fault now tenant gpus memGB jobs db =
     retryTx fault (releaseBody now tenant gpus memGB jobs) db"

definition adjustReservationTx ::
    "time \<Rightarrow> string \<Rightarrow> int \<Rightarrow> int \<Rightarrow> int \<Rightarrow> int \<Rightarrow> quota_db \<Rightarrow> StoreError option \<times> quota_db" where
  "adjustReservationTx now tenant oldGPUs oldMemGB newGPUs newMemGB db =
     (if oldGPUs = newGPUs \<and> oldMemGB = newMemGB then (None, db)
      else case tfind q_TenantID db tenant of
        None \<Rightarrow> (Some (QuotaNotConfigured tenant), db)
      | Some q0 \<Rightarrow>
         let q = q0\<lparr>q_GPUUsed := max 0 (i64 (q_GPUUsed q0 - oldGPUs)),
                    q_MemoryUsedGB := max 0 (i64 (q_MemoryUsedGB q0 - oldMemGB))\<rparr> in
         if i64 (q_GPUUsed q + newGPUs) > q_GPUQuota q
         then (Some (QuotaExceeded ''gpu'' (q_GPUUsed q) newGPUs (q_GPUQuota q)), db)
         else if i64 (q_MemoryUsedGB q + newMemGB) > q_MemoryQuotaGB q
         then (Some (QuotaExceeded ''memory'' (q_MemoryUsedGB q) newMemGB (q_MemoryQuotaGB q)), db)
         else (None, tsave q_TenantID
                (q\<lparr>q_GPUUsed := i64 (q_GPUUsed q + newGPUs),
                   q_MemoryUsedGB := i64 (q_MemoryUsedGB q + newMemGB), q_UpdatedAt := now\<rparr>) db))"

definition AdjustReservation ::
    "time \<Rightarrow> string \<Rightarrow> int \<Rightarrow> int \<Rightarrow> int \<Rightarrow> int \<Rightarrow> quota_db \<Rightarrow> StoreError option \<times> quota_db" where
  "AdjustReservation now tenant oldGPUs oldMemGB newGPUs newMemGB db =
     adjustReservationTx now tenant oldGPUs oldMemGB newGPUs newMemGB db"

text \<open>The primary key of a new row may collide with the row of another tenant.\<close>

definition UpsertQuota :: "time \<Rightarrow> Quota \<Rightarrow> quota_db \<Rightarrow> StoreError option \<times> quota_db" where
  "UpsertQuota now q0 db =
     (let q = (if q_ID q0 = [] then q0\<lparr>q_ID := q_TenantID q0\<rparr> else q0);
          q = q\<lparr>q_UpdatedAt := now\<rparr> in
      case tfind q_TenantID db (q_TenantID q) of
        Some old \<Rightarrow> (None, tsave q_TenantID (q\<lparr>q_ID := q_ID old\<rparr>) db)
      | None \<Rightarrow>
          if list_ex (\<lambda>r. q_ID r = q_ID q) db then (Some (DbError ''duplicate key''), db)
          else (None, tadd q db))"

section \<open>The reconciler\<close>

definition addUsage :: "JobRow \<Rightarrow> quota_db \<Rightarrow> quota_db" where
  "addUsage j used =
     (let used = (case tfind q_TenantID used (jr_TenantID j) of
            Some _ \<Rightarrow> used
          | None \<Rightarrow> tadd (emptyQuota\<lparr>q_TenantID := jr_TenantID j\<rparr>) used) in
      case tfind q_TenantID used (jr_TenantID j) of
        None \<Rightarrow> used
      | Some rv \<Rightarrow> tsave q_TenantID
          (rv\<lparr>q_GPUUsed := i64 (q_GPUUsed rv + jrTotalGPUs j),
              q_MemoryUsedGB := i64 (q_MemoryUsedGB rv + jrTotalMemory j),
              q_JobUsed := i64 (q_JobUsed rv + 1)\<rparr>) used)"

definition resetUsage :: "Quota \<Rightarrow> Quota" where
  "resetUsage q = emptyQuota\<lparr>q_TenantID := q_TenantID q, q_GPUQuota := q_GPUQuota q,
     q_MemoryQuotaGB := q_MemoryQuotaGB q, q_JobQuota := q_JobQuota q\<rparr>"

definition usedByJobs :: "Quota list \<Rightarrow> JobRow list \<Rightarrow> quota_db" where
  "usedByJobs quotas jobs =
     fold (\<lambda>j used. if jrIsTerminal j then used else addUsage j used) jobs (map resetUsage quotas)"

text \<open>
  The second loop ranges over a Go map: \<^term>\<open>perm\<close> is the order of iteration.  A database fault
  (\<^term>\<open>listErr\<close> when the quotas are listed, \<^term>\<open>upErr\<close> per tenant at the upsert) and a failed
  upsert are logged; a failed upsert is skipped.
\<close>

definition Reconcile ::
    "(Quota list \<Rightarrow> Quota list) \<Rightarrow> time \<Rightarrow> StoreError option \<Rightarrow> (StoreError + JobRow list)
      \<Rightarrow> (string \<Rightarrow> StoreError option) \<Rightarrow> quota_db \<Rightarrow> quota_db" where
  "Reconcile perm now listErr activeJobs upErr db =
     (case listErr of
        Some _ \<Rightarrow> db
      | None \<Rightarrow> (case activeJobs of
          Inl _ \<Rightarrow> db
        | Inr jobs \<Rightarrow>
            fold (\<lambda>rv db. if upErr (q_TenantID rv) \<noteq> None then db else snd (UpsertQuota now rv db))
              (perm (usedByJobs db jobs)) db))"

section \<open>The interface the services rely on\<close>

type_synonym usage = "int \<times> int \<times> int"

definition amount :: "int \<Rightarrow> bool" where
  "amount n = (0 \<le> n \<and> n < 2 ^ 62)"

locale ledger =
  fixes good :: "'db \<Rightarrow> bool"
    and usage :: "'db \<Rightarrow> string \<Rightarrow> usage option"
    and reserve :: "string \<Rightarrow> int \<Rightarrow> int \<Rightarrow> int \<Rightarrow> 'db \<Rightarrow> 'e option \<times> 'db"
    and release :: "string \<Rightarrow> int \<Rightarrow> int \<Rightarrow> int \<Rightarrow> 'db \<Rightarrow> 'e option \<times> 'db"
  assumes good_nonneg: "good db \<Longrightarrow> usage db t = Some (a, b, c) \<Longrightarrow> 0 \<le> a \<and> 0 \<le> b \<and> 0 \<le> c"
    and reserve_err: "reserve t g m j db = (Some e, db') \<Longrightarrow> db' = db"
    and reserve_ok: "good db \<Longrightarrow> amount g \<Longrightarrow> amount m \<Longrightarrow> amount j \<Longrightarrow> reserve t g m j db = (None, db') \<Longrightarrow>
      good db' \<and> (\<exists>a b c. usage db t = Some (a, b, c) \<and> usage db' t = Some (a + g, b + m, c + j))"
    and reserve_frame: "reserve t g m j db = (r, db') \<Longrightarrow> t' \<noteq> t \<Longrightarrow> usage db' t' = usage db t'"
    and release_err: "release t g m j db = (Some e, db') \<Longrightarrow> db' = db"
    and release_ok: "good db \<Longrightarrow> amount g \<Longrightarrow> amount m \<Longrightarrow> amount j \<Longrightarrow> release t g m j db = (None, db') \<Longrightarrow>
      good db' \<and> (\<exists>a b c. usage db t = Some (a, b, c) \<and>
        usage db' t = Some (max 0 (a - g), max 0 (b - m), max 0 (c - j)))"
    and release_frame: "release t g m j db = (r, db') \<Longrightarrow> t' \<noteq> t \<Longrightarrow> usage db' t' = usage db t'"
begin

lemma reserve_then_release:
  assumes "good db" and "amount g" and "amount m" and "amount j"
    and "reserve t g m j db = (None, db1)" and "release t g m j db1 = (None, db2)"
  shows "usage db2 = usage db"
proof
  fix t'
  obtain a b c where 1: "good db1" "usage db t = Some (a, b, c)" "usage db1 t = Some (a + g, b + m, c + j)"
    using reserve_ok [OF assms(1-5)] by blast
  have 2: "usage db2 t = Some (max 0 (a + g - g), max 0 (b + m - m), max 0 (c + j - j))"
    using release_ok [OF 1(1) assms(2-4,6)] 1(3) by auto
  show "usage db2 t' = usage db t'"
  proof (cases "t' = t")
    case True
    then show ?thesis using 1(2) 2 good_nonneg [OF assms(1) 1(2)] by simp
  next
    case False
    then show ?thesis using reserve_frame [OF assms(5) False] release_frame [OF assms(6) False] by simp
  qed
qed

lemma good_reserve:
  assumes "good db" "amount g" "amount m" "amount j"
  shows "good (snd (reserve t g m j db))"
proof (cases "reserve t g m j db")
  case (Pair r db')
  then show ?thesis
    using assms reserve_ok [of db g m j t db'] reserve_err [of t g m j db _ db'] by (cases r) auto
qed

lemma good_release:
  assumes "good db" "amount g" "amount m" "amount j"
  shows "good (snd (release t g m j db))"
proof (cases "release t g m j db")
  case (Pair r db')
  then show ?thesis
    using assms release_ok [of db g m j t db'] release_err [of t g m j db _ db'] by (cases r) auto
qed

end

definition ledger_row_ok :: "Quota \<Rightarrow> bool" where
  "ledger_row_ok q =
     (0 \<le> q_GPUUsed q \<and> q_GPUUsed q \<le> q_GPUQuota q \<and> q_GPUQuota q < 2 ^ 62 \<and>
      0 \<le> q_MemoryUsedGB q \<and> q_MemoryUsedGB q \<le> q_MemoryQuotaGB q \<and> q_MemoryQuotaGB q < 2 ^ 62 \<and>
      0 \<le> q_JobUsed q \<and> q_JobUsed q \<le> q_JobQuota q \<and> q_JobQuota q < 2 ^ 62)"

definition ledger_ok :: "quota_db \<Rightarrow> bool" where
  "ledger_ok db = (tunique q_TenantID db \<and> list_all ledger_row_ok db)"

definition quotaUsage :: "quota_db \<Rightarrow> string \<Rightarrow> usage option" where
  "quotaUsage db t = map_option (\<lambda>q. (q_GPUUsed q, q_MemoryUsedGB q, q_JobUsed q)) (tfind q_TenantID db t)"

definition quotaLimits :: "quota_db \<Rightarrow> string \<Rightarrow> usage option" where
  "quotaLimits db t = map_option (\<lambda>q. (q_GPUQuota q, q_MemoryQuotaGB q, q_JobQuota q)) (tfind q_TenantID db t)"

lemma ledger_ok_find: "ledger_ok db \<Longrightarrow> tfind q_TenantID db t = Some q \<Longrightarrow> ledger_row_ok q"
  by (auto simp: ledger_ok_def list_all_iff dest: tfind_mem)

lemma ledger_ok_save: "ledger_ok db \<Longrightarrow> ledger_row_ok q \<Longrightarrow> ledger_ok (tsave q_TenantID q db)"
  by (auto simp: ledger_ok_def list_all_iff tsave_unique dest: tsave_set)

lemma i64_add_amount: "0 \<le> a \<Longrightarrow> a < 2 ^ 62 \<Longrightarrow> amount n \<Longrightarrow> i64 (a + n) = a + n"
  by (rule i64_id) (simp add: amount_def in_i64_def)

lemma i64_sub_amount: "0 \<le> a \<Longrightarrow> a < 2 ^ 62 \<Longrightarrow> amount n \<Longrightarrow> i64 (a - n) = a - n"
  by (rule i64_id) (simp add: amount_def in_i64_def)

lemma reserveBody_ok:
  assumes "reserveBody now t g m j db = (None, db')" and "ledger_ok db"
    and "amount g" "amount m" "amount j"
  obtains q where "tfind q_TenantID db t = Some q" and "ledger_row_ok q"
    and "q_GPUUsed q + g \<le> q_GPUQuota q" "q_MemoryUsedGB q + m \<le> q_MemoryQuotaGB q"
      "q_JobUsed q + j \<le> q_JobQuota q"
    and "db' = tsave q_TenantID (q\<lparr>q_GPUUsed := q_GPUUsed q + g, q_MemoryUsedGB := q_MemoryUsedGB q + m,
           q_JobUsed := q_JobUsed q + j, q_UpdatedAt := now\<rparr>) db"
proof -
  obtain q where q: "tfind q_TenantID db t = Some q"
    using assms(1) by (auto simp: reserveBody_def split: option.splits)
  have r: "ledger_row_ok q" by (rule ledger_ok_find [OF assms(2) q])
  have i: "i64 (q_GPUUsed q + g) = q_GPUUsed q + g" "i64 (q_MemoryUsedGB q + m) = q_MemoryUsedGB q + m"
    "i64 (q_JobUsed q + j) = q_JobUsed q + j"
    using r assms(3-5) by (auto simp: ledger_row_ok_def intro!: i64_add_amount)
  show ?thesis
    using that [OF q r] assms(1) by (auto simp: reserveBody_def q i split: if_splits)
qed

lemma releaseBody_ok:
  assumes "releaseBody now t g m j db = (None, db')" and "ledger_ok db"
    and "amount g" "amount m" "amount j"
  obtains q where "tfind q_TenantID db t = Some q" and "ledger_row_ok q"
    and "db' = tsave q_TenantID (q\<lparr>q_GPUUsed := max 0 (q_GPUUsed q - g),
           q_MemoryUsedGB := max 0 (q_MemoryUsedGB q - m), q_JobUsed := max 0 (q_JobUsed q - j),
           q_UpdatedAt := now\<rparr>) db"
proof -
  obtain q where q: "tfind q_TenantID db t = Some q"
    using assms(1) by (auto simp: releaseBody_def split: option.splits)
  have r: "ledger_row_ok q" by (rule ledger_ok_find [OF assms(2) q])
  have i: "i64 (q_GPUUsed q - g) = q_GPUUsed q - g" "i64 (q_MemoryUsedGB q - m) = q_MemoryUsedGB q - m"
    "i64 (q_JobUsed q - j) = q_JobUsed q - j"
    using r assms(3-5) by (auto simp: ledger_row_ok_def intro!: i64_sub_amount)
  show ?thesis
    using that [OF q r] assms(1) by (auto simp: releaseBody_def q i)
qed

lemma reserveBody_frame:
  "reserveBody now t g m j db = (r, db') \<Longrightarrow> t' \<noteq> t \<Longrightarrow> tfind q_TenantID db' t' = tfind q_TenantID db t'"
  by (auto simp: reserveBody_def tfind_tsave dest: tfind_key split: option.splits if_splits)

lemma releaseBody_frame:
  "releaseBody now t g m j db = (r, db') \<Longrightarrow> t' \<noteq> t \<Longrightarrow> tfind q_TenantID db' t' = tfind q_TenantID db t'"
  by (auto simp: releaseBody_def tfind_tsave dest: tfind_key split: option.splits)

interpretation ql: ledger ledger_ok quotaUsage "CheckAndReserve fault now" "Release fault' now'" for fault now fault' now'
proof
  fix db t a b c
  assume "ledger_ok db" and "quotaUsage db t = Some (a, b, c)"
  then show "0 \<le> a \<and> 0 \<le> b \<and> 0 \<le> c"
    by (auto simp: quotaUsage_def ledger_row_ok_def dest: ledger_ok_find)
next
  fix t g m j db e db' assume "CheckAndReserve fault now t g m j db = (Some e, db')"
  then show "db' = db" unfolding CheckAndReserve_def by (rule retryTx_error_keeps)
next
  fix t g m j db e db' assume "Release fault' now' t g m j db = (Some e, db')"
  then show "db' = db" unfolding Release_def by (rule retryTx_error_keeps)
next
  fix db t g m j db' assume *: "ledger_ok db" "amount g" "amount m" "amount j"
    and "CheckAndReserve fault now t g m j db = (None, db')"
  then have "reserveBody now t g m j db = (None, db')" unfolding CheckAndReserve_def by (elim retryTx_ok)
  from reserveBody_ok [OF this *]
  obtain q where q: "tfind q_TenantID db t = Some q" "ledger_row_ok q"
    "q_GPUUsed q + g \<le> q_GPUQuota q" "q_MemoryUsedGB q + m \<le> q_MemoryQuotaGB q" "q_JobUsed q + j \<le> q_JobQuota q"
    "db' = tsave q_TenantID (q\<lparr>q_GPUUsed := q_GPUUsed q + g, q_MemoryUsedGB := q_MemoryUsedGB q + m,
           q_JobUsed := q_JobUsed q + j, q_UpdatedAt := now\<rparr>) db" by metis
  show "ledger_ok db' \<and> (\<exists>a b c. quotaUsage db t = Some (a, b, c) \<and> quotaUsage db' t = Some (a + g, b + m, c + j))"
    using q * tfind_key [OF q(1)]
    by (auto simp: quotaUsage_def tfind_tsave ledger_row_ok_def amount_def intro!: ledger_ok_save)
next
  fix db t g m j db' assume *: "ledger_ok db" "amount g" "amount m" "amount j"
    and "Release fault' now' t g m j db = (None, db')"
  then have "releaseBody now' t g m j db = (None, db')" unfolding Release_def by (elim retryTx_ok)
  from releaseBody_ok [OF this *]
  obtain q where q: "tfind q_TenantID db t = Some q" "ledger_row_ok q"
    "db' = tsave q_TenantID (q\<lparr>q_GPUUsed := max 0 (q_GPUUsed q - g),
           q_MemoryUsedGB := max 0 (q_MemoryUsedGB q - m), q_JobUsed := max 0 (q_JobUsed q - j),
           q_UpdatedAt := now'\<rparr>) db" by metis
  show "ledger_ok db' \<and> (\<exists>a b c. quotaUsage db t = Some (a, b, c) \<and>
      quotaUsage db' t = Some (max 0 (a - g), max 0 (b - m), max 0 (c - j)))"
    using q * tfind_key [OF q(1)]
    by (auto simp: quotaUsage_def tfind_tsave ledger_row_ok_def amount_def max_def intro!: ledger_ok_save)
next
  fix t g m j db r db' t' assume *: "CheckAndReserve fault now t g m j db = (r, db')" "t' \<noteq> t"
  show "quotaUsage db' t' = quotaUsage db t'"
    using * reserveBody_frame [of now t g m j db None db' t']
    by (cases r) (auto simp: CheckAndReserve_def quotaUsage_def dest: retryTx_ok retryTx_error_keeps)
next
  fix t g m j db r db' t' assume *: "Release fault' now' t g m j db = (r, db')" "t' \<noteq> t"
  show "quotaUsage db' t' = quotaUsage db t'"
    using * releaseBody_frame [of now' t g m j db None db' t']
    by (cases r) (auto simp: Release_def quotaUsage_def dest: retryTx_ok retryTx_error_keeps)
qed

section \<open>What the reconciler computes\<close>

definition usageOf :: "(JobRow \<Rightarrow> int) \<Rightarrow> string \<Rightarrow> JobRow list \<Rightarrow> int" where
  "usageOf f t jobs = sum_list (map f (filter (\<lambda>j. \<not> jrIsTerminal j \<and> jr_TenantID j = t) jobs))"

definition bump :: "int \<Rightarrow> int \<Rightarrow> int \<Rightarrow> Quota \<Rightarrow> Quota" where
  "bump g m n q = q\<lparr>q_GPUUsed := i64 (q_GPUUsed q + g), q_MemoryUsedGB := i64 (q_MemoryUsedGB q + m),
     q_JobUsed := i64 (q_JobUsed q + n)\<rparr>"

lemma bump_bump: "bump g m n (bump g' m' n' q) = bump (g' + g) (m' + m) (n' + n) q"
  by (simp add: bump_def arith64 add.assoc)

lemma bump_TenantID [simp]: "q_TenantID (bump g m n q) = q_TenantID q"
  "q_ID (bump g m n q) = q_ID q"
  by (simp_all add: bump_def)

definition usedStep :: "JobRow \<Rightarrow> quota_db \<Rightarrow> quota_db" where
  "usedStep j used = (if jrIsTerminal j then used else addUsage j used)"

lemma usedByJobs_eq: "usedByJobs quotas jobs = fold usedStep jobs (map resetUsage quotas)"
  by (simp add: usedByJobs_def usedStep_def [abs_def])

definition newRow :: "string \<Rightarrow> Quota" where
  "newRow t = emptyQuota\<lparr>q_TenantID := t\<rparr>"

lemma newRow_simps [simp]: "q_TenantID (newRow t) = t" "q_ID (newRow t) = []"
  by (simp_all add: newRow_def emptyQuota_def)

lemma tfind_addUsage:
  "tfind q_TenantID (addUsage j used) t =
     (if t = jr_TenantID j
      then Some (bump (jrTotalGPUs j) (jrTotalMemory j) 1
             (case tfind q_TenantID used t of Some q \<Rightarrow> q | None \<Rightarrow> newRow t))
      else tfind q_TenantID used t)"
  unfolding addUsage_def newRow_def [symmetric] bump_def [symmetric] Let_def
  by (auto simp: tfind_tsave tfind_tadd dest: tfind_key split: option.splits)

lemma addUsage_unique: "tunique q_TenantID used \<Longrightarrow> tunique q_TenantID (addUsage j used)"
  by (auto simp: addUsage_def Let_def newRow_def [symmetric] intro!: tsave_unique tadd_unique
      split: option.splits)

lemma addUsage_ids:
  "list_all (\<lambda>q. q_ID q = []) used \<Longrightarrow> list_all (\<lambda>q. q_ID q = []) (addUsage j used)"
  by (auto simp: addUsage_def Let_def newRow_def [symmetric] list_all_iff tadd_def
      dest!: tsave_set tfind_mem split: option.splits)

lemma usedStep_keeps:
  assumes "tunique q_TenantID used" and "list_all (\<lambda>q. q_ID q = []) used"
  shows "tunique q_TenantID (fold usedStep jobs used) \<and> list_all (\<lambda>q. q_ID q = []) (fold usedStep jobs used)"
  using assms
  by (induction jobs arbitrary: used) (auto simp: usedStep_def addUsage_unique addUsage_ids)

lemma usageOf_simps [simp]:
  "usageOf f t [] = 0"
  "usageOf f t (j # jobs) = (if \<not> jrIsTerminal j \<and> jr_TenantID j = t then f j else 0) + usageOf f t jobs"
  by (simp_all add: usageOf_def)

lemma usedStep_Some:
  assumes "tfind q_TenantID used t = Some (bump g m n q)"
  shows "tfind q_TenantID (fold usedStep jobs used) t =
    Some (bump (g + usageOf jrTotalGPUs t jobs) (m + usageOf jrTotalMemory t jobs) (n + usageOf (\<lambda>_. 1) t jobs) q)"
  using assms
proof (induction jobs arbitrary: used g m n)
  case (Cons j jobs)
  show ?case
  proof (cases "\<not> jrIsTerminal j \<and> jr_TenantID j = t")
    case True
    then have "tfind q_TenantID (usedStep j used) t =
        Some (bump (g + jrTotalGPUs j) (m + jrTotalMemory j) (n + 1) q)"
      using Cons.prems by (simp add: usedStep_def tfind_addUsage bump_bump)
    from Cons.IH [OF this] show ?thesis using True by (simp add: algebra_simps)
  next
    case False
    then have "tfind q_TenantID (usedStep j used) t = Some (bump g m n q)"
      using Cons.prems by (auto simp: usedStep_def tfind_addUsage)
    from Cons.IH [OF this] show ?thesis using False by auto
  qed
qed simp

definition activeOf :: "string \<Rightarrow> JobRow list \<Rightarrow> bool" where
  "activeOf t jobs = list_ex (\<lambda>j. \<not> jrIsTerminal j \<and> jr_TenantID j = t) jobs"

definition recount :: "string \<Rightarrow> JobRow list \<Rightarrow> Quota \<Rightarrow> Quota" where
  "recount t jobs = bump (usageOf jrTotalGPUs t jobs) (usageOf jrTotalMemory t jobs) (usageOf (\<lambda>_. 1) t jobs)"

lemma bump_zero: "bump 0 0 0 (resetUsage q) = resetUsage q" "bump 0 0 0 (newRow t) = newRow t"
  by (simp_all add: bump_def resetUsage_def newRow_def emptyQuota_def in_i64_def)

lemma usedStep_None:
  assumes "tfind q_TenantID used t = None"
  shows "tfind q_TenantID (fold usedStep jobs used) t =
    (if activeOf t jobs then Some (recount t jobs (newRow t)) else None)"
  using assms
proof (induction jobs arbitrary: used)
  case (Cons j jobs)
  show ?case
  proof (cases "\<not> jrIsTerminal j \<and> jr_TenantID j = t")
    case True
    then have "tfind q_TenantID (usedStep j used) t = Some (bump (jrTotalGPUs j) (jrTotalMemory j) 1 (newRow t))"
      using Cons.prems by (simp add: usedStep_def tfind_addUsage)
    from usedStep_Some [OF this] show ?thesis using True by (simp add: activeOf_def recount_def)
  next
    case False
    then have "tfind q_TenantID (usedStep j used) t = None"
      using Cons.prems by (auto simp: usedStep_def tfind_addUsage)
    from Cons.IH [OF this] show ?thesis using False by (auto simp: activeOf_def recount_def)
  qed
qed (simp add: activeOf_def)

lemma tfind_map_reset: "tfind q_TenantID (map resetUsage db) t = map_option resetUsage (tfind q_TenantID db t)"
  by (induction db) (auto simp: resetUsage_def emptyQuota_def)

lemma tfind_usedByJobs:
  "tfind q_TenantID (usedByJobs db jobs) t =
     (case tfind q_TenantID db t of
        Some q \<Rightarrow> Some (recount t jobs (resetUsage q))
      | None \<Rightarrow> if activeOf t jobs then Some (recount t jobs (newRow t)) else None)"
proof (cases "tfind q_TenantID db t")
  case None
  then show ?thesis by (simp add: usedByJobs_eq usedStep_None tfind_map_reset)
next
  case (Some q)
  then have "tfind q_TenantID (map resetUsage db) t = Some (bump 0 0 0 (resetUsage q))"
    by (simp add: tfind_map_reset bump_zero)
  from usedStep_Some [OF this] show ?thesis by (simp add: usedByJobs_eq Some recount_def)
qed

lemma usedByJobs_wf:
  assumes "tunique q_TenantID db"
  shows "tunique q_TenantID (usedByJobs db jobs) \<and> list_all (\<lambda>q. q_ID q = []) (usedByJobs db jobs)"
proof -
  have "q_TenantID \<circ> resetUsage = q_TenantID"
    by (simp add: fun_eq_iff resetUsage_def emptyQuota_def)
  then have "tunique q_TenantID (map resetUsage db)" using assms by (simp add: tunique_def)
  moreover have "list_all (\<lambda>q. q_ID q = []) (map resetUsage db)"
    by (simp add: list_all_iff resetUsage_def emptyQuota_def)
  ultimately show ?thesis unfolding usedByJobs_eq by (rule usedStep_keeps)
qed

definition ownIds :: "quota_db \<Rightarrow> bool" where
  "ownIds db = list_all (\<lambda>q. q_ID q = q_TenantID q) db"

definition upserted :: "time \<Rightarrow> Quota \<Rightarrow> Quota" where
  "upserted now q = q\<lparr>q_ID := q_TenantID q, q_UpdatedAt := now\<rparr>"

lemma UpsertQuota_own:
  assumes "ownIds db" and "q_ID q = []"
  shows "fst (UpsertQuota now q db) = None \<and> ownIds (snd (UpsertQuota now q db)) \<and>
    tfind q_TenantID (snd (UpsertQuota now q db)) t =
      (if t = q_TenantID q then Some (upserted now q) else tfind q_TenantID db t)"
proof (cases "tfind q_TenantID db (q_TenantID q)")
  case None
  then have "\<not> list_ex (\<lambda>r. q_ID r = q_TenantID q) db"
    using assms(1) by (auto simp: ownIds_def list_ex_iff list_all_iff tfind_None image_iff)
  then show ?thesis using None assms
    by (auto simp: UpsertQuota_def tfind_tadd upserted_def ownIds_def list_all_iff split: option.splits)
next
  case (Some old)
  have "q_ID old = q_TenantID q"
    using assms(1) tfind_mem [OF Some] tfind_key [OF Some] by (auto simp: ownIds_def list_all_iff)
  then show ?thesis using Some assms
    by (auto simp: UpsertQuota_def tfind_tsave upserted_def ownIds_def list_all_iff dest!: tsave_set)
qed

lemma upsert_all:
  assumes "ownIds db" and "list_all (\<lambda>q. q_ID q = []) us" and "tunique q_TenantID us"
  shows "tfind q_TenantID (fold (\<lambda>rv db. snd (UpsertQuota now rv db)) us db) t =
    (case tfind q_TenantID us t of Some rv \<Rightarrow> Some (upserted now rv) | None \<Rightarrow> tfind q_TenantID db t)"
  using assms
proof (induction us arbitrary: db)
  case (Cons u us)
  have u: "q_ID u = []" and us: "list_all (\<lambda>q. q_ID q = []) us" "tunique q_TenantID us"
    and new: "tfind q_TenantID us (q_TenantID u) = None"
    using Cons.prems by (auto simp: tunique_def tfind_None)
  note U = UpsertQuota_own [OF Cons.prems(1) u, of now]
  show ?case using Cons.IH [OF _ us, of "snd (UpsertQuota now u db)"] U [of t] new
    by (auto split: option.splits)
qed simp

lemma Reconcile_find:
  assumes "tunique q_TenantID db" and "ownIds db"
    and "\<And>xs. mset (perm xs) = mset xs"
  shows "tfind q_TenantID (Reconcile perm now None (Inr jobs) (\<lambda>_. None) db) t =
    (case tfind q_TenantID db t of
       Some q \<Rightarrow> Some (upserted now (recount t jobs (resetUsage q)))
     | None \<Rightarrow> if activeOf t jobs then Some (upserted now (recount t jobs (newRow t))) else None)"
proof -
  let ?us = "usedByJobs db jobs"
  have wf: "tunique q_TenantID ?us" "list_all (\<lambda>q. q_ID q = []) ?us"
    using usedByJobs_wf [OF assms(1)] by blast+
  have p: "tunique q_TenantID (perm ?us)" "list_all (\<lambda>q. q_ID q = []) (perm ?us)"
    and f: "tfind q_TenantID (perm ?us) t = tfind q_TenantID ?us t"
    using wf tunique_perm [OF wf(1) assms(3)] tfind_perm [OF wf(1) assms(3)]
      mset_eq_setD [OF assms(3) [of ?us]] by (auto simp: list_all_iff)
  show ?thesis
    unfolding Reconcile_def using upsert_all [OF assms(2) p(2,1), of now t]
    by (simp add: f tfind_usedByJobs split: option.splits)
qed

section \<open>Properties\<close>

datatype QuotaEvent =
    QReserve "nat \<Rightarrow> StoreError option" time string int int int
  | QRelease "nat \<Rightarrow> StoreError option" time string int int int
  | QAdjust time string int int int int

fun quotaEvent :: "QuotaEvent \<Rightarrow> quota_db \<Rightarrow> quota_db" where
  "quotaEvent (QReserve fault now t g m j) db = snd (CheckAndReserve fault now t g m j db)"
| "quotaEvent (QRelease fault now t g m j) db = snd (Release fault now t g m j db)"
| "quotaEvent (QAdjust now t og om ng nm) db = snd (AdjustReservation now t og om ng nm db)"

fun eventAmounts :: "QuotaEvent \<Rightarrow> bool" where
  "eventAmounts (QReserve fault now t g m j) = (amount g \<and> amount m \<and> amount j)"
| "eventAmounts (QRelease fault now t g m j) = (amount g \<and> amount m \<and> amount j)"
| "eventAmounts (QAdjust now t og om ng nm) = (amount og \<and> amount om \<and> amount ng \<and> amount nm)"

definition runQuota :: "QuotaEvent list \<Rightarrow> quota_db \<Rightarrow> quota_db" where
  "runQuota evs db = fold quotaEvent evs db"

lemma adjust_keeps [preserves]:
  assumes "ledger_ok db" and "amount og" "amount om" "amount ng" "amount nm"
  shows "ledger_ok (snd (AdjustReservation now t og om ng nm db))"
    and "quotaLimits (snd (AdjustReservation now t og om ng nm db)) = quotaLimits db"
proof -
  have "ledger_ok (snd (AdjustReservation now t og om ng nm db)) \<and>
    quotaLimits (snd (AdjustReservation now t og om ng nm db)) = quotaLimits db"
  proof (cases "tfind q_TenantID db t")
    case None
    then show ?thesis using assms(1) by (simp add: AdjustReservation_def adjustReservationTx_def)
  next
    case (Some q)
    define a b where "a = max 0 (q_GPUUsed q - og)" and "b = max 0 (q_MemoryUsedGB q - om)"
    have r: "ledger_row_ok q" by (rule ledger_ok_find [OF assms(1) Some])
    have i: "i64 (q_GPUUsed q - og) = q_GPUUsed q - og" "i64 (q_MemoryUsedGB q - om) = q_MemoryUsedGB q - om"
      using r assms(2,3) by (auto simp: ledger_row_ok_def intro!: i64_sub_amount)
    have ab: "0 \<le> a" "a < 2 ^ 62" "0 \<le> b" "b < 2 ^ 62"
      using r assms(2,3) by (auto simp: a_def b_def ledger_row_ok_def amount_def)
    have k: "i64 (a + ng) = a + ng" "i64 (b + nm) = b + nm"
      using ab assms(4,5) by (auto intro!: i64_add_amount)
    have row: "ledger_row_ok (q\<lparr>q_GPUUsed := a + ng, q_MemoryUsedGB := b + nm, q_UpdatedAt := now\<rparr>)"
      if "a + ng \<le> q_GPUQuota q" "b + nm \<le> q_MemoryQuotaGB q"
      using that r ab assms(4,5) by (simp add: ledger_row_ok_def amount_def)
    show ?thesis
      using assms(1) row tfind_key [OF Some] Some
      by (auto simp: AdjustReservation_def adjustReservationTx_def Let_def i k a_def [symmetric]
          b_def [symmetric] quotaLimits_def tfind_tsave intro!: ledger_ok_save)
  qed
  then show "ledger_ok (snd (AdjustReservation now t og om ng nm db))"
    and "quotaLimits (snd (AdjustReservation now t og om ng nm db)) = quotaLimits db" by simp_all
qed

lemma quotaLimits_save:
  assumes "tfind q_TenantID db t = Some q" and "q_TenantID q' = q_TenantID q"
    and "q_GPUQuota q' = q_GPUQuota q" "q_MemoryQuotaGB q' = q_MemoryQuotaGB q" "q_JobQuota q' = q_JobQuota q"
  shows "quotaLimits (tsave q_TenantID q' db) = quotaLimits db"
  using assms tfind_key [OF assms(1)] by (auto simp: quotaLimits_def tfind_tsave fun_eq_iff)

lemma body_limits:
  "reserveBody now t g m j db = (r, db') \<Longrightarrow> quotaLimits db' = quotaLimits db"
  "releaseBody now t g m j db = (r, db') \<Longrightarrow> quotaLimits db' = quotaLimits db"
  by (auto simp: reserveBody_def releaseBody_def quotaLimits_save split: option.splits if_splits)

lemma retryTx_limits:
  assumes "\<And>r db'. fn db = (r, db') \<Longrightarrow> quotaLimits db' = quotaLimits db"
  shows "quotaLimits (snd (retryTx fault fn db)) = quotaLimits db"
  using assms by (cases rule: retryTx_cases [of fault fn db]) auto

lemma reserve_release_limits:
  "quotaLimits (snd (CheckAndReserve fault now t g m j db)) = quotaLimits db"
  "quotaLimits (snd (Release fault now t g m j db)) = quotaLimits db"
  unfolding CheckAndReserve_def Release_def by (rule retryTx_limits, erule body_limits)+

lemma quotaEvent_keeps:
  assumes "ledger_ok db" and "eventAmounts e"
  shows "ledger_ok (quotaEvent e db) \<and> quotaLimits (quotaEvent e db) = quotaLimits db"
  using assms
  by (cases e) (simp_all add: ql.good_reserve ql.good_release adjust_keeps reserve_release_limits)

text \<open>C3: The ledger never exceeds a quota.  From a ledger in which every tenant's GPU, memory
  and job usage lies between 0 and its limit, any sequence of reservations, releases and
  adjustments with non-negative amounts, with any database faults before or during them, ends in such a ledger,
  and no operation changes a limit.  Amounts and limits below 2^62, so that no 64-bit sum wraps.\<close>
theorem quota_never_exceeded:
  assumes "ledger_ok db" and "list_all eventAmounts evs"
  shows "ledger_ok (runQuota evs db) \<and> quotaLimits (runQuota evs db) = quotaLimits db"
  using assms
proof (induction evs arbitrary: db)
  case (Cons e evs)
  then show ?case using quotaEvent_keeps [of db e] by (simp add: runQuota_def)
qed (simp add: runQuota_def)

definition demoQuota :: Quota where
  "demoQuota = emptyQuota\<lparr>q_ID := ''acme'', q_TenantID := ''acme'', q_GPUQuota := 8,
     q_MemoryQuotaGB := 64, q_JobQuota := 2\<rparr>"

lemma quota_never_exceeded_witness:
  "ledger_ok (runQuota [QReserve (\<lambda>_. None) 1 ''acme'' 6 32 1, QReserve (\<lambda>_. None) 2 ''acme'' 6 32 1] [demoQuota])
   \<and> quotaUsage (runQuota [QReserve (\<lambda>_. None) 1 ''acme'' 6 32 1, QReserve (\<lambda>_. None) 2 ''acme'' 6 32 1]
       [demoQuota]) ''acme'' = Some (6, 32, 1)"
proof
  let ?evs = "[QReserve (\<lambda>_. None) 1 ''acme'' 6 32 1, QReserve (\<lambda>_. None) 2 ''acme'' 6 32 1]"
  have "ledger_ok [demoQuota]"
    by (simp add: ledger_ok_def demoQuota_def emptyQuota_def ledger_row_ok_def tunique_def)
  then show "ledger_ok (runQuota ?evs [demoQuota])"
    using quota_never_exceeded [of "[demoQuota]" ?evs] by (simp add: amount_def)
  show "quotaUsage (runQuota ?evs [demoQuota]) ''acme'' = Some (6, 32, 1)"
    by (simp add: runQuota_def CheckAndReserve_def retryTx_def maxAttempts_def eval_nat_numeral
        Transaction_def reserveBody_def demoQuota_def emptyQuota_def quotaUsage_def in_i64_def)
qed

text \<open>C4: A reservation is all or nothing, whatever the database does: it either reports an error
  and leaves the ledger as it was, or adds exactly the three amounts to the tenant's row, which then
  fits the limits, and touches no other tenant; and releasing the same amounts after it gives
  back the usage of every tenant as it was before.\<close>
theorem reservation_atomic_and_reversible:
  assumes "ledger_ok db" and "amount g" "amount m" "amount j"
  shows "(case CheckAndReserve fault now t g m j db of
      (Some e, db') \<Rightarrow> db' = db
    | (None, db') \<Rightarrow> ledger_ok db'
        \<and> (\<exists>a b c. quotaUsage db t = Some (a, b, c) \<and> quotaUsage db' t = Some (a + g, b + m, c + j))
        \<and> (\<forall>t'. t' = t \<or> quotaUsage db' t' = quotaUsage db t')
        \<and> (fst (Release fault' now' t g m j db') = None \<longrightarrow>
             quotaUsage (snd (Release fault' now' t g m j db')) = quotaUsage db))"
proof (cases "CheckAndReserve fault now t g m j db")
  case (Pair r db')
  show ?thesis
  proof (cases r)
    case None
    note ok = Pair [unfolded None]
    have "fst (Release fault' now' t g m j db') = None \<longrightarrow>
        quotaUsage (snd (Release fault' now' t g m j db')) = quotaUsage db"
      using ql.reserve_then_release [OF assms ok, of fault' now'] by (metis prod.collapse)
    moreover have "\<forall>t'. t' = t \<or> quotaUsage db' t' = quotaUsage db t'"
      using ql.reserve_frame [OF ok] by blast
    ultimately show ?thesis
      unfolding ok using ql.reserve_ok [OF assms ok] by simp
  next
    case (Some e)
    then show ?thesis using Pair ql.reserve_err by fastforce
  qed
qed

lemma reservation_atomic_and_reversible_witness:
  "quotaUsage (snd (Release (\<lambda>_. None) 2 ''acme'' 6 32 1
      (snd (CheckAndReserve (\<lambda>_. None) 1 ''acme'' 6 32 1 [demoQuota])))) = quotaUsage [demoQuota]"
proof -
  let ?q = "demoQuota\<lparr>q_GPUUsed := 6, q_MemoryUsedGB := 32, q_JobUsed := 1, q_UpdatedAt := 1\<rparr>"
  have g: "ledger_ok [demoQuota]"
    by (simp add: ledger_ok_def demoQuota_def emptyQuota_def ledger_row_ok_def tunique_def)
  have r: "CheckAndReserve (\<lambda>_. None) 1 ''acme'' 6 32 1 [demoQuota] = (None, [?q])"
    by (simp add: CheckAndReserve_def retryTx_def maxAttempts_def eval_nat_numeral
        Transaction_def reserveBody_def demoQuota_def emptyQuota_def in_i64_def)
  have "fst (Release (\<lambda>_. None) 2 ''acme'' 6 32 1 [?q]) = None"
    by (simp add: Release_def retryTx_def maxAttempts_def eval_nat_numeral
        Transaction_def releaseBody_def demoQuota_def emptyQuota_def)
  then show ?thesis
    using reservation_atomic_and_reversible [OF g, where fault = "\<lambda>_. None" and fault' = "\<lambda>_. None"
          and g = 6 and m = 32 and j = 1 and t = "''acme''" and now = 1 and now' = 2]
    by (simp add: r amount_def)
qed

text \<open>C5: The reconciler rebuilds the ledger from the jobs.  When nothing fails, after a reconciliation every
  tenant that has a quota keeps its limits and its usage is the 64-bit total of the GPUs, the memory
  and the number of its active jobs; a tenant without a quota gets a row of limit 0 if it has active
  jobs; all other rows stay; and the order in which the tenants are written does not matter.\<close>
theorem reconcile_recomputes:
  assumes "tunique q_TenantID db" and "ownIds db"
    and "\<And>xs. mset (perm xs) = mset xs"
  shows "tfind q_TenantID (Reconcile perm now None (Inr jobs) (\<lambda>_. None) db) t =
    (case tfind q_TenantID db t of
       Some q \<Rightarrow> Some (upserted now (recount t jobs (resetUsage q)))
     | None \<Rightarrow> if activeOf t jobs then Some (upserted now (recount t jobs (newRow t))) else None)"
  by (rule Reconcile_find [OF assms])

lemma reconcile_recomputes_witness:
  "map_option q_GPUUsed (tfind q_TenantID (Reconcile rev 9 None
      (Inr [emptyJobRow\<lparr>jr_TenantID := ''acme'', jr_Status := JobStatusRunning, jr_GPUs := 2,
             jr_Distributed := True, jr_Replicas := 3\<rparr>,
            emptyJobRow\<lparr>jr_TenantID := ''acme'', jr_Status := JobStatusFailed, jr_GPUs := 4\<rparr>])
      (\<lambda>_. None) [demoQuota]) ''acme'') = Some 8"
proof -
  have "tunique q_TenantID [demoQuota]" and "ownIds [demoQuota]"
    by (simp_all add: tunique_def ownIds_def demoQuota_def)
  then show ?thesis
    by (subst reconcile_recomputes)
      (simp_all add: demoQuota_def emptyQuota_def upserted_def recount_def bump_def resetUsage_def
        emptyJobRow_def jrIsTerminal_def jrTotalGPUs_def jrEffectiveReplicas_def in_i64_def)
qed

end
