(* ===== verification/JobStore.thy ===== *)
theory JobStore
  imports QuotaStore
begin

text \<open>
  The job and resource tables of \<^verbatim>\<open>storage/storage.go\<close>.  Every operation takes what the database
  may answer instead of doing the work, \<^term>\<open>f\<close> (None when it does it), and the clock \<^term>\<open>now\<close>
  where the code stamps a row.  The time stamps of resource rows are left out.
\<close>

section \<open>Jobs\<close>

definition CreateJob :: "StoreError option \<Rightarrow> string \<Rightarrow> time \<Rightarrow> JobRow \<Rightarrow> JobRow list \<Rightarrow> StoreError option \<times> JobRow \<times> JobRow list" where
  "CreateJob f newID now job db =
     (let job = job\<lparr>jr_ID := newID, jr_Status := JobStatusPending, jr_CreatedAt := now, jr_UpdatedAt := now\<rparr> in
      case f of
        Some e \<Rightarrow> (Some e, job, db)
      | None \<Rightarrow>
          if tfind jr_ID db newID \<noteq> None then (Some (DbError ''unique constraint''), job, db)
          else (None, job, tadd job db))"

text \<open>\<^verbatim>\<open>ORDER BY created_at DESC\<close>.\<close>

definition GetJobs :: "StoreError option \<Rightarrow> JobRow list \<Rightarrow> StoreError + JobRow list" where
  "GetJobs f db = (case f of Some e \<Rightarrow> Inl e | None \<Rightarrow> Inr (sort_key (\<lambda>j. - jr_CreatedAt j) db))"

definition GetJobsByTenant :: "StoreError option \<Rightarrow> string \<Rightarrow> JobRow list \<Rightarrow> StoreError + JobRow list" where
  "GetJobsByTenant f tenant db =
     (case f of
        Some e \<Rightarrow> Inl e
      | None \<Rightarrow> Inr (sort_key (\<lambda>j. - jr_CreatedAt j) (filter (\<lambda>j. tenant = [] \<or> jr_TenantID j = tenant) db)))"

definition GetJob :: "StoreError option \<Rightarrow> string \<Rightarrow> JobRow list \<Rightarrow> StoreError + JobRow" where
  "GetJob f id0 db =
     (case f of
        Some e \<Rightarrow> Inl e
      | None \<Rightarrow> (case tfind jr_ID db id0 of None \<Rightarrow> Inl RecordNotFound | Some j \<Rightarrow> Inr j))"

definition JobExistsForTenant :: "StoreError option \<Rightarrow> string \<Rightarrow> string \<Rightarrow> JobRow list \<Rightarrow> StoreError + bool" where
  "JobExistsForTenant f tenant jobID db =
     (if jobID = [] then Inr False
      else case f of
        Some e \<Rightarrow> Inl e
      | None \<Rightarrow> Inr (0 < length (filter (\<lambda>j. jr_ID j = jobID \<and> (tenant = [] \<or> jr_TenantID j = tenant)) db)))"

definition withExisting ::
    "StoreError option \<Rightarrow> time \<Rightarrow> (JobRow \<Rightarrow> JobRow \<Rightarrow> JobRow) \<Rightarrow> JobRow \<Rightarrow> JobRow list
      \<Rightarrow> StoreError option \<times> JobRow \<times> JobRow list" where
  "withExisting f now write job db =
     (case f of
        Some e \<Rightarrow> (Some e, job, db)
      | None \<Rightarrow> (case tfind jr_ID db (jr_ID job) of
          None \<Rightarrow> (Some RecordNotFound, job, db)
        | Some existing \<Rightarrow>
            let job = job\<lparr>jr_UpdatedAt := now\<rparr> in (None, job, tsave jr_ID (write job existing) db)))"

definition UpdateJob :: "StoreError option \<Rightarrow> time \<Rightarrow> JobRow \<Rightarrow> JobRow list \<Rightarrow> StoreError option \<times> JobRow \<times> JobRow list" where
  "UpdateJob f now = withExisting f now (\<lambda>job existing. job)"

definition specColumns :: "JobRow \<Rightarrow> JobRow \<Rightarrow> JobRow" where
  "specColumns job r = r\<lparr>jr_Name := jr_Name job, jr_Type := jr_Type job, jr_Priority := jr_Priority job,
     jr_Image := jr_Image job, jr_Command := jr_Command job, jr_GPUs := jr_GPUs job, jr_Memory := jr_Memory job,
     jr_GPUMemory := jr_GPUMemory job, jr_GPUCores := jr_GPUCores job, jr_Distributed := jr_Distributed job,
     jr_Framework := jr_Framework job, jr_Replicas := jr_Replicas job, jr_MinAvailable := jr_MinAvailable job,
     jr_DatasetName := jr_DatasetName job, jr_MountPath := jr_MountPath job, jr_MaxRuntime := jr_MaxRuntime job,
     jr_CheckpointEnabled := jr_CheckpointEnabled job, jr_CheckpointInterval := jr_CheckpointInterval job,
     jr_CheckpointMaxRetries := jr_CheckpointMaxRetries job, jr_RegisterModelEnabled := jr_RegisterModelEnabled job,
     jr_RegisterModelID := jr_RegisterModelID job, jr_RegisterVersionTag := jr_RegisterVersionTag job,
     jr_CodeCommit := jr_CodeCommit job, jr_TemplateID := jr_TemplateID job, jr_UpdatedAt := jr_UpdatedAt job\<rparr>"

definition UpdateJobSpec :: "StoreError option \<Rightarrow> time \<Rightarrow> JobRow \<Rightarrow> JobRow list \<Rightarrow> StoreError option \<times> JobRow \<times> JobRow list" where
  "UpdateJobSpec f now = withExisting f now specColumns"

definition statusColumns :: "JobRow \<Rightarrow> JobRow \<Rightarrow> JobRow" where
  "statusColumns job r = r\<lparr>jr_Status := jr_Status job, jr_FailureReason := jr_FailureReason job,
     jr_SubmitAttempts := jr_SubmitAttempts job, jr_LastSubmitAt := jr_LastSubmitAt job,
     jr_StartedAt := jr_StartedAt job, jr_VolcanoJobName := jr_VolcanoJobName job, jr_QueueName := jr_QueueName job,
     jr_LatestCheckpointURI := jr_LatestCheckpointURI job, jr_LatestCheckpointStep := jr_LatestCheckpointStep job,
     jr_LatestCheckpointAt := jr_LatestCheckpointAt job, jr_LatestCheckpointHash := jr_LatestCheckpointHash job,
     jr_LatestCheckpointSizeBytes := jr_LatestCheckpointSizeBytes job,
     jr_ResumeFrom := jr_ResumeFrom job, jr_RetryAttempts := jr_RetryAttempts job,
     jr_RegisteredVersionID := jr_RegisteredVersionID job,
     jr_RegisterAdapterEnabled := jr_RegisterAdapterEnabled job, jr_AdapterBaseModel := jr_AdapterBaseModel job,
     jr_AdapterMethod := jr_AdapterMethod job, jr_AdapterRank := jr_AdapterRank job,
     jr_RegisteredAdapterID := jr_RegisteredAdapterID job, jr_UpdatedAt := jr_UpdatedAt job\<rparr>"

definition UpdateJobStatus :: "StoreError option \<Rightarrow> time \<Rightarrow> JobRow \<Rightarrow> JobRow list \<Rightarrow> StoreError option \<times> JobRow \<times> JobRow list" where
  "UpdateJobStatus f now = withExisting f now statusColumns"

definition DeleteJob :: "StoreError option \<Rightarrow> string \<Rightarrow> JobRow list \<Rightarrow> StoreError option \<times> JobRow list" where
  "DeleteJob f id0 db = (case f of Some e \<Rightarrow> (Some e, db) | None \<Rightarrow> (None, tdelete jr_ID id0 db))"

text \<open>\<^verbatim>\<open>ORDER BY priority DESC, created_at ASC\<close>.\<close>

definition byPriority :: "JobRow list \<Rightarrow> JobRow list" where
  "byPriority = sort_key (\<lambda>j. (- jr_Priority j, jr_CreatedAt j))"

definition GetPendingJobs :: "StoreError option \<Rightarrow> JobRow list \<Rightarrow> StoreError + JobRow list" where
  "GetPendingJobs f db =
     (case f of Some e \<Rightarrow> Inl e | None \<Rightarrow> Inr (byPriority (filter (\<lambda>j. jr_Status j = JobStatusPending) db)))"

definition GetActiveJobs :: "StoreError option \<Rightarrow> JobRow list \<Rightarrow> StoreError + JobRow list" where
  "GetActiveJobs f db =
     (case f of
        Some e \<Rightarrow> Inl e
      | None \<Rightarrow> Inr (byPriority (filter
          (\<lambda>j. jr_Status j \<notin> {JobStatusCompleted, JobStatusFailed, JobStatusCancelled}) db)))"

section \<open>Resources\<close>

definition CreateResource :: "StoreError option \<Rightarrow> string \<Rightarrow> Resource \<Rightarrow> Resource list \<Rightarrow> StoreError option \<times> Resource list" where
  "CreateResource f newID r db =
     (case f of
        Some e \<Rightarrow> (Some e, db)
      | None \<Rightarrow>
          if tfind res_ID db newID \<noteq> None then (Some (DbError ''unique constraint''), db)
          else (None, tadd (r\<lparr>res_ID := newID\<rparr>) db))"

definition GetResourcesByCluster :: "StoreError option \<Rightarrow> string \<Rightarrow> Resource list \<Rightarrow> StoreError + Resource list" where
  "GetResourcesByCluster f cluster db =
     (case f of Some e \<Rightarrow> Inl e | None \<Rightarrow> Inr (filter (\<lambda>r. res_ClusterID r = cluster) db))"

definition GetAvailableResources :: "StoreError option \<Rightarrow> Resource list \<Rightarrow> StoreError + Resource list" where
  "GetAvailableResources f db =
     (case f of
        Some e \<Rightarrow> Inl e
      | None \<Rightarrow> Inr (filter (\<lambda>r. res_Status r = ResourceStatusAvailable \<and> res_AvailableMemory r > 0) db))"

definition UpdateResource :: "StoreError option \<Rightarrow> Resource \<Rightarrow> Resource list \<Rightarrow> StoreError option \<times> Resource list" where
  "UpdateResource f r db = (case f of Some e \<Rightarrow> (Some e, db) | None \<Rightarrow> (None, tupsert res_ID r db))"

definition DeleteResource :: "StoreError option \<Rightarrow> string \<Rightarrow> Resource list \<Rightarrow> StoreError option \<times> Resource list" where
  "DeleteResource f id0 db = (case f of Some e \<Rightarrow> (Some e, db) | None \<Rightarrow> (None, tdelete res_ID id0 db))"

text \<open>
  One transaction: \<^term>\<open>faults i\<close> is what the database answers at the write of the i-th incoming row; the ids
  of new rows come from \<^term>\<open>fresh i\<close>.  An error rolls everything back.
\<close>

definition observed :: "Resource \<Rightarrow> Resource \<Rightarrow> Resource" where
  "observed r existing = existing\<lparr>res_Type := res_Type r, res_Vendor := res_Vendor r, res_Model := res_Model r,
     res_TotalGPUs := res_TotalGPUs r, res_UsedGPUs := res_UsedGPUs r, res_TotalMemory := res_TotalMemory r,
     res_AvailableMemory := res_AvailableMemory r, res_Status := res_Status r\<rparr>"

primrec upsertLoop ::
    "(nat \<Rightarrow> StoreError option) \<Rightarrow> (nat \<Rightarrow> string) \<Rightarrow> string \<Rightarrow> nat \<Rightarrow> Resource list \<Rightarrow> Resource list
      \<Rightarrow> StoreError option \<times> Resource list" where
  "upsertLoop faults fresh cluster i [] db = (None, db)"
| "upsertLoop faults fresh cluster i (res # incoming) db =
     (let res = res\<lparr>res_ClusterID := cluster\<rparr> in
      case List.find (\<lambda>r. res_ClusterID r = cluster \<and> res_Name r = res_Name res) db of
        None \<Rightarrow>
          (case CreateResource (faults i) (fresh i) res db of
             (Some e, db) \<Rightarrow> (Some e, db)
           | (None, db) \<Rightarrow> upsertLoop faults fresh cluster (Suc i) incoming db)
      | Some existing \<Rightarrow>
          (case UpdateResource (faults i) (observed res existing) db of
             (Some e, db) \<Rightarrow> (Some e, db)
           | (None, db) \<Rightarrow> upsertLoop faults fresh cluster (Suc i) incoming db))"

definition UpsertClusterResources ::
    "StoreError option \<Rightarrow> (nat \<Rightarrow> StoreError option) \<Rightarrow> (nat \<Rightarrow> string) \<Rightarrow> string \<Rightarrow> Resource list \<Rightarrow> Resource list
      \<Rightarrow> StoreError option \<times> Resource list" where
  "UpsertClusterResources f faults fresh cluster incoming db =
     Transaction f (upsertLoop faults fresh cluster 0 incoming) db"

section \<open>What an update keeps\<close>

lemma withExisting_ok:
  assumes "withExisting f now write job db = (None, job', db')"
  shows "\<exists>r. tfind jr_ID db (jr_ID job) = Some r \<and> job' = job\<lparr>jr_UpdatedAt := now\<rparr>
    \<and> db' = tsave jr_ID (write job' r) db"
  using assms by (auto simp: withExisting_def Let_def split: option.splits)

lemma withExisting_error:
  "withExisting f now write job db = (Some e, job', db') \<Longrightarrow> job' = job \<and> db' = db"
  by (auto simp: withExisting_def Let_def split: option.splits)

lemma statusColumns_id [simp]: "jr_ID (statusColumns job r) = jr_ID r"
  by (simp add: statusColumns_def)

lemma statusColumns_fields [simp]:
  "jr_Status (statusColumns job r) = jr_Status job" "jr_VolcanoJobName (statusColumns job r) = jr_VolcanoJobName job"
  "jr_TenantID (statusColumns job r) = jr_TenantID r" "jr_GPUs (statusColumns job r) = jr_GPUs r"
  "jr_SubmitAttempts (statusColumns job r) = jr_SubmitAttempts job" "jr_StartedAt (statusColumns job r) = jr_StartedAt job"
  "jr_ClusterID (statusColumns job r) = jr_ClusterID r" "jr_Type (statusColumns job r) = jr_Type r"
  "jr_FailureReason (statusColumns job r) = jr_FailureReason job" "jr_RetryAttempts (statusColumns job r) = jr_RetryAttempts job"
  by (simp_all add: statusColumns_def)

lemma UpdateJobStatus_find:
  "tfind jr_ID (snd (snd (UpdateJobStatus f now job db))) k =
     (if fst (UpdateJobStatus f now job db) = None \<and> k = jr_ID job
      then map_option (statusColumns (job\<lparr>jr_UpdatedAt := now\<rparr>)) (tfind jr_ID db k) else tfind jr_ID db k)"
  by (auto simp: UpdateJobStatus_def withExisting_def Let_def tfind_tsave split: option.splits dest: tfind_key)

lemma UpdateJobStatus_unique:
  "tunique jr_ID db \<Longrightarrow> tunique jr_ID (snd (snd (UpdateJobStatus f now job db)))"
  by (auto simp: UpdateJobStatus_def withExisting_def Let_def tsave_unique split: option.splits)

end
