(* ===== verification/JobService.thy ===== *)
theory JobService
  imports JobStore
begin

text \<open>
  \<^verbatim>\<open>app/job/job.go\<close>: submission of pending jobs to the cluster, the status sync with its detection of
  vanished workloads, runtime limits, cancellation, and scheduling without a cluster.  Whatever the code
  asks of the database, the cluster and the clock is answered by an environment, by the number of the
  call; calls that act on the cluster are recorded in order.  The per-job submit lock makes one
  submission of a job a single step; its table of locks is not modelled.
\<close>

section \<open>State and environment\<close>

datatype ClusterCall = CallCreate string string | CallDelete string

datatype JobMsg = MsgStateChanged string string JobStatus string bool
  | MsgSubmitted string string ModelJobType int string
  | MsgAssignment string string int int

record JobWorld =
  jw_rows :: "JobRow list"
  jw_resources :: "Resource list"
  jw_missing :: "string \<Rightarrow> nat"
  jw_bus :: "JobMsg list"
  jw_calls :: "ClusterCall list"
  jw_tick :: nat

text \<open>
  \<^term>\<open>je_client n c\<close>: whether the registry has an enabled client of cluster c; \<^term>\<open>je_create\<close> gives the name of
  the new cluster object or an error, \<^term>\<open>je_delete\<close> an error or None, \<^term>\<open>je_sync\<close> the states by name.
  \<^term>\<open>je_quote\<close> is \<^verbatim>\<open>%q\<close>.
\<close>

record JobEnv =
  je_fault :: "nat \<Rightarrow> StoreError option"
  je_clock :: "nat \<Rightarrow> time"
  je_client :: "nat \<Rightarrow> string \<Rightarrow> bool"
  je_create :: "nat \<Rightarrow> JobRow \<Rightarrow> string + string"
  je_delete :: "nat \<Rightarrow> string \<Rightarrow> string option"
  je_sync :: "nat \<Rightarrow> string \<Rightarrow> string + (string \<Rightarrow> JobState option)"
  je_quote :: "string \<Rightarrow> string"

datatype JobSvcError = SvcStore StoreError | SvcCluster string | SvcPersistName StoreError | SvcNil

definition maxSubmitAttempts :: int where "maxSubmitAttempts = 5"
definition submitBackoffBase :: duration where "submitBackoffBase = 5 * Second"
definition submitBackoffMax :: duration where "submitBackoffMax = 5 * Minute"
definition orphanConfirmThreshold :: nat where "orphanConfirmThreshold = 3"
definition maxFailureReasonLen :: nat where "maxFailureReasonLen = 500"

definition truncateJobReason :: "string \<Rightarrow> string" where
  "truncateJobReason reason =
     (if length reason \<le> maxFailureReasonLen then reason else take maxFailureReasonLen reason @ ''...'')"

definition tick :: "JobWorld \<Rightarrow> JobWorld" where
  "tick w = w\<lparr>jw_tick := Suc (jw_tick w)\<rparr>"

definition nowOf :: "JobEnv \<Rightarrow> JobWorld \<Rightarrow> time" where
  "nowOf env w = je_clock env (jw_tick w)"

definition publish :: "JobMsg \<Rightarrow> JobWorld \<Rightarrow> JobWorld" where
  "publish m w = w\<lparr>jw_bus := jw_bus w @ [m]\<rparr>"

definition enabled :: "JobEnv \<Rightarrow> JobWorld \<Rightarrow> string \<Rightarrow> bool" where
  "enabled env w cluster = je_client env (jw_tick w) cluster"

definition updateStatus :: "JobEnv \<Rightarrow> JobRow \<Rightarrow> JobWorld \<Rightarrow> StoreError option \<times> JobRow \<times> JobWorld" where
  "updateStatus env job w =
     (let (r, job', rows) = UpdateJobStatus (je_fault env (jw_tick w)) (nowOf env w) job (jw_rows w)
      in (r, job', tick (w\<lparr>jw_rows := rows\<rparr>)))"

definition getJob :: "JobEnv \<Rightarrow> string \<Rightarrow> JobWorld \<Rightarrow> (StoreError + JobRow) \<times> JobWorld" where
  "getJob env id0 w = (GetJob (je_fault env (jw_tick w)) id0 (jw_rows w), tick w)"

definition createObject :: "JobEnv \<Rightarrow> JobRow \<Rightarrow> JobWorld \<Rightarrow> (string + string) \<times> JobWorld" where
  "createObject env job w =
     (case je_create env (jw_tick w) job of
        Inl e \<Rightarrow> (Inl e, tick w)
      | Inr nm \<Rightarrow> (Inr nm, tick (w\<lparr>jw_calls := jw_calls w @ [CallCreate (jr_ID job) nm]\<rparr>)))"

definition deleteObject :: "JobEnv \<Rightarrow> string \<Rightarrow> JobWorld \<Rightarrow> string option \<times> JobWorld" where
  "deleteObject env nm w = (je_delete env (jw_tick w) nm, tick (w\<lparr>jw_calls := jw_calls w @ [CallDelete nm]\<rparr>))"

text \<open>\<^verbatim>\<open>adapter/job.go\<close>.\<close>

fun jobTypeOf :: "ModelJobType \<Rightarrow> JobType" where
  "jobTypeOf MJTraining = JobTypeTraining"
| "jobTypeOf MJInference = JobTypeInference"
| "jobTypeOf MJBatch = JobTypeBatch"
| "jobTypeOf MJDataClean = OtherJobType ''data-clean''"
| "jobTypeOf MJDataAugment = OtherJobType ''data-augment''"
| "jobTypeOf MJDataETL = OtherJobType ''data-etl''"
| "jobTypeOf MJDataAnnotation = OtherJobType ''data-annotation''"
| "jobTypeOf (OtherModelJobType s) = OtherJobType s"

definition JobFromModel :: "JobRow \<Rightarrow> Job" where
  "JobFromModel m = \<lparr>job_ID = jr_ID m, job_ClusterID = jr_ClusterID m, job_Name = jr_Name m,
     job_Type = jobTypeOf (jr_Type m), job_Status = jr_Status m, job_Memory = jr_Memory m\<rparr>"

definition JobSyncToModel :: "Job \<Rightarrow> JobRow \<Rightarrow> JobRow" where
  "JobSyncToModel agg m = m\<lparr>jr_Status := job_Status agg\<rparr>"

fun queueOf :: "ModelJobType \<Rightarrow> string" where
  "queueOf MJInference = ''inference-queue''"
| "queueOf MJTraining = ''training-queue''"
| "queueOf MJBatch = ''batch-queue''"
| "queueOf (OtherModelJobType _) = []"
| "queueOf _ = ''data-queue''"

fun stateText :: "JobState \<Rightarrow> string" where
  "stateText JobStatePending = ''Pending''"
| "stateText JobStateRunning = ''Running''"
| "stateText JobStateCompleted = ''Completed''"
| "stateText JobStateFailed = ''Failed''"
| "stateText JobStateTerminated = ''Terminated''"
| "stateText JobStateAborted = ''Aborted''"
| "stateText JobStateTerminating = ''Terminating''"
| "stateText JobStateAborting = ''Aborting''"
| "stateText JobStateRestarting = ''Restarting''"
| "stateText JobStateCompleting = ''Completing''"
| "stateText (OtherState s) = s"

section \<open>Status sync\<close>

definition onStateChanged :: "JobRow \<Rightarrow> JobWorld \<Rightarrow> JobWorld" where
  "onStateChanged job =
     publish (MsgStateChanged (jr_ID job) (jr_ClusterID job) (jr_Status job) (jr_TenantID job) (jrIsTerminal job))"

definition stampStart :: "time \<Rightarrow> JobRow \<Rightarrow> JobRow" where
  "stampStart now job =
     (if jr_Status job = JobStatusRunning \<and> jr_StartedAt job = None then job\<lparr>jr_StartedAt := Some now\<rparr> else job)"

definition markRunning :: "JobEnv \<Rightarrow> JobRow \<Rightarrow> JobWorld \<Rightarrow> bool \<times> JobRow" where
  "markRunning env job w =
     (let (ok, agg) = MarkRunning (JobFromModel job) in
      if \<not> ok then (False, job)
      else (True, stampStart (nowOf env w) (JobSyncToModel agg job)))"

definition bumpMissingCount :: "string \<Rightarrow> JobWorld \<Rightarrow> nat \<times> JobWorld" where
  "bumpMissingCount jobID w =
     (let n = Suc (jw_missing w jobID) in (n, w\<lparr>jw_missing := (jw_missing w)(jobID := n)\<rparr>))"

definition resetMissingCount :: "string \<Rightarrow> JobWorld \<Rightarrow> JobWorld" where
  "resetMissingCount jobID w = w\<lparr>jw_missing := (jw_missing w)(jobID := 0)\<rparr>"

definition applyVolcanoState :: "JobEnv \<Rightarrow> JobRow \<Rightarrow> JobState \<Rightarrow> JobWorld \<Rightarrow> bool \<times> JobWorld" where
  "applyVolcanoState env job state w =
     (let (ok, agg) = ApplyVolcanoState state (JobFromModel job) in
      if \<not> ok then (False, w)
      else
        let job = stampStart (nowOf env w) (JobSyncToModel agg job);
            job = (if jr_Status job = JobStatusFailed \<and> jr_FailureReason job = []
                   then job\<lparr>jr_FailureReason :=
                     truncateJobReason (''volcano job entered state '' @ je_quote env (stateText state))\<rparr> else job);
            job = (if jr_Status job = JobStatusCompleted then job\<lparr>jr_FailureReason := []\<rparr> else job) in
        case updateStatus env job w of
          (Some _, _, w) \<Rightarrow> (False, w)
        | (None, job, w) \<Rightarrow> (True, onStateChanged job w))"

definition expireJob :: "JobEnv \<Rightarrow> JobRow \<Rightarrow> string \<Rightarrow> JobWorld \<Rightarrow> JobWorld" where
  "expireJob env job reason w =
     (let w1 = (if jr_VolcanoJobName job \<noteq> [] \<and> enabled env w (jr_ClusterID job)
                then snd (deleteObject env (jr_VolcanoJobName job) w) else w);
          job = job\<lparr>jr_VolcanoJobName := []\<rparr>;
          (ok, agg) = MarkFailed (JobFromModel job) in
      if \<not> ok then w1
      else
        let job = (JobSyncToModel agg job)\<lparr>jr_FailureReason := truncateJobReason reason\<rparr> in
        case updateStatus env job w1 of
          (Some _, _, w2) \<Rightarrow> w2
        | (None, job, w2) \<Rightarrow> onStateChanged job w2)"

definition missingReason :: "JobEnv \<Rightarrow> JobRow \<Rightarrow> string" where
  "missingReason env job = ''volcano job '' @ je_quote env (jr_VolcanoJobName job) @ '' no longer exists in cluster ''
     @ jr_ClusterID job @ '' (deleted externally or garbage collected)''"

definition handleMissingJob :: "JobEnv \<Rightarrow> JobRow \<Rightarrow> JobWorld \<Rightarrow> bool \<times> JobWorld" where
  "handleMissingJob env job w =
     (let (n, w) = bumpMissingCount (jr_ID job) w in
      if n < orphanConfirmThreshold then (False, w)
      else (True, resetMissingCount (jr_ID job) (expireJob env job (missingReason env job) w)))"

primrec syncJobs :: "JobEnv \<Rightarrow> (string \<Rightarrow> JobState option) \<Rightarrow> JobRow list \<Rightarrow> JobWorld \<Rightarrow> JobWorld" where
  "syncJobs env statuses [] w = w"
| "syncJobs env statuses (job # jobs) w =
     syncJobs env statuses jobs
       (case statuses (jr_VolcanoJobName job) of
          None \<Rightarrow> snd (handleMissingJob env job w)
        | Some st \<Rightarrow> snd (applyVolcanoState env job st (resetMissingCount (jr_ID job) w)))"

text \<open>The clusters in the order the Go map gives them: \<^term>\<open>order\<close>, a list of all of them.\<close>

definition jobsOfCluster :: "JobRow list \<Rightarrow> string \<Rightarrow> JobRow list" where
  "jobsOfCluster jobs c = filter (\<lambda>j. jr_VolcanoJobName j \<noteq> [] \<and> jr_ClusterID j = c) jobs"

primrec syncClusters :: "JobEnv \<Rightarrow> JobRow list \<Rightarrow> string list \<Rightarrow> JobWorld \<Rightarrow> JobWorld" where
  "syncClusters env jobs [] w = w"
| "syncClusters env jobs (c # cs) w =
     syncClusters env jobs cs
       (if jobsOfCluster jobs c = [] \<or> \<not> enabled env w c then w
        else case je_sync env (jw_tick w) c of
          Inl _ \<Rightarrow> tick w
        | Inr statuses \<Rightarrow> syncJobs env statuses (jobsOfCluster jobs c) (tick w))"

definition overLimit :: "time \<Rightarrow> JobRow \<Rightarrow> bool" where
  "overLimit now job =
     (jr_Status job = JobStatusRunning \<and> jr_MaxRuntime job > 0 \<and>
      (case jr_StartedAt job of
         None \<Rightarrow> False
       | Some s \<Rightarrow> time_sub now s > i64 (jr_MaxRuntime job * Minute)))"

primrec enforceLoop :: "JobEnv \<Rightarrow> time \<Rightarrow> JobRow list \<Rightarrow> JobWorld \<Rightarrow> JobWorld" where
  "enforceLoop env now [] w = w"
| "enforceLoop env now (job # jobs) w =
     enforceLoop env now jobs
       (if overLimit now job
        then expireJob env job (''job exceeded max runtime of '' @ showInt (jr_MaxRuntime job) @ '' minutes'') w
        else w)"

definition enforceRuntimeLimits :: "JobEnv \<Rightarrow> JobWorld \<Rightarrow> JobWorld" where
  "enforceRuntimeLimits env w =
     (case GetActiveJobs (je_fault env (jw_tick w)) (jw_rows w) of
        Inl _ \<Rightarrow> tick w
      | Inr jobs \<Rightarrow> enforceLoop env (nowOf env w) jobs (tick w))"

definition SyncVolcanoStatuses :: "JobEnv \<Rightarrow> string list \<Rightarrow> JobWorld \<Rightarrow> JobWorld" where
  "SyncVolcanoStatuses env order w =
     (case GetActiveJobs (je_fault env (jw_tick w)) (jw_rows w) of
        Inl _ \<Rightarrow> tick w
      | Inr jobs \<Rightarrow> enforceRuntimeLimits env (syncClusters env jobs order (tick w)))"

section \<open>Submission\<close>

definition backoffElapsed :: "time \<Rightarrow> JobRow \<Rightarrow> bool" where
  "backoffElapsed now job =
     (if jr_SubmitAttempts job \<le> 0 then True
      else
        let wait = i64 (submitBackoffBase * 2 ^ nat (jr_SubmitAttempts job - 1));
            wait = (if wait > submitBackoffMax \<or> wait \<le> 0 then submitBackoffMax else wait);
            last = (if IsZero (jr_LastSubmitAt job) then jr_UpdatedAt job else jr_LastSubmitAt job) in
        time_sub now last \<ge> wait)"

definition publishSubmitted :: "JobRow \<Rightarrow> JobWorld \<Rightarrow> JobWorld" where
  "publishSubmitted job =
     publish (MsgSubmitted (jr_ID job) (jr_ClusterID job) (jr_Type job) (jr_GPUs job) (jr_TenantID job))"

definition submitToCluster :: "JobEnv \<Rightarrow> JobRow \<Rightarrow> JobWorld \<Rightarrow> JobSvcError option \<times> JobRow \<times> JobWorld" where
  "submitToCluster env job w =
     (case createObject env job w of
        (Inl e, w) \<Rightarrow> (Some (SvcCluster e), job, w)
      | (Inr vjName, w) \<Rightarrow>
          let job = job\<lparr>jr_VolcanoJobName := vjName, jr_QueueName := queueOf (jr_Type job),
                jr_Status := JobStatusPending, jr_FailureReason := []\<rparr> in
          case updateStatus env job w of
            (Some e, job, w) \<Rightarrow>
              (Some (SvcPersistName e), job\<lparr>jr_VolcanoJobName := []\<rparr>, snd (deleteObject env vjName w))
          | (None, job, w) \<Rightarrow> (None, job, w))"

fun svcErrText :: "JobSvcError \<Rightarrow> string" where
  "svcErrText (SvcStore e) = errText e"
| "svcErrText (SvcCluster e) = e"
| "svcErrText (SvcPersistName e) =
     ''persist volcano job name failed (cluster object rolled back): '' @ errText e"
| "svcErrText SvcNil = []"

definition countFailure :: "time \<Rightarrow> JobSvcError \<Rightarrow> JobRow \<Rightarrow> JobRow" where
  "countFailure now cause job =
     (let job = job\<lparr>jr_SubmitAttempts := i64 (jr_SubmitAttempts job + 1),
            jr_FailureReason := truncateJobReason (svcErrText cause), jr_LastSubmitAt := now\<rparr> in
      if jr_SubmitAttempts job \<ge> maxSubmitAttempts
      then let (ok, agg) = MarkFailed (JobFromModel job) in if ok then JobSyncToModel agg job else job
      else job)"

definition recordSubmitFailure :: "JobEnv \<Rightarrow> JobRow \<Rightarrow> JobSvcError \<Rightarrow> JobWorld \<Rightarrow> JobWorld" where
  "recordSubmitFailure env job cause w =
     (case updateStatus env (countFailure (nowOf env w) cause job) w of
        (Some _, _, w) \<Rightarrow> w
      | (None, job, w) \<Rightarrow> if jrIsTerminal job then onStateChanged job w else w)"

primrec updateResources :: "JobEnv \<Rightarrow> Resource list \<Rightarrow> JobWorld \<Rightarrow> JobWorld" where
  "updateResources env [] w = w"
| "updateResources env (r # rs) w =
     updateResources env rs
       (tick (w\<lparr>jw_resources := snd (UpdateResource (je_fault env (jw_tick w)) r (jw_resources w))\<rparr>))"

definition MockAllocate :: "JobEnv \<Rightarrow> JobRow \<Rightarrow> JobWorld \<Rightarrow> bool \<times> JobWorld" where
  "MockAllocate env job w =
     (case GetResourcesByCluster (je_fault env (jw_tick w)) (jr_ClusterID job) (jw_resources w) of
        Inl _ \<Rightarrow> (False, tick w)
      | Inr resources \<Rightarrow>
          let w = tick w in
          if resources \<noteq> [] \<and> \<not> CanSchedule (JobFromModel job) resources then (False, w)
          else
            let (ok, job) = markRunning env job w in
            if \<not> ok then (False, w)
            else case updateStatus env job w of
              (Some _, _, w) \<Rightarrow> (False, w)
            | (None, job, w) \<Rightarrow>
                let w = onStateChanged job w in
                if resources = [] then (True, w)
                else
                  let resources = Allocate (JobFromModel job) resources;
                      w = updateResources env resources w;
                      allocated = int (length (filter (\<lambda>r. res_Status r = ResourceStatusAllocated) resources)) in
                  (True, publish (MsgAssignment (jr_ID job) (jr_ClusterID job) allocated (jr_Memory job)) w))"

definition submitPendingItem :: "JobEnv \<Rightarrow> JobRow \<Rightarrow> JobWorld \<Rightarrow> JobWorld" where
  "submitPendingItem env job w =
     (if jr_VolcanoJobName job \<noteq> [] then w
      else if \<not> backoffElapsed (nowOf env w) job then w
      else case getJob env (jr_ID job) w of
        (Inl _, w) \<Rightarrow> w
      | (Inr fresh, w) \<Rightarrow>
          if jr_VolcanoJobName fresh \<noteq> [] then w
          else if \<not> enabled env w (jr_ClusterID fresh) then
            (let (ok, w) = MockAllocate env fresh w in if ok then publishSubmitted fresh w else w)
          else case submitToCluster env fresh w of
            (Some e, fresh, w) \<Rightarrow> recordSubmitFailure env fresh e w
          | (None, fresh, w) \<Rightarrow> publishSubmitted fresh w)"

definition SubmitPending :: "JobEnv \<Rightarrow> JobWorld \<Rightarrow> JobWorld" where
  "SubmitPending env w =
     (case GetPendingJobs (je_fault env (jw_tick w)) (jw_rows w) of
        Inl _ \<Rightarrow> tick w
      | Inr jobs \<Rightarrow> fold (submitPendingItem env) jobs (tick w))"

text \<open>The result carries what \<^verbatim>\<open>*job\<close> is afterwards.\<close>

definition SubmitJob :: "JobEnv \<Rightarrow> JobRow \<Rightarrow> JobWorld \<Rightarrow> JobSvcError option \<times> JobRow \<times> JobWorld" where
  "SubmitJob env job w =
     (case getJob env (jr_ID job) w of
        (Inl e, w) \<Rightarrow> (Some (SvcStore e), job, w)
      | (Inr fresh, w) \<Rightarrow>
          if jr_VolcanoJobName fresh \<noteq> [] then (None, fresh, w)
          else if \<not> enabled env w (jr_ClusterID fresh) then (None, job, w)
          else case submitToCluster env fresh w of
            (Some e, _, w) \<Rightarrow> (Some e, job, w)
          | (None, fresh, w) \<Rightarrow> (None, fresh, w))"

definition TerminateJob :: "JobEnv \<Rightarrow> JobRow \<Rightarrow> JobWorld \<Rightarrow> JobSvcError option \<times> JobWorld" where
  "TerminateJob env job w =
     (if jr_VolcanoJobName job = [] then (None, w)
      else if \<not> enabled env w (jr_ClusterID job) then (None, w)
      else case deleteObject env (jr_VolcanoJobName job) w of
        (Some e, w) \<Rightarrow> (Some (SvcCluster (''delete volcano job '' @ jr_VolcanoJobName job @ '' in cluster ''
           @ jr_ClusterID job @ '': '' @ e)), w)
      | (None, w) \<Rightarrow> (None, w))"

definition CancelJob :: "JobEnv \<Rightarrow> JobRow \<Rightarrow> JobWorld \<Rightarrow> JobSvcError option \<times> JobRow \<times> JobWorld" where
  "CancelJob env job w =
     (case TerminateJob env job w of
        (Some e, w) \<Rightarrow> (Some e, job, w)
      | (None, w) \<Rightarrow>
          let (ok, agg) = MarkCancelled (JobFromModel job) in
          if \<not> ok then (None, job, w)
          else
            let job = (JobSyncToModel agg job)\<lparr>jr_VolcanoJobName := []\<rparr> in
            case updateStatus env job w of
              (Some e, job, w) \<Rightarrow> (Some (SvcStore e), job, w)
            | (None, job, w) \<Rightarrow> (None, job, onStateChanged job (resetMissingCount (jr_ID job) w)))"

definition GetJobLogs ::
    "JobEnv \<Rightarrow> (JobRow \<Rightarrow> 'q \<Rightarrow> 'l \<times> string option) \<Rightarrow> 'l \<Rightarrow> JobRow \<Rightarrow> 'q \<Rightarrow> JobWorld \<Rightarrow> 'l \<times> bool \<times> string option" where
  "GetJobLogs env logs none job query w =
     (if jr_VolcanoJobName job = [] then (none, False, None)
      else if \<not> enabled env w (jr_ClusterID job) then (none, False, None)
      else let (result, err) = logs job query in (result, True, err))"

end
