(* ===== verification/JobServiceProofs.thy ===== *)
theory JobServiceProofs
  imports JobService
begin

text \<open>
  Properties of the job service: what a submission pass leaves in the cluster, which status changes the
  sync makes, how long a failed submission waits, and two windows in which the service and the cluster part.
\<close>

section \<open>The rows under each step\<close>

definition rowOf :: "JobWorld \<Rightarrow> string \<Rightarrow> JobRow option" where
  "rowOf w k = tfind jr_ID (jw_rows w) k"

text \<open>A job value is current when it is the stored row of its id.\<close>

definition current :: "JobWorld \<Rightarrow> JobRow \<Rightarrow> bool" where
  "current w job = (rowOf w (jr_ID job) = Some job)"

lemma rows_simps [simp]:
  "jw_rows (tick w) = jw_rows w" "jw_rows (publish m w) = jw_rows w" "jw_rows (onStateChanged job w) = jw_rows w"
  "jw_rows (publishSubmitted job w) = jw_rows w" "jw_rows (resetMissingCount i w) = jw_rows w"
  "jw_rows (snd (bumpMissingCount i w)) = jw_rows w" "jw_rows (snd (deleteObject env nm w)) = jw_rows w"
  "jw_rows (snd (createObject env job w)) = jw_rows w" "jw_rows (snd (getJob env i w)) = jw_rows w"
  by (simp_all add: tick_def publish_def onStateChanged_def publishSubmitted_def resetMissingCount_def
      bumpMissingCount_def deleteObject_def createObject_def Let_def getJob_def split: sum.splits)

lemma rowOf_cong: "jw_rows w' = jw_rows w \<Longrightarrow> rowOf w' = rowOf w"
  by (simp add: rowOf_def fun_eq_iff)

lemma rowOf_simps [simp]:
  "rowOf (tick w) = rowOf w" "rowOf (publish m w) = rowOf w" "rowOf (onStateChanged job w) = rowOf w"
  "rowOf (publishSubmitted job w) = rowOf w" "rowOf (resetMissingCount i w) = rowOf w"
  "rowOf (snd (bumpMissingCount i w)) = rowOf w" "rowOf (snd (deleteObject env nm w)) = rowOf w"
  "rowOf (snd (createObject env job w)) = rowOf w"
  "rowOf (snd (getJob env i w)) = rowOf w"
  by (rule rowOf_cong, rule rows_simps)+

lemma rowOf_resources [simp]: "rowOf (w\<lparr>jw_resources := rs\<rparr>) = rowOf w"
  by (simp add: rowOf_def fun_eq_iff)

lemma rowOf_key: "rowOf w k = Some r \<Longrightarrow> jr_ID r = k"
  unfolding rowOf_def by (rule tfind_key)

lemma updateStatus_row:
  "rowOf (snd (snd (updateStatus env job w))) k =
     (if fst (updateStatus env job w) = None \<and> k = jr_ID job
      then map_option (statusColumns (job\<lparr>jr_UpdatedAt := nowOf env w\<rparr>)) (rowOf w k) else rowOf w k)"
  using UpdateJobStatus_find [of "je_fault env (jw_tick w)" "nowOf env w" job "jw_rows w" k]
  by (auto simp: updateStatus_def rowOf_def tick_def Let_def case_prod_unfold)

lemma updateStatus_keys: "map jr_ID (jw_rows (snd (snd (updateStatus env job w)))) = map jr_ID (jw_rows w)"
  by (auto simp: updateStatus_def UpdateJobStatus_def withExisting_def Let_def case_prod_unfold tick_def split: option.splits)

lemma updateStatus_job: "jr_ID (fst (snd (updateStatus env job w))) = jr_ID job"
  "jr_VolcanoJobName (fst (snd (updateStatus env job w))) = jr_VolcanoJobName job"
  "jr_Status (fst (snd (updateStatus env job w))) = jr_Status job"
  by (auto simp: updateStatus_def UpdateJobStatus_def withExisting_def Let_def case_prod_unfold split: option.splits)

lemma updateStatus_calls [simp]:
  "jw_calls (snd (snd (updateStatus env job w))) = jw_calls w"
  "jw_bus (snd (snd (updateStatus env job w))) = jw_bus w"
  "jw_missing (snd (snd (updateStatus env job w))) = jw_missing w"
  by (auto simp: updateStatus_def Let_def case_prod_unfold tick_def)

lemma frame_simps [simp]:
  "jw_calls (tick w) = jw_calls w" "jw_calls (publish m w) = jw_calls w" "jw_calls (onStateChanged job w) = jw_calls w"
  "jw_calls (publishSubmitted job w) = jw_calls w" "jw_calls (resetMissingCount i w) = jw_calls w"
  "jw_calls (snd (bumpMissingCount i w)) = jw_calls w" "jw_calls (snd (getJob env i w)) = jw_calls w"
  "jw_missing (tick w) = jw_missing w" "jw_missing (publish m w) = jw_missing w"
  "jw_missing (onStateChanged job w) = jw_missing w" "jw_missing (snd (deleteObject env nm w)) = jw_missing w"
  "jw_calls (snd (deleteObject env nm w)) = jw_calls w @ [CallDelete nm]"
  by (auto simp: tick_def publish_def onStateChanged_def publishSubmitted_def resetMissingCount_def
      bumpMissingCount_def deleteObject_def Let_def getJob_def)

lemma syncToModel_simps [simp]:
  "jr_ID (JobSyncToModel agg job) = jr_ID job" "jr_Status (JobSyncToModel agg job) = job_Status agg"
  "jr_VolcanoJobName (JobSyncToModel agg job) = jr_VolcanoJobName job"
  "job_Status (JobFromModel job) = jr_Status job"
  "jr_ID (stampStart t job) = jr_ID job" "jr_Status (stampStart t job) = jr_Status job"
  "jr_VolcanoJobName (stampStart t job) = jr_VolcanoJobName job"
  by (simp_all add: JobSyncToModel_def JobFromModel_def stampStart_def)

section \<open>Every status change follows the status machine\<close>

text \<open>\<^term>\<open>legalStep w w'\<close>: ids are kept and every stored status moved along the machine.\<close>

definition movesTo :: "JobRow \<Rightarrow> JobRow \<Rightarrow> bool" where
  "movesTo r r' = (CanTransition\<^sup>*\<^sup>* (jr_Status r) (jr_Status r') \<and> jr_TenantID r' = jr_TenantID r \<and> jr_GPUs r' = jr_GPUs r)"

definition legalStep :: "string set \<Rightarrow> JobWorld \<Rightarrow> JobWorld \<Rightarrow> bool" where
  "legalStep ids w w' =
     (map jr_ID (jw_rows w') = map jr_ID (jw_rows w) \<and> (\<forall>k. (k \<notin> ids \<longrightarrow> rowOf w' k = rowOf w k) \<and> rel_option movesTo (rowOf w k) (rowOf w' k)))"

lemma movesTo_refl: "movesTo r r"
  by (simp add: movesTo_def)

lemma movesTo_trans: "movesTo r s \<Longrightarrow> movesTo s t \<Longrightarrow> movesTo r t"
  by (auto simp: movesTo_def intro: rtranclp_trans)

lemma legalStep_same: "jw_rows w' = jw_rows w \<Longrightarrow> legalStep ids w w'"
  by (simp add: legalStep_def option.rel_refl movesTo_refl rowOf_cong [of w' w])

lemma legalStep_trans:
  assumes "legalStep A w w'" and "legalStep B w' w''"
  shows "legalStep (A \<union> B) w w''"
  unfolding legalStep_def
proof (intro allI conjI impI)
  fix k
  have a: "rel_option movesTo (rowOf w k) (rowOf w' k)" and b: "rel_option movesTo (rowOf w' k) (rowOf w'' k)"
    using assms by (simp_all add: legalStep_def)
  show "map jr_ID (jw_rows w'') = map jr_ID (jw_rows w)" using assms by (simp add: legalStep_def)
  show "rel_option movesTo (rowOf w k) (rowOf w'' k)"
    using a b by (cases "rowOf w k"; cases "rowOf w' k"; cases "rowOf w'' k") (auto intro: movesTo_trans)
  show "rowOf w'' k = rowOf w k" if "k \<notin> A \<union> B" using that assms by (simp add: legalStep_def)
qed

lemma legalStep_mono: "legalStep A w w' \<Longrightarrow> A \<subseteq> B \<Longrightarrow> legalStep B w w'"
  unfolding legalStep_def by blast

lemma legalStep_cong: "jw_rows v = jw_rows w' \<Longrightarrow> legalStep ids w w' \<Longrightarrow> legalStep ids w v"
  by (simp add: legalStep_def rowOf_cong [of v w'])

lemma legalStep_update:
  assumes "current w job" and "jr_ID job' = jr_ID job" and "CanTransition\<^sup>*\<^sup>* (jr_Status job) (jr_Status job')"
    and "jw_rows w1 = jw_rows w"
  shows "legalStep {jr_ID job} w (snd (snd (updateStatus env job' w1)))"
  using assms rowOf_cong [OF assms(4)]
  by (auto simp: legalStep_def updateStatus_keys updateStatus_row current_def movesTo_def option.rel_refl movesTo_refl
      option.rel_map intro: option.rel_refl_strong)

lemma legalStep_apply:
  assumes "current w job"
  shows "legalStep {jr_ID job} w (snd (applyVolcanoState env job st w))"
proof (cases "ApplyVolcanoState st (JobFromModel job)")
  case (Pair ok agg)
  have path: "CanTransition\<^sup>*\<^sup>* (jr_Status job) (job_Status agg)"
    using jobEvent_path [of "JobFromModel job" "Volcano st"] Pair by simp
  define job1 where "job1 = stampStart (nowOf env w) (JobSyncToModel agg job)"
  define job2 where "job2 = (if jr_Status job1 = JobStatusFailed \<and> jr_FailureReason job1 = []
    then job1\<lparr>jr_FailureReason := truncateJobReason (''volcano job entered state '' @ je_quote env (stateText st))\<rparr> else job1)"
  define job3 where "job3 = (if jr_Status job2 = JobStatusCompleted then job2\<lparr>jr_FailureReason := []\<rparr> else job2)"
  have f: "jr_ID job3 = jr_ID job" "jr_Status job3 = job_Status agg"
    by (simp_all add: job3_def job2_def job1_def)
  have e: "snd (applyVolcanoState env job st w) = (if ok then
      (case updateStatus env job3 w of (Some _, _, w) \<Rightarrow> w | (None, j, w) \<Rightarrow> onStateChanged j w) else w)"
    by (simp add: applyVolcanoState_def Pair Let_def job3_def job2_def job1_def split: prod.split option.split)
  have "jw_rows (snd (applyVolcanoState env job st w)) = (if ok then jw_rows (snd (snd (updateStatus env job3 w))) else jw_rows w)"
    unfolding e by (auto split: prod.split option.split)
  moreover have "legalStep {jr_ID job} w (snd (snd (updateStatus env job3 w)))"
    by (rule legalStep_update [OF assms f(1)]) (simp_all add: f path)
  ultimately show ?thesis
    by (cases ok) (auto intro: legalStep_cong legalStep_same)
qed

lemma legalStep_expire:
  assumes "current w job"
  shows "legalStep {jr_ID job} w (expireJob env job reason w)"
proof -
  define w1 where "w1 = (if jr_VolcanoJobName job \<noteq> [] \<and> enabled env w (jr_ClusterID job)
    then snd (deleteObject env (jr_VolcanoJobName job) w) else w)"
  have r1: "jw_rows w1 = jw_rows w" by (simp add: w1_def)
  obtain ok agg where m: "MarkFailed (JobFromModel (job\<lparr>jr_VolcanoJobName := []\<rparr>)) = (ok, agg)" by force
  have path: "CanTransition\<^sup>*\<^sup>* (jr_Status job) (job_Status agg)"
    using jobEvent_path [of "JobFromModel (job\<lparr>jr_VolcanoJobName := []\<rparr>)" EvFailed] m by (simp add: JobFromModel_def)
  define job1 where "job1 = (JobSyncToModel agg (job\<lparr>jr_VolcanoJobName := []\<rparr>))\<lparr>jr_FailureReason := truncateJobReason reason\<rparr>"
  have f: "jr_ID job1 = jr_ID job" "jr_Status job1 = job_Status agg" by (simp_all add: job1_def)
  have "jw_rows (expireJob env job reason w) = (if ok then jw_rows (snd (snd (updateStatus env job1 w1))) else jw_rows w)"
    using r1 by (simp add: expireJob_def Let_def m w1_def [symmetric] job1_def [symmetric] split: prod.split option.split)
  moreover have "legalStep {jr_ID job} w (snd (snd (updateStatus env job1 w1)))"
    by (rule legalStep_update [OF assms f(1) _ r1]) (simp add: f path)
  ultimately show ?thesis
    by (cases ok) (auto intro: legalStep_cong legalStep_same)
qed

lemma legalStep_left: "jw_rows v = jw_rows w \<Longrightarrow> legalStep ids v w' \<Longrightarrow> legalStep ids w w'"
  by (simp add: legalStep_def rowOf_cong [of v w])

lemma current_left: "jw_rows v = jw_rows w \<Longrightarrow> current v job = current w job"
  by (simp add: current_def rowOf_cong [of v w])

lemma current_keep: "legalStep ids w w' \<Longrightarrow> jr_ID j \<notin> ids \<Longrightarrow> current w j \<Longrightarrow> current w' j"
  by (simp add: legalStep_def current_def)

lemma legalStep_missing:
  assumes "current w job"
  shows "legalStep {jr_ID job} w (snd (handleMissingJob env job w))"
proof -
  let ?v = "snd (bumpMissingCount (jr_ID job) w)"
  have r: "jw_rows ?v = jw_rows w" by simp
  have "legalStep {jr_ID job} w (expireJob env job (missingReason env job) ?v)"
    by (rule legalStep_left [OF r], rule legalStep_expire) (use assms current_left [OF r] in simp)
  then have "legalStep {jr_ID job} w (resetMissingCount (jr_ID job) (expireJob env job (missingReason env job) ?v))"
    by (rule legalStep_cong [rotated]) simp
  moreover have "legalStep {jr_ID job} w ?v" by (rule legalStep_same) simp
  ultimately show ?thesis by (simp add: handleMissingJob_def case_prod_unfold Let_def)
qed

text \<open>A loop that treats each current job by a legal step is a legal step.\<close>

lemma legalStep_loop:
  assumes step: "\<And>w j. current w j \<Longrightarrow> legalStep {jr_ID j} w (f j w)"
  shows "distinct (map jr_ID jobs) \<Longrightarrow> list_all (current w) jobs
    \<Longrightarrow> legalStep (jr_ID ` set jobs) w (fold f jobs w)"
proof (induction jobs arbitrary: w)
  case Nil
  show ?case by (simp add: legalStep_same)
next
  case (Cons j jobs)
  have one: "legalStep {jr_ID j} w (f j w)" using Cons.prems by (intro step) simp
  have "list_all (current (f j w)) jobs"
    using Cons.prems current_keep [OF one] by (simp add: list_all_iff) (metis imageI)
  then have "legalStep (jr_ID ` set jobs) (f j w) (fold f jobs (f j w))" using Cons by simp
  from legalStep_trans [OF one this] show ?case by simp
qed

lemma syncJobs_fold:
  "syncJobs env statuses jobs w = fold (\<lambda>job w. case statuses (jr_VolcanoJobName job) of
      None \<Rightarrow> snd (handleMissingJob env job w)
    | Some st \<Rightarrow> snd (applyVolcanoState env job st (resetMissingCount (jr_ID job) w))) jobs w"
  by (induction jobs arbitrary: w) simp_all

lemma enforceLoop_fold:
  "enforceLoop env now jobs w = fold (\<lambda>job w. if overLimit now job
      then expireJob env job (''job exceeded max runtime of '' @ showInt (jr_MaxRuntime job) @ '' minutes'') w else w) jobs w"
  by (induction jobs arbitrary: w) simp_all

lemma syncJobs_legal:
  "distinct (map jr_ID jobs) \<Longrightarrow> list_all (current w) jobs
    \<Longrightarrow> legalStep (jr_ID ` set jobs) w (syncJobs env statuses jobs w)"
  unfolding syncJobs_fold
proof (rule legalStep_loop)
  fix w j assume c: "current w j"
  have "legalStep {jr_ID j} w (snd (applyVolcanoState env j st (resetMissingCount (jr_ID j) w)))" for st
    by (rule legalStep_left [OF rows_simps(5)], rule legalStep_apply) (use c current_left [OF rows_simps(5)] in simp)
  then show "legalStep {jr_ID j} w (case statuses (jr_VolcanoJobName j) of None \<Rightarrow> snd (handleMissingJob env j w)
      | Some st \<Rightarrow> snd (applyVolcanoState env j st (resetMissingCount (jr_ID j) w)))"
    using legalStep_missing [OF c] by (simp split: option.split)
qed

lemma enforceLoop_legal:
  "distinct (map jr_ID jobs) \<Longrightarrow> list_all (current w) jobs
    \<Longrightarrow> legalStep (jr_ID ` set jobs) w (enforceLoop env now jobs w)"
  unfolding enforceLoop_fold
  by (rule legalStep_loop) (simp_all add: legalStep_expire legalStep_same)

lemma listed_current:
  assumes "tunique jr_ID (jw_rows w)" and "mset jobs \<subseteq># mset (jw_rows w)"
  shows "distinct (map jr_ID jobs)" and "list_all (current w) jobs"
proof -
  have "mset (map jr_ID jobs) \<subseteq># mset (map jr_ID (jw_rows w))"
    using image_mset_subseteq_mono [OF assms(2), of jr_ID] by simp
  then show "distinct (map jr_ID jobs)"
    using assms(1) by (metis distinct_append mset_append mset_eq_imp_distinct_iff mset_subset_eqD
      subset_mset.le_iff_add tunique_def ex_mset)
  show "list_all (current w) jobs"
    using mset_subset_eqD [OF assms(2)] tfind_unique [OF assms(1)]
    by (auto simp: list_all_iff current_def rowOf_def)
qed

lemma byPriority_sub: "mset (byPriority (filter P xs)) \<subseteq># mset xs"
  by (simp add: byPriority_def multiset_filter_subset)

lemma GetActiveJobs_sub: "GetActiveJobs f db = Inr jobs \<Longrightarrow> mset jobs \<subseteq># mset db"
  by (auto simp: GetActiveJobs_def byPriority_sub split: option.splits)

lemma GetActiveJobs_active: "GetActiveJobs f db = Inr jobs \<Longrightarrow> j \<in> set jobs \<Longrightarrow> \<not> IsTerminal (jr_Status j)"
  by (auto simp: GetActiveJobs_def byPriority_def IsTerminal_iff split: option.splits)

lemma GetPendingJobs_sub: "GetPendingJobs f db = Inr jobs \<Longrightarrow> mset jobs \<subseteq># mset db"
  by (auto simp: GetPendingJobs_def byPriority_sub split: option.splits)

lemma legal_unique: "legalStep ids w w' \<Longrightarrow> tunique jr_ID (jw_rows w) \<Longrightarrow> tunique jr_ID (jw_rows w')"
  by (simp add: tunique_def legalStep_def)

lemma list_current_keep:
  "legalStep ids w w' \<Longrightarrow> list_all (current w) jobs \<Longrightarrow> jr_ID ` set jobs \<inter> ids = {} \<Longrightarrow> list_all (current w') jobs"
  unfolding list_all_iff using current_keep by blast

lemma jobsOfCluster_set: "set (jobsOfCluster jobs c) \<subseteq> set jobs"
  by (auto simp: jobsOfCluster_def)

lemma syncClusters_legal:
  assumes "distinct (map jr_ID jobs)"
  shows "distinct cs \<Longrightarrow> list_all (current w) (concat (map (jobsOfCluster jobs) cs))
    \<Longrightarrow> legalStep (jr_ID ` set jobs) w (syncClusters env jobs cs w)"
proof (induction cs arbitrary: w)
  case Nil
  show ?case by (simp add: legalStep_same)
next
  case (Cons c cs)
  let ?js = "jobsOfCluster jobs c"
  let ?w = "if ?js = [] \<or> \<not> enabled env w c then w
        else case je_sync env (jw_tick w) c of
          Inl _ \<Rightarrow> tick w | Inr statuses \<Rightarrow> syncJobs env statuses ?js (tick w)"
  have cur: "list_all (current (tick w)) ?js"
    using Cons.prems(2) current_left [OF rows_simps(1)] by (auto simp: list_all_iff)
  have d: "distinct (map jr_ID ?js)" using assms by (simp add: jobsOfCluster_def distinct_map_filter)
  have s: "legalStep (jr_ID ` set ?js) w (syncJobs env statuses ?js (tick w))" for statuses
    by (rule legalStep_left [OF rows_simps(1)], rule syncJobs_legal [OF d cur])
  have one: "legalStep (jr_ID ` set ?js) w ?w"
    using s by (auto simp: legalStep_same split: sum.split)
  have disj: "jr_ID ` set (concat (map (jobsOfCluster jobs) cs)) \<inter> jr_ID ` set ?js = {}"
  proof -
    have "jr_ID a \<noteq> jr_ID b" if "a \<in> set ?js" "b \<in> set (jobsOfCluster jobs c')" "c' \<in> set cs" for a b c'
    proof
      assume "jr_ID a = jr_ID b"
      moreover have "a \<in> set jobs" "b \<in> set jobs" using that jobsOfCluster_set by blast+
      ultimately have "a = b" using assms by (auto simp: distinct_map dest: inj_onD)
      then show False using that Cons.prems(1) by (auto simp: jobsOfCluster_def)
    qed
    then show ?thesis by fastforce
  qed
  have "legalStep (jr_ID ` set jobs) ?w (syncClusters env jobs cs ?w)"
    by (rule Cons.IH) (use Cons.prems list_current_keep [OF one _ disj] in simp_all)
  from legalStep_trans [OF one this] have "legalStep (jr_ID ` set jobs) w (syncClusters env jobs cs ?w)"
    by (rule legalStep_mono) (use jobsOfCluster_set in blast)
  then show ?case by simp
qed

lemma enforce_legal:
  assumes "tunique jr_ID (jw_rows w)"
  shows "\<exists>ids. legalStep ids w (enforceRuntimeLimits env w) \<and> (\<forall>k\<in>ids. \<exists>r. rowOf w k = Some r \<and> \<not> IsTerminal (jr_Status r))"
proof (cases "GetActiveJobs (je_fault env (jw_tick w)) (jw_rows w)")
  case (Inl e)
  then show ?thesis by (intro exI [of _ "{}"]) (simp add: enforceRuntimeLimits_def legalStep_same)
next
  case (Inr jobs)
  note l = listed_current [OF assms GetActiveJobs_sub [OF Inr]]
  have "legalStep (jr_ID ` set jobs) w (enforceRuntimeLimits env w)"
    unfolding enforceRuntimeLimits_def Inr sum.case
    by (rule legalStep_left [OF rows_simps(1)], rule enforceLoop_legal [OF l(1)])
       (use l(2) current_left [OF rows_simps(1)] in \<open>simp add: list_all_iff\<close>)
  moreover have "\<forall>k \<in> jr_ID ` set jobs. \<exists>r. rowOf w k = Some r \<and> \<not> IsTerminal (jr_Status r)"
    using l(2) GetActiveJobs_active [OF Inr] by (auto simp: list_all_iff current_def)
  ultimately show ?thesis by blast
qed

lemma legal_terminal:
  assumes "legalStep ids w w'" and "rowOf w' k = Some r'" and "\<not> IsTerminal (jr_Status r')"
  shows "\<exists>r. rowOf w k = Some r \<and> \<not> IsTerminal (jr_Status r)"
proof -
  have "rel_option movesTo (rowOf w k) (Some r')" using assms(1,2) by (metis legalStep_def)
  then obtain r where r: "rowOf w k = Some r" "movesTo r r'" by (cases "rowOf w k") auto
  have "\<not> IsTerminal (jr_Status r)"
  proof
    assume t: "IsTerminal (jr_Status r)"
    have "NormalizeStatus (jr_Status r') = NormalizeStatus (jr_Status r)"
      using js.path_from_fin [OF _ t] r(2) unfolding movesTo_def by blast
    then show False using t assms(3) by (simp add: IsTerminal_def)
  qed
  then show ?thesis using r(1) by blast
qed

lemma sync_legal:
  assumes "tunique jr_ID (jw_rows w)" and "distinct order"
  shows "\<exists>ids. legalStep ids w (SyncVolcanoStatuses env order w) \<and> (\<forall>k\<in>ids. \<exists>r. rowOf w k = Some r \<and> \<not> IsTerminal (jr_Status r))"
proof (cases "GetActiveJobs (je_fault env (jw_tick w)) (jw_rows w)")
  case (Inl e)
  then show ?thesis by (intro exI [of _ "{}"]) (simp add: SyncVolcanoStatuses_def legalStep_same)
next
  case (Inr jobs)
  note l = listed_current [OF assms(1) GetActiveJobs_sub [OF Inr]]
  let ?v = "syncClusters env jobs order (tick w)"
  have a: "\<forall>k \<in> jr_ID ` set jobs. \<exists>r. rowOf w k = Some r \<and> \<not> IsTerminal (jr_Status r)"
    using l(2) GetActiveJobs_active [OF Inr] by (auto simp: list_all_iff current_def)
  have cur: "list_all (current (tick w)) (concat (map (jobsOfCluster jobs) order))"
    using l(2) jobsOfCluster_set current_left [OF rows_simps(1)] by (fastforce simp: list_all_iff)
  have one: "legalStep (jr_ID ` set jobs) w ?v"
    by (rule legalStep_left [OF rows_simps(1)], rule syncClusters_legal [OF l(1) assms(2) cur])
  obtain ids where two: "legalStep ids ?v (enforceRuntimeLimits env ?v)"
    and b: "\<forall>k\<in>ids. \<exists>r. rowOf ?v k = Some r \<and> \<not> IsTerminal (jr_Status r)"
    using enforce_legal [OF legal_unique [OF one assms(1)]] by blast
  have e: "SyncVolcanoStatuses env order w = enforceRuntimeLimits env ?v"
    by (simp add: SyncVolcanoStatuses_def Inr)
  show ?thesis unfolding e
    using legalStep_trans [OF one two] a b legal_terminal [OF one] by (metis UnE)
qed

section \<open>What a submission leaves in the cluster\<close>

fun createdIds :: "ClusterCall list \<Rightarrow> string list" where
  "createdIds [] = []"
| "createdIds (CallCreate i nm # cs) = i # createdIds cs"
| "createdIds (CallDelete nm # cs) = createdIds cs"

lemma createdIds_append [simp]: "createdIds (xs @ ys) = createdIds xs @ createdIds ys"
  by (induction xs rule: createdIds.induct) auto

lemma createdIds_mem: "CallCreate i nm \<in> set cs \<Longrightarrow> i \<in> set (createdIds cs)"
  by (induction cs rule: createdIds.induct) auto

text \<open>The object of each creation among \<^term>\<open>new\<close> is stored in the row of its job or was deleted again.\<close>

definition accounted :: "JobWorld \<Rightarrow> ClusterCall list \<Rightarrow> bool" where
  "accounted w new = (\<forall>i nm. CallCreate i nm \<in> set new \<longrightarrow>
     CallDelete nm \<in> set new \<or> (\<exists>r. rowOf w i = Some r \<and> jr_VolcanoJobName r = nm))"

definition itemStep :: "string \<Rightarrow> JobWorld \<Rightarrow> JobWorld \<Rightarrow> ClusterCall list \<Rightarrow> bool" where
  "itemStep i w w' new = (jw_calls w' = jw_calls w @ new \<and> (\<forall>k. k = i \<or> rowOf w' k = rowOf w k)
     \<and> accounted w' new \<and> (createdIds new = [] \<or> createdIds new = [i]))"

lemma itemStep_none: "jw_calls w' = jw_calls w \<Longrightarrow> (\<forall>k. k = i \<or> rowOf w' k = rowOf w k) \<Longrightarrow> itemStep i w w' []"
  by (simp add: itemStep_def accounted_def)

lemma updateStatus_frame: "k \<noteq> jr_ID job \<Longrightarrow> rowOf (snd (snd (updateStatus env job w))) k = rowOf w k"
  by (simp add: updateStatus_row)

lemma updateResources_frame [simp]:
  "rowOf (updateResources env rs w) = rowOf w \<and> jw_calls (updateResources env rs w) = jw_calls w"
  by (induction rs arbitrary: w) simp_all

lemma markRunning_id: "jr_ID (snd (markRunning env job w)) = jr_ID job"
  by (simp add: markRunning_def case_prod_unfold Let_def)

lemma MockAllocate_item: "itemStep (jr_ID job) w (snd (MockAllocate env job w)) []"
proof (rule itemStep_none)
  have u: "jw_calls (snd (snd (updateStatus env (snd (markRunning env job (tick w))) (tick w)))) = jw_calls w"
    "k = jr_ID job \<or> rowOf (snd (snd (updateStatus env (snd (markRunning env job (tick w))) (tick w)))) k = rowOf w k" for k
    using updateStatus_frame [of k "snd (markRunning env job (tick w))" env "tick w"] by (auto simp: markRunning_id)
  show "jw_calls (snd (MockAllocate env job w)) = jw_calls w"
    using u(1) by (simp add: MockAllocate_def Let_def case_prod_unfold split: sum.split option.split)
  show "\<forall>k. k = jr_ID job \<or> rowOf (snd (MockAllocate env job w)) k = rowOf w k"
    using u(2) by (simp add: MockAllocate_def Let_def case_prod_unfold split: sum.split option.split)
qed

lemma countFailure_id [simp]: "jr_ID (countFailure now cause job) = jr_ID job"
  by (simp add: countFailure_def Let_def case_prod_unfold)

lemma recordSubmitFailure_frame:
  "jw_calls (recordSubmitFailure env job e w) = jw_calls w
   \<and> (k = jr_ID job \<or> rowOf (recordSubmitFailure env job e w) k = rowOf w k)"
  using updateStatus_frame [of k "countFailure (nowOf env w) e job" env w]
  by (auto simp: recordSubmitFailure_def case_prod_unfold countFailure_id split: option.split)

lemma submitToCluster_cases:
  obtains (refused) e where "submitToCluster env job w = (Some e, job, tick w)"
  | (stored) nm r job' w' where "submitToCluster env job w = (None, job', w')" and "rowOf w (jr_ID job) = Some r"
      and "jw_calls w' = jw_calls w @ [CallCreate (jr_ID job) nm]" and "\<And>k. k = jr_ID job \<or> rowOf w' k = rowOf w k"
      and "\<exists>r'. rowOf w' (jr_ID job) = Some r' \<and> jr_VolcanoJobName r' = nm"
  | (undone) nm e job' w' where "submitToCluster env job w = (Some (SvcPersistName e), job', w')" and "jr_ID job' = jr_ID job"
      and "jw_calls w' = jw_calls w @ [CallCreate (jr_ID job) nm, CallDelete nm]" and "\<And>k. rowOf w' k = rowOf w k"
proof (cases "je_create env (jw_tick w) job")
  case (Inl e)
  then show ?thesis by (intro refused) (simp add: submitToCluster_def createObject_def)
next
  case (Inr nm)
  define w1 where "w1 = snd (createObject env job w)"
  have c: "createObject env job w = (Inr nm, w1)" and calls: "jw_calls w1 = jw_calls w @ [CallCreate (jr_ID job) nm]"
    by (simp_all add: createObject_def Inr w1_def)
  have rows: "rowOf w1 = rowOf w" by (simp add: w1_def)
  define job1 where "job1 = job\<lparr>jr_VolcanoJobName := nm, jr_QueueName := queueOf (jr_Type job),
                jr_Status := JobStatusPending, jr_FailureReason := []\<rparr>"
  obtain res job2 w2 where u: "updateStatus env job1 w1 = (res, job2, w2)" by (metis prod_cases3)
  have w2: "rowOf w2 k = (if res = None \<and> k = jr_ID job
      then map_option (statusColumns (job1\<lparr>jr_UpdatedAt := nowOf env w1\<rparr>)) (rowOf w k) else rowOf w k)" for k
    using updateStatus_row [of env job1 w1 k] unfolding u rows by (simp add: job1_def)
  have c2: "jw_calls w2 = jw_calls w1" using updateStatus_calls(1) [of env job1 w1] by (simp add: u)
  have e: "submitToCluster env job w = (case res of
      Some e \<Rightarrow> (Some (SvcPersistName e), job2\<lparr>jr_VolcanoJobName := []\<rparr>, snd (deleteObject env nm w2))
    | None \<Rightarrow> (None, job2, w2))"
    by (simp add: submitToCluster_def c job1_def [symmetric] u split: option.split)
  show ?thesis
  proof (cases res)
    case None
    have "\<exists>r. tfind jr_ID (jw_rows w1) (jr_ID job1) = Some r"
      using u None by (auto simp: updateStatus_def UpdateJobStatus_def case_prod_unfold Let_def withExisting_def split: option.splits)
    then obtain r where r: "rowOf w (jr_ID job) = Some r" using rows by (auto simp: rowOf_def fun_eq_iff job1_def)
    show ?thesis
      by (rule stored [of job2 w2 r nm]) (use e None r w2 c2 calls in \<open>simp_all add: job1_def\<close>)
  next
    case (Some err)
    have "jr_ID job2 = jr_ID job" using updateStatus_job(1) [of env job1 w1] unfolding u by (simp add: job1_def)
    then show ?thesis
      by (intro undone [of err "job2\<lparr>jr_VolcanoJobName := []\<rparr>" "snd (deleteObject env nm w2)" nm])
         (use e Some w2 c2 calls in simp_all)
  qed
qed

lemma submitPendingItem_step:
  "\<exists>new. itemStep (jr_ID job) w (submitPendingItem env job w) new
    \<and> (createdIds new = [] \<or> jr_VolcanoJobName job = [])"
proof (cases "jr_VolcanoJobName job \<noteq> [] \<or> \<not> backoffElapsed (nowOf env w) job")
  case True
  then have "submitPendingItem env job w = w" by (auto simp: submitPendingItem_def)
  then show ?thesis using itemStep_none [of w w "jr_ID job"] by (intro exI [of _ "[]"]) simp
next
  case False
  then have n: "jr_VolcanoJobName job = []" and b: "backoffElapsed (nowOf env w) job" by auto
  let ?w = "tick w"
  have frame: "itemStep (jr_ID job) w (submitPendingItem env job w) []"
    if "submitPendingItem env job w = ?w" using that by (intro itemStep_none) simp_all
  show ?thesis
  proof (cases "fst (getJob env (jr_ID job) w)")
    case (Inl e)
    then have "submitPendingItem env job w = ?w" using n b by (simp add: submitPendingItem_def getJob_def)
    then show ?thesis using frame by auto
  next
    case (Inr fresh)
    then have "GetJob (je_fault env (jw_tick w)) (jr_ID job) (jw_rows w) = Inr fresh" by (simp add: getJob_def)
    then have f: "jr_ID fresh = jr_ID job"
      by (auto simp: GetJob_def split: option.splits dest: tfind_key)
    have g: "getJob env (jr_ID job) w = (Inr fresh, ?w)" using Inr by (simp add: getJob_def)
    show ?thesis
    proof (cases "jr_VolcanoJobName fresh \<noteq> []")
      case True
      then have "submitPendingItem env job w = ?w" using n b by (simp add: submitPendingItem_def g)
      then show ?thesis using frame by auto
    next
      case vn: False
      show ?thesis
      proof (cases "enabled env ?w (jr_ClusterID fresh)")
        case False
        have "itemStep (jr_ID job) ?w (snd (MockAllocate env fresh ?w)) []"
          using MockAllocate_item [of fresh ?w env] f by simp
        then have "itemStep (jr_ID job) w (submitPendingItem env job w) []"
          using n b vn False by (simp add: submitPendingItem_def g itemStep_def accounted_def case_prod_unfold Let_def)
        then show ?thesis by (metis createdIds.simps(1))
      next
        case True
        show ?thesis
        proof (cases rule: submitToCluster_cases [of env fresh ?w])
          case (refused e)
          then have "submitPendingItem env job w = recordSubmitFailure env fresh e (tick ?w)"
            using n b vn True by (simp add: submitPendingItem_def g)
          then have "itemStep (jr_ID job) w (submitPendingItem env job w) []"
            using recordSubmitFailure_frame [of env fresh e "tick ?w"] f by (intro itemStep_none) auto
          then show ?thesis by (metis createdIds.simps(1))
        next
          case (stored nm r job' w')
          then have "submitPendingItem env job w = publishSubmitted job' w'"
            using n b vn True by (simp add: submitPendingItem_def g)
          then have "itemStep (jr_ID job) w (submitPendingItem env job w) [CallCreate (jr_ID job) nm]"
            using stored f by (auto simp: itemStep_def accounted_def)
          then show ?thesis using n by blast
        next
          case (undone nm e job' w')
          then have "submitPendingItem env job w = recordSubmitFailure env job' (SvcPersistName e) w'"
            using n b vn True by (simp add: submitPendingItem_def g)
          then have "itemStep (jr_ID job) w (submitPendingItem env job w) [CallCreate (jr_ID job) nm, CallDelete nm]"
            using undone f recordSubmitFailure_frame [of env job' "SvcPersistName e" w']
            by (auto simp: itemStep_def accounted_def)
          then show ?thesis using n by blast
        qed
      qed
    qed
  qed
qed

lemma itemStep_later:
  assumes "itemStep i w w' new" and "accounted w old" and "i \<notin> set (createdIds old)"
  shows "accounted w' (old @ new)"
  unfolding accounted_def
proof (intro allI impI)
  fix k nm assume c: "CallCreate k nm \<in> set (old @ new)"
  show "CallDelete nm \<in> set (old @ new) \<or> (\<exists>r. rowOf w' k = Some r \<and> jr_VolcanoJobName r = nm)"
  proof (cases "CallCreate k nm \<in> set new")
    case True
    then show ?thesis using assms(1) by (auto simp: itemStep_def accounted_def)
  next
    case False
    then have o: "CallCreate k nm \<in> set old" using c by simp
    then have "k \<noteq> i" using assms(3) createdIds_mem by blast
    then have "rowOf w' k = rowOf w k" using assms(1) by (auto simp: itemStep_def)
    then show ?thesis using assms(2) o unfolding accounted_def by auto
  qed
qed

lemma submitPending_fold:
  "distinct (map jr_ID jobs) \<Longrightarrow> accounted w old \<Longrightarrow> jr_ID ` set jobs \<inter> set (createdIds old) = {}
    \<Longrightarrow> distinct (createdIds old)
    \<Longrightarrow> \<exists>new. jw_calls (fold (submitPendingItem env) jobs w) = jw_calls w @ new
      \<and> accounted (fold (submitPendingItem env) jobs w) (old @ new) \<and> distinct (createdIds (old @ new))
      \<and> set (createdIds new) \<subseteq> jr_ID ` {j \<in> set jobs. jr_VolcanoJobName j = []}"
proof (induction jobs arbitrary: w old)
  case Nil
  then show ?case by (intro exI [of _ "[]"]) simp
next
  case (Cons j jobs)
  obtain n1 where n1: "itemStep (jr_ID j) w (submitPendingItem env j w) n1"
    "createdIds n1 = [] \<or> jr_VolcanoJobName j = []" using submitPendingItem_step by blast
  let ?w = "submitPendingItem env j w"
  have c1: "createdIds n1 = [] \<or> createdIds n1 = [jr_ID j]" using n1(1) by (simp add: itemStep_def)
  have "accounted ?w (old @ n1)" by (rule itemStep_later [OF n1(1)]) (use Cons.prems in auto)
  moreover have "jr_ID ` set jobs \<inter> set (createdIds (old @ n1)) = {}"
  proof (unfold disjoint_iff, intro allI impI notI)
    fix x assume x: "x \<in> jr_ID ` set jobs" "x \<in> set (createdIds (old @ n1))"
    have "jr_ID j \<notin> jr_ID ` set jobs" using Cons.prems(1) by simp
    then have "x \<noteq> jr_ID j" using x(1) by metis
    moreover have "x \<notin> set (createdIds old)" using x(1) Cons.prems(3) by (simp add: disjoint_iff)
    ultimately show False using x(2) c1 by (elim disjE) simp_all
  qed
  moreover have "distinct (createdIds (old @ n1))" using c1 Cons.prems by auto
  moreover have "distinct (map jr_ID jobs)" using Cons.prems(1) by simp
  ultimately obtain n2 where n2: "jw_calls (fold (submitPendingItem env) jobs ?w) = jw_calls ?w @ n2"
    "accounted (fold (submitPendingItem env) jobs ?w) ((old @ n1) @ n2)" "distinct (createdIds ((old @ n1) @ n2))"
    "set (createdIds n2) \<subseteq> jr_ID ` {j \<in> set jobs. jr_VolcanoJobName j = []}"
    using Cons.IH [of ?w "old @ n1"] by blast
  have "jw_calls ?w = jw_calls w @ n1" using n1(1) by (simp add: itemStep_def)
  then show ?case using n2 c1 n1(2) by (intro exI [of _ "n1 @ n2"]) auto
qed

section \<open>Properties\<close>

definition demoRow :: "string \<Rightarrow> JobStatus \<Rightarrow> JobRow" where
  "demoRow i st = emptyJobRow\<lparr>jr_ID := i, jr_ClusterID := ''c'', jr_Type := MJTraining, jr_Status := st,
     jr_TenantID := ''t''\<rparr>"

text \<open>A cluster that creates the object named vj and deletes it, a database without faults, a clock at one hour.\<close>

definition demoEnv :: JobEnv where
  "demoEnv = \<lparr>je_fault = (\<lambda>_. None), je_clock = (\<lambda>_. Hour), je_client = (\<lambda>_ _. True),
     je_create = (\<lambda>_ _. Inr ''vj''), je_delete = (\<lambda>_ _. None),
     je_sync = (\<lambda>_ _. Inr (\<lambda>_. None)), je_quote = (\<lambda>s. s)\<rparr>"

definition demoWorld :: "JobRow list \<Rightarrow> JobWorld" where
  "demoWorld rows = \<lparr>jw_rows = rows, jw_resources = [], jw_missing = (\<lambda>_. 0), jw_bus = [], jw_calls = [], jw_tick = 0\<rparr>"

text \<open>C10: Submission leaves no orphan.  Whatever the database, the cluster and the clock answer, a submission pass
  creates at most one cluster object per job, only for pending jobs that have none, and at its end each
  object it created is either recorded in the row of its job or has been deleted again.\<close>
theorem submit_pass_accounts:
  assumes "tunique jr_ID (jw_rows w)"
  shows "\<exists>new. jw_calls (SubmitPending env w) = jw_calls w @ new
    \<and> accounted (SubmitPending env w) new \<and> distinct (createdIds new)
    \<and> set (createdIds new) \<subseteq> {jr_ID j | j. j \<in> set (jw_rows w) \<and> jr_Status j = JobStatusPending \<and> jr_VolcanoJobName j = []}"
proof (cases "GetPendingJobs (je_fault env (jw_tick w)) (jw_rows w)")
  case (Inl e)
  then show ?thesis by (intro exI [of _ "[]"]) (simp add: SubmitPending_def accounted_def)
next
  case (Inr jobs)
  have p: "set jobs \<subseteq> {j \<in> set (jw_rows w). jr_Status j = JobStatusPending}"
    using Inr by (auto simp: GetPendingJobs_def byPriority_def split: option.splits)
  have "distinct (map jr_ID jobs)" by (rule listed_current [OF assms GetPendingJobs_sub [OF Inr]])
  then obtain new where "jw_calls (fold (submitPendingItem env) jobs (tick w)) = jw_calls w @ new"
    "accounted (fold (submitPendingItem env) jobs (tick w)) new" "distinct (createdIds new)"
    "set (createdIds new) \<subseteq> jr_ID ` {j \<in> set jobs. jr_VolcanoJobName j = []}"
    using submitPending_fold [of jobs "tick w" "[]" env] by (auto simp: accounted_def)
  then show ?thesis using p by (auto simp: SubmitPending_def Inr)
qed

lemma submit_pass_accounts_witness:
  "accounted (SubmitPending demoEnv (demoWorld [demoRow ''j'' JobStatusPending]))
     (jw_calls (SubmitPending demoEnv (demoWorld [demoRow ''j'' JobStatusPending])))"
  using submit_pass_accounts [of "demoWorld [demoRow ''j'' JobStatusPending]" demoEnv]
  by (auto simp: demoWorld_def tunique_def)

text \<open>The sync obeys the status machine.  Whatever the cluster reports and in whatever order the clusters come, a
  sync pass (with the orphan detection and the runtime limits) keeps every row, moves each status only
  along transitions of the machine, and leaves every row in a terminal status as it was.\<close>
theorem sync_moves_legally:
  assumes "tunique jr_ID (jw_rows w)" and "distinct order" and "rowOf w k = Some r"
  shows "\<exists>r'. rowOf (SyncVolcanoStatuses env order w) k = Some r' \<and> CanTransition\<^sup>*\<^sup>* (jr_Status r) (jr_Status r')
    \<and> jr_TenantID r' = jr_TenantID r \<and> jr_GPUs r' = jr_GPUs r \<and> (\<not> IsTerminal (jr_Status r) \<or> r' = r)"
proof -
  obtain ids where l: "legalStep ids w (SyncVolcanoStatuses env order w)"
    and a: "\<forall>k\<in>ids. \<exists>r. rowOf w k = Some r \<and> \<not> IsTerminal (jr_Status r)"
    using sync_legal [OF assms(1,2)] by blast
  have "rel_option movesTo (Some r) (rowOf (SyncVolcanoStatuses env order w) k)"
    using l assms(3) by (metis legalStep_def)
  then obtain r' where r': "rowOf (SyncVolcanoStatuses env order w) k = Some r'" "movesTo r r'"
    by (cases "rowOf (SyncVolcanoStatuses env order w) k") auto
  moreover have "r' = r" if "IsTerminal (jr_Status r)"
  proof -
    have "k \<notin> ids" using a that assms(3) by auto
    then show ?thesis using l r'(1) assms(3) by (simp add: legalStep_def)
  qed
  ultimately show ?thesis by (auto simp: movesTo_def)
qed

lemma sync_moves_legally_witness:
  "rowOf (SyncVolcanoStatuses demoEnv [''c''] (demoWorld [demoRow ''j'' JobStatusCancelled])) ''j''
     = Some (demoRow ''j'' JobStatusCancelled)"
  using sync_moves_legally [of "demoWorld [demoRow ''j'' JobStatusCancelled]" "[''c'']" "''j''" "demoRow ''j'' JobStatusCancelled" demoEnv]
  by (auto simp: demoWorld_def tunique_def rowOf_def demoRow_def IsTerminal_iff)

text \<open>The wait before the next submission.\<close>

lemma dvd_i64: "2 ^ 40 dvd x \<Longrightarrow> 2 ^ 40 dvd i64 x"
proof -
  assume a: "(2 :: int) ^ 40 dvd x"
  have "(2 :: int) ^ 40 dvd 2 ^ 64" "(2 :: int) ^ 40 dvd 2 ^ 63" by (simp_all add: le_imp_power_dvd)
  then have "2 ^ 40 dvd (x + 2 ^ 63) mod 2 ^ 64 - 2 ^ 63"
    using a by (simp only: dvd_diff dvd_mod dvd_add)
  then show ?thesis by (simp add: i64_def)
qed

lemma shifted_base:
  fixes k :: nat
  assumes "6 \<le> k"
  shows "i64 (5000000000 * 2 ^ k) \<le> 0 \<or> 300000000000 < i64 (5000000000 * 2 ^ k)"
proof (cases "k \<le> 30")
  case True
  have "(2 :: int) ^ 6 \<le> 2 ^ k" using assms by (rule power_increasing) simp
  moreover have "(2 :: int) ^ k \<le> 2 ^ 30" using True by (rule power_increasing) simp
  ultimately have "in_i64 (5000000000 * 2 ^ k)" "(300000000000 :: int) < 5000000000 * 2 ^ k"
    by (auto simp: in_i64_def)
  then show ?thesis by simp
next
  case False
  then have "31 \<le> k" by simp
  then have "(2 :: int) ^ 31 dvd 2 ^ k" by (rule le_imp_power_dvd)
  then have "(2 :: int) ^ 9 * 2 ^ 31 dvd 5000000000 * 2 ^ k" by (intro mult_dvd_mono) simp_all
  then have "(2 :: int) ^ 40 dvd i64 (5000000000 * 2 ^ k)" by (intro dvd_i64) simp
  then have "i64 (5000000000 * 2 ^ k) \<le> 0 \<or> (2 :: int) ^ 40 \<le> i64 (5000000000 * 2 ^ k)"
    using zdvd_imp_le [of "2 ^ 40" "i64 (5000000000 * 2 ^ k)"] by linarith
  then show ?thesis by auto
qed

text \<open>The backoff is exact.  However often a submission has failed, the shift of the base delay by the count never
  goes wrong through overflow: a job is submitted again exactly when five seconds doubled per failure
  after the first, at most five minutes, have passed since the last attempt.\<close>
theorem backoff_exact:
  assumes "0 < jr_SubmitAttempts job" and "jr_LastSubmitAt job \<noteq> 0"
  shows "backoffElapsed now job \<longleftrightarrow>
    min (5 * Second * 2 ^ nat (jr_SubmitAttempts job - 1)) (5 * Minute) \<le> time_sub now (jr_LastSubmitAt job)"
proof -
  define k where "k = nat (jr_SubmitAttempts job - 1)"
  let ?w = "i64 (5000000000 * 2 ^ k)"
  have e: "(if ?w > 300000000000 \<or> ?w \<le> 0 then 300000000000 else ?w) = min (5000000000 * 2 ^ k) 300000000000"
  proof (cases "6 \<le> k")
    case True
    have "(2 :: int) ^ 6 \<le> 2 ^ k" using True by (rule power_increasing) simp
    then show ?thesis using shifted_base [OF True] by auto
  next
    case False
    then have "k \<in> {0, 1, 2, 3, 4, 5}" by auto
    then show ?thesis by (auto simp: in_i64_def)
  qed
  have "backoffElapsed now job \<longleftrightarrow>
      (if ?w > 300000000000 \<or> ?w \<le> 0 then 300000000000 else ?w) \<le> time_sub now (jr_LastSubmitAt job)"
    using assms by (simp add: backoffElapsed_def submitBackoffBase_def submitBackoffMax_def Second_def Minute_def
        k_def [symmetric] Let_def)
  then show ?thesis unfolding e by (simp add: Second_def Minute_def k_def)
qed

lemma backoff_exact_witness:
  "\<not> backoffElapsed (19 * Second) (emptyJobRow\<lparr>jr_SubmitAttempts := 3, jr_LastSubmitAt := 1\<rparr>)"
  using backoff_exact [of "emptyJobRow\<lparr>jr_SubmitAttempts := 3, jr_LastSubmitAt := 1\<rparr>" "19 * Second"]
  by (simp add: emptyJobRow_def Second_def Minute_def time_sub_def nat_numeral_diff_1)

text \<open>A cancelled job can come back.  The pass re-reads a listed job under its lock but looks only at the name of its
  cluster object: when the job was cancelled (or has failed) between the listing and the re-read, a
  cluster object is created for it all the same and its stored status becomes pending again.\<close>
theorem submit_revives_cancelled:
  assumes "rowOf w i = Some r" and "IsTerminal (jr_Status r)" and "jr_VolcanoJobName r = []"
    and "jr_ID snapshot = i" and "jr_VolcanoJobName snapshot = []" and "jr_SubmitAttempts snapshot = 0"
    and "\<And>n. je_fault env n = None" and "\<And>n c. je_client env n c" and "\<And>n j. je_create env n j = Inr nm"
  shows "\<exists>r'. rowOf (submitPendingItem env snapshot w) i = Some r' \<and> jr_Status r' = JobStatusPending
    \<and> jr_VolcanoJobName r' = nm
    \<and> jw_calls (submitPendingItem env snapshot w) = jw_calls w @ [CallCreate i nm]"
proof -
  have ri: "jr_ID r = i" by (rule rowOf_key [OF assms(1)])
  have g: "getJob env (jr_ID snapshot) w = (Inr r, tick w)"
    using assms(1,4,7) by (simp add: getJob_def GetJob_def rowOf_def)
  have b: "backoffElapsed (nowOf env w) snapshot" using assms(6) by (simp add: backoffElapsed_def)
  define w1 where "w1 = snd (createObject env r (tick w))"
  have c: "createObject env r (tick w) = (Inr nm, w1)" "jw_calls w1 = jw_calls w @ [CallCreate i nm]"
    by (simp_all add: createObject_def assms(9) w1_def ri)
  define job1 where "job1 = r\<lparr>jr_VolcanoJobName := nm, jr_QueueName := queueOf (jr_Type r),
                jr_Status := JobStatusPending, jr_FailureReason := []\<rparr>"
  have rows: "rowOf w1 i = Some r" using assms(1) by (simp add: w1_def)
  have ok: "fst (updateStatus env job1 w1) = None"
    using rows ri assms(7) by (simp add: updateStatus_def UpdateJobStatus_def withExisting_def case_prod_unfold Let_def rowOf_def job1_def)
  have row: "rowOf (snd (snd (updateStatus env job1 w1))) i = Some (statusColumns (job1\<lparr>jr_UpdatedAt := nowOf env w1\<rparr>) r)"
    unfolding updateStatus_row using ok ri rows by (simp add: job1_def)
  have "submitPendingItem env snapshot w
      = publishSubmitted (fst (snd (updateStatus env job1 w1))) (snd (snd (updateStatus env job1 w1)))"
    using ok assms(3,5,8) b
    by (simp add: submitPendingItem_def g enabled_def submitToCluster_def c(1) job1_def [symmetric] case_prod_unfold)
  then show ?thesis using row c(2) by (simp add: job1_def)
qed

lemma submit_revives_cancelled_witness:
  "\<exists>r'. rowOf (submitPendingItem demoEnv (demoRow ''j'' JobStatusPending) (demoWorld [demoRow ''j'' JobStatusCancelled])) ''j'' = Some r'
     \<and> jr_Status r' = JobStatusPending"
  using submit_revives_cancelled [of "demoWorld [demoRow ''j'' JobStatusCancelled]" "''j''" "demoRow ''j'' JobStatusCancelled"
      "demoRow ''j'' JobStatusPending" demoEnv "''vj''"]
  by (auto simp: rowOf_def demoWorld_def demoRow_def demoEnv_def emptyJobRow_def IsTerminal_iff)

text \<open>A cancellation without the cluster forgets the workload.  When no enabled client of the cluster is at hand,
  cancelling a job that runs there succeeds without any call to the cluster, and stores the job as
  cancelled with the name of its cluster object cleared: nothing can delete the object afterwards.\<close>
theorem cancel_offline_forgets_object:
  assumes "rowOf w (jr_ID job) = Some job" and "CanTransition (jr_Status job) JobStatusCancelled"
    and "NormalizeStatus (jr_Status job) \<noteq> JobStatusCancelled"
    and "\<And>n c. \<not> je_client env n c" and "\<And>n. je_fault env n = None"
  shows "\<exists>job' w' r'. CancelJob env job w = (None, job', w') \<and> jw_calls w' = jw_calls w
    \<and> rowOf w' (jr_ID job) = Some r' \<and> jr_Status r' = JobStatusCancelled \<and> jr_VolcanoJobName r' = []"
proof -
  have t: "TerminateJob env job w = (None, w)" using assms(4) by (simp add: TerminateJob_def enabled_def)
  have ok: "fst (MarkCancelled (JobFromModel job))"
    using assms(2,3) by (simp add: MarkCancelled_def transition_True_iff)
  then have st: "job_Status (snd (MarkCancelled (JobFromModel job))) = JobStatusCancelled"
    by (simp add: MarkCancelled_def transition_status)
  define job1 where "job1 = (JobSyncToModel (snd (MarkCancelled (JobFromModel job))) job)\<lparr>jr_VolcanoJobName := []\<rparr>"
  have upd: "fst (updateStatus env job1 w) = None"
    using assms(1,5) by (simp add: updateStatus_def UpdateJobStatus_def withExisting_def case_prod_unfold Let_def rowOf_def job1_def)
  have row: "rowOf (snd (snd (updateStatus env job1 w))) (jr_ID job) = Some (statusColumns (job1\<lparr>jr_UpdatedAt := nowOf env w\<rparr>) job)"
    unfolding updateStatus_row using upd assms(1) by (simp add: job1_def)
  let ?u = "updateStatus env job1 w"
  have "CancelJob env job w = (None, fst (snd ?u), onStateChanged (fst (snd ?u)) (resetMissingCount (jr_ID (fst (snd ?u))) (snd (snd ?u))))"
    using ok upd by (simp add: CancelJob_def t case_prod_unfold Let_def job1_def [symmetric])
  then show ?thesis using row st by (simp add: job1_def)
qed

lemma cancel_offline_forgets_object_witness:
  "\<exists>job' w'. CancelJob (demoEnv\<lparr>je_client := \<lambda>_ _. False\<rparr>) ((demoRow ''j'' JobStatusRunning)\<lparr>jr_VolcanoJobName := ''vj''\<rparr>)
       (demoWorld [(demoRow ''j'' JobStatusRunning)\<lparr>jr_VolcanoJobName := ''vj''\<rparr>]) = (None, job', w') \<and> jw_calls w' = []"
  using cancel_offline_forgets_object [of "demoWorld [(demoRow ''j'' JobStatusRunning)\<lparr>jr_VolcanoJobName := ''vj''\<rparr>]"
      "(demoRow ''j'' JobStatusRunning)\<lparr>jr_VolcanoJobName := ''vj''\<rparr>" "demoEnv\<lparr>je_client := \<lambda>_ _. False\<rparr>"]
  by (auto simp: rowOf_def demoWorld_def demoRow_def demoEnv_def emptyJobRow_def lifecycle_simps)

end
