(* ===== verification/TrainingDomain.thy ===== *)
theory TrainingDomain
  imports JobDomain
begin

text \<open>
  \<^verbatim>\<open>domain/training\<close>: the training specification and its bounds (\<^verbatim>\<open>spec.go\<close>), checkpoint
  policy and checkpoints (\<^verbatim>\<open>checkpoint.go\<close>), model registration (\<^verbatim>\<open>registration.go\<close>),
  templates (\<^verbatim>\<open>template.go\<close>) and the training job with its status machine, retry budget and
  time limit (\<^verbatim>\<open>job.go\<close>).  \<^verbatim>\<open>time.Now()\<close> is the argument \<^term>\<open>now\<close>.
\<close>

section \<open>Specification\<close>

record Spec =
  sp_Image :: string
  sp_Command :: string
  sp_Priority :: int
  sp_GPUs :: int
  sp_Memory :: int
  sp_GPUMemory :: int
  sp_GPUCores :: int
  sp_GPUType :: string
  sp_Distributed :: bool
  sp_Framework :: string
  sp_Replicas :: int
  sp_MinAvailable :: int
  sp_DatasetName :: string
  sp_MountPath :: string
  sp_CodeCommit :: string
  sp_TemplateID :: string
  sp_MaxRuntime :: int

definition maxGPUs :: int where "maxGPUs = 1024"
definition maxMemoryGB :: int where "maxMemoryGB = 8192"
definition maxReplicas :: int where "maxReplicas = 512"
definition maxCommandLen :: nat where "maxCommandLen = 8192"
definition maxGPUCores :: int where "maxGPUCores = 100"
definition maxRuntimeMinutes :: int where "maxRuntimeMinutes = 30 * 24 * 60"
definition DefaultClusterID :: string where "DefaultClusterID = ''cluster-001''"

definition FrameworkPyTorchDDP :: string where "FrameworkPyTorchDDP = ''pytorch-ddp''"
definition FrameworkDeepSpeed :: string where "FrameworkDeepSpeed = ''deepspeed''"
definition FrameworkTensorFlow :: string where "FrameworkTensorFlow = ''tensorflow''"
definition FrameworkMPI :: string where "FrameworkMPI = ''mpi''"

definition distributedFrameworks :: "string list" where
  "distributedFrameworks =
     [FrameworkPyTorchDDP, FrameworkDeepSpeed, FrameworkTensorFlow, FrameworkMPI]"

lemmas spec_consts = maxGPUs_def maxMemoryGB_def maxReplicas_def maxCommandLen_def maxGPUCores_def
  maxRuntimeMinutes_def

datatype TrainingError = ErrNameRequired | ErrNameTooLong | ErrImageRequired | ErrCommandTooLong
  | ErrGPUs | ErrMemory | ErrGPUMemory | ErrGPUCores | ErrMaxRuntime
  | ErrReplicas | ErrFramework string | ErrMinAvailableNegative | ErrMinAvailable int int
  | ErrIntervalSteps | ErrMaxRetries
  | ErrCheckpointURI | ErrCheckpointStep | ErrCheckpointSize
  | ErrModelID | ErrVersionTag
  | ErrCheckpointingDisabled | ErrStaleCheckpoint int int

definition SpecNormalize :: "Spec \<Rightarrow> Spec" where
  "SpecNormalize s0 =
     (let s = s0\<lparr>sp_Image := TrimSpace (sp_Image s0),
                 sp_Framework := TrimSpace (sp_Framework s0),
                 sp_DatasetName := TrimSpace (sp_DatasetName s0),
                 sp_MountPath := TrimSpace (sp_MountPath s0),
                 sp_CodeCommit := TrimSpace (sp_CodeCommit s0),
                 sp_TemplateID := TrimSpace (sp_TemplateID s0)\<rparr>;
          s = (if sp_Distributed s \<and> sp_Replicas s \<le> 0 then s\<lparr>sp_Distributed := False\<rparr> else s) in
      if \<not> sp_Distributed s then s\<lparr>sp_Replicas := 0, sp_MinAvailable := 0\<rparr>
      else if sp_Framework s = [] then s\<lparr>sp_Framework := FrameworkPyTorchDDP\<rparr>
      else s)"

definition EffectiveReplicas :: "Spec \<Rightarrow> int" where
  "EffectiveReplicas s =
     (if \<not> sp_Distributed s \<or> sp_Replicas s \<le> 0 then 1 else i64 (1 + sp_Replicas s))"

definition SpecValidate :: "Spec \<Rightarrow> TrainingError option" where
  "SpecValidate s =
     (if TrimSpace (sp_Image s) = [] then Some ErrImageRequired
      else if length (sp_Command s) > maxCommandLen then Some ErrCommandTooLong
      else if sp_GPUs s < 0 \<or> sp_GPUs s > maxGPUs then Some ErrGPUs
      else if sp_Memory s < 0 \<or> sp_Memory s > maxMemoryGB then Some ErrMemory
      else if sp_GPUMemory s < 0 then Some ErrGPUMemory
      else if sp_GPUCores s < 0 \<or> sp_GPUCores s > maxGPUCores then Some ErrGPUCores
      else if sp_MaxRuntime s < 0 \<or> sp_MaxRuntime s > maxRuntimeMinutes then Some ErrMaxRuntime
      else if \<not> sp_Distributed s then None
      else if sp_Replicas s \<le> 0 \<or> sp_Replicas s > maxReplicas then Some ErrReplicas
      else if sp_Framework s \<notin> set distributedFrameworks then Some (ErrFramework (sp_Framework s))
      else if sp_MinAvailable s < 0 then Some ErrMinAvailableNegative
      else let total = EffectiveReplicas s in
        if sp_MinAvailable s > total then Some (ErrMinAvailable (sp_MinAvailable s) total)
        else None)"

definition TotalGPUs :: "Spec \<Rightarrow> int" where
  "TotalGPUs s = (if sp_GPUs s \<le> 0 then 0 else i64 (sp_GPUs s * EffectiveReplicas s))"

definition TotalMemory :: "Spec \<Rightarrow> int" where
  "TotalMemory s = (if sp_Memory s \<le> 0 then 0 else i64 (sp_Memory s * EffectiveReplicas s))"

lemma FrameworkPyTorchDDP_trim [simp]: "TrimSpace FrameworkPyTorchDDP = FrameworkPyTorchDDP"
  by (simp add: FrameworkPyTorchDDP_def TrimSpace_plain plain_def)

lemma FrameworkPyTorchDDP_nonempty [simp]: "FrameworkPyTorchDDP \<noteq> []"
  by (simp add: FrameworkPyTorchDDP_def)

lemma SpecNormalize_idem [simp]: "SpecNormalize (SpecNormalize s) = SpecNormalize s"
proof (cases "sp_Distributed s \<and> \<not> sp_Replicas s \<le> 0")
  case True
  then show ?thesis
    by (cases "TrimSpace (sp_Framework s) = []") (simp_all add: SpecNormalize_def)
next
  case False
  then show ?thesis
    by (cases "sp_Distributed s") (simp_all add: SpecNormalize_def)
qed

lemma SpecNormalize_replicas:
  "sp_Distributed (SpecNormalize s) \<Longrightarrow> 0 < sp_Replicas (SpecNormalize s)"
  "\<not> sp_Distributed (SpecNormalize s) \<Longrightarrow>
     sp_Replicas (SpecNormalize s) = 0 \<and> sp_MinAvailable (SpecNormalize s) = 0"
  by (auto simp: SpecNormalize_def Let_def split: if_splits)

lemma EffectiveReplicas_bounds:
  assumes "SpecValidate s = None"
  shows "1 \<le> EffectiveReplicas s \<and> EffectiveReplicas s \<le> 513 \<and>
    EffectiveReplicas s = (if sp_Distributed s then 1 + sp_Replicas s else 1)"
  using assms
  by (auto simp: SpecValidate_def EffectiveReplicas_def spec_consts in_i64_def Let_def split: if_splits)

lemma SpecValidate_bounds:
  assumes "SpecValidate s = None"
  shows "0 \<le> sp_GPUs s \<and> sp_GPUs s \<le> 1024" "0 \<le> sp_Memory s \<and> sp_Memory s \<le> 8192"
    "0 \<le> sp_MaxRuntime s \<and> sp_MaxRuntime s \<le> 43200"
    "sp_Distributed s \<Longrightarrow> sp_MinAvailable s \<le> EffectiveReplicas s"
  using assms by (auto simp: SpecValidate_def spec_consts Let_def split: if_splits)

section \<open>Checkpoints\<close>

definition maxCheckpointRetries :: int where "maxCheckpointRetries = 20"
definition defaultCheckpointSteps :: int where "defaultCheckpointSteps = 500"
definition defaultCheckpointRetry :: int where "defaultCheckpointRetry = 3"

record CheckpointPolicy =
  cp_Enabled :: bool
  cp_IntervalSteps :: int
  cp_MaxRetries :: int

definition PolicyNormalize :: "CheckpointPolicy \<Rightarrow> CheckpointPolicy" where
  "PolicyNormalize p =
     (if \<not> cp_Enabled p then p\<lparr>cp_IntervalSteps := 0, cp_MaxRetries := 0\<rparr>
      else let p = (if cp_IntervalSteps p = 0 then p\<lparr>cp_IntervalSteps := defaultCheckpointSteps\<rparr> else p) in
        if cp_MaxRetries p = 0 then p\<lparr>cp_MaxRetries := defaultCheckpointRetry\<rparr> else p)"

definition PolicyValidate :: "CheckpointPolicy \<Rightarrow> TrainingError option" where
  "PolicyValidate p =
     (if \<not> cp_Enabled p then None
      else if cp_IntervalSteps p < 0 then Some ErrIntervalSteps
      else if cp_MaxRetries p < 0 \<or> cp_MaxRetries p > maxCheckpointRetries then Some ErrMaxRetries
      else None)"

record Checkpoint =
  ck_URI :: string
  ck_Step :: int
  ck_CreatedAt :: time
  ck_Hash :: string
  ck_SizeBytes :: int

definition CheckpointValidate :: "Checkpoint \<Rightarrow> TrainingError option" where
  "CheckpointValidate c =
     (if TrimSpace (ck_URI c) = [] then Some ErrCheckpointURI
      else if ck_Step c < 0 then Some ErrCheckpointStep
      else if ck_SizeBytes c < 0 then Some ErrCheckpointSize
      else None)"

lemma PolicyNormalize_idem [simp]: "PolicyNormalize (PolicyNormalize p) = PolicyNormalize p"
  by (simp add: PolicyNormalize_def Let_def defaultCheckpointSteps_def defaultCheckpointRetry_def)

section \<open>Model registration\<close>

record ModelRegistration =
  mr_Enabled :: bool
  mr_ModelID :: string
  mr_VersionTag :: string

definition RegistrationNormalize :: "ModelRegistration \<Rightarrow> ModelRegistration" where
  "RegistrationNormalize r =
     r\<lparr>mr_ModelID := TrimSpace (mr_ModelID r), mr_VersionTag := TrimSpace (mr_VersionTag r)\<rparr>"

definition RegistrationValidate :: "ModelRegistration \<Rightarrow> TrainingError option" where
  "RegistrationValidate r =
     (if \<not> mr_Enabled r then None
      else if TrimSpace (mr_ModelID r) = [] then Some ErrModelID
      else if TrimSpace (mr_VersionTag r) = [] then Some ErrVersionTag
      else None)"

section \<open>Templates\<close>

definition TemplatePyTorchSingle :: string where "TemplatePyTorchSingle = ''pytorch-single''"
definition TemplatePyTorchDDP :: string where "TemplatePyTorchDDP = ''pytorch-ddp''"
definition TemplateDeepSpeed :: string where "TemplateDeepSpeed = ''deepspeed''"
definition TemplateMPI :: string where "TemplateMPI = ''mpi''"

record Template =
  tpl_ID :: string
  tpl_Name :: string
  tpl_Description :: string
  tpl_Spec :: Spec

definition NewSpec :: "Template \<Rightarrow> Spec" where
  "NewSpec t = SpecNormalize ((tpl_Spec t)\<lparr>sp_TemplateID := tpl_ID t\<rparr>)"

definition fill :: "'a \<Rightarrow> (Spec \<Rightarrow> 'a) \<Rightarrow> (('a \<Rightarrow> 'a) \<Rightarrow> Spec \<Rightarrow> Spec) \<Rightarrow> Spec \<Rightarrow> Spec \<Rightarrow> Spec" where
  "fill zero get upd base out = (if get out = zero then upd (\<lambda>_. get base) out else out)"

definition TemplateApply :: "Template \<Rightarrow> Spec \<Rightarrow> Spec" where
  "TemplateApply t user =
     (let base = tpl_Spec t;
          out = fill [] sp_Image sp_Image_update base user;
          out = fill [] sp_Command sp_Command_update base out;
          out = fill 0 sp_GPUs sp_GPUs_update base out;
          out = fill 0 sp_Memory sp_Memory_update base out;
          out = fill 0 sp_GPUMemory sp_GPUMemory_update base out;
          out = fill 0 sp_GPUCores sp_GPUCores_update base out;
          out = fill 0 sp_MaxRuntime sp_MaxRuntime_update base out;
          out = fill [] sp_Framework sp_Framework_update base out;
          out = (if \<not> sp_Distributed out \<and> sp_Distributed base then
                   fill 0 sp_MinAvailable sp_MinAvailable_update base
                     (fill 0 sp_Replicas sp_Replicas_update base (out\<lparr>sp_Distributed := True\<rparr>))
                 else out)
      in SpecNormalize (out\<lparr>sp_TemplateID := tpl_ID t\<rparr>))"

definition emptySpec :: Spec where
  "emptySpec = \<lparr>sp_Image = [], sp_Command = [], sp_Priority = 0, sp_GPUs = 0, sp_Memory = 0,
     sp_GPUMemory = 0, sp_GPUCores = 0, sp_GPUType = [], sp_Distributed = False, sp_Framework = [],
     sp_Replicas = 0, sp_MinAvailable = 0, sp_DatasetName = [], sp_MountPath = [], sp_CodeCommit = [],
     sp_TemplateID = [], sp_MaxRuntime = 0\<rparr>"

definition emptyTemplate :: Template where
  "emptyTemplate = \<lparr>tpl_ID = [], tpl_Name = [], tpl_Description = [], tpl_Spec = emptySpec\<rparr>"

definition templatePyTorchSingle :: Template where
  "templatePyTorchSingle =
  \<lparr>tpl_ID = TemplatePyTorchSingle,
     tpl_Name = ''PyTorch '' @
       bytes [229, 141, 149, 230, 156, 186, 232, 174, 173, 231, 187, 131],
     tpl_Description = bytes [229, 141, 149, 232, 138, 130, 231, 130, 185, 229, 141, 149, 229, 141, 161] @
       ''/'' @
       bytes [229, 164, 154, 229, 141, 161] @
       '' PyTorch '' @
       bytes [232, 174, 173, 231, 187, 131, 239, 188, 140, 233, 128, 130, 229, 144, 136, 232, 176, 131, 232, 175, 149, 228, 184, 142, 228, 184, 173, 229, 176, 143, 232, 167, 132, 230, 168, 161, 229, 190, 174, 232, 176, 131, 227, 128, 130],
     tpl_Spec = emptySpec\<lparr>sp_Image := ''pytorch/pytorch:2.3.0-cuda12.1-cudnn8-runtime'',
       sp_Command := ''python train.py'',
       sp_GPUs := 1,
       sp_Memory := 32,
       sp_MaxRuntime := 24 * 60\<rparr>\<rparr>"

definition templatePyTorchDDP :: Template where
  "templatePyTorchDDP =
  \<lparr>tpl_ID = TemplatePyTorchDDP,
     tpl_Name = ''PyTorch DDP '' @
       bytes [229, 136, 134, 229, 184, 131, 229, 188, 143, 232, 174, 173, 231, 187, 131],
     tpl_Description = bytes [229, 159, 186, 228, 186, 142] @
       '' torchrun '' @
       bytes [231, 154, 132, 229, 164, 154, 232, 138, 130, 231, 130, 185, 230, 149, 176, 230, 141, 174, 229, 185, 182, 232, 161, 140, 232, 174, 173, 231, 187, 131, 239, 188, 140] @
       ''Gang '' @
       bytes [232, 176, 131, 229, 186, 166, 228, 191, 157, 232, 175, 129, 229, 137, 175, 230, 156, 172, 229, 144, 140, 232, 181, 183, 229, 144, 140, 229, 129, 156, 227, 128, 130],
     tpl_Spec = emptySpec\<lparr>sp_Image := ''pytorch/pytorch:2.3.0-cuda12.1-cudnn8-runtime'',
       sp_Command := ''torchrun --nnodes=$WORLD_SIZE --nproc_per_node=$GPUS_PER_NODE train.py'',
       sp_GPUs := 8,
       sp_Memory := 128,
       sp_Distributed := True,
       sp_Framework := FrameworkPyTorchDDP,
       sp_Replicas := 1,
       sp_MinAvailable := 2,
       sp_MaxRuntime := 72 * 60\<rparr>\<rparr>"

definition templateDeepSpeed :: Template where
  "templateDeepSpeed =
  \<lparr>tpl_ID = TemplateDeepSpeed,
     tpl_Name = ''DeepSpeed ZeRO '' @
       bytes [232, 174, 173, 231, 187, 131],
     tpl_Description = bytes [233, 157, 162, 229, 144, 145, 229, 164, 167, 230, 168, 161, 229, 158, 139, 231, 154, 132] @
       '' ZeRO '' @
       bytes [230, 152, 190, 229, 173, 152, 228, 188, 152, 229, 140, 150, 232, 174, 173, 231, 187, 131, 239, 188, 140, 233, 128, 130, 229, 144, 136, 229, 143, 130, 230, 149, 176, 233, 135, 143, 232, 182, 133, 229, 135, 186, 229, 141, 149, 229, 141, 161, 230, 152, 190, 229, 173, 152, 231, 154, 132, 229, 156, 186, 230, 153, 175, 227, 128, 130],
     tpl_Spec = emptySpec\<lparr>sp_Image := ''deepspeed/deepspeed:latest'',
       sp_Command := ''deepspeed train.py --deepspeed_config ds_config.json'',
       sp_GPUs := 8,
       sp_Memory := 256,
       sp_Distributed := True,
       sp_Framework := FrameworkDeepSpeed,
       sp_Replicas := 3,
       sp_MinAvailable := 4,
       sp_MaxRuntime := 7 * 24 * 60\<rparr>\<rparr>"

definition templateMPI :: Template where
  "templateMPI =
  \<lparr>tpl_ID = TemplateMPI,
     tpl_Name = ''MPI '' @
       bytes [229, 136, 134, 229, 184, 131, 229, 188, 143, 232, 174, 173, 231, 187, 131],
     tpl_Description = bytes [229, 159, 186, 228, 186, 142] @
       '' MPI '' @
       bytes [231, 154, 132] @
       '' launcher/worker '' @
       bytes [230, 168, 161, 229, 188, 143, 239, 188, 140, 233, 128, 130, 233, 133, 141] @
       '' Horovod '' @
       bytes [231, 173, 137, 230, 161, 134, 230, 158, 182, 227, 128, 130],
     tpl_Spec = emptySpec\<lparr>sp_Image := ''horovod/horovod:latest'',
       sp_Command := ''mpirun -np $WORLD_SIZE python train.py'',
       sp_GPUs := 4,
       sp_Memory := 64,
       sp_Distributed := True,
       sp_Framework := FrameworkMPI,
       sp_Replicas := 3,
       sp_MinAvailable := 4,
       sp_MaxRuntime := 48 * 60\<rparr>\<rparr>"

definition builtinTemplates :: "Template list" where
  "builtinTemplates = [templatePyTorchSingle, templatePyTorchDDP, templateDeepSpeed, templateMPI]"

definition BuiltinTemplates :: "Template list" where
  "BuiltinTemplates = builtinTemplates"

definition FindTemplate :: "string \<Rightarrow> Template \<times> bool" where
  "FindTemplate id0 =
     (case List.find (\<lambda>t. tpl_ID t = id0) builtinTemplates of
        Some t \<Rightarrow> (t, True)
      | None \<Rightarrow> (emptyTemplate, False))"

section \<open>The training job\<close>

datatype FailureOutcome = OutcomeRetry | OutcomeFailed

definition FailureOutcome_String :: "FailureOutcome \<Rightarrow> string" where
  "FailureOutcome_String oc = (if oc = OutcomeRetry then ''retry'' else ''failed'')"

definition maxNameLen :: nat where "maxNameLen = 200"

record TrainingJob =
  tj_ID :: string
  tj_TenantID :: string
  tj_UserID :: string
  tj_ClusterID :: string
  tj_Name :: string
  tj_Spec :: Spec
  tj_Checkpointing :: CheckpointPolicy
  tj_Registration :: ModelRegistration
  tj_ExperimentID :: string
  tj_RunID :: string
  tj_Status :: JobStatus
  tj_Attempts :: int
  tj_FailureReason :: string
  tj_StartedAt :: "time option"
  tj_FinishedAt :: "time option"
  tj_LatestCheckpoint :: "Checkpoint option"
  tj_ResumeFrom :: string

definition tjNormalize :: "TrainingJob \<Rightarrow> TrainingJob" where
  "tjNormalize j =
     (let j = j\<lparr>tj_Name := TrimSpace (tj_Name j), tj_ClusterID := TrimSpace (tj_ClusterID j)\<rparr>;
          j = (if tj_ClusterID j = [] then j\<lparr>tj_ClusterID := DefaultClusterID\<rparr> else j);
          j = (if tj_Status j = NoStatus then j\<lparr>tj_Status := JobStatusPending\<rparr> else j)
      in j\<lparr>tj_Spec := SpecNormalize (tj_Spec j),
           tj_Checkpointing := PolicyNormalize (tj_Checkpointing j),
           tj_Registration := RegistrationNormalize (tj_Registration j)\<rparr>)"

definition tjValidate :: "TrainingJob \<Rightarrow> TrainingError option" where
  "tjValidate j =
     (if TrimSpace (tj_Name j) = [] then Some ErrNameRequired
      else if length (tj_Name j) > maxNameLen then Some ErrNameTooLong
      else case SpecValidate (tj_Spec j) of
        Some e \<Rightarrow> Some e
      | None \<Rightarrow> (case PolicyValidate (tj_Checkpointing j) of
          Some e \<Rightarrow> Some e
        | None \<Rightarrow> RegistrationValidate (tj_Registration j)))"

definition tjIsTerminal :: "TrainingJob \<Rightarrow> bool" where
  "tjIsTerminal j = IsTerminal (tj_Status j)"

definition tj_transition :: "JobStatus \<Rightarrow> TrainingJob \<Rightarrow> bool \<times> TrainingJob" where
  "tj_transition to j =
     (if \<not> CanTransition (tj_Status j) to then (False, j) else (True, j\<lparr>tj_Status := to\<rparr>))"

definition tjMarkRunning :: "time \<Rightarrow> TrainingJob \<Rightarrow> bool \<times> TrainingJob" where
  "tjMarkRunning tm j =
     (let (ok, j) = tj_transition JobStatusRunning j in
      if \<not> ok then (False, j)
      else (True, if tj_StartedAt j = None then j\<lparr>tj_StartedAt := Some tm\<rparr> else j))"

definition markFinished :: "time \<Rightarrow> TrainingJob \<Rightarrow> bool \<times> TrainingJob" where
  "markFinished now j =
     (True, if tj_FinishedAt j = None then j\<lparr>tj_FinishedAt := Some now\<rparr> else j)"

definition tjMarkCompleted :: "time \<Rightarrow> TrainingJob \<Rightarrow> bool \<times> TrainingJob" where
  "tjMarkCompleted now j =
     (let (ok, j) = tj_transition JobStatusCompleted j in
      if \<not> ok then (False, j) else markFinished now j)"

definition tjMarkCancelled :: "time \<Rightarrow> TrainingJob \<Rightarrow> bool \<times> TrainingJob" where
  "tjMarkCancelled now j =
     (let (ok, j) = tj_transition JobStatusCancelled j in
      if \<not> ok then (False, j) else markFinished now j)"

definition tjMarkFailed :: "time \<Rightarrow> string \<Rightarrow> TrainingJob \<Rightarrow> bool \<times> TrainingJob" where
  "tjMarkFailed now reason j =
     (let (ok, j) = tj_transition JobStatusFailed j in
      if \<not> ok then (False, j) else markFinished now (j\<lparr>tj_FailureReason := reason\<rparr>))"

definition tjMarkRetrying :: "string \<Rightarrow> TrainingJob \<Rightarrow> bool \<times> TrainingJob" where
  "tjMarkRetrying reason j =
     (let (ok, j) = tj_transition JobStatusRetrying j in
      if \<not> ok then (False, j) else (True, j\<lparr>tj_FailureReason := reason\<rparr>))"

definition tjRecordCheckpoint ::
    "time \<Rightarrow> Checkpoint \<Rightarrow> TrainingJob \<Rightarrow> TrainingError option \<times> TrainingJob" where
  "tjRecordCheckpoint now c j =
     (if \<not> cp_Enabled (tj_Checkpointing j) then (Some ErrCheckpointingDisabled, j)
      else case CheckpointValidate c of
        Some e \<Rightarrow> (Some e, j)
      | None \<Rightarrow>
         (case tj_LatestCheckpoint j of
            Some l \<Rightarrow>
              if ck_Step c \<le> ck_Step l then (Some (ErrStaleCheckpoint (ck_Step c) (ck_Step l)), j)
              else (None, j\<lparr>tj_LatestCheckpoint :=
                     Some (if IsZero (ck_CreatedAt c) then c\<lparr>ck_CreatedAt := now\<rparr> else c)\<rparr>)
          | None \<Rightarrow> (None, j\<lparr>tj_LatestCheckpoint :=
                     Some (if IsZero (ck_CreatedAt c) then c\<lparr>ck_CreatedAt := now\<rparr> else c)\<rparr>)))"

definition canResume :: "TrainingJob \<Rightarrow> bool" where
  "canResume j = (cp_Enabled (tj_Checkpointing j) \<and> tj_LatestCheckpoint j \<noteq> None
     \<and> tj_Attempts j < cp_MaxRetries (tj_Checkpointing j))"

definition tjHandleFailure :: "time \<Rightarrow> string \<Rightarrow> TrainingJob \<Rightarrow> FailureOutcome \<times> TrainingJob" where
  "tjHandleFailure now reason j =
     (if \<not> canResume j then (OutcomeFailed, snd (tjMarkFailed now reason j))
      else let (ok, j) = tjMarkRetrying reason j in
        if ok then (OutcomeRetry,
           j\<lparr>tj_Attempts := i64 (tj_Attempts j + 1),
             tj_ResumeFrom := (case tj_LatestCheckpoint j of Some c \<Rightarrow> ck_URI c | None \<Rightarrow> [])\<rparr>)
        else (OutcomeFailed, snd (tjMarkFailed now reason j)))"

definition PrepareRerun :: "TrainingJob \<Rightarrow> bool \<times> TrainingJob" where
  "PrepareRerun j =
     (if tj_Status j \<noteq> JobStatusRetrying then (False, j) else tj_transition JobStatusPending j)"

definition TimedOut :: "time \<Rightarrow> TrainingJob \<Rightarrow> bool" where
  "TimedOut now j =
     (case tj_StartedAt j of
        None \<Rightarrow> False
      | Some started \<Rightarrow>
         if sp_MaxRuntime (tj_Spec j) \<le> 0 then False
         else time_sub now started > i64 (sp_MaxRuntime (tj_Spec j) * Minute))"

definition tjGPUType :: "TrainingJob \<Rightarrow> string" where
  "tjGPUType j = TrimSpace (sp_GPUType (tj_Spec j))"

definition ShouldRegisterModel :: "TrainingJob \<Rightarrow> bool" where
  "ShouldRegisterModel j =
     (tj_Status j = JobStatusCompleted \<and> mr_Enabled (tj_Registration j) \<and> tj_LatestCheckpoint j \<noteq> None)"

section \<open>Runs of a training job\<close>

datatype TrainEvent = TRunning time | TCompleted time | TCancelled time | TFailed time string
  | TCheckpoint time Checkpoint | TFailure time string | TRerun

fun trainEvent :: "TrainEvent \<Rightarrow> TrainingJob \<Rightarrow> TrainingJob" where
  "trainEvent (TRunning tm) j = snd (tjMarkRunning tm j)"
| "trainEvent (TCompleted now) j = snd (tjMarkCompleted now j)"
| "trainEvent (TCancelled now) j = snd (tjMarkCancelled now j)"
| "trainEvent (TFailed now r) j = snd (tjMarkFailed now r j)"
| "trainEvent (TCheckpoint now c) j = snd (tjRecordCheckpoint now c j)"
| "trainEvent (TFailure now r) j = snd (tjHandleFailure now r j)"
| "trainEvent TRerun j = snd (PrepareRerun j)"

fun granted :: "TrainEvent \<Rightarrow> TrainingJob \<Rightarrow> nat" where
  "granted (TFailure now r) j = (if fst (tjHandleFailure now r j) = OutcomeRetry then 1 else 0)"
| "granted _ j = 0"

fun runTrain :: "TrainEvent list \<Rightarrow> TrainingJob \<Rightarrow> TrainingJob" where
  "runTrain [] j = j"
| "runTrain (e # es) j = runTrain es (trainEvent e j)"

fun retriesGranted :: "TrainEvent list \<Rightarrow> TrainingJob \<Rightarrow> nat" where
  "retriesGranted [] j = 0"
| "retriesGranted (e # es) j = granted e j + retriesGranted es (trainEvent e j)"

lemmas train_op_defs = tj_transition_def tjMarkRunning_def tjMarkCompleted_def tjMarkCancelled_def
  tjMarkFailed_def tjMarkRetrying_def markFinished_def tjRecordCheckpoint_def tjHandleFailure_def
  PrepareRerun_def

definition sameOption :: "'a option \<Rightarrow> 'a option \<Rightarrow> bool" where
  "sameOption a b = (a \<noteq> None \<longrightarrow> b = a)"

definition stepOf :: "TrainingJob \<Rightarrow> int" where
  "stepOf j = (case tj_LatestCheckpoint j of None \<Rightarrow> -1 | Some c \<Rightarrow> ck_Step c)"

text \<open>What one operation may do to the record: the frame, the times that are set once, the
  checkpoint that only advances, the status that follows the table.\<close>

definition train_step_ok :: "TrainingJob \<Rightarrow> TrainingJob \<Rightarrow> bool" where
  "train_step_ok j j' =
     (tj_Spec j' = tj_Spec j \<and> tj_Checkpointing j' = tj_Checkpointing j
      \<and> tj_Registration j' = tj_Registration j
      \<and> sameOption (tj_StartedAt j) (tj_StartedAt j') \<and> sameOption (tj_FinishedAt j) (tj_FinishedAt j')
      \<and> (stepOf j \<le> stepOf j' \<or> tj_LatestCheckpoint j = None)
      \<and> (tj_LatestCheckpoint j \<noteq> None \<longrightarrow> tj_LatestCheckpoint j' \<noteq> None)
      \<and> (tjIsTerminal j \<longrightarrow> tj_Status j' = tj_Status j \<and> tj_StartedAt j' = tj_StartedAt j
           \<and> tj_Attempts j' = tj_Attempts j \<and> tj_ResumeFrom j' = tj_ResumeFrom j))"

lemma CanTransition_from_terminal:
  "IsTerminal s \<Longrightarrow> CanTransition s t \<Longrightarrow> t = s"
  by (cases s; cases t) (auto simp: lifecycle_simps Let_def)

lemma CanTransition_terminal_iff: "IsTerminal s \<Longrightarrow> CanTransition s t = (s = t)"
  using CanTransition_from_terminal js.can_stay by blast

lemma not_terminal_simps [simp]:
  "IsTerminal JobStatusRunning = False" "IsTerminal JobStatusPending = False"
  "IsTerminal JobStatusRetrying = False" "IsTerminal NoStatus = False" "IsTerminal JobStatusPaused = False"
  by (simp_all add: lifecycle_simps)

lemma MarkFailed_terminal:
  "tjIsTerminal j \<Longrightarrow> tj_Status (snd (tjMarkFailed now r j)) = tj_Status j"
  by (auto simp: tjIsTerminal_def train_op_defs CanTransition_terminal_iff)

lemma MarkRetrying_terminal:
  "tjIsTerminal j \<Longrightarrow> tjMarkRetrying r j = (False, j)"
  by (auto simp: tjIsTerminal_def train_op_defs CanTransition_terminal_iff)

lemma train_step_refl [simp]: "train_step_ok j j"
  by (simp add: train_step_ok_def sameOption_def)

lemma train_step_trans:
  "train_step_ok j j' \<Longrightarrow> train_step_ok j' j'' \<Longrightarrow> train_step_ok j j''"
  unfolding train_step_ok_def sameOption_def tjIsTerminal_def
  by (elim conjE) (intro conjI; (metis | linarith)?; metis order_trans)

lemma MarkRunning_step_ok [preserves]: "train_step_ok j (snd (tjMarkRunning t j))"
  by (auto simp: train_step_ok_def sameOption_def stepOf_def tjIsTerminal_def train_op_defs
      CanTransition_terminal_iff)

lemma MarkCompleted_step_ok [preserves]: "train_step_ok j (snd (tjMarkCompleted t j))"
  by (auto simp: train_step_ok_def sameOption_def stepOf_def tjIsTerminal_def train_op_defs
      CanTransition_terminal_iff)

lemma MarkCancelled_step_ok [preserves]: "train_step_ok j (snd (tjMarkCancelled t j))"
  by (auto simp: train_step_ok_def sameOption_def stepOf_def tjIsTerminal_def train_op_defs
      CanTransition_terminal_iff)

lemma MarkFailed_step_ok [preserves]: "train_step_ok j (snd (tjMarkFailed t r j))"
  by (auto simp: train_step_ok_def sameOption_def stepOf_def tjIsTerminal_def train_op_defs
      CanTransition_terminal_iff)

lemma RecordCheckpoint_step_ok [preserves]: "train_step_ok j (snd (tjRecordCheckpoint t c j))"
  by (auto simp: train_step_ok_def sameOption_def stepOf_def tjRecordCheckpoint_def
      split: option.splits)

lemma PrepareRerun_step_ok [preserves]: "train_step_ok j (snd (PrepareRerun j))"
  by (auto simp: train_step_ok_def sameOption_def stepOf_def tjIsTerminal_def train_op_defs)

lemma HandleFailure_step_ok [preserves]: "train_step_ok j (snd (tjHandleFailure t r j))"
proof (cases "canResume j \<and> fst (tjMarkRetrying r j)")
  case True
  then have "\<not> tjIsTerminal j" using MarkRetrying_terminal by fastforce
  then show ?thesis using True
    by (auto simp: train_step_ok_def sameOption_def stepOf_def tjHandleFailure_def tjMarkRetrying_def
        tj_transition_def split: if_splits)
next
  case False
  then have "snd (tjHandleFailure t r j) = snd (tjMarkFailed t r j)"
    by (auto simp: tjHandleFailure_def tjMarkRetrying_def tj_transition_def split: if_splits)
  then show ?thesis by (simp add: preserves)
qed

lemma trainEvent_step_ok: "train_step_ok j (trainEvent e j)"
  by (cases e) (simp_all add: preserves)

lemma runTrain_step_ok: "train_step_ok j (runTrain es j)"
  by (induction es arbitrary: j) (auto intro: train_step_trans trainEvent_step_ok)

lemma HandleFailure_retry:
  assumes "in_i64 (cp_MaxRetries (tj_Checkpointing j))" and "0 \<le> tj_Attempts j"
  shows "tj_Attempts (snd (tjHandleFailure now r j)) =
      tj_Attempts j + (if fst (tjHandleFailure now r j) = OutcomeRetry then 1 else 0)"
    and "fst (tjHandleFailure now r j) = OutcomeRetry \<Longrightarrow>
      tj_Attempts (snd (tjHandleFailure now r j)) \<le> cp_MaxRetries (tj_Checkpointing j)"
proof -
  have "canResume j \<Longrightarrow> in_i64 (tj_Attempts j + 1)"
    using assms by (auto simp: canResume_def in_i64_def)
  then show "tj_Attempts (snd (tjHandleFailure now r j)) =
      tj_Attempts j + (if fst (tjHandleFailure now r j) = OutcomeRetry then 1 else 0)"
    and "fst (tjHandleFailure now r j) = OutcomeRetry \<Longrightarrow>
      tj_Attempts (snd (tjHandleFailure now r j)) \<le> cp_MaxRetries (tj_Checkpointing j)"
    by (auto simp: train_op_defs canResume_def)
qed

lemma trainEvent_attempts:
  assumes "in_i64 (cp_MaxRetries (tj_Checkpointing j))" and "0 \<le> tj_Attempts j"
  shows "tj_Attempts (trainEvent e j) = tj_Attempts j + int (granted e j)"
    and "granted e j \<noteq> 0 \<Longrightarrow> tj_Attempts (trainEvent e j) \<le> cp_MaxRetries (tj_Checkpointing j)"
proof -
  have frame: "tj_Attempts (snd (tjMarkRunning t j)) = tj_Attempts j"
    "tj_Attempts (snd (tjMarkCompleted t j)) = tj_Attempts j"
    "tj_Attempts (snd (tjMarkCancelled t j)) = tj_Attempts j"
    "tj_Attempts (snd (tjMarkFailed t r j)) = tj_Attempts j"
    "tj_Attempts (snd (PrepareRerun j)) = tj_Attempts j" for t r
    by (auto simp: train_op_defs)
  have ck: "tj_Attempts (snd (tjRecordCheckpoint t c j)) = tj_Attempts j" for t c
    by (auto simp: tjRecordCheckpoint_def split: option.splits)
  note H = HandleFailure_retry [OF assms]
  show "tj_Attempts (trainEvent e j) = tj_Attempts j + int (granted e j)"
    by (cases e) (auto simp: frame ck H(1))
  show "granted e j \<noteq> 0 \<Longrightarrow> tj_Attempts (trainEvent e j) \<le> cp_MaxRetries (tj_Checkpointing j)"
    using H(2) by (cases e) (auto split: if_splits)
qed

lemma runTrain_attempts:
  assumes "in_i64 (cp_MaxRetries (tj_Checkpointing j))" and "0 \<le> tj_Attempts j"
  shows "tj_Attempts (runTrain es j) = tj_Attempts j + int (retriesGranted es j)
    \<and> tj_Attempts (runTrain es j) \<le> max (tj_Attempts j) (cp_MaxRetries (tj_Checkpointing j))"
  using assms
proof (induction es arbitrary: j)
  case (Cons e es)
  let ?j = "trainEvent e j"
  note A = trainEvent_attempts [OF Cons.prems]
  have p: "tj_Checkpointing ?j = tj_Checkpointing j"
    using trainEvent_step_ok [of j e] by (simp add: train_step_ok_def)
  have "tj_Attempts (runTrain es ?j) = tj_Attempts ?j + int (retriesGranted es ?j)
      \<and> tj_Attempts (runTrain es ?j) \<le> max (tj_Attempts ?j) (cp_MaxRetries (tj_Checkpointing j))"
    using Cons.IH [of ?j] Cons.prems A(1 ) [of e] by (simp add: p)
  then show ?case using A(1) [of e] A(2) [of e] by (cases "granted e j = 0") auto
qed simp

lemma HandleFailure_outcome:
  "fst (tjHandleFailure now r j) = OutcomeRetry \<longleftrightarrow>
     canResume j \<and> tj_Status j \<in> {JobStatusRunning, JobStatusRetrying}"
  by (cases "tj_Status j")
    (auto simp: tjHandleFailure_def tjMarkRetrying_def tj_transition_def CanTransition_def NormalizeStatus_def)

section \<open>Properties\<close>

text \<open>C2: Retry budget.  A training job that starts with no attempt is granted, over any
  sequence of operations, at most \<^verbatim>\<open>MaxRetries\<close> retries, however failures, reruns, checkpoints and
  status reports interleave, and the attempt counter counts exactly the granted ones.\<close>
theorem training_retry_budget:
  assumes "in_i64 (cp_MaxRetries (tj_Checkpointing j))" and "tj_Attempts j = 0"
  shows "int (retriesGranted es j) = tj_Attempts (runTrain es j)
    \<and> int (retriesGranted es j) \<le> max 0 (cp_MaxRetries (tj_Checkpointing j))"
  using runTrain_attempts [of j es] assms by simp

definition demoPolicy :: CheckpointPolicy where
  "demoPolicy = PolicyNormalize \<lparr>cp_Enabled = True, cp_IntervalSteps = 0, cp_MaxRetries = 1\<rparr>"

definition demoTraining :: TrainingJob where
  "demoTraining = \<lparr>tj_ID = ''t1'', tj_TenantID = ''a'', tj_UserID = ''u'', tj_ClusterID = DefaultClusterID,
     tj_Name = ''run'', tj_Spec = emptySpec\<lparr>sp_Image := ''img'', sp_MaxRuntime := 60\<rparr>,
     tj_Checkpointing = demoPolicy,
     tj_Registration = \<lparr>mr_Enabled = False, mr_ModelID = [], mr_VersionTag = []\<rparr>,
     tj_ExperimentID = [], tj_RunID = [], tj_Status = JobStatusRunning, tj_Attempts = 0,
     tj_FailureReason = [], tj_StartedAt = Some 5, tj_FinishedAt = None,
     tj_LatestCheckpoint = Some \<lparr>ck_URI = ''s3://c'', ck_Step = 500, ck_CreatedAt = 7, ck_Hash = [],
       ck_SizeBytes = 0\<rparr>, tj_ResumeFrom = []\<rparr>"

lemma training_retry_budget_witness:
  "int (retriesGranted [TFailure 9 ''oom'', TRerun, TRunning 10, TFailure 11 ''oom''] demoTraining) = 1
   \<and> (1::int) \<le> max 0 (cp_MaxRetries (tj_Checkpointing demoTraining))"
proof -
  let ?es = "[TFailure 9 ''oom'', TRerun, TRunning 10, TFailure 11 ''oom'']"
  have p: "cp_MaxRetries (tj_Checkpointing demoTraining) = 1" "tj_Attempts demoTraining = 0"
    by (simp_all add: demoTraining_def demoPolicy_def PolicyNormalize_def)
  have "retriesGranted ?es demoTraining = 1"
    by (simp add: demoTraining_def demoPolicy_def PolicyNormalize_def train_op_defs canResume_def
        CanTransition_def NormalizeStatus_def in_i64_def defaultCheckpointSteps_def)
  then show ?thesis
    using training_retry_budget [of demoTraining ?es] p by (simp add: in_i64_def)
qed

text \<open>History of a training job.  Over any sequence of operations the specification, the
  checkpoint policy and the registration stay as submitted, the start and finish times are set at
  most once, the latest checkpoint never goes back to an older step, and a job that was terminal at
  some point keeps its status, start time, attempts and resume point for ever.\<close>
theorem training_history_monotone:
  "train_step_ok (runTrain es j) (runTrain (es @ fs) j)"
proof -
  have "runTrain (es @ fs) j = runTrain fs (runTrain es j)"
    by (induction es arbitrary: j) simp_all
  then show ?thesis by (simp add: runTrain_step_ok)
qed

text \<open>Outcome of a failure.  A failure is answered by a retry exactly when checkpointing is
  enabled, a checkpoint exists, the budget is not used up and the job is running or already
  retrying; then the job resumes from that checkpoint's URI.  Otherwise a job that is not yet completed or
  cancelled becomes failed with the reason recorded and a finish time.\<close>
theorem training_failure_outcome:
  "(case tjHandleFailure now r j of
      (OutcomeRetry, j') \<Rightarrow> canResume j \<and> tj_Status j \<in> {JobStatusRunning, JobStatusRetrying}
        \<and> tj_Status j' = JobStatusRetrying \<and> tj_FailureReason j' = r
        \<and> Some (tj_ResumeFrom j') = map_option ck_URI (tj_LatestCheckpoint j)
    | (OutcomeFailed, j') \<Rightarrow>
        if tj_Status j \<in> {JobStatusCompleted, JobStatusCancelled} \<or> (\<exists>s. tj_Status j = OtherStatus s) then j' = j
        else tj_Status j' = JobStatusFailed \<and> tj_FailureReason j' = r \<and> tj_FinishedAt j' \<noteq> None
          \<and> \<not> (canResume j \<and> tj_Status j \<in> {JobStatusRunning, JobStatusRetrying}))"
  by (cases "tj_Status j"; cases "canResume j")
    (auto simp: tjHandleFailure_def tjMarkRetrying_def tjMarkFailed_def markFinished_def tj_transition_def
      CanTransition_def NormalizeStatus_def canResume_def)

text \<open>A specification that passes validation has exact resource totals: the 64-bit
  products of replicas with GPUs and memory do not wrap, the demanded gang size can be met, and
  the time limit is compared without overflow.\<close>
theorem validated_spec_totals:
  assumes "SpecValidate s = None"
  shows "TotalGPUs s = sp_GPUs s * (if sp_Distributed s then 1 + sp_Replicas s else 1)
    \<and> TotalMemory s = sp_Memory s * (if sp_Distributed s then 1 + sp_Replicas s else 1)
    \<and> TotalGPUs s \<le> 1024 * 513 \<and> TotalMemory s \<le> 8192 * 513
    \<and> (sp_Distributed s \<longrightarrow> sp_MinAvailable s \<le> 1 + sp_Replicas s)
    \<and> in_i64 (sp_MaxRuntime s * Minute)"
proof -
  note E = EffectiveReplicas_bounds [OF assms] and B = SpecValidate_bounds [OF assms]
  have G: "0 \<le> sp_GPUs s * EffectiveReplicas s \<and> sp_GPUs s * EffectiveReplicas s \<le> 1024 * 513"
    using E B(1) mult_mono [of "sp_GPUs s" 1024 "EffectiveReplicas s" 513] by simp
  have M: "0 \<le> sp_Memory s * EffectiveReplicas s \<and> sp_Memory s * EffectiveReplicas s \<le> 8192 * 513"
    using E B(2) mult_mono [of "sp_Memory s" 8192 "EffectiveReplicas s" 513] by simp
  have g: "TotalGPUs s = sp_GPUs s * EffectiveReplicas s"
    using G B(1) by (auto simp: TotalGPUs_def in_i64_def)
  have m: "TotalMemory s = sp_Memory s * EffectiveReplicas s"
    using M B(2) by (auto simp: TotalMemory_def in_i64_def)
  show ?thesis
    using E G M B(3,4) unfolding g m by (auto simp: Minute_def in_i64_def)
qed

lemma validated_spec_totals_witness:
  "TotalGPUs (emptySpec\<lparr>sp_Image := ''img'', sp_GPUs := 8, sp_Distributed := True,
     sp_Framework := ''mpi'', sp_Replicas := 3, sp_MinAvailable := 4\<rparr>) = 32"
  using validated_spec_totals [of "emptySpec\<lparr>sp_Image := ''img'', sp_GPUs := 8, sp_Distributed := True,
     sp_Framework := ''mpi'', sp_Replicas := 3, sp_MinAvailable := 4\<rparr>"]
  by (simp add: SpecValidate_def emptySpec_def spec_consts EffectiveReplicas_def in_i64_def
      distributedFrameworks_def FrameworkMPI_def FrameworkPyTorchDDP_def FrameworkDeepSpeed_def
      FrameworkTensorFlow_def TrimSpace_plain plain_def)

lemma SpecNormalize_frame:
  "sp_GPUs (SpecNormalize s) = sp_GPUs s" "sp_Memory (SpecNormalize s) = sp_Memory s"
  "sp_MaxRuntime (SpecNormalize s) = sp_MaxRuntime s"
  by (simp_all add: SpecNormalize_def Let_def)

lemma if_frame:
  "sp_GPUs (if b then s else s') = (if b then sp_GPUs s else sp_GPUs s')"
  "sp_Memory (if b then s else s') = (if b then sp_Memory s else sp_Memory s')"
  "sp_MaxRuntime (if b then s else s') = (if b then sp_MaxRuntime s else sp_MaxRuntime s')"
  by simp_all

lemma fill_frame:
  assumes "\<And>f s. g (upd f s) = g s"
  shows "g (fill z get upd b s) = g s"
  using assms by (simp add: fill_def)

lemma fill_here:
  "sp_GPUs (fill 0 sp_GPUs sp_GPUs_update b s) = (if sp_GPUs s = 0 then sp_GPUs b else sp_GPUs s)"
  "sp_Memory (fill 0 sp_Memory sp_Memory_update b s) = (if sp_Memory s = 0 then sp_Memory b else sp_Memory s)"
  "sp_MaxRuntime (fill 0 sp_MaxRuntime sp_MaxRuntime_update b s) =
     (if sp_MaxRuntime s = 0 then sp_MaxRuntime b else sp_MaxRuntime s)"
  by (simp_all add: fill_def)

lemma NewSpec_single:
  assumes "\<not> sp_Distributed (tpl_Spec t)"
  shows "NewSpec t = (tpl_Spec t)\<lparr>sp_Image := TrimSpace (sp_Image (tpl_Spec t)),
     sp_Framework := TrimSpace (sp_Framework (tpl_Spec t)), sp_DatasetName := TrimSpace (sp_DatasetName (tpl_Spec t)),
     sp_MountPath := TrimSpace (sp_MountPath (tpl_Spec t)), sp_CodeCommit := TrimSpace (sp_CodeCommit (tpl_Spec t)),
     sp_TemplateID := TrimSpace (tpl_ID t), sp_Replicas := 0, sp_MinAvailable := 0\<rparr>"
  using assms by (simp add: NewSpec_def SpecNormalize_def)

lemma NewSpec_gang:
  assumes "sp_Distributed (tpl_Spec t)" "0 < sp_Replicas (tpl_Spec t)" "TrimSpace (sp_Framework (tpl_Spec t)) \<noteq> []"
  shows "NewSpec t = (tpl_Spec t)\<lparr>sp_Image := TrimSpace (sp_Image (tpl_Spec t)),
     sp_Framework := TrimSpace (sp_Framework (tpl_Spec t)), sp_DatasetName := TrimSpace (sp_DatasetName (tpl_Spec t)),
     sp_MountPath := TrimSpace (sp_MountPath (tpl_Spec t)), sp_CodeCommit := TrimSpace (sp_CodeCommit (tpl_Spec t)),
     sp_TemplateID := TrimSpace (tpl_ID t)\<rparr>"
  using assms by (simp add: NewSpec_def SpecNormalize_def)

lemmas template_consts = emptySpec_def FrameworkMPI_def FrameworkPyTorchDDP_def FrameworkDeepSpeed_def
  FrameworkTensorFlow_def TemplatePyTorchSingle_def TemplatePyTorchDDP_def TemplateDeepSpeed_def TemplateMPI_def

lemmas spec_eval = SpecValidate_def EffectiveReplicas_def spec_consts in_i64_def distributedFrameworks_def
  TrimSpace_plain plain_def

lemma NewSpec_PyTorchSingle:
  "SpecValidate (NewSpec templatePyTorchSingle) = None \<and> sp_MinAvailable (NewSpec templatePyTorchSingle) \<le> EffectiveReplicas (NewSpec templatePyTorchSingle)"
  by (simp add: templatePyTorchSingle_def NewSpec_single template_consts spec_eval)

lemma NewSpec_PyTorchDDP:
  "SpecValidate (NewSpec templatePyTorchDDP) = None \<and> sp_MinAvailable (NewSpec templatePyTorchDDP) \<le> EffectiveReplicas (NewSpec templatePyTorchDDP)"
  by (simp add: templatePyTorchDDP_def NewSpec_gang template_consts spec_eval)

lemma NewSpec_DeepSpeed:
  "SpecValidate (NewSpec templateDeepSpeed) = None \<and> sp_MinAvailable (NewSpec templateDeepSpeed) \<le> EffectiveReplicas (NewSpec templateDeepSpeed)"
  by (simp add: templateDeepSpeed_def NewSpec_gang template_consts spec_eval)

lemma NewSpec_MPI:
  "SpecValidate (NewSpec templateMPI) = None \<and> sp_MinAvailable (NewSpec templateMPI) \<le> EffectiveReplicas (NewSpec templateMPI)"
  by (simp add: templateMPI_def NewSpec_gang template_consts spec_eval)

lemma builtin_ids: "distinct (map tpl_ID builtinTemplates)"
  by (simp add: builtinTemplates_def templatePyTorchSingle_def templatePyTorchDDP_def templateDeepSpeed_def
      templateMPI_def template_consts)

lemma FindTemplate_found: "t \<in> set builtinTemplates \<Longrightarrow> FindTemplate (tpl_ID t) = (t, True)"
  using tfind_unique [of tpl_ID builtinTemplates t] builtin_ids
  by (simp add: FindTemplate_def tunique_def tfind_def)

text \<open>Templates.  Every built-in template instantiates to a specification that passes
  validation, finds itself by its id, and its gang fits its replicas; and applying any template to a
  user's specification gives a normalised one that keeps the user's non-zero GPU, memory and
  runtime figures and takes the template's otherwise.\<close>
theorem template_instantiation:
  "list_all (\<lambda>t. SpecValidate (NewSpec t) = None \<and> FindTemplate (tpl_ID t) = (t, True)
      \<and> sp_MinAvailable (NewSpec t) \<le> EffectiveReplicas (NewSpec t)) BuiltinTemplates
   \<and> SpecNormalize (TemplateApply t u) = TemplateApply t u
   \<and> sp_GPUs (TemplateApply t u) = (if sp_GPUs u = 0 then sp_GPUs (tpl_Spec t) else sp_GPUs u)
   \<and> sp_Memory (TemplateApply t u) = (if sp_Memory u = 0 then sp_Memory (tpl_Spec t) else sp_Memory u)
   \<and> sp_MaxRuntime (TemplateApply t u) = (if sp_MaxRuntime u = 0 then sp_MaxRuntime (tpl_Spec t) else sp_MaxRuntime u)"
proof (intro conjI)
  show "SpecNormalize (TemplateApply t u) = TemplateApply t u"
    unfolding TemplateApply_def Let_def by (rule SpecNormalize_idem)
  show "sp_GPUs (TemplateApply t u) = (if sp_GPUs u = 0 then sp_GPUs (tpl_Spec t) else sp_GPUs u)"
    by (simp add: TemplateApply_def Let_def SpecNormalize_frame if_frame fill_frame [where g = sp_GPUs] fill_frame [where g = sp_Memory]
      fill_frame [where g = sp_MaxRuntime] fill_here)
  show "sp_Memory (TemplateApply t u) = (if sp_Memory u = 0 then sp_Memory (tpl_Spec t) else sp_Memory u)"
    by (simp add: TemplateApply_def Let_def SpecNormalize_frame if_frame fill_frame [where g = sp_GPUs] fill_frame [where g = sp_Memory]
      fill_frame [where g = sp_MaxRuntime] fill_here)
  show "sp_MaxRuntime (TemplateApply t u) = (if sp_MaxRuntime u = 0 then sp_MaxRuntime (tpl_Spec t) else sp_MaxRuntime u)"
    by (simp add: TemplateApply_def Let_def SpecNormalize_frame if_frame fill_frame [where g = sp_GPUs] fill_frame [where g = sp_Memory]
      fill_frame [where g = sp_MaxRuntime] fill_here)
  show "list_all (\<lambda>t. SpecValidate (NewSpec t) = None \<and> FindTemplate (tpl_ID t) = (t, True)
      \<and> sp_MinAvailable (NewSpec t) \<le> EffectiveReplicas (NewSpec t)) BuiltinTemplates"
    using NewSpec_PyTorchSingle NewSpec_PyTorchDDP NewSpec_DeepSpeed NewSpec_MPI FindTemplate_found
    by (simp add: BuiltinTemplates_def builtinTemplates_def)
qed

end
