(* ===== verification/TrainingService.thy ===== *)
theory TrainingService
  imports TrainingDomain JobService Utf8
begin

text \<open>
  \<^verbatim>\<open>adapter/training.go\<close>, \<^verbatim>\<open>app/training/service.go\<close> and the adapter entity of
  \<^verbatim>\<open>ports/finetune.go\<close>: training jobs as job rows; submission with a quota reservation, checkpoints,
  failures, resumption, completion with the registration of a model version and of an adapter, and the
  settlement of the GPU cost.  The scheduler is the job service.
\<close>

section \<open>Rows and aggregates\<close>

definition TrainingFromModel :: "JobRow \<Rightarrow> TrainingJob" where
  "TrainingFromModel m = \<lparr>tj_ID = jr_ID m, tj_TenantID = jr_TenantID m, tj_UserID = [], tj_ClusterID = jr_ClusterID m,
     tj_Name = jr_Name m,
     tj_Spec = \<lparr>sp_Image = jr_Image m, sp_Command = jr_Command m, sp_Priority = jr_Priority m, sp_GPUs = jr_GPUs m,
       sp_Memory = jr_Memory m, sp_GPUMemory = jr_GPUMemory m, sp_GPUCores = jr_GPUCores m, sp_GPUType = [],
       sp_Distributed = jr_Distributed m, sp_Framework = jr_Framework m, sp_Replicas = jr_Replicas m,
       sp_MinAvailable = jr_MinAvailable m, sp_DatasetName = jr_DatasetName m, sp_MountPath = jr_MountPath m,
       sp_CodeCommit = jr_CodeCommit m, sp_TemplateID = jr_TemplateID m, sp_MaxRuntime = jr_MaxRuntime m\<rparr>,
     tj_Checkpointing = \<lparr>cp_Enabled = jr_CheckpointEnabled m, cp_IntervalSteps = jr_CheckpointInterval m,
       cp_MaxRetries = jr_CheckpointMaxRetries m\<rparr>,
     tj_Registration = \<lparr>mr_Enabled = jr_RegisterModelEnabled m, mr_ModelID = jr_RegisterModelID m,
       mr_VersionTag = jr_RegisterVersionTag m\<rparr>,
     tj_ExperimentID = [], tj_RunID = [], tj_Status = jr_Status m, tj_Attempts = jr_RetryAttempts m,
     tj_FailureReason = jr_FailureReason m, tj_StartedAt = jr_StartedAt m, tj_FinishedAt = None,
     tj_LatestCheckpoint = (if jr_LatestCheckpointURI m = [] then None
       else Some \<lparr>ck_URI = jr_LatestCheckpointURI m, ck_Step = jr_LatestCheckpointStep m,
         ck_CreatedAt = (case jr_LatestCheckpointAt m of Some t \<Rightarrow> t | None \<Rightarrow> 0),
         ck_Hash = jr_LatestCheckpointHash m, ck_SizeBytes = jr_LatestCheckpointSizeBytes m\<rparr>),
     tj_ResumeFrom = jr_ResumeFrom m\<rparr>"

definition TrainingSyncToModel :: "TrainingJob \<Rightarrow> JobRow \<Rightarrow> JobRow" where
  "TrainingSyncToModel agg m =
     (let m = m\<lparr>jr_Status := tj_Status agg, jr_RetryAttempts := tj_Attempts agg, jr_ResumeFrom := tj_ResumeFrom agg,
            jr_FailureReason := tj_FailureReason agg, jr_StartedAt := tj_StartedAt agg\<rparr> in
      case tj_LatestCheckpoint agg of
        None \<Rightarrow> m
      | Some ck \<Rightarrow> m\<lparr>jr_LatestCheckpointURI := ck_URI ck, jr_LatestCheckpointStep := ck_Step ck,
          jr_LatestCheckpointAt := Some (ck_CreatedAt ck), jr_LatestCheckpointHash := ck_Hash ck,
          jr_LatestCheckpointSizeBytes := ck_SizeBytes ck\<rparr>)"

definition TrainingSpecToModel :: "TrainingJob \<Rightarrow> JobRow \<Rightarrow> JobRow" where
  "TrainingSpecToModel agg m =
     (let s = tj_Spec agg in
      m\<lparr>jr_ID := tj_ID agg, jr_TenantID := tj_TenantID agg, jr_ClusterID := tj_ClusterID agg, jr_Name := tj_Name agg,
        jr_Type := MJTraining, jr_Status := tj_Status agg,
        jr_Image := sp_Image s, jr_Command := sp_Command s, jr_Priority := sp_Priority s, jr_GPUs := sp_GPUs s,
        jr_Memory := sp_Memory s, jr_GPUMemory := sp_GPUMemory s, jr_GPUCores := sp_GPUCores s,
        jr_Distributed := sp_Distributed s, jr_Framework := sp_Framework s, jr_Replicas := sp_Replicas s,
        jr_MinAvailable := sp_MinAvailable s, jr_DatasetName := sp_DatasetName s, jr_MountPath := sp_MountPath s,
        jr_CodeCommit := sp_CodeCommit s, jr_TemplateID := sp_TemplateID s, jr_MaxRuntime := sp_MaxRuntime s,
        jr_CheckpointEnabled := cp_Enabled (tj_Checkpointing agg),
        jr_CheckpointInterval := cp_IntervalSteps (tj_Checkpointing agg),
        jr_CheckpointMaxRetries := cp_MaxRetries (tj_Checkpointing agg),
        jr_RegisterModelEnabled := mr_Enabled (tj_Registration agg),
        jr_RegisterModelID := mr_ModelID (tj_Registration agg),
        jr_RegisterVersionTag := mr_VersionTag (tj_Registration agg)\<rparr>)"

section \<open>Adapters\<close>

record FineTuneAdapter =
  fa_ID :: string
  fa_Name :: string
  fa_BaseModel :: string
  fa_Path :: string
  fa_Rank :: int
  fa_Method :: string
  fa_SourceJobID :: string
  fa_TenantID :: string
  fa_CreatedBy :: string

datatype AdapterError = AdNameRequired | AdBaseModelRequired | AdPathRequired | AdRank int | AdUnknownMethod string

definition MethodLoRA :: string where "MethodLoRA = ''lora''"
definition MethodQLoRA :: string where "MethodQLoRA = ''qlora''"
definition maxAdapterRank :: int where "maxAdapterRank = 256"

text \<open>Lower case only matters to a method that is then compared with two ASCII words.\<close>

definition AdapterNormalize :: "FineTuneAdapter \<Rightarrow> FineTuneAdapter" where
  "AdapterNormalize a =
     (let a = a\<lparr>fa_Name := TrimSpace (fa_Name a), fa_BaseModel := TrimSpace (fa_BaseModel a),
            fa_Path := TrimSpace (fa_Path a), fa_SourceJobID := TrimSpace (fa_SourceJobID a),
            fa_Method := lowerSearch (TrimSpace (fa_Method a))\<rparr>;
          a = (if fa_Method a = [] then a\<lparr>fa_Method := MethodLoRA\<rparr> else a) in
      if fa_Rank a = 0 then a\<lparr>fa_Rank := 8\<rparr> else a)"

definition AdapterValidate :: "FineTuneAdapter \<Rightarrow> AdapterError option" where
  "AdapterValidate a =
     (if fa_Name a = [] then Some AdNameRequired
      else if fa_BaseModel a = [] then Some AdBaseModelRequired
      else if fa_Path a = [] then Some AdPathRequired
      else if fa_Rank a \<le> 0 \<or> fa_Rank a > maxAdapterRank then Some (AdRank (fa_Rank a))
      else if fa_Method a \<noteq> MethodLoRA \<and> fa_Method a \<noteq> MethodQLoRA then Some (AdUnknownMethod (fa_Method a))
      else None)"

fun adapterErrText :: "(string \<Rightarrow> string) \<Rightarrow> AdapterError \<Rightarrow> string" where
  "adapterErrText quote AdNameRequired = ''invalid adapter: name required''"
| "adapterErrText quote AdBaseModelRequired = ''invalid adapter: base_model required''"
| "adapterErrText quote AdPathRequired = ''invalid adapter: path required''"
| "adapterErrText quote (AdRank r) = ''invalid adapter: rank must be within [1,256], got '' @ showInt r"
| "adapterErrText quote (AdUnknownMethod m) =
     ''invalid adapter: unknown method '' @ quote m @ '' (want lora or qlora)''"

section \<open>State and environment\<close>

record ModelVersionRow =
  mv_ID :: string
  mv_TenantID :: string
  mv_ModelID :: string
  mv_Version :: string
  mv_StorageURI :: string
  mv_Image :: string
  mv_SizeBytes :: int
  mv_Hash :: string
  mv_SourceJobID :: string
  mv_SourceRunID :: string
  mv_CodeRepo :: string
  mv_CodeCommit :: string
  mv_TemplateID :: string
  mv_DatasetID :: string
  mv_DatasetName :: string
  mv_DatasetVersion :: string
  mv_Hyperparameters :: string
  mv_Files :: string

record RunInfo =
  ri_ID :: string
  ri_Hyperparameters :: string
  ri_CodeRepo :: string
  ri_CodeCommit :: string
  ri_DatasetID :: string
  ri_DatasetName :: string
  ri_DatasetVersion :: string

record GpuUsage =
  gu_TenantID :: string
  gu_JobID :: string
  gu_GPUType :: string
  gu_GPUCount :: int
  gu_Hours :: f64
  gu_Cost :: f64
  gu_Status :: JobStatus

record TrWorld =
  tw_job :: JobWorld
  tw_quota :: quota_db
  tw_versions :: "ModelVersionRow list"
  tw_adapters :: "FineTuneAdapter list"
  tw_costs :: "GpuUsage list"
  tw_alerts :: "(string \<times> f64 \<times> f64) list"

text \<open>
  The environment adds to that of the job service: database answers for the attempts of a quota transaction
  (\<^term>\<open>te_quota\<close>), fresh ids, the model, experiment and adapter stores, and the price book with its
  floating-point arithmetic (\<^term>\<open>te_cost\<close> for hours and cost, \<^term>\<open>te_ratioHigh\<close> for the test of the ratio
  against 0.8), which is not interpreted.
\<close>

record TrainEnv =
  te_job :: JobEnv
  te_quota :: "nat \<Rightarrow> nat \<Rightarrow> StoreError option"
  te_newID :: "nat \<Rightarrow> string"
  te_modelExists :: "string \<Rightarrow> bool"
  te_createVersion :: "nat \<Rightarrow> ModelVersionRow \<Rightarrow> string + string"
  te_runOf :: "(string \<Rightarrow> RunInfo option) option"
  te_createAdapter :: "(nat \<Rightarrow> FineTuneAdapter \<Rightarrow> string + string) option"
  te_billing :: bool
  te_hours :: "duration \<Rightarrow> f64"
  te_cost :: "string \<Rightarrow> int \<Rightarrow> f64 \<Rightarrow> f64"
  te_recordCost :: "nat \<Rightarrow> string option"
  te_budget :: "(string \<Rightarrow> (f64 \<times> f64) option) option"
  te_ratioHigh :: "f64 \<Rightarrow> f64 \<Rightarrow> bool"

datatype TrainSvcError = TrNotFound string | TrInvalidSpec TrainingError | TrUnknownTemplate string
  | TrInvalidState | TrStore StoreError | TrScheduler JobSvcError | TrCheckpoint TrainingError

definition tickOf :: "TrWorld \<Rightarrow> nat" where
  "tickOf w = jw_tick (tw_job w)"

definition tickT :: "TrWorld \<Rightarrow> TrWorld" where
  "tickT w = w\<lparr>tw_job := tick (tw_job w)\<rparr>"

definition nowT :: "TrainEnv \<Rightarrow> TrWorld \<Rightarrow> time" where
  "nowT env w = nowOf (te_job env) (tw_job w)"

definition updateT :: "TrainEnv \<Rightarrow> JobRow \<Rightarrow> TrWorld \<Rightarrow> StoreError option \<times> JobRow \<times> TrWorld" where
  "updateT env job w =
     (let (r, job, jw) = updateStatus (te_job env) job (tw_job w) in (r, job, w\<lparr>tw_job := jw\<rparr>))"

definition loadT :: "TrainEnv \<Rightarrow> string \<Rightarrow> TrWorld \<Rightarrow> (TrainSvcError + JobRow \<times> TrainingJob) \<times> TrWorld" where
  "loadT env jobID w =
     (case getJob (te_job env) jobID (tw_job w) of
        (Inl _, jw) \<Rightarrow> (Inl (TrNotFound jobID), w\<lparr>tw_job := jw\<rparr>)
      | (Inr job, jw) \<Rightarrow>
          (if jr_Type job \<noteq> MJTraining then Inl (TrNotFound jobID) else Inr (job, TrainingFromModel job),
           w\<lparr>tw_job := jw\<rparr>))"

definition releaseRow :: "TrainEnv \<Rightarrow> JobRow \<Rightarrow> TrWorld \<Rightarrow> TrWorld" where
  "releaseRow env job w =
     (if jr_TenantID job = [] then w
      else let spec = tj_Spec (TrainingFromModel job);
               (_, db) = Release (te_quota env (tickOf w)) (nowT env w) (jr_TenantID job)
                 (TotalGPUs spec) (TotalMemory spec) 1 (tw_quota w)
           in tickT (w\<lparr>tw_quota := db\<rparr>))"

section \<open>Cost and registration\<close>

definition RuntimeSpan :: "time \<Rightarrow> TrainingJob \<Rightarrow> duration" where
  "RuntimeSpan now j =
     (case tj_StartedAt j of
        None \<Rightarrow> 0
      | Some s \<Rightarrow>
          let d = time_sub (case tj_FinishedAt j of Some e \<Rightarrow> e | None \<Rightarrow> now) s in if d \<le> 0 then 0 else d)"

definition maybeAlert :: "TrainEnv \<Rightarrow> (string \<Rightarrow> (f64 \<times> f64) option) \<Rightarrow> string \<Rightarrow> TrWorld \<Rightarrow> TrWorld" where
  "maybeAlert env budget tenant w =
     (case budget tenant of
        None \<Rightarrow> w
      | Some (limit, used) \<Rightarrow>
          if fle limit (Fin 0) then w
          else if te_ratioHigh env used limit \<or> fle limit used
          then w\<lparr>tw_alerts := tw_alerts w @ [(tenant, limit, used)]\<rparr> else w)"

definition settleGPUCost :: "TrainEnv \<Rightarrow> TrainingJob \<Rightarrow> JobStatus \<Rightarrow> TrWorld \<Rightarrow> TrWorld" where
  "settleGPUCost env agg status w =
     (if \<not> te_billing env then w
      else let gpuType = tjGPUType agg; gpuCount = TotalGPUs (tj_Spec agg) in
        if gpuCount \<le> 0 then w
        else let span = RuntimeSpan (nowT env w) agg; hours = (if span = 0 then Fin 0 else te_hours env span) in
          if fle hours (Fin 0) then w
          else let cost = te_cost env gpuType gpuCount hours in
            if fle cost (Fin 0) then w
            else case te_recordCost env (tickOf w) of
              Some _ \<Rightarrow> tickT w
            | None \<Rightarrow>
                let w = tickT (w\<lparr>tw_costs := tw_costs w @ [\<lparr>gu_TenantID = tj_TenantID agg, gu_JobID = tj_ID agg,
                      gu_GPUType = gpuType, gu_GPUCount = gpuCount, gu_Hours = hours, gu_Cost = cost,
                      gu_Status = status\<rparr>]\<rparr>) in
                case te_budget env of
                  None \<Rightarrow> w
                | Some budget \<Rightarrow> maybeAlert env budget (tj_TenantID agg) w)"

primrec firstNonEmpty :: "string list \<Rightarrow> string" where
  "firstNonEmpty [] = []"
| "firstNonEmpty (v # vals) = (if v \<noteq> [] then v else firstNonEmpty vals)"

text \<open>A Go JSON string: quotes, backslashes, control characters, the characters of HTML and the two line separators of
  Unicode are escaped, an invalid byte becomes the escape of U+FFFD.\<close>

definition hexDigit :: "nat \<Rightarrow> char" where
  "hexDigit n = (if n < 10 then char_of (48 + n) else char_of (87 + n))"

definition jsonEscape :: "nat \<Rightarrow> string" where
  "jsonEscape b =
     (if b = 0x22 then [CHR 0x5C, CHR 0x22] else if b = 0x5C then [CHR 0x5C, CHR 0x5C]
      else if b = 8 then [CHR 0x5C, CHR ''b''] else if b = 12 then [CHR 0x5C, CHR ''f'']
      else if b = 10 then [CHR 0x5C, CHR ''n''] else if b = 13 then [CHR 0x5C, CHR ''r'']
      else if b = 9 then [CHR 0x5C, CHR ''t'']
      else if b < 0x20 \<or> b = 0x3C \<or> b = 0x3E \<or> b = 0x26
      then [CHR 0x5C, CHR ''u'', CHR ''0'', CHR ''0'', hexDigit (b div 16), hexDigit (b mod 16)]
      else [char_of b])"

function jsonBody :: "string \<Rightarrow> string" where
  "jsonBody [] = []"
| "jsonBody (c # s) =
     (let (r, width) = decode1 (c # s) in
      (if r = RuneError \<and> width = 1 then [CHR 0x5C] @ ''ufffd''
       else if r = 0x2028 then [CHR 0x5C] @ ''u2028'' else if r = 0x2029 then [CHR 0x5C] @ ''u2029''
       else if r < 0x80 then jsonEscape r else take width (c # s)) @ jsonBody (drop (snd (decode1 (c # s)) - 1) s))"
  by pat_completeness auto
termination by (relation "measure length") auto

definition jsonString :: "string \<Rightarrow> string" where
  "jsonString s = [CHR 0x22] @ jsonBody s @ [CHR 0x22]"

definition jsonKey :: "string \<Rightarrow> string" where
  "jsonKey k = [CHR 0x22] @ k @ [CHR 0x22, CHR '':'']"

definition buildVersionFileManifest :: "Checkpoint option \<Rightarrow> string" where
  "buildVersionFileManifest ck =
     (case ck of
        None \<Rightarrow> []
      | Some c \<Rightarrow>
          if TrimSpace (ck_URI c) = [] then []
          else ''[{'' @ jsonKey ''path'' @ jsonString (ck_URI c)
            @ (if ck_Hash c = [] then [] else '','' @ jsonKey ''hash'' @ jsonString (ck_Hash c))
            @ (if ck_SizeBytes c = 0 then [] else '','' @ jsonKey ''size_bytes'' @ showInt (ck_SizeBytes c)) @ ''}]'')"

definition versionOf :: "TrainEnv \<Rightarrow> JobRow \<Rightarrow> TrainingJob \<Rightarrow> Checkpoint \<Rightarrow> ModelVersionRow" where
  "versionOf env job agg ck =
     (let v = \<lparr>mv_ID = [], mv_TenantID = jr_TenantID job, mv_ModelID = mr_ModelID (tj_Registration agg),
            mv_Version = mr_VersionTag (tj_Registration agg), mv_StorageURI = ck_URI ck, mv_Image = sp_Image (tj_Spec agg),
            mv_SizeBytes = ck_SizeBytes ck, mv_Hash = ck_Hash ck, mv_SourceJobID = jr_ID job, mv_SourceRunID = [],
            mv_CodeRepo = jr_CodeRepo job, mv_CodeCommit = jr_CodeCommit job, mv_TemplateID = jr_TemplateID job,
            mv_DatasetID = jr_DatasetID job, mv_DatasetName = jr_DatasetName job, mv_DatasetVersion = jr_DatasetVersion job,
            mv_Hyperparameters = [], mv_Files = buildVersionFileManifest (Some ck)\<rparr> in
      case te_runOf env of
        None \<Rightarrow> v
      | Some runs \<Rightarrow> (case runs (jr_ID job) of
          None \<Rightarrow> v
        | Some run \<Rightarrow> v\<lparr>mv_SourceRunID := ri_ID run, mv_Hyperparameters := ri_Hyperparameters run,
            mv_CodeRepo := firstNonEmpty [mv_CodeRepo v, ri_CodeRepo run],
            mv_CodeCommit := firstNonEmpty [mv_CodeCommit v, ri_CodeCommit run],
            mv_DatasetID := firstNonEmpty [mv_DatasetID v, ri_DatasetID run],
            mv_DatasetName := firstNonEmpty [mv_DatasetName v, ri_DatasetName run],
            mv_DatasetVersion := firstNonEmpty [mv_DatasetVersion v, ri_DatasetVersion run]\<rparr>))"

definition registerModel :: "TrainEnv \<Rightarrow> JobRow \<Rightarrow> TrainingJob \<Rightarrow> TrWorld \<Rightarrow> string \<times> JobRow \<times> TrWorld" where
  "registerModel env job agg w =
     (if \<not> ShouldRegisterModel agg then ([], job, w)
      else if jr_RegisteredVersionID job \<noteq> [] then ([], job, w)
      else if \<not> te_modelExists env (mr_ModelID (tj_Registration agg))
      then (''model registration skipped: model '' @ mr_ModelID (tj_Registration agg) @ '' not found'', job, w)
      else if TrimSpace (mr_VersionTag (tj_Registration agg)) = []
      then (''model registration skipped: empty version tag'', job, w)
      else case tj_LatestCheckpoint agg of
        None \<Rightarrow> ([], job, w)
      | Some ck \<Rightarrow>
          let v = versionOf env job agg ck in
          case te_createVersion env (tickOf w) v of
            Inl e \<Rightarrow> (''model registration failed: '' @ e, job, tickT w)
          | Inr vid \<Rightarrow> ([], job\<lparr>jr_RegisteredVersionID := vid\<rparr>,
              tickT (w\<lparr>tw_versions := tw_versions w @ [v\<lparr>mv_ID := vid\<rparr>]\<rparr>)))"

definition adapterOf :: "JobRow \<Rightarrow> Checkpoint \<Rightarrow> FineTuneAdapter" where
  "adapterOf job ck = AdapterNormalize \<lparr>fa_ID = [], fa_Name = jr_Name job, fa_BaseModel = TrimSpace (jr_AdapterBaseModel job),
     fa_Path = ck_URI ck, fa_Rank = jr_AdapterRank job, fa_Method = jr_AdapterMethod job,
     fa_SourceJobID = jr_ID job, fa_TenantID = jr_TenantID job, fa_CreatedBy = jr_TenantID job\<rparr>"

definition registerAdapter :: "TrainEnv \<Rightarrow> JobRow \<Rightarrow> TrainingJob \<Rightarrow> TrWorld \<Rightarrow> string \<times> JobRow \<times> TrWorld" where
  "registerAdapter env job agg w =
     (case te_createAdapter env of
        None \<Rightarrow> ([], job, w)
      | Some create \<Rightarrow>
          if \<not> jr_RegisterAdapterEnabled job \<or> jr_RegisteredAdapterID job \<noteq> [] then ([], job, w)
          else (case tj_LatestCheckpoint agg of
            None \<Rightarrow> (''adapter registration skipped: no checkpoint artifact'', job, w)
          | Some ck \<Rightarrow>
              if TrimSpace (ck_URI ck) = [] then (''adapter registration skipped: no checkpoint artifact'', job, w)
              else if TrimSpace (jr_AdapterBaseModel job) = []
              then (''adapter registration skipped: base model required'', job, w)
              else if jr_AdapterMethod job \<noteq> MethodLoRA \<and> jr_AdapterMethod job \<noteq> MethodQLoRA
              then (''adapter registration skipped: invalid adapter method'', job, w)
              else (case AdapterValidate (adapterOf job ck) of
                  Some e \<Rightarrow> (''adapter registration skipped: '' @ adapterErrText (je_quote (te_job env)) e, job, w)
                | None \<Rightarrow> (case create (tickOf w) (adapterOf job ck) of
                    Inl e \<Rightarrow> (''adapter registration failed: '' @ e, job, tickT w)
                  | Inr aid \<Rightarrow> ([], job\<lparr>jr_RegisteredAdapterID := aid\<rparr>,
                      tickT (w\<lparr>tw_adapters := tw_adapters w @ [(adapterOf job ck)\<lparr>fa_ID := aid\<rparr>]\<rparr>))))))"

section \<open>Operations\<close>

record SubmitInput =
  si_Name :: string
  si_ClusterID :: string
  si_TemplateID :: string
  si_Spec :: Spec
  si_Checkpointing :: CheckpointPolicy
  si_Registration :: ModelRegistration

text \<open>A submission with a name and a specification only.\<close>

definition plainSubmit :: "string \<Rightarrow> Spec \<Rightarrow> SubmitInput" where
  "plainSubmit name spec = \<lparr>si_Name = name, si_ClusterID = [], si_TemplateID = [], si_Spec = spec,
     si_Checkpointing = \<lparr>cp_Enabled = False, cp_IntervalSteps = 0, cp_MaxRetries = 0\<rparr>,
     si_Registration = \<lparr>mr_Enabled = False, mr_ModelID = [], mr_VersionTag = []\<rparr>\<rparr>"

definition truncateTrainReason :: "string \<Rightarrow> string" where
  "truncateTrainReason reason =
     (if length reason \<le> maxFailureReasonLen then reason else take maxFailureReasonLen reason @ ''...'')"

definition trList :: "TrainEnv \<Rightarrow> string \<Rightarrow> TrWorld \<Rightarrow> StoreError + JobRow list" where
  "trList env tenant w =
     (let f = je_fault (te_job env) (tickOf w); rows = jw_rows (tw_job w) in
      case (if tenant = [] then GetJobs f rows else GetJobsByTenant f tenant rows) of
        Inl e \<Rightarrow> Inl e
      | Inr all \<Rightarrow> Inr (filter (\<lambda>j. jr_Type j = MJTraining) all))"

definition trGet :: "TrainEnv \<Rightarrow> string \<Rightarrow> TrWorld \<Rightarrow> TrainSvcError + JobRow" where
  "trGet env jobID w = (case fst (loadT env jobID w) of Inl e \<Rightarrow> Inl e | Inr (job, _) \<Rightarrow> Inr job)"

definition trCancel :: "TrainEnv \<Rightarrow> string \<Rightarrow> TrWorld \<Rightarrow> TrainSvcError option \<times> TrWorld" where
  "trCancel env jobID w =
     (case loadT env jobID w of
        (Inl e, w) \<Rightarrow> (Some e, w)
      | (Inr (job, agg), w) \<Rightarrow>
          if tjIsTerminal agg then (Some TrInvalidState, w)
          else case CancelJob (te_job env) job (tw_job w) of
            (Some e, _, jw) \<Rightarrow> (Some (TrScheduler e), w\<lparr>tw_job := jw\<rparr>)
          | (None, job, jw) \<Rightarrow>
              let w = w\<lparr>tw_job := jw\<rparr>; (ok, agg) = tjMarkCancelled (nowT env w) agg in
              if \<not> ok then (Some TrInvalidState, w)
              else case updateT env (TrainingSyncToModel agg job) w of
                (Some e, _, w) \<Rightarrow> (Some (TrStore e), w)
              | (None, job, w) \<Rightarrow> (None, settleGPUCost env agg JobStatusCancelled (releaseRow env job w)))"

definition trDelete :: "TrainEnv \<Rightarrow> string \<Rightarrow> TrWorld \<Rightarrow> TrainSvcError option \<times> TrWorld" where
  "trDelete env jobID w =
     (case loadT env jobID w of
        (Inl e, w) \<Rightarrow> (Some e, w)
      | (Inr (job, agg), w) \<Rightarrow>
          let active = \<not> tjIsTerminal agg;
              (e, jw) = (if active then TerminateJob (te_job env) job (tw_job w) else (None, tw_job w));
              w = w\<lparr>tw_job := jw\<rparr> in
          case e of
            Some e \<Rightarrow> (Some (TrScheduler e), w)
          | None \<Rightarrow> (case DeleteJob (je_fault (te_job env) (tickOf w)) jobID (jw_rows (tw_job w)) of
              (Some e, _) \<Rightarrow> (Some (TrStore e), tickT w)
            | (None, rows) \<Rightarrow>
                let w = tickT (w\<lparr>tw_job := (tw_job w)\<lparr>jw_rows := rows\<rparr>\<rparr>) in
                (None, if active then releaseRow env job w else w)))"

definition trAggregate :: "string \<Rightarrow> SubmitInput \<Rightarrow> Spec \<Rightarrow> TrainingJob" where
  "trAggregate tenant inp spec = tjNormalize \<lparr>tj_ID = [], tj_TenantID = tenant, tj_UserID = [],
     tj_ClusterID = si_ClusterID inp, tj_Name = si_Name inp, tj_Spec = spec, tj_Checkpointing = si_Checkpointing inp,
     tj_Registration = si_Registration inp, tj_ExperimentID = [], tj_RunID = [], tj_Status = NoStatus, tj_Attempts = 0,
     tj_FailureReason = [], tj_StartedAt = None, tj_FinishedAt = None, tj_LatestCheckpoint = None, tj_ResumeFrom = []\<rparr>"

definition dispatch :: "TrainEnv \<Rightarrow> JobRow \<Rightarrow> TrWorld \<Rightarrow> JobRow \<times> TrWorld" where
  "dispatch env job w =
     (case SubmitJob (te_job env) job (tw_job w) of
        (Some e, job, jw) \<Rightarrow>
          (job\<lparr>jr_FailureReason := truncateTrainReason (svcErrText e), jr_SubmitAttempts := 1\<rparr>, w\<lparr>tw_job := jw\<rparr>)
      | (None, job, jw) \<Rightarrow> (job, w\<lparr>tw_job := jw\<rparr>))"

definition chosenSpec :: "SubmitInput \<Rightarrow> TrainSvcError + Spec" where
  "chosenSpec inp =
     (if si_TemplateID inp = [] then Inr (si_Spec inp)
      else let (tpl, ok) = FindTemplate (si_TemplateID inp) in
        if \<not> ok then Inl (TrUnknownTemplate (si_TemplateID inp)) else Inr (TemplateApply tpl (si_Spec inp)))"

definition reserveAndCreate :: "TrainEnv \<Rightarrow> string \<Rightarrow> TrainingJob \<Rightarrow> TrWorld \<Rightarrow> (TrainSvcError + JobRow) \<times> TrWorld" where
  "reserveAndCreate env tenant agg w =
     (let gpus = TotalGPUs (tj_Spec agg); mem = TotalMemory (tj_Spec agg) in
      case CheckAndReserve (te_quota env (tickOf w)) (nowT env w) tenant gpus mem 1 (tw_quota w) of
        (Some e, _) \<Rightarrow> (Inl (TrStore e), tickT w)
      | (None, db) \<Rightarrow>
          let w = tickT (w\<lparr>tw_quota := db\<rparr>) in
          case CreateJob (je_fault (te_job env) (tickOf w)) (te_newID env (tickOf w)) (nowT env w)
              (TrainingSpecToModel agg emptyJobRow) (jw_rows (tw_job w)) of
            (Some e, _, _) \<Rightarrow>
              let (_, db) = Release (te_quota env (Suc (tickOf w))) (nowT env w) tenant gpus mem 1 (tw_quota w)
              in (Inl (TrStore e), tickT (w\<lparr>tw_quota := db\<rparr>))
          | (None, job, rows) \<Rightarrow>
              let w = tickT (w\<lparr>tw_job := (tw_job w)\<lparr>jw_rows := rows\<rparr>\<rparr>);
                  (job, w) = dispatch env job w;
                  (_, job, w) = updateT env job w in (Inr job, w))"

definition trSubmit :: "TrainEnv \<Rightarrow> string \<Rightarrow> SubmitInput \<Rightarrow> TrWorld \<Rightarrow> (TrainSvcError + JobRow) \<times> TrWorld" where
  "trSubmit env tenant inp w =
     (case chosenSpec inp of
        Inl e \<Rightarrow> (Inl e, w)
      | Inr spec \<Rightarrow>
          let agg = trAggregate tenant inp spec in
          case tjValidate agg of
            Some e \<Rightarrow> (Inl (TrInvalidSpec e), w)
          | None \<Rightarrow> reserveAndCreate env tenant agg w)"

definition trRecordCheckpoint :: "TrainEnv \<Rightarrow> string \<Rightarrow> Checkpoint \<Rightarrow> TrWorld \<Rightarrow> TrainSvcError option \<times> TrWorld" where
  "trRecordCheckpoint env jobID ck w =
     (case loadT env jobID w of
        (Inl e, w) \<Rightarrow> (Some e, w)
      | (Inr (job, agg), w) \<Rightarrow>
          let ck = (if IsZero (ck_CreatedAt ck) then ck\<lparr>ck_CreatedAt := nowT env w\<rparr> else ck) in
          case tjRecordCheckpoint (nowT env w) ck agg of
            (Some e, _) \<Rightarrow> (Some (TrCheckpoint e), w)
          | (None, agg) \<Rightarrow> (case updateT env (TrainingSyncToModel agg job) w of
              (Some e, _, w) \<Rightarrow> (Some (TrStore e), w)
            | (None, _, w) \<Rightarrow> (None, w)))"

definition trHandleFailure ::
    "TrainEnv \<Rightarrow> string \<Rightarrow> string \<Rightarrow> TrWorld \<Rightarrow> FailureOutcome \<times> TrainSvcError option \<times> TrWorld" where
  "trHandleFailure env jobID reason w =
     (case loadT env jobID w of
        (Inl e, w) \<Rightarrow> (OutcomeFailed, Some e, w)
      | (Inr (job, agg), w) \<Rightarrow>
          let wasTerminal = tjIsTerminal agg;
              (outcome, agg) = tjHandleFailure (nowT env w) (truncateTrainReason reason) agg;
              job = TrainingSyncToModel agg job;
              job = (if outcome = OutcomeRetry then job\<lparr>jr_VolcanoJobName := []\<rparr> else job) in
          case updateT env job w of
            (Some e, _, w) \<Rightarrow> (outcome, Some (TrStore e), w)
          | (None, job, w) \<Rightarrow>
              (outcome, None,
               if outcome = OutcomeFailed \<and> \<not> wasTerminal
               then settleGPUCost env agg JobStatusFailed (releaseRow env job w) else w))"

definition trResume :: "TrainEnv \<Rightarrow> string \<Rightarrow> TrWorld \<Rightarrow> TrainSvcError option \<times> TrWorld" where
  "trResume env jobID w =
     (case loadT env jobID w of
        (Inl e, w) \<Rightarrow> (Some e, w)
      | (Inr (job, agg), w) \<Rightarrow>
          let (ok, agg) = PrepareRerun agg in
          if \<not> ok then (Some TrInvalidState, w)
          else
            let job = (TrainingSyncToModel agg job)\<lparr>jr_VolcanoJobName := [], jr_SubmitAttempts := 0\<rparr> in
            case updateT env job w of
              (Some e, _, w) \<Rightarrow> (Some (TrStore e), w)
            | (None, job, w) \<Rightarrow>
                let (job, w) = dispatch env job w in
                case updateT env job w of
                  (Some e, _, w) \<Rightarrow> (Some (TrStore e), w)
                | (None, _, w) \<Rightarrow> (None, w))"

definition noted :: "string \<Rightarrow> JobRow \<Rightarrow> JobRow" where
  "noted note job = (if note = [] then job else job\<lparr>jr_FailureReason := truncateTrainReason note\<rparr>)"

definition trComplete :: "TrainEnv \<Rightarrow> string \<Rightarrow> TrWorld \<Rightarrow> TrainSvcError option \<times> TrWorld" where
  "trComplete env jobID w =
     (case loadT env jobID w of
        (Inl e, w) \<Rightarrow> (Some e, w)
      | (Inr (job, agg), w) \<Rightarrow>
          let alreadyDone = (tj_Status agg = JobStatusCompleted);
              (ok, agg) = tjMarkCompleted (nowT env w) agg in
          if \<not> ok \<and> \<not> alreadyDone then (Some TrInvalidState, w)
          else
            let (note, job, w) = registerModel env (TrainingSyncToModel agg job) agg w;
                (note', job, w) = registerAdapter env (noted note job) agg w in
            case updateT env (noted note' job) w of
              (Some e, _, w) \<Rightarrow> (Some (TrStore e), w)
            | (None, job, w) \<Rightarrow>
                (None, if \<not> alreadyDone then settleGPUCost env agg JobStatusCompleted (releaseRow env job w) else w))"

end
