(* ===== verification/TrainingServiceProofs.thy ===== *)
theory TrainingServiceProofs
  imports TrainingService JobServiceProofs
begin

text \<open>
  The quota of a training job: reserved by a submission that creates the job, given back exactly when an
  operation ends an active job, and never otherwise.
\<close>

section \<open>What the steps keep\<close>

definition trow :: "TrWorld \<Rightarrow> string \<Rightarrow> JobRow option" where
  "trow w i = rowOf (tw_job w) i"

text \<open>The fields that fix what a job is charged.\<close>

definition chargeFields :: "JobRow \<Rightarrow> string \<times> int \<times> int \<times> bool \<times> int" where
  "chargeFields r = (jr_TenantID r, jr_GPUs r, jr_Memory r, jr_Distributed r, jr_Replicas r)"

definition activeRow :: "JobRow option \<Rightarrow> bool" where
  "activeRow r = (case r of None \<Rightarrow> False | Some r \<Rightarrow> \<not> IsTerminal (jr_Status r))"

lemma tickT_simps [simp]: "trow (tickT w) = trow w" "tw_quota (tickT w) = tw_quota w"
  by (simp_all add: tickT_def trow_def fun_eq_iff)

lemma job_update_simps [simp]: "tw_quota (w\<lparr>tw_job := j\<rparr>) = tw_quota w" "trow (w\<lparr>tw_job := j\<rparr>) = rowOf j"
  by (simp_all add: trow_def fun_eq_iff)

lemma settle_frame [simp]:
  "tw_quota (settleGPUCost env agg st w) = tw_quota w \<and> tw_job (settleGPUCost env agg st w) \<in> {tw_job w, tick (tw_job w)}"
  by (auto simp: settleGPUCost_def maybeAlert_def Let_def tickT_def split: option.splits)

lemma settle_row [simp]: "trow (settleGPUCost env agg st w) = trow w"
  using settle_frame [of env agg st w] by (auto simp: trow_def fun_eq_iff)

lemma release_row [simp]: "trow (releaseRow env job w) = trow w"
  by (simp add: releaseRow_def Let_def case_prod_unfold tickT_def trow_def fun_eq_iff)

lemma registerModel_frame:
  "tw_quota (snd (snd (registerModel env job agg w))) = tw_quota w"
  "trow (snd (snd (registerModel env job agg w))) = trow w"
  "jr_ID (fst (snd (registerModel env job agg w))) = jr_ID job"
  "jr_Status (fst (snd (registerModel env job agg w))) = jr_Status job"
  "chargeFields (fst (snd (registerModel env job agg w))) = chargeFields job"
  by (simp_all add: registerModel_def Let_def tickT_def trow_def chargeFields_def fun_eq_iff split: option.split sum.split)

lemma registerAdapter_frame:
  "tw_quota (snd (snd (registerAdapter env job agg w))) = tw_quota w"
  "trow (snd (snd (registerAdapter env job agg w))) = trow w"
  "jr_ID (fst (snd (registerAdapter env job agg w))) = jr_ID job"
  "jr_Status (fst (snd (registerAdapter env job agg w))) = jr_Status job"
  "chargeFields (fst (snd (registerAdapter env job agg w))) = chargeFields job"
  by (simp_all add: registerAdapter_def Let_def tickT_def trow_def chargeFields_def fun_eq_iff split: option.split sum.split)

lemma updateT_row:
  "trow (snd (snd (updateT env job w))) k =
     (if fst (updateT env job w) = None \<and> k = jr_ID job
      then map_option (statusColumns (job\<lparr>jr_UpdatedAt := nowT env w\<rparr>)) (trow w k) else trow w k)"
  using updateStatus_row [of "te_job env" job "tw_job w" k]
  by (simp add: updateT_def Let_def case_prod_unfold nowT_def trow_def)

lemma updateT_quota [simp]: "tw_quota (snd (snd (updateT env job w))) = tw_quota w"
  by (simp add: updateT_def Let_def case_prod_unfold)

lemma updateStatus_result:
  assumes "fst (updateStatus env job w) = None"
  shows "fst (snd (updateStatus env job w)) = job\<lparr>jr_UpdatedAt := nowOf env w\<rparr>"
proof -
  obtain res job' rows where u: "withExisting (je_fault env (jw_tick w)) (nowOf env w) statusColumns job (jw_rows w) = (res, job', rows)"
    by (metis prod_cases3)
  then have "res = None" using assms by (simp add: updateStatus_def UpdateJobStatus_def)
  then have "job' = job\<lparr>jr_UpdatedAt := nowOf env w\<rparr>" using withExisting_ok u by blast
  then show ?thesis using u by (simp only: updateStatus_def UpdateJobStatus_def u prod.case Let_def fst_conv snd_conv)
qed

lemma updateStatus_exists:
  "fst (updateStatus env job w) = None \<Longrightarrow> \<exists>r. rowOf w (jr_ID job) = Some r"
  by (auto simp: updateStatus_def UpdateJobStatus_def withExisting_def Let_def case_prod_unfold rowOf_def split: option.splits)

lemma updateT_ok:
  assumes "updateT env job w = (None, job', w')"
  shows "job' = job\<lparr>jr_UpdatedAt := nowT env w\<rparr>" and "\<exists>r. trow w (jr_ID job) = Some r"
    and "trow w' k = (if k = jr_ID job then map_option (statusColumns job') (trow w k) else trow w k)"
    and "tw_quota w' = tw_quota w"
proof -
  have f: "fst (updateStatus (te_job env) job (tw_job w)) = None" "job' = fst (snd (updateStatus (te_job env) job (tw_job w)))"
    using assms by (auto simp: updateT_def Let_def case_prod_unfold)
  show j: "job' = job\<lparr>jr_UpdatedAt := nowT env w\<rparr>" using updateStatus_result [OF f(1)] f(2) by (simp add: nowT_def)
  show "\<exists>r. trow w (jr_ID job) = Some r" using updateStatus_exists [OF f(1)] by (simp add: trow_def)
  show "trow w' k = (if k = jr_ID job then map_option (statusColumns job') (trow w k) else trow w k)"
    using updateT_row [of env job w k] by (simp add: assms j)
  show "tw_quota w' = tw_quota w" using updateT_quota [of env job w] by (simp add: assms)
qed

lemma updateT_err: "updateT env job w = (Some e, job', w') \<Longrightarrow> tw_quota w' = tw_quota w"
  using updateT_quota [of env job w] by simp

lemma loadT_ok:
  assumes "loadT env i w = (Inr (job, agg), w')"
  shows "trow w i = Some job" and "agg = TrainingFromModel job" and "jr_Type job = MJTraining" and "jr_ID job = i"
    and "trow w' = trow w" and "tw_quota w' = tw_quota w"
proof -
  obtain jw where g: "getJob (te_job env) i (tw_job w) = (Inr job, jw)" "w' = w\<lparr>tw_job := jw\<rparr>" "jr_Type job = MJTraining"
    "agg = TrainingFromModel job"
    using assms by (auto simp: loadT_def split: prod.splits sum.splits if_splits)
  then show "trow w i = Some job"
    by (auto simp: getJob_def GetJob_def trow_def rowOf_def split: option.splits)
  then show "jr_ID job = i" by (simp add: trow_def rowOf_key)
  show "jr_Type job = MJTraining" "agg = TrainingFromModel job" by (rule g)+
  have "jw = tick (tw_job w)" using g(1) by (simp add: getJob_def)
  then show "trow w' = trow w" "tw_quota w' = tw_quota w" using g(2) by (simp_all add: trow_def fun_eq_iff)
qed

lemma loadT_err: "loadT env i w = (Inl e, w') \<Longrightarrow> tw_quota w' = tw_quota w"
  by (auto simp: loadT_def split: prod.splits sum.splits if_splits)

section \<open>The operations as events\<close>

datatype TrEvent = EvCancel | EvDelete | EvFail string | EvComplete | EvResume | EvCheckpoint Checkpoint

fun trEvent :: "TrainEnv \<Rightarrow> TrEvent \<Rightarrow> string \<Rightarrow> TrWorld \<Rightarrow> TrainSvcError option \<times> TrWorld" where
  "trEvent env EvCancel i w = trCancel env i w"
| "trEvent env EvDelete i w = trDelete env i w"
| "trEvent env (EvFail reason) i w = snd (trHandleFailure env i reason w)"
| "trEvent env EvComplete i w = trComplete env i w"
| "trEvent env EvResume i w = trResume env i w"
| "trEvent env (EvCheckpoint ck) i w = trRecordCheckpoint env i ck w"

text \<open>The quota after a release of the totals of a row.\<close>

definition givenBack :: "JobRow \<Rightarrow> quota_db \<Rightarrow> quota_db \<Rightarrow> bool" where
  "givenBack r db db' = (\<exists>fault now. db' = snd (Release fault now (jr_TenantID r)
     (TotalGPUs (tj_Spec (TrainingFromModel r))) (TotalMemory (tj_Spec (TrainingFromModel r))) 1 db))"

lemma releaseRow_quota:
  "jr_TenantID job = [] \<Longrightarrow> tw_quota (releaseRow env job w) = tw_quota w"
  "jr_TenantID job \<noteq> [] \<Longrightarrow> givenBack job (tw_quota w) (tw_quota (releaseRow env job w))"
  by (auto simp: releaseRow_def givenBack_def Let_def case_prod_unfold)

lemma chargeFields_totals:
  assumes "chargeFields s = chargeFields r"
  shows "TotalGPUs (tj_Spec (TrainingFromModel s)) = TotalGPUs (tj_Spec (TrainingFromModel r))"
    and "TotalMemory (tj_Spec (TrainingFromModel s)) = TotalMemory (tj_Spec (TrainingFromModel r))"
    and "jr_TenantID s = jr_TenantID r"
  using assms
  by (simp_all add: chargeFields_def TotalGPUs_def TotalMemory_def EffectiveReplicas_def TrainingFromModel_def)

lemma givenBack_same: "chargeFields s = chargeFields r \<Longrightarrow> givenBack s db db' = givenBack r db db'"
  unfolding givenBack_def by (simp only: chargeFields_totals [of s r])

lemma chargeFields_simps [simp]:
  "chargeFields (TrainingSyncToModel agg r) = chargeFields r" "chargeFields (noted n r) = chargeFields r"
  "chargeFields (r\<lparr>jr_UpdatedAt := t\<rparr>) = chargeFields r" "chargeFields (r\<lparr>jr_VolcanoJobName := nm\<rparr>) = chargeFields r"
  "chargeFields (JobSyncToModel a r) = chargeFields r"
  by (simp_all add: chargeFields_def TrainingSyncToModel_def noted_def JobSyncToModel_def Let_def split: option.split)

lemma id_status_simps [simp]:
  "jr_ID (TrainingSyncToModel agg r) = jr_ID r" "jr_ID (noted n r) = jr_ID r"
  "jr_Status (TrainingSyncToModel agg r) = tj_Status agg" "jr_Status (noted n r) = jr_Status r"
  by (simp_all add: TrainingSyncToModel_def noted_def Let_def split: option.split)

section \<open>Each operation\<close>

text \<open>Quota is given back exactly when the operation succeeds and ends an active job of a tenant.\<close>

definition exactRelease :: "JobRow \<Rightarrow> string \<Rightarrow> TrWorld \<Rightarrow> TrainSvcError option \<times> TrWorld \<Rightarrow> bool" where
  "exactRelease r i w res =
     (if fst res = None \<and> activeRow (Some r) \<and> \<not> activeRow (trow (snd res) i) \<and> jr_TenantID r \<noteq> []
      then givenBack r (tw_quota w) (tw_quota (snd res)) else tw_quota (snd res) = tw_quota w)"

lemma exact_keep: "tw_quota w' = tw_quota w \<Longrightarrow> (err = None \<Longrightarrow> activeRow (Some r) \<Longrightarrow> activeRow (trow w' i))
  \<Longrightarrow> exactRelease r i w (err, w')"
  by (auto simp: exactRelease_def)

lemma exact_release:
  assumes "chargeFields job = chargeFields r" and "tw_quota w1 = tw_quota w" and "trow w' = trow w1"
    and "tw_quota w' = tw_quota (releaseRow env job w1)" and "activeRow (Some r)" and "\<not> activeRow (trow w1 i)"
  shows "exactRelease r i w (None, w')"
proof (cases "jr_TenantID r = []")
  case True
  then have "jr_TenantID job = []" using chargeFields_totals(3) [OF assms(1)] by simp
  then show ?thesis using True assms releaseRow_quota(1) [of job env w1] by (simp add: exactRelease_def)
next
  case False
  then have "jr_TenantID job \<noteq> []" using chargeFields_totals(3) [OF assms(1)] by simp
  then have "givenBack r (tw_quota w) (tw_quota w')"
    using releaseRow_quota(2) [of job w1 env] givenBack_same [OF assms(1)] assms(2,4) by simp
  then show ?thesis using False assms by (simp add: exactRelease_def)
qed

lemma activeRow_Some [simp]: "activeRow (Some r) = (\<not> IsTerminal (jr_Status r))" "activeRow None = False"
  by (simp_all add: activeRow_def)

lemma tagg_status [simp]: "tj_Status (TrainingFromModel r) = jr_Status r"
  by (simp add: TrainingFromModel_def)

lemma marks_status:
  "tjMarkCompleted t j = (True, j') \<Longrightarrow> tj_Status j' = JobStatusCompleted \<and> CanTransition (tj_Status j) JobStatusCompleted"
  "tjMarkCompleted t j = (False, j') \<Longrightarrow> j' = j"
  "tjMarkCancelled t j = (True, j') \<Longrightarrow> tj_Status j' = JobStatusCancelled"
  by (auto simp: tjMarkCompleted_def tjMarkCancelled_def tj_transition_def markFinished_def split: if_splits)

lemma failure_outcome_status:
  assumes "tjHandleFailure t reason j = (oc, j')" and "\<And>s. tj_Status j \<noteq> OtherStatus s"
  shows "oc = OutcomeRetry \<Longrightarrow> tj_Status j' = JobStatusRetrying" and
    "oc = OutcomeFailed \<Longrightarrow> \<not> IsTerminal (tj_Status j) \<Longrightarrow> tj_Status j' = JobStatusFailed"
    and "IsTerminal (tj_Status j) \<Longrightarrow> oc = OutcomeFailed"
  using assms
  by (cases "tj_Status j"; auto simp: tjHandleFailure_def tjMarkRetrying_def tjMarkFailed_def tj_transition_def
      markFinished_def Let_def lifecycle_simps split: if_splits)+

lemma cancel_frame:
  assumes "CancelJob env job jw = (None, job', jw')"
  shows "chargeFields job' = chargeFields job \<and> jr_ID job' = jr_ID job"
proof -
  have "job' = job \<or> (\<exists>a t. job' = ((JobSyncToModel a job)\<lparr>jr_VolcanoJobName := []\<rparr>)\<lparr>jr_UpdatedAt := t\<rparr>)"
  proof (cases "TerminateJob env job jw")
    case (Pair e jw1)
    show ?thesis
    proof (cases "fst (MarkCancelled (JobFromModel job))")
      case True
      define job1 where "job1 = (JobSyncToModel (snd (MarkCancelled (JobFromModel job))) job)\<lparr>jr_VolcanoJobName := []\<rparr>"
      obtain res job2 jw2 where u: "updateStatus env job1 jw1 = (res, job2, jw2)" by (metis prod_cases3)
      have "e = None" "res = None" "job' = job2" using assms Pair True u
        by (auto simp: CancelJob_def Let_def case_prod_unfold job1_def [symmetric] split: option.splits)
      then have "job' = job1\<lparr>jr_UpdatedAt := nowOf env jw1\<rparr>"
        using updateStatus_result [of env job1 jw1] u by simp
      then show ?thesis unfolding job1_def by blast
    next
      case False
      then show ?thesis using assms Pair by (auto simp: CancelJob_def Let_def case_prod_unfold split: option.splits)
    qed
  qed
  then show ?thesis by auto
qed

lemma cancel_exact:
  assumes "trow w i = Some r"
  shows "exactRelease r i w (trCancel env i w)"
proof (cases "loadT env i w")
  case (Pair lr w1)
  show ?thesis
  proof (cases lr)
    case (Inl e)
    then show ?thesis using Pair loadT_err by (auto simp: trCancel_def exactRelease_def)
  next
    case (Inr ja)
    obtain job agg where ja: "ja = (job, agg)" by force
    note l = loadT_ok [OF Pair [unfolded Inr ja]]
    have jr: "job = r" using l(1) assms by simp
    show ?thesis
    proof (cases "tjIsTerminal agg")
      case True
      then show ?thesis using Pair Inr ja l by (simp add: trCancel_def exactRelease_def)
    next
      case act: False
      obtain e job2 jw2 where c: "CancelJob (te_job env) job (tw_job w1) = (e, job2, jw2)" by (metis prod_cases3)
      let ?w2 = "w1\<lparr>tw_job := jw2\<rparr>"
      obtain ok agg2 where m: "tjMarkCancelled (nowT env ?w2) agg = (ok, agg2)" by force
      obtain res job3 w3 where u: "updateT env (TrainingSyncToModel agg2 job2) ?w2 = (res, job3, w3)" by (metis prod_cases3)
      have e: "trCancel env i w = (case e of Some e \<Rightarrow> (Some (TrScheduler e), ?w2) | None \<Rightarrow>
          if \<not> ok then (Some TrInvalidState, ?w2)
          else case res of Some e \<Rightarrow> (Some (TrStore e), w3)
            | None \<Rightarrow> (None, settleGPUCost env agg2 JobStatusCancelled (releaseRow env job3 w3)))"
        by (simp add: trCancel_def Pair Inr ja act c Let_def m u split: option.split)
      have q2: "tw_quota ?w2 = tw_quota w" using l(6) by simp
      show ?thesis
      proof (cases "e = None \<and> ok \<and> res = None")
        case True
        note uo = updateT_ok [OF u [simplified conjunct2 [OF conjunct2 [OF True]]]]
        have cf: "chargeFields job2 = chargeFields r" "jr_ID job2 = i"
          using cancel_frame c True jr l(4) by auto
        have "exactRelease r i w (None, settleGPUCost env agg2 JobStatusCancelled (releaseRow env job3 w3))"
        proof (rule exact_release [where job = job3 and ?w1.0 = w3 and env = env])
          show "chargeFields job3 = chargeFields r" using uo(1) cf by simp
          show "tw_quota w3 = tw_quota w" using uo(4) q2 by simp
          show "activeRow (Some r)" using act l(2) jr by (simp add: tjIsTerminal_def)
          have "tj_Status agg2 = JobStatusCancelled" using marks_status(3) m True by simp
          then show "\<not> activeRow (trow w3 i)"
            using uo(3) [of i] uo(1) uo(2) cf by (auto simp: IsTerminal_iff)
        qed simp_all
        then show ?thesis unfolding e using True by simp
      next
        case False
        then show ?thesis unfolding e using q2 u updateT_quota [of env "TrainingSyncToModel agg2 job2" ?w2]
          by (auto simp: exactRelease_def split: option.split)
      qed
    qed
  qed
qed

lemma terminate_rows [simp]: "jw_rows (snd (TerminateJob env job jw)) = jw_rows jw"
  by (simp add: TerminateJob_def deleteObject_def split: option.split)

lemma delete_exact:
  assumes "trow w i = Some r"
  shows "exactRelease r i w (trDelete env i w)"
proof (cases "loadT env i w")
  case (Pair lr w1)
  show ?thesis
  proof (cases lr)
    case (Inl e)
    then show ?thesis using Pair loadT_err by (auto simp: trDelete_def exactRelease_def)
  next
    case (Inr ja)
    obtain job agg where ja: "ja = (job, agg)" by force
    note l = loadT_ok [OF Pair [unfolded Inr ja]]
    have jr: "job = r" using l(1) assms by simp
    define active where "active = (\<not> tjIsTerminal agg)"
    have act: "active = activeRow (Some r)" using l(2) jr by (simp add: active_def tjIsTerminal_def)
    obtain e jw where t: "(if active then TerminateJob (te_job env) job (tw_job w1) else (None, tw_job w1)) = (e, jw)" by force
    let ?w2 = "w1\<lparr>tw_job := jw\<rparr>"
    obtain de rows where d: "DeleteJob (je_fault (te_job env) (tickOf ?w2)) i (jw_rows jw) = (de, rows)" by force
    let ?w3 = "tickT (?w2\<lparr>tw_job := jw\<lparr>jw_rows := rows\<rparr>\<rparr>)"
    have e: "trDelete env i w = (case e of Some e \<Rightarrow> (Some (TrScheduler e), ?w2)
        | None \<Rightarrow> (case de of Some e \<Rightarrow> (Some (TrStore e), tickT ?w2) | None \<Rightarrow> (None, if active then releaseRow env job ?w3 else ?w3)))"
      by (simp add: trDelete_def Pair Inr ja Let_def active_def [symmetric] t d split: option.split)
    have gone: "trow ?w3 i = None" if "de = None"
      using d that by (auto simp: DeleteJob_def trow_def rowOf_def tfind_tdelete split: option.splits)
    show ?thesis
    proof (cases "e = None \<and> de = None \<and> active")
      case True
      have "exactRelease r i w (None, releaseRow env job ?w3)"
        by (rule exact_release [where job = job and ?w1.0 = ?w3 and env = env])
           (use True act gone jr l(6) in simp_all)
      then show ?thesis unfolding e using True by simp
    next
      case False
      then show ?thesis unfolding e using act l(6) by (auto simp: exactRelease_def split: option.split)
    qed
  qed
qed

lemma failure_exact:
  assumes "trow w i = Some r" and known: "\<And>s. jr_Status r \<noteq> OtherStatus s"
  shows "exactRelease r i w (snd (trHandleFailure env i reason w))"
proof (cases "loadT env i w")
  case (Pair lr w1)
  show ?thesis
  proof (cases lr)
    case (Inl e)
    then show ?thesis using Pair loadT_err by (auto simp: trHandleFailure_def exactRelease_def)
  next
    case (Inr ja)
    obtain job agg where ja: "ja = (job, agg)" by force
    note l = loadT_ok [OF Pair [unfolded Inr ja]]
    have jr: "job = r" using l(1) assms by simp
    have known': "\<And>s. tj_Status agg \<noteq> OtherStatus s" using known l(2) jr by simp
    obtain oc agg2 where h: "tjHandleFailure (nowT env w1) (truncateTrainReason reason) agg = (oc, agg2)" by force
    define job2 where "job2 = (if oc = OutcomeRetry then (TrainingSyncToModel agg2 job)\<lparr>jr_VolcanoJobName := []\<rparr>
      else TrainingSyncToModel agg2 job)"
    have f: "chargeFields job2 = chargeFields r" "jr_ID job2 = i" "jr_Status job2 = tj_Status agg2"
      using jr l(4) by (simp_all add: job2_def)
    obtain res job3 w3 where u: "updateT env job2 w1 = (res, job3, w3)" by (metis prod_cases3)
    let ?fin = "if oc = OutcomeFailed \<and> \<not> tjIsTerminal agg
               then settleGPUCost env agg2 JobStatusFailed (releaseRow env job3 w3) else w3"
    have e: "snd (trHandleFailure env i reason w) = (case res of Some e \<Rightarrow> (Some (TrStore e), w3) | None \<Rightarrow> (None, ?fin))"
      by (simp add: trHandleFailure_def Pair Inr ja Let_def h job2_def [symmetric] u split: option.split)
    have tA: "tjIsTerminal agg = IsTerminal (jr_Status r)" using l(2) jr by (simp add: tjIsTerminal_def)
    show ?thesis
    proof (cases res)
      case (Some er)
      then show ?thesis unfolding e using u updateT_err l(6) by (auto simp: exactRelease_def)
    next
      case None
      note uo = updateT_ok [OF u [unfolded None]]
      have st: "activeRow (trow w3 i) = (\<not> IsTerminal (tj_Status agg2))"
        using uo(2) uo(3) [of i] uo(1) f by auto
      show ?thesis
      proof (cases "oc = OutcomeFailed \<and> \<not> tjIsTerminal agg")
        case True
        have "tj_Status agg2 = JobStatusFailed"
          using failure_outcome_status(2) [OF h known'] True by (simp add: tjIsTerminal_def)
        then have "exactRelease r i w (None, settleGPUCost env agg2 JobStatusFailed (releaseRow env job3 w3))"
          by (intro exact_release [where job = job3 and ?w1.0 = w3 and env = env])
             (use uo(1) uo(4) f st True tA l(6) in \<open>simp_all add: IsTerminal_iff\<close>)
        then show ?thesis unfolding e using None True by simp
      next
        case False
        have "activeRow (trow w3 i)" if "\<not> IsTerminal (jr_Status r)"
        proof -
          have "oc = OutcomeRetry" using False that tA by (cases oc) auto
          then show ?thesis using failure_outcome_status(1) [OF h known'] st by (simp add: IsTerminal_iff)
        qed
        then show ?thesis unfolding e using None False uo(4) l(6) by (auto intro: exact_keep)
      qed
    qed
  qed
qed

lemma complete_exact:
  assumes "trow w i = Some r"
  shows "exactRelease r i w (trComplete env i w)"
proof (cases "loadT env i w")
  case (Pair lr w1)
  show ?thesis
  proof (cases lr)
    case (Inl e)
    then show ?thesis using Pair loadT_err by (auto simp: trComplete_def exactRelease_def)
  next
    case (Inr ja)
    obtain job agg where ja: "ja = (job, agg)" by force
    note l = loadT_ok [OF Pair [unfolded Inr ja]]
    have jr: "job = r" using l(1) assms by simp
    obtain ok agg2 where m: "tjMarkCompleted (nowT env w1) agg = (ok, agg2)" by force
    define job2 where "job2 = TrainingSyncToModel agg2 job"
    obtain note1 job3 w3 where r1: "registerModel env job2 agg2 w1 = (note1, job3, w3)" by (metis prod_cases3)
    obtain note2 job4 w4 where r2: "registerAdapter env (noted note1 job3) agg2 w3 = (note2, job4, w4)" by (metis prod_cases3)
    obtain res job5 w5 where u: "updateT env (noted note2 job4) w4 = (res, job5, w5)" by (metis prod_cases3)
    let ?done = "tj_Status agg = JobStatusCompleted"
    have e: "trComplete env i w = (if \<not> ok \<and> \<not> ?done then (Some TrInvalidState, w1)
        else case res of Some e \<Rightarrow> (Some (TrStore e), w5)
          | None \<Rightarrow> (None, if \<not> ?done then settleGPUCost env agg2 JobStatusCompleted (releaseRow env job5 w5) else w5))"
      by (simp add: trComplete_def Pair Inr ja Let_def m job2_def [symmetric] r1 r2 u split: option.split)
    note F1 = registerModel_frame [of env job2 agg2 w1, unfolded r1 fst_conv snd_conv]
    note F2 = registerAdapter_frame [of env "noted note1 job3" agg2 w3, unfolded r2 fst_conv snd_conv]
    have f: "chargeFields job4 = chargeFields r" "jr_ID job4 = i" "jr_Status job4 = tj_Status agg2"
      "tw_quota w4 = tw_quota w"
      using F1 F2 jr l by (simp_all add: job2_def)
    show ?thesis
    proof (cases "\<not> ok \<and> \<not> ?done")
      case True
      then show ?thesis unfolding e using l(6) by (simp add: exactRelease_def)
    next
      case go: False
      show ?thesis
      proof (cases res)
        case (Some er)
        then show ?thesis unfolding e using u updateT_err go f(4) by (auto simp: exactRelease_def)
      next
        case None
        note uo = updateT_ok [OF u [unfolded None]]
        show ?thesis
        proof (cases ?done)
          case True
          then have "IsTerminal (jr_Status r)" using l(2) jr by (simp add: IsTerminal_iff)
          then show ?thesis unfolding e using True None uo(4) f(4) by (simp add: exactRelease_def)
        next
          case False
          then have "ok" using go by simp
          then have c: "tj_Status agg2 = JobStatusCompleted" "CanTransition (jr_Status r) JobStatusCompleted"
            using marks_status(1) [of "nowT env w1" agg agg2] m l(2) jr by simp_all
          have act: "\<not> IsTerminal (jr_Status r)"
            using js.fin_absorbing [OF _ c(2)] False l(2) jr by (auto simp: IsTerminal_iff NormalizeStatus_def)
          have "exactRelease r i w (None, settleGPUCost env agg2 JobStatusCompleted (releaseRow env job5 w5))"
            by (intro exact_release [where job = job5 and ?w1.0 = w5 and env = env])
               (use uo(1) uo(2) uo(3) [of i] uo(4) f c act in \<open>auto simp: IsTerminal_iff\<close>)
          then show ?thesis unfolding e using None False go by simp
        qed
      qed
    qed
  qed
qed

lemma submit_None_job:
  assumes "submitToCluster env job jw = (None, job', jw')"
  shows "jr_ID job' = jr_ID job \<and> jr_Status job' = JobStatusPending"
proof (cases "createObject env job jw")
  case (Pair c jw1)
  show ?thesis
  proof (cases c)
    case (Inr nm)
    define job1 where "job1 = job\<lparr>jr_VolcanoJobName := nm, jr_QueueName := queueOf (jr_Type job),
                jr_Status := JobStatusPending, jr_FailureReason := []\<rparr>"
    obtain res job2 jw2 where u: "updateStatus env job1 jw1 = (res, job2, jw2)" by (metis prod_cases3)
    have "res = None" "job' = job2" using assms Pair Inr u
      by (auto simp: submitToCluster_def job1_def [symmetric] split: option.splits)
    then show ?thesis using updateStatus_job(1,3) [of env job1 jw1] unfolding u by (simp add: job1_def)
  qed (use assms Pair in \<open>simp add: submitToCluster_def\<close>)
qed

lemma SubmitJob_job:
  assumes "SubmitJob env job jw = (e, job', jw')"
  shows "jr_ID job' = jr_ID job" and "job' = job \<or> jr_Status job' = JobStatusPending
    \<or> (\<exists>fresh. rowOf jw (jr_ID job) = Some fresh \<and> job' = fresh)"
proof -
  have "jr_ID job' = jr_ID job \<and> (job' = job \<or> jr_Status job' = JobStatusPending
    \<or> (\<exists>fresh. rowOf jw (jr_ID job) = Some fresh \<and> job' = fresh))"
  proof (cases "getJob env (jr_ID job) jw")
    case (Pair g jw1)
    show ?thesis
    proof (cases g)
      case (Inr fresh)
      then have f: "rowOf jw (jr_ID job) = Some fresh"
        using Pair by (auto simp: getJob_def GetJob_def rowOf_def split: option.splits)
      then have id0: "jr_ID fresh = jr_ID job" by (rule rowOf_key)
      obtain se sj sw where s: "submitToCluster env fresh jw1 = (se, sj, sw)" by (metis prod_cases3)
      have "job' = (if jr_VolcanoJobName fresh \<noteq> [] then fresh
          else if \<not> enabled env jw1 (jr_ClusterID fresh) then job else case se of Some _ \<Rightarrow> job | None \<Rightarrow> sj)"
        using assms Pair Inr s by (auto simp: SubmitJob_def split: if_splits option.splits)
      then show ?thesis using f id0 s submit_None_job [of env fresh jw1 sj sw] by (auto split: if_splits option.splits)
    qed (use assms Pair in \<open>auto simp: SubmitJob_def\<close>)
  qed
  then show "jr_ID job' = jr_ID job" and "job' = job \<or> jr_Status job' = JobStatusPending
    \<or> (\<exists>fresh. rowOf jw (jr_ID job) = Some fresh \<and> job' = fresh)" by blast+
qed

lemma dispatch_keeps:
  assumes "dispatch env job w = (job', w')" and "jr_Status job = JobStatusPending"
    and "\<And>r. trow w (jr_ID job) = Some r \<Longrightarrow> jr_Status r = JobStatusPending"
  shows "jr_ID job' = jr_ID job" and "jr_Status job' = JobStatusPending" and "tw_quota w' = tw_quota w"
proof -
  obtain e j jw where s: "SubmitJob (te_job env) job (tw_job w) = (e, j, jw)" by (metis prod_cases3)
  have j: "jr_ID j = jr_ID job" "jr_Status j = JobStatusPending"
    using SubmitJob_job [OF s] assms(2,3) by (auto simp: trow_def)
  have "jr_ID job' = jr_ID j \<and> jr_Status job' = jr_Status j \<and> w' = w\<lparr>tw_job := jw\<rparr>"
    using assms(1) s by (auto simp: dispatch_def split: option.splits)
  then show "jr_ID job' = jr_ID job" and "jr_Status job' = JobStatusPending" and "tw_quota w' = tw_quota w"
    using j by simp_all
qed

lemma resume_exact:
  assumes "trow w i = Some r"
  shows "exactRelease r i w (trResume env i w)"
proof (cases "loadT env i w")
  case (Pair lr w1)
  show ?thesis
  proof (cases lr)
    case (Inl e)
    then show ?thesis using Pair loadT_err by (auto simp: trResume_def exactRelease_def)
  next
    case (Inr ja)
    obtain job agg where ja: "ja = (job, agg)" by force
    note l = loadT_ok [OF Pair [unfolded Inr ja]]
    obtain ok agg2 where m: "PrepareRerun agg = (ok, agg2)" by force
    define job2 where "job2 = (TrainingSyncToModel agg2 job)\<lparr>jr_VolcanoJobName := [], jr_SubmitAttempts := 0\<rparr>"
    obtain res job3 w3 where u: "updateT env job2 w1 = (res, job3, w3)" by (metis prod_cases3)
    obtain job4 w4 where d: "dispatch env job3 w3 = (job4, w4)" by force
    obtain res5 job5 w5 where u5: "updateT env job4 w4 = (res5, job5, w5)" by (metis prod_cases3)
    have e: "trResume env i w = (if \<not> ok then (Some TrInvalidState, w1)
        else case res of Some e \<Rightarrow> (Some (TrStore e), w3)
          | None \<Rightarrow> (case res5 of Some e \<Rightarrow> (Some (TrStore e), w5) | None \<Rightarrow> (None, w5)))"
      by (simp add: trResume_def Pair Inr ja Let_def m job2_def [symmetric] u d u5 split: option.split)
    show ?thesis
    proof (cases "ok \<and> res = None")
      case False
      then show ?thesis unfolding e using l(6) u updateT_quota [of env job2 w1]
        by (auto simp: exactRelease_def split: option.split)
    next
      case True
      then have st: "tj_Status agg2 = JobStatusPending" using m
        by (auto simp: PrepareRerun_def tj_transition_def split: if_splits)
      note uo = updateT_ok [OF u [simplified conjunct2 [OF True]]]
      have f: "jr_ID job3 = i" "jr_Status job3 = JobStatusPending" using uo(1) st l(4) by (simp_all add: job2_def)
      have rows: "trow w3 i = Some x \<Longrightarrow> jr_Status x = JobStatusPending" for x
        using uo(3) [of i] f uo(2) l(4) by (auto simp: job2_def)
      have dk: "jr_ID job4 = i" "jr_Status job4 = JobStatusPending" "tw_quota w4 = tw_quota w3"
        using dispatch_keeps [OF d f(2)] rows f(1) by auto
      have q: "tw_quota w5 = tw_quota w" using updateT_quota [of env job4 w4] u5 dk(3) uo(4) l(6) by simp
      have "activeRow (trow w5 i)" if "res5 = None"
        using updateT_ok [OF u5 [unfolded that]] dk by (auto simp: IsTerminal_iff)
      then show ?thesis unfolding e using True q
        by (cases res5) (auto intro: exact_keep simp: exactRelease_def)
    qed
  qed
qed

lemma checkpoint_exact:
  assumes "trow w i = Some r"
  shows "exactRelease r i w (trRecordCheckpoint env i ck w)"
proof (cases "loadT env i w")
  case (Pair lr w1)
  show ?thesis
  proof (cases lr)
    case (Inl e)
    then show ?thesis using Pair loadT_err by (auto simp: trRecordCheckpoint_def exactRelease_def)
  next
    case (Inr ja)
    obtain job agg where ja: "ja = (job, agg)" by force
    note l = loadT_ok [OF Pair [unfolded Inr ja]]
    define ck' where "ck' = (if IsZero (ck_CreatedAt ck) then ck\<lparr>ck_CreatedAt := nowT env w1\<rparr> else ck)"
    obtain er agg2 where m: "tjRecordCheckpoint (nowT env w1) ck' agg = (er, agg2)" by force
    obtain res job3 w3 where u: "updateT env (TrainingSyncToModel agg2 job) w1 = (res, job3, w3)" by (metis prod_cases3)
    have e: "trRecordCheckpoint env i ck w = (case er of Some e \<Rightarrow> (Some (TrCheckpoint e), w1)
        | None \<Rightarrow> (case res of Some e \<Rightarrow> (Some (TrStore e), w3) | None \<Rightarrow> (None, w3)))"
      by (simp add: trRecordCheckpoint_def Pair Inr ja Let_def ck'_def [symmetric] m u split: option.split)
    have st: "tj_Status agg2 = jr_Status r"
      using m l(1,2) assms by (auto simp: tjRecordCheckpoint_def split: if_splits option.splits)
    have q: "tw_quota w3 = tw_quota w" using updateT_quota [of env "TrainingSyncToModel agg2 job" w1] u l(6) by simp
    have "activeRow (trow w3 i) = activeRow (Some r)" if "res = None"
      using updateT_ok [OF u [unfolded that]] st l(4) by auto
    then show ?thesis unfolding e using q l(6)
      by (cases er; cases res) (auto intro: exact_keep simp: exactRelease_def)
  qed
qed

section \<open>Properties\<close>


definition demoTrainEnv :: TrainEnv where
  "demoTrainEnv = \<lparr>te_job = demoEnv, te_quota = (\<lambda>_ _. None), te_newID = (\<lambda>_. ''j''), te_modelExists = (\<lambda>_. True),
     te_createVersion = (\<lambda>_ _. Inr ''v''), te_runOf = None, te_createAdapter = None, te_billing = False,
     te_hours = (\<lambda>_. Fin 1), te_cost = (\<lambda>_ _ _. Fin 1), te_recordCost = (\<lambda>_. None), te_budget = None,
     te_ratioHigh = (\<lambda>_ _. False)\<rparr>"

definition demoTraining0 :: JobRow where
  "demoTraining0 = (demoRow ''j'' JobStatusRunning)\<lparr>jr_GPUs := 2, jr_Memory := 8\<rparr>"

definition demoTrWorld :: TrWorld where
  "demoTrWorld = \<lparr>tw_job = demoWorld [demoTraining0], tw_quota = [emptyQuota\<lparr>q_TenantID := ''t'', q_GPUUsed := 5\<rparr>],
     tw_versions = [], tw_adapters = [], tw_costs = [], tw_alerts = []\<rparr>"

lemma demoTraining0_simps [simp]:
  "jr_ID demoTraining0 = ''j''" "jr_Status demoTraining0 = JobStatusRunning" "jr_Type demoTraining0 = MJTraining"
  "jr_VolcanoJobName demoTraining0 = []" "jr_TenantID demoTraining0 = ''t''" "jr_ClusterID demoTraining0 = ''c''"
  "jr_GPUs demoTraining0 = 2" "jr_Memory demoTraining0 = 8"
  by (simp_all add: demoTraining0_def demoRow_def emptyJobRow_def)


section \<open>Submission\<close>

lemma totals_amount:
  assumes "SpecValidate s = None"
  shows "amount (TotalGPUs s)" and "amount (TotalMemory s)"
proof -
  note E = EffectiveReplicas_bounds [OF assms] and B = SpecValidate_bounds [OF assms]
  have G: "0 \<le> sp_GPUs s * EffectiveReplicas s \<and> sp_GPUs s * EffectiveReplicas s \<le> 1024 * 513"
    using E B(1) mult_mono [of "sp_GPUs s" 1024 "EffectiveReplicas s" 513] by simp
  have M: "0 \<le> sp_Memory s * EffectiveReplicas s \<and> sp_Memory s * EffectiveReplicas s \<le> 8192 * 513"
    using E B(2) mult_mono [of "sp_Memory s" 8192 "EffectiveReplicas s" 513] by simp
  show "amount (TotalGPUs s)" using G B(1) by (auto simp: TotalGPUs_def in_i64_def amount_def)
  show "amount (TotalMemory s)" using M B(2) by (auto simp: TotalMemory_def in_i64_def amount_def)
qed

lemma updateStatus_charge:
  "map_option chargeFields (rowOf (snd (snd (updateStatus env job w))) k) = map_option chargeFields (rowOf w k)"
proof -
  have "chargeFields (statusColumns j r) = chargeFields r" for j r
    by (simp add: chargeFields_def statusColumns_def)
  then show ?thesis by (simp add: updateStatus_row option.map_comp comp_def)
qed

lemma submitToCluster_charge:
  "map_option chargeFields (rowOf (snd (snd (submitToCluster env job w))) k) = map_option chargeFields (rowOf w k)"
proof (cases "createObject env job w")
  case (Pair c w1)
  have r: "rowOf w1 = rowOf w" using Pair rowOf_simps(8) [of env job w] by simp
  show ?thesis
  proof (cases c)
    case (Inr nm)
    let ?job = "job\<lparr>jr_VolcanoJobName := nm, jr_QueueName := queueOf (jr_Type job),
                jr_Status := JobStatusPending, jr_FailureReason := []\<rparr>"
    obtain res job2 w2 where u: "updateStatus env ?job w1 = (res, job2, w2)" by (metis prod_cases3)
    have "map_option chargeFields (rowOf w2 k) = map_option chargeFields (rowOf w k)"
      using updateStatus_charge [of env ?job w1 k] unfolding u r by simp
    then show ?thesis using Pair Inr u by (simp add: submitToCluster_def split: option.split)
  qed (use Pair r in \<open>simp add: submitToCluster_def\<close>)
qed

lemma SubmitJob_charge:
  "map_option chargeFields (rowOf (snd (snd (SubmitJob env job w))) k) = map_option chargeFields (rowOf w k)"
proof (cases "getJob env (jr_ID job) w")
  case (Pair g w1)
  then have r: "rowOf w1 = rowOf w" using rowOf_simps(9) [of env "jr_ID job" w] by simp
  show ?thesis
  proof (cases g)
    case (Inr fresh)
    obtain se sj sw where s: "submitToCluster env fresh w1 = (se, sj, sw)" by (metis prod_cases3)
    have "map_option chargeFields (rowOf sw k) = map_option chargeFields (rowOf w k)"
      using submitToCluster_charge [of env fresh w1 k] unfolding s r by simp
    then show ?thesis using Pair Inr s r by (simp add: SubmitJob_def split: option.split)
  qed (use Pair r in \<open>simp add: SubmitJob_def\<close>)
qed

lemma dispatch_charge:
  "map_option chargeFields (trow (snd (dispatch env job w)) k) = map_option chargeFields (trow w k)"
  "tw_quota (snd (dispatch env job w)) = tw_quota w" "jr_ID (fst (dispatch env job w)) = jr_ID job"
proof -
  obtain e j jw where s: "SubmitJob (te_job env) job (tw_job w) = (e, j, jw)" by (metis prod_cases3)
  have d: "snd (dispatch env job w) = w\<lparr>tw_job := jw\<rparr>" "jr_ID (fst (dispatch env job w)) = jr_ID j"
    using s by (simp_all add: dispatch_def split: option.split)
  show "map_option chargeFields (trow (snd (dispatch env job w)) k) = map_option chargeFields (trow w k)"
    using SubmitJob_charge [of "te_job env" job "tw_job w" k] unfolding s d by (simp add: trow_def)
  show "tw_quota (snd (dispatch env job w)) = tw_quota w" unfolding d by simp
  show "jr_ID (fst (dispatch env job w)) = jr_ID job" using SubmitJob_job(1) [OF s] d(2) by simp
qed

lemma updateT_charge:
  "map_option chargeFields (trow (snd (snd (updateT env job w))) k) = map_option chargeFields (trow w k)"
  using updateStatus_charge [of "te_job env" job "tw_job w" k]
  by (simp add: updateT_def Let_def case_prod_unfold trow_def)

lemma CreateJob_ok:
  assumes "CreateJob f i now job db = (None, job', db')"
  shows "tfind jr_ID db i = None" and "jr_ID job' = i" and "chargeFields job' = chargeFields job"
    and "tfind jr_ID db' i = Some job'"
  using assms by (auto simp: CreateJob_def Let_def chargeFields_def tfind_tadd split: option.splits if_splits)

lemma specRow_charge:
  "chargeFields (TrainingSpecToModel agg emptyJobRow) =
    (tj_TenantID agg, sp_GPUs (tj_Spec agg), sp_Memory (tj_Spec agg), sp_Distributed (tj_Spec agg), sp_Replicas (tj_Spec agg))"
  by (simp add: TrainingSpecToModel_def chargeFields_def Let_def)

lemma trAggregate_tenant [simp]: "tj_TenantID (trAggregate tenant inp spec) = tenant"
  by (simp add: trAggregate_def tjNormalize_def Let_def)

lemma tjValidate_spec: "tjValidate agg = None \<Longrightarrow> SpecValidate (tj_Spec agg) = None"
  by (auto simp: tjValidate_def split: if_splits option.splits)

lemma totals_of_charge:
  assumes "chargeFields r = (tenant, sp_GPUs s, sp_Memory s, sp_Distributed s, sp_Replicas s)"
  shows "TotalGPUs (tj_Spec (TrainingFromModel r)) = TotalGPUs s" and "TotalMemory (tj_Spec (TrainingFromModel r)) = TotalMemory s"
    and "jr_TenantID r = tenant"
  using assms by (simp_all add: chargeFields_def TotalGPUs_def TotalMemory_def EffectiveReplicas_def TrainingFromModel_def)

lemma Release_no_fault:
  assumes "fault 0 = None" and "quotaUsage db t = Some u"
  shows "fst (Release fault now t g m j db) = None"
proof -
  obtain q where "tfind q_TenantID db t = Some q" using assms(2) by (auto simp: quotaUsage_def)
  then obtain db' where b: "releaseBody now t g m j db = (None, db')" by (simp add: releaseBody_def)
  show ?thesis unfolding Release_def using retryTx_no_fault [of fault "releaseBody now t g m j" db db'] assms(1) b by simp
qed

lemma reserve_create_charges:
  assumes "ledger_ok (tw_quota w)" and "\<And>n. te_quota env n 0 = None" and "SpecValidate (tj_Spec agg) = None"
    and "tj_TenantID agg = tenant" and "reserveAndCreate env tenant agg w = (res, w')"
  shows "case res of
      Inl e \<Rightarrow> quotaUsage (tw_quota w') = quotaUsage (tw_quota w) \<and> trow w' = trow w
    | Inr job \<Rightarrow> trow w (jr_ID job) = None \<and> ledger_ok (tw_quota w') \<and>
        (\<exists>r a b c. trow w' (jr_ID job) = Some r \<and> jr_TenantID r = tenant \<and> quotaUsage (tw_quota w) tenant = Some (a, b, c)
          \<and> quotaUsage (tw_quota w') tenant = Some (a + TotalGPUs (tj_Spec (TrainingFromModel r)),
              b + TotalMemory (tj_Spec (TrainingFromModel r)), c + 1))"
proof -
  define g m where "g = TotalGPUs (tj_Spec agg)" and "m = TotalMemory (tj_Spec agg)"
  obtain re db where R: "CheckAndReserve (te_quota env (tickOf w)) (nowT env w) tenant g m 1 (tw_quota w) = (re, db)" by force
  define w1 where "w1 = tickT (w\<lparr>tw_quota := db\<rparr>)"
  obtain ce job rows where C: "CreateJob (je_fault (te_job env) (tickOf w1)) (te_newID env (tickOf w1)) (nowT env w1)
      (TrainingSpecToModel agg emptyJobRow) (jw_rows (tw_job w1)) = (ce, job, rows)" by (metis prod_cases3)
  obtain le db2 where L: "Release (te_quota env (Suc (tickOf w1))) (nowT env w1) tenant g m 1 (tw_quota w1) = (le, db2)" by force
  define w2 where "w2 = tickT (w1\<lparr>tw_job := (tw_job w1)\<lparr>jw_rows := rows\<rparr>\<rparr>)"
  obtain job3 w3 where D: "dispatch env job w2 = (job3, w3)" by force
  obtain ue job4 w4 where U: "updateT env job3 w3 = (ue, job4, w4)" by (metis prod_cases3)
  have e: "reserveAndCreate env tenant agg w = (case re of Some e \<Rightarrow> (Inl (TrStore e), tickT w)
          | None \<Rightarrow> (case ce of Some e \<Rightarrow> (Inl (TrStore e), tickT (w1\<lparr>tw_quota := db2\<rparr>))
            | None \<Rightarrow> (Inr job4, w4)))"
    unfolding reserveAndCreate_def Let_def g_def [symmetric] m_def [symmetric] R
    by (simp add: w1_def [symmetric] C L w2_def [symmetric] D U split: option.split)
  have rows1: "trow w1 = trow w" "tw_quota w1 = db" by (simp_all add: w1_def trow_def fun_eq_iff)
  show ?thesis
  proof (cases re)
    case (Some er)
    then show ?thesis using assms(5) e by auto
  next
    case re: None
    have amt: "amount g" "amount m" "amount 1"
      using totals_amount [OF assms(3)] by (simp_all add: g_def m_def amount_def)
    obtain a b c where q: "ledger_ok db" "quotaUsage (tw_quota w) tenant = Some (a, b, c)"
      "quotaUsage db tenant = Some (a + g, b + m, c + 1)"
      using ql.reserve_ok [OF assms(1) amt R [unfolded re]] by blast
    show ?thesis
    proof (cases ce)
      case (Some er)
      have "le = None" using Release_no_fault [of "te_quota env (Suc (tickOf w1))" db tenant _ "nowT env w1" g m 1] assms(2) q(3) L rows1(2) by simp
      then have "quotaUsage db2 = quotaUsage (tw_quota w)"
        using ql.reserve_then_release [OF assms(1) amt R [unfolded re]] L rows1(2) by simp
      then show ?thesis using assms(5) e re Some rows1(1) by (auto simp: trow_def fun_eq_iff)
    next
      case None
      note c = CreateJob_ok [OF C [unfolded None]]
      have id4: "jr_ID job4 = te_newID env (tickOf w1)"
        using updateStatus_job(1) [of "te_job env" job3 "tw_job w3"] U dispatch_charge(3) [of env job w2] D c(2)
        by (simp add: updateT_def Let_def case_prod_unfold)
      have fresh: "trow w (jr_ID job4) = None" using c(1) id4 rows1(1) by (simp add: trow_def rowOf_def fun_eq_iff)
      have "map_option chargeFields (trow w4 (jr_ID job4)) = map_option chargeFields (trow w2 (jr_ID job4))"
        using updateT_charge [of env job3 w3] dispatch_charge(1) [of env job w2] U D by simp
      also have "\<dots> = Some (chargeFields (TrainingSpecToModel agg emptyJobRow))"
        using c(3,4) id4 by (simp add: w2_def trow_def rowOf_def tickT_def)
      finally obtain r where r: "trow w4 (jr_ID job4) = Some r"
        "chargeFields r = chargeFields (TrainingSpecToModel agg emptyJobRow)" by auto
      have t: "TotalGPUs (tj_Spec (TrainingFromModel r)) = g" "TotalMemory (tj_Spec (TrainingFromModel r)) = m" "jr_TenantID r = tenant"
        using totals_of_charge [of r tenant "tj_Spec agg"] r(2) assms(4) by (simp_all add: specRow_charge g_def m_def)
      have q4: "tw_quota w4 = db"
        using updateT_quota [of env job3 w3] dispatch_charge(2) [of env job w2] U D rows1(2) by (simp add: w2_def)
      have "res = Inr job4" "w' = w4" using assms(5) e None re by auto
      then show ?thesis using fresh r(1) t q q4 by auto
    qed
  qed
qed



definition demoInput :: SubmitInput where
  "demoInput = \<lparr>si_Name = ''n'', si_ClusterID = ''c'', si_TemplateID = [],
     si_Spec = emptySpec\<lparr>sp_Image := ''img'', sp_GPUs := 2, sp_Memory := 8\<rparr>,
     si_Checkpointing = \<lparr>cp_Enabled = False, cp_IntervalSteps = 0, cp_MaxRetries = 0\<rparr>,
     si_Registration = \<lparr>mr_Enabled = False, mr_ModelID = [], mr_VersionTag = []\<rparr>\<rparr>"

definition demoEmpty :: TrWorld where
  "demoEmpty = \<lparr>tw_job = demoWorld [], tw_quota = [demoQuota],
     tw_versions = [], tw_adapters = [], tw_costs = [], tw_alerts = []\<rparr>"


end
