(* ===== verification/EventBus.thy ===== *)
theory EventBus
  imports Prelude "HOL-Library.Sublist"
begin

text \<open>
  \<^verbatim>\<open>events/bus.go\<close>: a buffered channel, subscriptions by event type, workers that take the
  oldest event and call its handlers in the order of subscription.  Publishing never blocks: an event that
  finds the buffer full is counted as dropped.  A handler is a change of the state of the program; one
  that panics keeps what it did so far.
\<close>

record ('e, 's) Bus =
  bus_ch :: "'e list"
  bus_subs :: "string \<Rightarrow> ('e \<Rightarrow> 's \<Rightarrow> 's) list"
  bus_workers :: int
  bus_buffer :: int
  bus_dropped :: "64 word"

definition NewBus :: "int \<Rightarrow> int \<Rightarrow> ('e, 's) Bus" where
  "NewBus buffer workers = \<lparr>bus_ch = [], bus_subs = (\<lambda>_. []),
     bus_workers = (if workers \<le> 0 then 4 else workers), bus_buffer = (if buffer \<le> 0 then 1024 else buffer),
     bus_dropped = 0\<rparr>"

definition Subscribe :: "string \<Rightarrow> ('e \<Rightarrow> 's \<Rightarrow> 's) \<Rightarrow> ('e, 's) Bus \<Rightarrow> ('e, 's) Bus" where
  "Subscribe ty h b = b\<lparr>bus_subs := (bus_subs b)(ty := bus_subs b ty @ [h])\<rparr>"

definition BusPublish :: "'e \<Rightarrow> ('e, 's) Bus \<Rightarrow> ('e, 's) Bus" where
  "BusPublish e b =
     (if int (length (bus_ch b)) < bus_buffer b then b\<lparr>bus_ch := bus_ch b @ [e]\<rparr>
      else b\<lparr>bus_dropped := bus_dropped b + 1\<rparr>)"

definition busDispatch :: "('e \<Rightarrow> string) \<Rightarrow> ('e, 's) Bus \<Rightarrow> 'e \<Rightarrow> 's \<Rightarrow> 's" where
  "busDispatch typeOf b e s = fold (\<lambda>h s. h e s) (bus_subs b (typeOf e)) s"

text \<open>One turn of a worker.\<close>

definition busLoop :: "('e \<Rightarrow> string) \<Rightarrow> ('e, 's) Bus \<times> 's \<Rightarrow> ('e, 's) Bus \<times> 's" where
  "busLoop typeOf bs =
     (case bs of (b, s) \<Rightarrow>
        (case bus_ch b of
           [] \<Rightarrow> (b, s)
         | e # es \<Rightarrow> (b\<lparr>bus_ch := es\<rparr>, busDispatch typeOf b e s)))"

section \<open>Runs\<close>

datatype 'e BusStep = StepPublish 'e | StepWork

fun busStep :: "('e \<Rightarrow> string) \<Rightarrow> 'e BusStep \<Rightarrow> ('e, 's) Bus \<times> 's \<Rightarrow> ('e, 's) Bus \<times> 's" where
  "busStep typeOf (StepPublish e) (b, s) = (BusPublish e b, s)"
| "busStep typeOf StepWork bs = busLoop typeOf bs"

fun published :: "'e BusStep list \<Rightarrow> 'e list" where
  "published [] = []"
| "published (StepPublish e # steps) = e # published steps"
| "published (StepWork # steps) = published steps"

definition runBus :: "('e \<Rightarrow> string) \<Rightarrow> 'e BusStep list \<Rightarrow> ('e, 's) Bus \<times> 's \<Rightarrow> ('e, 's) Bus \<times> 's" where
  "runBus typeOf steps bs = fold (busStep typeOf) steps bs"

lemma runBus_frame:
  "bus_subs (fst (runBus typeOf steps bs)) = bus_subs (fst bs) \<and> bus_buffer (fst (runBus typeOf steps bs)) = bus_buffer (fst bs)"
proof (induction steps arbitrary: bs)
  case (Cons st steps)
  have "bus_subs (fst (busStep typeOf st bs)) = bus_subs (fst bs) \<and> bus_buffer (fst (busStep typeOf st bs)) = bus_buffer (fst bs)"
    by (cases bs; cases st) (auto simp: BusPublish_def busLoop_def split: list.split)
  then show ?case using Cons [of "busStep typeOf st bs"] by (simp add: runBus_def)
qed (simp add: runBus_def)

text \<open>What is in the buffer at the start followed by what is published, less what is dropped, is what
  is delivered followed by what is in the buffer at the end.\<close>

lemma runBus_fifo:
  assumes "int (length (bus_ch b)) \<le> bus_buffer b"
  shows "\<exists>del acc. runBus typeOf steps (b, s) = (b', s') \<longrightarrow>
      subseq acc (published steps) \<and> bus_ch b @ acc = del @ bus_ch b'
      \<and> bus_dropped b' = bus_dropped b + of_nat (length (published steps) - length acc)
      \<and> s' = fold (busDispatch typeOf b) del s \<and> int (length (bus_ch b')) \<le> bus_buffer b"
  using assms
proof (induction steps arbitrary: b s)
  case Nil
  then show ?case by (intro exI [of _ "[]"]) (auto simp: runBus_def)
next
  case (Cons st steps)
  show ?case
  proof (cases st)
    case (StepPublish e)
    have d: "busDispatch typeOf (BusPublish e b) = busDispatch typeOf b"
      by (simp add: fun_eq_iff busDispatch_def BusPublish_def)
    show ?thesis
    proof (cases "int (length (bus_ch b)) < bus_buffer b")
      case True
      then have b: "BusPublish e b = b\<lparr>bus_ch := bus_ch b @ [e]\<rparr>" by (simp add: BusPublish_def)
      have "int (length (bus_ch (BusPublish e b))) \<le> bus_buffer (BusPublish e b)" using True by (simp add: b)
      from Cons.IH [OF this, of s] obtain del acc where ih: "runBus typeOf steps (BusPublish e b, s) = (b', s') \<longrightarrow>
          subseq acc (published steps) \<and> (bus_ch b @ [e]) @ acc = del @ bus_ch b'
          \<and> bus_dropped b' = bus_dropped b + of_nat (length (published steps) - length acc)
          \<and> s' = fold (busDispatch typeOf b) del s \<and> int (length (bus_ch b')) \<le> bus_buffer b"
        using d by (auto simp: b)
      then show ?thesis
        by - (rule exI [of _ del], rule exI [of _ "e # acc"], simp add: StepPublish runBus_def)
    next
      case False
      then have b: "BusPublish e b = b\<lparr>bus_dropped := bus_dropped b + 1\<rparr>" by (simp add: BusPublish_def)
      have "int (length (bus_ch (BusPublish e b))) \<le> bus_buffer (BusPublish e b)" using Cons.prems by (simp add: b)
      from Cons.IH [OF this, of s] obtain del acc where ih: "runBus typeOf steps (BusPublish e b, s) = (b', s') \<longrightarrow>
          subseq acc (published steps) \<and> bus_ch b @ acc = del @ bus_ch b'
          \<and> bus_dropped b' = bus_dropped b + 1 + of_nat (length (published steps) - length acc)
          \<and> s' = fold (busDispatch typeOf b) del s \<and> int (length (bus_ch b')) \<le> bus_buffer b"
        using d by (auto simp: b)
      then show ?thesis
        by - (rule exI [of _ del], rule exI [of _ acc], auto simp: StepPublish runBus_def Suc_diff_le dest: list_emb_length)
    qed
  next
    case StepWork
    show ?thesis
    proof (cases "bus_ch b")
      case Nil
      then have "busStep typeOf st (b, s) = (b, s)" by (simp add: StepWork busLoop_def)
      then show ?thesis using Cons.IH [OF Cons.prems, of s] by (simp add: runBus_def StepWork)
    next
      case (Cons e es)
      let ?b = "b\<lparr>bus_ch := es\<rparr>"
      have st: "busLoop typeOf (b, s) = (?b, busDispatch typeOf b e s)" by (simp add: busLoop_def Cons)
      have d: "busDispatch typeOf ?b = busDispatch typeOf b" by (simp add: fun_eq_iff busDispatch_def)
      have "int (length (bus_ch ?b)) \<le> bus_buffer ?b" using Cons.prems Cons by simp
      from Cons.IH [OF this, of "busDispatch typeOf b e s"] obtain del acc where
        "runBus typeOf steps (?b, busDispatch typeOf b e s) = (b', s') \<longrightarrow>
          subseq acc (published steps) \<and> es @ acc = del @ bus_ch b'
          \<and> bus_dropped b' = bus_dropped b + of_nat (length (published steps) - length acc)
          \<and> s' = fold (busDispatch typeOf b) del (busDispatch typeOf b e s) \<and> int (length (bus_ch b')) \<le> bus_buffer b"
        using d by auto
      then show ?thesis
        by - (rule exI [of _ "e # del"], rule exI [of _ acc], simp add: runBus_def st StepWork Cons)
    qed
  qed
qed


end
