(* ===== verification/WorkspaceDomain.thy ===== *)
theory WorkspaceDomain
  imports Prelude
begin

text \<open>
  \<^verbatim>\<open>domain/workspace\<close>: the interactive workspace with its normalisation and validation
  (\<^verbatim>\<open>workspace.go\<close>), its status machine (\<^verbatim>\<open>state.go\<close>), idle reclaim (\<^verbatim>\<open>reclaim.go\<close>)
  and billing (\<^verbatim>\<open>billing.go\<close>).  The status is a Go string with a constructor per constant.
\<close>

section \<open>Status machine\<close>

datatype WsStatus = WsNoStatus | WsPending | WsStarting | WsRunning | WsStopping | WsStopped
  | WsFailed | WsDeleted | WsOther string

fun wsTransitions :: "WsStatus \<Rightarrow> WsStatus list option" where
  "wsTransitions WsPending = Some [WsStarting, WsFailed, WsDeleted]"
| "wsTransitions WsStarting = Some [WsRunning, WsFailed, WsStopping]"
| "wsTransitions WsRunning = Some [WsStopping, WsFailed]"
| "wsTransitions WsStopping = Some [WsStopped, WsFailed]"
| "wsTransitions WsStopped = Some [WsStarting, WsDeleted]"
| "wsTransitions WsFailed = Some [WsStarting, WsDeleted]"
| "wsTransitions WsDeleted = Some []"
| "wsTransitions _ = None"

definition wsTerminalStatuses :: "WsStatus list" where
  "wsTerminalStatuses = [WsStopped, WsFailed, WsDeleted]"

definition wsActiveStatuses :: "WsStatus list" where
  "wsActiveStatuses = [WsStarting, WsRunning, WsStopping]"

definition wsCanTransition :: "WsStatus \<Rightarrow> WsStatus \<Rightarrow> bool" where
  "wsCanTransition from to =
     (case wsTransitions from of None \<Rightarrow> False | Some next \<Rightarrow> to \<in> set next)"

lemmas ws_table [lifecycle_simps] = wsCanTransition_def wsTerminalStatuses_def wsActiveStatuses_def

section \<open>The workspace\<close>

definition KindJupyter :: string where "KindJupyter = ''jupyter''"
definition KindVSCode :: string where "KindVSCode = ''vscode''"
definition MountKindDataset :: string where "MountKindDataset = ''dataset''"
definition MountKindModel :: string where "MountKindModel = ''model''"
definition HomePath :: string where "HomePath = ''/home/jovyan''"

definition wsMaxNameLen :: nat where "wsMaxNameLen = 200"
definition wsMaxGPUs :: int where "wsMaxGPUs = 8"
definition wsMaxCPUCores :: int where "wsMaxCPUCores = 256"
definition wsMaxMemoryGB :: int where "wsMaxMemoryGB = 2048"
definition minStorageGB :: int where "minStorageGB = 1"
definition maxStorageGB :: int where "maxStorageGB = 2048"
definition defaultStorageGB :: int where "defaultStorageGB = 20"
definition maxGPUIdleTimeout :: duration where "maxGPUIdleTimeout = 24 * Hour"

definition validKinds :: "string list" where
  "validKinds = [KindJupyter, KindVSCode]"
definition validMountKinds :: "string list" where
  "validMountKinds = [MountKindDataset, MountKindModel]"

record ResourceSpec =
  rs_CPU :: int
  rs_Memory :: int
  rs_GPU :: int
  rs_GPUType :: string

record StorageSpec =
  st_SizeGB :: int
  st_StorageCls :: string

record Mount =
  mt_Name :: string
  mt_MountPath :: string
  mt_Kind :: string
  mt_ReadOnly :: bool

record Workspace =
  ws_ID :: string
  ws_TenantID :: string
  ws_OwnerID :: string
  ws_Name :: string
  ws_Kind :: string
  ws_Image :: string
  ws_Resources :: ResourceSpec
  ws_Storage :: StorageSpec
  ws_Mounts :: "Mount list"
  ws_Status :: WsStatus
  ws_RuntimeName :: string
  ws_URL :: string
  ws_FailureReason :: string
  ws_IdleTimeout :: duration
  ws_LastActiveAt :: "time option"
  ws_CreatedAt :: time
  ws_StartedAt :: "time option"
  ws_StoppedAt :: "time option"

datatype WorkspaceError = WsNameRequired | WsNameTooLong | WsTenantRequired | WsOwnerRequired
  | WsImageRequired | WsKind string | WsCPU | WsMemory | WsGPU | WsStorageSize | WsIdleNegative
  | WsMountRelative string | WsMountShadowsHome string | WsMountKind string | WsMountDuplicate string

definition RequiresGPU :: "Workspace \<Rightarrow> bool" where
  "RequiresGPU w = (rs_GPU (ws_Resources w) > 0)"

primrec keepMounts :: "Mount list \<Rightarrow> Mount list" where
  "keepMounts [] = []"
| "keepMounts (m0 # ms) =
     (let m = m0\<lparr>mt_Name := TrimSpace (mt_Name m0), mt_MountPath := TrimSpace (mt_MountPath m0),
                 mt_Kind := TrimSpace (mt_Kind m0)\<rparr> in
      if mt_Name m = [] \<or> mt_MountPath m = [] then keepMounts ms
      else let m = (if mt_Kind m = [] then m\<lparr>mt_Kind := MountKindDataset\<rparr> else m)
           in m\<lparr>mt_ReadOnly := True\<rparr> # keepMounts ms)"

definition normalizeMounts :: "Workspace \<Rightarrow> Workspace" where
  "normalizeMounts w = w\<lparr>ws_Mounts := keepMounts (ws_Mounts w)\<rparr>"

definition wsNormalize :: "Workspace \<Rightarrow> Workspace" where
  "wsNormalize w0 =
     (let w = w0\<lparr>ws_Name := TrimSpace (ws_Name w0), ws_Kind := TrimSpace (ws_Kind w0),
                 ws_Image := TrimSpace (ws_Image w0),
                 ws_Storage := (ws_Storage w0)\<lparr>st_StorageCls := TrimSpace (st_StorageCls (ws_Storage w0))\<rparr>,
                 ws_Resources := (ws_Resources w0)\<lparr>rs_GPUType := TrimSpace (rs_GPUType (ws_Resources w0))\<rparr>\<rparr>;
          w = (if ws_Kind w = [] then w\<lparr>ws_Kind := KindJupyter\<rparr> else w);
          w = (if ws_Status w = WsNoStatus then w\<lparr>ws_Status := WsPending\<rparr> else w);
          w = (if st_SizeGB (ws_Storage w) = 0
               then w\<lparr>ws_Storage := (ws_Storage w)\<lparr>st_SizeGB := defaultStorageGB\<rparr>\<rparr> else w);
          w = (if RequiresGPU w \<and> (ws_IdleTimeout w \<le> 0 \<or> ws_IdleTimeout w > maxGPUIdleTimeout)
               then w\<lparr>ws_IdleTimeout := maxGPUIdleTimeout\<rparr> else w)
      in normalizeMounts w)"

definition ResourceSpecValidate :: "ResourceSpec \<Rightarrow> WorkspaceError option" where
  "ResourceSpecValidate r =
     (if rs_CPU r < 0 \<or> rs_CPU r > wsMaxCPUCores then Some WsCPU
      else if rs_Memory r < 0 \<or> rs_Memory r > wsMaxMemoryGB then Some WsMemory
      else if rs_GPU r < 0 \<or> rs_GPU r > wsMaxGPUs then Some WsGPU
      else None)"

definition StorageSpecValidate :: "StorageSpec \<Rightarrow> WorkspaceError option" where
  "StorageSpecValidate s =
     (if st_SizeGB s < minStorageGB \<or> st_SizeGB s > maxStorageGB then Some WsStorageSize else None)"

definition TrimRightSlash :: "string \<Rightarrow> string" where
  "TrimRightSlash s = rev (dropWhile (\<lambda>c. c = CHR ''/'') (rev s))"

primrec mountsLoop :: "string list \<Rightarrow> Mount list \<Rightarrow> WorkspaceError option" where
  "mountsLoop seen [] = None"
| "mountsLoop seen (m # ms) =
     (if \<not> (case mt_MountPath m of [] \<Rightarrow> False | c # _ \<Rightarrow> c = CHR ''/'') then Some (WsMountRelative (mt_MountPath m))
      else if TrimRightSlash (mt_MountPath m) = TrimRightSlash HomePath
      then Some (WsMountShadowsHome (mt_MountPath m))
      else if mt_Kind m \<notin> set validMountKinds then Some (WsMountKind (mt_Kind m))
      else if mt_MountPath m \<in> set seen then Some (WsMountDuplicate (mt_MountPath m))
      else mountsLoop (mt_MountPath m # seen) ms)"

definition validateMounts :: "Workspace \<Rightarrow> WorkspaceError option" where
  "validateMounts w = mountsLoop [] (ws_Mounts w)"

definition wsValidate :: "Workspace \<Rightarrow> WorkspaceError option" where
  "wsValidate w =
     (if TrimSpace (ws_Name w) = [] then Some WsNameRequired
      else if length (ws_Name w) > wsMaxNameLen then Some WsNameTooLong
      else if TrimSpace (ws_TenantID w) = [] then Some WsTenantRequired
      else if TrimSpace (ws_OwnerID w) = [] then Some WsOwnerRequired
      else if TrimSpace (ws_Image w) = [] then Some WsImageRequired
      else if ws_Kind w \<notin> set validKinds then Some (WsKind (ws_Kind w))
      else case ResourceSpecValidate (ws_Resources w) of
        Some e \<Rightarrow> Some e
      | None \<Rightarrow> (case StorageSpecValidate (ws_Storage w) of
          Some e \<Rightarrow> Some e
        | None \<Rightarrow>
            if ws_IdleTimeout w < 0 then Some WsIdleNegative else validateMounts w))"

section \<open>Operations on the status\<close>

definition ws_transition :: "WsStatus \<Rightarrow> Workspace \<Rightarrow> bool \<times> Workspace" where
  "ws_transition to w =
     (if \<not> wsCanTransition (ws_Status w) to then (False, w) else (True, w\<lparr>ws_Status := to\<rparr>))"

definition wsIsTerminal :: "Workspace \<Rightarrow> bool" where
  "wsIsTerminal w = (ws_Status w \<in> set wsTerminalStatuses)"
definition wsIsActive :: "Workspace \<Rightarrow> bool" where
  "wsIsActive w = (ws_Status w \<in> set wsActiveStatuses)"
definition CanStart :: "Workspace \<Rightarrow> bool" where
  "CanStart w = wsCanTransition (ws_Status w) WsStarting"
definition CanStop :: "Workspace \<Rightarrow> bool" where
  "CanStop w = wsCanTransition (ws_Status w) WsStopping"
definition CanDelete :: "Workspace \<Rightarrow> bool" where
  "CanDelete w = wsCanTransition (ws_Status w) WsDeleted"

definition stampStopped :: "time \<Rightarrow> Workspace \<Rightarrow> Workspace" where
  "stampStopped tm w = w\<lparr>ws_StoppedAt := Some tm, ws_URL := []\<rparr>"

definition wsMarkStarting :: "Workspace \<Rightarrow> bool \<times> Workspace" where
  "wsMarkStarting w =
     (let (ok, w) = ws_transition WsStarting w in
      if \<not> ok then (False, w)
      else (True, w\<lparr>ws_StoppedAt := None, ws_FailureReason := [], ws_URL := []\<rparr>))"

definition wsMarkRunning :: "time \<Rightarrow> Workspace \<Rightarrow> bool \<times> Workspace" where
  "wsMarkRunning tm w =
     (let (ok, w) = ws_transition WsRunning w in
      if \<not> ok then (False, w)
      else (True, w\<lparr>ws_StartedAt := Some tm, ws_LastActiveAt := Some tm\<rparr>))"

definition wsMarkStopping :: "Workspace \<Rightarrow> bool \<times> Workspace" where
  "wsMarkStopping w = ws_transition WsStopping w"

definition wsMarkStopped :: "time \<Rightarrow> Workspace \<Rightarrow> bool \<times> Workspace" where
  "wsMarkStopped tm w =
     (let (ok, w) = ws_transition WsStopped w in
      if \<not> ok then (False, w) else (True, stampStopped tm w))"

definition wsMarkFailed :: "string \<Rightarrow> time \<Rightarrow> Workspace \<Rightarrow> bool \<times> Workspace" where
  "wsMarkFailed reason tm w =
     (let (ok, w) = ws_transition WsFailed w in
      if \<not> ok then (False, w) else (True, stampStopped tm (w\<lparr>ws_FailureReason := reason\<rparr>)))"

definition wsMarkDeleted :: "Workspace \<Rightarrow> bool \<times> Workspace" where
  "wsMarkDeleted w = ws_transition WsDeleted w"

section \<open>Reclaim and billing\<close>

definition idleSince :: "Workspace \<Rightarrow> time option" where
  "idleSince w = (case ws_LastActiveAt w of Some t \<Rightarrow> Some t | None \<Rightarrow> ws_StartedAt w)"

definition ShouldReclaim :: "time \<Rightarrow> Workspace \<Rightarrow> bool" where
  "ShouldReclaim now w =
     (if ws_Status w \<noteq> WsRunning \<or> ws_IdleTimeout w \<le> 0 then False
      else case idleSince w of
        None \<Rightarrow> False
      | Some ref \<Rightarrow> time_sub now ref > ws_IdleTimeout w)"

definition IdleDuration :: "time \<Rightarrow> Workspace \<Rightarrow> duration" where
  "IdleDuration now w =
     (case idleSince w of
        None \<Rightarrow> 0
      | Some ref \<Rightarrow> let d = time_sub now ref in if d < 0 then 0 else d)"

definition Touch :: "time \<Rightarrow> Workspace \<Rightarrow> bool \<times> Workspace" where
  "Touch tm w =
     (if wsIsTerminal w then (False, w)
      else case ws_LastActiveAt w of
        Some l \<Rightarrow> if \<not> tm > l then (False, w) else (True, w\<lparr>ws_LastActiveAt := Some tm\<rparr>)
      | None \<Rightarrow> (True, w\<lparr>ws_LastActiveAt := Some tm\<rparr>))"

definition IsBillable :: "Workspace \<Rightarrow> bool" where
  "IsBillable w = (ws_Status w = WsRunning)"

definition BillableDuration :: "time \<Rightarrow> Workspace \<Rightarrow> duration" where
  "BillableDuration now w =
     (case ws_StartedAt w of
        None \<Rightarrow> 0
      | Some started \<Rightarrow>
         (case (if wsIsTerminal w then ws_StoppedAt w else Some now) of
            None \<Rightarrow> 0
          | Some end0 \<Rightarrow> let d = time_sub end0 started in if d < 0 then 0 else d))"

section \<open>Runs of a workspace\<close>

interpretation wl: lifecycle "\<lambda>s. s" "\<lambda>s t. s = t \<or> wsCanTransition s t" "\<lambda>s. s = WsDeleted"
  by unfold_locales (auto simp: wsCanTransition_def)

datatype WsEvent = EStarting | ERunning time | EStopping | EStopped time | EFailed string time
  | EDeleted | ETouch time

fun wsEvent :: "WsEvent \<Rightarrow> Workspace \<Rightarrow> Workspace" where
  "wsEvent EStarting w = snd (wsMarkStarting w)"
| "wsEvent (ERunning tm) w = snd (wsMarkRunning tm w)"
| "wsEvent EStopping w = snd (wsMarkStopping w)"
| "wsEvent (EStopped tm) w = snd (wsMarkStopped tm w)"
| "wsEvent (EFailed r tm) w = snd (wsMarkFailed r tm w)"
| "wsEvent EDeleted w = snd (wsMarkDeleted w)"
| "wsEvent (ETouch tm) w = snd (Touch tm w)"

definition runWs :: "WsEvent list \<Rightarrow> Workspace \<Rightarrow> Workspace" where
  "runWs evs w = fold wsEvent evs w"

lemmas ws_op_defs = ws_transition_def wsMarkStarting_def wsMarkRunning_def wsMarkStopping_def
  wsMarkStopped_def wsMarkFailed_def wsMarkDeleted_def stampStopped_def Touch_def

definition ws_inv :: "Workspace \<Rightarrow> bool" where
  "ws_inv w =
     ((ws_Status w = WsRunning \<longrightarrow> ws_StartedAt w \<noteq> None \<and> ws_LastActiveAt w \<noteq> None)
      \<and> (ws_Status w \<in> {WsStarting, WsRunning, WsStopping} \<longrightarrow> ws_StoppedAt w = None)
      \<and> (ws_Status w \<in> {WsStopped, WsFailed} \<longrightarrow> ws_StoppedAt w \<noteq> None \<and> ws_URL w = []))"

lemma wsCanTransition_into [lifecycle_simps]:
  "wsCanTransition s WsRunning \<longleftrightarrow> s = WsStarting"
  "wsCanTransition s WsStopped \<longleftrightarrow> s = WsStopping"
  "wsCanTransition s WsStopping \<longleftrightarrow> s = WsStarting \<or> s = WsRunning"
  "wsCanTransition s WsStarting \<longleftrightarrow> s = WsPending \<or> s = WsStopped \<or> s = WsFailed"
  "wsCanTransition s WsDeleted \<longleftrightarrow> s = WsPending \<or> s = WsStopped \<or> s = WsFailed"
  "wsCanTransition s WsFailed \<longleftrightarrow> s = WsPending \<or> s = WsStarting \<or> s = WsRunning \<or> s = WsStopping"
  by (cases s; simp add: wsCanTransition_def)+

lemma Touch_status [simp]: "ws_Status (snd (Touch t w)) = ws_Status w"
  "ws_StartedAt (snd (Touch t w)) = ws_StartedAt w" "ws_StoppedAt (snd (Touch t w)) = ws_StoppedAt w"
  "ws_URL (snd (Touch t w)) = ws_URL w" "ws_LastActiveAt w \<noteq> None \<Longrightarrow> ws_LastActiveAt (snd (Touch t w)) \<noteq> None"
  by (auto simp: Touch_def split: option.splits)

lemma wsEvent_inv [preserves]: "ws_inv w \<Longrightarrow> ws_inv (wsEvent e w)"
  by (cases e) (auto simp: ws_inv_def ws_op_defs wsCanTransition_into simp del: not_None_eq split: option.splits)

lemma wsEvent_path: "ws_Status (wsEvent e w) = ws_Status w \<or> wsCanTransition (ws_Status w) (ws_Status (wsEvent e w))"
  by (cases e) (auto simp: ws_op_defs split: option.splits)

lemma runWs_path: "(\<lambda>s t. s = t \<or> wsCanTransition s t)\<^sup>*\<^sup>* (ws_Status w) (ws_Status (runWs evs w))"
proof (induction evs arbitrary: w)
  case (Cons e evs)
  have "(\<lambda>s t. s = t \<or> wsCanTransition s t) (ws_Status w) (ws_Status (wsEvent e w))"
    using wsEvent_path [of e w] by auto
  then show ?case using Cons [of "wsEvent e w"] by (simp add: runWs_def converse_rtranclp_into_rtranclp)
qed (simp add: runWs_def)

lemma runWs_inv: "ws_inv w \<Longrightarrow> ws_inv (runWs evs w)"
  by (induction evs arbitrary: w) (auto simp: runWs_def preserves)

section \<open>Properties\<close>

text \<open>Life of a workspace.  Along any sequence of status operations and activity reports, a running
  workspace has its start and activity times and no stop time, a stopped or failed one
  has a stop time and no URL any more, and a deleted one stays deleted.\<close>
theorem workspace_run_invariant:
  assumes "ws_inv w"
  shows "ws_inv (runWs evs w) \<and> (ws_Status w = WsDeleted \<longrightarrow> ws_Status (runWs evs w) = WsDeleted)"
  using runWs_inv [OF assms] wl.path_from_fin [OF runWs_path] by auto

definition demoWs :: Workspace where
  "demoWs = \<lparr>ws_ID = ''w1'', ws_TenantID = ''acme'', ws_OwnerID = ''u'', ws_Name = ''nb'', ws_Kind = [],
     ws_Image = ''img'', ws_Resources = \<lparr>rs_CPU = 1, rs_Memory = 4, rs_GPU = 1, rs_GPUType = []\<rparr>,
     ws_Storage = \<lparr>st_SizeGB = 0, st_StorageCls = []\<rparr>, ws_Mounts = [], ws_Status = WsPending,
     ws_RuntimeName = [], ws_URL = [], ws_FailureReason = [], ws_IdleTimeout = 0, ws_LastActiveAt = None,
     ws_CreatedAt = 0, ws_StartedAt = None, ws_StoppedAt = None\<rparr>"

lemma workspace_run_invariant_witness:
  "ws_inv (runWs [EStarting, ERunning 5, EStopping, EStopped 9, EDeleted] demoWs)"
  using workspace_run_invariant [of demoWs "[EStarting, ERunning 5, EStopping, EStopped 9, EDeleted]"]
  by (simp add: ws_inv_def demoWs_def)

text \<open>Billing.  The billable duration is never negative; while the workspace runs it is the time
  since its start (saturating at the longest Duration) and grows with the clock; in a terminal status it
  no longer depends on the clock and is the time between start and stop.\<close>
theorem workspace_billing:
  "0 \<le> BillableDuration now w
   \<and> (now \<le> now' \<longrightarrow> BillableDuration now w \<le> BillableDuration now' w)
   \<and> (wsIsTerminal w \<longrightarrow> BillableDuration now w = BillableDuration now' w)
   \<and> (ws_Status w = WsRunning \<and> ws_StartedAt w = Some s \<longrightarrow> BillableDuration now w = max 0 (time_sub now s))
   \<and> (wsIsTerminal w \<and> ws_StartedAt w = Some s \<and> ws_StoppedAt w = Some t
        \<longrightarrow> BillableDuration now w = max 0 (time_sub t s))"
  using time_sub_mono [of now now']
  by (auto simp: BillableDuration_def Let_def wsIsTerminal_def wsTerminalStatuses_def max_def
      split: option.splits if_splits) (smt (verit))+

lemma workspace_billing_witness:
  "BillableDuration 100 (runWs [EStarting, ERunning 5, EStopping, EStopped 9] demoWs) = 4"
proof -
  let ?w = "runWs [EStarting, ERunning 5, EStopping, EStopped 9] demoWs"
  have w: "wsIsTerminal ?w" "ws_StartedAt ?w = Some 5" "ws_StoppedAt ?w = Some 9"
    by (simp_all add: runWs_def ws_op_defs demoWs_def wsCanTransition_into wsIsTerminal_def
        wsTerminalStatuses_def)
  then show ?thesis
    using workspace_billing [of 100 ?w 100 5 9] by (simp add: time_sub_def)
qed

text \<open>A relaunch that fails is billed for the time the workspace was stopped.  A workspace
  that ran from \<^verbatim>\<open>s\<close> to its stop and whose restart at a later time fails at \<^verbatim>\<open>t\<close> is billed for
  the whole span from \<^verbatim>\<open>s\<close> to \<^verbatim>\<open>t\<close>: starting again clears the stop time but keeps the old start
  time.\<close>
theorem workspace_failed_relaunch_overbilled:
  assumes "ws_Status w = WsStopped" and "ws_StartedAt w = Some s" and "ws_StoppedAt w = Some e"
    and "s \<le> e" and "e < t" and "in_i64 (t - s)"
  shows "BillableDuration now w = e - s
    \<and> BillableDuration now (runWs [EStarting, EFailed r t] w) = t - s
    \<and> BillableDuration now w < BillableDuration now (runWs [EStarting, EFailed r t] w)"
proof -
  have "in_i64 (e - s)" using assms(4-6) by (simp add: in_i64_def)
  then show ?thesis
    using assms by (simp add: runWs_def ws_op_defs wsCanTransition_into BillableDuration_def wsIsTerminal_def
        wsTerminalStatuses_def time_sub_exact)
qed

lemma workspace_failed_relaunch_overbilled_witness:
  "BillableDuration 1000 (runWs [EStarting, ERunning 5, EStopping, EStopped 9] demoWs) = 4 \<and>
   BillableDuration 1000 (runWs [EStarting, EFailed ''quota'' 500]
     (runWs [EStarting, ERunning 5, EStopping, EStopped 9] demoWs)) = 495"
  using workspace_failed_relaunch_overbilled
    [of "runWs [EStarting, ERunning 5, EStopping, EStopped 9] demoWs" 5 9 500 1000 "''quota''"]
  by (simp add: runWs_def ws_op_defs demoWs_def wsCanTransition_into in_i64_def)

text \<open>No GPU workspace idles for ever.  A normalised workspace with a GPU has an idle limit of
  at most 24 hours, and once it runs it is due for reclaim exactly when its last activity lies longer
  back than that limit; activity reported at a time puts the reclaim off for the limit.\<close>
theorem gpu_workspace_reclaimed:
  assumes "RequiresGPU w0" and "ws_inv w" and "ws_Status w = WsRunning"
    and "ws_IdleTimeout w = ws_IdleTimeout (wsNormalize w0)" and "ws_LastActiveAt w = Some l"
  shows "0 < ws_IdleTimeout w \<and> ws_IdleTimeout w \<le> 24 * Hour
    \<and> (ShouldReclaim now w \<longleftrightarrow> time_sub now l > ws_IdleTimeout w)
    \<and> (now - l > 24 * Hour \<longrightarrow> ShouldReclaim now w)
    \<and> (now \<le> t + ws_IdleTimeout w \<longrightarrow> \<not> ShouldReclaim now (snd (Touch t w)))"
proof -
  have i: "0 < ws_IdleTimeout w \<and> ws_IdleTimeout w \<le> 24 * Hour"
    using assms(1,4) by (auto simp: wsNormalize_def Let_def normalizeMounts_def RequiresGPU_def
        maxGPUIdleTimeout_def Hour_def)
  have r: "ShouldReclaim now w \<longleftrightarrow> time_sub now l > ws_IdleTimeout w"
    using i assms(3,5) by (simp add: ShouldReclaim_def idleSince_def)
  have t: "ws_LastActiveAt (snd (Touch t w)) = Some (max t l)"
    using assms(3,5) by (auto simp: Touch_def wsIsTerminal_def wsTerminalStatuses_def max_def)
  have f: "ws_IdleTimeout (snd (Touch t w)) = ws_IdleTimeout w"
    by (simp add: Touch_def split: option.splits)
  have "\<not> ShouldReclaim now (snd (Touch t w))" if "now \<le> t + ws_IdleTimeout w"
    using that i by (auto simp: ShouldReclaim_def idleSince_def t f time_sub_def Hour_def)
  then show ?thesis using i r by (auto simp: time_sub_def Hour_def)
qed

lemma gpu_workspace_reclaimed_witness:
  "ShouldReclaim (5 + 24 * Hour + 1) (runWs [EStarting, ERunning 5] (wsNormalize demoWs))"
proof -
  let ?w = "runWs [EStarting, ERunning 5] (wsNormalize demoWs)"
  have "ws_inv ?w" "ws_Status ?w = WsRunning" "ws_LastActiveAt ?w = Some 5" "RequiresGPU demoWs"
    "ws_IdleTimeout ?w = ws_IdleTimeout (wsNormalize demoWs)"
    by (simp_all add: ws_inv_def runWs_def ws_op_defs wsCanTransition_into wsNormalize_def normalizeMounts_def
        demoWs_def RequiresGPU_def)
  then show ?thesis using gpu_workspace_reclaimed [of demoWs ?w 5 "5 + 24 * Hour + 1" 0] by (auto simp: Hour_def)
qed

end
