(* ===== verification/WorkspaceService.thy ===== *)
theory WorkspaceService
  imports WorkspaceDomain QuotaStore
begin

text \<open>
  \<^verbatim>\<open>app/workspace/service.go\<close> over \<^verbatim>\<open>storage/workspace.go\<close> and the quota ledger: creation with a
  quota reservation, start, stop, delete, the reconcile pass and the reclaim of idle workspaces.
  The container runtime, the status and activity probes and database faults are arguments; calls to
  the runtime are recorded in order.
\<close>

section \<open>The stored workspace\<close>

record WsRow =
  wr_ID :: string
  wr_TenantID :: string
  wr_Name :: string
  wr_Kind :: string
  wr_OwnerID :: string
  wr_Image :: string
  wr_Status :: WsStatus
  wr_CreatedAt :: time
  wr_UpdatedAt :: time
  wr_CPURequest :: string
  wr_MemoryRequest :: string
  wr_GPUCount :: int
  wr_GPUModel :: string
  wr_IdleTimeout :: duration
  wr_LastActiveAt :: "time option"
  wr_StartedAt :: "time option"
  wr_StoppedAt :: "time option"
  wr_FailureMsg :: string
  wr_Mounts :: string
  wr_RuntimeName :: string
  wr_NodeName :: string

datatype RuntimeCall = CallProvision string | CallDeprovision string

record WsWorld =
  ww_rows :: "WsRow list"
  ww_quotas :: quota_db
  ww_calls :: "RuntimeCall list"

datatype WsServiceError = WsErrNil | WsErrForbidden | WsErrIllegalState | WsErrImageNotAllowed
  | WsErrNotFound | WsErrQuota StoreError | WsErrStore StoreError | WsErrRuntime string
  | WsErrListReclaimable StoreError | WsErrContext

section \<open>Text of resource requests\<close>

definition isDigit :: "char \<Rightarrow> bool" where
  "isDigit c = (let n = of_char c :: nat in 48 \<le> n \<and> n \<le> 57)"

definition digitsVal :: "string \<Rightarrow> int" where
  "digitsVal ds = foldl (\<lambda>a c. a * 10 + int (of_char c - 48)) 0 ds"

text \<open>
  \<^verbatim>\<open>fmt.Sscanf(s, "%d", &v)\<close> on a text without leading white space: an optional sign and the
  longest run of digits; no digit or a value outside int64 is an error.  What follows is ignored.
\<close>

definition scanInt :: "string \<Rightarrow> int option" where
  "scanInt s =
     (let neg = (case s of c # _ \<Rightarrow> c = CHR ''-'' | [] \<Rightarrow> False);
          rest = (case s of c # cs \<Rightarrow> if c = CHR ''-'' \<or> c = CHR ''+'' then cs else s | [] \<Rightarrow> []);
          ds = takeWhile isDigit rest in
      if ds = [] then None
      else let v = (if neg then - digitsVal ds else digitsVal ds) in
        if in_i64 v then Some v else None)"

definition hasSuffix :: "string \<Rightarrow> string \<Rightarrow> bool" where
  "hasSuffix s suf = (length suf \<le> length s \<and> drop (length s - length suf) s = suf)"

definition trimSuffix :: "string \<Rightarrow> string \<Rightarrow> string" where
  "trimSuffix s suf = (if hasSuffix s suf then take (length s - length suf) s else s)"

definition parseMemGB :: "string \<Rightarrow> int" where
  "parseMemGB s0 =
     (let s = TrimSpace s0 in
      if s = [] then 0
      else let (s, mult) =
             (if hasSuffix s ''Gi'' then (trimSuffix s ''Gi'', 1)
              else if hasSuffix s ''Mi'' then (trimSuffix s ''Mi'', 0)
              else if hasSuffix s ''G'' then (trimSuffix s ''G'', 1)
              else if hasSuffix s ''M'' then (trimSuffix s ''M'', 0)
              else (s, 1)) in
        case scanInt s of None \<Rightarrow> 0 | Some v \<Rightarrow> i64 (v * mult))"

definition parseCPU :: "string \<Rightarrow> int" where
  "parseCPU s0 =
     (let s = TrimSpace s0 in
      if s = [] then 0 else case scanInt s of None \<Rightarrow> 0 | Some v \<Rightarrow> v)"

definition maxReasonLen :: nat where "maxReasonLen = 500"

definition truncateReason :: "string \<Rightarrow> string" where
  "truncateReason reason =
     (if length reason \<le> maxReasonLen then reason else take maxReasonLen reason @ ''...'')"

definition wsToDomain :: "WsRow \<Rightarrow> Workspace" where
  "wsToDomain r = \<lparr>ws_ID = wr_ID r, ws_TenantID = wr_TenantID r, ws_OwnerID = wr_OwnerID r,
     ws_Name = wr_Name r, ws_Kind = wr_Kind r, ws_Image = wr_Image r,
     ws_Resources = \<lparr>rs_CPU = parseCPU (wr_CPURequest r), rs_Memory = parseMemGB (wr_MemoryRequest r),
       rs_GPU = wr_GPUCount r, rs_GPUType = wr_GPUModel r\<rparr>,
     ws_Storage = \<lparr>st_SizeGB = 0, st_StorageCls = []\<rparr>, ws_Mounts = [], ws_Status = wr_Status r,
     ws_RuntimeName = wr_RuntimeName r, ws_URL = [], ws_FailureReason = [],
     ws_IdleTimeout = wr_IdleTimeout r, ws_LastActiveAt = wr_LastActiveAt r, ws_CreatedAt = 0,
     ws_StartedAt = wr_StartedAt r, ws_StoppedAt = wr_StoppedAt r\<rparr>"

section \<open>The repository\<close>

text \<open>The database may refuse a statement: \<^term>\<open>f\<close>.  The row type declares a primary key on the id and
  a unique index on the name column alone.\<close>

definition CreateWorkspace ::
    "StoreError option \<Rightarrow> string \<Rightarrow> time \<Rightarrow> WsRow \<Rightarrow> WsWorld \<Rightarrow> StoreError option \<times> WsRow \<times> WsWorld" where
  "CreateWorkspace f newID now r w =
     (let r = (if wr_ID r = [] then r\<lparr>wr_ID := newID\<rparr> else r);
          r = (if IsZero (wr_CreatedAt r) then r\<lparr>wr_CreatedAt := now\<rparr> else r);
          r = (if IsZero (wr_UpdatedAt r) then r\<lparr>wr_UpdatedAt := now\<rparr> else r);
          r = (if wr_Status r = WsNoStatus then r\<lparr>wr_Status := WsPending\<rparr> else r) in
      case f of
        Some e \<Rightarrow> (Some e, r, w)
      | None \<Rightarrow>
          if list_ex (\<lambda>x. wr_ID x = wr_ID r \<or> wr_Name x = wr_Name r) (ww_rows w)
          then (Some (DbError ''unique constraint''), r, w)
          else (None, r, w\<lparr>ww_rows := tadd r (ww_rows w)\<rparr>))"

definition GetWorkspaceForTenant :: "string \<Rightarrow> string \<Rightarrow> WsWorld \<Rightarrow> WsServiceError + WsRow" where
  "GetWorkspaceForTenant tenant id0 w =
     (case tfind wr_ID (ww_rows w) id0 of
        None \<Rightarrow> Inl WsErrNotFound
      | Some r \<Rightarrow> if wr_TenantID r = tenant then Inr r else Inl WsErrNotFound)"

definition UpdateWorkspace :: "StoreError option \<Rightarrow> time \<Rightarrow> WsRow \<Rightarrow> WsWorld \<Rightarrow> StoreError option \<times> WsWorld" where
  "UpdateWorkspace f now r w =
     (case f of
        Some e \<Rightarrow> (Some e, w)
      | None \<Rightarrow> (None, w\<lparr>ww_rows := tupsert wr_ID (r\<lparr>wr_UpdatedAt := now\<rparr>) (ww_rows w)\<rparr>))"

definition DeleteWorkspaceAndReleaseQuota ::
    "StoreError option \<Rightarrow> time \<Rightarrow> string \<Rightarrow> string \<Rightarrow> int \<Rightarrow> int \<Rightarrow> WsWorld \<Rightarrow> StoreError option \<times> WsWorld" where
  "DeleteWorkspaceAndReleaseQuota f now id0 tenant gpus memGB w =
     (case f of
        Some e \<Rightarrow> (Some e, w)
      | None \<Rightarrow>
         (case tfind q_TenantID (ww_quotas w) tenant of
            None \<Rightarrow> (None, w\<lparr>ww_rows := tdelete wr_ID id0 (ww_rows w)\<rparr>)
          | Some q \<Rightarrow> (None, w\<lparr>ww_rows := tdelete wr_ID id0 (ww_rows w),
              ww_quotas := tsave q_TenantID
                (q\<lparr>q_GPUUsed := max 0 (i64 (q_GPUUsed q - gpus)),
                   q_MemoryUsedGB := max 0 (i64 (q_MemoryUsedGB q - memGB)),
                   q_JobUsed := max 0 (i64 (q_JobUsed q - 1)), q_UpdatedAt := now\<rparr>) (ww_quotas w)\<rparr>)))"

definition TouchWorkspace ::
    "StoreError option \<Rightarrow> time \<Rightarrow> string \<Rightarrow> time \<Rightarrow> WsWorld \<Rightarrow> WsServiceError option \<times> WsWorld" where
  "TouchWorkspace f now id0 tm w =
     (case f of
        Some e \<Rightarrow> (Some (WsErrStore e), w)
      | None \<Rightarrow>
          let hit = (\<lambda>r. wr_ID r = id0 \<and> (case wr_LastActiveAt r of None \<Rightarrow> True | Some l \<Rightarrow> l \<le> tm)) in
          if list_ex hit (ww_rows w)
          then (None, w\<lparr>ww_rows := map (\<lambda>r. if hit r then r\<lparr>wr_LastActiveAt := Some tm, wr_UpdatedAt := now\<rparr> else r)
                            (ww_rows w)\<rparr>)
          else if \<not> list_ex (\<lambda>r. wr_ID r = id0) (ww_rows w) then (Some WsErrNotFound, w)
          else (None, w))"

definition ListReclaimable :: "time \<Rightarrow> WsWorld \<Rightarrow> WsRow list" where
  "ListReclaimable now w =
     filter (\<lambda>r. wr_Status r = WsRunning \<and> wr_IdleTimeout r > 0 \<and>
        (case wr_LastActiveAt r of None \<Rightarrow> False | Some l \<Rightarrow> l < now + i64 (- wr_IdleTimeout r)))
       (ww_rows w)"

text \<open>\<^verbatim>\<open>ListWorkspaces("", {})\<close>: newest first, at most \<^term>\<open>defaultListLimit\<close> rows.\<close>

definition ListAllWorkspaces :: "WsWorld \<Rightarrow> WsRow list" where
  "ListAllWorkspaces w = take defaultListLimit (sort_key (\<lambda>r. - wr_CreatedAt r) (ww_rows w))"

interpretation wsRepo: repository "tunique wr_ID" wr_ID "tfind wr_ID" "tsave wr_ID" tadd "tdelete wr_ID"
  by (rule table_repository)

section \<open>The service\<close>

definition Allow :: "string list \<Rightarrow> string \<Rightarrow> bool" where
  "Allow allowed img = (if allowed = [] then True else list_ex (\<lambda>a. a = img) allowed)"

definition authorized :: "WsRow \<Rightarrow> string \<Rightarrow> bool \<Rightarrow> bool" where
  "authorized ws actor isAdmin = (isAdmin \<or> wr_OwnerID ws = actor)"

text \<open>
  The environment of one call: the faults of the quota transactions, the database and the runtime,
  the clock and the generated id.  The update faults are numbered in the order of the calls.
\<close>

record WsEnv =
  env_reserve :: "nat \<Rightarrow> StoreError option"
  env_release :: "nat \<Rightarrow> StoreError option"
  env_create :: "StoreError option"
  env_update :: "nat \<Rightarrow> StoreError option"
  env_provision :: "string + string"
  env_deprovision :: "string option"
  env_delete :: "StoreError option"
  env_newID :: string
  env_now :: time

definition provision :: "WsEnv \<Rightarrow> WsRow \<Rightarrow> WsWorld \<Rightarrow> WsRow \<times> WsWorld" where
  "provision env ws w =
     (if wr_Status ws \<noteq> WsPending then (ws, w)
      else let ws = ws\<lparr>wr_Status := WsStarting\<rparr> in
        case UpdateWorkspace (env_update env 0) (env_now env) ws w of
          (Some _, w) \<Rightarrow> (ws, w)
        | (None, w) \<Rightarrow>
            let w = w\<lparr>ww_calls := ww_calls w @ [CallProvision (wr_ID ws)]\<rparr> in
            (case env_provision env of
               Inl msg \<Rightarrow>
                 let ws = ws\<lparr>wr_Status := WsFailed, wr_FailureMsg := truncateReason msg\<rparr>
                 in (ws, snd (UpdateWorkspace (env_update env 1) (env_now env) ws w))
             | Inr name \<Rightarrow>
                 let ws = ws\<lparr>wr_RuntimeName := name\<rparr>
                 in (ws, snd (UpdateWorkspace (env_update env 1) (env_now env) ws w))))"

definition wsCreate ::
    "WsEnv \<Rightarrow> string list \<Rightarrow> WsRow option \<Rightarrow> WsWorld \<Rightarrow> WsServiceError option \<times> WsWorld" where
  "wsCreate env allowed wso w =
     (case wso of
        None \<Rightarrow> (Some WsErrNil, w)
      | Some ws \<Rightarrow>
         if \<not> Allow allowed (wr_Image ws) then (Some WsErrImageNotAllowed, w)
         else let memGB = parseMemGB (wr_MemoryRequest ws) in
           case CheckAndReserve (env_reserve env) (env_now env) (wr_TenantID ws) (wr_GPUCount ws) memGB 1 (ww_quotas w) of
             (Some e, qs) \<Rightarrow> (Some (WsErrQuota e), w\<lparr>ww_quotas := qs\<rparr>)
           | (None, qs) \<Rightarrow>
               let w = w\<lparr>ww_quotas := qs\<rparr> in
               (case CreateWorkspace (env_create env) (env_newID env) (env_now env) ws w of
                  (Some e, ws', w') \<Rightarrow>
                    (Some (WsErrStore e), w'\<lparr>ww_quotas :=
                       snd (Release (env_release env) (env_now env) (wr_TenantID ws') (wr_GPUCount ws') memGB 1 (ww_quotas w'))\<rparr>)
                | (None, ws', w') \<Rightarrow> (None, snd (provision env ws' w'))))"

definition wsStart ::
    "WsEnv \<Rightarrow> string \<Rightarrow> string \<Rightarrow> bool \<Rightarrow> string \<Rightarrow> WsWorld \<Rightarrow> WsServiceError option \<times> WsWorld" where
  "wsStart env tenant actor isAdmin id0 w =
     (case GetWorkspaceForTenant tenant id0 w of
        Inl e \<Rightarrow> (Some e, w)
      | Inr ws \<Rightarrow>
         if \<not> authorized ws actor isAdmin then (Some WsErrForbidden, w)
         else if \<not> CanStart (wsToDomain ws) then (Some WsErrIllegalState, w)
         else let ws = ws\<lparr>wr_Status := WsStarting\<rparr> in
           case UpdateWorkspace (env_update env 0) (env_now env) ws w of
             (Some e, w) \<Rightarrow> (Some (WsErrStore e), w)
           | (None, w) \<Rightarrow>
               let w = w\<lparr>ww_calls := ww_calls w @ [CallProvision (wr_ID ws)]\<rparr> in
               (case env_provision env of
                  Inl msg \<Rightarrow>
                    let ws = ws\<lparr>wr_Status := WsFailed, wr_FailureMsg := truncateReason msg\<rparr>
                    in (Some (WsErrRuntime msg), snd (UpdateWorkspace (env_update env 1) (env_now env) ws w))
                | Inr _ \<Rightarrow> (None, w)))"

definition wsStop ::
    "WsEnv \<Rightarrow> string \<Rightarrow> string \<Rightarrow> bool \<Rightarrow> string \<Rightarrow> WsWorld \<Rightarrow> WsServiceError option \<times> WsWorld" where
  "wsStop env tenant actor isAdmin id0 w =
     (case GetWorkspaceForTenant tenant id0 w of
        Inl e \<Rightarrow> (Some e, w)
      | Inr ws \<Rightarrow>
         if \<not> authorized ws actor isAdmin then (Some WsErrForbidden, w)
         else if \<not> CanStop (wsToDomain ws) then (Some WsErrIllegalState, w)
         else let w = w\<lparr>ww_calls := ww_calls w @ [CallDeprovision (wr_ID ws)]\<rparr> in
           case env_deprovision env of
             Some msg \<Rightarrow> (Some (WsErrRuntime msg), w)
           | None \<Rightarrow>
               let ws = ws\<lparr>wr_Status := WsStopped, wr_StoppedAt := Some (env_now env)\<rparr> in
               (case UpdateWorkspace (env_update env 0) (env_now env) ws w of
                  (Some e, w) \<Rightarrow> (Some (WsErrStore e), w)
                | (None, w) \<Rightarrow> (None, w)))"

definition wsDelete ::
    "WsEnv \<Rightarrow> string \<Rightarrow> string \<Rightarrow> bool \<Rightarrow> string \<Rightarrow> WsWorld \<Rightarrow> WsServiceError option \<times> WsWorld" where
  "wsDelete env tenant actor isAdmin id0 w =
     (case GetWorkspaceForTenant tenant id0 w of
        Inl e \<Rightarrow> (Some e, w)
      | Inr ws \<Rightarrow>
         if \<not> authorized ws actor isAdmin then (Some WsErrForbidden, w)
         else if wr_Status ws = WsRunning then (Some WsErrIllegalState, w)
         else let w = w\<lparr>ww_calls := ww_calls w @ [CallDeprovision (wr_ID ws)]\<rparr>;
                  memGB = parseMemGB (wr_MemoryRequest ws) in
           case DeleteWorkspaceAndReleaseQuota (env_delete env) (env_now env) id0 (wr_TenantID ws)
                  (wr_GPUCount ws) memGB w of
             (Some e, w) \<Rightarrow> (Some (WsErrStore e), w)
           | (None, w) \<Rightarrow> (None, w))"

text \<open>The status probe answers (ready, found, failed).  A failed write is logged.\<close>

definition wsReconcileOne ::
    "(WsRow \<Rightarrow> bool \<times> bool \<times> bool) \<Rightarrow> (string \<Rightarrow> StoreError option) \<Rightarrow> time \<Rightarrow> WsRow \<Rightarrow> WsWorld \<Rightarrow> WsWorld" where
  "wsReconcileOne statusFn upd now ws w =
     (if wr_Status ws = WsStarting then
        (let (ready, found, _) = statusFn ws in
         if found \<and> ready
         then snd (UpdateWorkspace (upd (wr_ID ws)) now (ws\<lparr>wr_Status := WsRunning, wr_StartedAt := Some now\<rparr>) w)
         else w)
      else if wr_Status ws = WsRunning then
        (let (_, found, failed) = statusFn ws in
         if \<not> found then
           (let ws = ws\<lparr>wr_Status := WsFailed, wr_StoppedAt := Some now\<rparr>;
                ws = (if wr_FailureMsg ws = []
                      then ws\<lparr>wr_FailureMsg := ''runtime resource disappeared during running''\<rparr> else ws)
            in snd (UpdateWorkspace (upd (wr_ID ws)) now ws w))
         else if failed
         then snd (UpdateWorkspace (upd (wr_ID ws)) now (ws\<lparr>wr_Status := WsFailed, wr_StoppedAt := Some now\<rparr>) w)
         else w)
      else w)"

text \<open>\<^term>\<open>cancelled n\<close>: the context is done before the n-th element.\<close>

primrec wsReconcileLoop ::
    "(nat \<Rightarrow> bool) \<Rightarrow> (WsRow \<Rightarrow> bool \<times> bool \<times> bool) \<Rightarrow> (string \<Rightarrow> StoreError option) \<Rightarrow> time \<Rightarrow> nat
      \<Rightarrow> WsRow list \<Rightarrow> WsWorld \<Rightarrow> WsWorld" where
  "wsReconcileLoop cancelled statusFn upd now i [] w = w"
| "wsReconcileLoop cancelled statusFn upd now i (ws # rest) w =
     (if cancelled i then w
      else wsReconcileLoop cancelled statusFn upd now (Suc i) rest (wsReconcileOne statusFn upd now ws w))"

definition wsReconcile ::
    "(nat \<Rightarrow> bool) \<Rightarrow> StoreError option \<Rightarrow> (WsRow \<Rightarrow> bool \<times> bool \<times> bool) \<Rightarrow> (string \<Rightarrow> StoreError option)
      \<Rightarrow> time \<Rightarrow> WsWorld \<Rightarrow> WsWorld" where
  "wsReconcile cancelled listErr statusFn upd now w =
     (case listErr of
        Some _ \<Rightarrow> w
      | None \<Rightarrow> wsReconcileLoop cancelled statusFn upd now 0 (ListAllWorkspaces w) w)"

text \<open>
  One candidate of the reclaim: an active workspace is touched, an idle one loses its runtime and
  becomes stopping; the notification and a failed deprovisioning change no state here.
\<close>

primrec reclaimLoop ::
    "(nat \<Rightarrow> bool) \<Rightarrow> (WsRow \<Rightarrow> string + bool) \<Rightarrow> (string \<Rightarrow> StoreError option) \<Rightarrow> time \<Rightarrow> nat
      \<Rightarrow> WsRow list \<Rightarrow> string list \<Rightarrow> WsWorld \<Rightarrow> (string list \<times> bool) \<times> WsWorld" where
  "reclaimLoop cancelled activeFn upd now i [] reclaimed w = ((reclaimed, False), w)"
| "reclaimLoop cancelled activeFn upd now i (ws # rest) reclaimed w =
     (if cancelled i then ((reclaimed, True), w)
      else case activeFn ws of
        Inl _ \<Rightarrow> reclaimLoop cancelled activeFn upd now (Suc i) rest reclaimed w
      | Inr active \<Rightarrow>
         if active then
           reclaimLoop cancelled activeFn upd now (Suc i) rest reclaimed
             (snd (TouchWorkspace (upd (wr_ID ws)) now (wr_ID ws) now w))
         else
           (let w = w\<lparr>ww_calls := ww_calls w @ [CallDeprovision (wr_ID ws)]\<rparr>;
                ws' = ws\<lparr>wr_Status := WsStopping\<rparr> in
            case UpdateWorkspace (upd (wr_ID ws)) now ws' w of
              (Some _, w) \<Rightarrow> reclaimLoop cancelled activeFn upd now (Suc i) rest reclaimed w
            | (None, w) \<Rightarrow> reclaimLoop cancelled activeFn upd now (Suc i) rest (reclaimed @ [wr_ID ws]) w))"

definition ReclaimIdle ::
    "(nat \<Rightarrow> bool) \<Rightarrow> StoreError option \<Rightarrow> (WsRow \<Rightarrow> string + bool) \<Rightarrow> (string \<Rightarrow> StoreError option)
      \<Rightarrow> time \<Rightarrow> WsWorld \<Rightarrow> (WsServiceError option \<times> string list) \<times> WsWorld" where
  "ReclaimIdle cancelled listErr activeFn upd now w =
     (case listErr of
        Some e \<Rightarrow> ((Some (WsErrListReclaimable e), []), w)
      | None \<Rightarrow>
         (case reclaimLoop cancelled activeFn upd now 0 (ListReclaimable now w) [] w of
            ((reclaimed, stopped), w) \<Rightarrow> ((if stopped then Some WsErrContext else None, reclaimed), w)))"

section \<open>What the workspaces of a tenant hold\<close>

definition memOf :: "WsRow \<Rightarrow> int" where
  "memOf r = parseMemGB (wr_MemoryRequest r)"

definition held :: "(WsRow \<Rightarrow> int) \<Rightarrow> string \<Rightarrow> WsRow list \<Rightarrow> int" where
  "held f t rows = sum_list (map f (filter (\<lambda>r. wr_TenantID r = t) rows))"

definition slack :: "WsWorld \<Rightarrow> string \<Rightarrow> usage option" where
  "slack w t = map_option (\<lambda>(a, b, c). (a - held wr_GPUCount t (ww_rows w), b - held memOf t (ww_rows w),
       c - held (\<lambda>_. 1) t (ww_rows w))) (quotaUsage (ww_quotas w) t)"

definition sameRequest :: "WsRow \<Rightarrow> WsRow \<Rightarrow> bool" where
  "sameRequest r r' = (wr_ID r' = wr_ID r \<and> wr_TenantID r' = wr_TenantID r \<and> wr_GPUCount r' = wr_GPUCount r
     \<and> wr_MemoryRequest r' = wr_MemoryRequest r)"

definition rows_ok :: "WsRow list \<Rightarrow> bool" where
  "rows_ok rows = (tunique wr_ID rows \<and> list_all (\<lambda>r. amount (wr_GPUCount r) \<and> amount (memOf r)) rows)"

lemma held_simps [simp]:
  "held f t [] = 0"
  "held f t (r # rows) = (if wr_TenantID r = t then f r else 0) + held f t rows"
  by (simp_all add: held_def)

lemma held_tadd [simp]: "held f t (tadd r rows) = held f t rows + (if wr_TenantID r = t then f r else 0)"
  by (induction rows) auto

lemma tdelete_absent: "k \<notin> key ` set rows \<Longrightarrow> tdelete key k rows = rows"
  by (induction rows) auto

lemma tsave_absent: "key r \<notin> key ` set rows \<Longrightarrow> tsave key r rows = rows"
  by (induction rows) auto

lemma held_tdelete:
  assumes "tunique wr_ID rows" and "tfind wr_ID rows k = Some r"
  shows "held f t (tdelete wr_ID k rows) = held f t rows - (if wr_TenantID r = t then f r else 0)"
  using assms
  by (induction rows) (auto simp: tunique_def tdelete_absent split: if_splits)

lemma held_tsave:
  assumes "tunique wr_ID rows" and "tfind wr_ID rows (wr_ID r) = Some r0"
    and "wr_TenantID r = wr_TenantID r0" and "f r = f r0"
  shows "held f t (tsave wr_ID r rows) = held f t rows"
  using assms by (induction rows) (auto simp: tunique_def tsave_absent split: if_splits)

lemma held_nonneg: "list_all (\<lambda>r. 0 \<le> f r) rows \<Longrightarrow> 0 \<le> held f t rows"
  by (induction rows) auto

lemma held_ge:
  "list_all (\<lambda>r. 0 \<le> f r) rows \<Longrightarrow> tfind wr_ID rows k = Some r \<Longrightarrow> f r \<le> held f (wr_TenantID r) rows"
  by (induction rows) (auto simp: held_nonneg add_increasing split: if_splits)

definition present :: "WsRow list \<Rightarrow> WsRow \<Rightarrow> bool" where
  "present rows r = (case tfind wr_ID rows (wr_ID r) of None \<Rightarrow> False | Some r0 \<Rightarrow> sameRequest r0 r)"

lemma present_same: "present rows r \<Longrightarrow> sameRequest r r' \<Longrightarrow> present rows r'"
  by (auto simp: present_def sameRequest_def split: option.splits)

lemma tupsert_present: "present rows r \<Longrightarrow> tupsert wr_ID r rows = tsave wr_ID r rows"
  using tfind_None [of wr_ID rows "wr_ID r"]
  by (auto simp: present_def tupsert_def list_ex_iff split: option.splits)

lemma sameRequest_join: "sameRequest a b \<Longrightarrow> sameRequest a c \<Longrightarrow> sameRequest b c"
  by (simp add: sameRequest_def)

lemma present_upsert:
  assumes "present rows x" and "present rows r"
  shows "present (tupsert wr_ID r rows) x"
proof (cases "wr_ID x = wr_ID r")
  case True
  then show ?thesis using assms
    by (auto simp: present_def tfind_tupsert split: option.splits elim: sameRequest_join)
next
  case False
  then show ?thesis using assms(1) by (simp add: present_def tfind_tupsert)
qed

definition world_ok :: "WsWorld \<Rightarrow> bool" where
  "world_ok w = (ledger_ok (ww_quotas w) \<and> rows_ok (ww_rows w)
     \<and> (\<forall>t a b c. slack w t = Some (a, b, c) \<longrightarrow> 0 \<le> a \<and> 0 \<le> b \<and> 0 \<le> c))"

lemma world_ok_slack:
  assumes "world_ok w" and "quotaUsage (ww_quotas w) t = Some (a, b, c)"
  shows "held wr_GPUCount t (ww_rows w) \<le> a \<and> held memOf t (ww_rows w) \<le> b \<and> held (\<lambda>_. 1) t (ww_rows w) \<le> c"
proof -
  have "slack w t = Some (a - held wr_GPUCount t (ww_rows w), b - held memOf t (ww_rows w),
      c - held (\<lambda>_. 1) t (ww_rows w))"
    using assms(2) by (simp add: slack_def)
  then show ?thesis using assms(1) unfolding world_ok_def by fastforce
qed

definition keeps :: "WsWorld \<Rightarrow> WsWorld \<Rightarrow> bool" where
  "keeps w w' = (world_ok w' \<and> slack w' = slack w)"

lemma keeps_refl: "world_ok w \<Longrightarrow> keeps w w"
  by (simp add: keeps_def)

lemma keeps_trans: "keeps w w' \<Longrightarrow> keeps w' w'' \<Longrightarrow> keeps w w''"
  by (simp add: keeps_def)

lemma world_ok_calls: "world_ok (w\<lparr>ww_calls := cs\<rparr>) = world_ok w"
  by (simp add: world_ok_def slack_def)

lemma keeps_calls: "keeps w w' \<Longrightarrow> keeps w (w'\<lparr>ww_calls := cs\<rparr>)"
  "world_ok w \<Longrightarrow> keeps w (w\<lparr>ww_calls := cs\<rparr>)"
  by (auto simp: keeps_def world_ok_calls) (simp_all add: slack_def fun_eq_iff)

lemma update_keeps:
  assumes "world_ok w" and "present (ww_rows w) r"
  shows "keeps w (snd (UpdateWorkspace f now r w))"
    and "present (ww_rows w) x \<Longrightarrow> present (ww_rows (snd (UpdateWorkspace f now r w))) x"
proof -
  let ?r = "r\<lparr>wr_UpdatedAt := now\<rparr>"
  have p: "present (ww_rows w) ?r" using assms(2) by (auto simp: present_def sameRequest_def split: option.splits)
  obtain r0 where r0: "tfind wr_ID (ww_rows w) (wr_ID ?r) = Some r0" "sameRequest r0 ?r"
    using p by (auto simp: present_def split: option.splits)
  have u: "tunique wr_ID (ww_rows w)" and l: "list_all (\<lambda>r. amount (wr_GPUCount r) \<and> amount (memOf r)) (ww_rows w)"
    using assms(1) by (simp_all add: world_ok_def rows_ok_def)
  have h: "held wr_GPUCount t (tsave wr_ID ?r (ww_rows w)) = held wr_GPUCount t (ww_rows w)"
    "held memOf t (tsave wr_ID ?r (ww_rows w)) = held memOf t (ww_rows w)"
    "held (\<lambda>_. 1) t (tsave wr_ID ?r (ww_rows w)) = held (\<lambda>_. 1) t (ww_rows w)" for t
    using r0(2) by (auto simp: sameRequest_def memOf_def intro!: held_tsave [OF u r0(1)])
  have "amount (wr_GPUCount r0) \<and> amount (memOf r0)"
    using l tfind_mem [OF r0(1)] by (auto simp: list_all_iff)
  then have "amount (wr_GPUCount ?r) \<and> amount (memOf ?r)"
    using r0(2) by (simp add: sameRequest_def memOf_def)
  then have "rows_ok (tsave wr_ID ?r (ww_rows w))"
    using u l by (auto simp: rows_ok_def tsave_unique list_all_iff dest: tsave_set)
  then show "keeps w (snd (UpdateWorkspace f now r w))"
    using assms(1) h by (cases f)
      (simp_all add: UpdateWorkspace_def keeps_def tupsert_present [OF p] world_ok_def slack_def fun_eq_iff)
  show "present (ww_rows (snd (UpdateWorkspace f now r w))) x" if "present (ww_rows w) x"
    using present_upsert [OF that p] that by (cases f) (simp_all add: UpdateWorkspace_def)
qed

lemma present_mem: "tunique wr_ID rows \<Longrightarrow> r \<in> set rows \<Longrightarrow> present rows r"
  by (simp add: present_def tfind_unique sameRequest_def)

lemma present_calls [simp]: "ww_rows (w\<lparr>ww_calls := cs\<rparr>) = ww_rows w" by simp

lemma same_status [simp]:
  "sameRequest r (r\<lparr>wr_Status := s\<rparr>)" "sameRequest r (r\<lparr>wr_Status := s, wr_FailureMsg := m\<rparr>)"
  "sameRequest r (r\<lparr>wr_Status := s, wr_StoppedAt := t\<rparr>)" "sameRequest r (r\<lparr>wr_Status := s, wr_StartedAt := t\<rparr>)"
  "sameRequest r (r\<lparr>wr_Status := s, wr_RuntimeName := m\<rparr>)"
  "sameRequest r (r\<lparr>wr_Status := s, wr_StoppedAt := t, wr_FailureMsg := m\<rparr>)"
  by (simp_all add: sameRequest_def)

lemma update_chain:
  assumes "keeps w w1" and "present (ww_rows w1) r"
  shows "keeps w (snd (UpdateWorkspace f now r w1))"
  using assms update_keeps(1) [of w1 r f now] by (auto simp: keeps_def)

lemma provision_keeps:
  assumes "world_ok w" and "present (ww_rows w) ws"
  shows "keeps w (snd (provision env ws w))"
proof (cases "wr_Status ws = WsPending")
  case True
  let ?ws = "ws\<lparr>wr_Status := WsStarting\<rparr>"
  have p: "present (ww_rows w) ?ws" by (rule present_same [OF assms(2)]) simp
  obtain e w1 where u: "UpdateWorkspace (env_update env 0) (env_now env) ?ws w = (e, w1)" by fastforce
  have k: "keeps w w1" using update_keeps(1) [OF assms(1) p] u by (metis snd_conv)
  have q: "present (ww_rows w1) r" if "sameRequest ws r" for r
    using update_keeps(2) [OF assms(1) p present_same [OF assms(2) that]] u by (metis snd_conv)
  have c: "keeps w (w1\<lparr>ww_calls := cs\<rparr>)" for cs by (rule keeps_calls(1) [OF k])
  show ?thesis
    using True k by (cases e; cases "env_provision env")
      (auto simp: provision_def u Let_def intro!: update_chain [OF c] q)
qed (use assms in \<open>simp add: provision_def keeps_refl\<close>)

lemma CreateWorkspace_row:
  assumes "CreateWorkspace f nid now r w = (e, r', w')"
  shows "wr_TenantID r' = wr_TenantID r" "wr_GPUCount r' = wr_GPUCount r" "memOf r' = memOf r"
    "e \<noteq> None \<Longrightarrow> w' = w"
    "e = None \<Longrightarrow> w' = w\<lparr>ww_rows := tadd r' (ww_rows w)\<rparr> \<and> tfind wr_ID (ww_rows w) (wr_ID r') = None"
  using assms
  by (auto simp: CreateWorkspace_def Let_def memOf_def tfind_None list_ex_iff image_iff split: option.splits if_splits)

lemma wsCreate_keeps:
  assumes w: "world_ok w" and rel: "env_release env 0 = None"
    and am: "\<And>ws. wso = Some ws \<Longrightarrow> amount (wr_GPUCount ws) \<and> amount (memOf ws)"
  shows "keeps w (snd (wsCreate env allowed wso w))"
proof (cases wso)
  case None
  then show ?thesis using w by (simp add: wsCreate_def keeps_refl)
next
  case (Some ws)
  have a: "amount (wr_GPUCount ws)" "amount (memOf ws)" "amount 1" using am [OF Some] by (auto simp: amount_def)
  have l: "ledger_ok (ww_quotas w)" using w by (simp add: world_ok_def)
  let ?t = "wr_TenantID ws" and ?g = "wr_GPUCount ws" and ?m = "memOf ws"
  obtain e qs where r: "CheckAndReserve (env_reserve env) (env_now env) ?t ?g ?m 1 (ww_quotas w) = (e, qs)"
    by fastforce
  obtain e' ws' w' where c: "CreateWorkspace (env_create env) (env_newID env) (env_now env) ws (w\<lparr>ww_quotas := qs\<rparr>)
      = (e', ws', w')" by (metis prod_cases3)
  note C = CreateWorkspace_row [OF c]
  show ?thesis
  proof (cases e)
    case (Some x)
    then have "qs = ww_quotas w" using r ql.reserve_err by blast
    then show ?thesis using w r Some \<open>wso = Some ws\<close>
      by (simp add: wsCreate_def memOf_def [symmetric] keeps_refl)
  next
    case None
    note R = ql.reserve_ok [OF l a r [unfolded None]]
    obtain A B Cc where u: "quotaUsage (ww_quotas w) ?t = Some (A, B, Cc)" "quotaUsage qs ?t = Some (A + ?g, B + ?m, Cc + 1)"
      using R by blast
    have f: "t \<noteq> ?t \<Longrightarrow> quotaUsage qs t = quotaUsage (ww_quotas w) t" for t
      by (rule ql.reserve_frame [OF r])
    show ?thesis
    proof (cases e')
      case (Some x)
      then have w': "w' = w\<lparr>ww_quotas := qs\<rparr>" using C(4) by simp
      obtain q where q: "tfind q_TenantID qs ?t = Some q" using u(2) by (auto simp: quotaUsage_def)
      have "fst (releaseBody (env_now env) ?t ?g ?m 1 qs) = None" by (simp add: releaseBody_def q)
      then obtain qs' where "releaseBody (env_now env) ?t ?g ?m 1 qs = (None, qs')" by (metis prod.collapse)
      then have rl: "Release (env_release env) (env_now env) ?t ?g ?m 1 qs = (None, qs')"
        using rel by (simp add: Release_def retryTx_no_fault)
      have us: "quotaUsage qs' = quotaUsage (ww_quotas w)"
        by (rule ql.reserve_then_release [OF l a r [unfolded None] rl])
      have "ledger_ok qs'" using ql.release_ok [OF _ a rl] R by blast
      then have "keeps w (w\<lparr>ww_quotas := qs'\<rparr>)"
        using w us by (auto simp: keeps_def world_ok_def slack_def)
      moreover have "snd (wsCreate env allowed wso w) = w \<or> snd (wsCreate env allowed wso w) = w\<lparr>ww_quotas := qs'\<rparr>"
        using \<open>wso = Some ws\<close> r None c Some w' rl C(1,2) by (simp add: wsCreate_def memOf_def)
      ultimately show ?thesis using keeps_refl [OF w] by auto
    next
      case None
      then have w': "w' = w\<lparr>ww_quotas := qs, ww_rows := tadd ws' (ww_rows w)\<rparr>"
        and fresh: "tfind wr_ID (ww_rows w) (wr_ID ws') = None" using C(5) by simp_all
      have sl: "slack w' t = slack w t" for t
        using u f [of t] C(1-3) by (cases "t = ?t") (auto simp: slack_def w')
      have ok: "rows_ok (ww_rows w')"
        using w a C(2,3) fresh by (auto simp: w' rows_ok_def world_ok_def tadd_unique list_all_iff)
      have "keeps w w'" using w R ok sl by (auto simp: keeps_def world_ok_def w')
      moreover have "present (ww_rows w') ws'"
        using ok by (auto simp: rows_ok_def w' intro!: present_mem)
      ultimately have "keeps w (snd (provision env ws' w'))"
        using provision_keeps [of w' ws' env] by (auto simp: keeps_def)
      then show ?thesis using \<open>wso = Some ws\<close> r \<open>e = None\<close> c None keeps_refl [OF w]
        by (simp add: wsCreate_def memOf_def [symmetric])
    qed
  qed
qed

lemma GetWorkspaceForTenant_ok:
  assumes "GetWorkspaceForTenant tenant id0 w = Inr ws"
  shows "tfind wr_ID (ww_rows w) id0 = Some ws" "wr_TenantID ws = tenant" "wr_ID ws = id0"
    "present (ww_rows w) ws"
  using assms tfind_key [of wr_ID "ww_rows w" id0 ws]
  by (auto simp: GetWorkspaceForTenant_def present_def sameRequest_def split: option.splits if_splits)

lemma update_self:
  assumes "world_ok w" and "present (ww_rows w) ws" and "sameRequest ws r"
  shows "keeps w (snd (UpdateWorkspace f now r w))"
  using update_keeps(1) [OF assms(1) present_same [OF assms(2,3)]] .

lemma wsStart_keeps:
  assumes w: "world_ok w"
  shows "keeps w (snd (wsStart env tenant actor isAdmin id0 w))"
proof (cases "GetWorkspaceForTenant tenant id0 w")
  case (Inl e)
  then show ?thesis using w by (simp add: wsStart_def keeps_refl)
next
  case (Inr ws)
  note G = GetWorkspaceForTenant_ok [OF Inr]
  let ?ws = "ws\<lparr>wr_Status := WsStarting\<rparr>"
  have p: "present (ww_rows w) ?ws" by (rule present_same [OF G(4)]) simp
  obtain e w1 where u: "UpdateWorkspace (env_update env 0) (env_now env) ?ws w = (e, w1)" by fastforce
  have k: "keeps w w1" using update_keeps(1) [OF w p] u by (metis snd_conv)
  have q: "present (ww_rows w1) r" if "sameRequest ws r" for r
    using update_keeps(2) [OF w p present_same [OF G(4) that]] u by (metis snd_conv)
  have c: "keeps w (w1\<lparr>ww_calls := cs\<rparr>)" for cs by (rule keeps_calls(1) [OF k])
  show ?thesis
    using k keeps_refl [OF w] by (cases e; cases "env_provision env")
      (auto simp: wsStart_def Inr u Let_def intro!: update_chain [OF c] q c)
qed

lemma wsStop_keeps:
  assumes w: "world_ok w"
  shows "keeps w (snd (wsStop env tenant actor isAdmin id0 w))"
proof (cases "GetWorkspaceForTenant tenant id0 w")
  case (Inl e)
  then show ?thesis using w by (simp add: wsStop_def keeps_refl)
next
  case (Inr ws)
  note G = GetWorkspaceForTenant_ok [OF Inr]
  let ?w1 = "w\<lparr>ww_calls := ww_calls w @ [CallDeprovision (wr_ID ws)]\<rparr>"
  have c: "keeps w ?w1" by (rule keeps_calls(2) [OF w])
  have p: "present (ww_rows ?w1) (ws\<lparr>wr_Status := WsStopped, wr_StoppedAt := Some (env_now env)\<rparr>)"
    using present_same [OF G(4)] by simp
  have u: "keeps w (snd (UpdateWorkspace (env_update env 0) (env_now env)
      (ws\<lparr>wr_Status := WsStopped, wr_StoppedAt := Some (env_now env)\<rparr>) ?w1))"
    by (rule update_chain [OF c p])
  show ?thesis
    using c u keeps_refl [OF w] by (auto simp: wsStop_def Inr Let_def split: option.splits prod.splits)
qed

lemma wsDelete_keeps:
  assumes w: "world_ok w"
  shows "keeps w (snd (wsDelete env tenant actor isAdmin id0 w))"
proof (cases "GetWorkspaceForTenant tenant id0 w")
  case (Inl e)
  then show ?thesis using w by (simp add: wsDelete_def keeps_refl)
next
  case (Inr ws)
  note G = GetWorkspaceForTenant_ok [OF Inr]
  let ?t = "wr_TenantID ws" and ?g = "wr_GPUCount ws" and ?m = "memOf ws" and ?now = "env_now env"
  let ?w1 = "w\<lparr>ww_calls := ww_calls w @ [CallDeprovision (wr_ID ws)]\<rparr>"
  have r: "tunique wr_ID (ww_rows w)" and ra: "list_all (\<lambda>r. amount (wr_GPUCount r) \<and> amount (memOf r)) (ww_rows w)"
    and l: "ledger_ok (ww_quotas w)"
    using w by (simp_all add: world_ok_def rows_ok_def)
  have am: "amount ?g" "amount ?m" "amount 1"
    using ra tfind_mem [OF G(1)] by (auto simp: list_all_iff amount_def)
  have ge: "?g \<le> held wr_GPUCount ?t (ww_rows w)" "?m \<le> held memOf ?t (ww_rows w)" "1 \<le> held (\<lambda>_. 1) ?t (ww_rows w)"
    using ra by (auto simp: list_all_iff amount_def intro!: held_ge [OF _ G(1)])
  note hd = held_tdelete [OF r G(1)]
  have rows: "rows_ok (tdelete wr_ID id0 (ww_rows w))"
    using r ra by (auto simp: rows_ok_def tdelete_unique list_all_iff)
  have "keeps w (snd (DeleteWorkspaceAndReleaseQuota (env_delete env) ?now id0 ?t ?g ?m ?w1))"
  proof (cases "env_delete env")
    case (Some e)
    then show ?thesis using keeps_calls(2) [OF w] by (simp add: DeleteWorkspaceAndReleaseQuota_def)
  next
    case None
    obtain b qs where rb: "releaseBody ?now ?t ?g ?m 1 (ww_quotas w) = (b, qs)" by fastforce
    let ?w2 = "?w1\<lparr>ww_rows := tdelete wr_ID id0 (ww_rows w), ww_quotas := qs\<rparr>"
    have eq: "snd (DeleteWorkspaceAndReleaseQuota (env_delete env) ?now id0 ?t ?g ?m ?w1) = ?w2"
      using rb by (auto simp: DeleteWorkspaceAndReleaseQuota_def None releaseBody_def split: option.splits)
    have fr: "t \<noteq> ?t \<Longrightarrow> quotaUsage qs t = quotaUsage (ww_quotas w) t" for t
      using releaseBody_frame [OF rb] by (simp add: quotaUsage_def)
    have main: "ledger_ok qs \<and> slack ?w2 ?t = slack w ?t"
    proof (cases b)
      case (Some e)
      then have "qs = ww_quotas w" "quotaUsage (ww_quotas w) ?t = None"
        using rb by (auto simp: releaseBody_def quotaUsage_def split: option.splits)
      then show ?thesis using l by (simp add: slack_def)
    next
      case None
      have "Release (\<lambda>_. None) ?now ?t ?g ?m 1 (ww_quotas w) = (None, qs)"
        using rb None by (simp add: Release_def retryTx_no_fault)
      from ql.release_ok [OF l am this] obtain A B Cc where
        u: "ledger_ok qs" "quotaUsage (ww_quotas w) ?t = Some (A, B, Cc)"
          "quotaUsage qs ?t = Some (max 0 (A - ?g), max 0 (B - ?m), max 0 (Cc - 1))" by blast
      have "0 \<le> A - held wr_GPUCount ?t (ww_rows w)" "0 \<le> B - held memOf ?t (ww_rows w)"
        "0 \<le> Cc - held (\<lambda>_. 1) ?t (ww_rows w)"
        using world_ok_slack [OF w u(2)] by simp_all
      then show ?thesis using u ge by (simp add: slack_def hd)
    qed
    have "slack ?w2 = slack w"
    proof
      fix t show "slack ?w2 t = slack w t"
        using main fr [of t] by (cases "t = ?t") (auto simp: slack_def hd)
    qed
    then show ?thesis unfolding eq using main rows w by (simp add: keeps_def world_ok_def)
  qed
  then show ?thesis using keeps_refl [OF w]
    by (auto simp: wsDelete_def Inr Let_def memOf_def split: option.splits prod.splits)
qed

lemma ReconcileOne_keeps:
  assumes "world_ok w" and "present (ww_rows w) ws"
  shows "keeps w (wsReconcileOne statusFn upd now ws w)"
    and "present (ww_rows w) x \<Longrightarrow> present (ww_rows (wsReconcileOne statusFn upd now ws w)) x"
  using update_self [OF assms] update_keeps(2) [OF assms(1) present_same [OF assms(2)]] keeps_refl [OF assms(1)]
  by (auto simp: wsReconcileOne_def Let_def split: prod.splits)

lemma ReconcileLoop_keeps:
  assumes "world_ok w" and "list_all (present (ww_rows w)) l"
  shows "keeps w (wsReconcileLoop cancelled statusFn upd now i l w)"
  using assms
proof (induction l arbitrary: i w)
  case (Cons ws l)
  note O = ReconcileOne_keeps [where w = w and ws = ws and statusFn = statusFn and upd = upd and now = now]
  have "list_all (present (ww_rows (wsReconcileOne statusFn upd now ws w))) l"
    using Cons.prems O(2) by (auto simp: list_all_iff)
  then show ?case using Cons O(1) keeps_trans by (auto simp: keeps_def)
qed (simp add: keeps_refl)

lemma wsReconcile_keeps: "world_ok w \<Longrightarrow> keeps w (wsReconcile cancelled listErr statusFn upd now w)"
proof -
  assume w: "world_ok w"
  have "list_all (present (ww_rows w)) (ListAllWorkspaces w)"
    using w present_mem by (auto simp: ListAllWorkspaces_def list_all_iff world_ok_def rows_ok_def dest: in_set_takeD)
  then show ?thesis using w by (auto simp: wsReconcile_def keeps_refl ReconcileLoop_keeps split: option.splits)
qed

lemma held_map:
  assumes "\<And>r. wr_TenantID (g r) = wr_TenantID r" and "\<And>r. f (g r) = f r"
  shows "held f t (map g rows) = held f t rows"
  by (induction rows) (auto simp: assms)

lemma touch_keeps:
  assumes w: "world_ok w"
  shows "keeps w (snd (TouchWorkspace f now id0 tm w))"
    and "present (ww_rows w) x \<Longrightarrow> present (ww_rows (snd (TouchWorkspace f now id0 tm w))) x"
proof -
  define g :: "WsRow \<Rightarrow> WsRow" where "g = (\<lambda>r. if wr_ID r = id0 \<and> (case wr_LastActiveAt r of None \<Rightarrow> True | Some l \<Rightarrow> l \<le> tm)
      then r\<lparr>wr_LastActiveAt := Some tm, wr_UpdatedAt := now\<rparr> else r)"
  have g: "wr_ID (g r) = wr_ID r" "wr_TenantID (g r) = wr_TenantID r" "wr_GPUCount (g r) = wr_GPUCount r"
    "memOf (g r) = memOf r" "sameRequest r x \<Longrightarrow> sameRequest (g r) x" for r x
    by (simp_all add: g_def memOf_def sameRequest_def)
  have h: "held wr_GPUCount t (map g (ww_rows w)) = held wr_GPUCount t (ww_rows w)"
    "held memOf t (map g (ww_rows w)) = held memOf t (ww_rows w)"
    "held (\<lambda>_. 1) t (map g (ww_rows w)) = held (\<lambda>_. 1) t (ww_rows w)" for t
    by (simp_all add: held_map g)
  have "wr_ID \<circ> g = wr_ID" by (simp add: fun_eq_iff g)
  then have r: "rows_ok (map g (ww_rows w))"
    using w by (simp add: world_ok_def rows_ok_def tunique_def list_all_iff g)
  have k: "keeps w (w\<lparr>ww_rows := map g (ww_rows w)\<rparr>)"
    using w r by (simp add: keeps_def world_ok_def slack_def h fun_eq_iff)
  then show "keeps w (snd (TouchWorkspace f now id0 tm w))"
    using keeps_refl [OF w] by (simp add: TouchWorkspace_def g_def Let_def split: option.splits)
  have m: "tfind wr_ID (map g rows) k = map_option g (tfind wr_ID rows k)" for rows k
    by (induction rows) (auto simp: g)
  have "present (map g (ww_rows w)) x" if "present (ww_rows w) x" for x
    using that by (auto simp: present_def m g split: option.splits)
  then show "present (ww_rows (snd (TouchWorkspace f now id0 tm w))) x" if "present (ww_rows w) x"
    using that by (simp add: TouchWorkspace_def g_def Let_def split: option.splits)
qed

lemma reclaimLoop_keeps:
  assumes "world_ok w" and "list_all (present (ww_rows w)) l"
  shows "keeps w (snd (reclaimLoop cancelled activeFn upd now i l acc w))"
  using assms
proof (induction l arbitrary: i acc w)
  case (Cons ws l)
  have pw: "present (ww_rows w) ws" and pl: "list_all (present (ww_rows w)) l" using Cons.prems by simp_all
  let ?w1 = "w\<lparr>ww_calls := ww_calls w @ [CallDeprovision (wr_ID ws)]\<rparr>"
  let ?ws = "ws\<lparr>wr_Status := WsStopping\<rparr>"
  obtain e w2 where u: "UpdateWorkspace (upd (wr_ID ws)) now ?ws ?w1 = (e, w2)" by fastforce
  have w1: "world_ok ?w1" "keeps w ?w1" using Cons.prems(1) by (simp_all add: world_ok_calls keeps_calls)
  have p1: "present (ww_rows ?w1) ?ws" using present_same [OF pw] by simp
  have k2: "keeps w w2" using update_chain [OF w1(2) p1, of "upd (wr_ID ws)" now] by (simp add: u)
  have l2: "list_all (present (ww_rows w2)) l"
    using update_keeps(2) [OF w1(1) p1, of _ "upd (wr_ID ws)" now] pl by (simp add: u list_all_iff)
  let ?w3 = "snd (TouchWorkspace (upd (wr_ID ws)) now (wr_ID ws) now w)"
  have k3: "keeps w ?w3" by (rule touch_keeps(1) [OF Cons.prems(1)])
  have l3: "list_all (present (ww_rows ?w3)) l"
    using pl touch_keeps(2) [OF Cons.prems(1)] by (simp add: list_all_iff)
  have I2: "keeps w (snd (reclaimLoop cancelled activeFn upd now j l a w2))" for j a
    using Cons.IH [OF _ l2] k2 keeps_trans by (auto simp: keeps_def)
  have I3: "keeps w (snd (reclaimLoop cancelled activeFn upd now j l a ?w3))" for j a
    using Cons.IH [OF _ l3] k3 keeps_trans by (auto simp: keeps_def)
  show ?case using Cons.IH [OF Cons.prems(1) pl] I2 I3 keeps_refl [OF Cons.prems(1)]
    by (auto simp: u Let_def split: sum.splits option.splits)
qed (simp add: keeps_refl)

lemma ReclaimIdle_keeps:
  assumes w: "world_ok w"
  shows "keeps w (snd (ReclaimIdle cancelled listErr activeFn upd now w))"
proof -
  have "list_all (present (ww_rows w)) (ListReclaimable now w)"
    using w present_mem by (auto simp: ListReclaimable_def list_all_iff world_ok_def rows_ok_def)
  from reclaimLoop_keeps [OF w this, of cancelled activeFn upd now 0 "[]"]
  show ?thesis using keeps_refl [OF w] by (auto simp: ReclaimIdle_def split: option.splits prod.splits)
qed

datatype WsOp =
    OpCreate WsEnv "string list" "WsRow option"
  | OpStart WsEnv string string bool string
  | OpStop WsEnv string string bool string
  | OpDelete WsEnv string string bool string
  | OpReconcile "nat \<Rightarrow> bool" "StoreError option" "WsRow \<Rightarrow> bool \<times> bool \<times> bool" "string \<Rightarrow> StoreError option" time
  | OpReclaim "nat \<Rightarrow> bool" "StoreError option" "WsRow \<Rightarrow> string + bool" "string \<Rightarrow> StoreError option" time

fun wsOp :: "WsOp \<Rightarrow> WsWorld \<Rightarrow> WsWorld" where
  "wsOp (OpCreate env allowed wso) w = snd (wsCreate env allowed wso w)"
| "wsOp (OpStart env t a adm i) w = snd (wsStart env t a adm i w)"
| "wsOp (OpStop env t a adm i) w = snd (wsStop env t a adm i w)"
| "wsOp (OpDelete env t a adm i) w = snd (wsDelete env t a adm i w)"
| "wsOp (OpReconcile c e st u now) w = wsReconcile c e st u now w"
| "wsOp (OpReclaim c e ac u now) w = snd (ReclaimIdle c e ac u now w)"

fun wsOpOk :: "WsOp \<Rightarrow> bool" where
  "wsOpOk (OpCreate env allowed (Some ws)) =
     (env_release env 0 = None \<and> amount (wr_GPUCount ws) \<and> amount (memOf ws))"
| "wsOpOk (OpCreate env allowed None) = (env_release env 0 = None)"
| "wsOpOk _ = True"

definition runWsOps :: "WsOp list \<Rightarrow> WsWorld \<Rightarrow> WsWorld" where
  "runWsOps ops w = fold wsOp ops w"

lemma wsOp_keeps: "world_ok w \<Longrightarrow> wsOpOk op \<Longrightarrow> keeps w (wsOp op w)"
proof (cases op)
  case (OpCreate env allowed wso)
  assume "world_ok w" and "wsOpOk op"
  then show ?thesis using OpCreate by (cases wso) (auto intro!: wsCreate_keeps)
qed (simp_all add: wsStart_keeps wsStop_keeps wsDelete_keeps wsReconcile_keeps ReclaimIdle_keeps)

section \<open>Properties\<close>


definition demoEnv :: WsEnv where
  "demoEnv = \<lparr>env_reserve = (\<lambda>_. None), env_release = (\<lambda>_. None), env_create = None,
     env_update = (\<lambda>_. None), env_provision = Inl ''no node'', env_deprovision = None, env_delete = None,
     env_newID = ''ws-1'', env_now = 100\<rparr>"

definition demoRow :: WsRow where
  "demoRow = \<lparr>wr_ID = [], wr_TenantID = ''acme'', wr_Name = ''nb'', wr_Kind = ''notebook'', wr_OwnerID = ''u'',
     wr_Image = ''img'', wr_Status = WsNoStatus, wr_CreatedAt = 0, wr_UpdatedAt = 0, wr_CPURequest = [],
     wr_MemoryRequest = ''16Gi'', wr_GPUCount = 2, wr_GPUModel = [], wr_IdleTimeout = 0,
     wr_LastActiveAt = None, wr_StartedAt = None, wr_StoppedAt = None, wr_FailureMsg = [], wr_Mounts = [],
     wr_RuntimeName = [], wr_NodeName = []\<rparr>"

definition demoWorld :: WsWorld where
  "demoWorld = \<lparr>ww_rows = [], ww_quotas = [demoQuota], ww_calls = []\<rparr>"

lemma memOf_demoRow: "memOf demoRow = 16"
  by (simp add: memOf_def demoRow_def parseMemGB_def TrimSpace_plain plain_def hasSuffix_def trimSuffix_def
      scanInt_def isDigit_def digitsVal_def in_i64_def)


text \<open>A negative GPU count defeats the quota.  Creation validates neither the count nor the memory
  text, so a request for \<^verbatim>\<open>-n\<close> GPUs succeeds, lowers the tenant's recorded usage by \<^verbatim>\<open>n\<close>, and a
  later reservation is admitted although with it the tenant uses \<^verbatim>\<open>n\<close> GPUs more than its limit.\<close>
theorem workspace_negative_gpus_defeat_quota:
  assumes "tfind q_TenantID (ww_quotas w) (wr_TenantID ws) = Some q" and "ledger_row_ok q"
    and "q_JobUsed q < q_JobQuota q"
    and "wr_GPUCount ws = - n" and "0 < n" and "n < 2 ^ 61" and "parseMemGB (wr_MemoryRequest ws) = 0"
    and "env_reserve env 0 = None" and "env_create env = None" and "ww_rows w = []"
    and "g = q_GPUQuota q - q_GPUUsed q + n"
  shows "fst (wsCreate env [] (Some ws) w) = None
    \<and> quotaUsage (ww_quotas (snd (wsCreate env [] (Some ws) w))) (wr_TenantID ws)
        = Some (q_GPUUsed q - n, q_MemoryUsedGB q, q_JobUsed q + 1)
    \<and> fst (CheckAndReserve (\<lambda>_. None) now (wr_TenantID ws) g 0 0 (ww_quotas (snd (wsCreate env [] (Some ws) w)))) = None
    \<and> q_GPUUsed q + g = q_GPUQuota q + n"
proof -
  let ?t = "wr_TenantID ws"
  have i: "in_i64 (q_GPUUsed q - n)" "in_i64 (q_MemoryUsedGB q)" "in_i64 (q_JobUsed q + 1)" "in_i64 (q_JobUsed q + 1 + 0)"
    "in_i64 (q_GPUUsed q - n + g)" "q_GPUUsed q - n \<le> q_GPUQuota q"
    using assms(2,3,5,6,11) by (auto simp: ledger_row_ok_def in_i64_def)
  let ?q = "q\<lparr>q_GPUUsed := q_GPUUsed q - n, q_JobUsed := q_JobUsed q + 1,
      q_UpdatedAt := env_now env\<rparr>"
  let ?qs = "tsave q_TenantID ?q (ww_quotas w)"
  have tq: "q_TenantID q = ?t" by (rule tfind_key [OF assms(1)])
  have lim: "q_MemoryUsedGB q \<le> q_MemoryQuotaGB q" "q_JobUsed q + 1 \<le> q_JobQuota q"
    using assms(2,3) by (simp_all add: ledger_row_ok_def)
  have "reserveBody (env_now env) ?t (- n) 0 1 (ww_quotas w) = (None, ?qs)"
    using i lim by (simp add: reserveBody_def assms(1))
  then have r: "CheckAndReserve (env_reserve env) (env_now env) ?t (wr_GPUCount ws) (parseMemGB (wr_MemoryRequest ws)) 1
      (ww_quotas w) = (None, ?qs)"
    using assms(4,7,8) by (simp add: CheckAndReserve_def retryTx_no_fault)
  obtain ws' w' where c: "CreateWorkspace (env_create env) (env_newID env) (env_now env) ws (w\<lparr>ww_quotas := ?qs\<rparr>)
      = (None, ws', w')" and w': "ww_quotas w' = ?qs"
    using assms(9,10) by (simp add: CreateWorkspace_def Let_def)
  have pq: "ww_quotas (snd (provision env ws' w')) = ww_quotas w'"
    by (simp add: provision_def UpdateWorkspace_def Let_def split: option.splits sum.splits)
  have fq: "tfind q_TenantID ?qs ?t = Some ?q" using assms(1) tq by (simp add: tfind_tsave)
  have created: "fst (wsCreate env [] (Some ws) w) = None" "ww_quotas (snd (wsCreate env [] (Some ws) w)) = ?qs"
    using r c pq w' by (simp_all add: wsCreate_def Allow_def)
  have "fst (reserveBody now ?t g 0 0 ?qs) = None"
    using i lim assms(11) by (simp add: reserveBody_def fq)
  then obtain qs2 where "reserveBody now ?t g 0 0 ?qs = (None, qs2)" by (metis prod.collapse)
  then have "fst (CheckAndReserve (\<lambda>_. None) now ?t g 0 0 ?qs) = None"
    by (simp add: CheckAndReserve_def retryTx_no_fault)
  then show ?thesis using created fq assms(11) by (simp add: quotaUsage_def)
qed

lemma workspace_negative_gpus_defeat_quota_witness:
  "quotaUsage (ww_quotas (snd (wsCreate demoEnv [] (Some (demoRow\<lparr>wr_GPUCount := - 100, wr_MemoryRequest := []\<rparr>)) demoWorld)))
     ''acme'' = Some (- 100, 0, 1)"
proof -
  let ?ws = "demoRow\<lparr>wr_GPUCount := - 100, wr_MemoryRequest := []\<rparr>"
  have "tfind q_TenantID (ww_quotas demoWorld) (wr_TenantID ?ws) = Some demoQuota" "ledger_row_ok demoQuota"
    "q_JobUsed demoQuota < q_JobQuota demoQuota" "wr_TenantID ?ws = ''acme''"
    by (simp_all add: demoWorld_def demoRow_def demoQuota_def emptyQuota_def ledger_row_ok_def)
  then show ?thesis
    using workspace_negative_gpus_defeat_quota [of demoWorld ?ws demoQuota 100 demoEnv 108 0]
    by (simp add: demoEnv_def parseMemGB_def demoWorld_def demoQuota_def emptyQuota_def)
qed

lemma update_other:
  "k \<noteq> wr_ID r \<Longrightarrow> tfind wr_ID (ww_rows (snd (UpdateWorkspace f now r w))) k = tfind wr_ID (ww_rows w) k"
  by (cases f) (simp_all add: UpdateWorkspace_def tfind_tupsert)

lemma touch_other:
  "k \<noteq> i \<Longrightarrow> tfind wr_ID (ww_rows (snd (TouchWorkspace f now i tm w))) k = tfind wr_ID (ww_rows w) k"
proof -
  assume "k \<noteq> i"
  then have "tfind wr_ID (map (\<lambda>r. if wr_ID r = i \<and> P r then h r else r) rows) k = tfind wr_ID rows k"
    if "\<And>r. wr_ID (h r) = wr_ID r" for rows and P :: "WsRow \<Rightarrow> bool" and h
    using that by (induction rows) auto
  then show ?thesis by (simp add: TouchWorkspace_def Let_def split: option.splits)
qed

lemma other_status_frame:
  assumes "tfind wr_ID (ww_rows w) id0 = Some ws" and "wr_Status ws = WsStopping"
  shows "snd (wsStart env t a adm id0 w) = w" "snd (wsStop env t a adm id0 w) = w" "fst (wsStart env t a adm id0 w) \<noteq> None" "fst (wsStop env t a adm id0 w) \<noteq> None"
  using assms
  by (auto simp: wsStart_def wsStop_def GetWorkspaceForTenant_def CanStart_def CanStop_def wsToDomain_def
      wsCanTransition_into split: if_splits)

lemma start_stop_other:
  assumes "id0 \<noteq> k"
  shows "tfind wr_ID (ww_rows (snd (wsStart env t a adm k w))) id0 = tfind wr_ID (ww_rows w) id0"
    and "tfind wr_ID (ww_rows (snd (wsStop env t a adm k w))) id0 = tfind wr_ID (ww_rows w) id0"
proof -
  have k: "wr_ID ws = k" if "GetWorkspaceForTenant t k w = Inr ws" for ws
    using GetWorkspaceForTenant_ok(3) [OF that] .
  have u: "tfind wr_ID (ww_rows w2) id0 = tfind wr_ID (ww_rows w1) id0"
    if "UpdateWorkspace f now r w1 = (e, w2)" "wr_ID r = k" for f now r w1 e w2
    using update_other [of id0 r f now w1] that assms by simp
  show "tfind wr_ID (ww_rows (snd (wsStart env t a adm k w))) id0 = tfind wr_ID (ww_rows w) id0"
    using assms k by (auto simp: wsStart_def Let_def update_other dest!: u split: sum.splits option.splits prod.splits)
  show "tfind wr_ID (ww_rows (snd (wsStop env t a adm k w))) id0 = tfind wr_ID (ww_rows w) id0"
    using k by (auto simp: wsStop_def Let_def dest!: u split: sum.splits option.splits prod.splits)
qed

lemma ReconcileOne_stopping:
  assumes "tfind wr_ID (ww_rows w) id0 = Some ws" and "wr_ID x \<noteq> id0 \<or> wr_Status x = WsStopping"
  shows "tfind wr_ID (ww_rows (wsReconcileOne st u now x w)) id0 = Some ws"
  using assms by (auto simp: wsReconcileOne_def Let_def update_other split: prod.splits)

lemma ReconcileLoop_stopping:
  assumes "tfind wr_ID (ww_rows w) id0 = Some ws"
    and "list_all (\<lambda>x. wr_ID x \<noteq> id0 \<or> wr_Status x = WsStopping) l"
  shows "tfind wr_ID (ww_rows (wsReconcileLoop c st u now i l w)) id0 = Some ws"
  using assms by (induction l arbitrary: i w) (auto simp: ReconcileOne_stopping)

lemma reclaimLoop_other:
  assumes "list_all (\<lambda>x. wr_ID x \<noteq> id0) l"
  shows "tfind wr_ID (ww_rows (snd (reclaimLoop c ac u now i l acc w))) id0 = tfind wr_ID (ww_rows w) id0"
  using assms
proof (induction l arbitrary: i acc w)
  case (Cons x l)
  have ne: "id0 \<noteq> wr_ID x" using Cons.prems by auto
  obtain e w2 where up: "UpdateWorkspace (u (wr_ID x)) now (x\<lparr>wr_Status := WsStopping\<rparr>)
      (w\<lparr>ww_calls := ww_calls w @ [CallDeprovision (wr_ID x)]\<rparr>) = (e, w2)" by fastforce
  have "tfind wr_ID (ww_rows w2) id0 = tfind wr_ID (ww_rows w) id0"
    using update_other [of id0 "x\<lparr>wr_Status := WsStopping\<rparr>" "u (wr_ID x)" now
        "w\<lparr>ww_calls := ww_calls w @ [CallDeprovision (wr_ID x)]\<rparr>"] ne up by simp
  then show ?case using Cons ne
    by (auto simp: Let_def up touch_other split: sum.splits option.splits)
qed simp

fun lifecycleOp :: "WsOp \<Rightarrow> bool" where
  "lifecycleOp (OpCreate _ _ _) = False"
| "lifecycleOp (OpDelete _ _ _ _ _) = False"
| "lifecycleOp _ = True"

lemma row_of_id:
  assumes "tunique wr_ID rows" and "tfind wr_ID rows id0 = Some ws" and "x \<in> set rows"
  shows "wr_ID x \<noteq> id0 \<or> x = ws"
  using tfind_unique [OF assms(1,3)] assms(2) by auto

lemma stopping_stuck_step:
  assumes "tunique wr_ID (ww_rows w)" and "tfind wr_ID (ww_rows w) id0 = Some ws"
    and "wr_Status ws = WsStopping" and "lifecycleOp op"
  shows "tfind wr_ID (ww_rows (wsOp op w)) id0 = Some ws"
proof (cases op)
  case (OpStart env t a adm k)
  then show ?thesis using other_status_frame(1) [OF assms(2,3)] start_stop_other(1) [of id0 k] assms(2)
    by (cases "id0 = k") auto
next
  case (OpStop env t a adm k)
  then show ?thesis using other_status_frame(2) [OF assms(2,3)] start_stop_other(2) [of id0 k] assms(2)
    by (cases "id0 = k") auto
next
  case (OpReconcile c e st u now)
  have "list_all (\<lambda>x. wr_ID x \<noteq> id0 \<or> wr_Status x = WsStopping) (ListAllWorkspaces w)"
    using row_of_id [OF assms(1,2)] assms(3) by (auto simp: ListAllWorkspaces_def list_all_iff dest: in_set_takeD)
  then show ?thesis using OpReconcile assms(2)
    by (auto simp: wsReconcile_def ReconcileLoop_stopping split: option.splits)
next
  case (OpReclaim c e ac u now)
  have l: "list_all (\<lambda>x. wr_ID x \<noteq> id0) (ListReclaimable now w)"
    using row_of_id [OF assms(1,2)] assms(3) by (auto simp: ListReclaimable_def list_all_iff)
  show ?thesis using OpReclaim assms(2) reclaimLoop_other [OF l, of c ac u now 0 "[]" w]
    by (auto simp: ReclaimIdle_def split: option.splits prod.splits)
qed (use assms(4) in auto)

text \<open>Only these operations write rows, and they keep the ids unique.\<close>

lemma lifecycleOp_unique:
  assumes "world_ok w" and "lifecycleOp op"
  shows "world_ok (wsOp op w)"
  using wsOp_keeps [OF assms(1), of op] assms(2) by (cases op) (auto simp: keeps_def)

text \<open>C7: A reclaimed workspace never comes to rest.  Reclaim puts a workspace into the status stopping, and
  from there no start, stop, reconcile or reclaim, in any number and order and with any outcome of the
  probes, changes its row any more: start and stop refuse it and the reconcile pass has no case for it,
  so that the transition to stopped of the status machine is never taken.\<close>
theorem reclaimed_workspace_stuck:
  assumes "world_ok w" and "tfind wr_ID (ww_rows w) id0 = Some ws" and "wr_Status ws = WsStopping"
    and "list_all lifecycleOp ops"
  shows "tfind wr_ID (ww_rows (runWsOps ops w)) id0 = Some ws
    \<and> fst (wsStart env t a adm id0 (runWsOps ops w)) \<noteq> None \<and> fst (wsStop env t a adm id0 (runWsOps ops w)) \<noteq> None"
proof -
  have "tfind wr_ID (ww_rows (runWsOps ops w)) id0 = Some ws"
    using assms
  proof (induction ops arbitrary: w)
    case (Cons op ops)
    then show ?case
      using stopping_stuck_step [of w id0 ws op] lifecycleOp_unique [of w op]
      by (simp add: runWsOps_def world_ok_def rows_ok_def)
  qed (simp add: runWsOps_def)
  then show ?thesis using other_status_frame(3,4) [OF _ assms(3)] by blast
qed

definition idleRow :: WsRow where
  "idleRow = demoRow\<lparr>wr_ID := ''ws-1'', wr_Status := WsRunning, wr_IdleTimeout := 10, wr_LastActiveAt := Some 50\<rparr>"

definition idleWorld :: WsWorld where
  "idleWorld = \<lparr>ww_rows = [idleRow], ww_quotas = [], ww_calls = []\<rparr>"

definition reclaimedWorld :: WsWorld where
  "reclaimedWorld = snd (ReclaimIdle (\<lambda>_. False) None (\<lambda>_. Inr False) (\<lambda>_. None) 100 idleWorld)"

lemma reclaimed_workspace_stuck_witness:
  "map_option wr_Status (tfind wr_ID (ww_rows (runWsOps
     [OpReconcile (\<lambda>_. False) None (\<lambda>_. (False, False, False)) (\<lambda>_. None) 200,
      OpStart demoEnv ''acme'' ''u'' True ''ws-1''] reclaimedWorld)) ''ws-1'') = Some WsStopping"
proof -
  let ?ws = "idleRow\<lparr>wr_Status := WsStopping, wr_UpdatedAt := 100\<rparr>"
  have w: "reclaimedWorld = \<lparr>ww_rows = [?ws], ww_quotas = [], ww_calls = [CallDeprovision ''ws-1'']\<rparr>"
    by (simp add: reclaimedWorld_def ReclaimIdle_def idleWorld_def ListReclaimable_def idleRow_def demoRow_def
        in_i64_def UpdateWorkspace_def tupsert_def)
  have "memOf ?ws = 16" using memOf_demoRow by (simp add: memOf_def idleRow_def)
  then have "world_ok reclaimedWorld"
    by (simp add: w world_ok_def ledger_ok_def rows_ok_def slack_def quotaUsage_def tunique_def amount_def idleRow_def demoRow_def)
  moreover have "tfind wr_ID (ww_rows reclaimedWorld) ''ws-1'' = Some ?ws" "wr_Status ?ws = WsStopping"
    by (simp_all add: w idleRow_def)
  ultimately show ?thesis
    using reclaimed_workspace_stuck [of reclaimedWorld "''ws-1''" ?ws
        "[OpReconcile (\<lambda>_. False) None (\<lambda>_. (False, False, False)) (\<lambda>_. None) 200,
          OpStart demoEnv ''acme'' ''u'' True ''ws-1'']"] by simp
qed

end
