(* ===== verification/QuotaWiring.thy ===== *)
theory QuotaWiring
  imports EventBus WorkspaceService JobService
begin

text \<open>
  What the start-up subscribes to the event bus (\<^verbatim>\<open>bootstrap/bootstrap.go\<close>,
  \<^verbatim>\<open>subscribeDownstream\<close>) as far as it changes the quota ledger, and what that does to the
  reservations of the services.  Telemetry, notifications and the audit log are left out.
\<close>

section \<open>Subscriptions\<close>

record WireEnv =
  wi_perm :: "Quota list \<Rightarrow> Quota list"
  wi_now :: time
  wi_listErr :: "StoreError option"
  wi_jobsErr :: "StoreError option"
  wi_upErr :: "string \<Rightarrow> StoreError option"
  wi_rows :: "JobRow list"

definition runReconcile :: "WireEnv \<Rightarrow> quota_db \<Rightarrow> quota_db" where
  "runReconcile env = Reconcile (wi_perm env) (wi_now env) (wi_listErr env)
     (GetActiveJobs (wi_jobsErr env) (wi_rows env)) (wi_upErr env)"

fun EventType :: "JobMsg \<Rightarrow> string" where
  "EventType (MsgSubmitted _ _ _ _ _) = ''JobSubmitted''"
| "EventType (MsgAssignment _ _ _ _) = ''AssignmentCompleted''"
| "EventType (MsgStateChanged _ _ _ _ _) = ''JobStateChanged''"

text \<open>Each subscription asserts the type of its event and returns when it is another one.\<close>

fun onSubmitted :: "WireEnv \<Rightarrow> JobMsg \<Rightarrow> quota_db \<Rightarrow> quota_db" where
  "onSubmitted env (MsgSubmitted _ _ _ _ _) db = runReconcile env db"
| "onSubmitted env _ db = db"

fun onAssigned :: "WireEnv \<Rightarrow> JobMsg \<Rightarrow> quota_db \<Rightarrow> quota_db" where
  "onAssigned env (MsgAssignment _ _ _ _) db = runReconcile env db"
| "onAssigned env _ db = db"

fun onJobState :: "WireEnv \<Rightarrow> JobMsg \<Rightarrow> quota_db \<Rightarrow> quota_db" where
  "onJobState env (MsgStateChanged _ _ _ _ terminal) db = (if terminal then runReconcile env db else db)"
| "onJobState env _ db = db"

definition subscribeDownstream :: "WireEnv \<Rightarrow> (JobMsg, quota_db) Bus \<Rightarrow> (JobMsg, quota_db) Bus" where
  "subscribeDownstream env b =
     Subscribe ''JobStateChanged'' (onJobState env)
       (Subscribe ''AssignmentCompleted'' (onAssigned env)
         (Subscribe ''JobSubmitted'' (onSubmitted env) b))"

definition serverBus :: "WireEnv \<Rightarrow> (JobMsg, quota_db) Bus" where
  "serverBus env = subscribeDownstream env (NewBus 1024 8)"

text \<open>The events after which the ledger is counted again.\<close>

fun recounts :: "JobMsg \<Rightarrow> bool" where
  "recounts (MsgStateChanged _ _ _ _ terminal) = terminal"
| "recounts _ = True"

lemma dispatch_wired:
  "busDispatch EventType (serverBus env) e db = (if recounts e then runReconcile env db else db)"
  by (cases e) (simp_all add: busDispatch_def serverBus_def subscribeDownstream_def Subscribe_def NewBus_def)

section \<open>What a recount leaves\<close>

lemma usageOf_byPriority: "usageOf f t (byPriority jobs) = usageOf f t jobs"
proof -
  have "mset (map f (filter P (byPriority jobs))) = mset (map f (filter P jobs))" for P
    by (simp add: byPriority_def mset_filter)
  then show ?thesis unfolding usageOf_def by (metis sum_mset_sum_list)
qed

lemma usageOf_active:
  "usageOf f t (filter (\<lambda>j. jr_Status j \<notin> {JobStatusCompleted, JobStatusFailed, JobStatusCancelled}) jobs) = usageOf f t jobs"
  by (induction jobs) (auto simp: jrIsTerminal_def IsTerminal_iff)

text \<open>Without faults the row of a tenant after a recount holds the totals of its active jobs.\<close>

lemma runReconcile_usage:
  assumes "tunique q_TenantID db" and "ownIds db" and "\<And>xs. mset (wi_perm env xs) = mset xs"
    and "wi_listErr env = None" "wi_jobsErr env = None" "wi_upErr env = (\<lambda>_. None)"
    and "tfind q_TenantID db t = Some q"
  shows "tfind q_TenantID (runReconcile env db) t =
    Some (upserted (wi_now env) (recount t (wi_rows env) (resetUsage q)))"
proof -
  let ?a = "filter (\<lambda>j. jr_Status j \<notin> {JobStatusCompleted, JobStatusFailed, JobStatusCancelled}) (wi_rows env)"
  have "recount t (byPriority ?a) = recount t (wi_rows env)"
    unfolding recount_def usageOf_byPriority usageOf_active ..
  then show ?thesis
    using Reconcile_find [OF assms(1-3), of "wi_now env" "byPriority ?a" t] assms(4-7)
    by (simp add: runReconcile_def GetActiveJobs_def)
qed

lemma quotaUsage_recount:
  assumes "tfind q_TenantID db t = Some (upserted now (recount t rows (resetUsage q)))"
  shows "quotaUsage db t =
    Some (i64 (usageOf jrTotalGPUs t rows), i64 (usageOf jrTotalMemory t rows), i64 (usageOf (\<lambda>_. 1) t rows))"
  using assms by (simp add: quotaUsage_def upserted_def recount_def bump_def resetUsage_def emptyQuota_def)

lemma reserve_ownIds:
  assumes "CheckAndReserve fault now t g m j db = (None, db')" and "ownIds db"
  shows "ownIds db'"
proof -
  have "reserveBody now t g m j db = (None, db')" using assms(1) unfolding CheckAndReserve_def by (rule retryTx_ok)
  then show ?thesis using assms(2)
    by (auto simp: reserveBody_def ownIds_def list_all_iff Let_def dest!: tsave_set dest: tfind_mem split: option.splits if_splits)
qed

section \<open>Properties\<close>

text \<open>C14: A job event wipes out what a workspace has reserved.  Once a reservation of a tenant without active jobs
  has succeeded - the reservations of workspaces are of this kind - any event that is wired to the recount
  sets the usage of the tenant to zero, although nothing was released, and the same reservation succeeds again.\<close>
theorem job_event_erases_reservation:
  assumes "ledger_ok db" and "ownIds db" and "amount g" "amount m" "amount j"
    and "CheckAndReserve fault now t g m j db = (None, db1)"
    and "filter (\<lambda>r. \<not> jrIsTerminal r \<and> jr_TenantID r = t) (wi_rows env) = []"
    and "\<And>xs. mset (wi_perm env xs) = mset xs"
    and "wi_listErr env = None" "wi_jobsErr env = None" "wi_upErr env = (\<lambda>_. None)" and "recounts e"
  shows "quotaUsage (busDispatch EventType (serverBus env) e db1) t = Some (0, 0, 0)
    \<and> fst (CheckAndReserve (\<lambda>_. None) now' t g m j (busDispatch EventType (serverBus env) e db1)) = None"
proof -
  let ?db2 = "runReconcile env db1"
  have body: "reserveBody now t g m j db = (None, db1)" using assms(6) unfolding CheckAndReserve_def by (rule retryTx_ok)
  obtain q where q: "tfind q_TenantID db t = Some q" "ledger_row_ok q" "q_GPUUsed q + g \<le> q_GPUQuota q"
      "q_MemoryUsedGB q + m \<le> q_MemoryQuotaGB q" "q_JobUsed q + j \<le> q_JobQuota q"
      "db1 = tsave q_TenantID (q\<lparr>q_GPUUsed := q_GPUUsed q + g, q_MemoryUsedGB := q_MemoryUsedGB q + m,
           q_JobUsed := q_JobUsed q + j, q_UpdatedAt := now\<rparr>) db"
    using reserveBody_ok [OF body assms(1,3-5)] by metis
  define q1 where "q1 = q\<lparr>q_GPUUsed := q_GPUUsed q + g, q_MemoryUsedGB := q_MemoryUsedGB q + m,
           q_JobUsed := q_JobUsed q + j, q_UpdatedAt := now\<rparr>"
  have own: "ownIds db1" by (rule reserve_ownIds [OF assms(6,2)])
  have "ledger_ok db1" using ql.reserve_ok [OF assms(1,3-6)] by simp
  then have uniq: "tunique q_TenantID db1" by (simp add: ledger_ok_def)
  have q1: "tfind q_TenantID db1 t = Some q1"
    using q tfind_key [OF q(1)] by (simp add: tfind_tsave q1_def)
  have none: "usageOf f t (wi_rows env) = 0" for f using assms(7) by (simp add: usageOf_def)
  note row = runReconcile_usage [OF uniq own assms(8-11) q1]
  then have z: "tfind q_TenantID ?db2 t = Some (upserted (wi_now env) (resetUsage q1))"
    by (simp add: recount_def none bump_zero)
  have "fst (reserveBody now' t g m j ?db2) = None"
    using q(2-5) assms(3-5)
    by (simp add: reserveBody_def z upserted_def resetUsage_def emptyQuota_def q1_def i64_add_amount [of 0, simplified]
        ledger_row_ok_def)
  then have "fst (CheckAndReserve (\<lambda>_. None) now' t g m j ?db2) = None"
    unfolding CheckAndReserve_def
    by (cases "reserveBody now' t g m j ?db2") (simp add: retryTx_no_fault [of "\<lambda>_. None", OF refl])
  then show ?thesis
    using quotaUsage_recount [OF row] assms(12) none by (simp add: dispatch_wired in_i64_def)
qed

definition demoWire :: "JobRow list \<Rightarrow> WireEnv" where
  "demoWire rows = \<lparr>wi_perm = rev, wi_now = 9, wi_listErr = None, wi_jobsErr = None, wi_upErr = \<lambda>_. None, wi_rows = rows\<rparr>"

lemma job_event_erases_reservation_witness:
  "\<exists>db1. CheckAndReserve (\<lambda>_. None) 1 ''acme'' 6 32 1 [demoQuota] = (None, db1)
    \<and> quotaUsage db1 ''acme'' = Some (6, 32, 1)
    \<and> quotaUsage (busDispatch EventType (serverBus (demoWire [])) (MsgAssignment ''j'' ''c'' 1 1) db1) ''acme'' = Some (0, 0, 0)"
proof -
  let ?q = "demoQuota\<lparr>q_GPUUsed := 6, q_MemoryUsedGB := 32, q_JobUsed := 1, q_UpdatedAt := 1\<rparr>"
  have g: "ledger_ok [demoQuota]" "ownIds [demoQuota]"
    by (simp_all add: ledger_ok_def demoQuota_def emptyQuota_def ledger_row_ok_def tunique_def ownIds_def)
  have r: "CheckAndReserve (\<lambda>_. None) 1 ''acme'' 6 32 1 [demoQuota] = (None, [?q])"
    unfolding CheckAndReserve_def
    by (rule retryTx_no_fault) (simp_all add: reserveBody_def demoQuota_def emptyQuota_def in_i64_def)
  have u: "quotaUsage [?q] ''acme'' = Some (6, 32, 1)" by (simp add: quotaUsage_def demoQuota_def emptyQuota_def)
  have "quotaUsage (busDispatch EventType (serverBus (demoWire [])) (MsgAssignment ''j'' ''c'' 1 1) [?q]) ''acme'' = Some (0, 0, 0)"
    using job_event_erases_reservation [OF g _ _ _ r, where env = "demoWire []" and e = "MsgAssignment ''j'' ''c'' 1 1"]
    by (simp add: amount_def demoWire_def)
  then show ?thesis using r u by blast
qed

text \<open>A cancelled training job is given back twice.  The cancellation publishes a terminal event before the
  training service releases the reservation of the job; when the recount comes first it already counts the
  job no longer, and the release then takes its share from the jobs that remain.\<close>
theorem release_after_event_undercounts:
  assumes "tunique q_TenantID db" and "ownIds db" and "\<And>xs. mset (wi_perm env xs) = mset xs"
    and "wi_listErr env = None" "wi_jobsErr env = None" "wi_upErr env = (\<lambda>_. None)"
    and "tfind q_TenantID db t = Some q" and "recounts e" and "fault 0 = None"
    and "A = usageOf jrTotalGPUs t (wi_rows env)" "B = usageOf jrTotalMemory t (wi_rows env)"
      "N = usageOf (\<lambda>_. 1) t (wi_rows env)"
    and "amount A" "amount B" "amount N" "amount g" "amount m" "amount j"
  shows "quotaUsage (busDispatch EventType (serverBus env) e db) t = Some (A, B, N)
    \<and> quotaUsage (snd (Release fault now t g m j (busDispatch EventType (serverBus env) e db))) t =
        Some (max 0 (A - g), max 0 (B - m), max 0 (N - j))"
proof -
  let ?db2 = "runReconcile env db"
  let ?q2 = "upserted (wi_now env) (recount t (wi_rows env) (resetUsage q))"
  have u: "tfind q_TenantID ?db2 t = Some ?q2" by (rule runReconcile_usage [OF assms(1-7)])
  have i: "i64 A = A" "i64 B = B" "i64 N = N" "i64 (A - g) = A - g" "i64 (B - m) = B - m" "i64 (N - j) = N - j"
    using assms(13-18) by (simp_all add: amount_def in_i64_def)
  have q2: "q_GPUUsed ?q2 = A" "q_MemoryUsedGB ?q2 = B" "q_JobUsed ?q2 = N" "q_TenantID ?q2 = t"
    using i tfind_key [OF u] assms(10-12) by (simp_all add: upserted_def recount_def bump_def resetUsage_def emptyQuota_def)
  define r where "r = ?q2\<lparr>q_GPUUsed := max 0 (A - g), q_MemoryUsedGB := max 0 (B - m), q_JobUsed := max 0 (N - j), q_UpdatedAt := now\<rparr>"
  have "releaseBody now t g m j ?db2 = (None, tsave q_TenantID r ?db2)"
    unfolding releaseBody_def u option.case q2 i r_def ..
  then have "snd (Release fault now t g m j ?db2) = tsave q_TenantID r ?db2"
    unfolding Release_def by (simp add: retryTx_no_fault [of fault, OF assms(9)])
  then show ?thesis
    using u q2 assms(8) by (simp add: dispatch_wired quotaUsage_def tfind_tsave r_def)
qed

lemma release_after_event_undercounts_witness:
  "quotaUsage (snd (Release (\<lambda>_. None) 9 ''acme'' 4 0 1 (busDispatch EventType
      (serverBus (demoWire [emptyJobRow\<lparr>jr_TenantID := ''acme'', jr_Status := JobStatusRunning, jr_GPUs := 4\<rparr>]))
      (MsgStateChanged ''j'' ''c'' JobStatusCancelled ''acme'' True) [demoQuota]))) ''acme'' = Some (0, 0, 0)"
proof -
  let ?rows = "[emptyJobRow\<lparr>jr_TenantID := ''acme'', jr_Status := JobStatusRunning, jr_GPUs := 4\<rparr>]"
  have "usageOf jrTotalGPUs ''acme'' ?rows = 4" "usageOf jrTotalMemory ''acme'' ?rows = 0" "usageOf (\<lambda>_. 1) ''acme'' ?rows = 1"
    by (simp_all add: emptyJobRow_def jrIsTerminal_def jrTotalGPUs_def jrTotalMemory_def jrEffectiveReplicas_def in_i64_def)
  then show ?thesis
    using release_after_event_undercounts [of "[demoQuota]" "demoWire ?rows" "''acme''" demoQuota
        "MsgStateChanged ''j'' ''c'' JobStatusCancelled ''acme'' True" "\<lambda>_. None" 4 0 1 4 0 1 9]
    by (simp add: demoWire_def amount_def tunique_def ownIds_def demoQuota_def emptyQuota_def)
qed
end
