(* ===== verification/LlmRag.thy ===== *)
theory LlmRag
  imports LlmChat
begin

text \<open>
  \<^verbatim>\<open>domain/llm/rag.go\<close>: splitting a document into overlapping segments, ranking hits, the terms of
  a keyword search and the context handed to a model.  Positions and lengths of a text are natural
  numbers: a text fits in memory, so no sum of two of them leaves 64 bits.  \<^verbatim>\<open>strings.ToLower\<close> on the whole of
  Unicode is an argument, and so is floating-point arithmetic.
\<close>

section \<open>Texts of errors\<close>

fun llmText :: "LlmError \<Rightarrow> string" where
  "llmText ErrNoMessages = ''llm: messages must not be empty''"
| "llmText ErrInvalidRole = ''llm: invalid message role''"
| "llmText ErrEmptyModel = ''llm: model must not be empty''"
| "llmText ErrInvalidTemperature = ''llm: temperature must be within [0,2]''"
| "llmText ErrInvalidTopP = ''llm: top_p must be within (0,1]''"
| "llmText ErrInvalidMaxTokens = ''llm: max_tokens must not be negative''"
| "llmText ErrEmptyTemplate = ''llm: template content must not be empty''"
| "llmText ErrMissingVariable = ''llm: missing required template variable''"
| "llmText ErrUnclosedPlaceholder = ''llm: unclosed template placeholder''"
| "llmText ErrNoVersion = ''llm: prompt has no version''"
| "llmText ErrVersionNotFound = ''llm: prompt version not found''"
| "llmText ErrInvalidWeight = ''llm: variant weight must be positive''"
| "llmText ErrNoBackend = ''llm: no backend configured for model''"
| "llmText ErrNoHealthyBackend = ''llm: no healthy backend available''"
| "llmText ErrModelNotFound = ''llm: model not found in route table''"
| "llmText ErrEmptyDocument = ''llm: document content must not be empty''"
| "llmText ErrInvalidChunkSize = ''llm: chunk size must be positive''"
| "llmText ErrInvalidOverlap = ''llm: chunk overlap must be non-negative and less than size''"
| "llmText ErrDimensionMismatch = ''llm: vector dimension mismatch''"

section \<open>Splitting\<close>

record Segment =
  sg_Index :: int
  sg_Content :: string
  sg_Start :: int

record ChunkOptions =
  co_Size :: int
  co_Overlap :: int
  co_Separators :: "string list"

definition DefaultChunkOptions :: ChunkOptions where
  "DefaultChunkOptions = \<lparr>co_Size = 512, co_Overlap = 64,
     co_Separators = [[CHR 0x0A, CHR 0x0A], [CHR 0x0A], encode1 0x3002, ''. '', encode1 0xFF01, encode1 0xFF1F,
       encode1 0xFF1B, '' '']\<rparr>"

definition ChunkValidate :: "ChunkOptions \<Rightarrow> LlmError option" where
  "ChunkValidate opt =
     (if co_Size opt \<le> 0 then Some ErrInvalidChunkSize
      else if co_Overlap opt < 0 \<or> co_Size opt \<le> co_Overlap opt then Some ErrInvalidOverlap
      else None)"

primrec cutAt :: "string \<Rightarrow> nat \<Rightarrow> nat \<Rightarrow> nat \<Rightarrow> string list \<Rightarrow> nat" where
  "cutAt window start lower end' [] = end'"
| "cutAt window start lower end' (sep # seps) =
     (if sep = [] then cutAt window start lower end' seps
      else case lastIndexOf window sep of
        None \<Rightarrow> cutAt window start lower end' seps
      | Some idx \<Rightarrow>
          let cut = start + length (runes (take (idx + length sep) window)) in
          if lower < cut \<and> cut < end' then cut else cutAt window start lower end' seps)"

definition findCut :: "nat list \<Rightarrow> nat \<Rightarrow> nat \<Rightarrow> ChunkOptions \<Rightarrow> nat" where
  "findCut rs start end' opt =
     (let lower = start + nat (co_Size opt) div 2;
          lower = (if lower \<le> start then start + 1 else lower);
          window = encode (take (end' - start) (drop start rs)) in
      cutAt window start lower end' (co_Separators opt))"

lemma cutAt_bounds: "cutAt window start lower end' seps = end'
    \<or> lower < cutAt window start lower end' seps \<and> cutAt window start lower end' seps < end'"
  by (induction seps) (auto simp: Let_def split: option.split)

lemma findCut_bounds:
  assumes "start < end'"
  shows "start < findCut rs start end' opt" and "findCut rs start end' opt \<le> end'"
proof -
  define lower where "lower = (if start + nat (co_Size opt) div 2 \<le> start then start + 1 else start + nat (co_Size opt) div 2)"
  have "start \<le> lower" by (simp add: lower_def)
  moreover have "findCut rs start end' opt =
      cutAt (encode (take (end' - start) (drop start rs))) start lower end' (co_Separators opt)"
    by (simp add: findCut_def Let_def lower_def)
  ultimately show "start < findCut rs start end' opt" and "findCut rs start end' opt \<le> end'"
    using assms cutAt_bounds [of _ start lower end' "co_Separators opt"] by (metis le_less_trans, metis order.order_iff_strict)
qed

text \<open>The start of the next segment; \<^term>\<open>size\<close> is positive.\<close>

definition nextStart :: "nat \<Rightarrow> nat \<Rightarrow> int \<Rightarrow> nat" where
  "nextStart start c overlap = (if int c - overlap \<le> int start then c else nat (int c - overlap))"

function splitLoop :: "nat list \<Rightarrow> ChunkOptions \<Rightarrow> nat \<Rightarrow> Segment list \<Rightarrow> Segment list" where
  "splitLoop rs opt start segs =
     (if \<not> start < length rs \<or> co_Size opt \<le> 0 then segs
      else
        let end' = start + nat (co_Size opt) in
        if length rs \<le> end'
        then segs @ [\<lparr>sg_Index = int (length segs), sg_Content = encode (drop start rs), sg_Start = int start\<rparr>]
        else
          let cut = findCut rs start end' opt in
          splitLoop rs opt (nextStart start cut (co_Overlap opt))
            (segs @ [\<lparr>sg_Index = int (length segs), sg_Content = encode (take (cut - start) (drop start rs)),
                      sg_Start = int start\<rparr>]))"
  by pat_completeness auto
termination
proof (relation "measure (\<lambda>(rs, opt, start, segs). length rs - start)", goal_cases)
  case (2 rs opt start segs end' cut)
  have "start < end'" using 2 by simp
  from findCut_bounds(1) [OF this] have "start < nextStart start cut (co_Overlap opt)"
    using 2 by (auto simp: nextStart_def)
  then show ?case using 2 by simp
qed simp

declare splitLoop.simps [simp del]

definition SplitText :: "string \<Rightarrow> ChunkOptions \<Rightarrow> LlmError + Segment list" where
  "SplitText text opt =
     (if TrimSpace text = [] then Inl ErrEmptyDocument
      else case ChunkValidate opt of
        Some e \<Rightarrow> Inl e
      | None \<Rightarrow>
          let rs = runes text in
          if int (length rs) \<le> co_Size opt then Inr [\<lparr>sg_Index = 0, sg_Content = text, sg_Start = 0\<rparr>]
          else Inr (splitLoop rs opt 0 []))"

section \<open>Ranking\<close>

record ScoredSegment =
  ss_DocumentID :: string
  ss_Title :: string
  ss_Segment :: Segment
  ss_Score :: f64

definition rankBefore :: "ScoredSegment \<Rightarrow> ScoredSegment \<Rightarrow> bool" where
  "rankBefore a b =
     (if \<not> feq (ss_Score a) (ss_Score b) then flt (ss_Score b) (ss_Score a)
      else if ss_DocumentID a \<noteq> ss_DocumentID b then ss_DocumentID a < ss_DocumentID b
      else sg_Index (ss_Segment a) < sg_Index (ss_Segment b))"

text \<open>\<^verbatim>\<open>sort.SliceStable\<close>: insertion that goes past what must not come later.  It is what Go
  computes whenever the comparison is a strict weak order, which here means that no score is NaN.\<close>

primrec insertBy :: "('a \<Rightarrow> 'a \<Rightarrow> bool) \<Rightarrow> 'a \<Rightarrow> 'a list \<Rightarrow> 'a list" where
  "insertBy lt x [] = [x]"
| "insertBy lt x (y # ys) = (if lt y x then y # insertBy lt x ys else x # y # ys)"

definition sortStable :: "('a \<Rightarrow> 'a \<Rightarrow> bool) \<Rightarrow> 'a list \<Rightarrow> 'a list" where
  "sortStable lt xs = foldr (insertBy lt) xs []"

definition RankByScore :: "ScoredSegment list \<Rightarrow> ScoredSegment list" where
  "RankByScore = sortStable rankBefore"

definition TopK :: "ScoredSegment list \<Rightarrow> int \<Rightarrow> ScoredSegment list" where
  "TopK hits k = (if k \<le> 0 \<or> int (length hits) \<le> k then hits else take (nat k) hits)"

section \<open>Keywords\<close>

definition isWordRune :: "nat \<Rightarrow> bool" where
  "isWordRune r = ((0x61 \<le> r \<and> r \<le> 0x7A) \<or> (0x41 \<le> r \<and> r \<le> 0x5A) \<or> (0x30 \<le> r \<and> r \<le> 0x39))"

fun bigrams :: "nat list \<Rightarrow> string list" where
  "bigrams (a # b # rs) = encode [a, b] # bigrams (b # rs)"
| "bigrams _ = []"

definition flushLatin :: "string \<Rightarrow> string list" where
  "flushLatin latin = (if latin = [] then [] else [latin])"

definition flushCJK :: "nat list \<Rightarrow> string list" where
  "flushCJK cjk = (if length cjk = 1 then [encode cjk] else bigrams cjk)"

text \<open>At most one of the two buffers holds something.\<close>

primrec termLoop :: "string list \<Rightarrow> string \<Rightarrow> nat list \<Rightarrow> nat list \<Rightarrow> string list" where
  "termLoop terms latin cjk [] = terms @ flushLatin latin @ flushCJK cjk"
| "termLoop terms latin cjk (r # rs) =
     (if isCJK r then termLoop (terms @ flushLatin latin) [] (cjk @ [r]) rs
      else if isWordRune r then termLoop (terms @ flushCJK cjk) (latin @ encode1 r) [] rs
      else termLoop (terms @ flushLatin latin @ flushCJK cjk) [] [] rs)"

definition tokenize :: "(string \<Rightarrow> string) \<Rightarrow> string \<Rightarrow> string list" where
  "tokenize lower s = (let s = lower (TrimSpace s) in if s = [] then [] else termLoop [] [] [] (runes s))"

definition KeywordScore :: "(string \<Rightarrow> string) \<Rightarrow> FloatOps \<Rightarrow> string \<Rightarrow> string \<Rightarrow> f64" where
  "KeywordScore lower fo query text =
     (let terms = tokenize lower query in
      if terms = [] then Fin 0
      else fo_div fo (fo_ofInt fo (int (length (filter (\<lambda>t. indexOf (lower text) t \<noteq> None) terms))))
             (fo_ofInt fo (int (length terms))))"

section \<open>Cosine\<close>

definition cosineLoop :: "FloatOps \<Rightarrow> f64 list \<Rightarrow> f64 list \<Rightarrow> f64 \<times> f64 \<times> f64" where
  "cosineLoop fo a b =
     foldl (\<lambda>(dot, na, nb) (x, y). (fo_add fo dot (fo_mul fo x y), fo_add fo na (fo_mul fo x x), fo_add fo nb (fo_mul fo y y)))
       (Fin 0, Fin 0, Fin 0) (zip a b)"

definition CosineSimilarity :: "FloatOps \<Rightarrow> f64 list \<Rightarrow> f64 list \<Rightarrow> LlmError + f64" where
  "CosineSimilarity fo a b =
     (if length a \<noteq> length b then Inl ErrDimensionMismatch
      else if a = [] then Inr (Fin 0)
      else let (dot, na, nb) = cosineLoop fo a b in
        if feq na (Fin 0) \<or> feq nb (Fin 0) then Inr (Fin 0)
        else Inr (fo_div fo dot (fo_mul fo (fo_sqrt fo na) (fo_sqrt fo nb))))"

section \<open>The context\<close>

text \<open>The digits of a number are written backwards into a buffer of 20 bytes; the negation of the least
  integer is itself.\<close>

function digitLoop :: "int \<Rightarrow> string \<Rightarrow> string" where
  "digitLoop n buf = (if 0 < n then digitLoop (n div 10) (char_of (48 + nat (n mod 10)) # buf) else buf)"
  by pat_completeness auto
termination by (relation "measure (\<lambda>(n, buf). nat n)") auto

declare digitLoop.simps [simp del]

definition itoa :: "int \<Rightarrow> string" where
  "itoa n =
     (if n = 0 then ''0''
      else let neg = n < 0; n = (if neg then i64 (- n) else n) in
        (if neg then ''-'' else []) @ digitLoop n [])"

primrec contextLoop :: "nat \<Rightarrow> ScoredSegment list \<Rightarrow> string" where
  "contextLoop i [] = []"
| "contextLoop i (h # hits) =
     (if i > 0 then [CHR 0x0A, CHR 0x0A] else []) @ ''['' @ itoa (int i + 1) @ ''] ''
     @ (if ss_Title h = [] then [] else ss_Title h @ [CHR 0x0A]) @ sg_Content (ss_Segment h) @ contextLoop (Suc i) hits"

definition BuildContext :: "ScoredSegment list \<Rightarrow> string" where
  "BuildContext hits = (if hits = [] then [] else contextLoop 0 hits)"

section \<open>What a split is\<close>

definition piece :: "nat list \<Rightarrow> nat \<Rightarrow> nat \<Rightarrow> nat \<Rightarrow> Segment" where
  "piece rs i s c = \<lparr>sg_Index = int i, sg_Content = encode (take (c - s) (drop s rs)), sg_Start = int s\<rparr>"

text \<open>Segments numbered from \<^term>\<open>i\<close> that cover the runes from position \<^term>\<open>s\<close> to the end: each is at most the
  size long, and the next begins inside it or right after it, further on, sharing at most the overlap.\<close>

inductive pieces :: "nat list \<Rightarrow> nat \<Rightarrow> nat \<Rightarrow> nat \<Rightarrow> nat \<Rightarrow> Segment list \<Rightarrow> bool"
  for rs :: "nat list" and sz overlap :: nat where
  last_piece: "s < length rs \<Longrightarrow> length rs - s \<le> sz \<Longrightarrow> pieces rs sz overlap i s [piece rs i s (length rs)]"
| more_pieces: "s < c \<Longrightarrow> c - s \<le> sz \<Longrightarrow> c < length rs \<Longrightarrow> s < s' \<Longrightarrow> s' \<le> c \<Longrightarrow> c - s' \<le> overlap
    \<Longrightarrow> pieces rs sz overlap (Suc i) s' segs \<Longrightarrow> pieces rs sz overlap i s (piece rs i s c # segs)"

lemma pieces_cover:
  "pieces rs sz overlap i s segs \<Longrightarrow> s \<le> p \<Longrightarrow> p < length rs
    \<Longrightarrow> \<exists>seg\<in>set segs. \<exists>j a c. seg = piece rs j a c \<and> a \<le> p \<and> p < c \<and> c \<le> length rs"
proof (induction rule: pieces.induct)
  case (last_piece s i)
  then show ?case by auto
next
  case (more_pieces s c s' i segs)
  show ?case
  proof (cases "p < c")
    case True
    then show ?thesis using more_pieces.prems more_pieces.hyps
      by (intro bexI [of _ "piece rs i s c"] exI [of _ i] exI [of _ s] exI [of _ c] conjI) auto
  next
    case False
    then have "s' \<le> p" using more_pieces.hyps by simp
    from more_pieces.IH [OF this more_pieces.prems(2)] show ?thesis by auto
  qed
qed

lemma splitLoop_pieces:
  assumes "ChunkValidate opt = None" and "start < length rs"
  shows "\<exists>new. splitLoop rs opt start segs = segs @ new
    \<and> pieces rs (nat (co_Size opt)) (nat (co_Overlap opt)) (length segs) start new"
  using assms
proof (induction rs opt start segs rule: splitLoop.induct)
  case (1 rs opt start segs)
  define n where "n = nat (co_Size opt)"
  have n: "0 < n" "co_Size opt = int n" "0 \<le> co_Overlap opt" "co_Overlap opt < int n"
    using "1.prems"(1) by (auto simp: ChunkValidate_def n_def split: if_splits)
  show ?case
  proof (cases "length rs \<le> start + n")
    case True
    have "splitLoop rs opt start segs = segs @ [piece rs (length segs) start (length rs)]"
      using True n "1.prems"(2) by (subst splitLoop.simps) (simp add: Let_def piece_def)
    moreover have "pieces rs n (nat (co_Overlap opt)) (length segs) start [piece rs (length segs) start (length rs)]"
      using True "1.prems"(2) by (intro last_piece) auto
    ultimately show ?thesis by (auto simp: n_def)
  next
    case False
    define c where "c = findCut rs start (start + n) opt"
    define s' where "s' = nextStart start c (co_Overlap opt)"
    have c: "start < c" "c \<le> start + n" using findCut_bounds [of start "start + n" rs opt] n(1) by (auto simp: c_def)
    have s': "start < s'" "s' \<le> c" "c - s' \<le> nat (co_Overlap opt)"
      using c n(3) by (auto simp: s'_def nextStart_def)
    let ?seg = "piece rs (length segs) start c"
    have step: "splitLoop rs opt start segs = splitLoop rs opt s' (segs @ [?seg])"
      using False n "1.prems"(2)
      by (subst splitLoop.simps) (simp add: Let_def piece_def c_def s'_def)
    have a: "\<not> (\<not> start < length rs \<or> co_Size opt \<le> 0)" and b: "\<not> length rs \<le> start + nat (co_Size opt)"
      and d: "nextStart start (findCut rs start (start + nat (co_Size opt)) opt) (co_Overlap opt) < length rs"
      using False n(1,2) "1.prems"(2) c s' by (simp_all add: n_def [symmetric] c_def [symmetric] s'_def [symmetric])
    have "\<exists>new. splitLoop rs opt s' (segs @ [?seg]) = (segs @ [?seg]) @ new
        \<and> pieces rs (nat (co_Size opt)) (nat (co_Overlap opt)) (length (segs @ [?seg])) s' new"
      using "1.IH" [OF a refl b refl "1.prems"(1) d] unfolding n_def [symmetric] c_def [symmetric] s'_def [symmetric] piece_def .
    then obtain new where new: "splitLoop rs opt s' (segs @ [?seg]) = segs @ ?seg # new"
      "pieces rs n (nat (co_Overlap opt)) (Suc (length segs)) s' new"
      by (auto simp: n_def)
    have "pieces rs n (nat (co_Overlap opt)) (length segs) start (?seg # new)"
      using c s' new(2) False by (intro more_pieces) auto
    then show ?thesis using step new(1) by (auto simp: n_def)
  qed
qed

section \<open>What a stable sort does\<close>

lemma insertBy_mset [simp]: "mset (insertBy lt x ys) = add_mset x (mset ys)"
  by (induction ys) auto

lemma sortStable_mset [simp]: "mset (sortStable lt xs) = mset xs"
  by (induction xs) (auto simp: sortStable_def)

lemma sortStable_set [simp]: "set (sortStable lt xs) = set xs"
  by (metis set_mset_mset sortStable_mset)

lemma sortStable_length [simp]: "length (sortStable lt xs) = length xs"
  by (metis size_mset sortStable_mset)

lemma insertBy_sorted:
  assumes "\<And>a b. a \<in> A \<Longrightarrow> b \<in> A \<Longrightarrow> lt a b \<Longrightarrow> \<not> lt b a"
    and "\<And>a b c. a \<in> A \<Longrightarrow> b \<in> A \<Longrightarrow> c \<in> A \<Longrightarrow> lt a c \<Longrightarrow> lt a b \<or> lt b c"
    and "x \<in> A" "set ys \<subseteq> A" "sorted_wrt (\<lambda>a b. \<not> lt b a) ys"
  shows "sorted_wrt (\<lambda>a b. \<not> lt b a) (insertBy lt x ys)"
  using assms(4,5)
proof (induction ys)
  case (Cons y ys)
  have s: "set (insertBy lt x ys) = insert x (set ys)" by (metis insertBy_mset set_mset_add_mset_insert set_mset_mset)
  show ?case
  proof (cases "lt y x")
    case True
    then show ?thesis using Cons assms(1,3) by (auto simp: s)
  next
    case False
    have "\<not> lt z x" if "z \<in> set ys" for z
      using False assms(2) [of z y x] assms(3) Cons.prems that by auto
    then show ?thesis using False Cons.prems by auto
  qed
qed simp

lemma sortStable_sorted:
  assumes "\<And>a b. a \<in> A \<Longrightarrow> b \<in> A \<Longrightarrow> lt a b \<Longrightarrow> \<not> lt b a"
    and "\<And>a b c. a \<in> A \<Longrightarrow> b \<in> A \<Longrightarrow> c \<in> A \<Longrightarrow> lt a c \<Longrightarrow> lt a b \<or> lt b c"
    and "set xs \<subseteq> A"
  shows "sorted_wrt (\<lambda>a b. \<not> lt b a) (sortStable lt xs)"
  using assms(3)
proof (induction xs)
  case (Cons x xs)
  have "sortStable lt (x # xs) = insertBy lt x (sortStable lt xs)" by (simp add: sortStable_def)
  moreover have "sorted_wrt (\<lambda>a b. \<not> lt b a) (insertBy lt x (sortStable lt xs))"
    using Cons by (intro insertBy_sorted [where A = A] assms) auto
  ultimately show ?case by simp
qed (simp add: sortStable_def)

text \<open>Without NaN the comparison of hits is the order by descending score, document and segment.\<close>

lemma flt_asym: "flt a b \<Longrightarrow> \<not> flt b a"
  by (cases a; cases b) auto

lemma flt_negtrans: "b \<noteq> NaN \<Longrightarrow> flt a c \<Longrightarrow> flt a b \<or> flt b c"
  by (cases a; cases b; cases c) auto

lemma feq_iff: "a \<noteq> NaN \<Longrightarrow> feq a b \<longleftrightarrow> a = b"
  by (cases a) auto

lemma flt_irrefl: "\<not> flt a a"
  by (cases a) auto

lemma flt_total: "a \<noteq> NaN \<Longrightarrow> b \<noteq> NaN \<Longrightarrow> a \<noteq> b \<Longrightarrow> flt a b \<or> flt b a"
  by (cases a; cases b) auto

lemma rankBefore_order:
  fixes a b c :: ScoredSegment
  assumes "ss_Score a \<noteq> NaN" "ss_Score b \<noteq> NaN"
  shows "rankBefore a b \<Longrightarrow> \<not> rankBefore b a"
    and "ss_Score c \<noteq> NaN \<Longrightarrow> rankBefore a c \<Longrightarrow> rankBefore a b \<or> rankBefore b c"
  using assms flt_total [of "ss_Score a" "ss_Score b"] flt_total [of "ss_Score b" "ss_Score c"]
    flt_negtrans [of "ss_Score b" "ss_Score c" "ss_Score a"]
  by (auto simp: rankBefore_def feq_iff flt_irrefl dest: flt_asym split: if_splits)

lemma rank_top:
  assumes "\<forall>h\<in>set hits. ss_Score h \<noteq> NaN" and "a \<in> set (TopK (RankByScore hits) k)"
    and "count (mset (TopK (RankByScore hits) k)) b < count (mset hits) b"
  shows "\<not> rankBefore b a"
proof -
  let ?r = "RankByScore hits" and ?A = "{h. ss_Score h \<noteq> NaN}"
  have srt: "sorted_wrt (\<lambda>a b. \<not> rankBefore b a) ?r"
    unfolding RankByScore_def
    by (rule sortStable_sorted [where A = ?A]) (use assms(1) rankBefore_order in blast)+
  have m: "mset ?r = mset hits" by (simp add: RankByScore_def)
  obtain n where n: "TopK ?r k = take n ?r" by (metis TopK_def order_refl take_all)
  have "mset hits = mset (take n ?r) + mset (drop n ?r)" by (metis append_take_drop_id m mset_append)
  then have "b \<in># mset (drop n ?r)" using assms(3) by (simp add: n)
  then have "b \<in> set (drop n ?r)" by simp
  moreover have "sorted_wrt (\<lambda>a b. \<not> rankBefore b a) (take n ?r @ drop n ?r)" using srt by simp
  ultimately show ?thesis using assms(2) unfolding n sorted_wrt_append by blast
qed

lemma digitLoop_showNat: "0 < n \<Longrightarrow> digitLoop n buf = showNat (nat n) @ buf"
proof (induction n buf rule: digitLoop.induct)
  case (1 n buf)
  show ?case
  proof (cases "0 < n div 10")
    case True
    have "nat n mod 10 = nat (n mod 10)" "nat n div 10 = nat (n div 10)"
      using 1(2) by (simp_all add: nat_mod_distrib nat_div_distrib)
    then show ?thesis using 1 True by (subst digitLoop.simps) (subst showNat.simps, auto)
  next
    case False
    then have "nat n < 10" using 1(2) by linarith
    then show ?thesis using 1(2) False
      by (subst digitLoop.simps) (subst showNat.simps, simp add: digitLoop.simps [of 0] nat_mod_as_int)
  qed
qed

text \<open>The numbers of a context are those of the decimal notation.\<close>

lemma itoa_positive: "0 < n \<Longrightarrow> itoa n = showNat (nat n)"
  by (simp add: itoa_def digitLoop_showNat)

lemma itoa_least: "itoa (- (2 ^ 63)) = ''-''"
  by (simp add: itoa_def i64_def digitLoop.simps)

section \<open>Properties\<close>

text \<open>C15: Splitting ends and loses nothing.  A text is refused exactly when it is blank or the options are invalid; otherwise
  the split ends, a short text stays whole, and a longer one becomes segments, numbered in order, that
  start at its first rune, advance, share at most the overlap with their predecessor, are at most the chunk size
  long, hold exactly the runes of their range, and end at its last rune, so that every rune is in one of them.\<close>
theorem split_text_covers:
  "case SplitText text opt of
     Inl e \<Rightarrow> TrimSpace text = [] \<and> e = ErrEmptyDocument \<or> TrimSpace text \<noteq> [] \<and> ChunkValidate opt = Some e
   | Inr segs \<Rightarrow> TrimSpace text \<noteq> [] \<and> ChunkValidate opt = None
      \<and> (if int (length (runes text)) \<le> co_Size opt
         then segs = [\<lparr>sg_Index = 0, sg_Content = text, sg_Start = 0\<rparr>]
         else pieces (runes text) (nat (co_Size opt)) (nat (co_Overlap opt)) 0 0 segs
          \<and> (\<forall>p. p \<ge> length (runes text) \<or> (\<exists>seg\<in>set segs. \<exists>j a c. seg = piece (runes text) j a c \<and> a \<le> p \<and> p < c)))"
proof (cases "TrimSpace text = [] \<or> ChunkValidate opt \<noteq> None \<or> int (length (runes text)) \<le> co_Size opt")
  case True
  then show ?thesis by (auto simp: SplitText_def Let_def split: option.splits)
next
  case False
  then have v: "ChunkValidate opt = None" "0 < length (runes text)"
    by (auto simp: ChunkValidate_def split: if_splits)
  from splitLoop_pieces [OF v, of "[]"] obtain new where
    new: "splitLoop (runes text) opt 0 [] = new" "pieces (runes text) (nat (co_Size opt)) (nat (co_Overlap opt)) 0 0 new"
    by auto
  moreover have "p \<ge> length (runes text) \<or> (\<exists>seg\<in>set new. \<exists>j a c. seg = piece (runes text) j a c \<and> a \<le> p \<and> p < c)" for p
    using pieces_cover [OF new(2), of p] by (cases "p < length (runes text)") auto
  ultimately show ?thesis using False by (simp add: SplitText_def)
qed
end
