(* ===== verification/KnowledgeStore.thy ===== *)
theory KnowledgeStore
  imports LlmRag
begin

text \<open>
  Where knowledge bases live: the in-memory vector store with its two searches
  (\<^verbatim>\<open>llmgw/memstore.go\<close>) and the rows of bases and documents (\<^verbatim>\<open>storage/llm.go\<close>, from
  \<^verbatim>\<open>CreateBase\<close> to \<^verbatim>\<open>DeleteDocument\<close>).  A collection is the list of its items, unique by identifier; the
  argument \<^verbatim>\<open>perm\<close> is the order in which a search ranges over the Go map.
\<close>

section \<open>The vector store\<close>

record VectorItem =
  vi_ID :: string
  vi_DocumentID :: string
  vi_Title :: string
  vi_Segment :: Segment
  vi_Vector :: "f64 list"

record VectorHit =
  vh_Item :: VectorItem
  vh_Score :: f64

type_synonym vecstore = "string \<Rightarrow> VectorItem list option"

definition VecUpsert :: "string \<Rightarrow> VectorItem list \<Rightarrow> vecstore \<Rightarrow> vecstore" where
  "VecUpsert coll items st =
     st(coll := Some (fold (tupsert vi_ID) items (case st coll of Some c \<Rightarrow> c | None \<Rightarrow> [])))"

definition hitBefore :: "VectorHit \<Rightarrow> VectorHit \<Rightarrow> bool" where
  "hitBefore a b =
     (if \<not> feq (vh_Score a) (vh_Score b) then flt (vh_Score b) (vh_Score a)
      else vi_ID (vh_Item a) < vi_ID (vh_Item b))"

definition limitHits :: "int \<Rightarrow> VectorHit list \<Rightarrow> VectorHit list" where
  "limitHits topK hits = (if 0 < topK \<and> topK < int (length hits) then take (nat topK) hits else hits)"

primrec vectorHits :: "FloatOps \<Rightarrow> f64 list \<Rightarrow> VectorItem list \<Rightarrow> VectorHit list" where
  "vectorHits fo vec [] = []"
| "vectorHits fo vec (it # its) =
     (if vec = [] \<or> vi_Vector it = [] then vectorHits fo vec its
      else case CosineSimilarity fo vec (vi_Vector it) of
        Inl _ \<Rightarrow> vectorHits fo vec its
      | Inr score \<Rightarrow> \<lparr>vh_Item = it, vh_Score = score\<rparr> # vectorHits fo vec its)"

definition VecSearch ::
    "FloatOps \<Rightarrow> (VectorItem list \<Rightarrow> VectorItem list) \<Rightarrow> string \<Rightarrow> f64 list \<Rightarrow> int \<Rightarrow> vecstore \<Rightarrow> VectorHit list" where
  "VecSearch fo perm coll vec topK st =
     (case st coll of
        None \<Rightarrow> []
      | Some c \<Rightarrow> limitHits topK (sortStable hitBefore (vectorHits fo vec (perm c))))"

primrec keywordHits :: "(string \<Rightarrow> string) \<Rightarrow> FloatOps \<Rightarrow> string \<Rightarrow> VectorItem list \<Rightarrow> VectorHit list" where
  "keywordHits lower fo query [] = []"
| "keywordHits lower fo query (it # its) =
     (let score = KeywordScore lower fo query (sg_Content (vi_Segment it)) in
      if fle score (Fin 0) then keywordHits lower fo query its
      else \<lparr>vh_Item = it, vh_Score = score\<rparr> # keywordHits lower fo query its)"

definition VecSearchKeyword ::
    "(string \<Rightarrow> string) \<Rightarrow> FloatOps \<Rightarrow> (VectorItem list \<Rightarrow> VectorItem list) \<Rightarrow> string \<Rightarrow> string \<Rightarrow> int \<Rightarrow> vecstore
      \<Rightarrow> VectorHit list" where
  "VecSearchKeyword lower fo perm coll query topK st =
     (case st coll of
        None \<Rightarrow> []
      | Some c \<Rightarrow> limitHits topK (sortStable hitBefore (keywordHits lower fo query (perm c))))"

definition VecDelete :: "string \<Rightarrow> string \<Rightarrow> vecstore \<Rightarrow> vecstore" where
  "VecDelete coll docID st =
     (case st coll of
        None \<Rightarrow> st
      | Some c \<Rightarrow> st(coll := Some (filter (\<lambda>it. vi_DocumentID it \<noteq> docID) c)))"

definition VecDrop :: "string \<Rightarrow> vecstore \<Rightarrow> vecstore" where
  "VecDrop coll st = st(coll := None)"

definition VecCount :: "string \<Rightarrow> vecstore \<Rightarrow> nat" where
  "VecCount coll st = (case st coll of None \<Rightarrow> 0 | Some c \<Rightarrow> length c)"

text \<open>The reranker that mixes in the keyword score; 0.3 as a float.\<close>

fun fneg :: "f64 \<Rightarrow> f64" where
  "fneg NaN = NaN"
| "fneg PInf = NInf"
| "fneg NInf = PInf"
| "fneg (Fin q) = Fin (- q)"

definition point3 :: f64 where "point3 = Fin (5404319552844595 / 18014398509481984)"

definition KeywordRerank :: "(string \<Rightarrow> string) \<Rightarrow> FloatOps \<Rightarrow> f64 \<Rightarrow> string \<Rightarrow> ScoredSegment list \<Rightarrow> ScoredSegment list" where
  "KeywordRerank lower fo w0 query hits =
     (let w = (if fle w0 (Fin 0) \<or> flt (Fin 1) w0 then point3 else w0) in
      RankByScore (map (\<lambda>h. h\<lparr>ss_Score := fo_add fo (fo_mul fo (ss_Score h) (fo_add fo (Fin 1) (fneg w)))
         (fo_mul fo (KeywordScore lower fo query (sg_Content (ss_Segment h))) w)\<rparr>) hits))"

section \<open>The rows\<close>

datatype KnowError = KnNotFound | KnBaseNotFound | KnEmptyName | KnDb string | KnLlm LlmError | KnVectors string

record KnowledgeBase =
  kb_ID :: string
  kb_Name :: string
  kb_TenantID :: string
  kb_EmbeddingModel :: string
  kb_Dimension :: int
  kb_ChunkSize :: int
  kb_Overlap :: int
  kb_CreatedBy :: string

record KnowledgeDocument =
  kd_ID :: string
  kd_BaseID :: string
  kd_Title :: string
  kd_Source :: string
  kd_Content :: string
  kd_Segments :: int
  kd_Status :: string

text \<open>A row is what it stores and when it was created.\<close>

type_synonym base_db = "(KnowledgeBase \<times> time) list"
type_synonym doc_db = "(KnowledgeDocument \<times> time) list"

definition baseKey :: "KnowledgeBase \<times> time \<Rightarrow> string" where "baseKey r = kb_ID (fst r)"
definition docKey :: "KnowledgeDocument \<times> time \<Rightarrow> string" where "docKey r = kd_ID (fst r)"

text \<open>\<^verbatim>\<open>fault\<close> is a failure of the database at this call, \<^verbatim>\<open>newID\<close> the identifier it generates.\<close>

definition CreateBase ::
    "string option \<Rightarrow> string \<Rightarrow> time \<Rightarrow> KnowledgeBase \<Rightarrow> base_db \<Rightarrow> KnowError option \<times> KnowledgeBase \<times> base_db" where
  "CreateBase fault newID now kb db =
     (let kb = kb\<lparr>kb_ID := newID\<rparr> in
      case fault of
        Some e \<Rightarrow> (Some (KnDb e), kb, db)
      | None \<Rightarrow>
          if tfind baseKey db newID \<noteq> None then (Some (KnDb ''unique constraint''), kb, db)
          else (None, kb, tadd (kb, now) db))"

definition GetBase :: "string option \<Rightarrow> string \<Rightarrow> base_db \<Rightarrow> KnowError + KnowledgeBase" where
  "GetBase fault k db =
     (case fault of
        Some e \<Rightarrow> Inl (KnDb e)
      | None \<Rightarrow> (case tfind baseKey db k of None \<Rightarrow> Inl KnNotFound | Some (kb, _) \<Rightarrow> Inr kb))"

definition ListBases :: "string option \<Rightarrow> string \<Rightarrow> base_db \<Rightarrow> KnowError + KnowledgeBase list" where
  "ListBases fault tenant db =
     (case fault of
        Some e \<Rightarrow> Inl (KnDb e)
      | None \<Rightarrow> Inr (map fst (take defaultListLimit (sort_key (\<lambda>r. - snd r)
          (filter (\<lambda>r. tenant = [] \<or> kb_TenantID (fst r) = tenant) db)))))"

definition DeleteBase :: "string option \<Rightarrow> string \<Rightarrow> base_db \<Rightarrow> doc_db \<Rightarrow> KnowError option \<times> base_db \<times> doc_db" where
  "DeleteBase fault k db docs =
     (case fault of
        Some e \<Rightarrow> (Some (KnDb e), db, docs)
      | None \<Rightarrow>
          if tfind baseKey db k = None then (Some KnNotFound, db, docs)
          else (None, tdelete baseKey k db, filter (\<lambda>r. kd_BaseID (fst r) \<noteq> k) docs))"

definition AddDocument ::
    "string option \<Rightarrow> string \<Rightarrow> time \<Rightarrow> KnowledgeDocument \<Rightarrow> doc_db \<Rightarrow> KnowError option \<times> KnowledgeDocument \<times> doc_db" where
  "AddDocument fault newID now doc docs =
     (let doc = doc\<lparr>kd_ID := newID\<rparr> in
      case fault of
        Some e \<Rightarrow> (Some (KnDb e), doc, docs)
      | None \<Rightarrow>
          if tfind docKey docs newID \<noteq> None then (Some (KnDb ''unique constraint''), doc, docs)
          else (None, doc, tadd (doc, now) docs))"

definition GetDocument :: "string option \<Rightarrow> string \<Rightarrow> doc_db \<Rightarrow> KnowError + KnowledgeDocument" where
  "GetDocument fault k docs =
     (case fault of
        Some e \<Rightarrow> Inl (KnDb e)
      | None \<Rightarrow> (case tfind docKey docs k of None \<Rightarrow> Inl KnNotFound | Some (d, _) \<Rightarrow> Inr d))"

definition ListDocuments :: "string option \<Rightarrow> string \<Rightarrow> doc_db \<Rightarrow> KnowError + KnowledgeDocument list" where
  "ListDocuments fault baseID docs =
     (case fault of
        Some e \<Rightarrow> Inl (KnDb e)
      | None \<Rightarrow> Inr (map fst (take defaultListLimit (sort_key snd (filter (\<lambda>r. kd_BaseID (fst r) = baseID) docs)))))"

definition DeleteDocument :: "string option \<Rightarrow> string \<Rightarrow> doc_db \<Rightarrow> KnowError option \<times> doc_db" where
  "DeleteDocument fault k docs =
     (case fault of
        Some e \<Rightarrow> (Some (KnDb e), docs)
      | None \<Rightarrow> if tfind docKey docs k = None then (Some KnNotFound, docs) else (None, tdelete docKey k docs))"

section \<open>What the store keeps\<close>

lemma fold_tupsert_mem:
  "it \<in> set (fold (tupsert key) items rows) \<Longrightarrow> it \<in> set items \<or> it \<in> set rows"
proof (induction items arbitrary: rows)
  case (Cons x items)
  then have "it \<in> set items \<or> it \<in> set (tupsert key x rows)" by simp
  then show ?case by (auto simp: tupsert_def dest: tsave_set split: if_splits)
qed simp

lemma fold_tupsert_other: "k \<notin> key ` set ys \<Longrightarrow> tfind key (fold (tupsert key) ys rows) k = tfind key rows k"
  by (induction ys arbitrary: rows) (auto simp: tfind_tupsert)

lemma fold_tupsert_distinct:
  assumes "distinct (map key items)" and "it \<in> set items"
  shows "tfind key (fold (tupsert key) items rows) (key it) = Some it"
  using assms
proof (induction items arbitrary: rows)
  case (Cons x items)
  show ?case
  proof (cases "it \<in> set items")
    case True
    then show ?thesis using Cons by simp
  next
    case False
    then have it: "it = x" "key x \<notin> key ` set items" using Cons.prems by auto
    from fold_tupsert_other [OF it(2), of "tupsert key x rows"] show ?thesis by (simp add: it(1) tfind_tupsert)
  qed
qed simp

lemma limitHits_set: "set (limitHits k hits) \<subseteq> set hits"
  by (auto simp: limitHits_def dest: in_set_takeD)

lemma vectorHits_items: "h \<in> set (vectorHits fo vec its) \<Longrightarrow> vh_Item h \<in> set its"
  by (induction its) (auto split: if_splits sum.splits)

lemma keywordHits_items: "h \<in> set (keywordHits lower fo query its) \<Longrightarrow> vh_Item h \<in> set its"
  by (induction its) (auto simp: Let_def split: if_splits)

text \<open>Every hit of a search is an item of the collection it searched.\<close>

lemma VecSearch_items:
  assumes "\<And>xs. set (perm xs) = set xs" and "h \<in> set (VecSearch fo perm coll vec k st)"
  shows "\<exists>c. st coll = Some c \<and> vh_Item h \<in> set c"
  using assms(2) limitHits_set [of k "sortStable hitBefore (vectorHits fo vec (perm (the (st coll))))"]
    vectorHits_items [of h fo vec "perm (the (st coll))"]
  by (cases "st coll") (auto simp: VecSearch_def assms(1))

lemma VecSearchKeyword_items:
  assumes "\<And>xs. set (perm xs) = set xs" and "h \<in> set (VecSearchKeyword lower fo perm coll q k st)"
  shows "\<exists>c. st coll = Some c \<and> vh_Item h \<in> set c"
  using assms(2) limitHits_set [of k "sortStable hitBefore (keywordHits lower fo q (perm (the (st coll))))"]
    keywordHits_items [of h lower fo q "perm (the (st coll))"]
  by (cases "st coll") (auto simp: VecSearchKeyword_def assms(1))

end
