(* ===== verification/ApiAccess.thy ===== *)
theory ApiAccess
  imports Prelude
begin

text \<open>
  Who calls the HTTP interface and for which tenant: the principal of a request
  (\<^verbatim>\<open>auth/auth.go\<close>), the roles (\<^verbatim>\<open>models/auth.go\<close>) and the checks the handlers share
  (\<^verbatim>\<open>api/handler.go\<close>).  A request carries the claims the authentication put there, or none.
\<close>

datatype Role = RolePlatformAdmin | RoleTenantAdmin | RoleDeveloper | RoleViewer | OtherRole string

record Claims =
  cl_UserID :: string
  cl_Username :: string
  cl_Role :: Role
  cl_TenantID :: string

definition DefaultTenantID :: string where "DefaultTenantID = ''default''"

definition SyntheticAdmin :: Claims where
  "SyntheticAdmin = \<lparr>cl_UserID = ''system'', cl_Username = ''system-admin'', cl_Role = RolePlatformAdmin,
     cl_TenantID = DefaultTenantID\<rparr>"

definition principalTenant :: "Claims option \<Rightarrow> string" where
  "principalTenant c =
     (case c of
        Some claims \<Rightarrow> if cl_TenantID claims \<noteq> [] then cl_TenantID claims else DefaultTenantID
      | None \<Rightarrow> DefaultTenantID)"

definition requireWriteTenant :: "Claims option \<Rightarrow> string option" where
  "requireWriteTenant c =
     (case c of
        Some claims \<Rightarrow> if cl_TenantID claims \<noteq> [] then Some (cl_TenantID claims) else None
      | None \<Rightarrow> None)"

definition claimsOf :: "Claims option \<Rightarrow> Claims" where
  "claimsOf c = (case c of Some claims \<Rightarrow> claims | None \<Rightarrow> SyntheticAdmin)"

definition isPlatformAdmin :: "Claims option \<Rightarrow> bool" where
  "isPlatformAdmin c = (cl_Role (claimsOf c) = RolePlatformAdmin)"

definition canAccessTenant :: "string \<Rightarrow> Claims option \<Rightarrow> bool" where
  "canAccessTenant owner c = (isPlatformAdmin c \<or> cl_TenantID (claimsOf c) = owner)"

definition tenantScope :: "Claims option \<Rightarrow> string" where
  "tenantScope c = (if isPlatformAdmin c then [] else principalTenant c)"

text \<open>What a handler answers: a body, a body with a warning, or a status with an error.\<close>

datatype 'a ApiReply = ApiOK 'a | ApiWarn 'a string | ApiFail nat string

end
