(* ===== verification/KnowledgeService.thy ===== *)
theory KnowledgeService
  imports KnowledgeStore ApiAccess
begin

text \<open>
  Knowledge bases from above: the service \<^verbatim>\<open>app/llmgateway/knowledge.go\<close> over a repository, the
  in-memory vector store, an embedder and a reranker, and the HTTP handlers of
  \<^verbatim>\<open>api/llm.go\<close> (\<^verbatim>\<open>ListKnowledgeBases\<close> to \<^verbatim>\<open>DeleteKnowledgeDocument\<close>).  The embedder, the
  reranker, the database, the clock and the generators of identifiers are arguments that are asked at each
  step; a request body that does not parse is None.
\<close>

record KnWorld =
  kw_bases :: base_db
  kw_docs :: doc_db
  kw_vectors :: vecstore
  kw_tick :: nat

record KnEnv =
  kn_fault :: "nat \<Rightarrow> string option"
  kn_newID :: "nat \<Rightarrow> string"
  kn_rowID :: "nat \<Rightarrow> string"
  kn_time :: "nat \<Rightarrow> time"
  kn_perm :: "VectorItem list \<Rightarrow> VectorItem list"
  kn_embed :: "(nat \<Rightarrow> string \<Rightarrow> EmbeddingRequest \<Rightarrow> string + (int \<times> f64 list) list) option"
  kn_rerank :: "nat \<Rightarrow> string \<Rightarrow> ScoredSegment list \<Rightarrow> string + ScoredSegment list"
  kn_fo :: FloatOps
  kn_lower :: "string \<Rightarrow> string"
  kn_endpoint :: string

definition tickK :: "KnWorld \<Rightarrow> KnWorld" where
  "tickK w = w\<lparr>kw_tick := Suc (kw_tick w)\<rparr>"

section \<open>The service\<close>

definition knGetBase :: "KnEnv \<Rightarrow> string \<Rightarrow> KnWorld \<Rightarrow> (KnowError + KnowledgeBase) \<times> KnWorld" where
  "knGetBase env k w = (GetBase (kn_fault env (kw_tick w)) k (kw_bases w), tickK w)"

record CreateBaseInput =
  ci_Name :: string
  ci_TenantID :: string
  ci_CreatedBy :: string
  ci_EmbeddingModel :: string
  ci_Dimension :: int
  ci_ChunkSize :: int
  ci_Overlap :: int

definition chosenChunks :: "CreateBaseInput \<Rightarrow> ChunkOptions" where
  "chosenChunks inp =
     (let opt = DefaultChunkOptions;
          opt = (if 0 < ci_ChunkSize inp then opt\<lparr>co_Size := ci_ChunkSize inp\<rparr> else opt) in
      if 0 \<le> ci_Overlap inp then opt\<lparr>co_Overlap := ci_Overlap inp\<rparr> else opt)"

definition knCreateBase :: "KnEnv \<Rightarrow> CreateBaseInput \<Rightarrow> KnWorld \<Rightarrow> (KnowError + KnowledgeBase) \<times> KnWorld" where
  "knCreateBase env inp w =
     (if ci_Name inp = [] then (Inl KnEmptyName, w)
      else case ChunkValidate (chosenChunks inp) of
        Some e \<Rightarrow> (Inl (KnLlm e), w)
      | None \<Rightarrow>
          let kb = \<lparr>kb_ID = kn_newID env (kw_tick w), kb_Name = ci_Name inp, kb_TenantID = ci_TenantID inp,
                 kb_EmbeddingModel = ci_EmbeddingModel inp, kb_Dimension = ci_Dimension inp,
                 kb_ChunkSize = co_Size (chosenChunks inp), kb_Overlap = co_Overlap (chosenChunks inp),
                 kb_CreatedBy = ci_CreatedBy inp\<rparr>;
              (e, kb, db) = CreateBase (kn_fault env (kw_tick w)) (kn_rowID env (kw_tick w)) (kn_time env (kw_tick w)) kb
                 (kw_bases w);
              w = tickK (w\<lparr>kw_bases := db\<rparr>) in
          (case e of Some e \<Rightarrow> Inl e | None \<Rightarrow> Inr kb, w))"

definition knListBases :: "KnEnv \<Rightarrow> string \<Rightarrow> KnWorld \<Rightarrow> KnowError + KnowledgeBase list" where
  "knListBases env tenant w = ListBases (kn_fault env (kw_tick w)) tenant (kw_bases w)"

definition knDeleteBase :: "KnEnv \<Rightarrow> string \<Rightarrow> KnWorld \<Rightarrow> KnowError option \<times> KnWorld" where
  "knDeleteBase env k w =
     (case knGetBase env k w of
        (Inl e, w) \<Rightarrow> (Some e, w)
      | (Inr _, w) \<Rightarrow>
          let w = w\<lparr>kw_vectors := VecDrop k (kw_vectors w)\<rparr>;
              (e, db, docs) = DeleteBase (kn_fault env (kw_tick w)) k (kw_bases w) (kw_docs w) in
          (e, tickK (w\<lparr>kw_bases := db, kw_docs := docs\<rparr>)))"

record AddDocumentInput =
  di_BaseID :: string
  di_Title :: string
  di_Source :: string
  di_Content :: string

definition chunksOf :: "KnowledgeBase \<Rightarrow> ChunkOptions" where
  "chunksOf kb =
     (if 0 < kb_ChunkSize kb
      then DefaultChunkOptions\<lparr>co_Size := kb_ChunkSize kb, co_Overlap := kb_Overlap kb\<rparr> else DefaultChunkOptions)"

definition itemOf :: "string \<Rightarrow> string \<Rightarrow> Segment \<Rightarrow> VectorItem" where
  "itemOf docID title seg = \<lparr>vi_ID = docID @ ''#'' @ showInt (sg_Index seg), vi_DocumentID = docID, vi_Title = title,
     vi_Segment = seg, vi_Vector = []\<rparr>"

definition setVectors :: "(int \<times> f64 list) list \<Rightarrow> VectorItem list \<Rightarrow> VectorItem list" where
  "setVectors data items =
     foldl (\<lambda>items (i, vec). if 0 \<le> i \<and> i < int (length items)
         then items[nat i := (items ! nat i)\<lparr>vi_Vector := vec\<rparr>] else items) items data"

text \<open>The items of a document with their vectors, and its status.\<close>

definition embedItems :: "KnEnv \<Rightarrow> nat \<Rightarrow> KnowledgeBase \<Rightarrow> Segment list \<Rightarrow> VectorItem list \<Rightarrow> VectorItem list \<times> string" where
  "embedItems env n kb segs items =
     (case kn_embed env of
        None \<Rightarrow> (items, ''indexed'')
      | Some emb \<Rightarrow>
          (case emb n (kn_endpoint env) \<lparr>er_Model = kb_EmbeddingModel kb, er_Input = map sg_Content segs, er_User = []\<rparr> of
             Inl _ \<Rightarrow> (items, ''indexed_without_vectors'')
           | Inr data \<Rightarrow> (setVectors data items, ''indexed'')))"

definition knAddDocument :: "KnEnv \<Rightarrow> AddDocumentInput \<Rightarrow> KnWorld \<Rightarrow> (KnowError + KnowledgeDocument) \<times> KnWorld" where
  "knAddDocument env inp w =
     (case knGetBase env (di_BaseID inp) w of
        (Inl e, w) \<Rightarrow> (Inl e, w)
      | (Inr kb, w) \<Rightarrow>
          (case SplitText (di_Content inp) (chunksOf kb) of
             Inl e \<Rightarrow> (Inl (KnLlm e), w)
           | Inr segs \<Rightarrow>
               let docID = kn_newID env (kw_tick w);
                   (items, status) = embedItems env (kw_tick w) kb segs (map (itemOf docID (di_Title inp)) segs);
                   doc = \<lparr>kd_ID = docID, kd_BaseID = di_BaseID inp, kd_Title = di_Title inp, kd_Source = di_Source inp,
                     kd_Content = di_Content inp, kd_Segments = int (length segs), kd_Status = status\<rparr>;
                   w = w\<lparr>kw_vectors := VecUpsert (di_BaseID inp) items (kw_vectors w)\<rparr>;
                   (e, doc, docs) = AddDocument (kn_fault env (kw_tick w)) (kn_rowID env (kw_tick w))
                     (kn_time env (kw_tick w)) doc (kw_docs w);
                   w = tickK (w\<lparr>kw_docs := docs\<rparr>) in
               (case e of Some e \<Rightarrow> Inl e | None \<Rightarrow> Inr doc, w)))"

definition knListDocuments :: "KnEnv \<Rightarrow> string \<Rightarrow> KnWorld \<Rightarrow> KnowError + KnowledgeDocument list" where
  "knListDocuments env baseID w =
     (case knGetBase env baseID w of
        (Inl e, w) \<Rightarrow> Inl e
      | (Inr _, w) \<Rightarrow> ListDocuments (kn_fault env (kw_tick w)) baseID (kw_docs w))"

definition knDeleteDocument :: "KnEnv \<Rightarrow> string \<Rightarrow> string \<Rightarrow> KnWorld \<Rightarrow> KnowError option \<times> KnWorld" where
  "knDeleteDocument env baseID docID w =
     (let w = w\<lparr>kw_vectors := VecDelete baseID docID (kw_vectors w)\<rparr>;
          (e, docs) = DeleteDocument (kn_fault env (kw_tick w)) docID (kw_docs w) in
      (e, tickK (w\<lparr>kw_docs := docs\<rparr>)))"

definition defaultTopK :: int where "defaultTopK = 4"

definition scoredOf :: "VectorHit \<Rightarrow> ScoredSegment" where
  "scoredOf h = \<lparr>ss_DocumentID = vi_DocumentID (vh_Item h), ss_Title = vi_Title (vh_Item h),
     ss_Segment = vi_Segment (vh_Item h), ss_Score = vh_Score h\<rparr>"

definition semanticHits :: "KnEnv \<Rightarrow> nat \<Rightarrow> KnowledgeBase \<Rightarrow> string \<Rightarrow> string \<Rightarrow> int \<Rightarrow> vecstore \<Rightarrow> VectorHit list" where
  "semanticHits env n kb baseID query topK st =
     (case kn_embed env of
        None \<Rightarrow> []
      | Some emb \<Rightarrow>
          (case emb n (kn_endpoint env) \<lparr>er_Model = kb_EmbeddingModel kb, er_Input = [query], er_User = []\<rparr> of
             Inr ((_, vec) # _) \<Rightarrow> VecSearch (kn_fo env) (kn_perm env) baseID vec (i64 (topK * 3)) st
           | _ \<Rightarrow> []))"

definition knRetrieve :: "KnEnv \<Rightarrow> string \<Rightarrow> string \<Rightarrow> int \<Rightarrow> KnWorld \<Rightarrow> (KnowError + ScoredSegment list) \<times> KnWorld" where
  "knRetrieve env baseID query topK0 w =
     (if query = [] then (Inr [], w)
      else case knGetBase env baseID w of
        (Inl e, w) \<Rightarrow> (Inl e, w)
      | (Inr kb, w) \<Rightarrow>
          let topK = (if topK0 \<le> 0 then defaultTopK else topK0);
              hits = semanticHits env (kw_tick w) kb baseID query topK (kw_vectors w);
              hits = (if hits = []
                then VecSearchKeyword (kn_lower env) (kn_fo env) (kn_perm env) baseID query (i64 (topK * 3)) (kw_vectors w)
                else hits);
              scored = map scoredOf hits;
              reranked = (case kn_rerank env (kw_tick w) query scored of Inl _ \<Rightarrow> scored | Inr r \<Rightarrow> r) in
          (Inr (TopK (RankByScore reranked) topK), tickK w))"

section \<open>The handlers\<close>

fun knText :: "KnowError \<Rightarrow> string" where
  "knText KnNotFound = ''resource not found''"
| "knText KnBaseNotFound = ''llmgateway: knowledge base not found''"
| "knText KnEmptyName = ''llmgateway: knowledge base name must not be empty''"
| "knText (KnDb e) = e"
| "knText (KnLlm e) = llmText e"
| "knText (KnVectors e) = ''llmgateway: upsert vectors: '' @ e"

text \<open>The errors of the repository of knowledge bases.\<close>

definition respondLLMError :: "KnowError \<Rightarrow> 'a ApiReply" where
  "respondLLMError e = (if e = KnNotFound then ApiFail 404 ''resource not found'' else ApiFail 500 (knText e))"

definition ListKnowledgeBases :: "KnEnv \<Rightarrow> Claims option \<Rightarrow> KnWorld \<Rightarrow> KnowledgeBase list ApiReply" where
  "ListKnowledgeBases env c w =
     (case ListBases (kn_fault env (kw_tick w)) (tenantScope c) (kw_bases w) of
        Inl e \<Rightarrow> ApiFail 500 (knText e)
      | Inr l \<Rightarrow> ApiOK l)"

definition requestedBase :: "string \<Rightarrow> string \<Rightarrow> KnowledgeBase \<Rightarrow> KnowledgeBase" where
  "requestedBase tenant user kb =
     (let kb = kb\<lparr>kb_TenantID := tenant, kb_CreatedBy := user\<rparr>;
          kb = (if kb_ChunkSize kb \<le> 0 then kb\<lparr>kb_ChunkSize := 512\<rparr> else kb) in
      if kb_Overlap kb < 0 then kb\<lparr>kb_Overlap := 0\<rparr> else kb)"

definition CreateKnowledgeBase :: "KnEnv \<Rightarrow> Claims option \<Rightarrow> KnowledgeBase option \<Rightarrow> KnWorld \<Rightarrow> KnowledgeBase ApiReply \<times> KnWorld" where
  "CreateKnowledgeBase env c body w =
     (case body of
        None \<Rightarrow> (ApiFail 400 ''invalid knowledge base body: name required'', w)
      | Some kb \<Rightarrow>
          if kb_Name kb = [] then (ApiFail 400 ''invalid knowledge base body: name required'', w)
          else (case requireWriteTenant c of
            None \<Rightarrow> (ApiFail 400 ''missing tenant context'', w)
          | Some tenant \<Rightarrow>
              let kb = requestedBase tenant (cl_UserID (claimsOf c)) kb in
              (case ChunkValidate \<lparr>co_Size = kb_ChunkSize kb, co_Overlap = kb_Overlap kb, co_Separators = []\<rparr> of
                 Some e \<Rightarrow> (ApiFail 400 (llmText e), w)
               | None \<Rightarrow>
                   let (e, kb, db) = CreateBase (kn_fault env (kw_tick w)) (kn_rowID env (kw_tick w))
                         (kn_time env (kw_tick w)) kb (kw_bases w) in
                   (case e of Some e \<Rightarrow> ApiFail 500 (knText e) | None \<Rightarrow> ApiOK kb, tickK (w\<lparr>kw_bases := db\<rparr>)))))"

text \<open>The base of a request, when its tenant is the caller's or the caller administers the platform.\<close>

definition accessibleBase :: "KnEnv \<Rightarrow> Claims option \<Rightarrow> string \<Rightarrow> KnWorld \<Rightarrow> ('a ApiReply + KnowledgeBase) \<times> KnWorld" where
  "accessibleBase env c baseID w =
     (case knGetBase env baseID w of
        (Inl e, w) \<Rightarrow> (Inl (respondLLMError e), w)
      | (Inr kb, w) \<Rightarrow>
          (if canAccessTenant (kb_TenantID kb) c then Inr kb else Inl (ApiFail 404 ''knowledge base not found''), w))"

definition GetKnowledgeBase :: "KnEnv \<Rightarrow> Claims option \<Rightarrow> string \<Rightarrow> KnWorld \<Rightarrow> KnowledgeBase ApiReply" where
  "GetKnowledgeBase env c baseID w =
     (case accessibleBase env c baseID w of (Inl r, _) \<Rightarrow> r | (Inr kb, _) \<Rightarrow> ApiOK kb)"

definition DeleteKnowledgeBase :: "KnEnv \<Rightarrow> Claims option \<Rightarrow> string \<Rightarrow> KnWorld \<Rightarrow> string ApiReply \<times> KnWorld" where
  "DeleteKnowledgeBase env c baseID w =
     (case accessibleBase env c baseID w of
        (Inl r, w) \<Rightarrow> (r, w)
      | (Inr _, w) \<Rightarrow>
          (case DeleteBase (kn_fault env (kw_tick w)) baseID (kw_bases w) (kw_docs w) of
             (Some e, _, _) \<Rightarrow> (respondLLMError e, tickK w)
           | (None, db, docs) \<Rightarrow>
               (ApiOK baseID, tickK (w\<lparr>kw_bases := db, kw_docs := docs, kw_vectors := VecDrop baseID (kw_vectors w)\<rparr>))))"

text \<open>The vector of the i-th segment is the i-th of the response, if there is one.\<close>

definition indexedItems :: "KnowledgeDocument \<Rightarrow> (int \<times> f64 list) list \<Rightarrow> Segment list \<Rightarrow> VectorItem list" where
  "indexedItems doc data segs =
     map (\<lambda>(i, s). \<lparr>vi_ID = kd_ID doc @ ''#'' @ showNat i, vi_DocumentID = kd_ID doc, vi_Title = kd_Title doc,
            vi_Segment = s, vi_Vector = (if i < length data then snd (data ! i) else [])\<rparr>)
       (enumerate 0 segs)"

definition indexDocumentVectors ::
    "KnEnv \<Rightarrow> string \<Rightarrow> KnowledgeDocument \<Rightarrow> Segment list \<Rightarrow> KnWorld \<Rightarrow> string option \<times> KnWorld" where
  "indexDocumentVectors env baseID doc segs w =
     (case kn_embed env of
        None \<Rightarrow> (None, w)
      | Some emb \<Rightarrow>
          (case emb (kw_tick w) [] \<lparr>er_Model = ''default'', er_Input = map sg_Content segs, er_User = []\<rparr> of
             Inl e \<Rightarrow> (Some (''embed segments: '' @ e), tickK w)
           | Inr data \<Rightarrow>
               (None, tickK (w\<lparr>kw_vectors := VecUpsert baseID (indexedItems doc data segs) (kw_vectors w)\<rparr>))))"

definition AddKnowledgeDocument ::
    "KnEnv \<Rightarrow> Claims option \<Rightarrow> string \<Rightarrow> (string \<times> string \<times> string) option \<Rightarrow> KnWorld \<Rightarrow> KnowledgeDocument ApiReply \<times> KnWorld" where
  "AddKnowledgeDocument env c baseID body w =
     (case accessibleBase env c baseID w of
        (Inl r, w) \<Rightarrow> (r, w)
      | (Inr kb, w) \<Rightarrow>
          (case body of
             None \<Rightarrow> (ApiFail 400 ''invalid document body: content required'', w)
           | Some (title, source, content) \<Rightarrow>
               if content = [] then (ApiFail 400 ''invalid document body: content required'', w)
               else (case SplitText content \<lparr>co_Size = kb_ChunkSize kb, co_Overlap = kb_Overlap kb, co_Separators = [[CHR 0x0A]]\<rparr> of
                 Inl e \<Rightarrow> (ApiFail 400 (''split document failed: '' @ llmText e), w)
               | Inr segs \<Rightarrow>
                   (case AddDocument (kn_fault env (kw_tick w)) (kn_rowID env (kw_tick w)) (kn_time env (kw_tick w))
                       \<lparr>kd_ID = [], kd_BaseID = baseID, kd_Title = title, kd_Source = source, kd_Content = content,
                        kd_Segments = int (length segs), kd_Status = ''indexed''\<rparr> (kw_docs w) of
                      (Some e, _, _) \<Rightarrow> (ApiFail 500 (knText e), tickK w)
                    | (None, doc, docs) \<Rightarrow>
                        let (warning, w) = indexDocumentVectors env baseID doc segs (tickK (w\<lparr>kw_docs := docs\<rparr>)) in
                        (case warning of Some e \<Rightarrow> ApiWarn doc e | None \<Rightarrow> ApiOK doc, w)))))"

definition ListKnowledgeDocuments :: "KnEnv \<Rightarrow> Claims option \<Rightarrow> string \<Rightarrow> KnWorld \<Rightarrow> KnowledgeDocument list ApiReply" where
  "ListKnowledgeDocuments env c baseID w =
     (case accessibleBase env c baseID w of
        (Inl r, _) \<Rightarrow> r
      | (Inr _, w) \<Rightarrow>
          (case ListDocuments (kn_fault env (kw_tick w)) baseID (kw_docs w) of
             Inl e \<Rightarrow> ApiFail 500 (knText e)
           | Inr l \<Rightarrow> ApiOK l))"

definition DeleteKnowledgeDocument :: "KnEnv \<Rightarrow> Claims option \<Rightarrow> string \<Rightarrow> string \<Rightarrow> KnWorld \<Rightarrow> string ApiReply \<times> KnWorld" where
  "DeleteKnowledgeDocument env c baseID docID w =
     (case accessibleBase env c baseID w of
        (Inl r, w) \<Rightarrow> (r, w)
      | (Inr _, w) \<Rightarrow>
          (case DeleteDocument (kn_fault env (kw_tick w)) docID (kw_docs w) of
             (Some e, _) \<Rightarrow> (respondLLMError e, tickK w)
           | (None, docs) \<Rightarrow>
               (ApiOK docID, tickK (w\<lparr>kw_docs := docs, kw_vectors := VecDelete baseID docID (kw_vectors w)\<rparr>))))"

section \<open>What indexing stores\<close>

lemma setVectors_map:
  assumes "\<And>it vec. f (it\<lparr>vi_Vector := vec\<rparr>) = f it"
  shows "map f (setVectors data items) = map f items"
proof -
  have "map f (foldl (\<lambda>items (i, vec). if 0 \<le> i \<and> i < int (length items)
         then items[nat i := (items ! nat i)\<lparr>vi_Vector := vec\<rparr>] else items) items data) = map f items"
  proof (induction data arbitrary: items)
    case (Cons d data)
    obtain i vec where d: "d = (i, vec)" by force
    have "map f (items[nat i := (items ! nat i)\<lparr>vi_Vector := vec\<rparr>]) = map f items" if "0 \<le> i" "i < int (length items)"
      using that by (simp add: map_update assms list_update_same_conv)
    then show ?case using Cons.IH by (simp add: d)
  qed simp
  then show ?thesis by (simp add: setVectors_def)
qed

lemma embedItems_map:
  assumes "embedItems env n kb segs items = (items', status)" and "\<And>it vec. f (it\<lparr>vi_Vector := vec\<rparr>) = f it"
  shows "map f items' = map f items"
  using assms by (auto simp: embedItems_def setVectors_map split: option.splits sum.splits)

lemma pieces_indices: "pieces rs sz overlap i s segs \<Longrightarrow> map sg_Index segs = map (\<lambda>k. int (i + k)) [0..<length segs]"
  by (induction rule: pieces.induct) (simp_all add: piece_def map_upt_Suc del: upt_Suc)

lemma split_indices:
  assumes "SplitText text opt = Inr segs"
  shows "map sg_Index segs = map int [0..<length segs] \<and> segs \<noteq> []"
proof (cases "int (length (runes text)) \<le> co_Size opt")
  case True
  then show ?thesis using assms by (auto simp: SplitText_def split: if_splits option.splits)
next
  case False
  have v: "ChunkValidate opt = None" using assms by (auto simp: SplitText_def split: if_splits option.splits)
  then have "0 < length (runes text)" using False by (auto simp: ChunkValidate_def split: if_splits)
  from splitLoop_pieces [OF v this, of "[]"] obtain new where
    new: "splitLoop (runes text) opt 0 [] = new" "pieces (runes text) (nat (co_Size opt)) (nat (co_Overlap opt)) 0 0 new"
    by auto
  moreover have "new = segs" using assms False new(1) by (auto simp: SplitText_def Let_def split: if_splits option.splits)
  moreover have "new \<noteq> []" using new(2) by cases auto
  ultimately show ?thesis using pieces_indices [OF new(2)] by simp
qed

lemma itemOf_fields [simp]:
  "vi_DocumentID (itemOf k title seg) = k" "vi_Segment (itemOf k title seg) = seg" "vi_Title (itemOf k title seg) = title"
  by (simp_all add: itemOf_def)

lemma items_distinct:
  assumes "map sg_Index segs = map int [0..<length segs]"
  shows "distinct (map vi_ID (map (itemOf k title) segs))"
proof -
  have "map vi_ID (map (itemOf k title) segs) = map (\<lambda>i. k @ ''#'' @ showInt i) (map sg_Index segs)"
    by (simp add: itemOf_def)
  also have "\<dots> = map (\<lambda>i. k @ ''#'' @ showNat i) [0..<length segs]"
    unfolding assms by (simp add: showInt_def)
  finally show ?thesis by (simp add: distinct_map inj_on_def showNat_inj)
qed

lemma knAddDocument_ok:
  assumes "knAddDocument env inp w = (Inr doc, w')"
  obtains kb segs items where
    "SplitText (di_Content inp) (chunksOf kb) = Inr segs" "kd_ID doc = kn_rowID env (Suc (kw_tick w))"
    "kd_BaseID doc = di_BaseID inp"
    "kw_vectors w' = VecUpsert (di_BaseID inp) items (kw_vectors w)" "map vi_Segment items = segs"
    "\<forall>it\<in>set items. vi_DocumentID it = kn_newID env (Suc (kw_tick w))" "distinct (map vi_ID items)"
    "tfind docKey (kw_docs w') (kd_ID doc) \<noteq> None" "kw_tick w' = Suc (Suc (kw_tick w))"
proof -
  obtain kb w1 where g: "knGetBase env (di_BaseID inp) w = (Inr kb, w1)" "w1 = tickK w"
    using assms by (auto simp: knAddDocument_def knGetBase_def split: prod.splits sum.splits)
  obtain segs where s: "SplitText (di_Content inp) (chunksOf kb) = Inr segs"
    using assms by (auto simp: knAddDocument_def g split: sum.splits)
  define docID where "docID = kn_newID env (kw_tick w1)"
  obtain items status where e: "embedItems env (kw_tick w1) kb segs (map (itemOf docID (di_Title inp)) segs) = (items, status)"
    by force
  define doc0 where "doc0 = \<lparr>kd_ID = docID, kd_BaseID = di_BaseID inp, kd_Title = di_Title inp, kd_Source = di_Source inp,
                     kd_Content = di_Content inp, kd_Segments = int (length segs), kd_Status = status\<rparr>"
  obtain r doc1 docs where a: "AddDocument (kn_fault env (kw_tick w1)) (kn_rowID env (kw_tick w1))
                     (kn_time env (kw_tick w1)) doc0 (kw_docs w1) = (r, doc1, docs)" by (metis prod_cases3)
  have w': "w' = tickK (w1\<lparr>kw_vectors := VecUpsert (di_BaseID inp) items (kw_vectors w1), kw_docs := docs\<rparr>)"
    and "r = None" and doc: "doc = doc1"
    using assms unfolding knAddDocument_def g(1) s prod.case sum.case Let_def docID_def [symmetric] e
    by (auto simp: a doc0_def [symmetric] split: option.splits)
  then have d: "doc = doc0\<lparr>kd_ID := kn_rowID env (kw_tick w1)\<rparr>" "docs = tadd (doc, kn_time env (kw_tick w1)) (kw_docs w1)"
    using a by (auto simp: AddDocument_def Let_def split: option.splits if_splits)
  have m: "map vi_DocumentID items = map (\<lambda>_. docID) segs" "map vi_Segment items = segs"
    "map vi_ID items = map vi_ID (map (itemOf docID (di_Title inp)) segs)"
    using embedItems_map [OF e, of vi_DocumentID] embedItems_map [OF e, of vi_Segment] embedItems_map [OF e, of vi_ID]
    by (simp_all add: comp_def)
  have "\<forall>it\<in>set items. vi_DocumentID it = docID" using m(1) by (metis (no_types, lifting) image_iff list.set_map)
  moreover have "distinct (map vi_ID items)" unfolding m(3) using items_distinct split_indices [OF s] by blast
  moreover have "tfind docKey docs (kd_ID doc) \<noteq> None" by (simp add: d tfind_tadd docKey_def split: option.split)
  ultimately show ?thesis
    using that [OF s _ _ _ m(2)] d w' g(2) by (simp add: docID_def doc0_def tickK_def)
qed

section \<open>Properties\<close>

text \<open>A deleted document is still found.  The service stores the vectors of a document under the identifier it makes up,
  but the repository gives the document another one, which the caller gets: deleting the document by
  that identifier succeeds and removes its row, yet leaves the vector store as it was, with every segment of the
  document in the collection that retrieval searches.\<close>
theorem deleted_document_still_found:
  assumes "knAddDocument env inp w = (Inr doc, w1)"
    and "kn_rowID env (Suc (kw_tick w)) \<noteq> kn_newID env (Suc (kw_tick w))"
    and "\<And>c it. kw_vectors w (di_BaseID inp) = Some c \<Longrightarrow> it \<in> set c \<Longrightarrow> vi_DocumentID it \<noteq> kn_rowID env (Suc (kw_tick w))"
    and "kn_fault env (Suc (Suc (kw_tick w))) = None"
  shows "\<exists>w2 kb segs c. knDeleteDocument env (di_BaseID inp) (kd_ID doc) w1 = (None, w2)
    \<and> tfind docKey (kw_docs w2) (kd_ID doc) = None \<and> kw_vectors w2 = kw_vectors w1
    \<and> SplitText (di_Content inp) (chunksOf kb) = Inr segs \<and> segs \<noteq> []
    \<and> kw_vectors w2 (di_BaseID inp) = Some c \<and> set segs \<subseteq> vi_Segment ` set c"
proof -
  obtain kb segs items where a: "SplitText (di_Content inp) (chunksOf kb) = Inr segs" "kd_ID doc = kn_rowID env (Suc (kw_tick w))"
    "kw_vectors w1 = VecUpsert (di_BaseID inp) items (kw_vectors w)" "map vi_Segment items = segs"
    "\<forall>it\<in>set items. vi_DocumentID it = kn_newID env (Suc (kw_tick w))" "distinct (map vi_ID items)"
    "tfind docKey (kw_docs w1) (kd_ID doc) \<noteq> None" "kw_tick w1 = Suc (Suc (kw_tick w))"
    by (rule knAddDocument_ok [OF assms(1)])
  define old where "old = (case kw_vectors w (di_BaseID inp) of Some c \<Rightarrow> c | None \<Rightarrow> [])"
  define c where "c = fold (tupsert vi_ID) items old"
  have c: "kw_vectors w1 (di_BaseID inp) = Some c" by (simp add: a(3) VecUpsert_def c_def old_def)
  have "vi_DocumentID it \<noteq> kd_ID doc" if "it \<in> set c" for it
    using fold_tupsert_mem [OF that [unfolded c_def]] a(2,5) assms(2,3)
    by (cases "kw_vectors w (di_BaseID inp)") (auto simp: old_def)
  then have "filter (\<lambda>it. vi_DocumentID it \<noteq> kd_ID doc) c = c" by (simp add: filter_id_conv)
  then have v: "VecDelete (di_BaseID inp) (kd_ID doc) (kw_vectors w1) = kw_vectors w1"
    using c by (simp add: VecDelete_def fun_upd_idem)
  have "it \<in> set c" if "it \<in> set items" for it
    using fold_tupsert_distinct [OF a(6) that, of old] tfind_mem by (fastforce simp: c_def)
  then have "set segs \<subseteq> vi_Segment ` set c" unfolding a(4) [symmetric] by auto
  moreover have "segs \<noteq> []" using split_indices [OF a(1)] by simp
  ultimately show ?thesis
    using a(1,7,8) c v assms(4)
    by (intro exI [of _ "tickK (w1\<lparr>kw_docs := tdelete docKey (kd_ID doc) (kw_docs w1)\<rparr>)"] exI [of _ kb] exI [of _ segs] exI [of _ c])
       (simp add: knDeleteDocument_def DeleteDocument_def tickK_def tfind_tdelete)
qed

definition demoBase :: "string \<Rightarrow> string \<Rightarrow> KnowledgeBase" where
  "demoBase k tenant = \<lparr>kb_ID = k, kb_Name = ''kb'', kb_TenantID = tenant, kb_EmbeddingModel = [], kb_Dimension = 0,
     kb_ChunkSize = 100, kb_Overlap = 10, kb_CreatedBy = []\<rparr>"

definition demoDoc :: "string \<Rightarrow> string \<Rightarrow> KnowledgeDocument" where
  "demoDoc k base = \<lparr>kd_ID = k, kd_BaseID = base, kd_Title = [], kd_Source = [], kd_Content = ''hi'', kd_Segments = 1,
     kd_Status = ''indexed''\<rparr>"

definition demoKnEnv :: KnEnv where
  "demoKnEnv = \<lparr>kn_fault = \<lambda>_. None, kn_newID = \<lambda>_. ''trace-1'', kn_rowID = \<lambda>_. ''20240101-aa'', kn_time = int,
     kn_perm = id, kn_embed = None, kn_rerank = \<lambda>_ _ hits. Inr hits,
     kn_fo = \<lparr>fo_add = \<lambda>x y. x, fo_mul = \<lambda>x y. x, fo_div = \<lambda>x y. x, fo_sqrt = id, fo_ofInt = \<lambda>n. Fin (of_int n)\<rparr>,
     kn_lower = id, kn_endpoint = []\<rparr>"

definition demoKnWorld :: KnWorld where
  "demoKnWorld = \<lparr>kw_bases = [(demoBase ''mine'' ''acme'', 0), (demoBase ''theirs'' ''globex'', 0)],
     kw_docs = [(demoDoc ''d'' ''theirs'', 0)], kw_vectors = (\<lambda>_. None), kw_tick = 0\<rparr>"

lemma deleted_document_still_found_witness:
  "\<exists>doc w1 w2 c. knAddDocument demoKnEnv \<lparr>di_BaseID = ''mine'', di_Title = [], di_Source = [], di_Content = ''hi''\<rparr> demoKnWorld = (Inr doc, w1)
    \<and> knDeleteDocument demoKnEnv ''mine'' (kd_ID doc) w1 = (None, w2) \<and> kw_vectors w2 ''mine'' = Some c \<and> c \<noteq> []"
proof -
  let ?inp = "\<lparr>di_BaseID = ''mine'', di_Title = [], di_Source = [], di_Content = ''hi''\<rparr> :: AddDocumentInput"
  have sp: "SplitText ''hi'' (chunksOf (demoBase ''mine'' ''acme'')) = Inr [\<lparr>sg_Index = 0, sg_Content = ''hi'', sg_Start = 0\<rparr>]"
    by (simp add: SplitText_def chunksOf_def demoBase_def ChunkValidate_def DefaultChunkOptions_def TrimSpace_plain plain_def)
  have g: "knGetBase demoKnEnv ''mine'' demoKnWorld = (Inr (demoBase ''mine'' ''acme''), tickK demoKnWorld)"
    by (simp add: knGetBase_def GetBase_def demoKnEnv_def demoKnWorld_def baseKey_def demoBase_def)
  have "\<exists>doc. fst (knAddDocument demoKnEnv ?inp demoKnWorld) = Inr doc"
    by (simp add: knAddDocument_def g sp) (simp add: Let_def embedItems_def demoKnEnv_def AddDocument_def tickK_def
        demoKnWorld_def docKey_def demoDoc_def)
  then obtain doc w1 where a: "knAddDocument demoKnEnv ?inp demoKnWorld = (Inr doc, w1)" by (metis prod.collapse)
  show ?thesis
    using deleted_document_still_found [OF a] a
    by (fastforce simp: demoKnEnv_def demoKnWorld_def)
qed

text \<open>Any document can be deleted by anyone with a base.  The handler checks the tenant of the base in the
  path but deletes the document by its identifier alone: a caller who may use some base deletes a document of
  a base of another tenant.\<close>
theorem delete_document_crosses_tenants:
  assumes "tfind baseKey (kw_bases w) mine = Some (kb, s)" and "canAccessTenant (kb_TenantID kb) c"
    and "tfind docKey (kw_docs w) k = Some (doc, s')" and "kd_BaseID doc \<noteq> mine"
    and "\<And>n. kn_fault env n = None"
  shows "\<exists>w'. DeleteKnowledgeDocument env c mine k w = (ApiOK k, w') \<and> tfind docKey (kw_docs w') k = None"
  using assms
  by (simp add: DeleteKnowledgeDocument_def accessibleBase_def knGetBase_def GetBase_def DeleteDocument_def tickK_def tfind_tdelete)

definition demoCaller :: Claims where
  "demoCaller = \<lparr>cl_UserID = ''u'', cl_Username = ''u'', cl_Role = RoleDeveloper, cl_TenantID = ''acme''\<rparr>"

lemma delete_document_crosses_tenants_witness:
  "canAccessTenant ''globex'' (Some demoCaller) = False
   \<and> (\<exists>w'. DeleteKnowledgeDocument demoKnEnv (Some demoCaller) ''mine'' ''d'' demoKnWorld = (ApiOK ''d'', w')
        \<and> tfind docKey (kw_docs w') ''d'' = None)"
proof
  show "canAccessTenant ''globex'' (Some demoCaller) = False"
    by (simp add: canAccessTenant_def isPlatformAdmin_def claimsOf_def demoCaller_def)
  show "\<exists>w'. DeleteKnowledgeDocument demoKnEnv (Some demoCaller) ''mine'' ''d'' demoKnWorld = (ApiOK ''d'', w')
        \<and> tfind docKey (kw_docs w') ''d'' = None"
    by (rule delete_document_crosses_tenants [of demoKnWorld "''mine''" "demoBase ''mine'' ''acme''" 0 _ _ "demoDoc ''d'' ''theirs''" 0])
       (simp_all add: demoKnWorld_def baseKey_def demoBase_def docKey_def demoDoc_def canAccessTenant_def isPlatformAdmin_def
          claimsOf_def demoCaller_def demoKnEnv_def)
qed

section \<open>Tenants\<close>

datatype KnRequest = RqCreate "KnowledgeBase option" | RqDeleteBase string
  | RqAdd string "(string \<times> string \<times> string) option"

fun knHandle :: "KnEnv \<Rightarrow> Claims option \<Rightarrow> KnRequest \<Rightarrow> KnWorld \<Rightarrow> KnWorld" where
  "knHandle env c (RqCreate body) w = snd (CreateKnowledgeBase env c body w)"
| "knHandle env c (RqDeleteBase k) w = snd (DeleteKnowledgeBase env c k w)"
| "knHandle env c (RqAdd k body) w = snd (AddKnowledgeDocument env c k body w)"

text \<open>What belongs to a tenant: its bases, and the documents and vectors of a base of its own.\<close>

definition sameFor :: "string \<Rightarrow> KnWorld \<Rightarrow> KnWorld \<Rightarrow> bool" where
  "sameFor t w w' =
     (filter (\<lambda>r. kb_TenantID (fst r) = t) (kw_bases w') = filter (\<lambda>r. kb_TenantID (fst r) = t) (kw_bases w)
      \<and> list_all (\<lambda>r. kb_TenantID (fst r) = t \<longrightarrow>
          filter (\<lambda>d. kd_BaseID (fst d) = baseKey r) (kw_docs w') = filter (\<lambda>d. kd_BaseID (fst d) = baseKey r) (kw_docs w)
          \<and> kw_vectors w' (baseKey r) = kw_vectors w (baseKey r)) (kw_bases w))"

lemma sameFor_refl [simp]: "sameFor t w w" "sameFor t w (tickK w)"
  by (simp_all add: sameFor_def tickK_def list_all_iff)

lemma accessible_foreign:
  assumes "accessibleBase env c k w = (Inr kb, w1)" and "\<not> isPlatformAdmin c" and "cl_TenantID (claimsOf c) \<noteq> t"
    and "tunique baseKey (kw_bases w)" and "r \<in> set (kw_bases w)" and "kb_TenantID (fst r) = t"
  shows "baseKey r \<noteq> k" and "w1 = tickK w"
proof -
  obtain s where f: "tfind baseKey (kw_bases w) k = Some (kb, s)" and c: "canAccessTenant (kb_TenantID kb) c" and w1: "w1 = tickK w"
    using assms(1) by (auto simp: accessibleBase_def knGetBase_def GetBase_def split: prod.splits sum.splits option.splits if_splits)
  show "baseKey r \<noteq> k"
  proof
    assume "baseKey r = k"
    then have "tfind baseKey (kw_bases w) k = Some r" using tfind_unique [OF assms(4,5)] by simp
    then show False using f c assms(2,3,6) by (auto simp: canAccessTenant_def)
  qed
  show "w1 = tickK w" by (fact w1)
qed

lemma accessible_tick: "accessibleBase env c k w = (x, w1) \<Longrightarrow> w1 = tickK w"
  by (auto simp: accessibleBase_def knGetBase_def split: prod.splits sum.splits)

lemma create_sameFor:
  assumes "cl_TenantID (claimsOf c) \<noteq> t"
  shows "sameFor t w (snd (CreateKnowledgeBase env c body w))"
proof -
  have t: "tenant \<noteq> t" if "requireWriteTenant c = Some tenant" for tenant
    using that assms by (auto simp: requireWriteTenant_def claimsOf_def split: option.splits if_splits)
  have keep: "snd (snd (CreateBase f k now kb db)) = db
      \<or> (\<exists>kb'. snd (snd (CreateBase f k now kb db)) = tadd (kb', now) db \<and> kb_TenantID kb' = kb_TenantID kb)" for f k now kb db
    by (auto simp: CreateBase_def Let_def split: option.splits)
  show ?thesis
  proof (cases "snd (CreateKnowledgeBase env c body w) = w")
    case False
    then obtain kb0 tenant where r: "requireWriteTenant c = Some tenant"
      "snd (CreateKnowledgeBase env c body w) = tickK (w\<lparr>kw_bases := snd (snd (CreateBase (kn_fault env (kw_tick w))
          (kn_rowID env (kw_tick w)) (kn_time env (kw_tick w)) (requestedBase tenant (cl_UserID (claimsOf c)) kb0) (kw_bases w)))\<rparr>)"
      by (auto simp: CreateKnowledgeBase_def Let_def case_prod_unfold split: option.splits if_splits)
    moreover have "kb_TenantID (requestedBase tenant (cl_UserID (claimsOf c)) kb0) \<noteq> t"
      using t [OF r(1)] by (simp add: requestedBase_def Let_def)
    ultimately show ?thesis
      using keep [of "kn_fault env (kw_tick w)" "kn_rowID env (kw_tick w)" "kn_time env (kw_tick w)"
          "requestedBase tenant (cl_UserID (claimsOf c)) kb0" "kw_bases w"]
      by (auto simp: sameFor_def tickK_def tadd_def list_all_iff)
  qed simp
qed

lemma delete_sameFor:
  assumes "\<not> isPlatformAdmin c" and "cl_TenantID (claimsOf c) \<noteq> t" and "tunique baseKey (kw_bases w)"
  shows "sameFor t w (snd (DeleteKnowledgeBase env c k w))"
proof (cases "accessibleBase env c k w :: (string ApiReply + KnowledgeBase) \<times> KnWorld")
  case (Pair x w1)
  note w1 = accessible_tick [OF Pair]
  show ?thesis
  proof (cases x)
    case (Inl r)
    then show ?thesis using Pair w1 by (simp add: DeleteKnowledgeBase_def)
  next
    case (Inr kb)
    have k: "\<forall>r\<in>set (kw_bases w). kb_TenantID (fst r) = t \<longrightarrow> baseKey r \<noteq> k"
      using accessible_foreign [OF Pair [unfolded Inr] assms] by blast
    show ?thesis
    proof (cases "kn_fault env (kw_tick w1) = None \<and> tfind baseKey (kw_bases w) k \<noteq> None")
      case True
      have "filter (\<lambda>r. kb_TenantID (fst r) = t) (tdelete baseKey k (kw_bases w)) = filter (\<lambda>r. kb_TenantID (fst r) = t) (kw_bases w)"
        unfolding tdelete_def filter_filter using k by (intro filter_cong refl) blast
      moreover have "filter (\<lambda>d. kd_BaseID (fst d) = baseKey r) (filter (\<lambda>d. kd_BaseID (fst d) \<noteq> k) (kw_docs w))
          = filter (\<lambda>d. kd_BaseID (fst d) = baseKey r) (kw_docs w)" if "baseKey r \<noteq> k" for r :: "KnowledgeBase \<times> time"
        using that by (auto intro: filter_cong)
      ultimately show ?thesis
        using True k by (auto simp: DeleteKnowledgeBase_def Pair Inr DeleteBase_def w1 tickK_def sameFor_def VecDrop_def list_all_iff)
    next
      case False
      then have "snd (DeleteKnowledgeBase env c k w) = tickK (tickK w)"
        by (auto simp: DeleteKnowledgeBase_def Pair Inr DeleteBase_def w1 tickK_def split: option.splits)
      then show ?thesis by (simp add: sameFor_def tickK_def list_all_iff)
    qed
  qed
qed

lemma index_frame:
  "kw_bases (snd (indexDocumentVectors env k doc segs w)) = kw_bases w
   \<and> kw_docs (snd (indexDocumentVectors env k doc segs w)) = kw_docs w
   \<and> (k' \<noteq> k \<longrightarrow> kw_vectors (snd (indexDocumentVectors env k doc segs w)) k' = kw_vectors w k')"
  by (auto simp: indexDocumentVectors_def VecUpsert_def tickK_def split: option.split sum.split)

lemma add_sameFor:
  assumes "\<not> isPlatformAdmin c" and "cl_TenantID (claimsOf c) \<noteq> t" and "tunique baseKey (kw_bases w)"
  shows "sameFor t w (snd (AddKnowledgeDocument env c k body w))"
proof (cases "accessibleBase env c k w :: (KnowledgeDocument ApiReply + KnowledgeBase) \<times> KnWorld")
  case (Pair x w1)
  note w1 = accessible_tick [OF Pair]
  have plain: "sameFor t w (tickK w)" "sameFor t w (tickK (tickK w))"
    by (simp_all add: sameFor_def tickK_def list_all_iff)
  show ?thesis
  proof (cases "snd (AddKnowledgeDocument env c k body w) = tickK w \<or> snd (AddKnowledgeDocument env c k body w) = tickK (tickK w)")
    case True
    then show ?thesis using plain by auto
  next
    case False
    then obtain kb title source content segs doc0 doc docs where x: "x = Inr kb"
      and a: "AddDocument (kn_fault env (kw_tick w1)) (kn_rowID env (kw_tick w1)) (kn_time env (kw_tick w1)) doc0 (kw_docs w1) = (None, doc, docs)"
      and b: "kd_BaseID doc0 = k"
      and r: "snd (AddKnowledgeDocument env c k body w) = snd (indexDocumentVectors env k doc segs (tickK (w1\<lparr>kw_docs := docs\<rparr>)))"
      by (auto simp: AddKnowledgeDocument_def Pair w1 case_prod_unfold Let_def split: sum.splits option.splits prod.splits if_splits)
    have k: "\<forall>r\<in>set (kw_bases w). kb_TenantID (fst r) = t \<longrightarrow> baseKey r \<noteq> k"
      using accessible_foreign [OF Pair [unfolded x] assms] by blast
    obtain s where "docs = tadd (doc, s) (kw_docs w)" "kd_BaseID doc = k"
      using a b w1 by (auto simp: AddDocument_def Let_def tickK_def split: option.splits if_splits)
    then show ?thesis
      using k index_frame [of env k doc segs "tickK (w1\<lparr>kw_docs := docs\<rparr>)"]
      by (auto simp: sameFor_def r w1 tickK_def tadd_def list_all_iff)
  qed
qed


end
