(* ===== verification/LlmGuard.thy ===== *)
theory LlmGuard
  imports LlmRag QuotaStore
begin

text \<open>
  \<^verbatim>\<open>domain/llm/guardrail.go\<close> and the cache of guards per tenant,
  \<^verbatim>\<open>app/llmgateway/guardprovider.go\<close>.  Compiling a regular expression and finding its matches, and
  \<^verbatim>\<open>strings.ToLower\<close>, are arguments.  Slicing a string out of its bounds panics: such a check is None.  The built-in
  rules are data for the engine and left out.
\<close>

section \<open>Rules\<close>

datatype GuardAction = ActionAllow | ActionRedact | ActionBlock | NoAction | OtherAction string
datatype Direction = DirectionInput | DirectionOutput | DirectionBoth | NoDirection | OtherDirection string

record Finding =
  fi_Category :: string
  fi_Rule :: string
  fi_Action :: GuardAction
  fi_Excerpt :: string

record GuardResult =
  gr_Action :: GuardAction
  gr_Content :: string
  gr_Findings :: "Finding list"

definition Blocked :: "GuardResult \<Rightarrow> bool" where "Blocked r = (gr_Action r = ActionBlock)"
definition Modified :: "GuardResult \<Rightarrow> bool" where "Modified r = (gr_Action r = ActionRedact)"

type_synonym hits = "(nat \<times> nat) list"

record Rule =
  ru_Name :: string
  ru_Category :: string
  ru_Direction :: Direction
  ru_Action :: GuardAction
  ru_Pattern :: string
  ru_Keywords :: "string list"
  ru_Replacement :: string
  ru_re :: "(string \<Rightarrow> hits) option"

record GuardEnv =
  ge_compile :: "string \<Rightarrow> (string \<Rightarrow> hits) option"
  ge_lower :: "string \<Rightarrow> string"

definition compileRule :: "GuardEnv \<Rightarrow> Rule \<Rightarrow> Rule" where
  "compileRule env r =
     (if ru_Pattern r = [] then r
      else case ge_compile env (ru_Pattern r) of None \<Rightarrow> r | Some re \<Rightarrow> r\<lparr>ru_re := Some re\<rparr>)"

text \<open>The occurrences of one keyword from a position on, without overlaps; the keyword is not empty.\<close>

function occurrences :: "string \<Rightarrow> string \<Rightarrow> nat \<Rightarrow> hits" where
  "occurrences lower k pos =
     (if k = [] then []
      else case indexOf (drop pos lower) k of
        None \<Rightarrow> []
      | Some idx \<Rightarrow> (pos + idx, pos + idx + length k) # occurrences lower k (pos + idx + length k))"
  by pat_completeness auto
termination
proof (relation "measure (\<lambda>(lower, k, pos). length lower + 1 - pos)", goal_cases)
  case (2 lower k pos idx)
  then have "idx + length k \<le> length (drop pos lower)" "0 < length k"
    using indexOf_Some by (blast, simp)
  then show ?case by (cases k) auto
qed simp

declare occurrences.simps [simp del]

definition matches :: "GuardEnv \<Rightarrow> Rule \<Rightarrow> string \<Rightarrow> hits" where
  "matches env r text =
     (case ru_re r of
        Some re \<Rightarrow> re text
      | None \<Rightarrow>
          sort_key fst (concat (map (\<lambda>kw. if kw = [] then []
            else occurrences (ge_lower env text) (ge_lower env kw) 0) (ru_Keywords r))))"

definition appliesTo :: "Rule \<Rightarrow> Direction \<Rightarrow> bool" where
  "appliesTo r d = (ru_Direction r = DirectionBoth \<or> ru_Direction r = d)"

definition completeRule :: "GuardEnv \<Rightarrow> Rule \<Rightarrow> Rule" where
  "completeRule env r0 =
     (let r = compileRule env r0;
          r = (if ru_Direction r = NoDirection then r\<lparr>ru_Direction := DirectionBoth\<rparr> else r) in
      if ru_Action r = NoAction then r\<lparr>ru_Action := ActionBlock\<rparr> else r)"

type_synonym Guard = "Rule list"

definition NewGuard :: "GuardEnv \<Rightarrow> Rule list \<Rightarrow> Guard" where
  "NewGuard env rules = map (completeRule env) rules"

definition GuardRules :: "Guard \<Rightarrow> Rule list" where
  "GuardRules g = map (\<lambda>r. r\<lparr>ru_re := None\<rparr>) g"

section \<open>Redaction\<close>

definition replacement :: "Rule \<Rightarrow> string" where
  "replacement r = (if ru_Replacement r = [] then ''[REDACTED]'' else ru_Replacement r)"

fun mergeLoop :: "nat \<times> nat \<Rightarrow> hits \<Rightarrow> hits" where
  "mergeLoop cur [] = [cur]"
| "mergeLoop cur (r # rs) =
     (if fst r \<le> snd cur then mergeLoop (fst cur, max (snd cur) (snd r)) rs else cur # mergeLoop r rs)"

definition mergeRanges :: "hits \<Rightarrow> hits" where
  "mergeRanges hs = (case sort_key fst hs of [] \<Rightarrow> [] | r # rs \<Rightarrow> mergeLoop r rs)"

text \<open>From the last range to the first; a slice out of bounds panics.\<close>

primrec redactLoop :: "string \<Rightarrow> hits \<Rightarrow> string \<Rightarrow> string option" where
  "redactLoop w [] out = Some out"
| "redactLoop w (h # hs) out =
     (if fst h \<le> length out \<and> snd h \<le> length out then redactLoop w hs (take (fst h) out @ w @ drop (snd h) out) else None)"

definition redact :: "string \<Rightarrow> hits \<Rightarrow> string \<Rightarrow> string option" where
  "redact text hs w = (if hs = [] then Some text else redactLoop w (rev (mergeRanges hs)) text)"

text \<open>Of a hit within bounds the end is not before the start.\<close>

definition excerpt :: "string \<Rightarrow> nat \<times> nat \<Rightarrow> string" where
  "excerpt text hit =
     (if length text < snd hit then []
      else let s = take (snd hit - fst hit) (drop (fst hit) text) in
        if 32 < length s then take 32 s @ ''...'' else s)"

section \<open>Checking\<close>

primrec firstBlock :: "GuardEnv \<Rightarrow> string \<Rightarrow> Direction \<Rightarrow> Rule list \<Rightarrow> Finding option" where
  "firstBlock env text d [] = None"
| "firstBlock env text d (r # rs) =
     (if \<not> appliesTo r d then firstBlock env text d rs
      else case matches env r text of
        [] \<Rightarrow> firstBlock env text d rs
      | h # _ \<Rightarrow>
          if ru_Action r = ActionBlock
          then Some \<lparr>fi_Category = ru_Category r, fi_Rule = ru_Name r, fi_Action = ActionBlock, fi_Excerpt = excerpt text h\<rparr>
          else firstBlock env text d rs)"

primrec redactRules :: "GuardEnv \<Rightarrow> Direction \<Rightarrow> Rule list \<Rightarrow> string \<Rightarrow> GuardResult \<Rightarrow> GuardResult option" where
  "redactRules env d [] content res = Some (res\<lparr>gr_Content := content\<rparr>)"
| "redactRules env d (r # rs) content res =
     (if \<not> appliesTo r d \<or> ru_Action r \<noteq> ActionRedact then redactRules env d rs content res
      else case matches env r content of
        [] \<Rightarrow> redactRules env d rs content res
      | h # hs \<Rightarrow>
          (case redact content (h # hs) (replacement r) of
             None \<Rightarrow> None
           | Some content' \<Rightarrow>
               redactRules env d rs content' (res\<lparr>gr_Action := ActionRedact, gr_Findings := gr_Findings res @
                 [\<lparr>fi_Category = ru_Category r, fi_Rule = ru_Name r, fi_Action = ActionRedact, fi_Excerpt = excerpt content h\<rparr>]\<rparr>)))"

definition Check :: "GuardEnv \<Rightarrow> Guard \<Rightarrow> string \<Rightarrow> Direction \<Rightarrow> GuardResult option" where
  "Check env g text d =
     (case firstBlock env text d g of
        Some f \<Rightarrow> Some \<lparr>gr_Action = ActionBlock, gr_Content = [], gr_Findings = [f]\<rparr>
      | None \<Rightarrow> redactRules env d g text \<lparr>gr_Action = ActionAllow, gr_Content = text, gr_Findings = []\<rparr>)"

section \<open>The cache\<close>

definition guardTTL :: duration where "guardTTL = 300000000000"

type_synonym guard_cache = "string \<Rightarrow> (Guard \<times> time) option"

definition freshGuard :: "time \<Rightarrow> string \<Rightarrow> guard_cache \<Rightarrow> Guard option" where
  "freshGuard now tenant c =
     (case c tenant of
        Some (g, t0) \<Rightarrow> if time_sub now t0 < guardTTL then Some g else None
      | None \<Rightarrow> None)"

text \<open>The two critical sections of \<^verbatim>\<open>GuardFor\<close>; between them the rules are resolved without the lock.\<close>

definition storeGuard :: "time \<Rightarrow> string \<Rightarrow> Guard \<Rightarrow> guard_cache \<Rightarrow> Guard \<times> guard_cache" where
  "storeGuard now tenant g c =
     (case freshGuard now tenant c of
        Some existing \<Rightarrow> (existing, c)
      | None \<Rightarrow> (g, c(tenant := Some (g, now))))"

definition GuardFor ::
    "GuardEnv \<Rightarrow> (string \<Rightarrow> string + Rule list) \<Rightarrow> time \<Rightarrow> time \<Rightarrow> string \<Rightarrow> guard_cache \<Rightarrow> (string + Guard) \<times> guard_cache" where
  "GuardFor env resolve now now' tenant c =
     (case freshGuard now tenant c of
        Some g \<Rightarrow> (Inr g, c)
      | None \<Rightarrow> (case resolve tenant of
          Inl e \<Rightarrow> (Inl e, c)
        | Inr rules \<Rightarrow> (let (g, c) = storeGuard now' tenant (NewGuard env rules) c in (Inr g, c))))"

definition Invalidate :: "string \<Rightarrow> guard_cache \<Rightarrow> guard_cache" where
  "Invalidate tenant c = c(tenant := None)"

definition InvalidateAll :: "guard_cache \<Rightarrow> guard_cache" where
  "InvalidateAll c = (\<lambda>_. None)"

section \<open>What merging and redacting do\<close>

definition coversPos :: "hits \<Rightarrow> nat \<Rightarrow> bool" where
  "coversPos hs p = list_ex (\<lambda>h. fst h \<le> p \<and> p < snd h) hs"

lemma mergeLoop_covers:
  "sorted (map fst (cur # rs)) \<Longrightarrow> coversPos (mergeLoop cur rs) p = coversPos (cur # rs) p"
proof (induction cur rs rule: mergeLoop.induct)
  case (2 cur r rs)
  show ?case
  proof (cases "fst r \<le> snd cur")
    case True
    have "sorted (map fst ((fst cur, max (snd cur) (snd r)) # rs))" using "2.prems" by auto
    then show ?thesis using 2 True by (auto simp: coversPos_def)
  next
    case False
    then show ?thesis using 2 by (auto simp: coversPos_def)
  qed
qed (simp add: coversPos_def)

lemma mergeRanges_covers: "coversPos (mergeRanges hs) p = coversPos hs p"
proof (cases "sort_key fst hs")
  case Nil
  then have "hs = []" by (metis length_0_conv length_sort)
  then show ?thesis by (simp add: mergeRanges_def)
next
  case (Cons r rs)
  have "sorted (map fst (r # rs))" by (metis Cons sorted_sort_key)
  from mergeLoop_covers [OF this] have "coversPos (mergeRanges hs) p = coversPos (sort_key fst hs) p"
    by (simp add: mergeRanges_def Cons)
  then show ?thesis by (simp add: coversPos_def list_ex_iff)
qed

text \<open>The merged ranges are in order and apart.\<close>

fun apart :: "nat \<Rightarrow> hits \<Rightarrow> nat \<Rightarrow> bool" where
  "apart a [] n = (a \<le> n)"
| "apart a (h # hs) n = (a \<le> fst h \<and> fst h \<le> snd h \<and> apart (snd h) hs n)"

lemma mergeLoop_apart:
  assumes "sorted (map fst (cur # rs))" and "\<forall>h\<in>set (cur # rs). fst h \<le> snd h \<and> snd h \<le> n" and "a \<le> fst cur"
  shows "apart a (mergeLoop cur rs) n"
  using assms
proof (induction cur rs arbitrary: a rule: mergeLoop.induct)
  case (2 cur r rs)
  show ?case
  proof (cases "fst r \<le> snd cur")
    case True
    then show ?thesis using "2.IH"(1) [OF True, of a] "2.prems" by (auto simp: max_def)
  next
    case False
    then show ?thesis using "2.IH"(2) [OF False, of "snd cur"] "2.prems" by auto
  qed
qed auto

text \<open>What is kept: the text between the ranges, with the replacement at each.\<close>

fun spliced :: "string \<Rightarrow> nat \<Rightarrow> hits \<Rightarrow> string \<Rightarrow> string" where
  "spliced w a [] text = drop a text"
| "spliced w a (h # hs) text = take (fst h - a) (drop a text) @ w @ spliced w (snd h) hs text"

lemma redactLoop_append:
  "redactLoop w (hs @ hs') out = (case redactLoop w hs out of None \<Rightarrow> None | Some out' \<Rightarrow> redactLoop w hs' out')"
  by (induction hs arbitrary: out) auto

lemma redactLoop_spliced:
  assumes "apart a hs (length text)"
  shows "redactLoop w (rev hs) text = Some (take a text @ spliced w a hs text)"
  using assms
proof (induction hs arbitrary: a)
  case (Cons h hs)
  have le: "snd h \<le> length text" using Cons.prems
  proof (induction hs arbitrary: h a)
    case (Cons h' hs)
    then have "snd h' \<le> length text" by fastforce
    then show ?case using Cons.prems by simp
  qed simp
  have r: "redactLoop w (rev hs) text = Some (take (snd h) text @ spliced w (snd h) hs text)"
    using Cons by simp
  have "take a text @ take (fst h - a) (drop a text) = take (fst h) text"
    using Cons.prems by (metis apart.simps(2) le_add_diff_inverse take_add)
  then show ?case
    using Cons.prems le by (simp add: redactLoop_append r min_def)
qed simp


lemma indexOf_replicate:
  "w \<noteq> [] \<Longrightarrow> c \<notin> set w \<Longrightarrow> indexOf (replicate n c @ w) w = Some n"
proof (induction n)
  case 0
  then show ?case by (cases w) (auto simp: prefixOf_iff)
next
  case (Suc n)
  then have "\<not> prefixOf w (c # replicate n c @ w)" by (cases w) auto
  then show ?case using Suc by simp
qed

section \<open>Properties\<close>

text \<open>Redaction takes out exactly the hits.  When the hits of a rule lie within the text, redacting never panics: the ranges
  it merges them into are in order, apart, and cover exactly the positions of the hits, and the result is the text
  between them, untouched and in order, with the replacement once in place of each range.\<close>
theorem redact_exact:
  assumes "hs \<noteq> []" and "list_all (\<lambda>h. fst h \<le> snd h \<and> snd h \<le> length text) hs"
  shows "redact text hs w = Some (spliced w 0 (mergeRanges hs) text)
    \<and> apart 0 (mergeRanges hs) (length text) \<and> (\<forall>p. coversPos (mergeRanges hs) p = coversPos hs p)"
proof -
  obtain r rs where s: "sort_key fst hs = r # rs" using assms(1) by (cases "sort_key fst hs") (metis length_0_conv length_sort, blast)
  have "set (r # rs) = set hs" by (metis s set_sort)
  then have "apart 0 (mergeLoop r rs) (length text)"
    using mergeLoop_apart [of r rs "length text" 0] assms(2) by (metis le0 list_all_iff s sorted_sort_key)
  then have a: "apart 0 (mergeRanges hs) (length text)" by (simp add: mergeRanges_def s)
  show ?thesis
    using redactLoop_spliced [OF a, of w] a assms(1) by (simp add: redact_def mergeRanges_covers)
qed

lemma redact_exact_witness: "redact ''call 123 or 45 now'' [(13, 13), (5, 8), (12, 14)] ''#'' = Some ''call # or # now''"
  using redact_exact [of "[(13, 13), (5, 8), (12, 14)]" "''call 123 or 45 now''" "''#''"] by (simp add: mergeRanges_def)

text \<open>Redaction of a keyword misses after letters that shrink.  The hits of a keyword are positions in the lower-case text,
  but the text itself is cut there.  Behind Kelvin signs (three bytes each, whose lower case is one byte) the cut falls
  before the keyword, and the content that passes still ends with it.\<close>
theorem keyword_redaction_misses:
  assumes "ge_lower env (concat (replicate n (encode1 0x212A)) @ kw) = replicate n (CHR ''k'') @ kw" and "ge_lower env kw = kw"
    and "kw \<noteq> []" and "CHR ''k'' \<notin> set kw" and "length kw \<le> 2 * n"
    and "appliesTo r d" and "ru_Action r = ActionRedact" and "ru_re r = None" and "ru_Keywords r = [kw]"
  shows "\<exists>res p. Check env [r] (concat (replicate n (encode1 0x212A)) @ kw) d = Some res \<and> gr_Action res = ActionRedact
    \<and> gr_Content res = p @ kw"
proof -
  let ?K = "concat (replicate n (encode1 0x212A))"
  have lk: "length ?K = 3 * n" by (induction n) (simp_all add: encode1_def)
  have "occurrences (replicate n (CHR ''k'') @ kw) kw 0 = [(n, n + length kw)]"
    using assms(3,4) indexOf_replicate [OF assms(3,4), of n]
    by (subst occurrences.simps) (subst occurrences.simps, simp)
  then have m: "matches env r (?K @ kw) = [(n, n + length kw)]"
    using assms(1-3,8,9) by (simp add: matches_def)
  have b: "firstBlock env (?K @ kw) d [r] = None" using assms(6,7) by (simp add: m)
  have "redact (?K @ kw) [(n, n + length kw)] w = Some (take n ?K @ w @ drop (n + length kw) ?K @ kw)" for w
    using assms(5) by (simp add: redact_def mergeRanges_def lk)
  then show ?thesis
    using assms(6,7) by (auto simp: Check_def b m)
qed

definition demoRule :: Rule where
  "demoRule = \<lparr>ru_Name = ''secret'', ru_Category = [], ru_Direction = DirectionOutput, ru_Action = ActionRedact, ru_Pattern = [],
     ru_Keywords = [''pwd''], ru_Replacement = [], ru_re = None\<rparr>"

lemma keyword_redaction_misses_witness:
  "\<exists>res p. Check \<lparr>ge_compile = \<lambda>_. None, ge_lower = lowerSearch\<rparr> [demoRule]
      (concat (replicate 2 (encode1 0x212A)) @ ''pwd'') DirectionOutput = Some res
    \<and> gr_Action res = ActionRedact \<and> gr_Content res = p @ ''pwd''"
  by (rule keyword_redaction_misses)
     (simp_all add: demoRule_def appliesTo_def numeral_2_eq_2 encode1_def)
end
