(* ===== verification/LlmTrace.thy ===== *)
theory LlmTrace
  imports LlmGuard
begin

text \<open>
  \<^verbatim>\<open>domain/llm/trace.go\<close>: the trace of one call, with its spans, findings and latencies.  The conversion
  of a duration to seconds and the quotient of floats are arguments.
\<close>

definition SpanGuardInput :: string where "SpanGuardInput = ''guard_input''"
definition SpanRetrieval :: string where "SpanRetrieval = ''retrieval''"
definition SpanInference :: string where "SpanInference = ''inference''"
definition SpanGuardOutput :: string where "SpanGuardOutput = ''guard_output''"

record Span =
  spn_Name :: string
  spn_Start :: time
  spn_Elapsed :: duration
  spn_Error :: string

record LatencyStats =
  ls_TTFT :: duration
  ls_TPOT :: duration
  ls_Total :: duration
  ls_TokensPerSecond :: f64

record Trace =
  tc_ID :: string
  tc_TenantID :: string
  tc_UserID :: string
  tc_Model :: string
  tc_Backend :: string
  tc_Spans :: "Span list"
  tc_Usage :: Usage
  tc_Cost :: f64
  tc_Latency :: LatencyStats
  tc_Findings :: "Finding list"
  tc_Error :: string
  tc_StartedAt :: time
  tc_FinishedAt :: time
  tc_open :: "(string \<times> time) list"
  tc_firstToken :: time
  tc_finished :: bool

datatype TraceError = ErrSpanNotStarted | ErrTraceFinished

text \<open>The zero time is 0.  The open spans are a Go map: unique names.\<close>

definition NewTrace :: "string \<Rightarrow> string \<Rightarrow> time \<Rightarrow> Trace" where
  "NewTrace k model now = \<lparr>tc_ID = k, tc_TenantID = [], tc_UserID = [], tc_Model = model, tc_Backend = [], tc_Spans = [],
     tc_Usage = \<lparr>us_Prompt = 0, us_Completion = 0, us_Total = 0\<rparr>, tc_Cost = Fin 0,
     tc_Latency = \<lparr>ls_TTFT = 0, ls_TPOT = 0, ls_Total = 0, ls_TokensPerSecond = Fin 0\<rparr>, tc_Findings = [], tc_Error = [],
     tc_StartedAt = now, tc_FinishedAt = 0, tc_open = [], tc_firstToken = 0, tc_finished = False\<rparr>"

definition StartSpan :: "string \<Rightarrow> time \<Rightarrow> Trace \<Rightarrow> Trace" where
  "StartSpan name now t = (if tc_finished t then t else t\<lparr>tc_open := tupsert fst (name, now) (tc_open t)\<rparr>)"

definition EndSpan :: "string \<Rightarrow> time \<Rightarrow> string option \<Rightarrow> Trace \<Rightarrow> TraceError option \<times> Trace" where
  "EndSpan name now err t =
     (if tc_finished t then (Some ErrTraceFinished, t)
      else case tfind fst (tc_open t) name of
        None \<Rightarrow> (Some ErrSpanNotStarted, t)
      | Some (_, start) \<Rightarrow>
          (None, t\<lparr>tc_open := tdelete fst name (tc_open t),
             tc_Spans := tc_Spans t @ [\<lparr>spn_Name = name, spn_Start = start, spn_Elapsed = time_sub now start,
               spn_Error = (case err of None \<Rightarrow> [] | Some e \<Rightarrow> e)\<rparr>]\<rparr>))"

definition MarkFirstToken :: "time \<Rightarrow> Trace \<Rightarrow> Trace" where
  "MarkFirstToken now t =
     (if tc_finished t \<or> tc_firstToken t \<noteq> 0 then t
      else t\<lparr>tc_firstToken := now, tc_Latency := (tc_Latency t)\<lparr>ls_TTFT := time_sub now (tc_StartedAt t)\<rparr>\<rparr>)"

definition AddFindings :: "Finding list \<Rightarrow> Trace \<Rightarrow> Trace" where
  "AddFindings f t = (if tc_finished t \<or> f = [] then t else t\<lparr>tc_Findings := tc_Findings t @ f\<rparr>)"

definition closeOpen :: "time \<Rightarrow> Trace \<Rightarrow> Trace" where
  "closeOpen now t =
     foldl (\<lambda>t n. snd (EndSpan n now (Some ''span not closed'') t)) t (sort (map fst (tc_open t)))"

definition latencyOf :: "FloatOps \<Rightarrow> (duration \<Rightarrow> f64) \<Rightarrow> time \<Rightarrow> Trace \<Rightarrow> LatencyStats" where
  "latencyOf fo seconds now t =
     (let n = us_Completion (tc_Usage t);
          l = (tc_Latency t)\<lparr>ls_Total := time_sub now (tc_StartedAt t)\<rparr>;
          l = (if 1 < n \<and> tc_firstToken t \<noteq> 0 then l\<lparr>ls_TPOT := divTrunc (time_sub now (tc_firstToken t)) (n - 1)\<rparr> else l) in
      if flt (Fin 0) (seconds (ls_Total l)) \<and> 0 < n
      then l\<lparr>ls_TokensPerSecond := fo_div fo (fo_ofInt fo n) (seconds (ls_Total l))\<rparr> else l)"

definition FinishTrace :: "FloatOps \<Rightarrow> (duration \<Rightarrow> f64) \<Rightarrow> time \<Rightarrow> Usage \<Rightarrow> f64 \<Rightarrow> string option \<Rightarrow> Trace \<Rightarrow> Trace" where
  "FinishTrace fo seconds now usage cost err t =
     (if tc_finished t then t
      else
        let t = closeOpen now t;
            t = t\<lparr>tc_FinishedAt := now, tc_Usage := UsageNormalize usage, tc_Cost := cost,
                  tc_Error := (case err of None \<Rightarrow> tc_Error t | Some e \<Rightarrow> e)\<rparr> in
        t\<lparr>tc_Latency := latencyOf fo seconds now t, tc_finished := True\<rparr>)"

definition SpanByName :: "string \<Rightarrow> Trace \<Rightarrow> Span option" where
  "SpanByName name t = List.find (\<lambda>s. spn_Name s = name) (tc_Spans t)"

definition TraceSucceeded :: "Trace \<Rightarrow> bool" where
  "TraceSucceeded t = (tc_finished t \<and> tc_Error t = [])"

section \<open>Facts\<close>

text \<open>A finished trace does not change.\<close>

lemma finished_frozen:
  assumes "tc_finished t"
  shows "StartSpan n now t = t" "EndSpan n now err t = (Some ErrTraceFinished, t)" "MarkFirstToken now t = t"
    "AddFindings f t = t" "FinishTrace fo seconds now u c err t = t"
  using assms by (simp_all add: StartSpan_def EndSpan_def MarkFirstToken_def AddFindings_def FinishTrace_def)

lemma EndSpan_frame [simp]:
  "tc_finished (snd (EndSpan n now err t)) = tc_finished t" "tc_Findings (snd (EndSpan n now err t)) = tc_Findings t"
  "tc_Backend (snd (EndSpan n now err t)) = tc_Backend t" "tc_ID (snd (EndSpan n now err t)) = tc_ID t"
  "tc_Error (snd (EndSpan n now err t)) = tc_Error t"
  by (auto simp: EndSpan_def split: option.splits)

lemma EndSpan_open: "\<not> tc_finished t \<Longrightarrow> tc_open (snd (EndSpan n now err t)) = tdelete fst n (tc_open t)"
  by (auto simp: EndSpan_def tdelete_def tfind_None image_iff intro!: filter_True [symmetric] split: option.splits)

lemma closeOpen_empties:
  assumes "\<not> tc_finished t"
  shows "tc_open (closeOpen now t) = []"
proof -
  have "tc_open (foldl (\<lambda>t n. snd (EndSpan n now e t)) t ns) = filter (\<lambda>x. fst x \<notin> set ns) (tc_open t)" if "\<not> tc_finished t" for ns t e
    using that by (induction ns arbitrary: t) (auto simp: EndSpan_open tdelete_def intro: filter_cong)
  from this [OF assms, of "Some ''span not closed''" "sort (map fst (tc_open t))"] show ?thesis
    by (auto simp: closeOpen_def filter_empty_conv)
qed

lemma FinishTrace_simps [simp]:
  "tc_finished (FinishTrace fo seconds now u c err t)"
  by (simp add: FinishTrace_def Let_def)

end
