(* ===== verification/LlmBilling.thy ===== *)
theory LlmBilling
  imports LlmChat QuotaStore
begin

text \<open>
  \<^verbatim>\<open>domain/llm/billing.go\<close> and the token quotas of \<^verbatim>\<open>storage/llm.go\<close> (90-171, 625-645): prices,
  the price book with its longest-prefix lookup, what a tenant may consume, and the transaction that consumes.
  Floating-point arithmetic and the scanning of a float are arguments.
\<close>

section \<open>Prices\<close>

datatype BillingError = ErrNegativePrice | ErrPriceModel | ErrTokenQuotaExceeded

record Price =
  pr_Model :: string
  pr_InputPer1K :: f64
  pr_OutputPer1K :: f64
  pr_Currency :: string

definition emptyPrice :: Price where
  "emptyPrice = \<lparr>pr_Model = [], pr_InputPer1K = Fin 0, pr_OutputPer1K = Fin 0, pr_Currency = []\<rparr>"

definition PriceValidate :: "Price \<Rightarrow> BillingError option" where
  "PriceValidate p =
     (if TrimSpace (pr_Model p) = [] then Some ErrPriceModel
      else if flt (pr_InputPer1K p) (Fin 0) \<or> flt (pr_OutputPer1K p) (Fin 0) then Some ErrNegativePrice
      else None)"

definition PriceCost :: "FloatOps \<Rightarrow> Price \<Rightarrow> Usage \<Rightarrow> f64" where
  "PriceCost fo p u =
     fo_add fo (fo_mul fo (fo_div fo (fo_ofInt fo (us_Prompt u)) (Fin 1000)) (pr_InputPer1K p))
       (fo_mul fo (fo_div fo (fo_ofInt fo (us_Completion u)) (Fin 1000)) (pr_OutputPer1K p))"

section \<open>The price book\<close>

record PriceBook =
  pb_prices :: "Price list"
  pb_fallback :: Price
  pb_gpuPrices :: "string \<Rightarrow> f64 option"
  pb_gpuCurrency :: string

definition NewPriceBook :: PriceBook where
  "NewPriceBook = \<lparr>pb_prices = [], pb_fallback = emptyPrice, pb_gpuPrices = (\<lambda>_. None), pb_gpuCurrency = []\<rparr>"

definition SetFallback :: "Price \<Rightarrow> PriceBook \<Rightarrow> BillingError option \<times> PriceBook" where
  "SetFallback p b =
     (if flt (pr_InputPer1K p) (Fin 0) \<or> flt (pr_OutputPer1K p) (Fin 0) then (Some ErrNegativePrice, b)
      else (None, b\<lparr>pb_fallback := p\<rparr>))"

definition atofOrDefault :: "(string \<Rightarrow> f64 option) \<Rightarrow> string \<Rightarrow> f64 \<Rightarrow> f64" where
  "atofOrDefault scan s def =
     (if s = [] then def else case scan s of None \<Rightarrow> def | Some v \<Rightarrow> if flt v (Fin 0) then def else v)"

definition NewPriceBookFromConfig :: "(string \<Rightarrow> f64 option) \<Rightarrow> (string \<Rightarrow> string) option \<Rightarrow> PriceBook" where
  "NewPriceBookFromConfig scan getenv =
     (case getenv of
        None \<Rightarrow> NewPriceBook
      | Some g \<Rightarrow>
          let i = atofOrDefault scan (g ''LLM_DEFAULT_INPUT_PER_1K'') (Fin 0);
              out = atofOrDefault scan (g ''LLM_DEFAULT_OUTPUT_PER_1K'') (Fin 0);
              cur = (if g ''LLM_DEFAULT_CURRENCY'' = [] then ''CNY'' else g ''LLM_DEFAULT_CURRENCY'') in
          if flt (Fin 0) i \<or> flt (Fin 0) out
          then snd (SetFallback \<lparr>pr_Model = [], pr_InputPer1K = i, pr_OutputPer1K = out, pr_Currency = cur\<rparr> NewPriceBook)
          else NewPriceBook)"

definition SetPrice :: "Price \<Rightarrow> PriceBook \<Rightarrow> BillingError option \<times> PriceBook" where
  "SetPrice p b =
     (case PriceValidate p of
        Some e \<Rightarrow> (Some e, b)
      | None \<Rightarrow> (None, b\<lparr>pb_prices := tupsert pr_Model p (pb_prices b)\<rparr>))"

text \<open>The loop ranges over a Go map: \<^verbatim>\<open>perm\<close> is the order of iteration.\<close>

definition longestPrefix :: "string \<Rightarrow> Price list \<Rightarrow> string" where
  "longestPrefix model prices =
     foldl (\<lambda>best p. if hasPrefix model (pr_Model p) \<and> length best < length (pr_Model p) then pr_Model p else best) [] prices"

definition PriceLookup :: "(Price list \<Rightarrow> Price list) \<Rightarrow> string \<Rightarrow> PriceBook \<Rightarrow> Price \<times> bool" where
  "PriceLookup perm model b =
     (case tfind pr_Model (pb_prices b) model of
        Some p \<Rightarrow> (p, True)
      | None \<Rightarrow>
          let best = longestPrefix model (perm (pb_prices b)) in
          if best \<noteq> [] then (case tfind pr_Model (pb_prices b) best of Some p \<Rightarrow> (p, True) | None \<Rightarrow> (emptyPrice, True))
          else (pb_fallback b, False))"

definition BookCost :: "FloatOps \<Rightarrow> (Price list \<Rightarrow> Price list) \<Rightarrow> string \<Rightarrow> Usage \<Rightarrow> PriceBook \<Rightarrow> f64" where
  "BookCost fo perm model u b = PriceCost fo (fst (PriceLookup perm model b)) u"

definition SetGPUPrice :: "string \<Rightarrow> f64 \<Rightarrow> string \<Rightarrow> PriceBook \<Rightarrow> BillingError option \<times> PriceBook" where
  "SetGPUPrice gpuType perHour currency b =
     (if flt perHour (Fin 0) then (Some ErrNegativePrice, b)
      else let b = b\<lparr>pb_gpuPrices := (pb_gpuPrices b)(gpuType := Some perHour)\<rparr> in
        (None, if currency \<noteq> [] then b\<lparr>pb_gpuCurrency := currency\<rparr> else b))"

definition GPUPerHour :: "string \<Rightarrow> PriceBook \<Rightarrow> f64 \<times> bool" where
  "GPUPerHour gpuType b =
     (case pb_gpuPrices b gpuType of
        Some v \<Rightarrow> (v, True)
      | None \<Rightarrow> (case pb_gpuPrices b [] of Some v \<Rightarrow> (v, True) | None \<Rightarrow> (Fin 0, False)))"

definition GPUCost :: "FloatOps \<Rightarrow> string \<Rightarrow> int \<Rightarrow> f64 \<Rightarrow> PriceBook \<Rightarrow> f64" where
  "GPUCost fo gpuType n hours b =
     (if n \<le> 0 \<or> fle hours (Fin 0) then Fin 0
      else case GPUPerHour gpuType b of
        (_, False) \<Rightarrow> Fin 0
      | (per, True) \<Rightarrow> fo_mul fo (fo_mul fo per (fo_ofInt fo n)) hours)"

section \<open>Token quotas\<close>

record TokenQuota =
  tq_TenantID :: string
  tq_LimitTokens :: int
  tq_UsedTokens :: int
  tq_LimitCost :: f64
  tq_UsedCost :: f64

definition QuotaRemaining :: "TokenQuota \<Rightarrow> int" where
  "QuotaRemaining q =
     (if tq_LimitTokens q \<le> 0 then - 1
      else let rem = i64 (tq_LimitTokens q - tq_UsedTokens q) in if 0 < rem then rem else 0)"

definition CanConsume :: "int \<Rightarrow> TokenQuota \<Rightarrow> bool" where
  "CanConsume n q = (n \<le> 0 \<or> tq_LimitTokens q \<le> 0 \<or> i64 (tq_UsedTokens q + n) \<le> tq_LimitTokens q)"

definition CanSpend :: "FloatOps \<Rightarrow> f64 \<Rightarrow> TokenQuota \<Rightarrow> bool" where
  "CanSpend fo x q =
     (fle x (Fin 0) \<or> fle (tq_LimitCost q) (Fin 0) \<or> fle (fo_add fo (tq_UsedCost q) x) (tq_LimitCost q))"

datatype TokenError = TokNotFound | TokExceeded | TokDb string

type_synonym token_db = "TokenQuota list"

definition GetTokenQuota :: "string option \<Rightarrow> string \<Rightarrow> token_db \<Rightarrow> TokenError + TokenQuota" where
  "GetTokenQuota fault tenant db =
     (case fault of
        Some e \<Rightarrow> Inl (TokDb e)
      | None \<Rightarrow> (case tfind tq_TenantID db tenant of None \<Rightarrow> Inl TokNotFound | Some q \<Rightarrow> Inr q))"

text \<open>On a conflict only the limits are assigned.\<close>

definition SetTokenQuota :: "string option \<Rightarrow> TokenQuota \<Rightarrow> token_db \<Rightarrow> TokenError option \<times> token_db" where
  "SetTokenQuota fault q db =
     (case fault of
        Some e \<Rightarrow> (Some (TokDb e), db)
      | None \<Rightarrow> (None, case tfind tq_TenantID db (tq_TenantID q) of
          None \<Rightarrow> tadd q db
        | Some old \<Rightarrow> tsave tq_TenantID (old\<lparr>tq_LimitTokens := tq_LimitTokens q, tq_LimitCost := tq_LimitCost q\<rparr>) db))"

definition consumeBody :: "FloatOps \<Rightarrow> string \<Rightarrow> int \<Rightarrow> f64 \<Rightarrow> token_db \<Rightarrow> TokenError option \<times> token_db" where
  "consumeBody fo tenant tokens cost db =
     (case tfind tq_TenantID db tenant of
        None \<Rightarrow> (None, db)
      | Some q \<Rightarrow>
          if 0 < tq_LimitTokens q \<and> tq_LimitTokens q < i64 (tq_UsedTokens q + tokens) then (Some TokExceeded, db)
          else if flt (Fin 0) (tq_LimitCost q) \<and> flt (tq_LimitCost q) (fo_add fo (tq_UsedCost q) cost) then (Some TokExceeded, db)
          else (None, tsave tq_TenantID (q\<lparr>tq_UsedTokens := i64 (tq_UsedTokens q + tokens),
                 tq_UsedCost := fo_add fo (tq_UsedCost q) cost\<rparr>) db))"

text \<open>A transaction that meets a fault of the database is rolled back; one that only met a lock is tried again, five times.\<close>

definition consumeOnce :: "string option \<Rightarrow> (token_db \<Rightarrow> TokenError option \<times> token_db) \<Rightarrow> token_db \<Rightarrow> TokenError option \<times> token_db" where
  "consumeOnce fault fn db =
     (case fault of
        Some e \<Rightarrow> (Some (TokDb e), db)
      | None \<Rightarrow> (case fn db of (Some e, _) \<Rightarrow> (Some e, db) | (None, db') \<Rightarrow> (None, db')))"

primrec tokenRetry ::
    "(nat \<Rightarrow> string option) \<Rightarrow> (token_db \<Rightarrow> TokenError option \<times> token_db) \<Rightarrow> TokenError option \<Rightarrow> nat \<Rightarrow> token_db
      \<Rightarrow> TokenError option \<times> token_db" where
  "tokenRetry fault fn lastErr 0 db = (lastErr, db)"
| "tokenRetry fault fn lastErr (Suc n) db =
     (case consumeOnce (fault n) fn db of
        (None, db') \<Rightarrow> (None, db')
      | (Some TokNotFound, _) \<Rightarrow> (Some TokNotFound, db)
      | (Some TokExceeded, _) \<Rightarrow> (Some TokExceeded, db)
      | (Some (TokDb e), _) \<Rightarrow> if isTransientMsg e then tokenRetry fault fn (Some (TokDb e)) n db else (Some (TokDb e), db))"

definition CheckAndConsume ::
    "(nat \<Rightarrow> string option) \<Rightarrow> FloatOps \<Rightarrow> string \<Rightarrow> int \<Rightarrow> f64 \<Rightarrow> token_db \<Rightarrow> TokenError option \<times> token_db" where
  "CheckAndConsume fault fo tenant tokens cost db = tokenRetry fault (consumeBody fo tenant tokens cost) None 5 db"

definition ListTokenQuotas :: "string option \<Rightarrow> token_db \<Rightarrow> TokenError + TokenQuota list" where
  "ListTokenQuotas fault db = (case fault of Some e \<Rightarrow> Inl (TokDb e) | None \<Rightarrow> Inr (sort_key tq_TenantID db))"

section \<open>Facts\<close>

lemma tokenRetry_cases:
  "tokenRetry fault fn e n db = (r, db') \<Longrightarrow> r = None \<and> fn db = (None, db') \<or> db' = db"
  by (induction n arbitrary: e)
     (auto simp: consumeOnce_def split: option.splits prod.splits TokenError.splits if_splits)

lemma tokenRetry_ok: "fault n = None \<Longrightarrow> fn db = (None, db') \<Longrightarrow> tokenRetry fault fn e (Suc n) db = (None, db')"
  by (simp add: consumeOnce_def)

lemma tokenRetry_refused: "fn db = (Some TokExceeded, x) \<Longrightarrow> snd (tokenRetry fault fn e n db) = db"
  by (induction n arbitrary: e) (auto simp: consumeOnce_def split: option.splits)

lemma hasPrefix_iff: "hasPrefix s p \<longleftrightarrow> (\<exists>t. s = p @ t)"
proof (induction p arbitrary: s)
  case (Cons c p)
  then show ?case by (cases s) auto
qed auto

text \<open>The loop over the prices finds the longest name that is a prefix of the model.\<close>

lemma longest_loop:
  defines "step \<equiv> \<lambda>model best p. if hasPrefix model (pr_Model p) \<and> length best < length (pr_Model p) then pr_Model p else best"
  shows "(foldl (step model) best prices = best \<or> foldl (step model) best prices \<in> pr_Model ` {p \<in> set prices. hasPrefix model (pr_Model p)})
    \<and> length best \<le> length (foldl (step model) best prices)
    \<and> (\<forall>p\<in>set prices. hasPrefix model (pr_Model p) \<longrightarrow> length (pr_Model p) \<le> length (foldl (step model) best prices))"
proof (induction prices arbitrary: best)
  case (Cons p prices)
  from Cons.IH [of "step model best p"] show ?case by (auto simp: step_def split: if_splits)
qed simp

lemma prefix_same_length: "hasPrefix s p \<Longrightarrow> hasPrefix s q \<Longrightarrow> length p = length q \<Longrightarrow> p = q"
  by (auto simp: hasPrefix_iff)

lemma longestPrefix_eq:
  assumes "p \<in> set prices" and "hasPrefix model (pr_Model p)"
    and "\<forall>p'\<in>set prices. hasPrefix model (pr_Model p') \<longrightarrow> length (pr_Model p') \<le> length (pr_Model p)"
  shows "longestPrefix model prices = pr_Model p"
proof -
  note L = longest_loop [of model "[]" prices, folded longestPrefix_def]
  show ?thesis
  proof (cases "longestPrefix model prices = []")
    case True
    then show ?thesis using L assms(1,2) by auto
  next
    case False
    then obtain p' where "p' \<in> set prices" "hasPrefix model (pr_Model p')" "longestPrefix model prices = pr_Model p'"
      using L by auto
    then show ?thesis using L assms prefix_same_length [of model "pr_Model p'" "pr_Model p"] by (metis le_antisym)
  qed
qed

lemma longestPrefix_none: "\<forall>p\<in>set prices. hasPrefix model (pr_Model p) \<longrightarrow> pr_Model p = [] \<Longrightarrow> longestPrefix model prices = []"
  using longest_loop [of model "[]" prices, folded longestPrefix_def] by auto

end
