(* ===== verification/LlmGateway.thy ===== *)
theory LlmGateway
  imports LlmRoute LlmTrace LlmBilling
begin

text \<open>
  \<^verbatim>\<open>app/llmgateway/service.go\<close>: a chat completion through the gateway, in one piece or as a stream - input
  guard, retrieval, quota pre-check, backends with failover, output guard, settlement, trace.  What the backends, the
  retriever, the mounts, the repositories, the clock and the generator of identifiers answer is asked of the
  environment at each step; the routes are the table over the repository, the guards those of the tenant.  A panic of
  the guard ends the request and is None.
\<close>

section \<open>Served names\<close>

definition servedNameSep :: string where "servedNameSep = '':''"

definition JoinServedName :: "string \<Rightarrow> string \<Rightarrow> string" where
  "JoinServedName base adapter = base @ servedNameSep @ adapter"

definition SplitServedName :: "string \<Rightarrow> string \<times> string" where
  "SplitServedName served =
     (let served = TrimSpace served in
      case indexOf served servedNameSep of
        None \<Rightarrow> (served, [])
      | Some idx \<Rightarrow> (take idx served, drop (idx + length servedNameSep) served))"

section \<open>State and environment\<close>

datatype GwError = GwLlm LlmError | GwBlocked | GwAllFailed "string option" | GwQuota | GwMount string | GwClient string

fun gwText :: "GwError \<Rightarrow> string" where
  "gwText (GwLlm e) = llmText e"
| "gwText GwBlocked = ''llmgateway: content blocked by guardrail''"
| "gwText (GwAllFailed e) = ''llmgateway: all backends failed: '' @ (case e of None \<Rightarrow> ''<nil>'' | Some e \<Rightarrow> e)"
| "gwText GwQuota = ''llm: token quota exceeded''"
| "gwText (GwMount e) = e"
| "gwText (GwClient e) = e"

record Chunk =
  ck_ID :: string
  ck_ChunkModel :: string
  ck_Delta :: string
  ck_Finish :: string
  ck_Usage :: "Usage option"

record GwRequest =
  gq_Chat :: ChatRequest
  gq_TenantID :: string
  gq_UserID :: string
  gq_KnowledgeBaseID :: string
  gq_TopK :: int

record UsageRecord =
  ur_ID :: string
  ur_TenantID :: string
  ur_UserID :: string
  ur_Model :: string
  ur_Backend :: string
  ur_PromptTokens :: int
  ur_CompletionTokens :: int
  ur_TotalTokens :: int
  ur_Cost :: f64
  ur_LatencyMS :: int
  ur_TTFTMS :: int
  ur_Success :: bool
  ur_TraceID :: string
  ur_CreatedAt :: int

text \<open>The chunks the client got, the calls to backends and the alerts are logs.\<close>

record GwWorld =
  gw_quota :: token_db
  gw_usage :: "UsageRecord list"
  gw_traces :: "Trace list"
  gw_routes :: RepoTable
  gw_sent :: "(string \<times> ChatRequest) list"
  gw_chunks :: "Chunk list"
  gw_alerts :: "(string \<times> f64 \<times> f64) list"
  gw_tick :: nat

text \<open>
  A stream of a backend is the chunks with which it called back, how the client took the last of them, and
  what it returned.  \<^verbatim>\<open>gx_quota\<close> says whether a quota repository is configured, and so on.
\<close>

record GwEnv =
  gx_time :: "nat \<Rightarrow> time"
  gx_id :: "nat \<Rightarrow> string"
  gx_complete :: "nat \<Rightarrow> string \<Rightarrow> ChatRequest \<Rightarrow> string + ChatResponse"
  gx_stream :: "nat \<Rightarrow> string \<Rightarrow> ChatRequest \<Rightarrow> Chunk list \<times> string option \<times> Usage"
  gx_cancelled :: "nat \<Rightarrow> bool"
  gx_routesOf :: "string \<Rightarrow> Route list option"
  gx_random :: "nat \<Rightarrow> int \<Rightarrow> int"
  gx_guardEnv :: GuardEnv
  gx_guards :: "(nat \<Rightarrow> string \<Rightarrow> string + Guard) option"
  gx_retrieve :: "(nat \<Rightarrow> string \<Rightarrow> string \<Rightarrow> int \<Rightarrow> string + ScoredSegment list) option"
  gx_mounts :: "(nat \<Rightarrow> string \<Rightarrow> string \<Rightarrow> string + string) option"
  gx_prices :: "PriceBook option"
  gx_perm :: "Price list \<Rightarrow> Price list"
  gx_quota :: bool
  gx_quotaFault :: "nat \<Rightarrow> nat \<Rightarrow> string option"
  gx_usage :: "(nat \<Rightarrow> string option) option"
  gx_traces :: "(nat \<Rightarrow> string option) option"
  gx_alert :: bool
  gx_fo :: FloatOps
  gx_seconds :: "duration \<Rightarrow> f64"
  gx_client :: "nat \<Rightarrow> Chunk \<Rightarrow> string option"

definition tickG :: "GwWorld \<Rightarrow> GwWorld" where
  "tickG w = w\<lparr>gw_tick := Suc (gw_tick w)\<rparr>"

definition nowG :: "GwEnv \<Rightarrow> GwWorld \<Rightarrow> time" where
  "nowG env w = gx_time env (gw_tick w)"

definition budgetAlertRatio :: f64 where "budgetAlertRatio = Fin (3602879701896397 / 4503599627370496)"

section \<open>The guard and the context\<close>

text \<open>A guard that cannot be loaded is skipped.\<close>

definition guardFor :: "GwEnv \<Rightarrow> string \<Rightarrow> GwWorld \<Rightarrow> Guard option \<times> GwWorld" where
  "guardFor env tenant w =
     (case gx_guards env of
        None \<Rightarrow> (None, w)
      | Some g \<Rightarrow> (case g (gw_tick w) tenant of Inl _ \<Rightarrow> (None, tickG w) | Inr guard \<Rightarrow> (Some guard, tickG w)))"

text \<open>The messages of the user, checked one by one: blocked, or their new contents.\<close>

primrec guardMessages :: "GuardEnv \<Rightarrow> Guard \<Rightarrow> Message list \<Rightarrow> (Finding list \<times> Message list option) option" where
  "guardMessages ge g [] = Some ([], Some [])"
| "guardMessages ge g (m # ms) =
     (if msg_Role m \<noteq> RoleUser
      then map_option (\<lambda>(fs, r). (fs, map_option ((#) m) r)) (guardMessages ge g ms)
      else case Check ge g (msg_Content m) DirectionInput of
        None \<Rightarrow> None
      | Some res \<Rightarrow>
          if Blocked res then Some (gr_Findings res, None)
          else map_option (\<lambda>(fs, r). (gr_Findings res @ fs, map_option ((#) (m\<lparr>msg_Content := gr_Content res\<rparr>)) r))
            (guardMessages ge g ms))"

definition lastUserMessage :: "ChatRequest \<Rightarrow> string" where
  "lastUserMessage req =
     (case List.find (\<lambda>m. msg_Role m = RoleUser) (rev (cr_Messages req)) of None \<Rightarrow> [] | Some m \<Rightarrow> msg_Content m)"

definition contextPrefix :: "nat list" where
  "contextPrefix = [0x8BF7, 0x57FA, 0x4E8E, 0x4EE5, 0x4E0B, 0x53C2, 0x8003, 0x8D44, 0x6599, 0x56DE, 0x7B54, 0x95EE, 0x9898,
     0x3002, 0x82E5, 0x8D44, 0x6599, 0x4E2D, 0x6CA1, 0x6709, 0x76F8, 0x5173, 0x4FE1, 0x606F, 0xFF0C, 0x8BF7, 0x660E, 0x786E,
     0x8BF4, 0x660E, 0x300C, 0x8D44, 0x6599, 0x4E2D, 0x672A, 0x63D0, 0x53CA, 0x300D, 0xFF0C, 0x4E0D, 0x8981, 0x7F16, 0x9020,
     0x3002, 10, 10, 0x53C2, 0x8003, 0x8D44, 0x6599, 0xFF1A, 10]"

definition injectContext :: "Message list \<Rightarrow> string \<Rightarrow> Message list" where
  "injectContext msgs ctx =
     (if ctx = [] then msgs
      else \<lparr>msg_Role = RoleSystem, msg_Content = encode contextPrefix @ ctx, msg_Name = []\<rparr> # msgs)"

text \<open>The input guard: None panics, the inner error blocks.\<close>

definition guardInput :: "GwEnv \<Rightarrow> string \<Rightarrow> ChatRequest \<Rightarrow> Trace \<Rightarrow> GwWorld
    \<Rightarrow> ((GwError + ChatRequest) \<times> Trace \<times> GwWorld) option" where
  "guardInput env tenant chat trace w =
     (case guardFor env tenant w of
        (None, w) \<Rightarrow> Some (Inr chat, trace, w)
      | (Some g, w) \<Rightarrow>
          let trace = StartSpan SpanGuardInput (nowG env w) trace in
          case guardMessages (gx_guardEnv env) g (cr_Messages chat) of
            None \<Rightarrow> None
          | Some (fs, None) \<Rightarrow>
              Some (Inl GwBlocked, snd (EndSpan SpanGuardInput (nowG env w) (Some (gwText GwBlocked)) (AddFindings fs trace)), w)
          | Some (fs, Some msgs) \<Rightarrow>
              Some (Inr (chat\<lparr>cr_Messages := msgs\<rparr>), snd (EndSpan SpanGuardInput (nowG env w) None (AddFindings fs trace)), w))"

text \<open>A failed retrieval falls back to the plain completion.\<close>

definition retrieveContext :: "GwEnv \<Rightarrow> GwRequest \<Rightarrow> ChatRequest \<Rightarrow> Trace \<Rightarrow> GwWorld \<Rightarrow> ChatRequest \<times> ScoredSegment list \<times> Trace \<times> GwWorld" where
  "retrieveContext env req chat trace w =
     (case gx_retrieve env of
        None \<Rightarrow> (chat, [], trace, w)
      | Some retrieve \<Rightarrow>
          if gq_KnowledgeBaseID req = [] then (chat, [], trace, w)
          else
            let trace = StartSpan SpanRetrieval (nowG env w) trace;
                topK = (if gq_TopK req \<le> 0 then 4 else gq_TopK req);
                r = retrieve (gw_tick w) (gq_KnowledgeBaseID req) (lastUserMessage chat) topK;
                w = tickG w in
            (case r of
               Inl e \<Rightarrow> (chat, [], snd (EndSpan SpanRetrieval (nowG env w) (Some e) trace), w)
             | Inr hits \<Rightarrow>
                 (if hits = [] then chat else chat\<lparr>cr_Messages := injectContext (cr_Messages chat) (BuildContext hits)\<rparr>, hits,
                  snd (EndSpan SpanRetrieval (nowG env w) None trace), w)))"

definition prepare :: "GwEnv \<Rightarrow> GwRequest \<Rightarrow> Trace \<Rightarrow> GwWorld
    \<Rightarrow> ((GwError + ChatRequest \<times> ScoredSegment list) \<times> Trace \<times> GwWorld) option" where
  "prepare env req trace w =
     (case guardInput env (gq_TenantID req) (gq_Chat req) trace w of
        None \<Rightarrow> None
      | Some (Inl e, trace, w) \<Rightarrow> Some (Inl e, trace, w)
      | Some (Inr chat, trace, w) \<Rightarrow>
          (let (chat, citations, trace, w) = retrieveContext env req chat trace w in Some (Inr (chat, citations), trace, w)))"

section \<open>Backends\<close>

definition resolveRouteModel :: "GwEnv \<Rightarrow> string \<Rightarrow> string \<Rightarrow> GwWorld \<Rightarrow> (GwError + string) \<times> GwWorld" where
  "resolveRouteModel env tenant model w =
     (let (base, adapter) = SplitServedName model in
      if adapter = [] then (Inr model, w)
      else case gx_mounts env of
        None \<Rightarrow> (Inr model, w)
      | Some resolve \<Rightarrow> (case resolve (gw_tick w) tenant model of
          Inl e \<Rightarrow> (Inl (GwMount e), tickG w)
        | Inr mountBase \<Rightarrow> (Inr (if mountBase \<noteq> [] then mountBase else base), tickG w)))"

definition markUnhealthy :: "string \<Rightarrow> string \<Rightarrow> GwWorld \<Rightarrow> GwWorld" where
  "markUnhealthy model backend w = w\<lparr>gw_routes := snd (RepoSetHealth model backend False (gw_routes w))\<rparr>"

definition pickBackends :: "GwEnv \<Rightarrow> string \<Rightarrow> string \<Rightarrow> GwWorld \<Rightarrow> (LlmError + Backend list) \<times> GwWorld" where
  "pickBackends env tenant model w =
     (let (r, t) = PickForTenant (gx_routesOf env) (gx_random env (gw_tick w)) tenant model (gw_routes w)
      in (r, tickG (w\<lparr>gw_routes := t\<rparr>)))"

primrec failoverLoop :: "GwEnv \<Rightarrow> string \<Rightarrow> ChatRequest \<Rightarrow> Backend list \<Rightarrow> string option \<Rightarrow> GwWorld
    \<Rightarrow> (GwError + ChatResponse \<times> string) \<times> GwWorld" where
  "failoverLoop env model req [] lastErr w = (Inl (GwAllFailed lastErr), w)"
| "failoverLoop env model req (b # bs) lastErr w =
     (let r = gx_complete env (gw_tick w) (bk_Endpoint b) req;
          w = tickG (w\<lparr>gw_sent := gw_sent w @ [(bk_Endpoint b, req)]\<rparr>) in
      case r of
        Inr resp \<Rightarrow> (Inr (resp, bk_Name b), w)
      | Inl e \<Rightarrow>
          (let w = markUnhealthy model (bk_Name b) w in
           if gx_cancelled env (gw_tick w) then (Inl (GwAllFailed (Some e)), w)
           else failoverLoop env model req bs (Some e) w))"

definition completeWithFailover :: "GwEnv \<Rightarrow> string \<Rightarrow> ChatRequest \<Rightarrow> GwWorld \<Rightarrow> (GwError + ChatResponse \<times> string) \<times> GwWorld" where
  "completeWithFailover env tenant req w =
     (case resolveRouteModel env tenant (cr_Model req) w of
        (Inl e, w) \<Rightarrow> (Inl e, w)
      | (Inr model, w) \<Rightarrow> (case pickBackends env tenant model w of
          (Inl e, w) \<Rightarrow> (Inl (GwLlm e), w)
        | (Inr backends, w) \<Rightarrow> failoverLoop env model req backends None w))"

section \<open>Quota and settlement\<close>

definition precheckQuota :: "GwEnv \<Rightarrow> string \<Rightarrow> ChatRequest \<Rightarrow> GwWorld \<Rightarrow> GwError option \<times> GwWorld" where
  "precheckQuota env tenant req w =
     (if \<not> gx_quota env \<or> tenant = [] then (None, w)
      else case GetTokenQuota (gx_quotaFault env (gw_tick w) 0) tenant (gw_quota w) of
        Inl _ \<Rightarrow> (None, tickG w)
      | Inr q \<Rightarrow> (if CanConsume (int (EstimateTokens (Prompt req))) q then None else Some GwQuota, tickG w))"

definition finishG :: "GwEnv \<Rightarrow> Trace \<Rightarrow> Usage \<Rightarrow> f64 \<Rightarrow> string option \<Rightarrow> GwWorld \<Rightarrow> Trace \<times> GwWorld" where
  "finishG env trace usage cost err w =
     (let trace = FinishTrace (gx_fo env) (gx_seconds env) (nowG env w) usage cost err trace in
      case gx_traces env of
        None \<Rightarrow> (trace, w)
      | Some fault \<Rightarrow>
          (trace, case fault (gw_tick w) of
             Some _ \<Rightarrow> tickG w
           | None \<Rightarrow> tickG (w\<lparr>gw_traces := tupsert tc_ID trace (gw_traces w)\<rparr>)))"

definition budgetAlert :: "GwEnv \<Rightarrow> string \<Rightarrow> GwWorld \<Rightarrow> GwWorld" where
  "budgetAlert env tenant w =
     (if \<not> gx_alert env then w
      else case GetTokenQuota (gx_quotaFault env (gw_tick w) 0) tenant (gw_quota w) of
        Inl _ \<Rightarrow> tickG w
      | Inr q \<Rightarrow>
          (let ratio = fo_div (gx_fo env) (tq_UsedCost q) (tq_LimitCost q) in
           if flt (Fin 0) (tq_LimitCost q) \<and> (fle budgetAlertRatio ratio \<or> fle (tq_LimitCost q) (tq_UsedCost q))
           then tickG (w\<lparr>gw_alerts := gw_alerts w @ [(tenant, tq_LimitCost q, tq_UsedCost q)]\<rparr>) else tickG w))"

text \<open>A refused consumption is logged and nothing more.\<close>

definition consume :: "GwEnv \<Rightarrow> string \<Rightarrow> int \<Rightarrow> f64 \<Rightarrow> GwWorld \<Rightarrow> GwWorld" where
  "consume env tenant tokens cost w =
     (if \<not> gx_quota env \<or> tenant = [] \<or> tokens \<le> 0 then w
      else budgetAlert env tenant (tickG (w\<lparr>gw_quota :=
             snd (CheckAndConsume (gx_quotaFault env (gw_tick w)) (gx_fo env) tenant tokens cost (gw_quota w))\<rparr>)))"

definition recordUsage :: "GwEnv \<Rightarrow> UsageRecord \<Rightarrow> GwWorld \<Rightarrow> GwWorld" where
  "recordUsage env rec0 w =
     (case gx_usage env of
        None \<Rightarrow> w
      | Some fault \<Rightarrow> (case fault (gw_tick w) of
          Some _ \<Rightarrow> tickG w
        | None \<Rightarrow> tickG (w\<lparr>gw_usage := gw_usage w @ [rec0]\<rparr>)))"

definition settle :: "GwEnv \<Rightarrow> GwRequest \<Rightarrow> Trace \<Rightarrow> Usage \<Rightarrow> string option \<Rightarrow> GwWorld \<Rightarrow> Trace \<times> GwWorld" where
  "settle env req trace usage callErr w =
     (let usage = UsageNormalize usage;
          cost = (case gx_prices env of None \<Rightarrow> Fin 0 | Some b \<Rightarrow> BookCost (gx_fo env) (gx_perm env) (cr_Model (gq_Chat req)) usage b);
          w = consume env (gq_TenantID req) (us_Total usage) cost w;
          (trace, w) = finishG env trace usage cost callErr w in
      (trace, recordUsage env \<lparr>ur_ID = tc_ID trace, ur_TenantID = gq_TenantID req, ur_UserID = gq_UserID req, ur_Model = cr_Model (gq_Chat req),
          ur_Backend = tc_Backend trace, ur_PromptTokens = us_Prompt usage, ur_CompletionTokens = us_Completion usage,
          ur_TotalTokens = us_Total usage, ur_Cost = cost, ur_LatencyMS = divTrunc (ls_Total (tc_Latency trace)) 1000000,
          ur_TTFTMS = divTrunc (ls_TTFT (tc_Latency trace)) 1000000, ur_Success = (callErr = None), ur_TraceID = tc_ID trace,
          ur_CreatedAt = tc_StartedAt trace div 1000000000\<rparr> w))"

section \<open>Complete and Stream\<close>

definition noUsage :: Usage where "noUsage = \<lparr>us_Prompt = 0, us_Completion = 0, us_Total = 0\<rparr>"

definition startTrace :: "GwEnv \<Rightarrow> GwRequest \<Rightarrow> GwWorld \<Rightarrow> Trace \<times> GwWorld" where
  "startTrace env req w =
     ((NewTrace (gx_id env (gw_tick w)) (cr_Model (gq_Chat req)) (nowG env w))
        \<lparr>tc_TenantID := gq_TenantID req, tc_UserID := gq_UserID req\<rparr>, tickG w)"

definition abort :: "GwEnv \<Rightarrow> Trace \<Rightarrow> Usage \<Rightarrow> GwError \<Rightarrow> GwWorld \<Rightarrow> (GwError + 'a) \<times> GwWorld" where
  "abort env trace usage e w = (Inl e, snd (finishG env trace usage (Fin 0) (Some (gwText e)) w))"

definition setFirstChoice :: "string \<Rightarrow> ChatResponse \<Rightarrow> ChatResponse" where
  "setFirstChoice content resp =
     (case rp_Choices resp of
        [] \<Rightarrow> resp
      | c # cs \<Rightarrow> resp\<lparr>rp_Choices := c\<lparr>ch_Message := (ch_Message c)\<lparr>msg_Content := content\<rparr>\<rparr> # cs\<rparr>)"

type_synonym gw_result = "(GwError + ChatResponse \<times> ScoredSegment list) \<times> GwWorld"

definition guardOutput :: "GwEnv \<Rightarrow> GwRequest \<Rightarrow> ScoredSegment list \<Rightarrow> ChatResponse \<Rightarrow> Trace \<Rightarrow> GwWorld \<Rightarrow> gw_result option" where
  "guardOutput env req citations resp trace w =
     (case guardFor env (gq_TenantID req) w of
        (None, w) \<Rightarrow> Some (Inr (resp, citations), snd (settle env req trace (rp_Usage resp) None w))
      | (Some g, w) \<Rightarrow>
          let trace = StartSpan SpanGuardOutput (nowG env w) trace in
          (case Check (gx_guardEnv env) g (ResponseText resp) DirectionOutput of
             None \<Rightarrow> None
           | Some res \<Rightarrow>
               let trace = snd (EndSpan SpanGuardOutput (nowG env w) None (AddFindings (gr_Findings res) trace)) in
               if Blocked res
               then Some (Inl GwBlocked, snd (settle env req trace (rp_Usage resp) (Some (gwText GwBlocked)) w))
               else Some (Inr (if Modified res then setFirstChoice (gr_Content res) resp else resp, citations),
                      snd (settle env req trace (rp_Usage resp) None w))))"

definition Complete :: "GwEnv \<Rightarrow> GwRequest \<Rightarrow> GwWorld \<Rightarrow> gw_result option" where
  "Complete env req w =
     (let (trace, w) = startTrace env req w in
      case ChatValidate (gq_Chat req) of
        Some e \<Rightarrow> Some (abort env trace noUsage (GwLlm e) w)
      | None \<Rightarrow> (case prepare env req trace w of
          None \<Rightarrow> None
        | Some (Inl e, trace, w) \<Rightarrow> Some (abort env trace noUsage e w)
        | Some (Inr (chat, citations), trace, w) \<Rightarrow> (case precheckQuota env (gq_TenantID req) chat w of
            (Some e, w) \<Rightarrow> Some (abort env trace noUsage e w)
          | (None, w) \<Rightarrow>
              (let trace = StartSpan SpanInference (nowG env w) trace;
                   (r, w) = completeWithFailover env (gq_TenantID req) chat w;
                   trace = snd (EndSpan SpanInference (nowG env w)
                     (case r of Inl e \<Rightarrow> Some (gwText e) | Inr _ \<Rightarrow> None) trace) in
               case r of
                 Inl e \<Rightarrow> Some (abort env trace noUsage e w)
               | Inr (resp, backend) \<Rightarrow> guardOutput env req citations resp (trace\<lparr>tc_Backend := backend\<rparr>) w))))"

primrec streamLoop :: "GwEnv \<Rightarrow> string \<Rightarrow> ChatRequest \<Rightarrow> Backend list \<Rightarrow> Usage \<Rightarrow> string option \<Rightarrow> Trace \<Rightarrow> GwWorld
    \<Rightarrow> bool \<times> Usage \<times> string option \<times> Trace \<times> GwWorld" where
  "streamLoop env model req [] usage lastErr trace w = (False, usage, lastErr, trace, w)"
| "streamLoop env model req (b # bs) usage lastErr trace w =
     (let (chunks, err, usage) = gx_stream env (gw_tick w) (bk_Endpoint b) req;
          trace = (if chunks = [] then trace else MarkFirstToken (nowG env w) trace);
          w = tickG (w\<lparr>gw_sent := gw_sent w @ [(bk_Endpoint b, req)], gw_chunks := gw_chunks w @ chunks\<rparr>) in
      case err of
        None \<Rightarrow> (True, usage, None, trace\<lparr>tc_Backend := bk_Name b\<rparr>, w)
      | Some e \<Rightarrow>
          if chunks \<noteq> [] then (False, usage, Some e, trace\<lparr>tc_Backend := bk_Name b\<rparr>, w)
          else streamLoop env model req bs usage (Some e) trace (markUnhealthy model (bk_Name b) w))"

text \<open>After the last chunk of the backend the usage goes to the client, who may be gone.\<close>

definition endStream :: "GwEnv \<Rightarrow> GwRequest \<Rightarrow> ChatRequest \<Rightarrow> ScoredSegment list \<Rightarrow> Usage \<Rightarrow> Trace \<Rightarrow> GwWorld
    \<Rightarrow> (GwError + ScoredSegment list) \<times> GwWorld" where
  "endStream env req chat citations usage trace w =
     (if cr_StreamOptions chat = None \<or> cr_StreamOptions chat = Some True
      then
        (let ch = \<lparr>ck_ID = [], ck_ChunkModel = cr_Model chat, ck_Delta = [], ck_Finish = [], ck_Usage = Some usage\<rparr>; r = gx_client env (gw_tick w) ch;
             w = tickG (w\<lparr>gw_chunks := gw_chunks w @ [ch]\<rparr>) in
         case r of
           Some e \<Rightarrow> abort env trace usage (GwClient e) w
         | None \<Rightarrow> (Inr citations, snd (settle env req trace usage None w)))
      else (Inr citations, snd (settle env req trace usage None w)))"

definition Stream :: "GwEnv \<Rightarrow> GwRequest \<Rightarrow> GwWorld \<Rightarrow> ((GwError + ScoredSegment list) \<times> GwWorld) option" where
  "Stream env req w =
     (let (trace, w) = startTrace env req w in
      case ChatValidate (gq_Chat req) of
        Some e \<Rightarrow> Some (abort env trace noUsage (GwLlm e) w)
      | None \<Rightarrow> (case prepare env req trace w of
          None \<Rightarrow> None
        | Some (Inl e, trace, w) \<Rightarrow> Some (abort env trace noUsage e w)
        | Some (Inr (chat, citations), trace, w) \<Rightarrow> (case precheckQuota env (gq_TenantID req) chat w of
            (Some e, w) \<Rightarrow> Some (abort env trace noUsage e w)
          | (None, w) \<Rightarrow> (case resolveRouteModel env (gq_TenantID req) (cr_Model chat) w of
              (Inl e, w) \<Rightarrow> Some (abort env trace noUsage e w)
            | (Inr model, w) \<Rightarrow> (case pickBackends env (gq_TenantID req) model w of
                (Inl e, w) \<Rightarrow> Some (abort env trace noUsage (GwLlm e) w)
              | (Inr backends, w) \<Rightarrow>
                  (let trace = StartSpan SpanInference (nowG env w) trace;
                       (streamed, usage, lastErr, trace, w) = streamLoop env model chat backends noUsage None trace w;
                       trace = snd (EndSpan SpanInference (nowG env w) lastErr trace) in
                   Some (if streamed then endStream env req chat citations usage trace w
                         else abort env trace usage (GwAllFailed lastErr) w)))))))"

section \<open>Frames\<close>

lemma guardFor_frame:
  "guardFor env t w = (g, w') \<Longrightarrow> w' = w \<or> w' = tickG w"
  by (auto simp: guardFor_def split: option.splits sum.splits)

lemma tickG_simps [simp]:
  "gw_quota (tickG w) = gw_quota w" "gw_usage (tickG w) = gw_usage w" "gw_traces (tickG w) = gw_traces w"
  "gw_routes (tickG w) = gw_routes w" "gw_sent (tickG w) = gw_sent w" "gw_chunks (tickG w) = gw_chunks w"
  "gw_alerts (tickG w) = gw_alerts w"
  by (simp_all add: tickG_def)

text \<open>Before the backends are asked, nothing but the counter of steps changes.\<close>

definition idle :: "GwWorld \<Rightarrow> GwWorld \<Rightarrow> bool" where
  "idle w w' = (\<exists>n. w' = w\<lparr>gw_tick := n\<rparr>)"

lemma idle_refl [simp]: "idle w w"
  unfolding idle_def by (rule exI [of _ "gw_tick w"]) simp

lemma idle_tick [simp]: "idle w (tickG w)"
  by (auto simp: idle_def tickG_def)

lemma idle_trans [trans]: "idle w w' \<Longrightarrow> idle w' w'' \<Longrightarrow> idle w w''"
  by (auto simp: idle_def)

lemma idle_simps:
  assumes "idle w w'"
  shows "gw_quota w' = gw_quota w" "gw_usage w' = gw_usage w" "gw_traces w' = gw_traces w" "gw_routes w' = gw_routes w"
    "gw_sent w' = gw_sent w" "gw_chunks w' = gw_chunks w" "gw_alerts w' = gw_alerts w"
  using assms by (auto simp: idle_def)

lemma guardFor_idle: "guardFor env t w = (g, w') \<Longrightarrow> idle w w'"
  using guardFor_frame by fastforce

lemma guardInput_idle: "guardInput env t chat trace w = Some (r, trace', w') \<Longrightarrow> idle w w'"
  by (auto simp: guardInput_def Let_def dest: guardFor_idle split: prod.splits option.splits)

lemma retrieveContext_idle: "retrieveContext env req chat trace w = (c, s, trace', w') \<Longrightarrow> idle w w'"
  by (auto simp: retrieveContext_def Let_def split: option.splits sum.splits if_splits)

lemma prepare_idle: "prepare env req trace w = Some (r, trace', w') \<Longrightarrow> idle w w'"
  by (auto simp: prepare_def split: option.splits prod.splits sum.splits
      dest!: guardInput_idle retrieveContext_idle intro: idle_trans)

lemma precheckQuota_idle: "precheckQuota env t chat w = (r, w') \<Longrightarrow> idle w w'"
  by (auto simp: precheckQuota_def split: if_splits sum.splits)

lemma resolveRouteModel_idle: "resolveRouteModel env t model w = (r, w') \<Longrightarrow> idle w w'"
  by (auto simp: resolveRouteModel_def split: prod.splits if_splits option.splits sum.splits)

lemma startTrace_idle: "startTrace env req w = (trace, w') \<Longrightarrow> idle w w'"
  by (auto simp: startTrace_def)

end
