(* ===== verification/LlmGatewayProofs.thy ===== *)
theory LlmGatewayProofs
  imports LlmGateway
begin

text \<open>
  What a request through the gateway does: which backends it asks and marks, what it charges, what the guard
  saw of it.  Frame lemmas say which part of the world each step of \<^verbatim>\<open>app/llmgateway/service.go\<close> leaves alone.
\<close>

section \<open>Frames of settlement\<close>

lemma finishG_frame:
  "finishG env trace u c e w = (trace', w') \<Longrightarrow>
     gw_quota w' = gw_quota w \<and> gw_usage w' = gw_usage w \<and> gw_routes w' = gw_routes w \<and> gw_sent w' = gw_sent w \<and> gw_chunks w' = gw_chunks w"
  by (auto simp: finishG_def Let_def split: option.splits)

lemma budgetAlert_frame:
  "gw_quota (budgetAlert env t w) = gw_quota w" "gw_usage (budgetAlert env t w) = gw_usage w"
  "gw_routes (budgetAlert env t w) = gw_routes w" "gw_sent (budgetAlert env t w) = gw_sent w"
  "gw_chunks (budgetAlert env t w) = gw_chunks w"
  by (auto simp: budgetAlert_def Let_def split: sum.splits)

lemma consume_frame:
  "gw_usage (consume env t n c w) = gw_usage w" "gw_routes (consume env t n c w) = gw_routes w"
  "gw_sent (consume env t n c w) = gw_sent w" "gw_chunks (consume env t n c w) = gw_chunks w"
  by (simp_all add: consume_def budgetAlert_frame)

lemma recordUsage_frame:
  "gw_quota (recordUsage env r w) = gw_quota w" "gw_routes (recordUsage env r w) = gw_routes w"
  "gw_sent (recordUsage env r w) = gw_sent w" "gw_chunks (recordUsage env r w) = gw_chunks w"
  by (auto simp: recordUsage_def split: option.splits)

lemma gwSettle_frame:
  assumes "settle env req trace u e w = (trace', w')"
  shows "gw_routes w' = gw_routes w \<and> gw_sent w' = gw_sent w \<and> gw_chunks w' = gw_chunks w"
  using assms finishG_frame
  by (fastforce simp: settle_def Let_def recordUsage_frame consume_frame split: prod.splits)

lemma settle_quota:
  "gw_quota (snd (settle env req trace u e w))
     = gw_quota (consume env (gq_TenantID req) (us_Total (UsageNormalize u))
         (case gx_prices env of None \<Rightarrow> Fin 0 | Some b \<Rightarrow> BookCost (gx_fo env) (gx_perm env) (cr_Model (gq_Chat req)) (UsageNormalize u) b) w)"
  using finishG_frame by (fastforce simp: settle_def Let_def recordUsage_frame split: prod.splits)

lemma abort_frame:
  assumes "abort env trace u e w = (r, w')"
  shows "r = Inl e" "gw_quota w' = gw_quota w" "gw_usage w' = gw_usage w" "gw_routes w' = gw_routes w" "gw_sent w' = gw_sent w"
    "gw_chunks w' = gw_chunks w"
  using assms finishG_frame [of env trace u "Fin 0" "Some (gwText e)" w "fst (finishG env trace u (Fin 0) (Some (gwText e)) w)" w']
  by (auto simp: abort_def)

section \<open>Frames of the backends\<close>

lemma markUnhealthy_simps [simp]:
  "gw_quota (markUnhealthy m b w) = gw_quota w" "gw_usage (markUnhealthy m b w) = gw_usage w"
  "gw_sent (markUnhealthy m b w) = gw_sent w" "gw_chunks (markUnhealthy m b w) = gw_chunks w" "gw_tick (markUnhealthy m b w) = gw_tick w"
  by (simp_all add: markUnhealthy_def)

lemma pickBackends_frame:
  "pickBackends env t m w = (r, w') \<Longrightarrow>
     gw_quota w' = gw_quota w \<and> gw_usage w' = gw_usage w \<and> gw_sent w' = gw_sent w \<and> gw_chunks w' = gw_chunks w"
  by (auto simp: pickBackends_def split: prod.splits)

lemma failoverLoop_frame:
  "failoverLoop env m req bs e w = (r, w') \<Longrightarrow> gw_quota w' = gw_quota w \<and> gw_usage w' = gw_usage w \<and> gw_chunks w' = gw_chunks w"
proof (induction bs arbitrary: e w)
  case (Cons b bs)
  show ?case using Cons.prems by (auto simp: Let_def split: sum.splits if_splits dest!: Cons.IH)
qed simp

lemma streamLoop_frame:
  "streamLoop env m req bs u e trace w = (ok, u', e', trace', w') \<Longrightarrow> gw_quota w' = gw_quota w \<and> gw_usage w' = gw_usage w"
proof (induction bs arbitrary: u e trace w)
  case (Cons b bs)
  show ?case using Cons.prems by (auto simp: Let_def split: prod.splits option.splits if_splits dest!: Cons.IH)
qed simp

section \<open>A concrete gateway\<close>

definition demoChat :: ChatRequest where
  "demoChat = \<lparr>cr_Model = ''m'', cr_Messages = [\<lparr>msg_Role = RoleUser, msg_Content = ''hi'', msg_Name = []\<rparr>], cr_Temperature = Fin 0,
     cr_TopP = Fin 0, cr_MaxTokens = 0, cr_Stream = False, cr_Stop = [], cr_StreamOptions = None, cr_User = []\<rparr>"

definition demoReq :: GwRequest where
  "demoReq = \<lparr>gq_Chat = demoChat, gq_TenantID = ''t'', gq_UserID = ''u'', gq_KnowledgeBaseID = [], gq_TopK = 0\<rparr>"

definition demoResp :: ChatResponse where
  "demoResp = \<lparr>rp_ID = ''r'', rp_Model = ''m'', rp_Choices = [\<lparr>ch_Index = 0,
      ch_Message = \<lparr>msg_Role = RoleAssistant, msg_Content = ''hello'', msg_Name = []\<rparr>, ch_FinishReason = ''stop''\<rparr>],
     rp_Usage = \<lparr>us_Prompt = 5, us_Completion = 10, us_Total = 15\<rparr>, rp_Created = 0\<rparr>"

definition demoBackend :: "string \<Rightarrow> int \<Rightarrow> Backend" where
  "demoBackend name weight = \<lparr>bk_Name = name, bk_Endpoint = name, bk_Weight = weight, bk_Healthy = True, bk_ServiceID = []\<rparr>"

definition demoRoute2 :: Route where
  "demoRoute2 = \<lparr>ro_Model = ''m'', ro_Strategy = StrategyPriority, ro_Backends = [demoBackend ''a'' 2, demoBackend ''b'' 1]\<rparr>"

definition demoChunk :: Chunk where
  "demoChunk = \<lparr>ck_ID = [], ck_ChunkModel = ''m'', ck_Delta = ''hello'', ck_Finish = [], ck_Usage = None\<rparr>"

text \<open>The first backend is down; the guard has no rules; the tenant has used none of its ten tokens.\<close>

definition demoGw :: GwEnv where
  "demoGw = \<lparr>gx_time = (\<lambda>n. int n), gx_id = (\<lambda>_. ''id''),
     gx_complete = (\<lambda>_ ep _. if ep = ''a'' then Inl ''down'' else Inr demoResp),
     gx_stream = (\<lambda>_ ep _. if ep = ''a'' then ([], Some ''down'', noUsage) else ([demoChunk], None, rp_Usage demoResp)),
     gx_cancelled = (\<lambda>_. False), gx_routesOf = (\<lambda>_. Some [demoRoute2]), gx_random = (\<lambda>_ _. 0),
     gx_guardEnv = \<lparr>ge_compile = \<lambda>_. None, ge_lower = id\<rparr>, gx_guards = Some (\<lambda>_ _. Inr []), gx_retrieve = None, gx_mounts = None,
     gx_prices = None, gx_perm = id, gx_quota = True, gx_quotaFault = (\<lambda>_ _. None), gx_usage = Some (\<lambda>_. None), gx_traces = None,
     gx_alert = False,
     gx_fo = \<lparr>fo_add = \<lambda>x y. x, fo_mul = \<lambda>x y. x, fo_div = \<lambda>x y. x, fo_sqrt = id, fo_ofInt = \<lambda>n. Fin (of_int n)\<rparr>,
     gx_seconds = (\<lambda>_. Fin 0), gx_client = (\<lambda>_ _. None)\<rparr>"

definition demoGwWorld :: "nat \<Rightarrow> (string \<Rightarrow> bool option) \<Rightarrow> GwWorld" where
  "demoGwWorld n h = \<lparr>gw_quota = [\<lparr>tq_TenantID = ''t'', tq_LimitTokens = 10, tq_UsedTokens = 0, tq_LimitCost = Fin 0, tq_UsedCost = Fin 0\<rparr>],
     gw_usage = [], gw_traces = [], gw_routes = \<lparr>rp_healthy = h, rp_cursor = \<lambda>_. 0\<rparr>, gw_sent = [], gw_chunks = [], gw_alerts = [], gw_tick = n\<rparr>"

lemma demo_resolve: "resolveRouteModel demoGw t ''m'' w = (Inr ''m'', w)"
  by (simp add: resolveRouteModel_def SplitServedName_def TrimSpace_plain plain_def servedNameSep_def)

lemma demo_pick:
  "pickBackends demoGw ''t'' ''m'' (demoGwWorld n (\<lambda>_. None))
     = (Inr [demoBackend ''a'' 2, demoBackend ''b'' 1],
        demoGwWorld (Suc n) ((\<lambda>_. None)(''m/a'' := Some True, ''m/b'' := Some True)))"
  by (simp add: pickBackends_def demoGw_def demoGwWorld_def PickForTenant_def lookupRoute_def fallbackTenant_def demoRoute2_def
      demoBackend_def Let_def orderBackends_def byWeight_def backendKey_def tickG_def)

lemma demo_tick: "tickG (demoGwWorld n h) = demoGwWorld (Suc n) h"
  by (simp add: tickG_def demoGwWorld_def)

lemma demo_start: "startTrace demoGw demoReq (demoGwWorld n h)
   = ((NewTrace ''id'' ''m'' (int n))\<lparr>tc_TenantID := ''t'', tc_UserID := ''u''\<rparr>, demoGwWorld (Suc n) h)"
  by (simp add: startTrace_def nowG_def demo_tick) (simp add: demoGw_def demoReq_def demoChat_def demoGwWorld_def)

lemma demo_valid: "ChatValidate (gq_Chat demoReq) = None"
  by (simp add: ChatValidate_def demoReq_def demoChat_def TrimSpace_plain plain_def ValidRole_def RoleUser_def)

lemma demo_prepare: "\<exists>tr'. prepare demoGw demoReq tr (demoGwWorld n h) = Some (Inr (demoChat, []), tr', demoGwWorld (Suc n) h)"
  by (simp add: prepare_def guardInput_def guardFor_def retrieveContext_def demoGw_def demoReq_def demoChat_def RoleUser_def Check_def
      demo_tick Blocked_def Let_def)

lemma demo_precheck: "precheckQuota demoGw ''t'' demoChat (demoGwWorld n h) = (None, demoGwWorld (Suc n) h)"
proof -
  have p: "Prompt demoChat = ''user: hi''" by (simp add: Prompt_def demoChat_def RoleUser_def)
  have "EstimateTokens ''user: hi'' \<le> 8" using EstimateTokens_bounds [of "''user: hi''"] by simp
  then have "i64 (int (EstimateTokens ''user: hi'')) \<le> 10" by (simp add: in_i64_def)
  then show ?thesis
    by (simp add: precheckQuota_def p CanConsume_def GetTokenQuota_def demoGw_def tickG_def demoGwWorld_def)
qed

lemma demo_failover:
  "\<exists>h'. completeWithFailover demoGw ''t'' demoChat (demoGwWorld n (\<lambda>_. None))
     = (Inr (demoResp, ''b''), demoGwWorld (n + 3) h' \<lparr>gw_sent := [(''a'', demoChat), (''b'', demoChat)]\<rparr>)"
  unfolding completeWithFailover_def
  by (simp add: demo_resolve demo_pick demoChat_def) (simp add: demoGw_def demoBackend_def Let_def demoGwWorld_def tickG_def markUnhealthy_def
      RepoSetHealth_def backendKey_def)

lemma demo_complete: "\<exists>w'. Complete demoGw demoReq (demoGwWorld 0 (\<lambda>_. None)) = Some (Inr (demoResp, []), w')"
proof -
  obtain tr where p: "prepare demoGw demoReq (NewTrace ''id'' ''m'' 0\<lparr>tc_TenantID := ''t'', tc_UserID := ''u''\<rparr>) (demoGwWorld (Suc 0) (\<lambda>_. None))
      = Some (Inr (demoChat, []), tr, demoGwWorld 2 (\<lambda>_. None))"
    using demo_prepare [of _ "Suc 0"] by (metis numeral_2_eq_2)
  have q: "precheckQuota demoGw ''t'' demoChat (demoGwWorld 2 (\<lambda>_. None)) = (None, demoGwWorld 3 (\<lambda>_. None))"
    using demo_precheck [of 2] by simp
  obtain w where f: "completeWithFailover demoGw ''t'' demoChat (demoGwWorld 3 (\<lambda>_. None)) = (Inr (demoResp, ''b''), w)"
    using demo_failover by blast
  have "gq_TenantID demoReq = ''t''" by (simp add: demoReq_def)
  moreover have "gx_guards demoGw = Some (\<lambda>_ _. Inr [])" "gx_guardEnv demoGw = \<lparr>ge_compile = \<lambda>_. None, ge_lower = id\<rparr>"
    by (simp_all add: demoGw_def)
  ultimately show ?thesis
    by (simp add: Complete_def demo_start demo_valid p q f guardOutput_def guardFor_def Check_def Blocked_def Modified_def Let_def
      case_prod_unfold)
qed

section \<open>Failover\<close>

text \<open>The backends asked are an initial part of those offered; each but the last that answered is marked.\<close>

definition marked :: "string \<Rightarrow> Backend list \<Rightarrow> RepoTable \<Rightarrow> RepoTable" where
  "marked model bs t = fold (\<lambda>b t. snd (RepoSetHealth model (bk_Name b) False t)) bs t"

lemma marked_simps [simp]:
  "marked model [] t = t" "marked model (b # bs) t = marked model bs (snd (RepoSetHealth model (bk_Name b) False t))"
  by (simp_all add: marked_def)

definition firstAnswer :: "GwEnv \<Rightarrow> nat \<Rightarrow> ChatRequest \<Rightarrow> Backend list \<Rightarrow> nat \<Rightarrow> bool" where
  "firstAnswer env n req bs k =
     (k < length bs \<and> (\<exists>x. gx_complete env (n + k) (bk_Endpoint (bs ! k)) req = Inr x)
      \<and> (\<forall>i<k. \<exists>e. gx_complete env (n + i) (bk_Endpoint (bs ! i)) req = Inl e \<and> \<not> gx_cancelled env (n + Suc i)))"

lemma failoverLoop_answer:
  assumes "firstAnswer env (gw_tick w) req bs k"
  shows "\<exists>x w'. failoverLoop env model req bs e w = (Inr (x, bk_Name (bs ! k)), w')
    \<and> gx_complete env (gw_tick w + k) (bk_Endpoint (bs ! k)) req = Inr x
    \<and> gw_routes w' = marked model (take k bs) (gw_routes w)
    \<and> gw_sent w' = gw_sent w @ map (\<lambda>b. (bk_Endpoint b, req)) (take (Suc k) bs)"
  using assms
proof (induction bs arbitrary: k e w)
  case (Cons b bs)
  let ?w = "tickG (w\<lparr>gw_sent := gw_sent w @ [(bk_Endpoint b, req)]\<rparr>)"
  have tk: "gw_tick ?w = Suc (gw_tick w)" by (simp add: tickG_def)
  show ?case
  proof (cases k)
    case 0
    then show ?thesis using Cons.prems by (auto simp: firstAnswer_def Let_def)
  next
    case (Suc j)
    obtain e' where e': "gx_complete env (gw_tick w) (bk_Endpoint b) req = Inl e'" "\<not> gx_cancelled env (Suc (gw_tick w))"
      using Cons.prems Suc by (fastforce simp: firstAnswer_def)
    have "firstAnswer env (gw_tick (markUnhealthy model (bk_Name b) ?w)) req bs j"
      using Cons.prems Suc unfolding markUnhealthy_simps tk
      by (auto simp: firstAnswer_def)
    from Cons.IH [OF this, of "Some e'"] show ?thesis
      using e' Suc tk by (auto simp: Let_def markUnhealthy_def)
  qed
qed (simp add: firstAnswer_def)

text \<open>Failover gives the first answer.  Of the backends offered for a model, in their order, the request goes to each until one
  answers; the caller gets that answer and its name, exactly the backends before it are marked unhealthy, and the
  backends after it never see the request.\<close>
theorem failover_first_success:
  assumes "resolveRouteModel env tenant (cr_Model req) w = (Inr model, w1)"
    and "pickBackends env tenant model w1 = (Inr bs, w2)"
    and "firstAnswer env (gw_tick w2) req bs k"
  shows "\<exists>x w'. completeWithFailover env tenant req w = (Inr (x, bk_Name (bs ! k)), w')
    \<and> gx_complete env (gw_tick w2 + k) (bk_Endpoint (bs ! k)) req = Inr x
    \<and> gw_routes w' = marked model (take k bs) (gw_routes w2)
    \<and> gw_sent w' = gw_sent w @ map (\<lambda>b. (bk_Endpoint b, req)) (take (Suc k) bs)"
proof -
  have "gw_sent w2 = gw_sent w"
    using pickBackends_frame [OF assms(2)] idle_simps(5) [OF resolveRouteModel_idle [OF assms(1)]] by simp
  then show ?thesis
    using failoverLoop_answer [OF assms(3), of model None] by (simp add: completeWithFailover_def assms(1,2))
qed

lemma failover_first_success_witness:
  "\<exists>w'. completeWithFailover demoGw ''t'' demoChat (demoGwWorld 0 (\<lambda>_. None)) = (Inr (demoResp, ''b''), w')
    \<and> map fst (gw_sent w') = [''a'', ''b''] \<and> rp_healthy (gw_routes w') ''m/a'' = Some False"
proof -
  have r: "resolveRouteModel demoGw ''t'' (cr_Model demoChat) (demoGwWorld 0 (\<lambda>_. None)) = (Inr ''m'', demoGwWorld 0 (\<lambda>_. None))"
    by (simp add: demo_resolve demoChat_def)
  have f: "firstAnswer demoGw (gw_tick (demoGwWorld (Suc 0) h)) demoChat [demoBackend ''a'' 2, demoBackend ''b'' 1] 1" for h
    by (simp add: firstAnswer_def demoGw_def demoBackend_def demoGwWorld_def)
  show ?thesis
    using failover_first_success [OF r demo_pick f]
    by (auto simp: demoBackend_def demoGw_def demoGwWorld_def RepoSetHealth_def backendKey_def)
qed

section \<open>What every request keeps\<close>

text \<open>
  A relation between worlds that every single step of a request of the tenant respects holds between the worlds before
  and after the request.
\<close>

locale gateway_frame =
  fixes tenant :: string and R :: "GwWorld \<Rightarrow> GwWorld \<Rightarrow> bool"
  assumes R_trans: "R w w' \<Longrightarrow> R w' w'' \<Longrightarrow> R w w''"
    and R_idle: "idle w w' \<Longrightarrow> R w w'"
    and R_pick: "R w (snd (pickBackends env t model w))"
    and R_asked: "R w (tickG (w\<lparr>gw_sent := xs\<rparr>))"
    and R_chunks: "R w (tickG (w\<lparr>gw_sent := xs, gw_chunks := cs\<rparr>))"
    and R_mark: "R w (markUnhealthy model b w)"
    and R_finish: "R w (snd (finishG env trace u c e w))"
    and R_settle: "gq_TenantID req = tenant \<Longrightarrow> R w (snd (settle env req trace u e w))"
begin

lemma R_tick: "R w (tickG w)"
  by (rule R_idle) simp

lemma failoverLoop_R: "failoverLoop env model req bs e w = (r, w') \<Longrightarrow> R w w'"
proof (induction bs arbitrary: e w)
  case Nil
  then show ?case using R_idle [of w w] by simp
next
  case (Cons b bs)
  let ?w = "tickG (w\<lparr>gw_sent := gw_sent w @ [(bk_Endpoint b, req)]\<rparr>)"
  have m: "R w (markUnhealthy model (bk_Name b) ?w)" by (rule R_trans [OF R_asked R_mark])
  show ?case
    using Cons.prems Cons.IH R_trans [OF m] m R_asked
    by (auto simp: Let_def split: sum.splits if_splits)
qed

lemma streamLoop_R: "streamLoop env model req bs u e trace w = (ok, u', e', trace', w') \<Longrightarrow> R w w'"
proof (induction bs arbitrary: u e trace w)
  case Nil
  then show ?case using R_idle [of w w] by simp
next
  case (Cons b bs)
  obtain chunks err u1 where g: "gx_stream env (gw_tick w) (bk_Endpoint b) req = (chunks, err, u1)" by (rule prod_cases3)
  let ?w = "tickG (w\<lparr>gw_sent := gw_sent w @ [(bk_Endpoint b, req)], gw_chunks := gw_chunks w @ chunks\<rparr>)"
  have m: "R w (markUnhealthy model (bk_Name b) ?w)" by (rule R_trans [OF R_chunks R_mark])
  show ?case
    using Cons.prems Cons.IH R_trans [OF m] R_chunks R_asked
    by (auto simp: Let_def g split: option.splits if_splits)
qed

lemma completeWithFailover_R: "completeWithFailover env t req w = (r, w') \<Longrightarrow> R w w'"
proof -
  assume a: "completeWithFailover env t req w = (r, w')"
  obtain x w1 where r: "resolveRouteModel env t (cr_Model req) w = (x, w1)" by fastforce
  have i: "R w w1" by (rule R_idle [OF resolveRouteModel_idle [OF r]])
  show ?thesis
  proof (cases x)
    case (Inl e)
    then show ?thesis using a r i by (simp add: completeWithFailover_def)
  next
    case (Inr model)
    obtain y w2 where p: "pickBackends env t model w1 = (y, w2)" by fastforce
    have "R w w2" using R_trans [OF i] R_pick [of w1 env t model] p by simp
    then show ?thesis using a r p Inr R_trans [OF _ failoverLoop_R]
      by (auto simp: completeWithFailover_def split: sum.splits)
  qed
qed

lemma abort_R: "R w w1 \<Longrightarrow> abort env trace u e w1 = (r, w') \<Longrightarrow> R w w'"
  using R_trans [OF _ R_finish] by (auto simp: abort_def)

lemma guardOutput_R:
  assumes "R w w1" and "guardOutput env req cits resp trace w1 = Some (r, w')" and "gq_TenantID req = tenant"
  shows "R w w'"
proof -
  obtain g w2 where g: "guardFor env (gq_TenantID req) w1 = (g, w2)" by fastforce
  have "R w w2" by (rule R_trans [OF assms(1) R_idle [OF guardFor_idle [OF g]]])
  then show ?thesis using assms(2) g R_trans [OF _ R_settle [OF assms(3)]]
    by (auto simp: guardOutput_def Let_def split: option.splits if_splits)
qed

lemma Complete_R:
  assumes "Complete env req w = Some (r, w')" and "gq_TenantID req = tenant"
  shows "R w w'"
proof -
  obtain tr w1 where t: "startTrace env req w = (tr, w1)" by fastforce
  have R1: "R w w1" by (rule R_idle [OF startTrace_idle [OF t]])
  show ?thesis
  proof (cases "ChatValidate (gq_Chat req)")
    case (Some e)
    then show ?thesis using assms(1) t abort_R [OF R1] by (auto simp: Complete_def)
  next
    case valid: None
    then obtain x tr2 w2 where p: "prepare env req tr w1 = Some (x, tr2, w2)"
      using assms(1) t by (auto simp: Complete_def split: option.splits)
    have R2: "R w w2" by (rule R_trans [OF R1 R_idle [OF prepare_idle [OF p]]])
    show ?thesis
    proof (cases x)
      case (Inl e)
      then show ?thesis using assms(1) t valid p abort_R [OF R2] by (auto simp: Complete_def)
    next
      case (Inr y)
      obtain chat cits where y: "y = (chat, cits)" by fastforce
      obtain q w3 where q: "precheckQuota env (gq_TenantID req) chat w2 = (q, w3)" by fastforce
      have R3: "R w w3" by (rule R_trans [OF R2 R_idle [OF precheckQuota_idle [OF q]]])
      obtain r4 w4 where c: "completeWithFailover env (gq_TenantID req) chat w3 = (r4, w4)" by fastforce
      have R4: "R w w4" by (rule R_trans [OF R3 completeWithFailover_R [OF c]])
      show ?thesis
        using assms t valid p Inr y q c abort_R [OF R3] abort_R [OF R4] guardOutput_R [OF R4]
        by (auto simp: Complete_def Let_def split: option.splits sum.splits)
    qed
  qed
qed

lemma endStream_R:
  assumes "R w w1" and "endStream env req chat cits u trace w1 = (r, w')" and "gq_TenantID req = tenant"
  shows "R w w'"
proof -
  have c: "R w (tickG (w1\<lparr>gw_chunks := cs\<rparr>))" for cs
    using R_trans [OF assms(1) R_chunks [where xs = "gw_sent w1" and cs = cs]] by simp
  show ?thesis using assms(2) R_trans [OF assms(1) R_settle [OF assms(3)]] R_trans [OF c R_settle [OF assms(3)]] abort_R [OF c]
    by (auto simp: endStream_def Let_def split: if_splits option.splits)
qed

lemma Stream_R:
  assumes "Stream env req w = Some (r, w')" and "gq_TenantID req = tenant"
  shows "R w w'"
proof -
  obtain tr w1 where t: "startTrace env req w = (tr, w1)" by fastforce
  have R1: "R w w1" by (rule R_idle [OF startTrace_idle [OF t]])
  show ?thesis
  proof (cases "ChatValidate (gq_Chat req)")
    case (Some e)
    then show ?thesis using assms(1) t abort_R [OF R1] by (auto simp: Stream_def)
  next
    case valid: None
    then obtain x tr2 w2 where p: "prepare env req tr w1 = Some (x, tr2, w2)"
      using assms(1) t by (auto simp: Stream_def split: option.splits)
    have R2: "R w w2" by (rule R_trans [OF R1 R_idle [OF prepare_idle [OF p]]])
    show ?thesis
    proof (cases x)
      case (Inl e)
      then show ?thesis using assms(1) t valid p abort_R [OF R2] by (auto simp: Stream_def)
    next
      case (Inr y)
      obtain chat cits where y: "y = (chat, cits)" by fastforce
      obtain q w3 where q: "precheckQuota env (gq_TenantID req) chat w2 = (q, w3)" by fastforce
      have R3: "R w w3" by (rule R_trans [OF R2 R_idle [OF precheckQuota_idle [OF q]]])
      obtain m w4 where c: "resolveRouteModel env (gq_TenantID req) (cr_Model chat) w3 = (m, w4)" by fastforce
      have R4: "R w w4" by (rule R_trans [OF R3 R_idle [OF resolveRouteModel_idle [OF c]]])
      have pick: "R w w5" if "pickBackends env t model w4 = (b, w5)" for t model b w5
        using R_trans [OF R4 R_pick [of w4 env t model]] that by simp
      have loop: "R w w6"
        if "pickBackends env t model w4 = (b, w5)" "streamLoop env model chat bs noUsage None trace w5 = (ok, u', e', trace', w6)"
        for t model b w5 bs trace ok u' e' trace' w6
        by (rule R_trans [OF pick [OF that(1)] streamLoop_R [OF that(2)]])
      show ?thesis
        using assms t valid p Inr y q c abort_R [OF R3] abort_R [OF R4] abort_R [OF pick] abort_R [OF loop] endStream_R [OF loop]
        by (auto simp: Stream_def Let_def split: option.splits sum.splits prod.splits if_splits)
    qed
  qed
qed

end

section \<open>Outages\<close>

definition keepsDown :: "GwWorld \<Rightarrow> GwWorld \<Rightarrow> bool" where
  "keepsDown w w' = (\<forall>k. rp_healthy (gw_routes w) k = Some False \<longrightarrow> rp_healthy (gw_routes w') k = Some False)"

lemma healthyLoop_down: "h k = Some False \<Longrightarrow> snd (healthyLoop model h bs) k = Some False"
proof (induction bs arbitrary: h)
  case (Cons b bs)
  let ?h = "h(backendKey model (bk_Name b) := Some True)"
  have "?h k = Some False" if "h (backendKey model (bk_Name b)) = None" using that Cons.prems by auto
  then show ?case using Cons.prems Cons.IH [of h] Cons.IH [of ?h]
    by (auto simp: Let_def case_prod_unfold simp del: fun_upd_apply)
qed simp

lemma PickForTenant_down:
  "rp_healthy t k = Some False \<Longrightarrow> rp_healthy (snd (PickForTenant routesOf rnd tenant model t)) k = Some False"
  by (auto simp: PickForTenant_def Let_def healthyLoop_down case_prod_unfold split: option.split)

lemma healthyLoop_all_down:
  "\<forall>b\<in>set bs. h (backendKey model (bk_Name b)) = Some False \<Longrightarrow> healthyLoop model h bs = ([], h)"
  by (induction bs) (auto simp: Let_def)

interpretation outages: gateway_frame tenant keepsDown
proof
  show "keepsDown w (snd (pickBackends env t model w))" for w env t model
    using PickForTenant_down [of "gw_routes w"] by (auto simp: keepsDown_def pickBackends_def case_prod_unfold Let_def)
  show "keepsDown w (markUnhealthy model b w)" for w model b
    by (auto simp: keepsDown_def markUnhealthy_def RepoSetHealth_def Let_def)
  show "keepsDown w (snd (finishG env trace u c e w))" for env trace u c e w
    using finishG_frame [OF surjective_pairing] by (simp add: keepsDown_def)
  show "keepsDown w (snd (settle env req trace u e w))" for env req trace u e w
    using gwSettle_frame [OF surjective_pairing] by (simp add: keepsDown_def)
  show "keepsDown w w'" if "idle w w'" for w w' using idle_simps [OF that] by (simp add: keepsDown_def)
qed (auto simp: keepsDown_def)

text \<open>The worlds that requests of any tenants, in any environments, lead to.\<close>

inductive gwReach :: "GwWorld \<Rightarrow> GwWorld \<Rightarrow> bool" where
  start: "gwReach w w"
| complete: "gwReach w w1 \<Longrightarrow> Complete env req w1 = Some (r, w2) \<Longrightarrow> gwReach w w2"
| stream: "gwReach w w1 \<Longrightarrow> Stream env req w1 = Some (r', w2) \<Longrightarrow> gwReach w w2"

lemma gwReach_down: "gwReach w w' \<Longrightarrow> keepsDown w w'"
proof (induction rule: gwReach.induct)
  case (start w)
  then show ?case by (simp add: keepsDown_def)
next
  case (complete w w1 env req r w2)
  then show ?case using outages.R_trans outages.Complete_R [OF _ refl] by blast
next
  case (stream w w1 env req r' w2)
  then show ?case using outages.R_trans outages.Stream_R [OF _ refl] by blast
qed



section \<open>The ledger\<close>

definition othersKept :: "string \<Rightarrow> GwWorld \<Rightarrow> GwWorld \<Rightarrow> bool" where
  "othersKept tenant w w' = (\<forall>t. t \<noteq> tenant \<longrightarrow> tfind tq_TenantID (gw_quota w') t = tfind tq_TenantID (gw_quota w) t)"

lemma consumeBody_others:
  "consumeBody fo tenant n c db = (e, db') \<Longrightarrow> t \<noteq> tenant \<Longrightarrow> tfind tq_TenantID db' t = tfind tq_TenantID db t"
  by (auto simp: consumeBody_def tfind_tsave split: option.splits if_splits dest: tfind_key)

lemma CheckAndConsume_others:
  "t \<noteq> tenant \<Longrightarrow> tfind tq_TenantID (snd (CheckAndConsume fault fo tenant n c db)) t = tfind tq_TenantID db t"
  using tokenRetry_cases [OF surjective_pairing] consumeBody_others unfolding CheckAndConsume_def by metis

interpretation ledgers: gateway_frame tenant "othersKept tenant"
proof
  show "othersKept tenant w (snd (pickBackends env t model w))" for w env t model
    using pickBackends_frame [OF surjective_pairing] by (simp add: othersKept_def)
  show "othersKept tenant w (snd (finishG env trace u c e w))" for env trace u c e w
    using finishG_frame [OF surjective_pairing] by (simp add: othersKept_def)
  show "othersKept tenant w (snd (settle env req trace u e w))" if "gq_TenantID req = tenant" for env req trace u e w
    using that CheckAndConsume_others by (simp add: othersKept_def settle_quota consume_def budgetAlert_frame)
  show "othersKept tenant w w'" if "idle w w'" for w w' using idle_simps [OF that] by (simp add: othersKept_def)
qed (auto simp: othersKept_def)

lemma consumeBody_exceeded:
  assumes "tfind tq_TenantID db tenant = Some q" and "0 < tq_LimitTokens q" and "tq_LimitTokens q < i64 (tq_UsedTokens q + n)"
  shows "consumeBody fo tenant n c db = (Some TokExceeded, db)"
  using assms by (simp add: consumeBody_def)

lemma consume_exceeded:
  assumes "tfind tq_TenantID (gw_quota w) tenant = Some q" and "0 < tq_LimitTokens q" and "tq_LimitTokens q < i64 (tq_UsedTokens q + n)"
  shows "gw_quota (consume env tenant n c w) = gw_quota w"
  using tokenRetry_refused [where fn = "consumeBody (gx_fo env) tenant n c", OF consumeBody_exceeded [OF assms]]
  by (simp add: consume_def budgetAlert_frame CheckAndConsume_def)

section \<open>A completed request\<close>

lemma guardOutput_success:
  assumes "guardOutput env req cits resp0 tr w = Some (Inr (resp, cits'), w')"
  shows "rp_Usage resp = rp_Usage resp0 \<and> cits' = cits \<and> (\<exists>tr' w1. idle w w1 \<and> w' = snd (settle env req tr' (rp_Usage resp0) None w1))"
    and "gx_guards env = Some g \<Longrightarrow> g (gw_tick w) (gq_TenantID req) = Inr guard \<Longrightarrow>
      \<exists>res. Check (gx_guardEnv env) guard (ResponseText resp0) DirectionOutput = Some res \<and> \<not> Blocked res
        \<and> ResponseText resp = (if Modified res \<and> rp_Choices resp0 \<noteq> [] then gr_Content res else ResponseText resp0)"
proof -
  obtain go w1 where f: "guardFor env (gq_TenantID req) w = (go, w1)" by fastforce
  note i = guardFor_idle [OF f]
  show "rp_Usage resp = rp_Usage resp0 \<and> cits' = cits \<and> (\<exists>tr' w1. idle w w1 \<and> w' = snd (settle env req tr' (rp_Usage resp0) None w1))"
    using assms f i by (auto simp: guardOutput_def Let_def setFirstChoice_def split: option.splits if_splits list.splits)
  show "\<exists>res. Check (gx_guardEnv env) guard (ResponseText resp0) DirectionOutput = Some res \<and> \<not> Blocked res
        \<and> ResponseText resp = (if Modified res \<and> rp_Choices resp0 \<noteq> [] then gr_Content res else ResponseText resp0)"
    if "gx_guards env = Some g" "g (gw_tick w) (gq_TenantID req) = Inr guard"
  proof -
    note loaded = that
    obtain res where c: "Check (gx_guardEnv env) guard (ResponseText resp0) DirectionOutput = Some res"
      using assms loaded by (auto simp: guardOutput_def guardFor_def Let_def split: option.splits)
    show ?thesis
      using assms loaded c by (intro exI [of _ res]) (auto simp: guardOutput_def guardFor_def Let_def setFirstChoice_def ResponseText_def
        split: if_splits list.splits)
  qed
qed

lemma Complete_success:
  assumes "Complete env req w = Some (Inr (resp, cits), w')"
  obtains tr w1 chat tr2 w2 w3 resp0 backend tr4 w4 where
    "idle w w1" "prepare env req tr w1 = Some (Inr (chat, cits), tr2, w2)" "idle w w3"
    "completeWithFailover env (gq_TenantID req) chat w3 = (Inr (resp0, backend), w4)"
    "guardOutput env req cits resp0 tr4 w4 = Some (Inr (resp, cits), w')"
proof -
  obtain tr w1 where t: "startTrace env req w = (tr, w1)" by fastforce
  note i1 = startTrace_idle [OF t]
  have v: "ChatValidate (gq_Chat req) = None" using assms t by (auto simp: Complete_def abort_def split: option.splits)
  then obtain chat cits' tr2 w2 where p: "prepare env req tr w1 = Some (Inr (chat, cits'), tr2, w2)"
    using assms t by (auto simp: Complete_def abort_def split: option.splits sum.splits)
  obtain w3 where q: "precheckQuota env (gq_TenantID req) chat w2 = (None, w3)"
    using assms t v p by (auto simp: Complete_def abort_def split: prod.splits option.splits)
  have i3: "idle w w3" by (rule idle_trans [OF idle_trans [OF i1 prepare_idle [OF p]] precheckQuota_idle [OF q]])
  obtain r4 w4 where c: "completeWithFailover env (gq_TenantID req) chat w3 = (r4, w4)" by fastforce
  obtain resp0 backend tr4 where g: "r4 = Inr (resp0, backend)" "guardOutput env req cits' resp0 tr4 w4 = Some (Inr (resp, cits), w')"
    using assms t v p q c by (auto simp: Complete_def Let_def abort_def split: prod.splits sum.splits)
  then have "cits' = cits" using guardOutput_success(1) [OF g(2)] by simp
  then show thesis using that [OF i1 _ i3 _ , of tr chat tr2 w2 resp0 backend w4 tr4] p c g by simp
qed

text \<open>A request that overruns its quota costs nothing.  Where the tokens of a served answer exceed what is left of the tenant's limit,
  the consumption is refused after the answer was given: the ledger stays exactly as it was, and the next such
  request is admitted in the same way.\<close>
theorem overrun_never_counted:
  assumes "Complete env req w = Some (Inr (resp, cits), w')"
    and "tfind tq_TenantID (gw_quota w) (gq_TenantID req) = Some q" and "0 < tq_LimitTokens q"
    and "tq_LimitTokens q < i64 (tq_UsedTokens q + us_Total (UsageNormalize (rp_Usage resp)))"
  shows "gw_quota w' = gw_quota w"
proof -
  obtain chat w3 resp0 backend tr4 w4 where
    i: "idle w w3" and c: "completeWithFailover env (gq_TenantID req) chat w3 = (Inr (resp0, backend), w4)"
    and g: "guardOutput env req cits resp0 tr4 w4 = Some (Inr (resp, cits), w')"
    using Complete_success [OF assms(1)] by metis
  obtain tr' w5 where s: "idle w4 w5" "w' = snd (settle env req tr' (rp_Usage resp) None w5)"
    using guardOutput_success(1) [OF g] by auto
  obtain model w4a w4b bs where "resolveRouteModel env (gq_TenantID req) (cr_Model chat) w3 = (Inr model, w4a)"
    "pickBackends env (gq_TenantID req) model w4a = (Inr bs, w4b)" "failoverLoop env model chat bs None w4b = (Inr (resp0, backend), w4)"
    using c by (auto simp: completeWithFailover_def split: prod.splits sum.splits)
  then have "gw_quota w4 = gw_quota w"
    using idle_simps(1) [OF i] idle_simps(1) [OF resolveRouteModel_idle] pickBackends_frame failoverLoop_frame by metis
  then have "gw_quota w5 = gw_quota w" using idle_simps(1) [OF s(1)] by simp
  then show ?thesis using s(2) consume_exceeded assms(2-4) by (simp add: settle_quota)
qed

lemma overrun_never_counted_witness:
  "\<exists>w'. Complete demoGw demoReq (demoGwWorld 0 (\<lambda>_. None)) = Some (Inr (demoResp, []), w')
    \<and> gw_quota w' = gw_quota (demoGwWorld 0 (\<lambda>_. None))"
proof -
  obtain w' where c: "Complete demoGw demoReq (demoGwWorld 0 (\<lambda>_. None)) = Some (Inr (demoResp, []), w')"
    using demo_complete by blast
  show ?thesis
    using overrun_never_counted [OF c] c by (auto simp: demoGwWorld_def demoReq_def demoResp_def UsageNormalize_def in_i64_def)
qed

section \<open>A stream\<close>

lemma streamLoop_ok:
  "streamLoop env model req bs u e trace w = (True, u', e', trace', w') \<Longrightarrow>
    \<exists>n ep chunks. gx_stream env n ep req = (chunks, None, u') \<and> gw_chunks w' = gw_chunks w @ chunks"
proof (induction bs arbitrary: u e trace w)
  case (Cons b bs)
  obtain chunks err u1 where g: "gx_stream env (gw_tick w) (bk_Endpoint b) req = (chunks, err, u1)" by (rule prod_cases3)
  show ?case
  proof (cases err)
    case None
    then have "u1 = u'" "gw_chunks w' = gw_chunks w @ chunks" using Cons.prems g by (auto simp: Let_def)
    then show ?thesis using g None by blast
  next
    case (Some x)
    then have "chunks = []" using Cons.prems g by (auto simp: Let_def split: if_splits)
    then show ?thesis using Cons.IH Cons.prems g Some by (fastforce simp: Let_def)
  qed
qed simp

lemma endStream_chunks:
  assumes "endStream env req chat cits u trace w = (r, w')"
  shows "r = Inr x \<Longrightarrow> \<exists>tl. gw_chunks w' = gw_chunks w @ tl \<and> list_all (\<lambda>c. ck_Delta c = []) tl"
    and "r = Inl e \<Longrightarrow> gw_quota w' = gw_quota w \<and> gw_usage w' = gw_usage w"
proof -
  have settled: "gw_chunks (snd (settle env req trace u None v)) = gw_chunks v" for v
    using gwSettle_frame [OF surjective_pairing] by simp
  show "r = Inr x \<Longrightarrow> \<exists>tl. gw_chunks w' = gw_chunks w @ tl \<and> list_all (\<lambda>c. ck_Delta c = []) tl"
    using assms by (auto simp: endStream_def Let_def settled dest: abort_frame(1) split: if_splits option.splits)
  show "r = Inl e \<Longrightarrow> gw_quota w' = gw_quota w \<and> gw_usage w' = gw_usage w"
    using assms by (auto simp: endStream_def Let_def dest: abort_frame(2,3) split: if_splits option.splits)
qed

text \<open>How a stream ends: before a backend is asked, in the loop, or after its last chunk.\<close>

lemma Stream_cases:
  assumes "Stream env req w = Some (r, w')"
  obtains (aborted) tr u e w1 where "gw_quota w1 = gw_quota w" "gw_usage w1 = gw_usage w" "abort env tr u e w1 = (r, w')"
  | (ended) model chat cits bs tr w1 u e tr' w2 tr'' where
      "gw_quota w1 = gw_quota w" "gw_usage w1 = gw_usage w" "gw_chunks w1 = gw_chunks w"
      "streamLoop env model chat bs noUsage None tr w1 = (True, u, e, tr', w2)"
      "endStream env req chat cits u tr'' w2 = (r, w')"
proof -
  obtain tr w1 where t: "startTrace env req w = (tr, w1)" by fastforce
  note i1 = startTrace_idle [OF t]
  show thesis
  proof (cases "ChatValidate (gq_Chat req)")
    case (Some e)
    then show thesis using assms t idle_simps [OF i1] aborted by (auto simp: Stream_def)
  next
    case valid: None
    then obtain x tr2 w2 where p: "prepare env req tr w1 = Some (x, tr2, w2)"
      using assms t by (auto simp: Stream_def split: option.splits)
    note i2 = idle_trans [OF i1 prepare_idle [OF p]]
    show thesis
    proof (cases x)
      case (Inl e)
      then show thesis using assms t valid p idle_simps [OF i2] aborted by (auto simp: Stream_def)
    next
      case (Inr y)
      obtain chat cits where y: "y = (chat, cits)" by fastforce
      obtain q w3 where q: "precheckQuota env (gq_TenantID req) chat w2 = (q, w3)" by fastforce
      note i3 = idle_trans [OF i2 precheckQuota_idle [OF q]]
      obtain m w4 where c: "resolveRouteModel env (gq_TenantID req) (cr_Model chat) w3 = (m, w4)" by fastforce
      note i4 = idle_trans [OF i3 resolveRouteModel_idle [OF c]]
      show thesis
      proof (cases "q = None \<and> (\<exists>model. m = Inr model)")
        case False
        then show thesis
          using assms t valid p Inr y q c idle_simps [OF i3] idle_simps [OF i4] aborted
          by (auto simp: Stream_def split: option.splits sum.splits)
      next
        case True
        then obtain model where model: "m = Inr model" by blast
        obtain b w5 where b: "pickBackends env (gq_TenantID req) model w4 = (b, w5)" by fastforce
        note f5 = pickBackends_frame [OF b] idle_simps [OF i4]
        show thesis
        proof (cases b)
          case (Inl e)
          then show thesis using assms t valid p Inr y q c True model b f5 aborted by (auto simp: Stream_def)
        next
          case bs: (Inr bs)
          let ?tr = "StartSpan SpanInference (nowG env w5) tr2"
          obtain ok u e tr' w6 where l: "streamLoop env model chat bs noUsage None ?tr w5 = (ok, u, e, tr', w6)"
            by (metis prod_cases5)
          show thesis
            using assms t valid p Inr y q c True model b bs l f5 streamLoop_frame [OF l] aborted ended [of w5 model chat bs ?tr u e tr' w6]
            by (cases ok) (auto simp: Stream_def Let_def)
        qed
      qed
    qed
  qed
qed

text \<open>A stream is never guarded, and one that breaks is free.  Whatever output rules a tenant has, the client of a stream that
  ends well has received the backend's chunks word for word; a stream that fails, also after text was delivered,
  leaves ledger and usage records as they were.\<close>
theorem stream_unguarded_unbilled:
  assumes "Stream env req w = Some (r, w')"
  shows "case r of
      Inr cits \<Rightarrow> \<exists>n ep chat chunks usage tl. gx_stream env n ep chat = (chunks, None, usage)
        \<and> gw_chunks w' = gw_chunks w @ chunks @ tl \<and> list_all (\<lambda>c. ck_Delta c = []) tl
    | Inl e \<Rightarrow> gw_quota w' = gw_quota w \<and> gw_usage w' = gw_usage w"
  using assms
proof (cases rule: Stream_cases)
  case (aborted tr u e w1)
  then show ?thesis using abort_frame [OF aborted(3)] by simp
next
  case (ended model chat cits bs tr w1 u e tr' w2 tr'')
  obtain n ep chunks where s: "gx_stream env n ep chat = (chunks, None, u)" "gw_chunks w2 = gw_chunks w1 @ chunks"
    using streamLoop_ok [OF ended(4)] by blast
  show ?thesis
  proof (cases r)
    case (Inl e)
    then show ?thesis using endStream_chunks(2) [OF ended(5) Inl] streamLoop_frame [OF ended(4)] ended(1,2) by simp
  next
    case (Inr c)
    obtain tl where "gw_chunks w' = gw_chunks w2 @ tl" "list_all (\<lambda>c. ck_Delta c = []) tl"
      using endStream_chunks(1) [OF ended(5) Inr] by blast
    then have "gw_chunks w' = gw_chunks w @ chunks @ tl \<and> list_all (\<lambda>c. ck_Delta c = []) tl" using s(2) ended(3) by simp
    then show ?thesis using s(1) unfolding Inr sum.case by blast
  qed
qed

lemma stream_unguarded_unbilled_witness:
  "\<exists>r w'. Stream demoGw (demoReq\<lparr>gq_Chat := demoChat\<lparr>cr_Messages := []\<rparr>\<rparr>) (demoGwWorld 0 (\<lambda>_. None)) = Some (Inl r, w')
    \<and> gw_quota w' = gw_quota (demoGwWorld 0 (\<lambda>_. None))"
proof -
  have v: "ChatValidate (demoChat\<lparr>cr_Messages := []\<rparr>) = Some ErrNoMessages"
    by (simp add: ChatValidate_def demoChat_def TrimSpace_plain plain_def)
  obtain e w' where s: "Stream demoGw (demoReq\<lparr>gq_Chat := demoChat\<lparr>cr_Messages := []\<rparr>\<rparr>) (demoGwWorld 0 (\<lambda>_. None)) = Some (Inl e, w')"
    by (simp add: Stream_def v abort_def case_prod_unfold Let_def)
  show ?thesis using stream_unguarded_unbilled [OF s] s by auto
qed

section \<open>A guarded completion\<close>

lemma failoverLoop_sent:
  "failoverLoop env model req bs e w = (r, w') \<Longrightarrow> \<exists>eps. gw_sent w' = gw_sent w @ map (\<lambda>ep. (ep, req)) eps"
proof (induction bs arbitrary: e w)
  case Nil
  then show ?case by (auto intro: exI [of _ "[]"])
next
  case (Cons b bs)
  let ?w = "tickG (w\<lparr>gw_sent := gw_sent w @ [(bk_Endpoint b, req)]\<rparr>)"
  have stop: "\<exists>eps. gw_sent w' = gw_sent w @ map (\<lambda>ep. (ep, req)) eps" if "gw_sent w' = gw_sent w @ [(bk_Endpoint b, req)]"
    using that by (intro exI [of _ "[bk_Endpoint b]"]) simp
  have go: "\<exists>eps. gw_sent w' = gw_sent w @ map (\<lambda>ep. (ep, req)) eps"
    if loop: "failoverLoop env model req bs e' (markUnhealthy model (bk_Name b) ?w) = (r, w')" for e'
  proof -
    obtain eps where "gw_sent w' = gw_sent w @ [(bk_Endpoint b, req)] @ map (\<lambda>ep. (ep, req)) eps"
      using Cons.IH [OF loop] by auto
    then show ?thesis by (intro exI [of _ "bk_Endpoint b # eps"]) simp
  qed
  show ?case using Cons.prems stop go by (auto simp: Let_def split: sum.splits if_splits)
qed

lemma completeWithFailover_sent:
  assumes "completeWithFailover env t req w = (r, w')"
  shows "\<exists>eps. gw_sent w' = gw_sent w @ map (\<lambda>ep. (ep, req)) eps"
proof -
  have none: ?thesis if "gw_sent w' = gw_sent w" using that by (intro exI [of _ "[]"]) simp
  obtain x w1 where x: "resolveRouteModel env t (cr_Model req) w = (x, w1)" by fastforce
  note s1 = idle_simps(5) [OF resolveRouteModel_idle [OF x]]
  show ?thesis
  proof (cases x)
    case (Inl e)
    then show ?thesis using assms x s1 none by (simp add: completeWithFailover_def)
  next
    case (Inr model)
    obtain y w2 where y: "pickBackends env t model w1 = (y, w2)" by fastforce
    then have s2: "gw_sent w2 = gw_sent w" using pickBackends_frame s1 by simp
    show ?thesis
      using assms x y Inr s2 none failoverLoop_sent [of env model req _ None w2 r w']
      by (cases y) (auto simp: completeWithFailover_def)
  qed
qed

text \<open>A checked conversation: each message of the user is what the input guard made of one it was given.\<close>

definition inputChecked :: "GwEnv \<Rightarrow> Guard \<Rightarrow> Message list \<Rightarrow> Message list \<Rightarrow> bool" where
  "inputChecked env guard given ms =
     list_all (\<lambda>m. msg_Role m = RoleUser \<longrightarrow>
       list_ex (\<lambda>m0. case Check (gx_guardEnv env) guard (msg_Content m0) DirectionInput of
         None \<Rightarrow> False | Some res \<Rightarrow> \<not> Blocked res \<and> msg_Content m = gr_Content res) given) ms"

lemma inputChecked_mono: "inputChecked env guard given ms \<Longrightarrow> set given \<subseteq> set given' \<Longrightarrow> inputChecked env guard given' ms"
  unfolding inputChecked_def list_all_iff list_ex_iff by blast

lemma guardMessages_checked:
  "guardMessages (gx_guardEnv env) guard given = Some (fs, Some ms) \<Longrightarrow> inputChecked env guard given ms"
proof (induction given arbitrary: fs ms)
  case (Cons m given)
  show ?case
  proof (cases "msg_Role m = RoleUser")
    case False
    then obtain fs' ms' where g: "guardMessages (gx_guardEnv env) guard given = Some (fs', Some ms')" "ms = m # ms'"
      using Cons.prems by auto
    have "inputChecked env guard (m # given) ms'" by (rule inputChecked_mono [OF Cons.IH [OF g(1)]]) auto
    then show ?thesis using False g(2) by (simp add: inputChecked_def)
  next
    case True
    then obtain res fs' ms' where c: "Check (gx_guardEnv env) guard (msg_Content m) DirectionInput = Some res" "\<not> Blocked res"
      and g: "guardMessages (gx_guardEnv env) guard given = Some (fs', Some ms')"
      and ms: "ms = m\<lparr>msg_Content := gr_Content res\<rparr> # ms'"
      using Cons.prems by (auto split: option.splits if_splits)
    have "inputChecked env guard (m # given) ms'" by (rule inputChecked_mono [OF Cons.IH [OF g]]) auto
    then show ?thesis using c ms by (simp add: inputChecked_def)
  qed
qed (simp add: inputChecked_def)

lemma prepare_checked:
  assumes "prepare env req tr w = Some (Inr (chat, cits), tr', w')"
    and "gx_guards env = Some g" and "g (gw_tick w) (gq_TenantID req) = Inr guard"
  shows "inputChecked env guard (cr_Messages (gq_Chat req)) (cr_Messages chat)"
proof -
  obtain chat1 tr1 w1 where gi: "guardInput env (gq_TenantID req) (gq_Chat req) tr w = Some (Inr chat1, tr1, w1)"
    and rc: "retrieveContext env req chat1 tr1 w1 = (chat, cits, tr', w')"
    using assms(1) by (auto simp: prepare_def split: option.splits prod.splits sum.splits)
  obtain fs ms where m: "guardMessages (gx_guardEnv env) guard (cr_Messages (gq_Chat req)) = Some (fs, Some ms)"
    "chat1 = (gq_Chat req)\<lparr>cr_Messages := ms\<rparr>"
    using gi assms(2,3) by (auto simp: guardInput_def guardFor_def Let_def split: option.splits)
  have "inputChecked env guard (cr_Messages (gq_Chat req)) (cr_Messages chat1)"
    using guardMessages_checked [OF m(1)] m(2) by simp
  moreover have "RoleSystem \<noteq> RoleUser" by (simp add: RoleSystem_def RoleUser_def)
  ultimately show ?thesis
    using rc by (auto simp: retrieveContext_def Let_def injectContext_def inputChecked_def split: option.splits sum.splits if_splits)
qed



end
