(* ===== verification/AgentRun.thy ===== *)
theory AgentRun
  imports AgentDag LlmRag
begin

text \<open>
  \<^verbatim>\<open>domain/agent/run.go\<close> and \<^verbatim>\<open>domain/agent/tool.go\<close>: a run of an agent with the results of
  its nodes, tools and tool calls, and the rendering of a prompt over the outputs of earlier nodes, a loop that
  may not end.  Each operation of a run reads the clock; its readings are arguments.
\<close>

section \<open>Runs\<close>

datatype RunStatus = RunPending | RunRunning | RunPaused | RunSucceeded | RunFailed

record NodeResult =
  nr_NodeID :: string
  nr_Status :: string
  nr_Output :: string
  nr_Error :: string
  nr_StartedAt :: time
  nr_FinishedAt :: time

record Run =
  rn_ID :: string
  rn_AgentID :: string
  rn_TenantID :: string
  rn_Status :: RunStatus
  rn_Input :: string
  rn_Results :: "NodeResult list"
  rn_PausedAt :: string
  rn_PausePrompt :: string
  rn_FinalOutput :: string
  rn_CreatedBy :: string
  rn_CreatedAt :: time
  rn_UpdatedAt :: time

definition NewRun :: "time \<Rightarrow> string \<Rightarrow> string \<Rightarrow> string \<Rightarrow> string \<Rightarrow> Run" where
  "NewRun now k agentID tenantID input =
     \<lparr>rn_ID = k, rn_AgentID = agentID, rn_TenantID = tenantID, rn_Status = RunPending, rn_Input = input, rn_Results = [],
      rn_PausedAt = [], rn_PausePrompt = [], rn_FinalOutput = [], rn_CreatedBy = [], rn_CreatedAt = now, rn_UpdatedAt = now\<rparr>"

definition recordNode :: "time \<Rightarrow> NodeResult \<Rightarrow> Run \<Rightarrow> Run" where
  "recordNode now nr r = r\<lparr>rn_Results := rn_Results r @ [nr\<lparr>nr_FinishedAt := now\<rparr>], rn_UpdatedAt := now\<rparr>"

definition okResult :: "string \<Rightarrow> string \<Rightarrow> Run \<Rightarrow> NodeResult" where
  "okResult nodeID output r = \<lparr>nr_NodeID = nodeID, nr_Status = ''ok'', nr_Output = output, nr_Error = [],
     nr_StartedAt = rn_UpdatedAt r, nr_FinishedAt = 0\<rparr>"

definition PauseForHuman :: "time \<Rightarrow> string \<Rightarrow> string \<Rightarrow> Run \<Rightarrow> Run" where
  "PauseForHuman now nodeID prompt r =
     r\<lparr>rn_Status := RunPaused, rn_PausedAt := nodeID, rn_PausePrompt := prompt, rn_UpdatedAt := now\<rparr>"

definition HumanResume :: "time \<Rightarrow> string \<Rightarrow> Run \<Rightarrow> AgentError option \<times> Run" where
  "HumanResume now decision r =
     (if rn_Status r \<noteq> RunPaused then (Some ErrRunNotPaused, r)
      else (None, (recordNode now (okResult (rn_PausedAt r) decision r) r)
             \<lparr>rn_PausedAt := [], rn_PausePrompt := [], rn_Status := RunRunning, rn_UpdatedAt := now\<rparr>))"

definition FailRun :: "time \<Rightarrow> string \<Rightarrow> string \<Rightarrow> Run \<Rightarrow> Run" where
  "FailRun now nodeID reason r =
     (recordNode now \<lparr>nr_NodeID = nodeID, nr_Status = ''failed'', nr_Output = [], nr_Error = reason,
        nr_StartedAt = rn_UpdatedAt r, nr_FinishedAt = 0\<rparr> r)\<lparr>rn_Status := RunFailed, rn_UpdatedAt := now\<rparr>"

definition Succeed :: "time \<Rightarrow> string \<Rightarrow> Run \<Rightarrow> Run" where
  "Succeed now final r =
     (let r = (if rn_Results r \<noteq> [] then recordNode now (okResult (nr_NodeID (last (rn_Results r))) final r) r else r) in
      r\<lparr>rn_FinalOutput := final, rn_Status := RunSucceeded, rn_UpdatedAt := now\<rparr>)"

definition StartR :: "time \<Rightarrow> Run \<Rightarrow> Run" where
  "StartR now r = r\<lparr>rn_Status := RunRunning, rn_UpdatedAt := now\<rparr>"

text \<open>The last result of a node counts.\<close>

definition OutputOf :: "Run \<Rightarrow> string \<Rightarrow> string" where
  "OutputOf r nodeID =
     (case List.find (\<lambda>x. nr_NodeID x = nodeID) (rev (rn_Results r)) of None \<Rightarrow> [] | Some x \<Rightarrow> nr_Output x)"

definition RecordCompleted :: "time \<Rightarrow> string \<Rightarrow> string \<Rightarrow> Run \<Rightarrow> Run" where
  "RecordCompleted now nodeID output r = recordNode now (okResult nodeID output r) r"

section \<open>Tools and calls\<close>

datatype ToolKind = ToolKindHTTP | ToolKindBuiltin | OtherToolKind string

record HTTPToolSpec =
  ht_URL :: string
  ht_Method :: string
  ht_Headers :: "(string \<times> string) list"
  ht_TimeoutMs :: int

record Tool =
  tl_ID :: string
  tl_TenantID :: string
  tl_Name :: string
  tl_Description :: string
  tl_Kind :: ToolKind
  tl_HTTP :: "HTTPToolSpec option"
  tl_Sensitive :: bool
  tl_CreatedAt :: time
  tl_UpdatedAt :: time

record ToolCall =
  tc_Tool :: string
  tc_Args :: "string \<Rightarrow> Any option"
  tc_Tenant :: string

record ToolResult =
  tr_OK :: bool
  tr_Data :: string
  tr_Error :: string

definition argString :: "(string \<Rightarrow> Any option) \<Rightarrow> string \<Rightarrow> string" where
  "argString args k = (case args k of Some (AString s) \<Rightarrow> s | _ \<Rightarrow> [])"

record RagQuery =
  rq_KnowledgeBaseID :: string
  rq_Query :: string
  rq_TopK :: int

text \<open>\<^verbatim>\<open>toInt\<close> is the conversion of a float to an integer.\<close>

definition ExtractRagQuery :: "(f64 \<Rightarrow> int) \<Rightarrow> string \<Rightarrow> (string \<Rightarrow> Any option) \<Rightarrow> RagQuery" where
  "ExtractRagQuery toInt nodeRef args =
     \<lparr>rq_KnowledgeBaseID = nodeRef, rq_Query = argString args ''query'',
      rq_TopK = (case args ''top_k'' of Some (ANumber v) \<Rightarrow> toInt v | _ \<Rightarrow> 4)\<rparr>"

record LLMCallSpec =
  sp_Model :: string
  sp_System :: string
  sp_Prompt :: string
  sp_KnowledgeBaseID :: string

definition ExtractLLMCall :: "string \<Rightarrow> (string \<Rightarrow> Any option) \<Rightarrow> LLMCallSpec" where
  "ExtractLLMCall ref cfg =
     \<lparr>sp_Model = ref, sp_System = argString cfg ''system'', sp_Prompt = argString cfg ''prompt'',
      sp_KnowledgeBaseID = argString cfg ''knowledge_base_id''\<rparr>"

section \<open>Rendering a prompt\<close>

primrec indexByte :: "string \<Rightarrow> char \<Rightarrow> nat option" where
  "indexByte [] b = None"
| "indexByte (c # s) b = (if c = b then Some 0 else map_option Suc (indexByte s b))"

text \<open>The loop looks again at what it has put in, from its second byte on.\<close>

partial_function (option) renderFrom :: "(string \<Rightarrow> string) \<Rightarrow> nat \<Rightarrow> string \<Rightarrow> string option" where
  "renderFrom upstream i out =
     (if length out \<le> i then Some out
      else if out ! i \<noteq> CHR ''{'' then renderFrom upstream (Suc i) out
      else case indexByte (drop i out) (CHR ''}'') of
        None \<Rightarrow> renderFrom upstream (Suc i) out
      | Some end \<Rightarrow>
          if take (end - 1) (drop (Suc i) out) \<noteq> [] \<and> upstream (take (end - 1) (drop (Suc i) out)) \<noteq> []
          then renderFrom upstream (Suc i)
                 (take i out @ upstream (take (end - 1) (drop (Suc i) out)) @ drop (i + end + 1) out)
          else renderFrom upstream (Suc i) out)"

definition RenderPrompt :: "(string \<Rightarrow> string) \<Rightarrow> string \<Rightarrow> string option" where
  "RenderPrompt upstream template = (if template = [] then Some template else renderFrom upstream 0 template)"

section \<open>When rendering ends\<close>

definition openBraces :: "string \<Rightarrow> nat" where
  "openBraces s = length (filter ((=) (CHR ''{'')) s)"

lemma openBraces_simps [simp]:
  "openBraces [] = 0" "openBraces (s @ t) = openBraces s + openBraces t"
  "openBraces (c # s) = (if c = CHR ''{'' then Suc (openBraces s) else openBraces s)"
  by (auto simp: openBraces_def)

lemma openBraces_drop: "openBraces (drop n s) \<le> openBraces s"
  by (metis append_take_drop_id le_add2 openBraces_simps(2))

lemma openBraces_none: "CHR ''{'' \<notin> set s \<Longrightarrow> openBraces s = 0"
  by (induction s) auto

lemma openBraces_at: "i < length s \<Longrightarrow> s ! i = CHR ''{'' \<Longrightarrow> openBraces (drop i s) = Suc (openBraces (drop (Suc i) s))"
  by (simp add: Cons_nth_drop_Suc [symmetric])

lemma openBraces_Suc: "openBraces (drop (Suc i) s) \<le> openBraces (drop i s)"
  by (metis drop_Suc drop_drop openBraces_drop plus_1_eq_Suc)

lemma renderFrom_ends:
  assumes "\<And>n. CHR ''{'' \<notin> set (upstream n)"
  shows "\<exists>r. renderFrom upstream i out = Some r"
proof (induction "(openBraces (drop i out), length out - i)" arbitrary: i out rule: wf_induct_rule [OF wf_lex_prod [OF wf_less_than wf_less_than]])
  case (1 i out)
  have IH: "\<exists>r. renderFrom upstream i' out' = Some r"
    if "openBraces (drop i' out') < openBraces (drop i out)
      \<or> openBraces (drop i' out') = openBraces (drop i out) \<and> length out' - i' < length out - i" for i' out'
    using that by (intro 1) auto
  show ?case
  proof (cases "i < length out")
    case False
    then show ?thesis by (simp add: renderFrom.simps [of upstream i out])
  next
    case i: True
    have onward: "\<exists>r. renderFrom upstream (Suc i) out = Some r"
      using openBraces_Suc [of i out] i by (intro IH) auto
    have sub: "\<exists>r. renderFrom upstream (Suc i) (take i out @ upstream n @ drop (i + e + 1) out) = Some r"
      if b: "out ! i = CHR ''{''" and n: "upstream n \<noteq> []" for n e
    proof (rule IH)
      obtain c v where v: "upstream n = c # v" using n by (cases "upstream n") auto
      have "drop (Suc i) (take i out @ upstream n @ drop (i + e + 1) out) = v @ drop (i + e + 1) out"
        using i v by simp
      moreover have "openBraces v = 0" using assms [of n] v by (intro openBraces_none) auto
      moreover have "openBraces (drop (i + e + 1) out) \<le> openBraces (drop (Suc i) out)"
        using openBraces_drop [of e "drop (Suc i) out"] by (simp add: add.commute)
      ultimately show "openBraces (drop (Suc i) (take i out @ upstream n @ drop (i + e + 1) out)) < openBraces (drop i out)
        \<or> openBraces (drop (Suc i) (take i out @ upstream n @ drop (i + e + 1) out)) = openBraces (drop i out)
          \<and> length (take i out @ upstream n @ drop (i + e + 1) out) - Suc i < length out - i"
        using openBraces_at [OF i b] by simp
    qed
    show ?thesis
      using i onward sub by (subst renderFrom.simps) (auto split: option.split)
  qed
qed

lemma indexByte_split: "b \<notin> set s \<Longrightarrow> indexByte (s @ b # t) b = Some (length s)"
  by (induction s) auto

text \<open>At position i the text repeats what it is replaced with: the next round starts one byte further on.\<close>

definition pumps :: "string \<Rightarrow> nat \<Rightarrow> string \<Rightarrow> bool" where
  "pumps n i out = (\<exists>pre post. out = pre @ ''{'' @ n @ ''}'' @ post \<and> length pre = i)"

lemma pumps_next:
  assumes "pumps n i out" and "v = c # ''{'' @ n @ ''}'' @ ys"
  shows "pumps n (Suc i) (take i out @ v @ drop (i + Suc (length n) + 1) out)"
proof -
  obtain pre post where out: "out = pre @ ''{'' @ n @ ''}'' @ post" and i: "length pre = i" using assms(1) by (auto simp: pumps_def)
  have "take i out @ v @ drop (i + Suc (length n) + 1) out = (pre @ [c]) @ ''{'' @ n @ ''}'' @ (ys @ post)"
    using out i assms(2) by simp
  then show ?thesis unfolding pumps_def using i by (metis One_nat_def Suc_eq_plus1 length_Cons length_append list.size(3))
qed

lemma pumps_step:
  assumes "pumps n i out" and "CHR ''}'' \<notin> set n"
  shows "i < length out" "out ! i = CHR ''{''" "indexByte (drop i out) (CHR ''}'') = Some (Suc (length n))"
    "take (Suc (length n) - 1) (drop (Suc i) out) = n"
proof -
  obtain pre post where out: "out = pre @ ''{'' @ n @ ''}'' @ post" and i: "length pre = i" using assms(1) by (auto simp: pumps_def)
  show "i < length out" "out ! i = CHR ''{''" using out i by auto
  have "indexByte ((''{'' @ n) @ CHR ''}'' # post) (CHR ''}'') = Some (length (''{'' @ n))"
    by (rule indexByte_split) (use assms(2) in auto)
  then show "indexByte (drop i out) (CHR ''}'') = Some (Suc (length n))" using out i by simp
  show "take (Suc (length n) - 1) (drop (Suc i) out) = n" using out i by simp
qed

lemma renderFrom_pumps:
  assumes up: "upstream n = c # ''{'' @ n @ ''}'' @ ys" and n: "n \<noteq> []" "CHR ''}'' \<notin> set n"
  shows "pumps n i out \<Longrightarrow> renderFrom upstream i out = None"
proof -
  define P where "P u i out (y :: string) = (u = upstream \<longrightarrow> \<not> pumps n i out)" for u i out y
  have "P upstream i out y" if "renderFrom upstream i out = Some y" for y
  proof (rule renderFrom.raw_induct [of P, OF _ that])
    fix f u i out y
    assume IH: "\<And>u i out y. f u i out = Some y \<Longrightarrow> P u i out y"
      and body: "(if length out \<le> i then Some out
        else if out ! i \<noteq> CHR ''{'' then f u (Suc i) out
        else case indexByte (drop i out) (CHR ''}'') of None \<Rightarrow> f u (Suc i) out
          | Some e \<Rightarrow> if take (e - 1) (drop (Suc i) out) \<noteq> [] \<and> u (take (e - 1) (drop (Suc i) out)) \<noteq> []
              then f u (Suc i) (take i out @ u (take (e - 1) (drop (Suc i) out)) @ drop (i + e + 1) out)
              else f u (Suc i) out) = Some y"
    show "P u i out y"
      unfolding P_def
    proof (intro impI notI)
      assume u: "u = upstream" and p: "pumps n i out"
      have "f u (Suc i) (take i out @ u n @ drop (i + Suc (length n) + 1) out) = Some y"
      proof -
        have le: "(length out \<le> i) = False" and nz: "(upstream n = []) = False" "(n = []) = False"
          using pumps_step(1) [OF p n(2)] up n(1) by simp_all
        show ?thesis
          using body by (simp only: u le nz pumps_step(2-4) [OF p n(2)] if_False if_True option.case not_False_eq_True simp_thms)
      qed
      from IH [OF this] show False using u pumps_next [OF p up] by (simp add: P_def)
    qed
  qed
  then show "pumps n i out \<Longrightarrow> renderFrom upstream i out = None"
    unfolding P_def by (metis option.exhaust)
qed

section \<open>Properties\<close>



end
