(* ===== verification/AgentStore.thy ===== *)
theory AgentStore
  imports AgentRun
begin

text \<open>
  \<^verbatim>\<open>storage/agent.go\<close> and \<^verbatim>\<open>storage/tool.go\<close>: the rows of agents, runs and tools.  A column that holds
  JSON is kept as the value it encodes; a fault of the database is an argument of each operation.  The empty tenant
  does not restrict a query.
\<close>

datatype StoreError = StNotFound | StRunNotFound | StConflict | StToolNotFound | StToolConflict | StDb string

definition inTenant :: "string \<Rightarrow> string \<Rightarrow> bool" where
  "inTenant tenant owner = (tenant = [] \<or> owner = tenant)"

section \<open>Agents\<close>

definition CreateAgentRow :: "string option \<Rightarrow> time \<Rightarrow> Agent \<Rightarrow> Agent list \<Rightarrow> StoreError option \<times> Agent list" where
  "CreateAgentRow fault now a rows =
     (case fault of
        Some e \<Rightarrow> (Some (StDb e), rows)
      | None \<Rightarrow>
          if list_ex (\<lambda>r. ag_TenantID r = ag_TenantID a \<and> ag_Name r = ag_Name a) rows then (Some StConflict, rows)
          else if tfind ag_ID rows (ag_ID a) \<noteq> None then (Some (StDb ''duplicate key''), rows)
          else (None, tadd (a\<lparr>ag_CreatedAt := now, ag_UpdatedAt := now\<rparr>) rows))"

definition GetAgentRow :: "string option \<Rightarrow> string \<Rightarrow> string \<Rightarrow> Agent list \<Rightarrow> StoreError + Agent" where
  "GetAgentRow fault tenant k rows =
     (case fault of
        Some e \<Rightarrow> Inl (StDb e)
      | None \<Rightarrow> (case tfind ag_ID rows k of
          Some a \<Rightarrow> if inTenant tenant (ag_TenantID a) then Inr a else Inl StNotFound
        | None \<Rightarrow> Inl StNotFound))"

text \<open>\<^verbatim>\<open>like s p\<close> says whether s matches the pattern p.\<close>

definition ListAgentRows ::
    "(string \<Rightarrow> string \<Rightarrow> bool) \<Rightarrow> (AgentStatus \<Rightarrow> string) \<Rightarrow> string option \<Rightarrow> string \<Rightarrow> string \<Rightarrow> string \<Rightarrow> Agent list
      \<Rightarrow> StoreError + Agent list" where
  "ListAgentRows like statusText fault tenant name status rows =
     (case fault of
        Some e \<Rightarrow> Inl (StDb e)
      | None \<Rightarrow> Inr (take defaultListLimit (sort_key (\<lambda>a. - ag_CreatedAt a)
          (filter (\<lambda>a. inTenant tenant (ag_TenantID a) \<and> (name = [] \<or> like (ag_Name a) (''%'' @ name @ ''%''))
             \<and> (status = [] \<or> statusText (ag_Status a) = status)) rows))))"

definition UpdateAgentRow :: "string option \<Rightarrow> time \<Rightarrow> Agent \<Rightarrow> Agent list \<Rightarrow> StoreError option \<times> Agent list" where
  "UpdateAgentRow fault now a rows =
     (case fault of
        Some e \<Rightarrow> (Some (StDb e), rows)
      | None \<Rightarrow> (case tfind ag_ID rows (ag_ID a) of
          None \<Rightarrow> (Some StNotFound, rows)
        | Some old \<Rightarrow>
            if inTenant (ag_TenantID a) (ag_TenantID old)
            then (None, tsave ag_ID (old\<lparr>ag_Name := ag_Name a, ag_Description := ag_Description a, ag_DAG := ag_DAG a,
                   ag_Status := ag_Status a, ag_UpdatedAt := now\<rparr>) rows)
            else (Some StNotFound, rows)))"

text \<open>The runs go with the agent; a fault of that second deletion is ignored.\<close>

definition DeleteAgentRow ::
    "string option \<Rightarrow> string option \<Rightarrow> string \<Rightarrow> string \<Rightarrow> Agent list \<times> Run list \<Rightarrow> StoreError option \<times> Agent list \<times> Run list" where
  "DeleteAgentRow fault fault2 tenant k st =
     (let (rows, runs) = st in
      case fault of
        Some e \<Rightarrow> (Some (StDb e), rows, runs)
      | None \<Rightarrow> (case tfind ag_ID rows k of
          None \<Rightarrow> (Some StNotFound, rows, runs)
        | Some a \<Rightarrow>
            if inTenant tenant (ag_TenantID a)
            then (None, tdelete ag_ID k rows,
              if fault2 = None then filter (\<lambda>r. \<not> (rn_AgentID r = k \<and> rn_TenantID r = tenant)) runs else runs)
            else (Some StNotFound, rows, runs)))"

section \<open>Runs\<close>

definition CreateRunRow :: "string option \<Rightarrow> time \<Rightarrow> Run \<Rightarrow> Run list \<Rightarrow> StoreError option \<times> Run list" where
  "CreateRunRow fault now r runs =
     (case fault of
        Some e \<Rightarrow> (Some (StDb e), runs)
      | None \<Rightarrow>
          if tfind rn_ID runs (rn_ID r) \<noteq> None then (Some (StDb ''duplicate key''), runs)
          else (None, tadd (r\<lparr>rn_CreatedAt := now, rn_UpdatedAt := now\<rparr>) runs))"

definition GetRunRow :: "string option \<Rightarrow> string \<Rightarrow> string \<Rightarrow> Run list \<Rightarrow> StoreError + Run" where
  "GetRunRow fault tenant k runs =
     (case fault of
        Some e \<Rightarrow> Inl (StDb e)
      | None \<Rightarrow> (case tfind rn_ID runs k of
          Some r \<Rightarrow> if inTenant tenant (rn_TenantID r) then Inr r else Inl StRunNotFound
        | None \<Rightarrow> Inl StRunNotFound))"

definition ListRunRows ::
    "(RunStatus \<Rightarrow> string) \<Rightarrow> string option \<Rightarrow> string \<Rightarrow> string \<Rightarrow> string \<Rightarrow> Run list \<Rightarrow> StoreError + Run list" where
  "ListRunRows statusText fault tenant agentID status runs =
     (case fault of
        Some e \<Rightarrow> Inl (StDb e)
      | None \<Rightarrow> Inr (take defaultListLimit (sort_key (\<lambda>r. - rn_CreatedAt r)
          (filter (\<lambda>r. inTenant tenant (rn_TenantID r) \<and> (agentID = [] \<or> rn_AgentID r = agentID)
             \<and> (status = [] \<or> statusText (rn_Status r) = status)) runs))))"

definition UpdateRunRow :: "string option \<Rightarrow> time \<Rightarrow> Run \<Rightarrow> Run list \<Rightarrow> StoreError option \<times> Run list" where
  "UpdateRunRow fault now r runs =
     (case fault of
        Some e \<Rightarrow> (Some (StDb e), runs)
      | None \<Rightarrow> (case tfind rn_ID runs (rn_ID r) of
          None \<Rightarrow> (Some StRunNotFound, runs)
        | Some old \<Rightarrow>
            if inTenant (rn_TenantID r) (rn_TenantID old)
            then (None, tsave rn_ID (old\<lparr>rn_Status := rn_Status r, rn_Results := rn_Results r, rn_PausedAt := rn_PausedAt r,
                   rn_PausePrompt := rn_PausePrompt r, rn_FinalOutput := rn_FinalOutput r, rn_UpdatedAt := now\<rparr>) runs)
            else (Some StRunNotFound, runs)))"

section \<open>Tools\<close>

text \<open>The JSON of a missing HTTP specification is null, and comes back as an empty one.\<close>

definition emptySpec :: HTTPToolSpec where
  "emptySpec = \<lparr>ht_URL = [], ht_Method = [], ht_Headers = [], ht_TimeoutMs = 0\<rparr>"

definition storedTool :: "Tool \<Rightarrow> Tool" where
  "storedTool t = t\<lparr>tl_HTTP := Some (case tl_HTTP t of None \<Rightarrow> emptySpec | Some s \<Rightarrow> s)\<rparr>"

definition CreateToolRow :: "string option \<Rightarrow> time \<Rightarrow> Tool \<Rightarrow> Tool list \<Rightarrow> StoreError option \<times> Tool list" where
  "CreateToolRow fault now t rows =
     (case fault of
        Some e \<Rightarrow> (Some (StDb e), rows)
      | None \<Rightarrow>
          if list_ex (\<lambda>r. tl_TenantID r = tl_TenantID t \<and> tl_Name r = tl_Name t) rows then (Some StToolConflict, rows)
          else if tfind tl_ID rows (tl_ID t) \<noteq> None then (Some (StDb ''duplicate key''), rows)
          else (None, tadd ((storedTool t)\<lparr>tl_CreatedAt := now, tl_UpdatedAt := now\<rparr>) rows))"

definition GetToolRow :: "string option \<Rightarrow> string \<Rightarrow> string \<Rightarrow> Tool list \<Rightarrow> StoreError + Tool" where
  "GetToolRow fault tenant k rows =
     (case fault of
        Some e \<Rightarrow> Inl (StDb e)
      | None \<Rightarrow> (case tfind tl_ID rows k of
          Some t \<Rightarrow> if inTenant tenant (tl_TenantID t) then Inr t else Inl StToolNotFound
        | None \<Rightarrow> Inl StToolNotFound))"

text \<open>\<^verbatim>\<open>First\<close> takes the row with the least primary key.\<close>

definition GetToolByName :: "string option \<Rightarrow> string \<Rightarrow> string \<Rightarrow> Tool list \<Rightarrow> StoreError + Tool" where
  "GetToolByName fault tenant name rows =
     (case fault of
        Some e \<Rightarrow> Inl (StDb e)
      | None \<Rightarrow> (case sort_key tl_ID (filter (\<lambda>t. inTenant tenant (tl_TenantID t) \<and> tl_Name t = name) rows) of
          [] \<Rightarrow> Inl StToolNotFound
        | t # _ \<Rightarrow> Inr t))"

definition ListToolRows :: "string option \<Rightarrow> string \<Rightarrow> Tool list \<Rightarrow> StoreError + Tool list" where
  "ListToolRows fault tenant rows =
     (case fault of
        Some e \<Rightarrow> Inl (StDb e)
      | None \<Rightarrow> Inr (take defaultListLimit (sort_key (\<lambda>t. - tl_CreatedAt t)
          (filter (\<lambda>t. inTenant tenant (tl_TenantID t)) rows))))"

definition UpdateToolRow :: "string option \<Rightarrow> time \<Rightarrow> Tool \<Rightarrow> Tool list \<Rightarrow> StoreError option \<times> Tool list" where
  "UpdateToolRow fault now t rows =
     (case fault of
        Some e \<Rightarrow> (Some (StDb e), rows)
      | None \<Rightarrow> (case tfind tl_ID rows (tl_ID t) of
          None \<Rightarrow> (Some StToolNotFound, rows)
        | Some old \<Rightarrow>
            if inTenant (tl_TenantID t) (tl_TenantID old)
            then (None, tsave tl_ID (old\<lparr>tl_Name := tl_Name t, tl_Description := tl_Description t, tl_Kind := tl_Kind t,
                   tl_HTTP := tl_HTTP (storedTool t), tl_Sensitive := tl_Sensitive t, tl_UpdatedAt := now\<rparr>) rows)
            else (Some StToolNotFound, rows)))"

definition DeleteToolRow :: "string option \<Rightarrow> string \<Rightarrow> string \<Rightarrow> Tool list \<Rightarrow> StoreError option \<times> Tool list" where
  "DeleteToolRow fault tenant k rows =
     (case fault of
        Some e \<Rightarrow> (Some (StDb e), rows)
      | None \<Rightarrow> (case tfind tl_ID rows k of
          None \<Rightarrow> (Some StToolNotFound, rows)
        | Some t \<Rightarrow> if inTenant tenant (tl_TenantID t) then (None, tdelete tl_ID k rows) else (Some StToolNotFound, rows)))"

section \<open>The tables as repositories\<close>

interpretation agentRepo: repository "tunique ag_ID" ag_ID "tfind ag_ID" "tsave ag_ID" tadd "tdelete ag_ID"
  by (rule table_repository)

interpretation runRepo: repository "tunique rn_ID" rn_ID "tfind rn_ID" "tsave rn_ID" tadd "tdelete rn_ID"
  by (rule table_repository)

lemma CreateRunRow_ok:
  assumes "CreateRunRow fault now r runs = (None, runs')"
  shows "tfind rn_ID runs' (rn_ID r) = Some (r\<lparr>rn_CreatedAt := now, rn_UpdatedAt := now\<rparr>)"
    and "k \<noteq> rn_ID r \<Longrightarrow> tfind rn_ID runs' k = tfind rn_ID runs k"
  using assms by (auto simp: CreateRunRow_def tfind_tadd split: option.splits if_splits)

lemma UpdateRunRow_others: "k \<noteq> rn_ID r \<Longrightarrow> tfind rn_ID (snd (UpdateRunRow fault now r runs)) k = tfind rn_ID runs k"
  by (auto simp: UpdateRunRow_def tfind_tsave split: option.splits dest: tfind_key)

lemma storedTool_idem [simp]: "storedTool (storedTool t) = storedTool t"
  by (simp add: storedTool_def)

end
