(* ===== verification/AgentService.thy ===== *)
theory AgentService
  imports AgentStore ApiAccess
begin

text \<open>
  \<^verbatim>\<open>app/agent/service.go\<close>: saving, compiling and running agents.  A run drives the nodes of the graph in
  topological order, one at a time; a human review pauses it, a node of type sub_agent drives the run of another agent.
  Model, retriever, tools, clock, identifiers, faults of the database, and the texts Go gives values are asked of the
  environment.  A run that does not return - a prompt that pumps, or agents nested deeper than the fuel - is None.
\<close>

section \<open>State and environment\<close>

datatype AgErr = AeAgent AgentError | AeStore StoreError | AeText string

record AgentRunFinished =
  ev_TenantID :: string
  ev_AgentID :: string
  ev_RunID :: string
  ev_Status :: RunStatus
  ev_NodeCount :: nat
  ev_FinalOutput :: string
  ev_Error :: string
  ev_ActorID :: string
  ev_ActorName :: string
  ev_DurationMs :: int

datatype AgCall = CallLLM ChatRequest string string string int | CallRag string string int | CallTool ToolCall

record AgWorld =
  aw_agents :: "Agent list"
  aw_runs :: "Run list"
  aw_events :: "AgentRunFinished list"
  aw_calls :: "AgCall list"
  aw_tick :: nat

record AgEnv =
  ax_time :: "nat \<Rightarrow> time"
  ax_id :: "nat \<Rightarrow> string"
  ax_fault :: "nat \<Rightarrow> string option"
  ax_llm :: "(nat \<Rightarrow> ChatRequest \<Rightarrow> string + string) option"
  ax_retrieve :: "(nat \<Rightarrow> string \<Rightarrow> string \<Rightarrow> int \<Rightarrow> string + ScoredSegment list) option"
  ax_tools :: "(nat \<Rightarrow> ToolCall \<Rightarrow> string + ToolResult) option"
  ax_sink :: bool
  ax_like :: "string \<Rightarrow> string \<Rightarrow> bool"
  ax_quote :: "string \<Rightarrow> string"
  ax_show :: "Any \<Rightarrow> string"
  ax_toInt :: "f64 \<Rightarrow> int"

definition tickA :: "AgWorld \<Rightarrow> AgWorld" where
  "tickA w = w\<lparr>aw_tick := Suc (aw_tick w)\<rparr>"

definition nowA :: "AgEnv \<Rightarrow> AgWorld \<Rightarrow> time" where
  "nowA env w = ax_time env (aw_tick w)"

definition faultA :: "AgEnv \<Rightarrow> AgWorld \<Rightarrow> string option" where
  "faultA env w = ax_fault env (aw_tick w)"

fun storeText :: "StoreError \<Rightarrow> string" where
  "storeText StNotFound = ''ports: agent not found''"
| "storeText StConflict = ''ports: agent name conflict''"
| "storeText StRunNotFound = ''ports: agent run not found''"
| "storeText StToolNotFound = ''ports: tool not found''"
| "storeText StToolConflict = ''ports: tool name conflict''"
| "storeText (StDb e) = e"

fun joinSpace :: "string list \<Rightarrow> string" where
  "joinSpace [] = []"
| "joinSpace [x] = x"
| "joinSpace (x # xs) = x @ '' '' @ joinSpace xs"

fun agentText :: "AgEnv \<Rightarrow> AgentError \<Rightarrow> string" where
  "agentText env ErrCycle = ''agent: dag has a cycle''"
| "agentText env (ErrNoEntry es) = ''agent: dag has no entry node: found '' @ showNat (length es) @ '' entries: ['' @ joinSpace es @ '']''"
| "agentText env (ErrDuplicateNode k) = ''agent: duplicate node id: '' @ k"
| "agentText env (ErrMissingSource k) = ''agent: edge references missing node: edge source '' @ ax_quote env k"
| "agentText env (ErrMissingTarget k) = ''agent: edge references missing node: edge target '' @ ax_quote env k"
| "agentText env ErrNodeIDEmpty = ''agent: invalid node config: node id is empty''"
| "agentText env (ErrNodeType t) = ''agent: invalid node config: unknown node type '' @ ax_quote env t"
| "agentText env ErrToolRef = ''agent: invalid node config: tool_call node requires ref''"
| "agentText env ErrRagRef = ''agent: invalid node config: rag_retrieve node requires ref (knowledge base id)''"
| "agentText env ErrSubAgentRef = ''agent: invalid node config: sub_agent node requires ref (sub-agent id)''"
| "agentText env ErrIdentity = ''agent: invalid node config: id/tenant/name required''"
| "agentText env ErrRunNotPaused = ''agent: run is not paused for human review''"
| "agentText env ErrAgentNotCompiled = ''agent: cannot execute uncompiled agent''"
| "agentText env (ErrCompile k e) = ''agent '' @ k @ '' compile failed: '' @ agentText env e"

definition statusText :: "AgentStatus \<Rightarrow> string" where
  "statusText s =
     (case s of AgentStatusDraft \<Rightarrow> ''draft'' | AgentStatusCompiled \<Rightarrow> ''compiled'' | AgentStatusPublished \<Rightarrow> ''published''
      | OtherAgentStatus t \<Rightarrow> t)"

definition runStatusText :: "RunStatus \<Rightarrow> string" where
  "runStatusText s =
     (case s of RunPending \<Rightarrow> ''pending'' | RunRunning \<Rightarrow> ''running'' | RunPaused \<Rightarrow> ''paused'' | RunSucceeded \<Rightarrow> ''succeeded''
      | RunFailed \<Rightarrow> ''failed'')"

section \<open>The repository, one step each\<close>

definition getAgent :: "AgEnv \<Rightarrow> string \<Rightarrow> string \<Rightarrow> AgWorld \<Rightarrow> (StoreError + Agent) \<times> AgWorld" where
  "getAgent env tenant k w = (GetAgentRow (faultA env w) tenant k (aw_agents w), tickA w)"

definition updateAgent :: "AgEnv \<Rightarrow> Agent \<Rightarrow> AgWorld \<Rightarrow> StoreError option \<times> AgWorld" where
  "updateAgent env a w =
     (let (e, rows) = UpdateAgentRow (faultA env w) (nowA env w) a (aw_agents w) in (e, tickA (w\<lparr>aw_agents := rows\<rparr>)))"

definition createAgent :: "AgEnv \<Rightarrow> Agent \<Rightarrow> AgWorld \<Rightarrow> StoreError option \<times> AgWorld" where
  "createAgent env a w =
     (let (e, rows) = CreateAgentRow (faultA env w) (nowA env w) a (aw_agents w) in (e, tickA (w\<lparr>aw_agents := rows\<rparr>)))"

definition createRun :: "AgEnv \<Rightarrow> Run \<Rightarrow> AgWorld \<Rightarrow> StoreError option \<times> AgWorld" where
  "createRun env r w =
     (let (e, rows) = CreateRunRow (faultA env w) (nowA env w) r (aw_runs w) in (e, tickA (w\<lparr>aw_runs := rows\<rparr>)))"

definition updateRun :: "AgEnv \<Rightarrow> Run \<Rightarrow> AgWorld \<Rightarrow> StoreError option \<times> AgWorld" where
  "updateRun env r w =
     (let (e, rows) = UpdateRunRow (faultA env w) (nowA env w) r (aw_runs w) in (e, tickA (w\<lparr>aw_runs := rows\<rparr>)))"

section \<open>Agents\<close>

definition SaveAgent :: "AgEnv \<Rightarrow> Agent \<Rightarrow> AgWorld \<Rightarrow> AgErr option \<times> AgWorld" where
  "SaveAgent env a w =
     (if ag_ID a = [] then (Some (AeText ''agent: id required''), w)
      else case getAgent env (ag_TenantID a) (ag_ID a) w of
        (Inl _, w) \<Rightarrow> (let (e, w) = createAgent env a w in (map_option AeStore e, w))
      | (Inr _, w) \<Rightarrow> (let (e, w) = updateAgent env a w in (map_option AeStore e, w)))"

definition agList :: "AgEnv \<Rightarrow> string \<Rightarrow> string \<Rightarrow> string \<Rightarrow> AgWorld \<Rightarrow> StoreError + Agent list" where
  "agList env tenant name status w = ListAgentRows (ax_like env) statusText (faultA env w) tenant name status (aw_agents w)"

definition agGet :: "AgEnv \<Rightarrow> string \<Rightarrow> string \<Rightarrow> AgWorld \<Rightarrow> StoreError + Agent" where
  "agGet env tenant k w = fst (getAgent env tenant k w)"

definition agDelete :: "AgEnv \<Rightarrow> string \<Rightarrow> string \<Rightarrow> AgWorld \<Rightarrow> StoreError option \<times> AgWorld" where
  "agDelete env tenant k w =
     (let (e, rows, runs) = DeleteAgentRow (faultA env w) (faultA env (tickA w)) tenant k (aw_agents w, aw_runs w)
      in (e, tickA (tickA (w\<lparr>aw_agents := rows, aw_runs := runs\<rparr>))))"

definition agListRuns :: "AgEnv \<Rightarrow> string \<Rightarrow> string \<Rightarrow> string \<Rightarrow> AgWorld \<Rightarrow> StoreError + Run list" where
  "agListRuns env tenant agentID status w = ListRunRows runStatusText (faultA env w) tenant agentID status (aw_runs w)"

definition agGetRun :: "AgEnv \<Rightarrow> string \<Rightarrow> string \<Rightarrow> AgWorld \<Rightarrow> StoreError + Run" where
  "agGetRun env tenant k w = GetRunRow (faultA env w) tenant k (aw_runs w)"

definition agCompile :: "AgEnv \<Rightarrow> string \<Rightarrow> string \<Rightarrow> AgWorld \<Rightarrow> (AgErr + Agent) \<times> AgWorld" where
  "agCompile env tenant k w =
     (case getAgent env tenant k w of
        (Inl e, w) \<Rightarrow> (Inl (AeStore e), w)
      | (Inr a, w) \<Rightarrow> (case Compile (nowA env w) a of
          (Some e, _) \<Rightarrow> (Inl (AeAgent e), w)
        | (None, a) \<Rightarrow> (case updateAgent env a w of
            (Some e, w) \<Rightarrow> (Inl (AeStore e), w)
          | (None, w) \<Rightarrow> (Inr a, w))))"

section \<open>Executing a node\<close>

primrec formatFrom :: "nat \<Rightarrow> ScoredSegment list \<Rightarrow> string" where
  "formatFrom i [] = []"
| "formatFrom i (h # hs) = ''['' @ showNat (Suc i) @ ''] '' @ sg_Content (ss_Segment h) @ [CHR 0x0A] @ formatFrom (Suc i) hs"

definition formatSegments :: "ScoredSegment list \<Rightarrow> string" where
  "formatSegments hits = formatFrom 0 hits"

text \<open>A sub-run: tenant, agent, input and user give an output or an error.\<close>

type_synonym sub_run = "string \<Rightarrow> string \<Rightarrow> string \<Rightarrow> string \<Rightarrow> AgWorld \<Rightarrow> ((string + string) \<times> AgWorld) option"

definition logCall :: "AgCall \<Rightarrow> AgWorld \<Rightarrow> AgWorld" where
  "logCall c w = tickA (w\<lparr>aw_calls := aw_calls w @ [c]\<rparr>)"

definition chatOf :: "LLMCallSpec \<Rightarrow> string \<Rightarrow> ChatRequest" where
  "chatOf spec prompt =
     \<lparr>cr_Model = sp_Model spec,
      cr_Messages = [\<lparr>msg_Role = RoleSystem, msg_Content = sp_System spec, msg_Name = []\<rparr>,
                     \<lparr>msg_Role = RoleUser, msg_Content = prompt, msg_Name = []\<rparr>],
      cr_Temperature = Fin 0, cr_TopP = Fin 0, cr_MaxTokens = 0, cr_Stream = False, cr_Stop = [], cr_StreamOptions = None,
      cr_User = []\<rparr>"

definition execLLM :: "AgEnv \<Rightarrow> Node \<Rightarrow> Run \<Rightarrow> AgWorld \<Rightarrow> ((string + string) \<times> AgWorld) option" where
  "execLLM env n run w =
     (case ax_llm env of
        None \<Rightarrow> Some (Inl ''llm executor not configured'', w)
      | Some llm \<Rightarrow>
          let spec = ExtractLLMCall (nd_Ref n) (nd_Config n) in
          (case RenderPrompt (OutputOf run) (sp_Prompt spec) of
             None \<Rightarrow> None
           | Some prompt \<Rightarrow>
               let req = chatOf spec prompt in
               (case ChatValidate req of
                  Some e \<Rightarrow> Some (Inl (llmText e), w)
                | None \<Rightarrow> Some (llm (aw_tick w) req, logCall (CallLLM req (rn_TenantID run) (rn_CreatedBy run) (sp_KnowledgeBaseID spec) 0) w))))"

definition execRag :: "AgEnv \<Rightarrow> Node \<Rightarrow> Run \<Rightarrow> AgWorld \<Rightarrow> ((string + string) \<times> AgWorld) option" where
  "execRag env n run w =
     (case ax_retrieve env of
        None \<Rightarrow> Some (Inl ''retriever not configured'', w)
      | Some retrieve \<Rightarrow>
          let q = ExtractRagQuery (ax_toInt env) (nd_Ref n) (nd_Config n) in
          (case RenderPrompt (OutputOf run) (rq_Query q) of
             None \<Rightarrow> None
           | Some query \<Rightarrow>
               Some (case retrieve (aw_tick w) (rq_KnowledgeBaseID q) query (rq_TopK q) of Inl e \<Rightarrow> Inl e | Inr hits \<Rightarrow> Inr (formatSegments hits),
                     logCall (CallRag (rq_KnowledgeBaseID q) query (rq_TopK q)) w)))"

definition execTool :: "AgEnv \<Rightarrow> Node \<Rightarrow> Run \<Rightarrow> AgWorld \<Rightarrow> (string + string) \<times> AgWorld" where
  "execTool env n run w =
     (case ax_tools env of
        None \<Rightarrow> (Inl ''tool executor not configured'', w)
      | Some tools \<Rightarrow>
          let call = \<lparr>tc_Tool = nd_Ref n, tc_Args = nd_Config n, tc_Tenant = rn_TenantID run\<rparr> in
          (case tools (aw_tick w) call of
             Inl e \<Rightarrow> Inl e
           | Inr res \<Rightarrow> if \<not> tr_OK res then Inl (''tool '' @ nd_Ref n @ '' failed: '' @ tr_Error res) else Inr (tr_Data res),
           logCall (CallTool call) w))"

text \<open>\<^verbatim>\<open>%v\<close> of a missing input is a text of its own.\<close>

definition inputText :: "AgEnv \<Rightarrow> Any option \<Rightarrow> string" where
  "inputText env v = (case v of None \<Rightarrow> ''<nil>'' | Some (AString s) \<Rightarrow> s | Some x \<Rightarrow> ax_show env x)"

definition execSub :: "AgEnv \<Rightarrow> sub_run \<Rightarrow> Node \<Rightarrow> Run \<Rightarrow> AgWorld \<Rightarrow> ((string + string) \<times> AgWorld) option" where
  "execSub env sub n run w =
     (if nd_Ref n = [] then Some (Inl ''subagent: node ref (sub-agent id) is required'', w)
      else case RenderPrompt (OutputOf run) (inputText env (nd_Config n ''input'')) of
        None \<Rightarrow> None
      | Some i \<Rightarrow> sub (rn_TenantID run) (nd_Ref n) (if i = [] then rn_Input run else i) (rn_CreatedBy run) w)"

definition execNode :: "AgEnv \<Rightarrow> sub_run \<Rightarrow> Node \<Rightarrow> Run \<Rightarrow> AgWorld \<Rightarrow> ((string + string) \<times> Run \<times> AgWorld) option" where
  "execNode env sub n run w =
     (case nd_Type n of
        NodeLLMCall \<Rightarrow> map_option (\<lambda>(r, w). (r, run, w)) (execLLM env n run w)
      | NodeRagRetrieve \<Rightarrow> map_option (\<lambda>(r, w). (r, run, w)) (execRag env n run w)
      | NodeToolCall \<Rightarrow> (let (r, w) = execTool env n run w in Some (r, run, w))
      | NodeCondition \<Rightarrow> Some (Inr (argString (nd_Config n) ''expr''), run, w)
      | NodeSubAgent \<Rightarrow> map_option (\<lambda>(r, w). (r, run, w)) (execSub env sub n run w)
      | NodeHumanReview \<Rightarrow> Some (Inr [], PauseForHuman (nowA env w) (nd_ID n) (argString (nd_Config n) ''prompt'') run, w)
      | OtherNode t \<Rightarrow> Some (Inl (''unsupported node type '' @ ax_quote env t), run, w))"

section \<open>Driving a run\<close>

definition zeroNode :: Node where
  "zeroNode = \<lparr>nd_ID = [], nd_Type = OtherNode [], nd_Ref = [], nd_Config = (\<lambda>_. None)\<rparr>"

definition nodeOf :: "DAG \<Rightarrow> string \<Rightarrow> Node" where
  "nodeOf d k = (case NodeByID d k of None \<Rightarrow> zeroNode | Some n \<Rightarrow> n)"

text \<open>How the loop over the nodes ends: all done, paused, or an error.\<close>

datatype DriveEnd = AllDone | Paused | Stopped string

primrec driveLoop :: "AgEnv \<Rightarrow> sub_run \<Rightarrow> DAG \<Rightarrow> string list \<Rightarrow> string list \<Rightarrow> Run \<Rightarrow> AgWorld \<Rightarrow> (DriveEnd \<times> Run \<times> AgWorld) option" where
  "driveLoop env sub d finished [] run w = Some (AllDone, run, w)"
| "driveLoop env sub d finished (k # ks) run w =
     (if k \<in> set finished then driveLoop env sub d finished ks run w
      else case execNode env sub (nodeOf d k) run w of
        None \<Rightarrow> None
      | Some (Inl e, run, w) \<Rightarrow>
          (let run = FailRun (nowA env w) k e run in Some (Stopped e, run, snd (updateRun env run w)))
      | Some (Inr out, run, w) \<Rightarrow>
          if rn_Status run = RunPaused then Some (Paused, run, snd (updateRun env run w))
          else
            (let run = RecordCompleted (nowA env w) k out run
             in driveLoop env sub d finished ks run (snd (updateRun env run w))))"

definition drive :: "AgEnv \<Rightarrow> sub_run \<Rightarrow> Agent \<Rightarrow> Run \<Rightarrow> AgWorld \<Rightarrow> (string option \<times> Run \<times> AgWorld) option" where
  "drive env sub a run w =
     (case TopoSort (ag_DAG a) of
        Inl e \<Rightarrow>
          (let run = FailRun (nowA env w) [] (agentText env e) run; (r, w) = updateRun env run w in
           Some (map_option storeText r, run, w))
      | Inr order \<Rightarrow>
          (case driveLoop env sub (ag_DAG a) (map nr_NodeID (rn_Results run)) order run w of
             None \<Rightarrow> None
           | Some (Stopped e, run, w) \<Rightarrow> Some (Some e, run, w)
           | Some (Paused, run, w) \<Rightarrow> Some (None, run, w)
           | Some (AllDone, run, w) \<Rightarrow>
               (let final = (if rn_Results run \<noteq> [] then nr_Output (last (rn_Results run)) else []);
                    run = Succeed (nowA env w) final run; (r, w) = updateRun env run w in
                Some (map_option storeText r, run, w))))"

definition newRun :: "AgEnv \<Rightarrow> string \<Rightarrow> string \<Rightarrow> string \<Rightarrow> string \<Rightarrow> AgWorld \<Rightarrow> Run" where
  "newRun env agentID tenant input user w =
     StartR (nowA env w) ((NewRun (nowA env w) (ax_id env (aw_tick w)) agentID tenant input)\<lparr>rn_CreatedBy := user\<rparr>)"

definition runnable :: "Agent \<Rightarrow> bool" where
  "runnable a = (ag_Status a = AgentStatusCompiled \<or> ag_Status a = AgentStatusPublished)"

definition runSubAgent :: "AgEnv \<Rightarrow> sub_run \<Rightarrow> sub_run" where
  "runSubAgent env sub tenant subID input user w =
     (case getAgent env tenant subID w of
        (Inl e, w) \<Rightarrow> Some (Inl (''subagent: load '' @ ax_quote env subID @ '': '' @ storeText e), w)
      | (Inr a, w) \<Rightarrow>
          if \<not> runnable a
          then Some (Inl (''subagent: '' @ ax_quote env subID @ '' is not compiled (status='' @ statusText (ag_Status a) @ '')''), w)
          else
            let child = newRun env subID tenant input user w in
            (case createRun env child w of
               (Some e, w) \<Rightarrow> Some (Inl (''subagent: create run: '' @ storeText e), w)
             | (None, w) \<Rightarrow> (case drive env sub a child w of
                 None \<Rightarrow> None
               | Some (Some e, child, w) \<Rightarrow>
                   if rn_Status child = RunPaused
                   then Some (Inl (''subagent: '' @ ax_quote env subID @ '' paused on HumanReview, not supported in sub-agent''), w)
                   else Some (Inl (''subagent: '' @ ax_quote env subID @ '' failed: '' @ rn_FinalOutput child), w)
               | Some (None, child, w) \<Rightarrow> Some (Inr (rn_FinalOutput child), w))))"

text \<open>Agents nested to a depth.\<close>

primrec subRunAt :: "AgEnv \<Rightarrow> nat \<Rightarrow> sub_run" where
  "subRunAt env 0 = (\<lambda>_ _ _ _ _. None)"
| "subRunAt env (Suc depth) = runSubAgent env (subRunAt env depth)"

section \<open>Runs\<close>

definition publishRunFinished :: "AgEnv \<Rightarrow> Run \<Rightarrow> Agent \<Rightarrow> AgWorld \<Rightarrow> AgWorld" where
  "publishRunFinished env run a w =
     (if \<not> ax_sink env \<or> rn_Status run \<noteq> RunSucceeded \<and> rn_Status run \<noteq> RunFailed then w
      else
        let errMsg = (if rn_Status run = RunFailed \<and> rn_Results run \<noteq> [] then nr_Error (last (rn_Results run)) else []) in
        tickA (w\<lparr>aw_events := aw_events w @ [\<lparr>ev_TenantID = rn_TenantID run, ev_AgentID = ag_ID a, ev_RunID = rn_ID run,
          ev_Status = rn_Status run, ev_NodeCount = length (dg_Nodes (ag_DAG a)), ev_FinalOutput = rn_FinalOutput run,
          ev_Error = errMsg, ev_ActorID = rn_CreatedBy run, ev_ActorName = rn_CreatedBy run,
          ev_DurationMs = divTrunc (time_sub (rn_UpdatedAt run) (rn_CreatedAt run)) 1000000\<rparr>]\<rparr>))"

definition StartRun :: "AgEnv \<Rightarrow> nat \<Rightarrow> string \<Rightarrow> string \<Rightarrow> string \<Rightarrow> string \<Rightarrow> AgWorld \<Rightarrow> ((AgErr + Run) \<times> AgWorld) option" where
  "StartRun env depth tenant agentID input user w =
     (case getAgent env tenant agentID w of
        (Inl e, w) \<Rightarrow> Some (Inl (AeStore e), w)
      | (Inr a, w) \<Rightarrow>
          if \<not> runnable a then Some (Inl (AeAgent ErrAgentNotCompiled), w)
          else
            let run = newRun env agentID tenant input user w in
            (case createRun env run w of
               (Some e, w) \<Rightarrow> Some (Inl (AeStore e), w)
             | (None, w) \<Rightarrow> (case drive env (subRunAt env depth) a run w of
                 None \<Rightarrow> None
               | Some (_, run, w) \<Rightarrow> Some (Inr run, publishRunFinished env run a w))))"

definition ResumeRun :: "AgEnv \<Rightarrow> nat \<Rightarrow> string \<Rightarrow> string \<Rightarrow> string \<Rightarrow> AgWorld \<Rightarrow> ((AgErr + Run) \<times> AgWorld) option" where
  "ResumeRun env depth tenant runID decision w =
     (case (GetRunRow (faultA env w) tenant runID (aw_runs w), tickA w) of
        (Inl e, w) \<Rightarrow> Some (Inl (AeStore e), w)
      | (Inr run, w) \<Rightarrow> (case getAgent env tenant (rn_AgentID run) w of
          (Inl e, w) \<Rightarrow> Some (Inl (AeStore e), w)
        | (Inr a, w) \<Rightarrow> (case HumanResume (nowA env w) decision run of
            (Some e, _) \<Rightarrow> Some (Inl (AeAgent e), w)
          | (None, run) \<Rightarrow> (case updateRun env run w of
              (Some e, w) \<Rightarrow> Some (Inl (AeStore e), w)
            | (None, w) \<Rightarrow> (case drive env (subRunAt env depth) a run w of
                None \<Rightarrow> None
              | Some (_, run, w) \<Rightarrow> Some (Inr run, publishRunFinished env run a w))))))"

end
