(* ===== verification/AgentTools.thy ===== *)
theory AgentTools
  imports AgentService
begin

text \<open>
  \<^verbatim>\<open>app/agent/tool_executor.go\<close>: the executor of tool calls over the registry of tools, with its guard against
  requests to private addresses.  Name resolution, the HTTP client, the encoding of arguments and the canonical form of
  a header name are asked of the environment.
\<close>

section \<open>Addresses\<close>

text \<open>An address is its 4 or 16 bytes.\<close>

type_synonym ip = "nat list"

definition to4 :: "ip \<Rightarrow> ip option" where
  "to4 a =
     (if length a = 4 then Some a
      else if length a = 16 \<and> take 10 a = replicate 10 0 \<and> a ! 10 = 255 \<and> a ! 11 = 255 then Some (drop 12 a)
      else None)"

definition isLoopback :: "ip \<Rightarrow> bool" where
  "isLoopback a = (case to4 a of Some b \<Rightarrow> b ! 0 = 127 | None \<Rightarrow> a = replicate 15 0 @ [1])"

definition isLinkLocalUnicast :: "ip \<Rightarrow> bool" where
  "isLinkLocalUnicast a =
     (case to4 a of Some b \<Rightarrow> b ! 0 = 169 \<and> b ! 1 = 254 | None \<Rightarrow> length a = 16 \<and> a ! 0 = 254 \<and> a ! 1 div 64 = 2)"

definition isLinkLocalMulticast :: "ip \<Rightarrow> bool" where
  "isLinkLocalMulticast a =
     (case to4 a of Some b \<Rightarrow> b ! 0 = 224 \<and> b ! 1 = 0 \<and> b ! 2 = 0 | None \<Rightarrow> length a = 16 \<and> a ! 0 = 255 \<and> a ! 1 mod 16 = 2)"

definition isUnspecified :: "ip \<Rightarrow> bool" where
  "isUnspecified a = (to4 a = Some (replicate 4 0) \<or> a = replicate 16 0)"

definition isPrivateIP :: "ip \<Rightarrow> bool" where
  "isPrivateIP a =
     (isLoopback a \<or> isLinkLocalUnicast a \<or> isLinkLocalMulticast a \<or> isUnspecified a
      \<or> (case to4 a of
           None \<Rightarrow> False
         | Some b \<Rightarrow> b ! 0 = 10 \<or> b ! 0 = 127 \<or> b ! 0 = 169 \<and> b ! 1 = 254
             \<or> b ! 0 = 172 \<and> 16 \<le> b ! 1 \<and> b ! 1 \<le> 31 \<or> b ! 0 = 192 \<and> b ! 1 = 168))"

section \<open>The guard\<close>

definition afterScheme :: "string \<Rightarrow> string" where
  "afterScheme url = (case indexOf url ''://'' of None \<Rightarrow> url | Some i \<Rightarrow> drop (i + 3) url)"

definition trimBracket :: "string \<Rightarrow> string" where
  "trimBracket h = (if h \<noteq> [] \<and> last h = CHR '']'' then butlast h else h)"

definition cutPort :: "string \<Rightarrow> string" where
  "cutPort h = (if CHR '':'' \<in> set h \<and> CHR '']'' \<notin> set h then rev (tl (dropWhile (\<lambda>c. c \<noteq> CHR '':'') (rev h))) else h)"

definition guardHost :: "string \<Rightarrow> string" where
  "guardHost url = cutPort (trimBracket (takeWhile (\<lambda>c. c \<notin> set ''/:#?'') (afterScheme url)))"

definition guardSSRF :: "(string \<Rightarrow> string + ip list) \<Rightarrow> (ip \<Rightarrow> string) \<Rightarrow> string \<Rightarrow> string option" where
  "guardSSRF lookup showIP rawURL =
     (case lookup (guardHost rawURL) of
        Inl e \<Rightarrow> Some (''dns resolve failed: '' @ e)
      | Inr ips \<Rightarrow> map_option (\<lambda>a. ''refusing private address '' @ showIP a) (List.find isPrivateIP ips))"

section \<open>Execution\<close>

record HttpRequest =
  hq_Method :: string
  hq_URL :: string
  hq_Headers :: "(string \<times> string) list"
  hq_Body :: "string option"
  hq_TimeoutMs :: int

record ToolEnv =
  tx_tools :: "(string \<Rightarrow> string \<Rightarrow> StoreError + Tool) option"
  tx_retrieve :: "(string \<Rightarrow> string \<Rightarrow> int \<Rightarrow> string + ScoredSegment list) option"
  tx_lookup :: "string \<Rightarrow> string + ip list"
  tx_showIP :: "ip \<Rightarrow> string"
  tx_json :: "(string \<Rightarrow> Any option) \<Rightarrow> string option"
  tx_canonical :: "string \<Rightarrow> string"
  tx_do :: "HttpRequest \<Rightarrow> string + int \<times> string"
  tx_showInt :: "int \<Rightarrow> string"
  tx_toInt :: "f64 \<Rightarrow> int"

definition okTool :: "string \<Rightarrow> ToolResult" where
  "okTool s = \<lparr>tr_OK = True, tr_Data = s, tr_Error = []\<rparr>"

definition ragTopK :: "(f64 \<Rightarrow> int) \<Rightarrow> (string \<Rightarrow> Any option) \<Rightarrow> int" where
  "ragTopK toInt args = (case args ''top_k'' of Some (ANumber v) \<Rightarrow> if flt (Fin 0) v then toInt v else 4 | _ \<Rightarrow> 4)"

definition execRAG :: "ToolEnv \<Rightarrow> ToolCall \<Rightarrow> string + ToolResult" where
  "execRAG env t =
     (case tx_retrieve env of
        None \<Rightarrow> Inl ''tool rag: retriever not configured''
      | Some retrieve \<Rightarrow>
          let query = argString (tc_Args t) ''query'' in
          if query = [] then Inl ''tool rag: missing args.query''
          else case retrieve [] query (ragTopK (tx_toInt env) (tc_Args t)) of
            Inl e \<Rightarrow> Inl (''tool rag: '' @ e)
          | Inr hits \<Rightarrow> Inr (okTool (formatSegments hits)))"

definition requestOf :: "ToolEnv \<Rightarrow> HTTPToolSpec \<Rightarrow> ToolCall \<Rightarrow> HttpRequest" where
  "requestOf env spec t =
     (let body = tx_json env (tc_Args t);
          typed = list_ex (\<lambda>(k, v). tx_canonical env k = ''Content-Type'' \<and> v \<noteq> []) (ht_Headers spec) in
      \<lparr>hq_Method = (if ht_Method spec = [] then ''POST'' else ht_Method spec), hq_URL = ht_URL spec,
       hq_Headers = ht_Headers spec @ (if body \<noteq> None \<and> \<not> typed then [(''Content-Type'', ''application/json'')] else []),
       hq_Body = body, hq_TimeoutMs = (if i64 (ht_TimeoutMs spec * 1000000) \<le> 0 then 10000 else ht_TimeoutMs spec)\<rparr>)"

definition execHTTP :: "ToolEnv \<Rightarrow> ToolCall \<Rightarrow> string + ToolResult" where
  "execHTTP env t =
     (let name = ''tool '' @ tc_Tool t @ '': '' in
      case tx_tools env of
        None \<Rightarrow> Inl (name @ ''no tool registry configured'')
      | Some byName \<Rightarrow> (case byName (tc_Tenant t) (tc_Tool t) of
          Inl e \<Rightarrow> Inl (name @ ''not found: '' @ storeText e)
        | Inr def \<Rightarrow> (case (tl_Kind def = ToolKindHTTP, tl_HTTP def) of
            (True, Some spec) \<Rightarrow>
              if tl_Sensitive def then Inl (name @ ''sensitive tools require human approval, unsupported in DAG run'')
              else if \<not> prefixOf ''http://'' (ht_URL spec) \<and> \<not> prefixOf ''https://'' (ht_URL spec)
              then Inl (name @ ''only http/https urls allowed'')
              else (case guardSSRF (tx_lookup env) (tx_showIP env) (ht_URL spec) of
                Some e \<Rightarrow> Inl (name @ e)
              | None \<Rightarrow> (case tx_do env (requestOf env spec t) of
                  Inl e \<Rightarrow> Inl e
                | Inr (status, body) \<Rightarrow>
                    (let body = take (2 ^ 20) body in
                     if 400 \<le> status then Inl (name @ ''http '' @ tx_showInt env status @ '': '' @ TrimSpace body)
                     else Inr (okTool body))))
          | _ \<Rightarrow> Inl (name @ ''not an http tool''))))"

definition ExecuteTool :: "ToolEnv \<Rightarrow> ToolCall \<Rightarrow> string + ToolResult" where
  "ExecuteTool env t = (if tc_Tool t = ''rag'' then execRAG env t else execHTTP env t)"

section \<open>Where the request goes\<close>

text \<open>The host of a URL as \<^verbatim>\<open>net/url\<close> reads it: the authority ends at a slash, a question mark or a hash, what is
  before the last at-sign is user information, and a port follows a colon.\<close>

definition authority :: "string \<Rightarrow> string" where
  "authority url = takeWhile (\<lambda>c. c \<notin> set ''/?#'') (afterScheme url)"

definition requestHost :: "string \<Rightarrow> string" where
  "requestHost url = takeWhile (\<lambda>c. c \<noteq> CHR '':'') (rev (takeWhile (\<lambda>c. c \<noteq> CHR ''@'') (rev (authority url))))"

lemma afterScheme_http: "afterScheme (''http://'' @ rest) = rest"
  by (simp add: afterScheme_def)

lemma takeWhile_stop: "\<forall>c\<in>set s. P c \<Longrightarrow> \<not> P x \<Longrightarrow> takeWhile P (s @ x # t) = s"
  by (induction s) auto

definition hostChars :: "string \<Rightarrow> bool" where
  "hostChars h = list_all (\<lambda>c. c \<notin> set ''/:#?@]'') h"

lemma hostCharsD: "hostChars h \<Longrightarrow> c \<in> set h \<Longrightarrow> c \<notin> set ''/:#?@]''"
  by (simp add: hostChars_def list_all_iff)

lemma hostChars_not_in:
  assumes "hostChars h"
  shows "CHR ''/'' \<notin> set h" "CHR '':'' \<notin> set h" "CHR ''#'' \<notin> set h" "CHR ''?'' \<notin> set h" "CHR ''@'' \<notin> set h" "CHR '']'' \<notin> set h"
  using hostCharsD [OF assms] by (metis list.set_intros)+

lemma guardHost_user:
  assumes "hostChars h"
  shows "guardHost (''http://'' @ h @ '':'' @ rest) = h"
proof -
  note n = hostChars_not_in [OF assms]
  have "\<forall>c\<in>set h. c \<notin> set ''/:#?''" using n by auto
  then have "takeWhile (\<lambda>c. c \<notin> set ''/:#?'') (h @ CHR '':'' # rest) = h" by (rule takeWhile_stop) simp
  then have "guardHost (''http://'' @ h @ '':'' @ rest) = cutPort (trimBracket h)"
    unfolding guardHost_def afterScheme_http by simp
  moreover have "trimBracket h = h" using n(6) unfolding trimBracket_def by (metis last_in_set)
  ultimately show ?thesis using n by (simp add: cutPort_def)
qed

lemma requestHost_user:
  assumes "hostChars h" and "hostChars x" and "hostChars target"
  shows "requestHost (''http://'' @ h @ '':'' @ x @ ''@'' @ target @ ''/'' @ path) = target"
proof -
  note n = hostChars_not_in [OF assms(1)] hostChars_not_in [OF assms(2)] hostChars_not_in [OF assms(3)]
  let ?u = "h @ '':'' @ x @ ''@'' @ target"
  have "\<forall>c\<in>set ?u. c \<notin> set ''/?#''" using n by auto
  then have "takeWhile (\<lambda>c. c \<notin> set ''/?#'') (?u @ CHR ''/'' # path) = ?u" by (rule takeWhile_stop) simp
  then have a: "authority (''http://'' @ h @ '':'' @ x @ ''@'' @ target @ ''/'' @ path) = ?u"
    unfolding authority_def afterScheme_http by simp
  have "\<forall>c\<in>set (rev target). c \<noteq> CHR ''@''" using n by auto
  then have "takeWhile (\<lambda>c. c \<noteq> CHR ''@'') (rev target @ CHR ''@'' # rev (h @ '':'' @ x)) = rev target" by (rule takeWhile_stop) simp
  moreover have "takeWhile (\<lambda>c. c \<noteq> CHR '':'') target = target" using n by (auto simp: takeWhile_eq_all_conv)
  ultimately show ?thesis unfolding requestHost_def a by simp
qed

lemma isPrivateIP_v4: "isPrivateIP [10, b, c, d]" "isPrivateIP [192, 168, c, d]" "16 \<le> b \<and> b \<le> 31 \<Longrightarrow> isPrivateIP [172, b, c, d]"
  by (simp_all add: isPrivateIP_def to4_def)

text \<open>Unique local addresses of IPv6 (fc00::/7) are not refused.\<close>

lemma isPrivateIP_ula:
  assumes "length rest = 15"
  shows "\<not> isPrivateIP (253 # rest)"
proof -
  have "take 10 (253 # rest) \<noteq> replicate 10 0"
  proof
    assume "take 10 (253 # rest) = replicate 10 0"
    then have "hd (take 10 (253 # rest)) = hd (replicate 10 (0 :: nat))" by simp
    then show False by simp
  qed
  then have t: "to4 (253 # rest) = None" using assms by (simp add: to4_def)
  have "253 # rest \<noteq> replicate 15 0 @ [1]" "253 # rest \<noteq> replicate 16 0"
    by (metis hd_append2 hd_replicate length_replicate list.sel(1) list.size(3) zero_neq_numeral, metis hd_replicate list.sel(1) zero_neq_numeral)
  then show ?thesis
    by (simp add: isPrivateIP_def t isLoopback_def isLinkLocalUnicast_def isLinkLocalMulticast_def isUnspecified_def)
qed

section \<open>Properties\<close>

text \<open>C22: The guard of tool requests can be led past.  It looks up what stands before the first colon of a URL; with user
  information in the URL that is not the host the request goes to.  So a registered tool whose URL names a public host
  as user and any private host after the at-sign is executed, whatever that host resolves to.\<close>
theorem ssrf_guard_misled:
  assumes "tx_tools env = Some byName" and "byName (tc_Tenant t) (tc_Tool t) = Inr def"
    and "tl_Kind def = ToolKindHTTP" and "tl_HTTP def = Some spec" and "\<not> tl_Sensitive def"
    and "ht_URL spec = ''http://'' @ h @ '':'' @ x @ ''@'' @ target @ ''/'' @ path"
    and "hostChars h" and "hostChars x" and "hostChars target"
    and "tx_lookup env h = Inr ips" and "list_all (\<lambda>a. \<not> isPrivateIP a) ips"
    and "tx_do env (requestOf env spec t) = Inr (200, body)"
  shows "execHTTP env t = Inr (okTool (take (2 ^ 20) body)) \<and> requestHost (hq_URL (requestOf env spec t)) = target"
proof -
  have "guardHost (ht_URL spec) = h" unfolding assms(6) by (rule guardHost_user [OF assms(7)])
  moreover have "List.find isPrivateIP ips = None" using assms(11) by (auto simp: find_None_iff list_all_iff)
  ultimately have g: "guardSSRF (tx_lookup env) (tx_showIP env) (ht_URL spec) = None" using assms(10) by (simp add: guardSSRF_def)
  have p: "prefixOf ''http://'' (ht_URL spec)" unfolding assms(6) by simp
  have "hq_URL (requestOf env spec t) = ht_URL spec" by (simp add: requestOf_def Let_def)
  then show ?thesis
    using assms(1-5,12) g p requestHost_user [OF assms(7-9)] assms(6) by (simp add: execHTTP_def)
qed

definition demoTool :: Tool where
  "demoTool = \<lparr>tl_ID = ''t'', tl_TenantID = ''acme'', tl_Name = ''t'', tl_Description = [], tl_Kind = ToolKindHTTP,
     tl_HTTP = Some \<lparr>ht_URL = ''http://example.com:x@10.0.0.1/admin'', ht_Method = [], ht_Headers = [], ht_TimeoutMs = 0\<rparr>,
     tl_Sensitive = False, tl_CreatedAt = 0, tl_UpdatedAt = 0\<rparr>"

definition demoCall :: ToolCall where "demoCall = \<lparr>tc_Tool = ''t'', tc_Args = (\<lambda>_. None), tc_Tenant = ''acme''\<rparr>"

definition demoToolEnv :: ToolEnv where
  "demoToolEnv = \<lparr>tx_tools = Some (\<lambda>_ _. Inr demoTool), tx_retrieve = None,
     tx_lookup = (\<lambda>h. if h = ''example.com'' then Inr [[93, 184, 216, 34]] else Inr [[10, 0, 0, 1]]),
     tx_showIP = (\<lambda>_. []), tx_json = (\<lambda>_. None), tx_canonical = id, tx_do = (\<lambda>_. Inr (200, ''internal'')), tx_showInt = (\<lambda>_. []),
     tx_toInt = (\<lambda>_. 0)\<rparr>"

lemma ssrf_guard_misled_witness:
  "execHTTP demoToolEnv demoCall = Inr (okTool ''internal'')
    \<and> requestHost (hq_URL (requestOf demoToolEnv \<lparr>ht_URL = ''http://example.com:x@10.0.0.1/admin'', ht_Method = [], ht_Headers = [],
        ht_TimeoutMs = 0\<rparr> demoCall)) = ''10.0.0.1''"
proof -
  have p: "\<not> isPrivateIP [93, 184, 216, 34]"
    by (simp add: isPrivateIP_def to4_def isLoopback_def isLinkLocalUnicast_def isLinkLocalMulticast_def isUnspecified_def numeral_eq_Suc)
  have h: "hostChars ''example.com''" "hostChars ''x''" "hostChars ''10.0.0.1''" by (simp_all add: hostChars_def)
  show ?thesis
    using ssrf_guard_misled [of demoToolEnv _ demoCall demoTool "\<lparr>ht_URL = ''http://example.com:x@10.0.0.1/admin'', ht_Method = [],
        ht_Headers = [], ht_TimeoutMs = 0\<rparr>", OF _ _ _ _ _ _ h, where ips = "[[93, 184, 216, 34]]" and path = "''admin''" and body = "''internal''"] p
    by (simp add: demoToolEnv_def demoTool_def)
qed

end
