(* ===== verification/AgentServiceProofs.thy ===== *)
theory AgentServiceProofs
  imports AgentService
begin

text \<open>
  What a run of an agent does: the results it records follow the topological order, a pause keeps the place and a
  resumption goes on after it; what becomes of sub-agents that pause, fail or refer to themselves.
\<close>

section \<open>One node\<close>

lemma tickA_simps [simp]:
  "aw_agents (tickA w) = aw_agents w" "aw_runs (tickA w) = aw_runs w" "aw_tick (tickA w) = Suc (aw_tick w)"
  by (simp_all add: tickA_def)

lemma execNode_run:
  assumes "execNode env sub n run w = Some (r, run', w')"
  shows "run' = run \<or> nd_Type n = NodeHumanReview \<and> r = Inr [] \<and> w' = w
    \<and> run' = PauseForHuman (nowA env w) (nd_ID n) (argString (nd_Config n) ''prompt'') run"
  using assms by (cases "nd_Type n") (auto simp: execNode_def Let_def split: prod.splits)

lemma execNode_human:
  "nd_Type n = NodeHumanReview \<Longrightarrow> execNode env sub n run w
     = Some (Inr [], PauseForHuman (nowA env w) (nd_ID n) (argString (nd_Config n) ''prompt'') run, w)"
  by (simp add: execNode_def)

lemma run_simps [simp]:
  "rn_Results (FailRun now k e run) = rn_Results run @ [\<lparr>nr_NodeID = k, nr_Status = ''failed'', nr_Output = [], nr_Error = e,
     nr_StartedAt = rn_UpdatedAt run, nr_FinishedAt = now\<rparr>]"
  "rn_Status (FailRun now k e run) = RunFailed" "rn_FinalOutput (FailRun now k e run) = rn_FinalOutput run"
  "rn_Results (RecordCompleted now k out run) = rn_Results run @ [(okResult k out run)\<lparr>nr_FinishedAt := now\<rparr>]"
  "rn_Status (RecordCompleted now k out run) = rn_Status run"
  "rn_FinalOutput (RecordCompleted now k out run) = rn_FinalOutput run"
  "rn_Results (PauseForHuman now k p run) = rn_Results run" "rn_Status (PauseForHuman now k p run) = RunPaused"
  "rn_PausedAt (PauseForHuman now k p run) = k" "rn_FinalOutput (PauseForHuman now k p run) = rn_FinalOutput run"
  "rn_Status (Succeed now out run) = RunSucceeded" "rn_FinalOutput (Succeed now out run) = out"
  "nr_NodeID (okResult k out run) = k" "nr_Output (okResult k out run) = out"
  by (simp_all add: FailRun_def RecordCompleted_def PauseForHuman_def Succeed_def recordNode_def okResult_def Let_def)

lemma Succeed_results:
  "map nr_NodeID (rn_Results (Succeed now out run))
     = map nr_NodeID (rn_Results run) @ (if rn_Results run = [] then [] else [nr_NodeID (last (rn_Results run))])"
  by (simp add: Succeed_def recordNode_def okResult_def Let_def)

definition ids :: "Run \<Rightarrow> string list" where
  "ids run = map nr_NodeID (rn_Results run)"

section \<open>The loop over the nodes\<close>

text \<open>What the loop has done when it ends, of the nodes it had to do.\<close>

definition loopEnd :: "DAG \<Rightarrow> string list \<Rightarrow> Run \<Rightarrow> DriveEnd \<Rightarrow> Run \<Rightarrow> bool" where
  "loopEnd d todo run e run' =
     (case e of
        AllDone \<Rightarrow> ids run' = ids run @ todo \<and> rn_Status run' = rn_Status run
      | Paused \<Rightarrow> \<exists>pre k post. todo = pre @ k # post \<and> ids run' = ids run @ pre \<and> rn_Status run' = RunPaused
          \<and> nd_Type (nodeOf d k) = NodeHumanReview \<and> rn_PausedAt run' = nd_ID (nodeOf d k)
      | Stopped m \<Rightarrow> \<exists>pre k post. todo = pre @ k # post \<and> ids run' = ids run @ pre @ [k] \<and> rn_Status run' = RunFailed
          \<and> nr_Error (last (rn_Results run')) = m)"

lemma driveLoop_end:
  assumes "driveLoop env sub d finished ks run w = Some (e, run', w')" and "rn_Status run \<noteq> RunPaused"
  shows "loopEnd d (filter (\<lambda>k. k \<notin> set finished) ks) run e run'
    \<and> (e \<noteq> AllDone \<longrightarrow> rn_FinalOutput run' = rn_FinalOutput run)"
  using assms
proof (induction ks arbitrary: run w)
  case Nil
  then show ?case by (auto simp: loopEnd_def)
next
  case (Cons k ks)
  show ?case
  proof (cases "k \<in> set finished")
    case True
    then show ?thesis using Cons by simp
  next
    case False
    obtain r run1 w1 where x: "execNode env sub (nodeOf d k) run w = Some (r, run1, w1)"
      using Cons.prems False by (auto split: option.splits)
    let ?todo = "filter (\<lambda>k. k \<notin> set finished) ks"
    show ?thesis
    proof (cases r)
      case (Inl m)
      then have "run1 = run" using execNode_run [OF x] by auto
      then have "e = Stopped m" "run' = FailRun (nowA env w1) k m run"
        using Cons.prems False x Inl by (auto simp: Let_def)
      then show ?thesis using False by (auto simp: loopEnd_def ids_def)
    next
      case (Inr out)
      show ?thesis
      proof (cases "rn_Status run1 = RunPaused")
        case True
        then have p: "nd_Type (nodeOf d k) = NodeHumanReview"
          "run1 = PauseForHuman (nowA env w) (nd_ID (nodeOf d k)) (argString (nd_Config (nodeOf d k)) ''prompt'') run"
          using execNode_run [OF x] Cons.prems(2) by auto
        have "e = Paused" "run' = run1" using Cons.prems False x Inr True by auto
        then show ?thesis using False p by (force simp: loopEnd_def ids_def)
      next
        case go: False
        then have "run1 = run" using execNode_run [OF x] by auto
        let ?run = "RecordCompleted (nowA env w1) k out run"
        have "driveLoop env sub d finished ks ?run (snd (updateRun env ?run w1)) = Some (e, run', w')"
          using Cons.prems False x Inr go \<open>run1 = run\<close> by (simp add: Let_def)
        from Cons.IH [OF this] have IH: "loopEnd d ?todo ?run e run'" "e \<noteq> AllDone \<longrightarrow> rn_FinalOutput run' = rn_FinalOutput run"
          using Cons.prems(2) by simp_all
        have i: "ids ?run = ids run @ [k]" by (simp add: ids_def)
        have "loopEnd d (k # ?todo) run e run'"
        proof (cases e)
          case AllDone
          then show ?thesis using IH(1) i by (simp add: loopEnd_def)
        next
          case Paused
          then obtain pre k' post where "?todo = pre @ k' # post" "ids run' = ids ?run @ pre" "rn_Status run' = RunPaused"
            "nd_Type (nodeOf d k') = NodeHumanReview" "rn_PausedAt run' = nd_ID (nodeOf d k')"
            using IH(1) by (auto simp: loopEnd_def)
          then show ?thesis using Paused i
            by (auto simp: loopEnd_def intro!: exI [of _ "k # pre"] exI [of _ k'] exI [of _ post])
        next
          case (Stopped m)
          then obtain pre k' post where "?todo = pre @ k' # post" "ids run' = ids ?run @ pre @ [k']" "rn_Status run' = RunFailed"
            "nr_Error (last (rn_Results run')) = m"
            using IH(1) by (auto simp: loopEnd_def)
          then show ?thesis using Stopped i
            by (auto simp: loopEnd_def intro!: exI [of _ "k # pre"] exI [of _ k'] exI [of _ post])
        qed
        then show ?thesis using False IH(2) by simp
      qed
    qed
  qed
qed

section \<open>A run fits its graph\<close>

text \<open>
  The recorded nodes are an initial part of the topological order; a paused run stands at the next node, a failed
  one ends with the node that failed, and a run that succeeded has them all, the last one twice.
\<close>

definition fits :: "DAG \<Rightarrow> Run \<Rightarrow> bool" where
  "fits d run =
     (case TopoSort d of
        Inl _ \<Rightarrow> False
      | Inr order \<Rightarrow> (case rn_Status run of
          RunPending \<Rightarrow> False
        | RunRunning \<Rightarrow> \<exists>post. order = ids run @ post
        | RunPaused \<Rightarrow> \<exists>post. order = ids run @ rn_PausedAt run # post
        | RunFailed \<Rightarrow> \<exists>pre k post. order = pre @ k # post \<and> ids run = pre @ [k]
        | RunSucceeded \<Rightarrow> ids run = order @ (if order = [] then [] else [last order])))"

definition wellFormed :: "DAG \<Rightarrow> bool" where
  "wellFormed d = (distinct (map fst (dg_Edges d)) \<and> distinct (nodeIDs d) \<and> validEdges d)"

lemma sorted_ids:
  assumes "wellFormed d" and "TopoSort d = Inr order"
  shows "distinct order" and "k \<in> set order \<Longrightarrow> nd_ID (nodeOf d k) = k"
proof -
  have o: "distinct order" "set order = set (nodeIDs d)"
    using TopoSort_cases [of d] assms by (auto simp: wellFormed_def)
  show "distinct order" by (rule o(1))
  show "nd_ID (nodeOf d k) = k" if "k \<in> set order"
  proof -
    have "\<exists>n \<in> set (dg_Nodes d). nd_ID n = k" using that o(2) by (auto simp: nodeIDs_def)
    then obtain n where "List.find (\<lambda>n. nd_ID n = k) (rev (dg_Nodes d)) = Some n"
      by (metis (mono_tags, lifting) find_None_iff2 not_None_eq set_rev)
    then show ?thesis using find_SomeD by (fastforce simp: nodeOf_def NodeByID_def)
  qed
qed

lemma drive_fits:
  assumes wf: "wellFormed (ag_DAG a)" and "fits (ag_DAG a) run" and "rn_Status run = RunRunning"
    and "drive env sub a run w = Some (e, run', w')"
  shows "fits (ag_DAG a) run'"
proof -
  obtain order post where t: "TopoSort (ag_DAG a) = Inr order" and o: "order = ids run @ post"
    using assms(2,3) by (auto simp: fits_def split: sum.splits)
  note d = sorted_ids [OF wf t]
  have todo: "filter (\<lambda>k. k \<notin> set (map nr_NodeID (rn_Results run))) order = post"
    using d(1) unfolding o ids_def by (auto simp: filter_empty_conv filter_id_conv)
  obtain x run1 w1 where l: "driveLoop env sub (ag_DAG a) (map nr_NodeID (rn_Results run)) order run w = Some (x, run1, w1)"
    using assms(4) t by (auto simp: drive_def split: option.splits)
  have E: "loopEnd (ag_DAG a) post run x run1"
    using driveLoop_end [OF l] assms(3) todo by simp
  show ?thesis
  proof (cases x)
    case AllDone
    then have i: "ids run1 = order" using E o by (simp add: loopEnd_def)
    obtain now out where "run' = Succeed now out run1" using assms(4) t l AllDone by (auto simp: drive_def Let_def split: prod.splits)
    then have "rn_Status run' = RunSucceeded" "ids run' = ids run1 @ (if rn_Results run1 = [] then [] else [nr_NodeID (last (rn_Results run1))])"
      unfolding ids_def by (simp_all only: Succeed_results run_simps)
    moreover have "rn_Results run1 = [] \<longleftrightarrow> order = []" "rn_Results run1 \<noteq> [] \<Longrightarrow> nr_NodeID (last (rn_Results run1)) = last order"
      using i by (auto simp: ids_def last_map)
    ultimately show ?thesis using t i by (auto simp: fits_def)
  next
    case Paused
    then obtain pre k rest where p: "post = pre @ k # rest" "ids run1 = ids run @ pre" "rn_Status run1 = RunPaused"
      "rn_PausedAt run1 = nd_ID (nodeOf (ag_DAG a) k)"
      using E by (auto simp: loopEnd_def)
    moreover have "nd_ID (nodeOf (ag_DAG a) k) = k" using d(2) p(1) o by simp
    moreover have "run' = run1" using assms(4) t l Paused by (simp add: drive_def)
    ultimately show ?thesis using t o by (auto simp: fits_def)
  next
    case (Stopped m)
    then obtain pre k rest where p: "post = pre @ k # rest" "ids run1 = ids run @ pre @ [k]" "rn_Status run1 = RunFailed"
      using E by (auto simp: loopEnd_def)
    moreover have "run' = run1" using assms(4) t l Stopped by (simp add: drive_def)
    ultimately show ?thesis using t o
      by (auto simp: fits_def intro!: exI [of _ "ids run @ pre"] exI [of _ k] exI [of _ rest])
  qed
qed

lemma drive_extends:
  assumes "drive env sub a run w = Some (e, run', w')" and "rn_Status run = RunRunning"
  shows "\<exists>more. ids run' = ids run @ more"
proof (cases "TopoSort (ag_DAG a)")
  case (Inl x)
  then show ?thesis using assms(1) by (auto simp: drive_def Let_def ids_def split: prod.splits)
next
  case (Inr order)
  obtain x run1 w1 where l: "driveLoop env sub (ag_DAG a) (map nr_NodeID (rn_Results run)) order run w = Some (x, run1, w1)"
    using assms(1) Inr by (auto simp: drive_def split: option.splits)
  have "\<exists>more. ids run1 = ids run @ more"
    using driveLoop_end [OF l] assms(2) by (cases x) (auto simp: loopEnd_def)
  moreover have "\<exists>more. ids run' = ids run1 @ more"
    using assms(1) Inr l Succeed_results unfolding drive_def ids_def
    by (cases x) (auto simp: Let_def split: prod.splits)
  ultimately show ?thesis by auto
qed

section \<open>Sub-agents\<close>

lemma drive_paused:
  assumes "drive env sub a run w = Some (e, run', w')" and "rn_Status run = RunRunning" and "rn_Status run' = RunPaused"
  shows "e = None \<and> rn_FinalOutput run' = rn_FinalOutput run"
proof -
  obtain order where t: "TopoSort (ag_DAG a) = Inr order"
    using assms by (cases "TopoSort (ag_DAG a)") (auto simp: drive_def Let_def split: prod.splits)
  obtain x run1 w1 where l: "driveLoop env sub (ag_DAG a) (map nr_NodeID (rn_Results run)) order run w = Some (x, run1, w1)"
    using assms(1) t by (auto simp: drive_def split: option.splits)
  note E = driveLoop_end [OF l]
  show ?thesis
  proof (cases x)
    case AllDone
    then show ?thesis using assms t l by (auto simp: drive_def Let_def split: prod.splits)
  next
    case Paused
    then show ?thesis using assms t l E by (auto simp: drive_def)
  next
    case (Stopped m)
    then show ?thesis using assms t l E by (auto simp: drive_def loopEnd_def)
  qed
qed

lemma newRun_simps [simp]:
  "rn_Status (newRun env k tenant i user w) = RunRunning" "rn_Results (newRun env k tenant i user w) = []"
  "rn_FinalOutput (newRun env k tenant i user w) = []" "rn_TenantID (newRun env k tenant i user w) = tenant"
  "rn_ID (newRun env k tenant i user w) = ax_id env (aw_tick w)"
  by (simp_all add: newRun_def NewRun_def StartR_def)

lemma renderFrom_nothing: "renderFrom (\<lambda>_. []) i out = Some out"
proof (induction "length out - i" arbitrary: i)
  case 0
  then show ?case by (simp add: renderFrom.simps [of _ i])
next
  case (Suc n)
  then have "renderFrom (\<lambda>_. []) (Suc i) out = Some out" by simp
  then show ?case by (simp add: renderFrom.simps [of _ i] split: option.split)
qed

lemma OutputOf_empty: "rn_Results run = [] \<Longrightarrow> OutputOf run = (\<lambda>_. [])"
  by (simp add: OutputOf_def fun_eq_iff)

section \<open>A concrete agent\<close>

definition textNode :: "string \<Rightarrow> string \<Rightarrow> Node" where
  "textNode k t = \<lparr>nd_ID = k, nd_Type = NodeCondition, nd_Ref = [], nd_Config = (\<lambda>_. None)(''expr'' := Some (AString t))\<rparr>"

definition reviewDag :: DAG where
  "reviewDag = \<lparr>dg_Nodes = [textNode ''draft'' ''hello'', \<lparr>nd_ID = ''review'', nd_Type = NodeHumanReview, nd_Ref = [], nd_Config = (\<lambda>_. None)\<rparr>,
       textNode ''send'' ''sent''],
     dg_Edges = [(''draft'', [''review'']), (''review'', [''send''])]\<rparr>"

definition demoAg :: "string \<Rightarrow> DAG \<Rightarrow> Agent" where
  "demoAg k d = \<lparr>ag_ID = k, ag_TenantID = ''acme'', ag_Name = k, ag_Description = [], ag_DAG = d, ag_Status = AgentStatusCompiled,
     ag_CreatedBy = [], ag_CreatedAt = 0, ag_UpdatedAt = 0\<rparr>"

definition selfDag :: DAG where
  "selfDag = \<lparr>dg_Nodes = [\<lparr>nd_ID = ''n'', nd_Type = NodeSubAgent, nd_Ref = ''self'', nd_Config = (\<lambda>_. None)\<rparr>], dg_Edges = []\<rparr>"

definition demoAgEnv :: AgEnv where
  "demoAgEnv = \<lparr>ax_time = (\<lambda>n. int n), ax_id = (\<lambda>n. replicate n (CHR ''i'')), ax_fault = (\<lambda>_. None), ax_llm = None, ax_retrieve = None,
     ax_tools = None, ax_sink = False, ax_like = (\<lambda>_ _. True), ax_quote = id, ax_show = (\<lambda>_. []), ax_toInt = (\<lambda>_. 0)\<rparr>"

definition demoAgWorld :: AgWorld where
  "demoAgWorld = \<lparr>aw_agents = [demoAg ''ag'' reviewDag, demoAg ''self'' selfDag], aw_runs = [], aw_events = [], aw_calls = [], aw_tick = 0\<rparr>"

lemma review_sorted: "TopoSort reviewDag = Inr [''draft'', ''review'', ''send'']"
  by (simp add: TopoSort_def reviewDag_def nodeIDs_def textNode_def countIn_def relax_def Let_def)

lemma review_wellFormed: "wellFormed reviewDag"
  by (simp add: wellFormed_def reviewDag_def textNode_def nodeIDs_def validEdges_def edgeRel_def)

lemma review_nodes:
  "nd_Type (nodeOf reviewDag ''draft'') = NodeCondition" "nd_Type (nodeOf reviewDag ''review'') = NodeHumanReview"
  "nd_Type (nodeOf reviewDag ''send'') = NodeCondition" "nd_ID (nodeOf reviewDag ''review'') = ''review''"
  by (simp_all add: nodeOf_def NodeByID_def reviewDag_def textNode_def)

lemma demo_fault [simp]: "faultA demoAgEnv w = None"
  by (simp add: faultA_def demoAgEnv_def)

lemma demoAg_simps [simp]: "ag_TenantID (demoAg k d) = ''acme''" "ag_DAG (demoAg k d) = d" "runnable (demoAg k d)"
  by (simp_all add: demoAg_def runnable_def)

lemma review_drive:
  assumes "rn_Results run = []" and "rn_Status run = RunRunning"
  shows "\<exists>run' w'. drive env sub (demoAg k reviewDag) run w = Some (None, run', w') \<and> rn_Status run' = RunPaused \<and> rn_PausedAt run' = ''review''
    \<and> ids run' = [''draft'']"
  using assms by (simp add: drive_def review_sorted execNode_def review_nodes Let_def ids_def)

lemma demo_found: "tfind ag_ID (aw_agents demoAgWorld) ''ag'' = Some (demoAg ''ag'' reviewDag)"
  "tfind ag_ID (aw_agents demoAgWorld) ''self'' = Some (demoAg ''self'' selfDag)"
  by (simp_all add: demoAgWorld_def demoAg_def)

lemma demo_get: "getAgent demoAgEnv ''acme'' ''ag'' demoAgWorld = (Inr (demoAg ''ag'' reviewDag), tickA demoAgWorld)"
  by (simp add: getAgent_def GetAgentRow_def demo_found inTenant_def)

lemma demo_create:
  "\<exists>w2. createRun demoAgEnv (newRun demoAgEnv ''ag'' ''acme'' i u (tickA demoAgWorld)) (tickA demoAgWorld) = (None, w2)"
  by (simp add: createRun_def CreateRunRow_def demoAgWorld_def)

section \<open>Properties\<close>




definition pausedRun :: Run where
  "pausedRun = (PauseForHuman 3 ''review'' [] (RecordCompleted 2 ''draft'' ''hello'' (StartR 1 (NewRun 1 ''r'' ''ag'' ''acme'' ''go''))))"


text \<open>A sub-agent that waits for a human counts as done.  The caller has an error for a child that paused, but the drive of
  the child returns no error then: the node of the parent is recorded as successful, with an empty output, and the
  child stays paused with no one waiting for it.\<close>
theorem paused_child_succeeds:
  assumes "getAgent env tenant subID w = (Inr a, w1)" and "runnable a"
    and "createRun env (newRun env subID tenant input user w1) w1 = (None, w2)"
    and "drive env sub a (newRun env subID tenant input user w1) w2 = Some (e, child, w3)" and "rn_Status child = RunPaused"
  shows "runSubAgent env sub tenant subID input user w = Some (Inr [], w3)"
  using drive_paused [OF assms(4) _ assms(5)] assms by (simp add: runSubAgent_def Let_def)

lemma paused_child_succeeds_witness:
  "\<exists>w3. runSubAgent demoAgEnv (subRunAt demoAgEnv 0) ''acme'' ''ag'' ''go'' ''me'' demoAgWorld = Some (Inr [], w3)"
proof -
  obtain w2 where c: "createRun demoAgEnv (newRun demoAgEnv ''ag'' ''acme'' ''go'' ''me'' (tickA demoAgWorld)) (tickA demoAgWorld) = (None, w2)"
    using demo_create by blast
  obtain run w' where d: "drive demoAgEnv (subRunAt demoAgEnv 0) (demoAg ''ag'' reviewDag)
      (newRun demoAgEnv ''ag'' ''acme'' ''go'' ''me'' (tickA demoAgWorld)) w2 = Some (None, run, w')" "rn_Status run = RunPaused"
    using review_drive [of "newRun demoAgEnv ''ag'' ''acme'' ''go'' ''me'' (tickA demoAgWorld)"] by fastforce
  have "runnable (demoAg ''ag'' reviewDag)" by (simp add: runnable_def demoAg_def)
  from paused_child_succeeds [OF demo_get this c d] show ?thesis by blast
qed

text \<open>An agent that refers to itself never returns.  Where the first node of the sort runs the same agent, a run of it returns at
  no depth of nesting - while no fault of the database stops it - and leaves one more row of a running run at each level.\<close>
theorem self_reference_never_returns:
  assumes "tfind ag_ID (aw_agents w) k = Some a" and "ag_TenantID a = tenant" and "runnable a"
    and "TopoSort (ag_DAG a) = Inr (n # rest)" and "nd_Type (nodeOf (ag_DAG a) n) = NodeSubAgent" and "nd_Ref (nodeOf (ag_DAG a) n) = k"
    and "k \<noteq> []" and "\<And>i. ax_fault env i = None" and "inj (ax_id env)"
    and "\<And>r i. r \<in> set (aw_runs w) \<Longrightarrow> aw_tick w \<le> i \<Longrightarrow> rn_ID r \<noteq> ax_id env i"
  shows "StartRun env depth tenant k input user w = None"
proof -
  define inv where "inv w' = (aw_agents w' = aw_agents w
    \<and> (\<forall>r i. r \<in> set (aw_runs w') \<longrightarrow> aw_tick w' \<le> i \<longrightarrow> rn_ID r \<noteq> ax_id env i))" for w' :: AgWorld
  have get: "getAgent env tenant k w' = (Inr a, tickA w')" if "inv w'" for w' :: AgWorld
    using that assms(1,2,8) by (simp add: inv_def getAgent_def GetAgentRow_def inTenant_def faultA_def)
  have create: "\<exists>w2. createRun env (newRun env k tenant i user (tickA w')) (tickA w') = (None, w2) \<and> inv w2" if I: "inv w'" for w' i
  proof -
    let ?r = "newRun env k tenant i user (tickA w')"
    have fresh: "tfind rn_ID (aw_runs w') (rn_ID ?r) = None"
      unfolding tfind_None
    proof
      assume "rn_ID ?r \<in> rn_ID ` set (aw_runs w')"
      then obtain r where "r \<in> set (aw_runs w')" "rn_ID r = ax_id env (Suc (aw_tick w'))" by auto
      then show False using I unfolding inv_def by (meson le_SucI order_refl)
    qed
    have "rn_ID r \<noteq> ax_id env j" if "r \<in> set (tadd (?r\<lparr>rn_CreatedAt := t, rn_UpdatedAt := t\<rparr>) (aw_runs w'))" "Suc (Suc (aw_tick w')) \<le> j" for r j t
      using that I injD [OF assms(9), of "Suc (aw_tick w')" j] by (fastforce simp: inv_def)
    then show ?thesis using I fresh by (simp add: createRun_def CreateRunRow_def faultA_def assms(8) inv_def)
  qed
  have stuck: "drive env sub a run w2 = None"
    if "rn_Results run = []" "\<And>i. sub tenant k i (rn_CreatedBy run) w2 = None" "rn_TenantID run = tenant" for sub run w2
    using that assms(4-7) by (simp add: drive_def execNode_def execSub_def OutputOf_empty RenderPrompt_def renderFrom_nothing)
  have "\<forall>i w'. inv w' \<longrightarrow> subRunAt env depth tenant k i user w' = None"
  proof (induction depth)
    case (Suc depth)
    show ?case
    proof (intro allI impI)
      fix i w' assume I: "inv w'"
      obtain w2 where c: "createRun env (newRun env k tenant i user (tickA w')) (tickA w') = (None, w2)" "inv w2"
        using create [OF I] by blast
      have "rn_CreatedBy (newRun env k tenant i user (tickA w')) = user" by (simp add: newRun_def StartR_def)
      then show "subRunAt env (Suc depth) tenant k i user w' = None"
        using get [OF I] c assms(3) Suc stuck [of "newRun env k tenant i user (tickA w')"] by (simp add: runSubAgent_def)
    qed
  qed simp
  note deep = this
  have I: "inv w" using assms(10) by (auto simp: inv_def)
  obtain w2 where c: "createRun env (newRun env k tenant input user (tickA w)) (tickA w) = (None, w2)" "inv w2"
    using create [OF I] by blast
  have "rn_CreatedBy (newRun env k tenant input user (tickA w)) = user" by (simp add: newRun_def StartR_def)
  then show ?thesis
    using get [OF I] c assms(3) deep stuck [of "newRun env k tenant input user (tickA w)"] by (simp add: StartRun_def)
qed

lemma self_reference_never_returns_witness:
  "StartRun demoAgEnv 1000 ''acme'' ''self'' ''go'' ''me'' demoAgWorld = None"
proof (rule self_reference_never_returns [OF demo_found(2), where n = "''n''" and rest = "[]"])
  show "TopoSort (ag_DAG (demoAg ''self'' selfDag)) = Inr [''n'']"
    by (simp add: TopoSort_def demoAg_def selfDag_def nodeIDs_def countIn_def adjOf_def Let_def edgePairs_def)
  show "inj (ax_id demoAgEnv)" by (rule injI) (simp add: demoAgEnv_def)
qed (simp_all add: demoAg_def runnable_def nodeOf_def NodeByID_def selfDag_def demoAgEnv_def demoAgWorld_def)

end
