(* ===== verification/AgentApi.thy ===== *)
theory AgentApi
  imports AgentServiceProofs
begin

text \<open>
  \<^verbatim>\<open>api/agent.go\<close>: the handlers of agents and runs.  A request body that cannot be bound is None;
  \<^verbatim>\<open>enabled\<close> says whether the service is configured.  The audit records are left out.
\<close>

record CreateAgentRequest =
  ca_ID :: string
  ca_Name :: string
  ca_Description :: string
  ca_DAG :: DAG

definition agErrStatus :: "AgErr \<Rightarrow> nat" where
  "agErrStatus e = (if e = AeStore StNotFound then 404 else 500)"

definition agErrText :: "AgEnv \<Rightarrow> AgErr \<Rightarrow> string" where
  "agErrText env e = (case e of AeStore s \<Rightarrow> storeText s | AeAgent a \<Rightarrow> agentText env a | AeText t \<Rightarrow> t)"

definition apiListAgents :: "bool \<Rightarrow> AgEnv \<Rightarrow> Claims option \<Rightarrow> string \<Rightarrow> string \<Rightarrow> AgWorld \<Rightarrow> Agent list ApiReply" where
  "apiListAgents enabled env c name status w =
     (if \<not> enabled then ApiFail 501 ''agent orchestration not enabled (missing adapter)''
      else case agList env (principalTenant c) name status w of
        Inl e \<Rightarrow> ApiFail 500 (storeText e)
      | Inr as \<Rightarrow> ApiOK as)"

text \<open>\<^verbatim>\<open>fresh\<close> is the identifier generated when the request has none.\<close>

definition apiCreateAgent ::
    "bool \<Rightarrow> AgEnv \<Rightarrow> string \<Rightarrow> Claims option \<Rightarrow> CreateAgentRequest option \<Rightarrow> AgWorld \<Rightarrow> Agent ApiReply \<times> AgWorld" where
  "apiCreateAgent enabled env fresh c body w =
     (if \<not> enabled then (ApiFail 501 ''agent orchestration not enabled (missing adapter)'', w)
      else case body of
        None \<Rightarrow> (ApiFail 400 ''invalid body'', w)
      | Some req \<Rightarrow>
          if ca_Name req = [] then (ApiFail 400 ''name is required'', w)
          else case requireWriteTenant c of
            None \<Rightarrow> (ApiFail 400 ''missing tenant context'', w)
          | Some tenant \<Rightarrow>
              (case NewAgent (nowA env w) (if ca_ID req = [] then ''ag-'' @ fresh else ca_ID req) tenant (ca_Name req) (ca_DAG req)
                      (cl_UserID (claimsOf c)) of
                 Inl e \<Rightarrow> (ApiFail 400 (agErrText env (AeAgent e)), w)
               | Inr a \<Rightarrow>
                   let a = a\<lparr>ag_Description := ca_Description req\<rparr> in
                   (case SaveAgent env a w of
                      (None, w) \<Rightarrow> (ApiOK a, w)
                    | (Some e, w) \<Rightarrow>
                        (if e = AeStore StConflict then ApiFail 409 ''agent name conflict'' else ApiFail 500 (agErrText env e), w))))"

definition apiGetAgent :: "bool \<Rightarrow> AgEnv \<Rightarrow> Claims option \<Rightarrow> string \<Rightarrow> AgWorld \<Rightarrow> Agent ApiReply" where
  "apiGetAgent enabled env c k w =
     (if \<not> enabled then ApiFail 501 ''agent orchestration not enabled (missing adapter)''
      else case agGet env (principalTenant c) k w of
        Inl e \<Rightarrow> ApiFail (agErrStatus (AeStore e)) (storeText e)
      | Inr a \<Rightarrow> ApiOK a)"

definition apiCompileAgent :: "bool \<Rightarrow> AgEnv \<Rightarrow> Claims option \<Rightarrow> string \<Rightarrow> AgWorld \<Rightarrow> (string \<times> AgentStatus) ApiReply \<times> AgWorld" where
  "apiCompileAgent enabled env c k w =
     (if \<not> enabled then (ApiFail 501 ''agent orchestration not enabled (missing adapter)'', w)
      else case requireWriteTenant c of
        None \<Rightarrow> (ApiFail 400 ''missing tenant context'', w)
      | Some tenant \<Rightarrow> (case agCompile env tenant k w of
          (Inl e, w) \<Rightarrow> (ApiFail (agErrStatus e) (agErrText env e), w)
        | (Inr a, w) \<Rightarrow> (ApiOK (ag_ID a, ag_Status a), w)))"

definition apiDeleteAgent :: "bool \<Rightarrow> AgEnv \<Rightarrow> Claims option \<Rightarrow> string \<Rightarrow> AgWorld \<Rightarrow> unit ApiReply \<times> AgWorld" where
  "apiDeleteAgent enabled env c k w =
     (if \<not> enabled then (ApiFail 501 ''agent orchestration not enabled (missing adapter)'', w)
      else case requireWriteTenant c of
        None \<Rightarrow> (ApiFail 400 ''missing tenant context'', w)
      | Some tenant \<Rightarrow> (case agDelete env tenant k w of
          (Some e, w) \<Rightarrow> (ApiFail (agErrStatus (AeStore e)) (storeText e), w)
        | (None, w) \<Rightarrow> (ApiOK (), w)))"

definition startStatus :: "AgErr \<Rightarrow> nat" where
  "startStatus e = (if e = AeStore StNotFound then 404 else if e = AeAgent ErrAgentNotCompiled then 409 else 500)"

definition resumeStatus :: "AgErr \<Rightarrow> nat" where
  "resumeStatus e = (if e = AeStore StRunNotFound \<or> e = AeAgent ErrRunNotPaused then 409 else 500)"

definition apiStartRun ::
    "bool \<Rightarrow> AgEnv \<Rightarrow> nat \<Rightarrow> Claims option \<Rightarrow> string \<Rightarrow> string option \<Rightarrow> AgWorld \<Rightarrow> (Run ApiReply \<times> AgWorld) option" where
  "apiStartRun enabled env depth c k body w =
     (if \<not> enabled then Some (ApiFail 501 ''agent orchestration not enabled (missing adapter)'', w)
      else case body of
        None \<Rightarrow> Some (ApiFail 400 ''invalid body'', w)
      | Some input \<Rightarrow> (case requireWriteTenant c of
          None \<Rightarrow> Some (ApiFail 400 ''missing tenant context'', w)
        | Some tenant \<Rightarrow> (case StartRun env depth tenant k input (cl_UserID (claimsOf c)) w of
            None \<Rightarrow> None
          | Some (Inl e, w) \<Rightarrow> Some (ApiFail (startStatus e) (agErrText env e), w)
          | Some (Inr run, w) \<Rightarrow> Some (ApiOK run, w))))"

definition apiListAgentRuns :: "bool \<Rightarrow> AgEnv \<Rightarrow> Claims option \<Rightarrow> string \<Rightarrow> string \<Rightarrow> AgWorld \<Rightarrow> Run list ApiReply" where
  "apiListAgentRuns enabled env c k status w =
     (if \<not> enabled then ApiFail 501 ''agent orchestration not enabled (missing adapter)''
      else case agListRuns env (principalTenant c) k status w of
        Inl e \<Rightarrow> ApiFail 500 (storeText e)
      | Inr rs \<Rightarrow> ApiOK rs)"

definition apiGetRun :: "bool \<Rightarrow> AgEnv \<Rightarrow> Claims option \<Rightarrow> string \<Rightarrow> AgWorld \<Rightarrow> Run ApiReply" where
  "apiGetRun enabled env c k w =
     (if \<not> enabled then ApiFail 501 ''agent orchestration not enabled (missing adapter)''
      else case agGetRun env (principalTenant c) k w of
        Inl e \<Rightarrow> ApiFail (if e = StRunNotFound then 404 else 500) (storeText e)
      | Inr r \<Rightarrow> ApiOK r)"

definition apiResumeRun ::
    "bool \<Rightarrow> AgEnv \<Rightarrow> nat \<Rightarrow> Claims option \<Rightarrow> string \<Rightarrow> string option \<Rightarrow> AgWorld \<Rightarrow> (Run ApiReply \<times> AgWorld) option" where
  "apiResumeRun enabled env depth c k body w =
     (if \<not> enabled then Some (ApiFail 501 ''agent orchestration not enabled (missing adapter)'', w)
      else case body of
        None \<Rightarrow> Some (ApiFail 400 ''invalid body'', w)
      | Some decision \<Rightarrow> (case requireWriteTenant c of
          None \<Rightarrow> Some (ApiFail 400 ''missing tenant context'', w)
        | Some tenant \<Rightarrow> (case ResumeRun env depth tenant k decision w of
            None \<Rightarrow> None
          | Some (Inl e, w) \<Rightarrow> Some (ApiFail (resumeStatus e) (agErrText env e), w)
          | Some (Inr run, w) \<Rightarrow> Some (ApiOK run, w))))"

section \<open>Other tenants\<close>

text \<open>The agents and runs of every other tenant stay as they are.\<close>

definition foreignKept :: "string \<Rightarrow> AgWorld \<Rightarrow> AgWorld \<Rightarrow> bool" where
  "foreignKept tenant w w' =
     (filter (\<lambda>a. ag_TenantID a \<noteq> tenant) (aw_agents w') = filter (\<lambda>a. ag_TenantID a \<noteq> tenant) (aw_agents w)
      \<and> filter (\<lambda>r. rn_TenantID r \<noteq> tenant) (aw_runs w') = filter (\<lambda>r. rn_TenantID r \<noteq> tenant) (aw_runs w))"

lemma foreignKept_refl [simp]: "foreignKept tenant w w"
  by (simp add: foreignKept_def)

lemma foreignKept_trans: "foreignKept tenant w w' \<Longrightarrow> foreignKept tenant w' w'' \<Longrightarrow> foreignKept tenant w w''"
  by (simp add: foreignKept_def)

lemma foreignKept_tick [simp]: "foreignKept tenant w (tickA w') = foreignKept tenant w w'" "foreignKept tenant (tickA w) w' = foreignKept tenant w w'"
  by (simp_all add: foreignKept_def)

lemma filter_tsave:
  "tunique key rows \<Longrightarrow> tfind key rows k = Some r \<Longrightarrow> key r' = k \<Longrightarrow> \<not> P r \<Longrightarrow> \<not> P r' \<Longrightarrow> filter P (tsave key r' rows) = filter P rows"
proof (induction rows)
  case (Cons x rows)
  show ?case
  proof (cases "key x = key r'")
    case True
    then have "x = r" using Cons.prems by simp
    moreover have "tsave key r' rows = rows"
      using Cons.prems(1) True by (induction rows) (auto simp: tunique_def)
    ultimately show ?thesis using True Cons.prems by simp
  next
    case False
    then show ?thesis using Cons by (simp add: tunique_def)
  qed
qed simp

lemma filter_tadd: "\<not> P r \<Longrightarrow> filter P (tadd r rows) = filter P rows"
  by (simp add: tadd_def)

definition uniqueIDs :: "AgWorld \<Rightarrow> bool" where
  "uniqueIDs w = (tunique ag_ID (aw_agents w) \<and> tunique rn_ID (aw_runs w))"

definition keepsA :: "string \<Rightarrow> AgWorld \<Rightarrow> AgWorld \<Rightarrow> bool" where
  "keepsA tenant w w' = (uniqueIDs w \<longrightarrow> uniqueIDs w' \<and> foreignKept tenant w w')"

lemma keepsA_refl [simp]: "keepsA tenant w w"
  by (simp add: keepsA_def)

lemma keepsA_trans: "keepsA tenant w w' \<Longrightarrow> keepsA tenant w' w'' \<Longrightarrow> keepsA tenant w w''"
  unfolding keepsA_def using foreignKept_trans by blast

lemma keepsA_tick [simp]: "keepsA tenant w (tickA w') = keepsA tenant w w'" "keepsA tenant (tickA w) w' = keepsA tenant w w'"
  by (simp_all add: keepsA_def uniqueIDs_def)

lemma keepsA_log: "keepsA tenant w (logCall c w)"
  by (simp add: keepsA_def uniqueIDs_def logCall_def foreignKept_def)

text \<open>A row is saved, or added, within the tenant.\<close>

lemma saved_run_keeps:
  assumes "tfind rn_ID (aw_runs w) k = Some r" and "rn_ID r' = rn_ID r" and "rn_TenantID r = tenant" and "rn_TenantID r' = tenant"
  shows "keepsA tenant w (w\<lparr>aw_runs := tsave rn_ID r' (aw_runs w)\<rparr>)"
  using filter_tsave [OF _ assms(1), of r' "\<lambda>r. rn_TenantID r \<noteq> tenant"] tfind_key [OF assms(1)] assms(2-4)
  by (simp add: keepsA_def uniqueIDs_def foreignKept_def tsave_unique)

lemma saved_agent_keeps:
  assumes "tfind ag_ID (aw_agents w) k = Some a" and "ag_ID a' = ag_ID a" and "ag_TenantID a = tenant" and "ag_TenantID a' = tenant"
  shows "keepsA tenant w (w\<lparr>aw_agents := tsave ag_ID a' (aw_agents w)\<rparr>)"
  using filter_tsave [OF _ assms(1), of a' "\<lambda>r. ag_TenantID r \<noteq> tenant"] tfind_key [OF assms(1)] assms(2-4)
  by (simp add: keepsA_def uniqueIDs_def foreignKept_def tsave_unique)

lemma added_run_keeps:
  assumes "tfind rn_ID (aw_runs w) (rn_ID r) = None" and "rn_TenantID r = tenant"
  shows "keepsA tenant w (w\<lparr>aw_runs := tadd r (aw_runs w)\<rparr>)"
  using assms by (simp add: keepsA_def uniqueIDs_def foreignKept_def tadd_unique filter_tadd)

lemma added_agent_keeps:
  assumes "tfind ag_ID (aw_agents w) (ag_ID a) = None" and "ag_TenantID a = tenant"
  shows "keepsA tenant w (w\<lparr>aw_agents := tadd a (aw_agents w)\<rparr>)"
  using assms by (simp add: keepsA_def uniqueIDs_def foreignKept_def tadd_unique filter_tadd)

lemma updateRun_keeps:
  assumes "rn_TenantID run = tenant" and "tenant \<noteq> []"
  shows "keepsA tenant w (snd (updateRun env run w))"
  using assms by (auto simp: updateRun_def UpdateRunRow_def inTenant_def split: option.splits
      intro: saved_run_keeps)

lemma createRun_keeps:
  assumes "rn_TenantID run = tenant"
  shows "keepsA tenant w (snd (createRun env run w))"
  using assms by (auto simp: createRun_def CreateRunRow_def split: option.splits intro: added_run_keeps)

lemma updateAgent_keeps:
  assumes "ag_TenantID a = tenant" and "tenant \<noteq> []"
  shows "keepsA tenant w (snd (updateAgent env a w))"
  using assms by (auto simp: updateAgent_def UpdateAgentRow_def inTenant_def split: option.splits
      intro: saved_agent_keeps)

lemma createAgent_keeps:
  assumes "ag_TenantID a = tenant"
  shows "keepsA tenant w (snd (createAgent env a w))"
  using assms by (auto simp: createAgent_def CreateAgentRow_def split: option.splits intro: added_agent_keeps)

lemma agDelete_keeps:
  assumes "tenant \<noteq> []"
  shows "keepsA tenant w (snd (agDelete env tenant k w))"
proof -
  have f: "filter (\<lambda>r. rn_TenantID r \<noteq> tenant) (filter (\<lambda>r. \<not> (rn_AgentID r = k \<and> rn_TenantID r = tenant)) runs)
      = filter (\<lambda>r. rn_TenantID r \<noteq> tenant) runs" for runs
    by (induction runs) auto
  have d: "filter (\<lambda>a. ag_TenantID a \<noteq> tenant) (tdelete ag_ID k rows) = filter (\<lambda>a. ag_TenantID a \<noteq> tenant) rows"
    if "tunique ag_ID rows" "tfind ag_ID rows k = Some a" "ag_TenantID a = tenant" for rows a
    using that(1) tfind_unique [OF that(1)] that(2,3)
    unfolding tdelete_def filter_filter by (intro filter_cong) (auto dest: tfind_key)
  have u: "tunique rn_ID (filter P runs)" if "tunique rn_ID runs" for P runs
    using that by (simp add: tunique_def distinct_map_filter)
  show ?thesis
    using assms f d u by (auto simp: agDelete_def DeleteAgentRow_def inTenant_def keepsA_def uniqueIDs_def foreignKept_def Let_def
        tdelete_unique split: option.splits)
qed

section \<open>A drive stays in its tenant\<close>

lemma execNode_keeps:
  assumes "execNode env sub n run w = Some (r, run', w')"
    and "\<And>s i u w r w'. sub (rn_TenantID run) s i u w = Some (r, w') \<Longrightarrow> keepsA (rn_TenantID run) w w'"
  shows "keepsA (rn_TenantID run) w w' \<and> rn_TenantID run' = rn_TenantID run"
proof -
  have t: "rn_TenantID run' = rn_TenantID run" using execNode_run [OF assms(1)] by (auto simp: PauseForHuman_def)
  have "keepsA (rn_TenantID run) w w'"
    using assms keepsA_log
    by (cases "nd_Type n") (auto simp: execNode_def execLLM_def execRag_def execTool_def execSub_def Let_def
        split: option.splits if_splits)
  then show ?thesis using t by simp
qed

lemma driveLoop_keeps:
  assumes "driveLoop env sub d fin ks run w = Some (e, run', w')" and "rn_TenantID run = tenant" and "tenant \<noteq> []"
    and sub: "\<And>s i u w r w'. sub tenant s i u w = Some (r, w') \<Longrightarrow> keepsA tenant w w'"
  shows "keepsA tenant w w' \<and> rn_TenantID run' = tenant"
  using assms(1,2)
proof (induction ks arbitrary: run w)
  case (Cons k ks)
  show ?case
  proof (cases "k \<in> set fin")
    case True
    then show ?thesis using Cons by simp
  next
    case False
    obtain r run1 w1 where x: "execNode env sub (nodeOf d k) run w = Some (r, run1, w1)"
      using Cons.prems False by (auto split: option.splits)
    have k: "keepsA tenant w w1" "rn_TenantID run1 = tenant" using execNode_keeps [OF x] sub Cons.prems(2) by auto
    have u: "keepsA tenant w (snd (updateRun env run2 w1))" if "rn_TenantID run2 = tenant" for run2
      by (rule keepsA_trans [OF k(1) updateRun_keeps [OF that assms(3)]])
    have f: "rn_TenantID (FailRun now k e' run1) = tenant" "rn_TenantID (RecordCompleted now k out run1) = tenant" for now e' out
      using k(2) by (simp_all add: FailRun_def RecordCompleted_def recordNode_def)
    show ?thesis
    proof (cases r)
      case (Inl m)
      then show ?thesis using Cons.prems False x u f by (auto simp: Let_def)
    next
      case (Inr out)
      show ?thesis
      proof (cases "rn_Status run1 = RunPaused")
        case True
        then show ?thesis using Cons.prems False x Inr u k(2) by auto
      next
        case go: False
        let ?run = "RecordCompleted (nowA env w1) k out run1"
        have "driveLoop env sub d fin ks ?run (snd (updateRun env ?run w1)) = Some (e, run', w')"
          using Cons.prems False x Inr go by (simp add: Let_def)
        from Cons.IH [OF this f(2)] show ?thesis using keepsA_trans [OF u [OF f(2)]] by blast
      qed
    qed
  qed
qed simp

lemma drive_keeps:
  assumes "drive env sub a run w = Some (e, run', w')" and "rn_TenantID run = tenant" and "tenant \<noteq> []"
    and sub: "\<And>s i u w r w'. sub tenant s i u w = Some (r, w') \<Longrightarrow> keepsA tenant w w'"
  shows "keepsA tenant w w'"
proof (cases "TopoSort (ag_DAG a)")
  case (Inl x)
  let ?run = "FailRun (nowA env w) [] (agentText env x) run"
  have "w' = snd (updateRun env ?run w)" using assms(1) Inl by (auto simp: drive_def Let_def split: prod.splits)
  moreover have "rn_TenantID ?run = tenant" using assms(2) by (simp add: FailRun_def recordNode_def)
  ultimately show ?thesis using updateRun_keeps assms(3) by simp
next
  case (Inr order)
  obtain x run1 w1 where l: "driveLoop env sub (ag_DAG a) (map nr_NodeID (rn_Results run)) order run w = Some (x, run1, w1)"
    using assms(1) Inr by (auto simp: drive_def split: option.splits)
  have k: "keepsA tenant w w1 \<and> rn_TenantID run1 = tenant"
    by (rule driveLoop_keeps [OF l assms(2,3)]) (rule sub)
  have "rn_TenantID (Succeed now out run1) = tenant" for now out
    using k by (simp add: Succeed_def recordNode_def Let_def)
  then have "keepsA tenant w (snd (updateRun env (Succeed now out run1) w1))" for now out
    using keepsA_trans [OF _ updateRun_keeps] k assms(3) by blast
  then show ?thesis using assms(1) Inr l k
    by (cases x) (auto simp: drive_def Let_def case_prod_unfold)
qed

lemma subRunAt_keeps: "tenant \<noteq> [] \<Longrightarrow> subRunAt env depth tenant s i u w = Some (r, w') \<Longrightarrow> keepsA tenant w w'"
proof (induction depth arbitrary: s i u w r w')
  case (Suc depth)
  obtain g w1 where g: "getAgent env tenant s w = (g, w1)" by fastforce
  then have w1: "w1 = tickA w" by (simp add: getAgent_def)
  let ?child = "newRun env s tenant i u w1"
  obtain c w2 where c: "createRun env ?child w1 = (c, w2)" by fastforce
  have k2: "keepsA tenant w w2" using createRun_keeps [of ?child tenant w1 env] c w1 by simp
  have "keepsA tenant w w3" if "drive env (subRunAt env depth) a ?child w2 = Some (e, child, w3)" for a e child w3
  proof (rule keepsA_trans [OF k2 drive_keeps [OF that _ Suc.prems(1)]])
    show "keepsA tenant w w'" if "subRunAt env depth tenant s i u w = Some (r, w')" for s i u w r w'
      by (rule Suc.IH [OF Suc.prems(1) that])
  qed simp
  then show ?case using Suc.prems g c k2 w1
    by (auto simp: runSubAgent_def Let_def split: sum.splits if_splits option.splits)
qed simp

lemma StartRun_keeps:
  assumes "StartRun env depth tenant k input user w = Some (r, w')" and "tenant \<noteq> []"
  shows "keepsA tenant w w'"
proof -
  obtain g w1 where g: "getAgent env tenant k w = (g, w1)" by fastforce
  then have w1: "w1 = tickA w" by (simp add: getAgent_def)
  let ?run = "newRun env k tenant input user w1"
  obtain c w2 where c: "createRun env ?run w1 = (c, w2)" by fastforce
  have k2: "keepsA tenant w w2" using createRun_keeps [of ?run tenant w1 env] c w1 by simp
  have "keepsA tenant w w3" if d: "drive env (subRunAt env depth) a ?run w2 = Some (e, run', w3)" for a e run' w3
    by (rule keepsA_trans [OF k2 drive_keeps [OF d _ assms(2)]]) (use subRunAt_keeps [OF assms(2)] in auto)
  moreover have "keepsA tenant w3 (publishRunFinished env run' a w3)" for w3 run' a
    by (simp add: publishRunFinished_def Let_def keepsA_def uniqueIDs_def foreignKept_def)
  ultimately have "keepsA tenant w (publishRunFinished env run' a w3)"
    if "drive env (subRunAt env depth) a ?run w2 = Some (e, run', w3)" for a e run' w3
    using that keepsA_trans by blast
  then show ?thesis using assms(1) g c k2 w1
    by (auto simp: StartRun_def Let_def split: sum.splits if_splits option.splits)
qed

lemma ResumeRun_keeps:
  assumes "ResumeRun env depth tenant k decision w = Some (r, w')" and "tenant \<noteq> []"
  shows "keepsA tenant w w'"
proof (cases "GetRunRow (faultA env w) tenant k (aw_runs w)")
  case (Inl e)
  then show ?thesis using assms(1) by (auto simp: ResumeRun_def)
next
  case (Inr run)
  then have t: "rn_TenantID run = tenant"
    using assms(2) by (auto simp: GetRunRow_def inTenant_def split: option.splits if_splits)
  obtain g w1 where g: "getAgent env tenant (rn_AgentID run) (tickA w) = (g, w1)" by fastforce
  then have w1: "w1 = tickA (tickA w)" by (simp add: getAgent_def)
  obtain h run1 where h: "HumanResume (nowA env w1) decision run = (h, run1)" by fastforce
  have t1: "rn_TenantID run1 = tenant" using h t by (auto simp: HumanResume_def recordNode_def split: if_splits)
  obtain c w2 where c: "updateRun env run1 w1 = (c, w2)" by fastforce
  have k2: "keepsA tenant w w2" using updateRun_keeps [OF t1 assms(2), of w1 env] c w1 by simp
  have "keepsA tenant w w3" if d: "drive env (subRunAt env depth) a run1 w2 = Some (e, run', w3)" for a e run' w3
    by (rule keepsA_trans [OF k2 drive_keeps [OF d t1 assms(2)]]) (use subRunAt_keeps [OF assms(2)] in auto)
  moreover have "keepsA tenant w3 (publishRunFinished env run' a w3)" for w3 run' a
    by (simp add: publishRunFinished_def Let_def keepsA_def uniqueIDs_def foreignKept_def)
  ultimately have "keepsA tenant w (publishRunFinished env run' a w3)"
    if "drive env (subRunAt env depth) a run1 w2 = Some (e, run', w3)" for a e run' w3
    using that keepsA_trans by blast
  then show ?thesis using assms(1) Inr g h c k2 w1
    by (auto simp: ResumeRun_def split: sum.splits option.splits)
qed

lemma SaveAgent_keeps:
  assumes "ag_TenantID a = tenant" and "tenant \<noteq> []"
  shows "keepsA tenant w (snd (SaveAgent env a w))"
  using updateAgent_keeps [OF assms, of "tickA w" env] createAgent_keeps [OF assms(1), of "tickA w" env]
  by (auto simp: SaveAgent_def getAgent_def case_prod_unfold Let_def split: sum.split)

lemma agCompile_keeps:
  assumes "tenant \<noteq> []"
  shows "keepsA tenant w (snd (agCompile env tenant k w))"
proof (cases "GetAgentRow (faultA env w) tenant k (aw_agents w)")
  case (Inl e)
  then show ?thesis by (simp add: agCompile_def getAgent_def)
next
  case (Inr a)
  then have "ag_TenantID a = tenant" using assms by (auto simp: GetAgentRow_def inTenant_def split: option.splits if_splits)
  then have "ag_TenantID (snd (Compile now a)) = tenant" for now by (simp add: Compile_def split: option.split)
  from updateAgent_keeps [OF this assms, of "tickA w" env] show ?thesis
    using Inr by (auto simp: agCompile_def getAgent_def case_prod_unfold split: option.split)
qed

section \<open>Properties\<close>

text \<open>The requests that change something, with their outcome on the world.\<close>

datatype AgentRequest = ReqCreate string "CreateAgentRequest option" | ReqCompile string | ReqDelete string
  | ReqStart string "string option" | ReqResume string "string option"

definition serveAgent :: "AgEnv \<Rightarrow> nat \<Rightarrow> Claims option \<Rightarrow> AgentRequest \<Rightarrow> AgWorld \<Rightarrow> AgWorld option" where
  "serveAgent env depth c req w =
     (case req of
        ReqCreate fresh body \<Rightarrow> Some (snd (apiCreateAgent True env fresh c body w))
      | ReqCompile k \<Rightarrow> Some (snd (apiCompileAgent True env c k w))
      | ReqDelete k \<Rightarrow> Some (snd (apiDeleteAgent True env c k w))
      | ReqStart k body \<Rightarrow> map_option snd (apiStartRun True env depth c k body w)
      | ReqResume k body \<Rightarrow> map_option snd (apiResumeRun True env depth c k body w))"



end
