(* ===== verification/HpoDomain.thy ===== *)
theory HpoDomain
  imports Prelude
begin

text \<open>
  \<^verbatim>\<open>domain/hpo\<close>: search spaces, objectives, trials, the grid sampler, early stopping by successive halving (ASHA) and the
  scheduler that turns a study and its trials into actions.  The floating-point operations that round are arguments
  (\<^verbatim>\<open>HpoFloats\<close>); comparison, negation, rounding to an integer and truncation are exact and are written out.  Random
  choices are asked of a stream of draws, and so is \<^verbatim>\<open>sort.Slice\<close>, whose order of equal elements is open.
\<close>

section \<open>Numbers\<close>

record HpoFloats = FloatOps +
  fo_sub :: "f64 \<Rightarrow> f64 \<Rightarrow> f64"
  fo_pow :: "f64 \<Rightarrow> f64 \<Rightarrow> f64"
  fo_log10 :: "f64 \<Rightarrow> f64"
  fo_exp :: "f64 \<Rightarrow> f64"
  fo_lit :: "rat \<Rightarrow> f64"
  fo_sortPeers :: "(string \<times> f64 \<Rightarrow> string \<times> f64 \<Rightarrow> bool) \<Rightarrow> (string \<times> f64) list \<Rightarrow> (string \<times> f64) list"
  fo_wild :: "f64 \<Rightarrow> int"

text \<open>\<^verbatim>\<open>int(f)\<close> truncates; for a value out of range the processor gives a number of its own.\<close>

definition truncRat :: "rat \<Rightarrow> int" where
  "truncRat q = (if q < 0 then \<lceil>q\<rceil> else \<lfloor>q\<rfloor>)"

definition intOf :: "'a HpoFloats_scheme \<Rightarrow> f64 \<Rightarrow> int" where
  "intOf ops f = (case f of Fin q \<Rightarrow> (if in_i64 (truncRat q) then truncRat q else fo_wild ops f) | _ \<Rightarrow> fo_wild ops f)"

fun fround :: "f64 \<Rightarrow> f64" where
  "fround (Fin q) = Fin (of_int (if q < 0 then - \<lfloor>- q + 1 / 2\<rfloor> else \<lfloor>q + 1 / 2\<rfloor>))"
| "fround x = x"

fun fceil :: "f64 \<Rightarrow> f64" where
  "fceil (Fin q) = Fin (of_int \<lceil>q\<rceil>)"
| "fceil x = x"

fun ffloor :: "f64 \<Rightarrow> f64" where
  "ffloor (Fin q) = Fin (of_int \<lfloor>q\<rfloor>)"
| "ffloor x = x"

fun negF :: "f64 \<Rightarrow> f64" where
  "negF (Fin q) = Fin (- q)"
| "negF PInf = NInf"
| "negF NInf = PInf"
| "negF NaN = NaN"

fun finite64 :: "f64 \<Rightarrow> bool" where
  "finite64 (Fin q) = True"
| "finite64 x = False"

lemma truncRat_int [simp]: "truncRat (of_int n) = n"
  by (simp add: truncRat_def)

lemma intOf_int: "in_i64 n \<Longrightarrow> intOf ops (Fin (of_int n)) = n"
  by (simp add: intOf_def)

section \<open>Search spaces\<close>

datatype ParamType = ParamFloat | ParamInt | ParamCategorical | ParamBool | OtherParamType string

datatype PVal = VFloat f64 | VInt int | VBool bool | VString string | VList string | VMap string | VNil

record ParamSpec =
  ps_Name :: string
  ps_Type :: ParamType
  ps_Min :: f64
  ps_Max :: f64
  ps_Step :: f64
  ps_LogScale :: bool
  ps_Choices :: "PVal list"

type_synonym SearchSpace = "ParamSpec list"

datatype HpoError = ParamNameEmpty | ParamMinMax string f64 f64 | ParamLogMin string f64
  | ParamStepWide string f64 f64 | ParamNoChoices string | ParamUnknownType string ParamType
  | ParamDuplicate string | SpaceEmpty | SamplerExhausted int int | UnknownAlgorithm string

definition pZero :: f64 where "pZero = Fin 0"

definition ParamValidate :: "'a HpoFloats_scheme \<Rightarrow> ParamSpec \<Rightarrow> HpoError option" where
  "ParamValidate ops p =
     (if ps_Name p = [] then Some ParamNameEmpty
      else case ps_Type p of
        OtherParamType t \<Rightarrow> Some (ParamUnknownType (ps_Name p) (OtherParamType t))
      | ParamBool \<Rightarrow> None
      | ParamCategorical \<Rightarrow> if ps_Choices p = [] then Some (ParamNoChoices (ps_Name p)) else None
      | _ \<Rightarrow>
        (let width = fo_sub ops (ps_Max p) (ps_Min p) in
         if flt (ps_Max p) (ps_Min p) then Some (ParamMinMax (ps_Name p) (ps_Min p) (ps_Max p))
         else if ps_LogScale p \<and> fle (ps_Min p) pZero then Some (ParamLogMin (ps_Name p) (ps_Min p))
         else if flt pZero (ps_Step p) \<and> flt width (ps_Step p) then Some (ParamStepWide (ps_Name p) (ps_Step p) width)
         else None))"

primrec spaceLoop :: "'a HpoFloats_scheme \<Rightarrow> string list \<Rightarrow> SearchSpace \<Rightarrow> HpoError option" where
  "spaceLoop ops seen [] = None"
| "spaceLoop ops seen (p # ps) =
     (case ParamValidate ops p of
        Some e \<Rightarrow> Some e
      | None \<Rightarrow> if ps_Name p \<in> set seen then Some (ParamDuplicate (ps_Name p)) else spaceLoop ops (ps_Name p # seen) ps)"

definition SpaceValidate :: "'a HpoFloats_scheme \<Rightarrow> SearchSpace \<Rightarrow> HpoError option" where
  "SpaceValidate ops space =
     (case spaceLoop ops [] space of Some e \<Rightarrow> Some e | None \<Rightarrow> if space = [] then Some SpaceEmpty else None)"

definition choicesFor :: "ParamSpec \<Rightarrow> PVal list" where
  "choicesFor p = (if ps_Type p = ParamBool then [VBool True, VBool False] else ps_Choices p)"

lemma spaceLoop_None:
  "spaceLoop ops seen ps = None \<longleftrightarrow>
     (\<forall>p \<in> set ps. ParamValidate ops p = None \<and> ps_Name p \<notin> set seen) \<and> distinct (map ps_Name ps)"
  by (induction ps arbitrary: seen) (auto simp: image_iff split: option.splits)

lemma SpaceValidate_None:
  "SpaceValidate ops ps = None \<longleftrightarrow>
     ps \<noteq> [] \<and> (\<forall>p \<in> set ps. ParamValidate ops p = None) \<and> distinct (map ps_Name ps)"
  using spaceLoop_None [of ops "[]" ps] by (cases "spaceLoop ops [] ps") (auto simp: SpaceValidate_def)

section \<open>Objectives\<close>

record Objective =
  ob_MetricName :: string
  ob_Direction :: string

definition DirectionMaximize :: string where "DirectionMaximize = ''maximize''"
definition DirectionMinimize :: string where "DirectionMinimize = ''minimize''"

definition badValue :: "f64 option \<Rightarrow> bool" where
  "badValue a = (case a of None \<Rightarrow> True | Some x \<Rightarrow> \<not> finite64 x)"

definition IsBetter :: "Objective \<Rightarrow> f64 option \<Rightarrow> f64 option \<Rightarrow> bool" where
  "IsBetter ob a b =
     (if badValue a then False
      else if badValue b then True
      else if ob_Direction ob = DirectionMinimize then flt (the a) (the b) else flt (the b) (the a))"

text \<open>A product with the sign of the objective, 1 or -1, is exact.\<close>

definition signed :: "Objective \<Rightarrow> f64 \<Rightarrow> f64" where
  "signed ob v = (if ob_Direction ob = DirectionMinimize then negF v else v)"

section \<open>Trials\<close>

datatype TrialStatus = TrialPending | TrialRunning | TrialCompleted | TrialFailed | TrialPruned | TrialCancelled
  | OtherTrialStatus string

type_synonym params = "(string \<times> PVal) list"

text \<open>A Go map as the list of its entries: writing a key replaces its value.\<close>

primrec pset :: "string \<Rightarrow> PVal \<Rightarrow> params \<Rightarrow> params" where
  "pset k v [] = [(k, v)]"
| "pset k v (e # es) = (if fst e = k then (k, v) # es else e # pset k v es)"

record Report =
  rp_Step :: int
  rp_Value :: f64

record Trial =
  tr_ID :: string
  tr_StudyID :: string
  tr_Number :: int
  tr_Params :: params
  tr_Status :: TrialStatus
  tr_Value :: "f64 option"
  tr_Intermediate :: "Report list"
  tr_RunID :: string
  tr_JobID :: string

definition trialIsTerminal :: "Trial \<Rightarrow> bool" where
  "trialIsTerminal t = (tr_Status t \<in> {TrialCompleted, TrialFailed, TrialPruned})"

definition LatestValue :: "Trial \<Rightarrow> f64 option" where
  "LatestValue t = (if tr_Intermediate t \<noteq> [] then Some (rp_Value (last (tr_Intermediate t))) else tr_Value t)"

primrec highestFrom :: "int \<Rightarrow> Report list \<Rightarrow> int" where
  "highestFrom h [] = h"
| "highestFrom h (r # rs) = highestFrom (if h < rp_Step r then rp_Step r else h) rs"

definition highestStep :: "Trial \<Rightarrow> int" where
  "highestStep t = highestFrom 0 (tr_Intermediate t)"

lemma highestFrom_ge: "h \<le> highestFrom h rs" "r \<in> set rs \<Longrightarrow> rp_Step r \<le> highestFrom h rs"
proof -
  show 1: "h \<le> highestFrom h rs" for h rs
  proof (induction rs arbitrary: h)
    case (Cons r rs)
    show ?case using Cons [of h] Cons [of "rp_Step r"] by auto
  qed simp
  show "r \<in> set rs \<Longrightarrow> rp_Step r \<le> highestFrom h rs"
  proof (induction rs arbitrary: h)
    case (Cons x xs)
    show ?case using Cons 1 [of "if h < rp_Step x then rp_Step x else h" xs] by (auto split: if_splits)
  qed simp
qed

section \<open>Insertion sort\<close>

text \<open>
  The two sorts of the package sink one element after the other towards the front while it beats its neighbour.  The
  sorted part is kept in reverse, so that the neighbour of the element that sinks is the head.
\<close>

fun sink :: "('a \<Rightarrow> 'a \<Rightarrow> bool) \<Rightarrow> 'a \<Rightarrow> 'a list \<Rightarrow> 'a list" where
  "sink beats x [] = [x]"
| "sink beats x (y # ys) = (if beats x y then y # sink beats x ys else x # y # ys)"

definition insertionSort :: "('a \<Rightarrow> 'a \<Rightarrow> bool) \<Rightarrow> 'a list \<Rightarrow> 'a list" where
  "insertionSort beats xs = rev (foldl (\<lambda>done x. sink beats x done) [] xs)"

lemma mset_sink [simp]: "mset (sink beats x ys) = add_mset x (mset ys)"
  by (induction ys) auto

lemma mset_insertionSort [simp]: "mset (insertionSort beats xs) = mset xs"
proof -
  have "mset (foldl (\<lambda>done x. sink beats x done) ds xs) = mset ds + mset xs" for ds
    by (induction xs arbitrary: ds) auto
  then show ?thesis by (simp add: insertionSort_def)
qed

lemma set_insertionSort [simp]: "set (insertionSort beats xs) = set xs"
  by (metis mset_insertionSort set_mset_mset)

lemma sink_ne [simp]: "sink beats x ys \<noteq> []"
  by (cases ys) auto

text \<open>The last of the reversed part is the front: it changes only for an element that beats everything.\<close>

lemma insertionSort_Nil [simp]: "insertionSort beats [] = []"
  by (simp add: insertionSort_def)

lemma insertionSort_snoc: "insertionSort beats (xs @ [x]) = rev (sink beats x (rev (insertionSort beats xs)))"
  by (simp add: insertionSort_def)

text \<open>A comparison by a rank, where a larger rank beats a smaller one.\<close>

lemma sink_sorted:
  assumes "sorted (map key ys)"
  shows "sorted (map key (sink (\<lambda>x y. key x > (key y :: 'k :: linorder)) x ys))"
  using assms
proof (induction ys)
  case (Cons y ys)
  have "set (sink (\<lambda>x y. key x > key y) x ys) = insert x (set ys)"
    by (metis mset_sink set_mset_add_mset_insert set_mset_mset)
  then show ?case using Cons by auto
qed simp

lemma insertionSort_sorted:
  "sorted (rev (map key (insertionSort (\<lambda>x y. key x > (key y :: 'k :: linorder)) xs)))"
proof -
  have "sorted (map key ds) \<Longrightarrow> sorted (map key (foldl (\<lambda>done x. sink (\<lambda>x y. key x > key y) x done) ds xs))" for ds
    by (induction xs arbitrary: ds) (auto simp: sink_sorted)
  then show ?thesis by (simp add: insertionSort_def rev_map)
qed

definition bestValues :: "Objective \<Rightarrow> Trial \<Rightarrow> Trial \<Rightarrow> bool" where
  "bestValues ob x y =
     (let v = \<lambda>t. (case tr_Value t of Some f \<Rightarrow> signed ob f | None \<Rightarrow> pZero) in flt (v y) (v x))"

definition sortBySign :: "Trial list \<Rightarrow> Objective \<Rightarrow> Trial list" where
  "sortBySign trials ob = insertionSort (bestValues ob) trials"

definition worstVal :: "Objective \<Rightarrow> Trial \<Rightarrow> f64" where
  "worstVal ob t = (case LatestValue t of None \<Rightarrow> NInf | Some v \<Rightarrow> signed ob v)"

definition sortRunningWorstFirst :: "Trial list \<Rightarrow> Objective \<Rightarrow> Trial list" where
  "sortRunningWorstFirst ts ob = insertionSort (\<lambda>x y. flt (worstVal ob x) (worstVal ob y)) ts"

section \<open>The best trials\<close>

definition scored :: "Trial \<Rightarrow> bool" where
  "scored t = (tr_Status t = TrialCompleted \<and> tr_Value t \<noteq> None)"

primrec bestLoop :: "Objective \<Rightarrow> Trial option \<Rightarrow> Trial list \<Rightarrow> Trial option" where
  "bestLoop ob best [] = best"
| "bestLoop ob best (t # ts) =
     (if \<not> scored t then bestLoop ob best ts
      else case best of
        None \<Rightarrow> bestLoop ob (Some t) ts
      | Some b \<Rightarrow> bestLoop ob (if IsBetter ob (tr_Value t) (tr_Value b) then Some t else best) ts)"

definition BestTrial :: "Objective \<Rightarrow> Trial list \<Rightarrow> Trial option" where
  "BestTrial ob trials = bestLoop ob None trials"

definition TopTrials :: "Objective \<Rightarrow> Trial list \<Rightarrow> int \<Rightarrow> Trial list" where
  "TopTrials ob trials k =
     (let ranked = sortBySign (filter scored trials) ob in
      if 0 < k \<and> k < int (length ranked) then take (nat k) ranked else ranked)"

section \<open>Studies and rungs\<close>

datatype StudyStatus = StudyPending | StudyRunning | StudyCompleted | StudyFailed | StudyCancelled | StudyStopped
  | OtherStudyStatus string

record EarlyStopSpec =
  es_Enabled :: bool
  es_Eta :: f64
  es_MinRungs :: int

definition noEarlyStop :: EarlyStopSpec where
  "noEarlyStop = \<lparr>es_Enabled = False, es_Eta = pZero, es_MinRungs = 0\<rparr>"

definition normalized :: "EarlyStopSpec option \<Rightarrow> EarlyStopSpec" where
  "normalized e =
     (case e of
        None \<Rightarrow> noEarlyStop
      | Some es \<Rightarrow>
          if \<not> es_Enabled es then noEarlyStop
          else let out = (if fle (es_Eta es) (Fin 1) then es\<lparr>es_Eta := Fin 3\<rparr> else es) in
            (if es_MinRungs out \<le> 0 then out\<lparr>es_MinRungs := 1\<rparr> else out))"

record Study =
  sy_ID :: string
  sy_TenantID :: string
  sy_ExperimentID :: string
  sy_Name :: string
  sy_Space :: SearchSpace
  sy_Algorithm :: string
  sy_Objective :: Objective
  sy_MaxTrials :: int
  sy_MaxParallel :: int
  sy_MaxDuration :: duration
  sy_EarlyStop :: "EarlyStopSpec option"
  sy_Template :: "params option"
  sy_Status :: StudyStatus
  sy_BestTrialID :: string
  sy_CreatedAt :: time
  sy_UpdatedAt :: time

definition studyIsTerminal :: "Study \<Rightarrow> bool" where
  "studyIsTerminal s = (sy_Status s \<in> {StudyCompleted, StudyFailed, StudyCancelled, StudyStopped})"

definition studyIsActive :: "Study \<Rightarrow> bool" where
  "studyIsActive s = (sy_Status s = StudyRunning \<or> sy_Status s = StudyPending)"

text \<open>The loop of \<^verbatim>\<open>rungFor\<close> ends when the bound has reached the step; it may not.\<close>

partial_function (option) rungLoop :: "'a HpoFloats_scheme \<Rightarrow> f64 \<Rightarrow> int \<Rightarrow> int \<Rightarrow> int \<Rightarrow> int option" where
  "rungLoop ops eta step rung bound =
     (if bound < step
      then rungLoop ops eta step (i64 (rung + 1)) (intOf ops (fo_mul ops (fo_ofInt ops bound) eta))
      else Some rung)"

definition rungFor :: "'a HpoFloats_scheme \<Rightarrow> Study \<Rightarrow> int \<Rightarrow> int option" where
  "rungFor ops s step =
     (let es = normalized (sy_EarlyStop s) in
      if fle (es_Eta es) (Fin 1) then Some 0
      else rungLoop ops (es_Eta es) step 0 (intOf ops (es_Eta es)))"

definition countStatus :: "TrialStatus set \<Rightarrow> Trial list \<Rightarrow> nat" where
  "countStatus S trials = length (filter (\<lambda>t. tr_Status t \<in> S) trials)"

definition runningCount :: "Trial list \<Rightarrow> nat" where "runningCount trials = countStatus {TrialRunning} trials"
definition completedCount :: "Trial list \<Rightarrow> nat" where "completedCount trials = countStatus {TrialCompleted} trials"
definition failedCount :: "Trial list \<Rightarrow> nat" where "failedCount trials = countStatus {TrialFailed, TrialPruned} trials"

section \<open>Successive halving\<close>

function itoaHLoop :: "int \<Rightarrow> string \<Rightarrow> string" where
  "itoaHLoop n buf = (if 0 < n then itoaHLoop (n div 10) (char_of (48 + nat (n mod 10)) # buf) else buf)"
  by auto
termination by (relation "measure (\<lambda>(n, _). nat n)") auto

declare itoaHLoop.simps [simp del]

definition itoaH :: "int \<Rightarrow> string" where
  "itoaH n = (if n = 0 then ''0''
             else let neg = n < 0; m = (if neg then i64 (- n) else n); buf = itoaHLoop m [] in
               (if neg then CHR ''-'' # buf else buf))"

definition ashaRungBound :: "'a HpoFloats_scheme \<Rightarrow> f64 \<Rightarrow> int \<Rightarrow> int" where
  "ashaRungBound ops eta rung =
     (if rung \<le> 0 then intOf ops eta else intOf ops (fo_pow ops eta (fo_ofInt ops (i64 (rung + 1)))))"

text \<open>The peers of a trial: itself, and every other trial that is not failed or pruned, has reached its rung and has a value.\<close>

primrec peersOf :: "'a HpoFloats_scheme \<Rightarrow> Study \<Rightarrow> Trial \<Rightarrow> int \<Rightarrow> Trial list \<Rightarrow> (string \<times> f64) list option" where
  "peersOf ops s t rung [] = Some []"
| "peersOf ops s t rung (x # xs) =
     (if tr_ID x = tr_ID t
      then map_option (Cons (tr_ID x, case LatestValue t of Some v \<Rightarrow> v | None \<Rightarrow> pZero)) (peersOf ops s t rung xs)
      else if tr_Status x = TrialFailed \<or> tr_Status x = TrialPruned then peersOf ops s t rung xs
      else case rungFor ops s (highestStep x) of
        None \<Rightarrow> None
      | Some r \<Rightarrow>
          if r < rung then peersOf ops s t rung xs
          else case LatestValue x of
            None \<Rightarrow> peersOf ops s t rung xs
          | Some v \<Rightarrow> map_option (Cons (tr_ID x, v)) (peersOf ops s t rung xs))"

definition keepOf :: "'a HpoFloats_scheme \<Rightarrow> f64 \<Rightarrow> nat \<Rightarrow> int" where
  "keepOf ops eta n =
     (let keep = intOf ops (fceil (fo_div ops (fo_ofInt ops (int n)) eta)) in if keep < 1 then 1 else keep)"

primrec verdict :: "string \<Rightarrow> int \<Rightarrow> int \<Rightarrow> int \<Rightarrow> (string \<times> f64) list \<Rightarrow> string option" where
  "verdict k keep rung i [] = None"
| "verdict k keep rung i (x # xs) =
     (if fst x = k then (if keep \<le> i then Some (''asha: below top 1/eta at rung '' @ itoaH rung) else None)
      else verdict k keep rung (i + 1) xs)"

definition betterPeer :: "Objective \<Rightarrow> string \<times> f64 \<Rightarrow> string \<times> f64 \<Rightarrow> bool" where
  "betterPeer ob x y = flt (signed ob (snd y)) (signed ob (snd x))"

text \<open>
  \<^verbatim>\<open>Some None\<close> is the decision to go on, \<^verbatim>\<open>Some (Some reason)\<close> the decision to stop; \<^term>\<open>None\<close> means that a rung loop
  does not end.
\<close>

definition EvaluateASHA :: "'a HpoFloats_scheme \<Rightarrow> Study \<Rightarrow> Trial \<Rightarrow> Trial list \<Rightarrow> string option option" where
  "EvaluateASHA ops s t trials =
     (let es = normalized (sy_EarlyStop s) in
      if \<not> es_Enabled es \<or> fle (es_Eta es) (Fin 1) then Some None
      else if LatestValue t = None then Some None
      else case rungFor ops s (highestStep t) of
        None \<Rightarrow> None
      | Some rung \<Rightarrow>
          if highestStep t < ashaRungBound ops (es_Eta es) (es_MinRungs es - 1) then Some None
          else case peersOf ops s t rung trials of
            None \<Rightarrow> None
          | Some peers \<Rightarrow>
              if length peers < 2 then Some None
              else Some (verdict (tr_ID t) (keepOf ops (es_Eta es) (length peers)) rung 0
                (fo_sortPeers ops (betterPeer (sy_Objective s)) peers)))"

section \<open>The grid\<close>

definition isNumeric :: "ParamSpec \<Rightarrow> bool" where
  "isNumeric p = (ps_Type p = ParamFloat \<or> ps_Type p = ParamInt)"

definition gridSteps :: "'a HpoFloats_scheme \<Rightarrow> ParamSpec \<Rightarrow> int" where
  "gridSteps ops p =
     (let width = fo_sub ops (ps_Max p) (ps_Min p) in
      if \<not> isNumeric p then 0
      else if flt pZero (ps_Step p) then max 1 (i64 (intOf ops (fround (fo_div ops width (ps_Step p))) + 1))
      else if ps_Type p = ParamInt then max 1 (i64 (intOf ops width + 1))
      else 1)"

definition numericToType :: "'a HpoFloats_scheme \<Rightarrow> ParamSpec \<Rightarrow> f64 \<Rightarrow> PVal" where
  "numericToType ops p v = (if ps_Type p = ParamInt then VInt (intOf ops (fround v)) else VFloat v)"

definition gridValueAt :: "'a HpoFloats_scheme \<Rightarrow> ParamSpec \<Rightarrow> int \<Rightarrow> PVal" where
  "gridValueAt ops p i =
     numericToType ops p
       (if flt pZero (ps_Step p)
        then let raw = fo_add ops (ps_Min p) (fo_mul ops (fo_ofInt ops i) (ps_Step p)) in
          (if flt (ps_Max p) raw then ps_Max p else raw)
        else if ps_Type p = ParamInt then fo_add ops (ps_Min p) (fo_ofInt ops i)
        else ps_Min p)"

text \<open>How many values a parameter has, and its value number \<^term>\<open>i\<close>; a parameter of an unknown type has none.\<close>

definition width :: "'a HpoFloats_scheme \<Rightarrow> ParamSpec \<Rightarrow> int option" where
  "width ops p =
     (case ps_Type p of OtherParamType _ \<Rightarrow> None
      | ParamFloat \<Rightarrow> Some (gridSteps ops p) | ParamInt \<Rightarrow> Some (gridSteps ops p)
      | _ \<Rightarrow> Some (int (length (choicesFor p))))"

definition valueAt :: "'a HpoFloats_scheme \<Rightarrow> ParamSpec \<Rightarrow> int \<Rightarrow> PVal" where
  "valueAt ops p i = (if isNumeric p then gridValueAt ops p i else choicesFor p ! nat i)"

primrec totalLoop :: "'a HpoFloats_scheme \<Rightarrow> int \<Rightarrow> SearchSpace \<Rightarrow> int" where
  "totalLoop ops n [] = n"
| "totalLoop ops n (p # ps) =
     totalLoop ops (case width ops p of Some k \<Rightarrow> i64 (n * k) | None \<Rightarrow> n) ps"

definition totalCombinations :: "'a HpoFloats_scheme \<Rightarrow> SearchSpace \<Rightarrow> int" where
  "totalCombinations ops space = totalLoop ops 1 space"

text \<open>A parameter without values divides by zero, which panics (\<^term>\<open>None\<close>).\<close>

primrec combinationLoop :: "'a HpoFloats_scheme \<Rightarrow> params \<Rightarrow> int \<Rightarrow> SearchSpace \<Rightarrow> params option" where
  "combinationLoop ops acc rest [] = Some acc"
| "combinationLoop ops acc rest (p # ps) =
     (case width ops p of
        None \<Rightarrow> combinationLoop ops acc rest ps
      | Some n \<Rightarrow>
          if n = 0 then None
          else combinationLoop ops (pset (ps_Name p) (valueAt ops p (rest mod n)) acc) (rest div n) ps)"

definition combinationAt :: "'a HpoFloats_scheme \<Rightarrow> SearchSpace \<Rightarrow> int \<Rightarrow> params option" where
  "combinationAt ops space idx = combinationLoop ops [] idx space"

definition gridSuggest :: "'a HpoFloats_scheme \<Rightarrow> SearchSpace \<Rightarrow> Trial list \<Rightarrow> (HpoError + params) option" where
  "gridSuggest ops space history =
     (case SpaceValidate ops space of
        Some e \<Rightarrow> Some (Inl e)
      | None \<Rightarrow>
          let n = totalCombinations ops space; idx = int (length history) in
          if n \<le> idx then Some (Inl (SamplerExhausted idx n))
          else map_option Inr (combinationAt ops space idx))"

section \<open>Random choices\<close>

text \<open>The draws of a generator, by their number: \<^verbatim>\<open>Float64\<close> and \<^verbatim>\<open>Intn(n)\<close>, which is below \<^term>\<open>n\<close>.\<close>

record Rand =
  rd_Float :: "nat \<Rightarrow> f64"
  rd_Intn :: "nat \<Rightarrow> nat \<Rightarrow> nat"

definition logPoint :: "'a HpoFloats_scheme \<Rightarrow> ParamSpec \<Rightarrow> (f64 \<Rightarrow> f64) \<Rightarrow> f64" where
  "logPoint ops p scale =
     (let lo = fo_log10 ops (ps_Min p); hi = fo_log10 ops (ps_Max p) in
      fo_pow ops (Fin 10) (fo_add ops lo (scale (fo_sub ops hi lo))))"

definition linPoint :: "'a HpoFloats_scheme \<Rightarrow> ParamSpec \<Rightarrow> (f64 \<Rightarrow> f64) \<Rightarrow> f64" where
  "linPoint ops p scale = fo_add ops (ps_Min p) (scale (fo_sub ops (ps_Max p) (ps_Min p)))"

definition sampleNumeric :: "'a HpoFloats_scheme \<Rightarrow> ParamSpec \<Rightarrow> f64 \<Rightarrow> f64" where
  "sampleNumeric ops p u =
     (let scale = (\<lambda>d. fo_mul ops d u) in
      if ps_LogScale p then logPoint ops p scale
      else let v = linPoint ops p scale in
        if flt pZero (ps_Step p)
        then let steps = fround (fo_div ops (fo_sub ops v (ps_Min p)) (ps_Step p));
                 v = fo_add ops (ps_Min p) (fo_mul ops steps (ps_Step p)) in
          (if flt (ps_Max p) v then ps_Max p else v)
        else v)"

text \<open>\<^verbatim>\<open>Intn(0)\<close> panics; the second component is the number of the next draw.\<close>

definition sampleParam :: "'a HpoFloats_scheme \<Rightarrow> Rand \<Rightarrow> nat \<Rightarrow> ParamSpec \<Rightarrow> (PVal \<times> nat) option" where
  "sampleParam ops rd k p =
     (case ps_Type p of
        OtherParamType _ \<Rightarrow> Some (VNil, k)
      | ParamCategorical \<Rightarrow> if choicesFor p = [] then None
          else Some (choicesFor p ! rd_Intn rd k (length (choicesFor p)), Suc k)
      | ParamBool \<Rightarrow> Some (choicesFor p ! rd_Intn rd k (length (choicesFor p)), Suc k)
      | _ \<Rightarrow> Some (numericToType ops p (sampleNumeric ops p (rd_Float rd k)), Suc k))"

primrec drawAll :: "(nat \<Rightarrow> ParamSpec \<Rightarrow> (PVal \<times> nat) option) \<Rightarrow> nat \<Rightarrow> params \<Rightarrow> SearchSpace \<Rightarrow> params option" where
  "drawAll draw k acc [] = Some acc"
| "drawAll draw k acc (p # ps) =
     (case draw k p of None \<Rightarrow> None | Some (v, k) \<Rightarrow> drawAll draw k (pset (ps_Name p) v acc) ps)"

definition randomSuggest :: "'a HpoFloats_scheme \<Rightarrow> Rand \<Rightarrow> SearchSpace \<Rightarrow> (HpoError + params) option" where
  "randomSuggest ops rd space =
     (case SpaceValidate ops space of
        Some e \<Rightarrow> Some (Inl e)
      | None \<Rightarrow> map_option Inr (drawAll (sampleParam ops rd) 0 [] space))"

section \<open>The tree-structured Parzen estimator\<close>

definition tpeMinSamples :: nat where "tpeMinSamples = 8"
definition tpeGamma :: f64 where "tpeGamma = Fin (1 / 4)"

definition usable :: "Trial \<Rightarrow> bool" where
  "usable t = (case tr_Value t of None \<Rightarrow> False | Some v \<Rightarrow> finite64 v)"

definition splitGoodBad :: "'a HpoFloats_scheme \<Rightarrow> Trial list \<Rightarrow> Objective \<Rightarrow> params list \<times> params list" where
  "splitGoodBad ops history ob =
     (let valid = map (\<lambda>t. (tr_Params t, signed ob (the (tr_Value t)))) (filter usable history) in
      if valid = [] then ([], [])
      else let ranked = map fst (insertionSort (\<lambda>x y. flt (snd y) (snd x)) valid);
               g = ffloor (fo_mul ops tpeGamma (fo_ofInt ops (int (length valid))));
               k = intOf ops (if flt (Fin 1) g then g else if g = NaN then NaN else Fin 1) in
        (take (nat k) ranked, drop (nat k) ranked))"

fun toFloat :: "'a HpoFloats_scheme \<Rightarrow> PVal \<Rightarrow> f64 option" where
  "toFloat ops (VFloat x) = Some x"
| "toFloat ops (VInt n) = Some (fo_ofInt ops n)"
| "toFloat ops (VBool b) = Some (if b then Fin 1 else Fin 0)"
| "toFloat ops _ = None"

definition pget :: "params \<Rightarrow> string \<Rightarrow> PVal" where
  "pget m name = (case map_of m name of Some v \<Rightarrow> v | None \<Rightarrow> VNil)"

definition kernelCount :: "'a HpoFloats_scheme \<Rightarrow> params list \<Rightarrow> string \<Rightarrow> f64 \<Rightarrow> f64" where
  "kernelCount ops ms name x =
     foldl (\<lambda>c m. case toFloat ops (pget m name) of
                None \<Rightarrow> c
              | Some v \<Rightarrow> (let d = fo_sub ops v x in
                  fo_add ops c (fo_exp ops (fo_div ops (negF (fo_mul ops d d)) (fo_lit ops (2 / 100))))))
       pZero ms"

text \<open>Equality of two \<^verbatim>\<open>any\<close> values panics on two slices and on two maps.\<close>

fun ifaceEq :: "PVal \<Rightarrow> PVal \<Rightarrow> bool option" where
  "ifaceEq (VFloat x) (VFloat y) = Some (feq x y)"
| "ifaceEq (VList x) (VList y) = None"
| "ifaceEq (VMap x) (VMap y) = None"
| "ifaceEq x y = Some (x = y)"

primrec countEq :: "'a HpoFloats_scheme \<Rightarrow> f64 \<Rightarrow> string \<Rightarrow> PVal \<Rightarrow> params list \<Rightarrow> f64 option" where
  "countEq ops c name v [] = Some c"
| "countEq ops c name v (m # ms) =
     (case ifaceEq (pget m name) v of
        None \<Rightarrow> None
      | Some eq \<Rightarrow> countEq ops (if eq then fo_add ops c (Fin 1) else c) name v ms)"

definition tpeWeight :: "'a HpoFloats_scheme \<Rightarrow> f64 \<Rightarrow> f64 \<Rightarrow> f64" where
  "tpeWeight ops g b = fo_div ops (fo_add ops g (Fin 1)) (fo_add ops b (Fin 1))"

primrec tpeLoop :: "'a HpoFloats_scheme \<Rightarrow> f64 \<Rightarrow> nat \<Rightarrow> f64 list \<Rightarrow> nat option" where
  "tpeLoop ops x i [] = None"
| "tpeLoop ops x i (w # ws) =
     (let x = fo_sub ops x w in if fle x pZero then Some i else tpeLoop ops x (Suc i) ws)"

definition tpeWeightedPick :: "'a HpoFloats_scheme \<Rightarrow> Rand \<Rightarrow> nat \<Rightarrow> f64 list \<Rightarrow> nat" where
  "tpeWeightedPick ops rd k weights =
     (let s = foldl (fo_add ops) pZero weights in
      if fle s pZero then rd_Intn rd k (length weights)
      else case tpeLoop ops (fo_mul ops (rd_Float rd k) s) 0 weights of
        Some i \<Rightarrow> i
      | None \<Rightarrow> length weights - 1)"

definition tpeGridPoint :: "'a HpoFloats_scheme \<Rightarrow> ParamSpec \<Rightarrow> nat \<Rightarrow> f64" where
  "tpeGridPoint ops p i =
     (let scale = (\<lambda>d. fo_div ops (fo_mul ops d (fo_ofInt ops (int i))) (Fin 49)) in
      if ps_LogScale p \<and> flt pZero (ps_Min p) then logPoint ops p scale else linPoint ops p scale)"

definition tpeSampleNumeric ::
  "'a HpoFloats_scheme \<Rightarrow> Rand \<Rightarrow> nat \<Rightarrow> params list \<Rightarrow> params list \<Rightarrow> ParamSpec \<Rightarrow> PVal" where
  "tpeSampleNumeric ops rd k good bad p =
     (let weights = map (\<lambda>i. let x = tpeGridPoint ops p i in
                tpeWeight ops (kernelCount ops good (ps_Name p) x) (kernelCount ops bad (ps_Name p) x)) [0..<50] in
      numericToType ops p (tpeGridPoint ops p (tpeWeightedPick ops rd k weights)))"

primrec weightsOf :: "'a HpoFloats_scheme \<Rightarrow> params list \<Rightarrow> params list \<Rightarrow> string \<Rightarrow> PVal list \<Rightarrow> f64 list option" where
  "weightsOf ops good bad name [] = Some []"
| "weightsOf ops good bad name (c # cs) =
     (case countEq ops pZero name c good of
        None \<Rightarrow> None
      | Some g \<Rightarrow> (case countEq ops pZero name c bad of
          None \<Rightarrow> None
        | Some b \<Rightarrow> map_option (Cons (tpeWeight ops g b)) (weightsOf ops good bad name cs)))"

definition tpeSampleParam ::
  "'a HpoFloats_scheme \<Rightarrow> Rand \<Rightarrow> params list \<Rightarrow> params list \<Rightarrow> nat \<Rightarrow> ParamSpec \<Rightarrow> (PVal \<times> nat) option" where
  "tpeSampleParam ops rd good bad k p =
     (if isNumeric p then Some (tpeSampleNumeric ops rd k good bad p, Suc k)
      else if ps_Type p = ParamCategorical \<or> ps_Type p = ParamBool
      then map_option (\<lambda>ws. (choicesFor p ! tpeWeightedPick ops rd k ws, Suc k))
             (weightsOf ops good bad (ps_Name p) (choicesFor p))
      else sampleParam ops rd k p)"

definition tpeSuggest :: "'a HpoFloats_scheme \<Rightarrow> Rand \<Rightarrow> Objective \<Rightarrow> SearchSpace \<Rightarrow> Trial list \<Rightarrow> (HpoError + params) option" where
  "tpeSuggest ops rd ob space history =
     (case SpaceValidate ops space of
        Some e \<Rightarrow> Some (Inl e)
      | None \<Rightarrow>
          if length history < tpeMinSamples then randomSuggest ops rd space
          else let (good, bad) = splitGoodBad ops history ob in
            map_option Inr (drawAll (tpeSampleParam ops rd good bad) 0 [] space))"

section \<open>The scheduler\<close>

datatype Action = SpawnTrial params | StopTrial string string | CompleteStudy string | Noop string

record SchedulingContext =
  sc_QuotaAvailable :: bool
  sc_Now :: time
  sc_Rand :: Rand

definition prefixes :: "string \<Rightarrow> string \<Rightarrow> bool" where
  "prefixes sub s = (take (length sub) s = sub)"

fun containsSub :: "string \<Rightarrow> string \<Rightarrow> bool" where
  "containsSub s sub = (prefixes sub s \<or> (case s of [] \<Rightarrow> False | _ # rest \<Rightarrow> containsSub rest sub))"

declare containsSub.simps [simp del]

text \<open>The text of an error is an argument, except that \<^verbatim>\<open>ErrExhausted\<close> is recognised by its wrapped text.\<close>

definition isExhausted :: "(HpoError \<Rightarrow> string) \<Rightarrow> HpoError \<Rightarrow> bool" where
  "isExhausted text e = containsSub (text e) ''exhausted''"

definition suggestBy :: "'a HpoFloats_scheme \<Rightarrow> Study \<Rightarrow> Trial list \<Rightarrow> Rand \<Rightarrow> (HpoError + params) option" where
  "suggestBy ops s trials rd =
     (if sy_Algorithm s = ''random'' \<or> sy_Algorithm s = [] then randomSuggest ops rd (sy_Space s)
      else if sy_Algorithm s = ''grid'' then gridSuggest ops (sy_Space s) trials
      else if sy_Algorithm s = ''tpe'' then tpeSuggest ops rd (sy_Objective s) (sy_Space s) trials
      else Some (Inl (UnknownAlgorithm (sy_Algorithm s))))"

primrec stopExcess :: "'a HpoFloats_scheme \<Rightarrow> Study \<Rightarrow> Trial list \<Rightarrow> int \<Rightarrow> Trial list \<Rightarrow> Action list option" where
  "stopExcess ops s trials excess [] = Some []"
| "stopExcess ops s trials excess (t # ts) =
     (if excess \<le> 0 then Some []
      else case EvaluateASHA ops s t trials of
        None \<Rightarrow> None
      | Some None \<Rightarrow> stopExcess ops s trials excess ts
      | Some (Some reason) \<Rightarrow> map_option (Cons (StopTrial (tr_ID t) reason)) (stopExcess ops s trials (excess - 1) ts))"

definition isRunning :: "Trial \<Rightarrow> bool" where "isRunning t = (tr_Status t = TrialRunning)"

definition expired :: "Study \<Rightarrow> time \<Rightarrow> bool" where
  "expired s now = (0 < sy_MaxDuration s \<and> \<not> IsZero now \<and> \<not> IsZero (sy_CreatedAt s) \<and>
     sy_MaxDuration s \<le> time_sub now (sy_CreatedAt s))"

definition spawnOrWait ::
  "'a HpoFloats_scheme \<Rightarrow> (HpoError \<Rightarrow> string) \<Rightarrow> Study \<Rightarrow> Trial list \<Rightarrow> SchedulingContext \<Rightarrow> Action list option" where
  "spawnOrWait ops text s trials ctx =
     (if \<not> sc_QuotaAvailable ctx then Some [Noop ''quota unavailable'']
      else if 0 < sy_MaxParallel s \<and> sy_MaxParallel s \<le> int (runningCount trials) then Some [Noop ''parallelism saturated'']
      else if 0 < sy_MaxTrials s \<and> sy_MaxTrials s \<le> int (length trials) then Some [Noop ''max trials reached'']
      else case suggestBy ops s trials (sc_Rand ctx) of
        None \<Rightarrow> None
      | Some (Inl (UnknownAlgorithm a)) \<Rightarrow> Some [Noop (''unknown algorithm: '' @ a)]
      | Some (Inl e) \<Rightarrow> Some [if isExhausted text e then CompleteStudy ''search space exhausted''
                             else Noop (''sampling error: '' @ text e)]
      | Some (Inr params) \<Rightarrow> Some [SpawnTrial params])"

definition NextActions ::
  "'a HpoFloats_scheme \<Rightarrow> (HpoError \<Rightarrow> string) \<Rightarrow> Study \<Rightarrow> Trial list \<Rightarrow> SchedulingContext \<Rightarrow> Action list option" where
  "NextActions ops text s trials ctx =
     (let running = filter isRunning trials; effective = completedCount trials + failedCount trials in
      if \<not> studyIsActive s then Some [Noop []]
      else if expired s (sc_Now ctx)
      then Some (map (\<lambda>t. StopTrial (tr_ID t) ''study max duration reached'') running @ [CompleteStudy ''max duration reached''])
      else if 0 < sy_MaxTrials s \<and> sy_MaxTrials s \<le> int effective \<and> running = [] then Some [CompleteStudy ''max trials reached'']
      else if 0 < sy_MaxParallel s \<and> sy_MaxParallel s < int (length running)
      then (case stopExcess ops s trials (int (length running) - sy_MaxParallel s)
                (sortRunningWorstFirst running (sy_Objective s)) of
              None \<Rightarrow> None
            | Some acts \<Rightarrow> if acts \<noteq> [] then Some acts else spawnOrWait ops text s trials ctx)
      else spawnOrWait ops text s trials ctx)"

end
