(* ===== verification/Experiments.thy ===== *)
theory Experiments
  imports HpoDomain QuotaStore
begin

text \<open>
  Experiments and their runs: \<^verbatim>\<open>domain/experiment\<close>, \<^verbatim>\<open>storage/experiment.go\<close>, \<^verbatim>\<open>app/experiment/service.go\<close> and
  the tolerance check of \<^verbatim>\<open>domain/reproduction\<close>.  A column that holds JSON is kept as the value it encodes.  Identifiers,
  the clock and the faults of the database are asked of the environment by the number of the step.
\<close>

section \<open>Domain\<close>

record Experiment =
  ex_ID :: string
  ex_TenantID :: string
  ex_Name :: string
  ex_Description :: string
  ex_Objective :: string
  ex_MetricName :: string
  ex_Status :: string
  ex_Tags :: "string list"
  ex_BestRunID :: string
  ex_CreatedAt :: time
  ex_UpdatedAt :: time

record ExperimentRun =
  er_ID :: string
  er_ExperimentID :: string
  er_TenantID :: string
  er_Name :: string
  er_Hyperparameters :: "params option"
  er_MetricValue :: "f64 option"
  er_Metrics :: "params option"
  er_ArtifactURI :: string
  er_SourceJobID :: string
  er_Status :: string
  er_IsBest :: bool
  er_ParentRunID :: string
  er_ReproductionState :: string
  er_StartedAt :: "time option"
  er_EndedAt :: "time option"
  er_CreatedAt :: time

definition StatusActive :: string where "StatusActive = ''active''"
definition StatusArchived :: string where "StatusArchived = ''archived''"
definition ObjectiveMinimize :: string where "ObjectiveMinimize = ''minimize''"
definition ObjectiveMaximize :: string where "ObjectiveMaximize = ''maximize''"
definition RunStatusPending :: string where "RunStatusPending = ''pending''"
definition RunStatusRunning :: string where "RunStatusRunning = ''running''"
definition RunStatusCompleted :: string where "RunStatusCompleted = ''completed''"
definition RunStatusFailed :: string where "RunStatusFailed = ''failed''"
definition RunStatusCancelled :: string where "RunStatusCancelled = ''cancelled''"

lemmas ex_consts = StatusActive_def StatusArchived_def ObjectiveMinimize_def ObjectiveMaximize_def
  RunStatusPending_def RunStatusRunning_def RunStatusCompleted_def RunStatusFailed_def RunStatusCancelled_def

definition exNormalize :: "Experiment \<Rightarrow> Experiment" where
  "exNormalize e =
     (let obj = lowerSearch (TrimSpace (ex_Objective e)); st = lowerSearch (TrimSpace (ex_Status e)) in
      e\<lparr>ex_Name := TrimSpace (ex_Name e), ex_Objective := if obj = [] then ObjectiveMaximize else obj,
        ex_Status := if st = [] then StatusActive else st\<rparr>)"

definition exValidate :: "Experiment \<Rightarrow> string option" where
  "exValidate e =
     (if TrimSpace (ex_Name e) = [] then Some ''name is required''
      else if 200 < length (ex_Name e) then Some ''name exceeds length limit''
      else if ex_Objective e \<noteq> ObjectiveMinimize \<and> ex_Objective e \<noteq> ObjectiveMaximize
      then Some ''objective must be minimize or maximize''
      else if ex_MetricName e = [] then Some ''metric_name is required to rank runs''
      else if ex_Status e \<noteq> StatusActive \<and> ex_Status e \<noteq> StatusArchived then Some ''status must be active or archived''
      else None)"

definition exArchive :: "Experiment \<Rightarrow> Experiment" where
  "exArchive e = (if ex_Status e = StatusArchived then e else e\<lparr>ex_Status := StatusArchived\<rparr>)"

definition exIsBetter :: "Experiment \<Rightarrow> ExperimentRun \<Rightarrow> ExperimentRun option \<Rightarrow> bool" where
  "exIsBetter e cand current =
     (case er_MetricValue cand of
        None \<Rightarrow> False
      | Some x \<Rightarrow> (case map_option er_MetricValue current of
          Some (Some y) \<Rightarrow> if ex_Objective e = ObjectiveMinimize then flt x y else flt y x
        | _ \<Rightarrow> True))"

definition UpdateBest :: "Experiment \<Rightarrow> ExperimentRun \<Rightarrow> ExperimentRun option \<Rightarrow> bool \<times> Experiment" where
  "UpdateBest e cand best =
     (if exIsBetter e cand best then (True, e\<lparr>ex_BestRunID := er_ID cand\<rparr>) else (False, e))"

definition erNormalize :: "ExperimentRun \<Rightarrow> ExperimentRun" where
  "erNormalize r = r\<lparr>er_Name := TrimSpace (er_Name r), er_Status := if er_Status r = [] then RunStatusPending else er_Status r\<rparr>"

definition erValidate :: "ExperimentRun \<Rightarrow> string option" where
  "erValidate r =
     (if TrimSpace (er_Name r) = [] then Some ''name is required''
      else if er_ExperimentID r = [] then Some ''experiment_id is required'' else None)"

definition erIsTerminal :: "ExperimentRun \<Rightarrow> bool" where
  "erIsTerminal r = (er_Status r \<in> {RunStatusCompleted, RunStatusFailed, RunStatusCancelled})"

definition erMarkRunning :: "time \<Rightarrow> ExperimentRun \<Rightarrow> bool \<times> ExperimentRun" where
  "erMarkRunning now r =
     (if er_Status r \<noteq> RunStatusPending then (False, r)
      else (True, r\<lparr>er_Status := RunStatusRunning, er_StartedAt := Some now\<rparr>))"

definition erComplete :: "f64 option \<Rightarrow> string \<Rightarrow> time \<Rightarrow> ExperimentRun \<Rightarrow> bool \<times> ExperimentRun" where
  "erComplete v uri now r =
     (if erIsTerminal r then (False, r)
      else (True, r\<lparr>er_Status := RunStatusCompleted, er_MetricValue := v, er_ArtifactURI := uri, er_EndedAt := Some now\<rparr>))"

definition erMarkFailed :: "time \<Rightarrow> ExperimentRun \<Rightarrow> bool \<times> ExperimentRun" where
  "erMarkFailed now r =
     (if erIsTerminal r then (False, r) else (True, r\<lparr>er_Status := RunStatusFailed, er_EndedAt := Some now\<rparr>))"

definition erMarkCancelled :: "time \<Rightarrow> ExperimentRun \<Rightarrow> bool \<times> ExperimentRun" where
  "erMarkCancelled now r =
     (if erIsTerminal r then (False, r) else (True, r\<lparr>er_Status := RunStatusCancelled, er_EndedAt := Some now\<rparr>))"

definition emptyRun :: ExperimentRun where
  "emptyRun = \<lparr>er_ID = [], er_ExperimentID = [], er_TenantID = [], er_Name = [], er_Hyperparameters = None, er_MetricValue = None,
     er_Metrics = None, er_ArtifactURI = [], er_SourceJobID = [], er_Status = [], er_IsBest = False, er_ParentRunID = [],
     er_ReproductionState = [], er_StartedAt = None, er_EndedAt = None, er_CreatedAt = 0\<rparr>"

definition NewReproductionRun :: "string \<Rightarrow> ExperimentRun \<Rightarrow> string \<Rightarrow> string \<Rightarrow> ExperimentRun" where
  "NewReproductionRun fresh parent jobID name =
     emptyRun\<lparr>er_ID := fresh, er_ExperimentID := er_ExperimentID parent, er_TenantID := er_TenantID parent, er_Name := name,
       er_Hyperparameters := Some (case er_Hyperparameters parent of Some hp \<Rightarrow> hp | None \<Rightarrow> []),
       er_SourceJobID := jobID, er_ParentRunID := er_ID parent, er_Status := RunStatusPending,
       er_ReproductionState := ''pending''\<rparr>"

section \<open>Reproduction\<close>

record ReproResult =
  rr_SourceMetric :: f64
  rr_ReproMetric :: f64
  rr_AbsDeviation :: f64
  rr_RelDeviation :: f64
  rr_Reproducible :: bool

definition EvaluateRepro :: "'a HpoFloats_scheme \<Rightarrow> f64 \<Rightarrow> f64 \<Rightarrow> f64 \<Rightarrow> f64 \<Rightarrow> ReproResult" where
  "EvaluateRepro ops absTol relTol source repro =
     (let dev = fo_sub ops repro source; absDev = (if flt dev pZero then negF dev else dev);
          absSource = (if flt source pZero then negF source else source);
          relDev = (if \<not> feq source pZero then fo_div ops absDev absSource else pZero) in
      \<lparr>rr_SourceMetric = source, rr_ReproMetric = repro, rr_AbsDeviation = absDev, rr_RelDeviation = relDev,
        rr_Reproducible = fle absDev absTol \<or> fle relDev relTol\<rparr>)"

section \<open>Store\<close>

datatype ExErr = ExNotFound | ExInvalidSpec string | ExInvalidState | ExPortNotFound | ExDb string

record ExWorld =
  xw_experiments :: "Experiment list"
  xw_runs :: "ExperimentRun list"
  xw_tick :: nat

record ExEnv =
  xe_time :: "nat \<Rightarrow> time"
  xe_id :: "nat \<Rightarrow> string"
  xe_fault :: "nat \<Rightarrow> string option"

definition tickX :: "ExWorld \<Rightarrow> ExWorld" where
  "tickX w = w\<lparr>xw_tick := Suc (xw_tick w)\<rparr>"

text \<open>A step of the database: a fault, or a result and a new state.\<close>

definition stepX :: "ExEnv \<Rightarrow> (ExWorld \<Rightarrow> (ExErr + 'a) \<times> ExWorld) \<Rightarrow> ExWorld \<Rightarrow> (ExErr + 'a) \<times> ExWorld" where
  "stepX env op w =
     (case xe_fault env (xw_tick w) of
        Some e \<Rightarrow> (Inl (ExDb e), tickX w)
      | None \<Rightarrow> let (r, w) = op w in (r, tickX w))"

definition GetExperiments :: "ExEnv \<Rightarrow> string \<Rightarrow> ExWorld \<Rightarrow> (ExErr + Experiment list) \<times> ExWorld" where
  "GetExperiments env tenant = stepX env (\<lambda>w.
     (Inr (sort_key (\<lambda>e. - ex_CreatedAt e) (filter (\<lambda>e. ex_TenantID e = tenant) (xw_experiments w))), w))"

definition GetExperimentRow :: "ExEnv \<Rightarrow> string \<Rightarrow> ExWorld \<Rightarrow> (ExErr + Experiment) \<times> ExWorld" where
  "GetExperimentRow env k = stepX env (\<lambda>w.
     (case tfind ex_ID (xw_experiments w) k of None \<Rightarrow> Inl ExPortNotFound | Some e \<Rightarrow> Inr e, w))"

definition CreateExperimentRow :: "ExEnv \<Rightarrow> Experiment \<Rightarrow> ExWorld \<Rightarrow> (ExErr + unit) \<times> ExWorld" where
  "CreateExperimentRow env e = stepX env (\<lambda>w.
     if tfind ex_ID (xw_experiments w) (ex_ID e) \<noteq> None then (Inl (ExDb ''duplicate key''), w)
     else (Inr (), w\<lparr>xw_experiments := tadd e (xw_experiments w)\<rparr>))"

definition UpdateExperimentRow :: "ExEnv \<Rightarrow> Experiment \<Rightarrow> ExWorld \<Rightarrow> (ExErr + unit) \<times> ExWorld" where
  "UpdateExperimentRow env e = stepX env (\<lambda>w. (Inr (), w\<lparr>xw_experiments := tupsert ex_ID e (xw_experiments w)\<rparr>))"

definition DeleteExperimentRow :: "ExEnv \<Rightarrow> string \<Rightarrow> ExWorld \<Rightarrow> (ExErr + unit) \<times> ExWorld" where
  "DeleteExperimentRow env k = stepX env (\<lambda>w. (Inr (), w\<lparr>xw_experiments := tdelete ex_ID k (xw_experiments w)\<rparr>))"

definition runsOf :: "string \<Rightarrow> ExWorld \<Rightarrow> ExperimentRun list" where
  "runsOf k w = sort_key er_CreatedAt (filter (\<lambda>r. er_ExperimentID r = k) (xw_runs w))"

definition GetRuns :: "ExEnv \<Rightarrow> string \<Rightarrow> ExWorld \<Rightarrow> (ExErr + ExperimentRun list) \<times> ExWorld" where
  "GetRuns env k = stepX env (\<lambda>w. (Inr (runsOf k w), w))"

definition GetExpRunRow :: "ExEnv \<Rightarrow> string \<Rightarrow> ExWorld \<Rightarrow> (ExErr + ExperimentRun) \<times> ExWorld" where
  "GetExpRunRow env k = stepX env (\<lambda>w. (case tfind er_ID (xw_runs w) k of None \<Rightarrow> Inl ExPortNotFound | Some r \<Rightarrow> Inr r, w))"

definition GetRunByJobIDRow :: "ExEnv \<Rightarrow> string \<Rightarrow> ExWorld \<Rightarrow> (ExErr + ExperimentRun) \<times> ExWorld" where
  "GetRunByJobIDRow env jobID w =
     (if jobID = [] then (Inl ExPortNotFound, w)
      else stepX env (\<lambda>w.
        (case sort_key (\<lambda>r. (- er_CreatedAt r, er_ID r)) (filter (\<lambda>r. er_SourceJobID r = jobID) (xw_runs w)) of
           [] \<Rightarrow> Inl ExPortNotFound | r # _ \<Rightarrow> Inr r, w)) w)"

definition CreateExpRunRow :: "ExEnv \<Rightarrow> ExperimentRun \<Rightarrow> ExWorld \<Rightarrow> (ExErr + unit) \<times> ExWorld" where
  "CreateExpRunRow env r = stepX env (\<lambda>w.
     if tfind er_ID (xw_runs w) (er_ID r) \<noteq> None then (Inl (ExDb ''duplicate key''), w)
     else (Inr (), w\<lparr>xw_runs := tadd r (xw_runs w)\<rparr>))"

definition UpdateExpRunRow :: "ExEnv \<Rightarrow> ExperimentRun \<Rightarrow> ExWorld \<Rightarrow> (ExErr + unit) \<times> ExWorld" where
  "UpdateExpRunRow env r = stepX env (\<lambda>w. (Inr (), w\<lparr>xw_runs := tupsert er_ID r (xw_runs w)\<rparr>))"

definition DeleteExpRunRow :: "ExEnv \<Rightarrow> string \<Rightarrow> ExWorld \<Rightarrow> (ExErr + unit) \<times> ExWorld" where
  "DeleteExpRunRow env k = stepX env (\<lambda>w. (Inr (), w\<lparr>xw_runs := tdelete er_ID k (xw_runs w)\<rparr>))"

interpretation exRepo: repository "tunique ex_ID" ex_ID "tfind ex_ID" "tsave ex_ID" tadd "tdelete ex_ID"
  by (rule table_repository)

interpretation runRepo: repository "tunique er_ID" er_ID "tfind er_ID" "tsave er_ID" tadd "tdelete er_ID"
  by (rule table_repository)

section \<open>Service\<close>

text \<open>\<^verbatim>\<open>ports.ErrNotFound\<close> becomes the error of the service.\<close>

definition asNotFound :: "ExErr \<Rightarrow> ExErr" where
  "asNotFound e = (if e = ExPortNotFound then ExNotFound else e)"

definition bindX :: "(ExErr + 'a) \<times> ExWorld \<Rightarrow> ('a \<Rightarrow> ExWorld \<Rightarrow> (ExErr + 'b) \<times> ExWorld) \<Rightarrow> (ExErr + 'b) \<times> ExWorld" where
  "bindX m f = (case m of (Inl e, w) \<Rightarrow> (Inl e, w) | (Inr x, w) \<Rightarrow> f x w)"

definition mapErr :: "(ExErr \<Rightarrow> ExErr) \<Rightarrow> (ExErr + 'a) \<times> ExWorld \<Rightarrow> (ExErr + 'a) \<times> ExWorld" where
  "mapErr g m = (case m of (Inl e, w) \<Rightarrow> (Inl (g e), w) | (Inr x, w) \<Rightarrow> (Inr x, w))"

record ExperimentInput =
  xi_TenantID :: string
  xi_Name :: string
  xi_Description :: string
  xi_Objective :: string
  xi_MetricName :: string
  xi_Tags :: "string list"

definition CreateExperiment :: "ExEnv \<Rightarrow> ExperimentInput \<Rightarrow> ExWorld \<Rightarrow> (ExErr + Experiment) \<times> ExWorld" where
  "CreateExperiment env inp w =
     (let now = xe_time env (xw_tick w);
          agg = exNormalize \<lparr>ex_ID = xe_id env (xw_tick w), ex_TenantID = xi_TenantID inp, ex_Name = xi_Name inp,
            ex_Description = xi_Description inp, ex_Objective = xi_Objective inp, ex_MetricName = xi_MetricName inp,
            ex_Status = StatusActive, ex_Tags = xi_Tags inp, ex_BestRunID = [], ex_CreatedAt = now, ex_UpdatedAt = now\<rparr> in
      case exValidate agg of
        Some e \<Rightarrow> (Inl (ExInvalidSpec e), w)
      | None \<Rightarrow> bindX (CreateExperimentRow env agg w) (\<lambda>_ w. (Inr agg, w)))"

definition ListExperiments :: "ExEnv \<Rightarrow> string \<Rightarrow> ExWorld \<Rightarrow> (ExErr + Experiment list) \<times> ExWorld" where
  "ListExperiments env tenant = GetExperiments env tenant"

definition GetExperiment :: "ExEnv \<Rightarrow> string \<Rightarrow> ExWorld \<Rightarrow> (ExErr + Experiment) \<times> ExWorld" where
  "GetExperiment env k w = mapErr asNotFound (GetExperimentRow env k w)"

definition ArchiveExperiment :: "ExEnv \<Rightarrow> string \<Rightarrow> ExWorld \<Rightarrow> (ExErr + Experiment) \<times> ExWorld" where
  "ArchiveExperiment env k w =
     bindX (mapErr asNotFound (GetExperimentRow env k w)) (\<lambda>e w.
       let e = exArchive e in bindX (UpdateExperimentRow env e w) (\<lambda>_ w. (Inr e, w)))"

primrec deleteRuns :: "ExEnv \<Rightarrow> ExperimentRun list \<Rightarrow> ExWorld \<Rightarrow> (ExErr + unit) \<times> ExWorld" where
  "deleteRuns env [] w = (Inr (), w)"
| "deleteRuns env (r # rs) w = bindX (DeleteExpRunRow env (er_ID r) w) (\<lambda>_. deleteRuns env rs)"

definition DeleteExperiment :: "ExEnv \<Rightarrow> string \<Rightarrow> ExWorld \<Rightarrow> (ExErr + unit) \<times> ExWorld" where
  "DeleteExperiment env k w =
     bindX (GetRuns env k w) (\<lambda>runs w. bindX (deleteRuns env runs w) (\<lambda>_. DeleteExperimentRow env k))"

record RunInput =
  ri_TenantID :: string
  ri_ExperimentID :: string
  ri_Name :: string
  ri_Hyperparameters :: "params option"
  ri_SourceJobID :: string

text \<open>The run as a row: what is not part of it starts empty.\<close>

definition toRunModel :: "time \<Rightarrow> ExperimentRun \<Rightarrow> ExperimentRun" where
  "toRunModel now a = emptyRun\<lparr>er_ID := er_ID a, er_ExperimentID := er_ExperimentID a, er_TenantID := er_TenantID a,
     er_Name := er_Name a, er_Hyperparameters := er_Hyperparameters a, er_SourceJobID := er_SourceJobID a,
     er_Status := er_Status a, er_ParentRunID := er_ParentRunID a, er_ReproductionState := er_ReproductionState a,
     er_CreatedAt := now\<rparr>"

definition saveNewRun :: "ExEnv \<Rightarrow> ExperimentRun \<Rightarrow> ExWorld \<Rightarrow> (ExErr + ExperimentRun) \<times> ExWorld" where
  "saveNewRun env run w =
     (let run = erNormalize run in
      case erValidate run of
        Some e \<Rightarrow> (Inl (ExInvalidSpec e), w)
      | None \<Rightarrow>
          let row = toRunModel (xe_time env (xw_tick w)) run in
          bindX (CreateExpRunRow env row w) (\<lambda>_ w. (Inr row, w)))"

definition CreateRun :: "ExEnv \<Rightarrow> RunInput \<Rightarrow> ExWorld \<Rightarrow> (ExErr + ExperimentRun) \<times> ExWorld" where
  "CreateRun env inp w =
     bindX (mapErr (\<lambda>e. if e = ExPortNotFound then ExInvalidSpec [] else e) (GetExperimentRow env (ri_ExperimentID inp) w))
       (\<lambda>parent w.
         if ex_TenantID parent \<noteq> ri_TenantID inp then (Inl (ExInvalidSpec []), w)
         else saveNewRun env (emptyRun\<lparr>er_ID := xe_id env (xw_tick w), er_ExperimentID := ri_ExperimentID inp,
             er_TenantID := ri_TenantID inp, er_Name := ri_Name inp, er_Hyperparameters := ri_Hyperparameters inp,
             er_SourceJobID := ri_SourceJobID inp, er_Status := RunStatusPending\<rparr>) w)"

definition CreateReproductionRun :: "ExEnv \<Rightarrow> ExperimentRun \<Rightarrow> string \<Rightarrow> ExWorld \<Rightarrow> (ExErr + ExperimentRun) \<times> ExWorld" where
  "CreateReproductionRun env parent jobID w =
     saveNewRun env (NewReproductionRun (xe_id env (xw_tick w)) parent jobID (er_Name parent @ ''-repro'')) w"

definition ListRuns :: "ExEnv \<Rightarrow> string \<Rightarrow> ExWorld \<Rightarrow> (ExErr + ExperimentRun list) \<times> ExWorld" where
  "ListRuns env k = GetRuns env k"

definition GetRun :: "ExEnv \<Rightarrow> string \<Rightarrow> ExWorld \<Rightarrow> (ExErr + ExperimentRun) \<times> ExWorld" where
  "GetRun env k w = mapErr asNotFound (GetExpRunRow env k w)"

definition GetRunByJobID :: "ExEnv \<Rightarrow> string \<Rightarrow> ExWorld \<Rightarrow> (ExErr + ExperimentRun) \<times> ExWorld" where
  "GetRunByJobID env k w = mapErr asNotFound (GetRunByJobIDRow env k w)"

primrec bestRunLoop :: "Experiment \<Rightarrow> ExperimentRun option \<Rightarrow> ExperimentRun list \<Rightarrow> ExperimentRun option" where
  "bestRunLoop e best [] = best"
| "bestRunLoop e best (r # rs) =
     (let (better, e) = UpdateBest e r best in bestRunLoop e (if better then Some r else best) rs)"

text \<open>The last of the runs with the identifier of the best run so far.\<close>

primrec currentBest :: "string \<Rightarrow> ExperimentRun option \<Rightarrow> ExperimentRun list \<Rightarrow> ExperimentRun option" where
  "currentBest k best [] = best"
| "currentBest k best (r # rs) = currentBest k (if er_ID r = k then Some r else best) rs"

primrec flagRuns :: "ExEnv \<Rightarrow> string \<Rightarrow> ExperimentRun list \<Rightarrow> ExWorld \<Rightarrow> (ExErr + unit) \<times> ExWorld" where
  "flagRuns env best [] w = (Inr (), w)"
| "flagRuns env best (r # rs) w =
     (let isBest = (er_ID r = best) in
      if er_IsBest r \<noteq> isBest
      then bindX (UpdateExpRunRow env (r\<lparr>er_IsBest := isBest\<rparr>) w) (\<lambda>_. flagRuns env best rs)
      else flagRuns env best rs w)"

definition refreshBestRun :: "ExEnv \<Rightarrow> string \<Rightarrow> ExWorld \<Rightarrow> (ExErr + unit) \<times> ExWorld" where
  "refreshBestRun env k w =
     bindX (GetExperimentRow env k w) (\<lambda>e w.
     bindX (GetRuns env k w) (\<lambda>runs w.
       let best = bestRunLoop e (currentBest (ex_BestRunID e) None runs) runs;
           newBest = (case best of Some r \<Rightarrow> er_ID r | None \<Rightarrow> []) in
       bindX (UpdateExperimentRow env (e\<lparr>ex_BestRunID := newBest\<rparr>) w) (\<lambda>_. flagRuns env newBest runs)))"

definition CompleteRun ::
    "ExEnv \<Rightarrow> string \<Rightarrow> f64 option \<Rightarrow> params option \<Rightarrow> string \<Rightarrow> ExWorld \<Rightarrow> (ExErr + ExperimentRun) \<times> ExWorld" where
  "CompleteRun env k v metrics uri w =
     bindX (mapErr asNotFound (GetExpRunRow env k w)) (\<lambda>r w.
       let (ok, agg) = erComplete v uri (xe_time env (xw_tick w)) r in
       if \<not> ok then (Inl ExInvalidState, w)
       else let row = (if metrics = None then agg else agg\<lparr>er_Metrics := metrics\<rparr>) in
         bindX (UpdateExpRunRow env row w) (\<lambda>_ w.
         bindX (refreshBestRun env (er_ExperimentID row) w) (\<lambda>_ w. (Inr row, w))))"

definition endRun :: "(time \<Rightarrow> ExperimentRun \<Rightarrow> bool \<times> ExperimentRun) \<Rightarrow> ExEnv \<Rightarrow> string \<Rightarrow> ExWorld \<Rightarrow> (ExErr + ExperimentRun) \<times> ExWorld" where
  "endRun mark env k w =
     bindX (mapErr asNotFound (GetExpRunRow env k w)) (\<lambda>r w.
       let (ok, agg) = mark (xe_time env (xw_tick w)) r in
       if \<not> ok then (Inl ExInvalidState, w) else bindX (UpdateExpRunRow env agg w) (\<lambda>_ w. (Inr agg, w)))"

definition FailRunX :: "ExEnv \<Rightarrow> string \<Rightarrow> ExWorld \<Rightarrow> (ExErr + ExperimentRun) \<times> ExWorld" where
  "FailRunX = endRun erMarkFailed"

definition CancelRun :: "ExEnv \<Rightarrow> string \<Rightarrow> ExWorld \<Rightarrow> (ExErr + ExperimentRun) \<times> ExWorld" where
  "CancelRun = endRun erMarkCancelled"

end
