(* ===== verification/HpoService.thy ===== *)
theory HpoService
  imports HpoDomain Experiments TrainingService
begin

text \<open>
  \<^verbatim>\<open>app/hpo\<close> and \<^verbatim>\<open>storage/hpo.go\<close>: studies and trials as rows, the scheduling step \<^verbatim>\<open>RunOnce\<close> with its actions (a
  trial becomes a training job and, with an experiment, a run), reports, and the end of a job.  The training service is
  the model of theory TrainingService.  A column that holds JSON is kept as the value that reading it gives; the time
  stamps of trials and reports, which nothing reads, are left out.
\<close>

section \<open>State\<close>

record StudyRow =
  sr_ID :: string
  sr_TenantID :: string
  sr_ExperimentID :: string
  sr_Name :: string
  sr_Algorithm :: string
  sr_Objective :: Objective
  sr_Space :: SearchSpace
  sr_MaxTrials :: int
  sr_MaxParallel :: int
  sr_MaxDurationSec :: int
  sr_EarlyStop :: "EarlyStopSpec option"
  sr_Template :: "params option"
  sr_Status :: StudyStatus
  sr_BestTrialID :: string
  sr_CreatedAt :: time
  sr_UpdatedAt :: time

record ReportRow =
  rw_ID :: string
  rw_TrialID :: string
  rw_StudyID :: string
  rw_Step :: int
  rw_Value :: f64

datatype HpoErr = HeNotFound | HeDb string | HeSpace HpoError | HeNoMetric | HeMaxTrials | HeMarshal
  | HeSubmit string TrainSvcError | HeTrain TrainSvcError

text \<open>A trial row is the trial itself (\<^verbatim>\<open>models.HPOTrial\<close> has the same columns).\<close>

record HpoWorld =
  hw_studies :: "StudyRow list"
  hw_trials :: "Trial list"
  hw_reports :: "ReportRow list"
  hw_runs :: ExWorld
  hw_train :: TrWorld
  hw_tick :: nat

record HpoEnv =
  hx_ops :: HpoFloats
  hx_time :: "nat \<Rightarrow> time"
  hx_id :: "nat \<Rightarrow> string"
  hx_fault :: "nat \<Rightarrow> string option"
  hx_rand :: "nat \<Rightarrow> Rand"
  hx_text :: "HpoError \<Rightarrow> string"
  hx_show :: "PVal \<Rightarrow> string"
  hx_train :: TrainEnv
  hx_runs :: ExEnv
  hx_hasQuota :: bool
  hx_hasReports :: bool

definition tickH :: "HpoWorld \<Rightarrow> HpoWorld" where
  "tickH w = w\<lparr>hw_tick := Suc (hw_tick w)\<rparr>"

definition faultH :: "HpoEnv \<Rightarrow> HpoWorld \<Rightarrow> string option" where
  "faultH env w = hx_fault env (hw_tick w)"

section \<open>Rows\<close>

text \<open>Infinities and NaN have no JSON; an int that is read back as \<^verbatim>\<open>any\<close> is a float.\<close>

fun jsonVal :: "'a HpoFloats_scheme \<Rightarrow> PVal \<Rightarrow> PVal option" where
  "jsonVal ops (VFloat x) = (if finite64 x then Some (VFloat x) else None)"
| "jsonVal ops (VInt n) = Some (VFloat (fo_ofInt ops n))"
| "jsonVal ops v = Some v"

primrec jsonParams :: "'a HpoFloats_scheme \<Rightarrow> params \<Rightarrow> params option" where
  "jsonParams ops [] = Some []"
| "jsonParams ops (e # es) =
     (case jsonVal ops (snd e) of
        None \<Rightarrow> None
      | Some v \<Rightarrow> map_option (Cons (fst e, v)) (jsonParams ops es))"

definition toModelTrial :: "'a HpoFloats_scheme \<Rightarrow> Trial \<Rightarrow> Trial option" where
  "toModelTrial ops t =
     (case jsonParams ops (tr_Params t) of
        None \<Rightarrow> None
      | Some ps \<Rightarrow> if list_all (\<lambda>r. finite64 (rp_Value r)) (tr_Intermediate t) then Some (t\<lparr>tr_Params := ps\<rparr>) else None)"

text \<open>\<^verbatim>\<open>int(d.Seconds())\<close>: seconds and the rest as floats, added and truncated.\<close>

definition secondsOf :: "'a HpoFloats_scheme \<Rightarrow> duration \<Rightarrow> int" where
  "secondsOf ops d =
     (let s = divTrunc d Second in
      intOf ops (fo_add ops (fo_ofInt ops s) (fo_div ops (fo_ofInt ops (d - s * Second)) (Fin 1000000000))))"

definition finiteSpace :: "SearchSpace \<Rightarrow> bool" where
  "finiteSpace space = list_all (\<lambda>p. finite64 (ps_Min p) \<and> finite64 (ps_Max p) \<and> finite64 (ps_Step p)) space"

definition toModelStudy :: "'a HpoFloats_scheme \<Rightarrow> Study \<Rightarrow> StudyRow option" where
  "toModelStudy ops s =
     (if finiteSpace (sy_Space s) \<and> (\<forall>e. sy_EarlyStop s = Some e \<longrightarrow> finite64 (es_Eta e))
      then Some \<lparr>sr_ID = sy_ID s, sr_TenantID = sy_TenantID s, sr_ExperimentID = sy_ExperimentID s, sr_Name = sy_Name s,
        sr_Algorithm = sy_Algorithm s, sr_Objective = sy_Objective s, sr_Space = sy_Space s, sr_MaxTrials = sy_MaxTrials s,
        sr_MaxParallel = sy_MaxParallel s, sr_MaxDurationSec = secondsOf ops (sy_MaxDuration s), sr_EarlyStop = sy_EarlyStop s,
        sr_Template = sy_Template s, sr_Status = sy_Status s, sr_BestTrialID = sy_BestTrialID s,
        sr_CreatedAt = sy_CreatedAt s, sr_UpdatedAt = sy_UpdatedAt s\<rparr>
      else None)"

definition toDomainStudy :: "StudyRow \<Rightarrow> Study" where
  "toDomainStudy m =
     \<lparr>sy_ID = sr_ID m, sy_TenantID = sr_TenantID m, sy_ExperimentID = sr_ExperimentID m, sy_Name = sr_Name m,
      sy_Space = sr_Space m, sy_Algorithm = sr_Algorithm m, sy_Objective = sr_Objective m, sy_MaxTrials = sr_MaxTrials m,
      sy_MaxParallel = sr_MaxParallel m, sy_MaxDuration = i64 (sr_MaxDurationSec m * Second), sy_EarlyStop = sr_EarlyStop m,
      sy_Template = sr_Template m, sy_Status = sr_Status m, sy_BestTrialID = sr_BestTrialID m,
      sy_CreatedAt = sr_CreatedAt m, sy_UpdatedAt = sr_UpdatedAt m\<rparr>"

section \<open>Store\<close>

definition stepH :: "HpoEnv \<Rightarrow> (HpoWorld \<Rightarrow> (HpoErr + 'a) \<times> HpoWorld) \<Rightarrow> HpoWorld \<Rightarrow> (HpoErr + 'a) \<times> HpoWorld" where
  "stepH env op w =
     (case faultH env w of
        Some e \<Rightarrow> (Inl (HeDb e), tickH w)
      | None \<Rightarrow> let (r, w) = op w in (r, tickH w))"

definition bindH :: "(HpoErr + 'a) \<times> HpoWorld \<Rightarrow> ('a \<Rightarrow> HpoWorld \<Rightarrow> (HpoErr + 'b) \<times> HpoWorld) \<Rightarrow> (HpoErr + 'b) \<times> HpoWorld" where
  "bindH m f = (case m of (Inl e, w) \<Rightarrow> (Inl e, w) | (Inr x, w) \<Rightarrow> f x w)"

definition CreateStudyRow :: "HpoEnv \<Rightarrow> StudyRow \<Rightarrow> HpoWorld \<Rightarrow> (HpoErr + unit) \<times> HpoWorld" where
  "CreateStudyRow env s = stepH env (\<lambda>w.
     if tfind sr_ID (hw_studies w) (sr_ID s) \<noteq> None then (Inl (HeDb ''duplicate key''), w)
     else (Inr (), w\<lparr>hw_studies := tadd s (hw_studies w)\<rparr>))"

definition GetStudyRow :: "HpoEnv \<Rightarrow> string \<Rightarrow> HpoWorld \<Rightarrow> (HpoErr + StudyRow) \<times> HpoWorld" where
  "GetStudyRow env k = stepH env (\<lambda>w. (case tfind sr_ID (hw_studies w) k of None \<Rightarrow> Inl HeNotFound | Some s \<Rightarrow> Inr s, w))"

definition UpdateStudyRow :: "HpoEnv \<Rightarrow> StudyRow \<Rightarrow> HpoWorld \<Rightarrow> (HpoErr + unit) \<times> HpoWorld" where
  "UpdateStudyRow env s = stepH env (\<lambda>w. (Inr (), w\<lparr>hw_studies := tupsert sr_ID s (hw_studies w)\<rparr>))"

definition ListStudyRows :: "HpoEnv \<Rightarrow> string \<Rightarrow> HpoWorld \<Rightarrow> (HpoErr + StudyRow list) \<times> HpoWorld" where
  "ListStudyRows env tenant = stepH env (\<lambda>w.
     (Inr (sort_key (\<lambda>s. - sr_CreatedAt s) (filter (\<lambda>s. sr_TenantID s = tenant) (hw_studies w))), w))"

definition DeleteStudyRow :: "HpoEnv \<Rightarrow> string \<Rightarrow> HpoWorld \<Rightarrow> (HpoErr + unit) \<times> HpoWorld" where
  "DeleteStudyRow env k = stepH env (\<lambda>w. (Inr (), w\<lparr>hw_studies := tdelete sr_ID k (hw_studies w)\<rparr>))"

definition CreateTrialRow :: "HpoEnv \<Rightarrow> Trial \<Rightarrow> HpoWorld \<Rightarrow> (HpoErr + unit) \<times> HpoWorld" where
  "CreateTrialRow env t = stepH env (\<lambda>w.
     if tfind tr_ID (hw_trials w) (tr_ID t) \<noteq> None then (Inl (HeDb ''duplicate key''), w)
     else (Inr (), w\<lparr>hw_trials := tadd t (hw_trials w)\<rparr>))"

definition GetTrialRow :: "HpoEnv \<Rightarrow> string \<Rightarrow> HpoWorld \<Rightarrow> (HpoErr + Trial) \<times> HpoWorld" where
  "GetTrialRow env k = stepH env (\<lambda>w. (case tfind tr_ID (hw_trials w) k of None \<Rightarrow> Inl HeNotFound | Some t \<Rightarrow> Inr t, w))"

definition UpdateTrialRow :: "HpoEnv \<Rightarrow> Trial \<Rightarrow> HpoWorld \<Rightarrow> (HpoErr + unit) \<times> HpoWorld" where
  "UpdateTrialRow env t = stepH env (\<lambda>w. (Inr (), w\<lparr>hw_trials := tupsert tr_ID t (hw_trials w)\<rparr>))"

definition trialsOf :: "string \<Rightarrow> HpoWorld \<Rightarrow> Trial list" where
  "trialsOf k w = sort_key tr_Number (filter (\<lambda>t. tr_StudyID t = k) (hw_trials w))"

definition ListTrialRows :: "HpoEnv \<Rightarrow> string \<Rightarrow> HpoWorld \<Rightarrow> (HpoErr + Trial list) \<times> HpoWorld" where
  "ListTrialRows env k = stepH env (\<lambda>w. (Inr (trialsOf k w), w))"

definition ListRunningTrialRows :: "HpoEnv \<Rightarrow> string \<Rightarrow> HpoWorld \<Rightarrow> (HpoErr + Trial list) \<times> HpoWorld" where
  "ListRunningTrialRows env k = stepH env (\<lambda>w.
     (Inr (filter (\<lambda>t. tr_StudyID t = k \<and> tr_Status t = TrialRunning) (hw_trials w)), w))"

definition GetTrialByJobID :: "HpoEnv \<Rightarrow> string \<Rightarrow> HpoWorld \<Rightarrow> (HpoErr + Trial) \<times> HpoWorld" where
  "GetTrialByJobID env jobID = stepH env (\<lambda>w.
     (case sort_key tr_ID (filter (\<lambda>t. tr_JobID t = jobID) (hw_trials w)) of [] \<Rightarrow> Inl HeNotFound | t # _ \<Rightarrow> Inr t, w))"

text \<open>The reports go first; a fault between the two deletions leaves the trials.\<close>

definition DeleteTrialsByStudy :: "HpoEnv \<Rightarrow> string \<Rightarrow> HpoWorld \<Rightarrow> (HpoErr + unit) \<times> HpoWorld" where
  "DeleteTrialsByStudy env k w =
     bindH (stepH env (\<lambda>w. (Inr (), w\<lparr>hw_reports := filter (\<lambda>r. rw_StudyID r \<noteq> k) (hw_reports w)\<rparr>)) w) (\<lambda>_.
     stepH env (\<lambda>w. (Inr (), w\<lparr>hw_trials := filter (\<lambda>t. tr_StudyID t \<noteq> k) (hw_trials w)\<rparr>)))"

definition CreateReport :: "HpoEnv \<Rightarrow> ReportRow \<Rightarrow> HpoWorld \<Rightarrow> (HpoErr + unit) \<times> HpoWorld" where
  "CreateReport env r = stepH env (\<lambda>w. (Inr (), w\<lparr>hw_reports := tadd r (hw_reports w)\<rparr>))"

interpretation studyRepo: repository "tunique sr_ID" sr_ID "tfind sr_ID" "tsave sr_ID" tadd "tdelete sr_ID"
  by (rule table_repository)

interpretation trialRepo: repository "tunique tr_ID" tr_ID "tfind tr_ID" "tsave tr_ID" tadd "tdelete tr_ID"
  by (rule table_repository)

section \<open>Studies\<close>

record StudySpec =
  ss_ExperimentID :: string
  ss_Name :: string
  ss_Algorithm :: string
  ss_Objective :: Objective
  ss_Space :: SearchSpace
  ss_MaxTrials :: int
  ss_MaxParallel :: int
  ss_MaxDuration :: duration
  ss_EarlyStop :: "EarlyStopSpec option"
  ss_Template :: "params option"

definition newStudy :: "HpoEnv \<Rightarrow> string \<Rightarrow> StudySpec \<Rightarrow> HpoWorld \<Rightarrow> Study" where
  "newStudy env tenant spec w =
     (let now = hx_time env (hw_tick w) in
      \<lparr>sy_ID = hx_id env (hw_tick w), sy_TenantID = tenant, sy_ExperimentID = ss_ExperimentID spec, sy_Name = ss_Name spec,
       sy_Space = ss_Space spec, sy_Algorithm = if ss_Algorithm spec = [] then ''tpe'' else ss_Algorithm spec,
       sy_Objective = ss_Objective spec, sy_MaxTrials = ss_MaxTrials spec,
       sy_MaxParallel = if ss_MaxParallel spec \<le> 0 then 1 else ss_MaxParallel spec, sy_MaxDuration = ss_MaxDuration spec,
       sy_EarlyStop = ss_EarlyStop spec, sy_Template = ss_Template spec, sy_Status = StudyPending, sy_BestTrialID = [],
       sy_CreatedAt = now, sy_UpdatedAt = now\<rparr>)"

definition CreateStudy :: "HpoEnv \<Rightarrow> string \<Rightarrow> StudySpec \<Rightarrow> HpoWorld \<Rightarrow> (HpoErr + StudyRow) \<times> HpoWorld" where
  "CreateStudy env tenant spec w =
     (case SpaceValidate (hx_ops env) (ss_Space spec) of
        Some e \<Rightarrow> (Inl (HeSpace e), w)
      | None \<Rightarrow>
          if ob_MetricName (ss_Objective spec) = [] then (Inl HeNoMetric, w)
          else if ss_MaxTrials spec \<le> 0 then (Inl HeMaxTrials, w)
          else case toModelStudy (hx_ops env) (newStudy env tenant spec w) of
            None \<Rightarrow> (Inl HeMarshal, w)
          | Some m \<Rightarrow> bindH (CreateStudyRow env m w) (\<lambda>_ w. (Inr m, w)))"

definition ListStudies :: "HpoEnv \<Rightarrow> string \<Rightarrow> HpoWorld \<Rightarrow> (HpoErr + StudyRow list) \<times> HpoWorld" where
  "ListStudies env tenant = ListStudyRows env tenant"

definition GetStudy :: "HpoEnv \<Rightarrow> string \<Rightarrow> string \<Rightarrow> HpoWorld \<Rightarrow> (HpoErr + StudyRow) \<times> HpoWorld" where
  "GetStudy env tenant k w =
     bindH (GetStudyRow env k w) (\<lambda>m w. if sr_TenantID m \<noteq> tenant then (Inl HeNotFound, w) else (Inr m, w))"

definition DeleteStudy :: "HpoEnv \<Rightarrow> string \<Rightarrow> string \<Rightarrow> HpoWorld \<Rightarrow> (HpoErr + unit) \<times> HpoWorld" where
  "DeleteStudy env tenant k w =
     bindH (GetStudyRow env k w) (\<lambda>m w.
       if sr_TenantID m \<noteq> tenant then (Inl HeNotFound, w)
       else bindH (DeleteTrialsByStudy env k w) (\<lambda>_. DeleteStudyRow env k))"

definition ListTrials :: "HpoEnv \<Rightarrow> string \<Rightarrow> string \<Rightarrow> HpoWorld \<Rightarrow> (HpoErr + Trial list) \<times> HpoWorld" where
  "ListTrials env tenant k w = bindH (GetStudy env tenant k w) (\<lambda>_. ListTrialRows env k)"

text \<open>The trial need not belong to the study.\<close>

definition GetTrial :: "HpoEnv \<Rightarrow> string \<Rightarrow> string \<Rightarrow> string \<Rightarrow> HpoWorld \<Rightarrow> (HpoErr + Trial) \<times> HpoWorld" where
  "GetTrial env tenant k trialID w = bindH (GetStudy env tenant k w) (\<lambda>_. GetTrialRow env trialID)"

section \<open>Commands\<close>

definition templateText :: "params option \<Rightarrow> string \<Rightarrow> string option" where
  "templateText tmpl k = (case pget (case tmpl of Some m \<Rightarrow> m | None \<Rightarrow> []) k of VString s \<Rightarrow> Some s | _ \<Rightarrow> None)"

definition templateInt :: "'a HpoFloats_scheme \<Rightarrow> params option \<Rightarrow> string \<Rightarrow> int" where
  "templateInt ops tmpl k = (case pget (case tmpl of Some m \<Rightarrow> m | None \<Rightarrow> []) k of VFloat f \<Rightarrow> intOf ops f | _ \<Rightarrow> 0)"

definition trainingSpecFromTemplate :: "'a HpoFloats_scheme \<Rightarrow> params option \<Rightarrow> Spec" where
  "trainingSpecFromTemplate ops tmpl =
     emptySpec\<lparr>sp_Image := (case templateText tmpl ''image'' of Some s \<Rightarrow> s | None \<Rightarrow> []),
       sp_Command := (case templateText tmpl ''command'' of Some s \<Rightarrow> s | None \<Rightarrow> []),
       sp_Priority := templateInt ops tmpl ''priority'', sp_GPUs := templateInt ops tmpl ''gpus'',
       sp_Memory := templateInt ops tmpl ''memory''\<rparr>"

primrec joinWith :: "string \<Rightarrow> string list \<Rightarrow> string" where
  "joinWith sep [] = []"
| "joinWith sep (x # xs) = (if xs = [] then x else x @ sep @ joinWith sep xs)"

definition renderParams :: "(PVal \<Rightarrow> string) \<Rightarrow> params \<Rightarrow> string" where
  "renderParams shw ps = joinWith '' '' (map (\<lambda>e. ''--'' @ fst e @ '' '' @ shw (snd e)) (sort_key fst ps))"

text \<open>\<^verbatim>\<open>strings.ReplaceAll\<close> for an \<^term>\<open>old\<close> that is not empty.\<close>

function replaceAll :: "string \<Rightarrow> string \<Rightarrow> string \<Rightarrow> string" where
  "replaceAll old new s =
     (case s of
        [] \<Rightarrow> []
      | c # rest \<Rightarrow> if old \<noteq> [] \<and> prefixes old s then new @ replaceAll old new (drop (length old) s)
                   else c # replaceAll old new rest)"
  by auto
termination by (relation "measure (\<lambda>(_, _, s). length s)") auto

declare replaceAll.simps [simp del]

definition renderCommand :: "(PVal \<Rightarrow> string) \<Rightarrow> params option \<Rightarrow> params \<Rightarrow> string" where
  "renderCommand shw tmpl ps =
     (let flat = renderParams shw ps;
          base = (case templateText tmpl ''command'' of Some c \<Rightarrow> c | None \<Rightarrow> []);
          rest = (if base = [] then flat else if flat = [] then base else base @ '' '' @ flat) in
      case templateText tmpl ''command_template'' of
        Some ct \<Rightarrow> if containsSub ct ''{params}'' then replaceAll ''{params}'' flat ct else rest
      | None \<Rightarrow> rest)"

section \<open>Actions\<close>

definition quotaAvailable :: "HpoEnv \<Rightarrow> string \<Rightarrow> HpoWorld \<Rightarrow> bool \<times> HpoWorld" where
  "quotaAvailable env tenant w =
     (if \<not> hx_hasQuota env then (True, w)
      else case faultH env w of
        Some _ \<Rightarrow> (True, tickH w)
      | None \<Rightarrow> (case QuotaStore.GetQuota tenant (tw_quota (hw_train w)) of
          Inl _ \<Rightarrow> True
        | Inr q \<Rightarrow> q_JobQuota q \<le> 0 \<or> q_JobUsed q < q_JobQuota q, tickH w))"

definition studySpawnNumber :: "HpoEnv \<Rightarrow> string \<Rightarrow> HpoWorld \<Rightarrow> int \<times> HpoWorld" where
  "studySpawnNumber env k w =
     (case ListTrialRows env k w of
        (Inl _, w) \<Rightarrow> (1, w)
      | (Inr ts, w) \<Rightarrow> (if ts = [] then 1 else i64 (foldl (\<lambda>m t. if m < tr_Number t then tr_Number t else m) 0 ts + 1), w))"

text \<open>The run of the trial in its experiment; a failure to create it is passed over.\<close>

definition trackRun :: "HpoEnv \<Rightarrow> Study \<Rightarrow> params \<Rightarrow> int \<Rightarrow> string \<Rightarrow> Trial \<Rightarrow> HpoWorld \<Rightarrow> Trial \<times> HpoWorld" where
  "trackRun env s ps num jobID t w =
     (if sy_ExperimentID s = [] then (t, w)
      else let run = emptyRun\<lparr>er_ID := hx_id env (hw_tick w), er_ExperimentID := sy_ExperimentID s,
               er_TenantID := sy_TenantID s, er_Name := sy_Name s @ ''-trial-'' @ showInt num,
               er_Hyperparameters := jsonParams (hx_ops env) ps, er_SourceJobID := jobID, er_Status := RunStatusPending,
               er_CreatedAt := hx_time env (hw_tick w)\<rparr> in
        case CreateExpRunRow (hx_runs env) run (hw_runs w) of
          (Inl _, xw) \<Rightarrow> (t, tickH (w\<lparr>hw_runs := xw\<rparr>))
        | (Inr _, xw) \<Rightarrow> (t\<lparr>tr_RunID := er_ID run\<rparr>, tickH (w\<lparr>hw_runs := xw\<rparr>)))"

definition saveTrial :: "HpoEnv \<Rightarrow> Trial \<Rightarrow> HpoWorld \<Rightarrow> (HpoErr + unit) \<times> HpoWorld" where
  "saveTrial env t w =
     (case toModelTrial (hx_ops env) t of None \<Rightarrow> (Inl HeMarshal, w) | Some row \<Rightarrow> UpdateTrialRow env row w)"

definition spawnTrial :: "HpoEnv \<Rightarrow> Study \<Rightarrow> params \<Rightarrow> HpoWorld \<Rightarrow> (HpoErr + unit) \<times> HpoWorld" where
  "spawnTrial env s ps w =
     (let (num, w) = studySpawnNumber env (sy_ID s) w;
          t = \<lparr>tr_ID = hx_id env (hw_tick w), tr_StudyID = sy_ID s, tr_Number = num, tr_Params = ps, tr_Status = TrialPending,
             tr_Value = None, tr_Intermediate = [], tr_RunID = [], tr_JobID = []\<rparr> in
      case toModelTrial (hx_ops env) t of
        None \<Rightarrow> (Inl HeMarshal, w)
      | Some row \<Rightarrow> bindH (CreateTrialRow env row w) (\<lambda>_ w.
          let spec = (trainingSpecFromTemplate (hx_ops env) (sy_Template s))
                \<lparr>sp_Command := renderCommand (hx_show env) (sy_Template s) ps\<rparr> in
          case trSubmit (hx_train env) (sy_TenantID s) (plainSubmit (sy_Name s @ ''-'' @ showInt num) spec) (hw_train w) of
            (Inl e, tw) \<Rightarrow>
              (let (_, w) = saveTrial env (t\<lparr>tr_Status := TrialFailed\<rparr>) (w\<lparr>hw_train := tw\<rparr>) in (Inl (HeSubmit (tr_ID t) e), w))
          | (Inr job, tw) \<Rightarrow>
              (let (t, w) = trackRun env s ps num (jr_ID job) t (w\<lparr>hw_train := tw\<rparr>) in
               saveTrial env (t\<lparr>tr_Status := TrialRunning, tr_JobID := jr_ID job\<rparr>) w)))"

definition stopTrial :: "HpoEnv \<Rightarrow> string \<Rightarrow> HpoWorld \<Rightarrow> (HpoErr + unit) \<times> HpoWorld" where
  "stopTrial env trialID w =
     bindH (GetTrialRow env trialID w) (\<lambda>t w.
       if tr_Status t \<noteq> TrialRunning then (Inr (), w)
       else
         let (e, w) = (if tr_JobID t = [] then (None, w)
                       else let (e, tw) = trCancel (hx_train env) (tr_JobID t) (hw_train w) in (e, w\<lparr>hw_train := tw\<rparr>)) in
         case e of
           Some e \<Rightarrow> (Inl (HeTrain e), w)
         | None \<Rightarrow> saveTrial env (t\<lparr>tr_Status := TrialPruned\<rparr>) w)"

definition allDomainTrials :: "HpoEnv \<Rightarrow> string \<Rightarrow> HpoWorld \<Rightarrow> Trial list \<times> HpoWorld" where
  "allDomainTrials env k w = (case ListTrialRows env k w of (Inl _, w) \<Rightarrow> ([], w) | (Inr ts, w) \<Rightarrow> (ts, w))"

definition completeStudy :: "HpoEnv \<Rightarrow> Study \<Rightarrow> HpoWorld \<Rightarrow> (HpoErr + unit) \<times> HpoWorld" where
  "completeStudy env s w =
     (let (ts, w) = allDomainTrials env (sy_ID s) w;
          s = s\<lparr>sy_Status := StudyCompleted, sy_BestTrialID :=
                (case BestTrial (sy_Objective s) ts of Some b \<Rightarrow> tr_ID b | None \<Rightarrow> sy_BestTrialID s)\<rparr> in
      case toModelStudy (hx_ops env) s of None \<Rightarrow> (Inl HeMarshal, w) | Some m \<Rightarrow> UpdateStudyRow env m w)"

definition applyAction :: "HpoEnv \<Rightarrow> Study \<Rightarrow> Action \<Rightarrow> HpoWorld \<Rightarrow> (HpoErr + unit) \<times> HpoWorld" where
  "applyAction env s act w =
     (case act of
        SpawnTrial ps \<Rightarrow> spawnTrial env s ps w
      | StopTrial k _ \<Rightarrow> stopTrial env k w
      | CompleteStudy _ \<Rightarrow> completeStudy env s w
      | Noop _ \<Rightarrow> (Inr (), w))"

primrec applyActions :: "HpoEnv \<Rightarrow> Study \<Rightarrow> Action list \<Rightarrow> HpoWorld \<Rightarrow> (HpoErr + unit) \<times> HpoWorld" where
  "applyActions env s [] w = (Inr (), w)"
| "applyActions env s (a # as) w = bindH (applyAction env s a w) (\<lambda>_. applyActions env s as)"

text \<open>\<^term>\<open>None\<close> when the scheduler does not return (a rung loop) or panics.\<close>

definition RunOnce :: "HpoEnv \<Rightarrow> string \<Rightarrow> string \<Rightarrow> HpoWorld \<Rightarrow> ((HpoErr + unit) \<times> HpoWorld) option" where
  "RunOnce env tenant k w =
     (case GetStudyRow env k w of
        (Inl e, w) \<Rightarrow> Some (Inl e, w)
      | (Inr m, w) \<Rightarrow>
          if tenant \<noteq> [] \<and> sr_TenantID m \<noteq> tenant then Some (Inl HeNotFound, w)
          else let s = toDomainStudy m in
            if \<not> studyIsActive s then Some (Inr (), w)
            else case ListTrialRows env k w of
              (Inl e, w) \<Rightarrow> Some (Inl e, w)
            | (Inr trials, w) \<Rightarrow>
                let (avail, w) = quotaAvailable env (sy_TenantID s) w;
                    ctx = \<lparr>sc_QuotaAvailable = avail, sc_Now = hx_time env (hw_tick w), sc_Rand = hx_rand env (hw_tick w)\<rparr> in
                case NextActions (hx_ops env) (hx_text env) s trials ctx of
                  None \<Rightarrow> None
                | Some acts \<Rightarrow> Some (applyActions env s acts (tickH w)))"

section \<open>Reports and the end of a job\<close>

definition shouldPrune :: "HpoEnv \<Rightarrow> Trial \<Rightarrow> HpoWorld \<Rightarrow> (bool \<times> HpoWorld) option" where
  "shouldPrune env t w =
     (case GetStudyRow env (tr_StudyID t) w of
        (Inl _, w) \<Rightarrow> Some (False, w)
      | (Inr m, w) \<Rightarrow>
          let s = toDomainStudy m in
          if sy_EarlyStop s = None \<or> \<not> es_Enabled (the (sy_EarlyStop s)) then Some (False, w)
          else case ListTrialRows env (sy_ID s) w of
            (Inl _, w) \<Rightarrow> Some (False, w)
          | (Inr ts, w) \<Rightarrow> map_option (\<lambda>d. (d \<noteq> None, w)) (EvaluateASHA (hx_ops env) s t ts))"

definition stopTrialByID :: "HpoEnv \<Rightarrow> Trial \<Rightarrow> HpoWorld \<Rightarrow> (HpoErr + unit) \<times> HpoWorld" where
  "stopTrialByID env t w = bindH (GetStudyRow env (tr_StudyID t) w) (\<lambda>_. stopTrial env (tr_ID t))"

definition persistReport :: "HpoEnv \<Rightarrow> ReportRow \<Rightarrow> HpoWorld \<Rightarrow> (HpoErr + unit) \<times> HpoWorld" where
  "persistReport env r w = (if \<not> hx_hasReports env then (Inr (), w) else CreateReport env r w)"

definition ReportH :: "HpoEnv \<Rightarrow> string \<Rightarrow> string \<Rightarrow> int \<Rightarrow> f64 \<Rightarrow> HpoWorld \<Rightarrow> ((HpoErr + bool) \<times> HpoWorld) option" where
  "ReportH env tenant trialID step v w =
     (case GetTrialRow env trialID w of
        (Inl e, w) \<Rightarrow> Some (Inl e, w)
      | (Inr t, w) \<Rightarrow>
          let t = t\<lparr>tr_Intermediate := tr_Intermediate t @ [\<lparr>rp_Step = step, rp_Value = v\<rparr>]\<rparr>;
              rep = \<lparr>rw_ID = hx_id env (hw_tick w), rw_TrialID = trialID, rw_StudyID = tr_StudyID t, rw_Step = step, rw_Value = v\<rparr> in
          case saveTrial env t w of
            (Inl e, w) \<Rightarrow> Some (Inl e, w)
          | (Inr _, w) \<Rightarrow>
              case shouldPrune env t (snd (persistReport env rep w)) of
                None \<Rightarrow> None
              | Some (stop, w) \<Rightarrow> Some (Inr stop, if stop then snd (stopTrialByID env t w) else w))"

definition syncRunFinal :: "HpoEnv \<Rightarrow> string \<Rightarrow> f64 \<Rightarrow> HpoWorld \<Rightarrow> HpoWorld" where
  "syncRunFinal env runID v w =
     w\<lparr>hw_runs := snd (bindX (GetExpRunRow (hx_runs env) runID (hw_runs w)) (\<lambda>run.
        UpdateExpRunRow (hx_runs env) (run\<lparr>er_Status := ''completed'', er_MetricValue := Some v,
          er_EndedAt := Some (hx_time env (hw_tick w))\<rparr>)))\<rparr>"

definition ReportFinal :: "HpoEnv \<Rightarrow> string \<Rightarrow> string \<Rightarrow> f64 \<Rightarrow> HpoWorld \<Rightarrow> (HpoErr + unit) \<times> HpoWorld" where
  "ReportFinal env tenant trialID v w =
     bindH (GetTrialRow env trialID w) (\<lambda>t w.
     bindH (saveTrial env (t\<lparr>tr_Value := Some v, tr_Status := TrialCompleted\<rparr>) w) (\<lambda>_ w.
       (Inr (), if tr_RunID t = [] then w else syncRunFinal env (tr_RunID t) v w)))"

definition statusOfRun :: "string \<Rightarrow> TrialStatus" where
  "statusOfRun st =
     (let st = lowerSearch st in
      if st \<in> {''completed'', ''succeeded'', ''success'', ''done''} then TrialCompleted
      else if st \<in> {''failed'', ''error'', ''errored'', ''killed'', ''evicted''} then TrialFailed
      else if st \<in> {''cancelled'', ''canceled'', ''pruned''} then TrialCancelled
      else TrialRunning)"

definition OnRunCompleted :: "HpoEnv \<Rightarrow> string \<Rightarrow> string \<Rightarrow> f64 option \<Rightarrow> HpoWorld \<Rightarrow> ((HpoErr + unit) \<times> HpoWorld) option" where
  "OnRunCompleted env trialID runStatus v w =
     (case GetTrialRow env trialID w of
        (Inl e, w) \<Rightarrow> Some (Inl e, w)
      | (Inr t, w) \<Rightarrow>
          let st = statusOfRun runStatus;
              t = (if st = TrialCompleted \<and> v \<noteq> None then t\<lparr>tr_Value := v\<rparr> else t) in
          case saveTrial env (t\<lparr>tr_Status := st\<rparr>) w of
            (Inl e, w) \<Rightarrow> Some (Inl e, w)
          | (Inr _, w) \<Rightarrow> RunOnce env [] (tr_StudyID t) w)"

definition OnJobTerminal :: "HpoEnv \<Rightarrow> string \<Rightarrow> string \<Rightarrow> HpoWorld \<Rightarrow> ((HpoErr + unit) \<times> HpoWorld) option" where
  "OnJobTerminal env jobID status w =
     (case GetTrialByJobID env jobID w of
        (Inl HeNotFound, w) \<Rightarrow> Some (Inr (), w)
      | (Inl e, w) \<Rightarrow> Some (Inl e, w)
      | (Inr t, w) \<Rightarrow> OnRunCompleted env (tr_ID t) status None w)"

end
