(* ===== verification/HpoDomainProofs.thy ===== *)
theory HpoDomainProofs
  imports HpoDomain
begin

text \<open>
  What the parts of \<^verbatim>\<open>domain/hpo\<close> promise: the grid sampler visits every point once, the loop over rungs ends for an
  eta of at least 2 and does not for an eta between 1 and 2, the two rankings of the trials agree, and successive halving
  stops exactly the trials below the cut.
\<close>

section \<open>The grid\<close>

text \<open>The digits of a number in a mixed radix, the first digit the fastest.\<close>

primrec digits :: "int list \<Rightarrow> int \<Rightarrow> int list" where
  "digits [] r = []"
| "digits (n # ns) r = (r mod n) # digits ns (r div n)"

primrec undigits :: "int list \<Rightarrow> int list \<Rightarrow> int" where
  "undigits [] ds = 0"
| "undigits (n # ns) ds = hd ds + n * undigits ns (tl ds)"

definition dims :: "'a HpoFloats_scheme \<Rightarrow> SearchSpace \<Rightarrow> int list" where
  "dims ops space = map (\<lambda>p. the (width ops p)) space"

definition onGrid :: "int list \<Rightarrow> int list \<Rightarrow> bool" where
  "onGrid ns ds = list_all2 (\<lambda>d n. 0 \<le> d \<and> d < n) ds ns"

definition gridPoint :: "'a HpoFloats_scheme \<Rightarrow> SearchSpace \<Rightarrow> int list \<Rightarrow> params" where
  "gridPoint ops space ds = map (\<lambda>(p, d). (ps_Name p, valueAt ops p d)) (zip space ds)"

lemma prod_pos: "(\<forall>n \<in> set ns. 0 < n) \<Longrightarrow> 0 < prod_list (ns :: int list)"
  by (induction ns) auto

lemma undigits_digits:
  "(\<forall>n \<in> set ns. 0 < n) \<Longrightarrow> 0 \<le> r \<Longrightarrow> r < prod_list ns \<Longrightarrow> undigits ns (digits ns r) = r"
proof (induction ns arbitrary: r)
  case (Cons n ns)
  then have "0 < n" by simp
  have "r div n < prod_list ns"
  proof (rule ccontr)
    assume "\<not> r div n < prod_list ns"
    then have "n * prod_list ns \<le> n * (r div n)" using \<open>0 < n\<close> by simp
    also have "\<dots> \<le> r" using \<open>0 < n\<close> using mult_div_mod_eq [of n r] pos_mod_sign [of n r] by linarith
    finally show False using Cons.prems by simp
  qed
  moreover have "0 \<le> r div n" using Cons.prems \<open>0 < n\<close> by (simp add: pos_imp_zdiv_nonneg_iff)
  ultimately show ?case using Cons by (simp add: add.commute)
qed simp

lemma digits_undigits:
  "(\<forall>n \<in> set ns. 0 < n) \<Longrightarrow> onGrid ns ds \<Longrightarrow>
    digits ns (undigits ns ds) = ds \<and> 0 \<le> undigits ns ds \<and> undigits ns ds < prod_list ns"
proof (induction ns arbitrary: ds)
  case (Cons n ns)
  then obtain d es where ds: "ds = d # es" and d: "0 \<le> d" "d < n" and es: "onGrid ns es"
    by (cases ds) (auto simp: onGrid_def)
  have n: "0 < n" using Cons.prems by simp
  let ?u = "undigits ns es"
  have IH: "digits ns ?u = es" "0 \<le> ?u" "?u < prod_list ns" using Cons es by auto
  have "d + n * ?u < n * prod_list ns"
  proof -
    have "n * (?u + 1) \<le> n * prod_list ns" using IH n by simp
    then show ?thesis using d by (simp add: algebra_simps)
  qed
  then show ?case using d n IH by (simp add: ds)
qed (simp add: onGrid_def)

lemma digits_onGrid: "(\<forall>n \<in> set ns. 0 < n) \<Longrightarrow> onGrid ns (digits ns r)"
  by (induction ns arbitrary: r) (auto simp: onGrid_def)

lemma pset_new: "k \<notin> fst ` set m \<Longrightarrow> pset k v m = m @ [(k, v)]"
  by (induction m) auto

lemma combinationLoop_point:
  assumes "\<forall>p \<in> set ps. \<exists>n. width ops p = Some n \<and> 0 < n" and "distinct (map ps_Name ps)"
    and "\<forall>p \<in> set ps. ps_Name p \<notin> fst ` set acc"
  shows "combinationLoop ops acc r ps = Some (acc @ gridPoint ops ps (digits (dims ops ps) r))"
  using assms
proof (induction ps arbitrary: acc r)
  case (Cons p ps)
  obtain n where n: "width ops p = Some n" "0 < n" using Cons.prems by auto
  let ?v = "valueAt ops p (r mod n)"
  have "combinationLoop ops (acc @ [(ps_Name p, ?v)]) (r div n) ps =
      Some ((acc @ [(ps_Name p, ?v)]) @ gridPoint ops ps (digits (dims ops ps) (r div n)))"
    by (rule Cons.IH) (use Cons.prems in \<open>auto simp: image_iff\<close>)
  then show ?case using n Cons.prems by (simp add: pset_new gridPoint_def dims_def)
qed (simp add: gridPoint_def dims_def)

lemma gridSteps_pos: "isNumeric p \<Longrightarrow> 0 < gridSteps ops p"
  by (auto simp: gridSteps_def Let_def)

lemma width_valid:
  assumes "ParamValidate ops p = None"
  shows "\<exists>n. width ops p = Some n \<and> 0 < n"
  using assms gridSteps_pos [of p ops]
  by (cases "ps_Type p") (auto simp: ParamValidate_def width_def isNumeric_def choicesFor_def split: if_splits)

lemma totalLoop_prod:
  assumes "\<forall>p \<in> set ps. \<exists>n. width ops p = Some n \<and> 0 < n" and "0 < n" and "in_i64 (n * prod_list (dims ops ps))"
  shows "totalLoop ops n ps = n * prod_list (dims ops ps)"
  using assms
proof (induction ps arbitrary: n)
  case (Cons p ps)
  obtain k where k: "width ops p = Some k" "0 < k" using Cons.prems by auto
  have pos: "0 < prod_list (dims ops ps)"
    using Cons.prems by (intro prod_pos) (auto simp: dims_def)
  have "n * k * 1 \<le> n * k * prod_list (dims ops ps)"
    using pos k Cons.prems by (intro mult_left_mono) auto
  moreover have eq: "n * prod_list (dims ops (p # ps)) = n * k * prod_list (dims ops ps)"
    by (simp add: dims_def k)
  ultimately have "in_i64 (n * k)" using Cons.prems k by (intro in_i64_le [of "n * k"]) auto
  moreover have "totalLoop ops (n * k) ps = n * k * prod_list (dims ops ps)"
    by (rule Cons.IH) (use Cons.prems k eq in auto)
  ultimately show ?case using k eq by (simp add: dims_def)
qed (simp add: dims_def)

lemma combinationAt_point:
  assumes "SpaceValidate ops space = None"
  shows "combinationAt ops space r = Some (gridPoint ops space (digits (dims ops space) r))"
  unfolding combinationAt_def using assms width_valid [of ops]
  by (subst combinationLoop_point) (auto simp: SpaceValidate_None)

lemma totalCombinations_prod:
  assumes "SpaceValidate ops space = None" and "in_i64 (prod_list (dims ops space))"
  shows "totalCombinations ops space = prod_list (dims ops space)"
  using totalLoop_prod [of space ops 1] assms width_valid [of ops]
  by (auto simp: SpaceValidate_None totalCombinations_def)

lemma dims_pos: "SpaceValidate ops space = None \<Longrightarrow> \<forall>n \<in> set (dims ops space). 0 < n"
  using width_valid [of ops] by (auto simp: SpaceValidate_None dims_def) (metis option.sel)

text \<open>C24: the grid sampler enumerates the grid.  For a valid space whose number of combinations fits in an int, the n-th
  trial of a study gets the n-th point of the grid, every point of the grid is given to exactly one trial number, and
  when all points have been given the sampler reports exhaustion and nothing else.\<close>
theorem grid_enumerates:
  assumes "SpaceValidate ops space = None" and "in_i64 (prod_list (dims ops space))"
  shows "(\<forall>ds. onGrid (dims ops space) ds \<longrightarrow>
            (\<exists>!n. int n < totalCombinations ops space \<and> digits (dims ops space) (int n) = ds)) \<and>
         (\<forall>history. int (length history) < totalCombinations ops space \<longrightarrow>
            gridSuggest ops space history =
              Some (Inr (gridPoint ops space (digits (dims ops space) (int (length history)))))) \<and>
         (\<forall>history. totalCombinations ops space \<le> int (length history) \<longrightarrow>
            gridSuggest ops space history =
              Some (Inl (SamplerExhausted (int (length history)) (totalCombinations ops space))))"
proof (intro conjI allI impI)
  let ?ns = "dims ops space"
  have pos: "\<forall>n \<in> set ?ns. 0 < n" using dims_pos assms(1) by blast
  have tot: "totalCombinations ops space = prod_list ?ns" using totalCombinations_prod assms by blast
  fix ds assume ds: "onGrid ?ns ds"
  show "\<exists>!n. int n < totalCombinations ops space \<and> digits ?ns (int n) = ds"
  proof (rule ex1I [of _ "nat (undigits ?ns ds)"])
    show "int (nat (undigits ?ns ds)) < totalCombinations ops space \<and> digits ?ns (int (nat (undigits ?ns ds))) = ds"
      using digits_undigits [OF pos ds] by (simp add: tot)
    show "n = nat (undigits ?ns ds)" if "int n < totalCombinations ops space \<and> digits ?ns (int n) = ds" for n
      using undigits_digits [OF pos, of "int n"] that by (auto simp: tot)
  qed
qed (simp_all add: gridSuggest_def assms combinationAt_point)

definition exactOps :: "HpoFloats" where
  "exactOps = \<lparr>fo_add = (\<lambda>x y. case (x, y) of (Fin a, Fin b) \<Rightarrow> Fin (a + b) | _ \<Rightarrow> NaN),
     fo_mul = (\<lambda>x y. case (x, y) of (Fin a, Fin b) \<Rightarrow> Fin (a * b) | _ \<Rightarrow> NaN),
     fo_div = (\<lambda>x y. case (x, y) of (Fin a, Fin b) \<Rightarrow> Fin (a / b) | _ \<Rightarrow> NaN),
     fo_sqrt = id, fo_ofInt = (\<lambda>n. Fin (of_int n)),
     fo_sub = (\<lambda>x y. case (x, y) of (Fin a, Fin b) \<Rightarrow> Fin (a - b) | _ \<Rightarrow> NaN),
     fo_pow = (\<lambda>x y. case (x, y) of (Fin a, Fin b) \<Rightarrow> Fin (a ^ nat \<lfloor>b\<rfloor>) | _ \<Rightarrow> NaN), fo_log10 = id, fo_exp = id, fo_lit = Fin,
     fo_sortPeers = insertionSort, fo_wild = (\<lambda>_. - (2 ^ 63))\<rparr>"

definition demoSpace :: SearchSpace where
  "demoSpace = [\<lparr>ps_Name = ''depth'', ps_Type = ParamInt, ps_Min = Fin 2, ps_Max = Fin 4, ps_Step = Fin 0,
       ps_LogScale = False, ps_Choices = []\<rparr>,
     \<lparr>ps_Name = ''shuffle'', ps_Type = ParamBool, ps_Min = Fin 0, ps_Max = Fin 0, ps_Step = Fin 0,
       ps_LogScale = False, ps_Choices = []\<rparr>]"

lemma demoSpace_valid: "SpaceValidate exactOps demoSpace = None"
  by (simp add: SpaceValidate_def ParamValidate_def demoSpace_def exactOps_def pZero_def)

lemma demoSpace_dims: "dims exactOps demoSpace = [3, 2]"
  by (simp add: dims_def demoSpace_def width_def gridSteps_def exactOps_def pZero_def isNumeric_def choicesFor_def
      intOf_def truncRat_def in_i64_def i64_def)

lemma demoSpace_point: "gridPoint exactOps demoSpace (digits [3, 2] 2) = [(''depth'', VInt 4), (''shuffle'', VBool True)]"
  by (simp add: gridPoint_def demoSpace_def valueAt_def isNumeric_def gridValueAt_def numericToType_def
      exactOps_def pZero_def choicesFor_def intOf_def truncRat_def in_i64_def floor_eq_iff)

text \<open>The third of the six trials of a space of three depths and two modes.\<close>

theorem grid_enumerates_witness:
  "\<forall>t. gridSuggest exactOps demoSpace (replicate 2 t) = Some (Inr [(''depth'', VInt 4), (''shuffle'', VBool True)])"
proof (rule allI)
  fix t
  have n: "totalCombinations exactOps demoSpace = 6"
    using totalCombinations_prod [OF demoSpace_valid] by (simp add: demoSpace_dims in_i64_def)
  have "gridSuggest exactOps demoSpace (replicate 2 t) =
      Some (Inr (gridPoint exactOps demoSpace (digits (dims exactOps demoSpace) (int (length (replicate 2 t))))))"
    using grid_enumerates [OF demoSpace_valid] by (simp add: demoSpace_dims in_i64_def n)
  then show "gridSuggest exactOps demoSpace (replicate 2 t) = Some (Inr [(''depth'', VInt 4), (''shuffle'', VBool True)])" by (simp only: demoSpace_dims length_replicate of_nat_numeral demoSpace_point)
qed

section \<open>The loop over rungs\<close>

text \<open>
  What the processor promises: an int is exact up to 53 bits, a product with 1 is exact, and a product that lies between
  two whole numbers of at most 53 bits, or below 2 to the 62, stays there after rounding.
\<close>

definition rounds :: "'a HpoFloats_scheme \<Rightarrow> bool" where
  "rounds ops =
     ((\<forall>n. \<bar>n\<bar> \<le> 2 ^ 53 \<longrightarrow> fo_ofInt ops n = Fin (of_int n)) \<and>
      (\<forall>x. fo_mul ops (Fin 1) (Fin x) = Fin x) \<and>
      (\<forall>x y. 0 \<le> x * y \<and> x * y \<le> 2 ^ 62 \<longrightarrow>
         (\<exists>q. fo_mul ops (Fin x) (Fin y) = Fin q \<and> q \<le> 2 ^ 62 \<and>
              (\<forall>n. 0 \<le> n \<and> n \<le> 2 ^ 53 \<and> of_int n \<le> x * y \<longrightarrow> of_int n \<le> q))))"

lemma rounds_exact: "rounds exactOps"
  by (auto simp: rounds_def exactOps_def split: f64.split)

lemma rungLoop_stuck:
  assumes "bound < step" and "intOf ops (fo_mul ops (fo_ofInt ops bound) eta) = bound"
  shows "rungLoop ops eta step rung bound = None"
proof (rule ccontr)
  assume "rungLoop ops eta step rung bound \<noteq> None"
  then obtain y where y: "rungLoop ops eta step rung bound = Some y" by blast
  define P where "P = (\<lambda>(ops' :: 'a HpoFloats_scheme) eta' step' (r :: int) b (y :: int).
     \<not> (ops' = ops \<and> eta' = eta \<and> step' = step \<and> b = bound))"
  have "P ops eta step rung bound y"
  proof (rule rungLoop.raw_induct [of P, OF _ y])
    fix f ops' eta' step' r b y'
    assume IH: "\<And>ops eta step rung bound y. f ops eta step rung bound = Some y \<Longrightarrow> P ops eta step rung bound y"
      and run: "(if b < step' then f ops' eta' step' (i64 (r + 1)) (intOf ops' (fo_mul ops' (fo_ofInt ops' b) eta'))
             else Some r) = Some y'"
    show "P ops' eta' step' r b y'"
    proof (unfold P_def prod.case, rule notI)
      assume eq: "ops' = ops \<and> eta' = eta \<and> step' = step \<and> b = bound"
      then have "f ops eta step (i64 (r + 1)) bound = Some y'" using run assms by simp
      from IH [OF this] show False by (simp add: P_def)
    qed
  qed
  then show False by (simp add: P_def)
qed

definition etaOf :: "Study \<Rightarrow> f64" where
  "etaOf s = es_Eta (normalized (sy_EarlyStop s))"

lemma intOf_floor: "0 \<le> q \<Longrightarrow> q \<le> 2 ^ 62 \<Longrightarrow> intOf ops (Fin q) = \<lfloor>q\<rfloor>"
proof -
  assume q: "0 \<le> q" "q \<le> 2 ^ 62"
  have "\<lfloor>q\<rfloor> \<le> 2 ^ 62" using q(2) by (metis floor_mono floor_of_int of_int_numeral of_int_power)
  then have "in_i64 \<lfloor>q\<rfloor>" using q(1) by (simp add: in_i64_def)
  then show ?thesis using q by (simp add: intOf_def truncRat_def)
qed

text \<open>C25: the rung of a trial, its loop and all.  For an eta of at least 2 (and a processor that rounds as IEEE 754 says)
  the loop ends for every step up to 2 to the 30; for an eta strictly between 1 and 2, which the service accepts, it ends
  for no step above 1, because the bound 1 times eta truncates to 1 again.\<close>
theorem rung_loop_ends:
  assumes "rounds ops" and "etaOf s = Fin e"
  shows "(2 \<le> e \<and> e \<le> 2 ^ 31 \<and> step \<le> 2 ^ 30 \<longrightarrow> (\<exists>rung. rungFor ops s step = Some rung)) \<and>
         (1 < e \<and> e < 2 \<and> 1 < step \<longrightarrow> rungFor ops s step = None)"
proof (intro conjI impI)
  assume e: "2 \<le> e \<and> e \<le> 2 ^ 31 \<and> step \<le> 2 ^ 30"
  have loop: "\<exists>rung. rungLoop ops (Fin e) step r b = Some rung" if "0 < b" for r b
    using that
  proof (induction "nat (step - b)" arbitrary: r b rule: less_induct)
    case (less b)
    show ?case
    proof (cases "b < step")
      case True
      have b: "1 \<le> b" "b \<le> 2 ^ 30" using True e less.prems by auto
      have real: "2 * of_int b \<le> of_int b * e" "of_int b * e \<le> 2 ^ 62"
      proof -
        show "2 * of_int b \<le> of_int b * e" using e b(1) by (simp add: mult.commute mult_left_mono)
        have "of_int b * e \<le> 2 ^ 30 * 2 ^ 31"
          using e b by (intro mult_mono) (auto simp: of_int_le_numeral_power_cancel_iff)
        then show "of_int b * e \<le> 2 ^ 62" by simp
      qed
      moreover have "0 \<le> of_int b * e" using e b by simp
      ultimately obtain q where q: "fo_mul ops (Fin (of_int b)) (Fin e) = Fin q" "q \<le> 2 ^ 62"
          "\<forall>n. 0 \<le> n \<and> n \<le> 2 ^ 53 \<and> of_int n \<le> of_int b * e \<longrightarrow> of_int n \<le> q"
        using assms(1) unfolding rounds_def by meson
      have "of_int (2 * b) \<le> q" using q(3) [rule_format, of "2 * b"] b real(1) by simp
      then have "2 * b \<le> \<lfloor>q\<rfloor>" by (simp add: le_floor_iff)
      moreover have "intOf ops (fo_mul ops (fo_ofInt ops b) (Fin e)) = \<lfloor>q\<rfloor>"
        using assms(1) b q \<open>of_int (2 * b) \<le> q\<close> by (simp add: rounds_def intOf_floor)
      ultimately have nb: "2 * b \<le> intOf ops (fo_mul ops (fo_ofInt ops b) (Fin e))" by simp
      then have "\<exists>rung. rungLoop ops (Fin e) step (i64 (r + 1)) (intOf ops (fo_mul ops (fo_ofInt ops b) (Fin e))) = Some rung"
        using less.hyps True b by simp
      then show ?thesis using True by (subst rungLoop.simps) simp
    qed (simp add: rungLoop.simps)
  qed
  have "intOf ops (Fin e) = \<lfloor>e\<rfloor>" using e by (intro intOf_floor) auto
  moreover have "0 < \<lfloor>e\<rfloor>" using e by simp
  ultimately show "\<exists>rung. rungFor ops s step = Some rung"
    using loop assms(2) by (auto simp: rungFor_def etaOf_def Let_def)
next
  assume e: "1 < e \<and> e < 2 \<and> 1 < step"
  have "\<lfloor>e\<rfloor> = 1" using e by (simp add: floor_eq_iff)
  then have "intOf ops (Fin e) = 1" using e intOf_floor [of e ops] by simp
  moreover have "rungLoop ops (Fin e) step 0 1 = None"
    using e assms(1) \<open>intOf ops (Fin e) = 1\<close> by (intro rungLoop_stuck) (auto simp: rounds_def)
  ultimately show "rungFor ops s step = None"
    using assms(2) e by (simp add: rungFor_def etaOf_def Let_def fle_def)
qed

definition demoStudy :: "rat \<Rightarrow> Study" where
  "demoStudy e = \<lparr>sy_ID = ''study_1'', sy_TenantID = ''acme'', sy_ExperimentID = [], sy_Name = ''lr'', sy_Space = demoSpace,
     sy_Algorithm = ''grid'', sy_Objective = \<lparr>ob_MetricName = ''acc'', ob_Direction = DirectionMaximize\<rparr>,
     sy_MaxTrials = 3, sy_MaxParallel = 2, sy_MaxDuration = 0,
     sy_EarlyStop = Some \<lparr>es_Enabled = True, es_Eta = Fin e, es_MinRungs = 0\<rparr>, sy_Template = None,
     sy_Status = StudyRunning, sy_BestTrialID = [], sy_CreatedAt = 1, sy_UpdatedAt = 1\<rparr>"

lemma demoStudy_eta: "1 < e \<Longrightarrow> etaOf (demoStudy e) = Fin e"
  by (simp add: etaOf_def demoStudy_def normalized_def fle_def Let_def)

theorem rung_loop_ends_witness:
  "(\<exists>rung. rungFor exactOps (demoStudy 3) 100 = Some rung) \<and> rungFor exactOps (demoStudy (3 / 2)) 2 = None"
  using rung_loop_ends [OF rounds_exact demoStudy_eta, of 3 100] rung_loop_ends [OF rounds_exact demoStudy_eta, of "3 / 2" 2]
  by simp

section \<open>The two rankings\<close>

lemma sink_cong:
  "(\<forall>y \<in> set ys. b1 x y = b2 x y) \<Longrightarrow> sink b1 x ys = sink b2 x ys"
  by (induction ys) auto

lemma insertionSort_cong:
  assumes "\<forall>x \<in> set xs. \<forall>y \<in> set xs. b1 x y = b2 x y"
  shows "insertionSort b1 xs = insertionSort b2 xs"
  using assms
proof (induction xs rule: rev_induct)
  case (snoc x xs)
  then have "insertionSort b1 xs = insertionSort b2 xs" by simp
  moreover have "sink b1 x (rev (insertionSort b2 xs)) = sink b2 x (rev (insertionSort b2 xs))"
    using snoc.prems by (intro sink_cong) simp
  ultimately show ?case by (simp add: insertionSort_snoc)
qed simp

lemma last_sink:
  assumes "sorted (map key ys)" and "ys \<noteq> []"
  shows "last (sink (\<lambda>x y. key x > (key y :: 'k :: linorder)) x ys) = (if key x > key (last ys) then x else last ys)"
  using assms
proof (induction ys)
  case (Cons y ys)
  have "key y \<le> key (last ys)" if "ys \<noteq> []" using Cons.prems that by simp
  then show ?case using Cons by (cases "ys = []") (auto dest: order.strict_trans1)
qed simp

definition rankOf :: "Objective \<Rightarrow> Trial \<Rightarrow> rat" where
  "rankOf ob t = (case tr_Value t of Some (Fin q) \<Rightarrow> (if ob_Direction ob = DirectionMinimize then - q else q) | _ \<Rightarrow> 0)"

definition ranked :: "Trial \<Rightarrow> bool" where
  "ranked t = (case tr_Value t of Some (Fin q) \<Rightarrow> True | _ \<Rightarrow> False)"

lemma ranked_cases: "ranked t \<Longrightarrow> (\<And>q. tr_Value t = Some (Fin q) \<Longrightarrow> P) \<Longrightarrow> P"
  by (auto simp: ranked_def split: option.splits f64.splits)

lemma bestValues_rank: "ranked x \<Longrightarrow> ranked y \<Longrightarrow> bestValues ob x y = (rankOf ob y < rankOf ob x)"
  by (elim ranked_cases) (simp add: bestValues_def rankOf_def signed_def)

lemma IsBetter_rank: "ranked x \<Longrightarrow> ranked y \<Longrightarrow> IsBetter ob (tr_Value x) (tr_Value y) = (rankOf ob y < rankOf ob x)"
  by (elim ranked_cases) (simp add: IsBetter_def rankOf_def badValue_def)

lemma bestLoop_snoc:
  "bestLoop ob best (ts @ [t]) =
     (let b = bestLoop ob best ts in
      if \<not> scored t then b
      else case b of None \<Rightarrow> Some t | Some b' \<Rightarrow> if IsBetter ob (tr_Value t) (tr_Value b') then Some t else b)"
  by (induction ts arbitrary: best) (auto split: option.splits)

lemma best_hd:
  assumes "\<forall>t \<in> set trials. scored t \<longrightarrow> ranked t"
  shows "bestLoop ob None trials =
     (case insertionSort (\<lambda>x y. rankOf ob x > rankOf ob y) (filter scored trials) of [] \<Rightarrow> None | t # _ \<Rightarrow> Some t)"
  using assms
proof (induction trials rule: rev_induct)
  case (snoc t ts)
  let ?s = "insertionSort (\<lambda>x y. rankOf ob x > rankOf ob y) (filter scored ts)"
  have IH: "bestLoop ob None ts = (case ?s of [] \<Rightarrow> None | t # _ \<Rightarrow> Some t)" using snoc by simp
  show ?case
  proof (cases "scored t")
    case True
    have sorted: "sorted (map (rankOf ob) (rev ?s))" by (metis insertionSort_sorted rev_map)
    show ?thesis
    proof (cases ?s)
      case Nil
      then show ?thesis using True IH by (simp add: bestLoop_snoc insertionSort_snoc)
    next
      case (Cons b bs)
      have mem: "b \<in> set ts" using Cons set_insertionSort [of "\<lambda>x y. rankOf ob x > rankOf ob y" "filter scored ts"] by auto
      have "scored b" using Cons set_insertionSort [of "\<lambda>x y. rankOf ob x > rankOf ob y" "filter scored ts"] by auto
      then have rk: "ranked b" "ranked t" using snoc.prems mem True by auto
      have "hd (rev (sink (\<lambda>x y. rankOf ob x > rankOf ob y) t (rev ?s))) =
          (if rankOf ob t > rankOf ob b then t else b)"
        using last_sink [OF sorted] Cons by (simp add: hd_rev)
      then show ?thesis using True IH Cons rk
        by (auto simp: bestLoop_snoc insertionSort_snoc IsBetter_rank split: list.splits)
    qed
  next
    case False
    then show ?thesis using IH by (simp add: bestLoop_snoc)
  qed
qed simp

text \<open>the two ways of the package to rank trials agree.  When the completed trials have finite values, the best trial a
  study is closed with is the first of the top trials, for every number of them that is asked for, ties included.\<close>
theorem best_is_first_of_top:
  assumes "\<forall>t \<in> set trials. scored t \<longrightarrow> ranked t"
  shows "BestTrial ob trials = (case TopTrials ob trials k of [] \<Rightarrow> None | t # _ \<Rightarrow> Some t)"
proof -
  have "sortBySign (filter scored trials) ob = insertionSort (\<lambda>x y. rankOf ob x > rankOf ob y) (filter scored trials)"
    unfolding sortBySign_def using assms by (intro insertionSort_cong) (auto simp: bestValues_rank)
  then have "BestTrial ob trials = (case sortBySign (filter scored trials) ob of [] \<Rightarrow> None | t # _ \<Rightarrow> Some t)"
    using best_hd [OF assms] by (simp add: BestTrial_def)
  then show ?thesis by (auto simp: TopTrials_def Let_def take_Cons' split: list.splits)
qed

definition demoTrial :: "string \<Rightarrow> int \<Rightarrow> TrialStatus \<Rightarrow> rat option \<Rightarrow> Trial" where
  "demoTrial k n st v = \<lparr>tr_ID = k, tr_StudyID = ''study_1'', tr_Number = n, tr_Params = [], tr_Status = st,
     tr_Value = map_option Fin v, tr_Intermediate = [], tr_RunID = [], tr_JobID = []\<rparr>"

theorem best_is_first_of_top_witness:
  "map_option tr_ID (BestTrial \<lparr>ob_MetricName = ''loss'', ob_Direction = ''minimize''\<rparr>
     [demoTrial ''a'' 1 TrialCompleted (Some 2), demoTrial ''b'' 2 TrialFailed (Some 0),
      demoTrial ''c'' 3 TrialCompleted (Some 1), demoTrial ''d'' 4 TrialCompleted None]) = Some ''c''"
  by (subst best_is_first_of_top [where k = 1])
    (auto simp: demoTrial_def scored_def ranked_def TopTrials_def sortBySign_def insertionSort_def bestValues_def
      signed_def DirectionMinimize_def)

section \<open>The cut of successive halving\<close>

text \<open>What \<^verbatim>\<open>sort.Slice\<close> promises for a comparison of finite values; the order of equal ones is open.\<close>

definition sortsPeers :: "'a HpoFloats_scheme \<Rightarrow> bool" where
  "sortsPeers ops =
     (\<forall>ob ps. (\<forall>x \<in> set ps. finite64 (snd x)) \<longrightarrow>
        mset (fo_sortPeers ops (betterPeer ob) ps) = mset ps \<and>
        sorted_wrt (\<lambda>x y. \<not> betterPeer ob y x) (fo_sortPeers ops (betterPeer ob) ps))"

lemma verdict_split:
  "k \<notin> fst ` set us \<Longrightarrow>
     verdict k keep rung i (us @ (k, v) # vs) =
       (if keep \<le> i + int (length us) then Some (''asha: below top 1/eta at rung '' @ itoaH rung) else None)"
  by (induction us arbitrary: i) (auto simp: algebra_simps)

lemma peersOf_self:
  "peersOf ops s t rung trials = Some peers \<Longrightarrow> t \<in> set trials \<Longrightarrow> LatestValue t = Some v \<Longrightarrow> (tr_ID t, v) \<in> set peers"
  by (induction trials arbitrary: peers) (auto split: if_splits option.splits)

text \<open>The trial is judged: early stopping is on, it has reported, has reached the first rung, and has at least one peer.\<close>

definition judged :: "'a HpoFloats_scheme \<Rightarrow> Study \<Rightarrow> Trial \<Rightarrow> Trial list \<Rightarrow> int \<Rightarrow> f64 \<Rightarrow> (string \<times> f64) list \<Rightarrow> bool" where
  "judged ops s t trials rung v peers =
     (let es = normalized (sy_EarlyStop s) in
      es_Enabled es \<and> \<not> fle (es_Eta es) (Fin 1) \<and> t \<in> set trials \<and> LatestValue t = Some v \<and>
      rungFor ops s (highestStep t) = Some rung \<and> ashaRungBound ops (es_Eta es) (es_MinRungs es - 1) \<le> highestStep t \<and>
      peersOf ops s t rung trials = Some peers \<and> 2 \<le> length peers \<and> distinct (map fst peers) \<and>
      (\<forall>x \<in> set peers. finite64 (snd x)))"

text \<open>C26: successive halving stops the trials below the cut and no other.  A judged trial is stopped when at least
  \<^verbatim>\<open>ceil(n / eta)\<close> of its n peers are strictly better, and goes on when fewer than that many others are as good as it;
  ties at the cut are left to the order of the sort.\<close>
theorem asha_cut:
  assumes "sortsPeers ops" and "judged ops s t trials rung v peers"
  defines "ob \<equiv> sy_Objective s" and "keep \<equiv> keepOf ops (etaOf s) (length peers)"
  shows "(keep \<le> int (length (filter (\<lambda>p. betterPeer ob p (tr_ID t, v)) peers)) \<longrightarrow>
            EvaluateASHA ops s t trials = Some (Some (''asha: below top 1/eta at rung '' @ itoaH rung))) \<and>
         (int (length (filter (\<lambda>p. fst p \<noteq> tr_ID t \<and> \<not> betterPeer ob (tr_ID t, v) p) peers)) < keep \<longrightarrow>
            EvaluateASHA ops s t trials = Some None)"
proof -
  let ?me = "(tr_ID t, v)" and ?srt = "fo_sortPeers ops (betterPeer ob) peers"
  note j = assms(2) [unfolded judged_def Let_def]
  have perm: "mset ?srt = mset peers" and sorted: "sorted_wrt (\<lambda>x y. \<not> betterPeer ob y x) ?srt"
    using assms(1) j unfolding sortsPeers_def by blast+
  have "?me \<in> set ?srt" using peersOf_self [of ops s t rung trials peers v] j mset_eq_setD [OF perm] by simp
  then obtain us vs where split: "?srt = us @ ?me # vs" by (metis split_list)
  have "distinct (map fst ?srt)" using j perm by (metis mset_eq_imp_distinct_iff mset_map)
  then have out: "tr_ID t \<notin> fst ` set us" using split by auto
  have "EvaluateASHA ops s t trials = Some (verdict (tr_ID t) keep rung 0 ?srt)"
    using j by (simp add: EvaluateASHA_def Let_def keep_def ob_def etaOf_def)
  then have eval: "EvaluateASHA ops s t trials =
      Some (if keep \<le> int (length us) then Some (''asha: below top 1/eta at rung '' @ itoaH rung) else None)"
    by (simp only: split verdict_split [OF out] add_0)
  have count: "length (filter P peers) = length (filter P ?srt)" for P
    using perm by (metis mset_filter size_mset)
  have "filter (\<lambda>p. betterPeer ob p ?me) vs = []"
    using sorted split by (auto simp: sorted_wrt_append filter_empty_conv)
  moreover have "\<not> betterPeer ob ?me ?me"
    by (cases "signed ob v") (auto simp: betterPeer_def)
  ultimately have better: "length (filter (\<lambda>p. betterPeer ob p ?me) peers) \<le> length us"
    unfolding count by (simp add: split)
  have "filter (\<lambda>p. fst p \<noteq> tr_ID t \<and> \<not> betterPeer ob ?me p) us = us"
    using sorted split out by (auto simp: filter_id_conv sorted_wrt_append image_iff)
  then have notworse: "length us \<le> length (filter (\<lambda>p. fst p \<noteq> tr_ID t \<and> \<not> betterPeer ob ?me p) peers)"
    unfolding count by (simp add: split)
  show ?thesis using eval better notworse by auto
qed

definition peerRank :: "Objective \<Rightarrow> string \<times> f64 \<Rightarrow> rat" where
  "peerRank ob p = (case signed ob (snd p) of Fin q \<Rightarrow> q | _ \<Rightarrow> 0)"

lemma betterPeer_rank:
  "finite64 (snd x) \<Longrightarrow> finite64 (snd y) \<Longrightarrow> betterPeer ob x y = (peerRank ob y < peerRank ob x)"
  by (cases "snd x"; cases "snd y") (auto simp: betterPeer_def peerRank_def signed_def)

lemma exactOps_sorts: "sortsPeers exactOps"
  unfolding sortsPeers_def
proof (intro allI impI conjI)
  fix ob :: Objective and ps :: "(string \<times> f64) list"
  assume fin: "\<forall>x \<in> set ps. finite64 (snd x)"
  have eq: "fo_sortPeers exactOps (betterPeer ob) ps = insertionSort (\<lambda>x y. peerRank ob x > peerRank ob y) ps"
    unfolding exactOps_def HpoFloats.simps FloatOps.simps
    using fin by (intro insertionSort_cong) (auto simp: betterPeer_rank)
  show "mset (fo_sortPeers exactOps (betterPeer ob) ps) = mset ps" by (simp add: eq)
  have "sorted_wrt (\<lambda>x y. peerRank ob y \<le> peerRank ob x) (insertionSort (\<lambda>x y. peerRank ob x > peerRank ob y) ps)"
    using insertionSort_sorted [of "peerRank ob" ps] by (simp add: sorted_wrt_rev sorted_wrt_map)
  then have "sorted_wrt (\<lambda>x y. peerRank ob y \<le> peerRank ob x) (fo_sortPeers exactOps (betterPeer ob) ps)"
    by (simp only: eq)
  then show "sorted_wrt (\<lambda>x y. \<not> betterPeer ob y x) (fo_sortPeers exactOps (betterPeer ob) ps)"
    by (rule sorted_wrt_mono_rel [rotated]) (use fin eq in \<open>auto simp: betterPeer_rank\<close>)
qed

definition reported :: "string \<Rightarrow> rat \<Rightarrow> Trial" where
  "reported k v = (demoTrial k 1 TrialRunning None)\<lparr>tr_Intermediate := [\<lparr>rp_Step = 2, rp_Value = Fin v\<rparr>]\<rparr>"

lemma demo_rung: "rungFor exactOps (demoStudy 2) 2 = Some 0"
  by (simp add: rungFor_def demoStudy_def normalized_def fle_def Let_def rungLoop.simps intOf_def truncRat_def in_i64_def)

lemma demo_judged:
  "judged exactOps (demoStudy 2) (reported ''a'' 1) [reported ''a'' 1, reported ''b'' 2, reported ''c'' 3] 0 (Fin 1)
     [(''a'', Fin 1), (''b'', Fin 2), (''c'', Fin 3)]"
proof -
  have "highestStep (reported k v) = 2" "LatestValue (reported k v) = Some (Fin v)" "tr_ID (reported k v) = k"
      "tr_Status (reported k v) = TrialRunning" for k v
    by (simp_all add: highestStep_def LatestValue_def reported_def demoTrial_def)
  then show ?thesis
    by (simp add: judged_def demo_rung ashaRungBound_def)
      (simp add: demoStudy_def normalized_def fle_def intOf_def truncRat_def in_i64_def)
qed

theorem asha_cut_witness:
  "EvaluateASHA exactOps (demoStudy 2) (reported ''a'' 1) [reported ''a'' 1, reported ''b'' 2, reported ''c'' 3] =
     Some (Some (''asha: below top 1/eta at rung '' @ itoaH 0))"
proof -
  let ?ps = "[(''a'', Fin 1), (''b'', Fin 2), (''c'', Fin 3)]"
  have "keepOf exactOps (etaOf (demoStudy 2)) (length ?ps) = 2"
    by (simp add: demoStudy_eta keepOf_def exactOps_def intOf_def truncRat_def in_i64_def Let_def ceiling_eq_iff)
  moreover have "betterPeer (sy_Objective (demoStudy 2)) x y = flt (snd y) (snd x)" for x y
    by (simp add: betterPeer_def signed_def demoStudy_def DirectionMaximize_def DirectionMinimize_def)
  then have "length (filter (\<lambda>p. betterPeer (sy_Objective (demoStudy 2)) p (''a'', Fin 1)) ?ps) = 2"
    by simp
  moreover have "tr_ID (reported ''a'' 1) = ''a''" by (simp add: reported_def demoTrial_def)
  ultimately show ?thesis
    using asha_cut [OF exactOps_sorts demo_judged, THEN conjunct1] by (simp only: of_nat_numeral order.refl simp_thms)
qed

section \<open>The scheduler\<close>

lemma stopExcess_stops:
  "stopExcess ops s trials ex ts = Some acts \<Longrightarrow> a \<in> set acts \<Longrightarrow>
     \<exists>t \<in> set ts. \<exists>r. a = StopTrial (tr_ID t) r \<and> EvaluateASHA ops s t trials = Some (Some r)"
  by (induction ts arbitrary: ex acts) (fastforce split: if_splits option.splits)+

lemma stopExcess_length:
  "stopExcess ops s trials ex ts = Some acts \<Longrightarrow> int (length acts) \<le> max 0 ex"
proof (induction ts arbitrary: ex acts)
  case (Cons t ts)
  then show ?case
    by (fastforce split: if_splits option.splits)
qed simp

lemma spawnOrWait_spawn:
  assumes "spawnOrWait ops text s trials ctx = Some acts" and "SpawnTrial p \<in> set acts"
  shows "acts = [SpawnTrial p] \<and> sc_QuotaAvailable ctx \<and>
     (0 < sy_MaxParallel s \<longrightarrow> int (runningCount trials) < sy_MaxParallel s) \<and>
     (0 < sy_MaxTrials s \<longrightarrow> int (length trials) < sy_MaxTrials s) \<and>
     suggestBy ops s trials (sc_Rand ctx) = Some (Inr p)"
  using assms unfolding spawnOrWait_def
  by (auto split: if_splits option.splits sum.splits HpoError.splits)

lemma runningCount_filter: "runningCount trials = length (filter isRunning trials)"
  by (simp add: runningCount_def countStatus_def isRunning_def [abs_def])

lemma NextActions_spawn:
  assumes "NextActions ops text s trials ctx = Some acts" and "SpawnTrial p \<in> set acts"
  shows "acts = [SpawnTrial p] \<and> (0 < sy_MaxTrials s \<longrightarrow> int (length trials) < sy_MaxTrials s)"
  using assms spawnOrWait_spawn [of ops "text" s trials ctx acts p] unfolding NextActions_def Let_def
  by (auto split: if_splits option.splits dest: stopExcess_stops)

text \<open>the scheduler stays within the limits of the study.  A new trial is asked for alone, only of an active study
  that has not expired, with quota, with fewer running trials than it may run in parallel and fewer trials than it may
  have; a trial is stopped only if it runs, and never more of them than there are too many, unless the study has
  expired.\<close>
theorem actions_within_limits:
  assumes "NextActions ops text s trials ctx = Some acts"
  shows "(SpawnTrial p \<in> set acts \<longrightarrow>
            acts = [SpawnTrial p] \<and> studyIsActive s \<and> \<not> expired s (sc_Now ctx) \<and> sc_QuotaAvailable ctx \<and>
            (0 < sy_MaxParallel s \<longrightarrow> int (runningCount trials) < sy_MaxParallel s) \<and>
            (0 < sy_MaxTrials s \<longrightarrow> int (length trials) < sy_MaxTrials s)) \<and>
         (StopTrial k r \<in> set acts \<longrightarrow>
            (\<exists>t \<in> set trials. tr_ID t = k \<and> tr_Status t = TrialRunning) \<and>
            (expired s (sc_Now ctx) \<or> int (length acts) \<le> int (runningCount trials) - sy_MaxParallel s))"
proof -
  have waits: "spawnOrWait ops text s trials ctx = Some acts \<Longrightarrow> StopTrial k r \<notin> set acts" for acts
    unfolding spawnOrWait_def by (auto split: if_splits option.splits sum.splits HpoError.splits)
  have stops: "(\<exists>t \<in> set trials. tr_ID t = k \<and> tr_Status t = TrialRunning) \<and>
      int (length acts) \<le> int (runningCount trials) - sy_MaxParallel s \<and> (\<forall>p. SpawnTrial p \<notin> set acts)"
    if "stopExcess ops s trials (int (length (filter isRunning trials)) - sy_MaxParallel s)
          (sortRunningWorstFirst (filter isRunning trials) (sy_Objective s)) = Some acts"
      and "StopTrial k r \<in> set acts" and "sy_MaxParallel s < int (length (filter isRunning trials))" for acts
    using stopExcess_stops [OF that(1)] stopExcess_length [OF that(1)] that(2, 3)
    by (fastforce simp: sortRunningWorstFirst_def isRunning_def runningCount_filter)
  show ?thesis
    using assms spawnOrWait_spawn [of ops "text" s trials ctx acts p] waits [of acts] stops [of acts]
    unfolding NextActions_def Let_def
    by (auto split: if_splits option.splits simp: isRunning_def dest: stopExcess_stops)
qed

end
