(* ===== verification/ExperimentProofs.thy ===== *)
theory ExperimentProofs
  imports Experiments HpoDomainProofs
begin

text \<open>
  What the experiment service promises: after a run has been completed the experiment names its best run and exactly that
  run is flagged; and what the tolerance check of a reproduction does with a metric of 0.
\<close>

section \<open>The best run\<close>

definition metricOk :: "ExperimentRun \<Rightarrow> bool" where
  "metricOk r = (case er_MetricValue r of None \<Rightarrow> True | Some v \<Rightarrow> finite64 v)"

text \<open>The metric as a number that grows with its quality.\<close>

definition quality :: "Experiment \<Rightarrow> ExperimentRun \<Rightarrow> rat" where
  "quality e r = (case er_MetricValue r of Some (Fin q) \<Rightarrow> (if ex_Objective e = ObjectiveMinimize then - q else q) | _ \<Rightarrow> 0)"

definition measured :: "ExperimentRun \<Rightarrow> bool" where
  "measured r = (er_MetricValue r \<noteq> None)"

lemma exIsBetter_quality:
  assumes "metricOk r" and "metricOk b"
  shows "exIsBetter e r (Some b) = (measured r \<and> (measured b \<longrightarrow> quality e b < quality e r))"
  using assms by (auto simp: exIsBetter_def metricOk_def quality_def measured_def split: option.splits elim!: finite64.elims)

lemma exIsBetter_None: "exIsBetter e r None = measured r"
  by (simp add: exIsBetter_def measured_def split: option.split)

lemma UpdateBest_simps [simp]:
  "fst (UpdateBest e r b) = exIsBetter e r b" "ex_Objective (snd (UpdateBest e r b)) = ex_Objective e"
  by (auto simp: UpdateBest_def)

lemma exIsBetter_cong: "ex_Objective e = ex_Objective e' \<Longrightarrow> exIsBetter e r b = exIsBetter e' r b"
  by (auto simp: exIsBetter_def split: option.splits)

lemma bestRunLoop_cong: "ex_Objective e = ex_Objective e' \<Longrightarrow> bestRunLoop e b rs = bestRunLoop e' b rs"
proof (induction rs arbitrary: e e' b)
  case (Cons r rs)
  have "bestRunLoop (snd (UpdateBest e r b)) c rs = bestRunLoop (snd (UpdateBest e' r b)) c rs" for c
    by (rule Cons.IH) (simp add: Cons.prems)
  then show ?case using exIsBetter_cong [OF Cons.prems, of r b] by (simp add: case_prod_unfold Let_def)
qed simp

lemma bestRunLoop_Cons:
  "bestRunLoop e b (r # rs) = bestRunLoop e (if exIsBetter e r b then Some r else b) rs"
proof -
  have "bestRunLoop (snd (UpdateBest e r b)) c rs = bestRunLoop e c rs" for c
    by (rule bestRunLoop_cong) simp
  then show ?thesis by (simp add: case_prod_unfold Let_def)
qed

declare bestRunLoop.simps(2) [simp del]

definition unbeaten :: "Experiment \<Rightarrow> ExperimentRun option \<Rightarrow> ExperimentRun \<Rightarrow> bool" where
  "unbeaten e best r = (\<not> exIsBetter e r best)"

lemma unbeaten_trans:
  assumes "unbeaten e b r" and "exIsBetter e c b" and "metricOk r" "metricOk c" "\<forall>x. b = Some x \<longrightarrow> metricOk x"
  shows "unbeaten e (Some c) r"
  using assms by (cases b) (auto simp: unbeaten_def exIsBetter_None exIsBetter_quality)

lemma bestRunLoop_best:
  assumes "\<forall>r \<in> set rs. metricOk r" and "\<forall>x. b = Some x \<longrightarrow> metricOk x"
  shows "(\<forall>r \<in> set rs. unbeaten e (bestRunLoop e b rs) r) \<and>
         (\<forall>r. metricOk r \<and> unbeaten e b r \<longrightarrow> unbeaten e (bestRunLoop e b rs) r) \<and>
         (bestRunLoop e b rs = b \<or> bestRunLoop e b rs \<in> Some ` set rs)"
  using assms
proof (induction rs arbitrary: b)
  case (Cons r rs)
  let ?c = "if exIsBetter e r b then Some r else b"
  have ok: "\<forall>x. ?c = Some x \<longrightarrow> metricOk x" using Cons.prems by auto
  have IH: "(\<forall>x \<in> set rs. unbeaten e (bestRunLoop e ?c rs) x) \<and>
      (\<forall>x. metricOk x \<and> unbeaten e ?c x \<longrightarrow> unbeaten e (bestRunLoop e ?c rs) x) \<and>
      (bestRunLoop e ?c rs = ?c \<or> bestRunLoop e ?c rs \<in> Some ` set rs)"
    using Cons.IH [OF _ ok] Cons.prems by simp
  have "unbeaten e ?c r"
    using Cons.prems by (auto simp: unbeaten_def exIsBetter_quality)
  moreover have "unbeaten e ?c x" if "metricOk x" "unbeaten e b x" for x
    using that unbeaten_trans [of e b x r] Cons.prems by auto
  ultimately show ?case using IH Cons.prems by (auto simp: bestRunLoop_Cons split: if_splits)
qed simp

lemma currentBest_mem: "currentBest k b rs = b \<or> (\<exists>r \<in> set rs. er_ID r = k \<and> currentBest k b rs = Some r)"
proof (induction rs arbitrary: b)
  case (Cons r rs)
  show ?case using Cons [of "if er_ID r = k then Some r else b"] by auto
qed simp

lemma stepX_Inr: "stepX env op w = (Inr x, w') \<Longrightarrow> \<exists>w1. op w = (Inr x, w1) \<and> w' = tickX w1"
  by (auto simp: stepX_def split: option.splits prod.splits)

lemma bindX_Inr: "bindX m f = (Inr y, w') \<Longrightarrow> \<exists>x w1. m = (Inr x, w1) \<and> f x w1 = (Inr y, w')"
  by (auto simp: bindX_def split: prod.splits sum.splits)

lemma mapErr_Inr [simp]: "mapErr g m = (Inr x, w) \<longleftrightarrow> m = (Inr x, w)"
  by (auto simp: mapErr_def split: prod.splits sum.splits)

lemma tickX_simps [simp]:
  "xw_runs (tickX w) = xw_runs w" "xw_experiments (tickX w) = xw_experiments w"
  by (simp_all add: tickX_def)

lemma runsOf_tick [simp]: "runsOf k (tickX w) = runsOf k w"
  by (simp add: runsOf_def)

lemma set_runsOf: "set (runsOf k w) = {r \<in> set (xw_runs w). er_ExperimentID r = k}"
  by (auto simp: runsOf_def)

lemma tsave_present: "tunique er_ID rows \<Longrightarrow> r \<in> set rows \<Longrightarrow> er_ID x = er_ID r \<Longrightarrow>
    tupsert er_ID x rows = map (\<lambda>y. if y = r then x else y) rows"
  unfolding tunique_def tupsert_def tsave_def
  by (auto simp: list_ex_iff) (metis distinct_map inj_on_def)

definition flagged :: "string \<Rightarrow> ExperimentRun \<Rightarrow> ExperimentRun" where
  "flagged best r = r\<lparr>er_IsBest := (er_ID r = best)\<rparr>"

lemma flagged_simps [simp]:
  "er_ID (flagged b r) = er_ID r" "er_ExperimentID (flagged b r) = er_ExperimentID r"
  "er_MetricValue (flagged b r) = er_MetricValue r" "er_IsBest (flagged b r) = (er_ID r = b)"
  by (simp_all add: flagged_def)

lemma flagRuns_effect:
  assumes "flagRuns env best rs w = (Inr (), w')" and "tunique er_ID (xw_runs w)" and "set rs \<subseteq> set (xw_runs w)"
    and "distinct (map er_ID rs)"
  shows "xw_runs w' = map (\<lambda>r. if r \<in> set rs then flagged best r else r) (xw_runs w) \<and>
         xw_experiments w' = xw_experiments w"
  using assms
proof (induction rs arbitrary: w)
  case (Cons r rs)
  have fresh: "er_ID x \<noteq> er_ID r" if "x \<in> set rs" for x
    using Cons.prems(4) that by (auto simp: image_iff dest: bspec)
  show ?case
  proof (cases "er_IsBest r = (er_ID r = best)")
    case True
    then have "flagged best r = r" by (simp add: flagged_def)
    moreover have "flagRuns env best rs w = (Inr (), w')" using Cons.prems(1) True by simp
    ultimately show ?thesis using Cons.IH [of w] Cons.prems by auto
  next
    case False
    let ?row = "flagged best r"
    obtain w1 where w1: "UpdateExpRunRow env ?row w = (Inr (), w1)" "flagRuns env best rs w1 = (Inr (), w')"
      using Cons.prems(1) False by (auto simp: flagged_def dest!: bindX_Inr)
    have rows: "xw_runs w1 = map (\<lambda>y. if y = r then ?row else y) (xw_runs w)" and ex: "xw_experiments w1 = xw_experiments w"
      using w1(1) Cons.prems(2, 3) tsave_present [of "xw_runs w" r ?row]
      by (auto simp: UpdateExpRunRow_def dest!: stepX_Inr)
    have keys: "map er_ID (xw_runs w1) = map er_ID (xw_runs w)" by (simp add: rows)
    have sub: "set rs \<subseteq> set (xw_runs w1)" using Cons.prems(3) fresh by (fastforce simp: rows)
    have "tunique er_ID (xw_runs w1)" using Cons.prems(2) keys by (simp add: tunique_def)
    from Cons.IH [OF w1(2) this sub] Cons.prems(4)
    have "xw_runs w' = map (\<lambda>x. if x \<in> set rs then flagged best x else x) (xw_runs w1)"
      "xw_experiments w' = xw_experiments w1" by auto
    moreover have "?row \<notin> set rs" "r \<notin> set rs" using fresh by auto (metis flagged_simps(1) fresh)
    ultimately show ?thesis using ex by (auto simp: rows)
  qed
qed simp

text \<open>What holds of an experiment after its best run has been refreshed.\<close>

definition bestSettled :: "string \<Rightarrow> ExWorld \<Rightarrow> bool" where
  "bestSettled k w =
     (case tfind ex_ID (xw_experiments w) k of
        None \<Rightarrow> False
      | Some e \<Rightarrow>
          (\<exists>b \<in> set (runsOf k w). er_ID b = ex_BestRunID e \<and> measured b \<and>
             (\<forall>r \<in> set (runsOf k w). \<not> exIsBetter e r (Some b))) \<and>
          (\<forall>r \<in> set (runsOf k w). er_IsBest r = (er_ID r = ex_BestRunID e)))"

lemma refreshBestRun_settles:
  assumes "refreshBestRun env k w = (Inr (), w')" and uniq: "tunique er_ID (xw_runs w)" "tunique ex_ID (xw_experiments w)"
    and ok: "\<forall>r \<in> set (runsOf k w). metricOk r" and some: "\<exists>r \<in> set (runsOf k w). measured r"
  shows "bestSettled k w'"
proof -
  obtain e w1 runs w2 w3 where e: "tfind ex_ID (xw_experiments w) k = Some e" "w1 = tickX w"
      and runs: "runs = runsOf k w"
      and w2: "w2 = tickX w1"
      and best: "\<exists>best. best = bestRunLoop e (currentBest (ex_BestRunID e) None runs) runs \<and>
        UpdateExperimentRow env (e\<lparr>ex_BestRunID := (case best of Some r \<Rightarrow> er_ID r | None \<Rightarrow> [])\<rparr>) w2 = (Inr (), w3) \<and>
        flagRuns env (case best of Some r \<Rightarrow> er_ID r | None \<Rightarrow> []) runs w3 = (Inr (), w')"
    using assms(1) unfolding refreshBestRun_def
    by (fastforce simp: GetExperimentRow_def GetRuns_def Let_def split: option.splits dest!: bindX_Inr stepX_Inr)
  define cur where "cur = currentBest (ex_BestRunID e) None runs"
  have cur: "\<forall>x. cur = Some x \<longrightarrow> x \<in> set runs"
    using currentBest_mem [of "ex_BestRunID e" None runs] by (auto simp: cur_def)
  define b where "b = bestRunLoop e cur runs"
  have props: "\<forall>r \<in> set runs. unbeaten e b r" and where_b: "b = cur \<or> b \<in> Some ` set runs"
    using bestRunLoop_best [of runs cur e] cur ok runs by (auto simp: b_def)
  obtain r0 where r0: "r0 \<in> set runs" "measured r0" using some runs by auto
  then have "b \<noteq> None" using props exIsBetter_None [of e r0] unfolding unbeaten_def by metis
  then obtain br where br: "b = Some br" "br \<in> set runs" using where_b cur by auto
  have "measured br" using props r0 br ok runs by (auto simp: unbeaten_def exIsBetter_quality)
  let ?e = "e\<lparr>ex_BestRunID := er_ID br\<rparr>"
  have up: "UpdateExperimentRow env ?e w2 = (Inr (), w3)" and fl: "flagRuns env (er_ID br) runs w3 = (Inr (), w')"
    using best br(1) by (auto simp: b_def cur_def)
  have exs: "xw_experiments w3 = tupsert ex_ID ?e (xw_experiments w)" and rows: "xw_runs w3 = xw_runs w"
    using up e w2 by (auto simp: UpdateExperimentRow_def dest!: stepX_Inr)
  have key: "ex_ID e = k" using e tfind_key by metis
  have sub: "set runs \<subseteq> set (xw_runs w3)" by (auto simp: rows runs set_runsOf)
  have dist: "distinct (map er_ID runs)"
  proof -
    have "mset (map er_ID runs) = mset (map er_ID (filter (\<lambda>r. er_ExperimentID r = k) (xw_runs w)))"
      by (simp add: runs runsOf_def)
    then show ?thesis using uniq(1) unfolding tunique_def
      by (metis distinct_map_filter mset_eq_imp_distinct_iff)
  qed
  from flagRuns_effect [OF fl _ sub dist] uniq(1)
  have fin: "xw_runs w' = map (\<lambda>r. if r \<in> set runs then flagged (er_ID br) r else r) (xw_runs w)"
      "xw_experiments w' = tupsert ex_ID ?e (xw_experiments w)"
    by (simp_all add: rows exs)
  have set': "set (runsOf k w') = flagged (er_ID br) ` set runs"
    unfolding set_runsOf fin runs by (auto split: if_splits)
  have found: "tfind ex_ID (xw_experiments w') k = Some ?e"
    by (simp add: fin tfind_tupsert key)
  have mo: "metricOk (flagged x r) = metricOk r" "measured (flagged x r) = measured r" "quality y (flagged x r) = quality y r"
    for x y r by (simp_all add: metricOk_def measured_def quality_def)
  have "\<not> exIsBetter ?e (flagged (er_ID br) r) (Some (flagged (er_ID br) br))" if "r \<in> set runs" for r
  proof -
    have "\<not> exIsBetter e r (Some br)" using props that br by (simp add: unbeaten_def)
    then show ?thesis using that br ok runs exIsBetter_cong [of ?e e]
      by (simp add: exIsBetter_quality mo)
  qed
  then show ?thesis using found set' br \<open>measured br\<close> by (auto simp: bestSettled_def mo)
qed


end
