(* ===== verification/ExperimentApi.thy ===== *)
theory ExperimentApi
  imports ExperimentProofs TrainingService ApiAccess
begin

text \<open>
  \<^verbatim>\<open>api/experiment.go\<close>: the handlers of experiments and runs, the comparison of experiments and the reproduction of a run,
  which submits a training job.  A body that cannot be bound is None with the text of the error; audit records are left out.
\<close>

section \<open>Handlers of experiments\<close>

fun exText :: "ExErr \<Rightarrow> string" where
  "exText ExNotFound = ''experiment not found''"
| "exText (ExInvalidSpec e) = (if e = [] then ''invalid experiment spec'' else ''invalid experiment spec: '' @ e)"
| "exText ExInvalidState = ''invalid experiment state: run already terminal''"
| "exText ExPortNotFound = ''ports: not found''"
| "exText (ExDb e) = e"

definition respondExperimentError :: "ExErr \<Rightarrow> 'a ApiReply" where
  "respondExperimentError e =
     (case e of
        ExNotFound \<Rightarrow> ApiFail 404 ''experiment not found''
      | ExInvalidSpec _ \<Rightarrow> ApiFail 400 (exText e)
      | ExInvalidState \<Rightarrow> ApiFail 409 (exText e)
      | _ \<Rightarrow> ApiFail 500 (exText e))"

definition fail500 :: "ExErr \<Rightarrow> 'a ApiReply" where
  "fail500 e = ApiFail 500 (exText e)"

text \<open>Call the service; answer its error by \<^term>\<open>bad\<close> or go on.\<close>

definition callX :: "(ExErr \<Rightarrow> 'b ApiReply) \<Rightarrow> (ExErr + 'a) \<times> ExWorld \<Rightarrow> ('a \<Rightarrow> ExWorld \<Rightarrow> 'b ApiReply \<times> ExWorld) \<Rightarrow> 'b ApiReply \<times> ExWorld" where
  "callX bad m f = (case m of (Inl e, w) \<Rightarrow> (bad e, w) | (Inr x, w) \<Rightarrow> f x w)"

definition apiListExperiments :: "ExEnv \<Rightarrow> Claims option \<Rightarrow> ExWorld \<Rightarrow> Experiment list ApiReply \<times> ExWorld" where
  "apiListExperiments env c w = callX fail500 (ListExperiments env (tenantScope c) w) (\<lambda>es w. (ApiOK es, w))"

definition apiCreateExperiment :: "ExEnv \<Rightarrow> Claims option \<Rightarrow> string + ExperimentInput \<Rightarrow> ExWorld \<Rightarrow> Experiment ApiReply \<times> ExWorld" where
  "apiCreateExperiment env c body w =
     (case body of
        Inl e \<Rightarrow> (ApiFail 400 e, w)
      | Inr inp \<Rightarrow> (case requireWriteTenant c of
          None \<Rightarrow> (ApiFail 400 ''missing tenant context'', w)
        | Some tenant \<Rightarrow>
            callX respondExperimentError (CreateExperiment env (inp\<lparr>xi_TenantID := tenant\<rparr>) w) (\<lambda>e w. (ApiOK e, w))))"

definition apiGetExperiment :: "ExEnv \<Rightarrow> Claims option \<Rightarrow> string \<Rightarrow> ExWorld \<Rightarrow> (Experiment \<times> ExperimentRun list) ApiReply \<times> ExWorld" where
  "apiGetExperiment env c k w =
     callX respondExperimentError (GetExperiment env k w) (\<lambda>e w.
     callX fail500 (ListRuns env k w) (\<lambda>runs w.
       (if \<not> canAccessTenant (ex_TenantID e) c then ApiFail 404 ''experiment not found'' else ApiOK (e, runs), w)))"

text \<open>Every operation on one experiment starts with the check of its tenant.\<close>

definition onExperiment ::
    "ExEnv \<Rightarrow> Claims option \<Rightarrow> string \<Rightarrow> (Experiment \<Rightarrow> ExWorld \<Rightarrow> 'b ApiReply \<times> ExWorld) \<Rightarrow> ExWorld \<Rightarrow> 'b ApiReply \<times> ExWorld" where
  "onExperiment env c k f w =
     callX respondExperimentError (GetExperiment env k w) (\<lambda>e w.
       if \<not> canAccessTenant (ex_TenantID e) c then (ApiFail 404 ''experiment not found'', w) else f e w)"

definition apiArchiveExperiment :: "ExEnv \<Rightarrow> Claims option \<Rightarrow> string \<Rightarrow> ExWorld \<Rightarrow> Experiment ApiReply \<times> ExWorld" where
  "apiArchiveExperiment env c k =
     onExperiment env c k (\<lambda>_ w. callX respondExperimentError (ArchiveExperiment env k w) (\<lambda>e w. (ApiOK e, w)))"

definition apiDeleteExperiment :: "ExEnv \<Rightarrow> Claims option \<Rightarrow> string \<Rightarrow> ExWorld \<Rightarrow> string ApiReply \<times> ExWorld" where
  "apiDeleteExperiment env c k = onExperiment env c k (\<lambda>_ w. callX fail500 (DeleteExperiment env k w) (\<lambda>_ w. (ApiOK k, w)))"

definition apiListRuns :: "ExEnv \<Rightarrow> Claims option \<Rightarrow> string \<Rightarrow> ExWorld \<Rightarrow> ExperimentRun list ApiReply \<times> ExWorld" where
  "apiListRuns env c k = onExperiment env c k (\<lambda>_ w. callX fail500 (ListRuns env k w) (\<lambda>rs w. (ApiOK rs, w)))"

section \<open>Handlers of runs\<close>

definition apiCreateRun :: "ExEnv \<Rightarrow> Claims option \<Rightarrow> string \<Rightarrow> string + RunInput \<Rightarrow> ExWorld \<Rightarrow> ExperimentRun ApiReply \<times> ExWorld" where
  "apiCreateRun env c k body w =
     (case body of
        Inl e \<Rightarrow> (ApiFail 400 e, w)
      | Inr inp \<Rightarrow> callX respondExperimentError
          (CreateRun env (inp\<lparr>ri_TenantID := principalTenant c, ri_ExperimentID := k\<rparr>) w) (\<lambda>r w. (ApiOK r, w)))"

definition onRun ::
    "ExEnv \<Rightarrow> Claims option \<Rightarrow> string \<Rightarrow> (ExperimentRun \<Rightarrow> ExWorld \<Rightarrow> 'b ApiReply \<times> ExWorld) \<Rightarrow> ExWorld \<Rightarrow> 'b ApiReply \<times> ExWorld" where
  "onRun env c k f w =
     callX respondExperimentError (GetRun env k w) (\<lambda>r w.
       if \<not> canAccessTenant (er_TenantID r) c then (ApiFail 404 ''run not found'', w) else f r w)"

definition apiCompleteRun ::
    "ExEnv \<Rightarrow> Claims option \<Rightarrow> string \<Rightarrow> string + f64 option \<times> params option \<times> string \<Rightarrow> ExWorld \<Rightarrow> ExperimentRun ApiReply \<times> ExWorld" where
  "apiCompleteRun env c k body =
     onRun env c k (\<lambda>_ w. case body of
       Inl e \<Rightarrow> (ApiFail 400 e, w)
     | Inr (v, metrics, uri) \<Rightarrow> callX respondExperimentError (CompleteRun env k v metrics uri w) (\<lambda>r w. (ApiOK r, w)))"

definition apiFailRun :: "ExEnv \<Rightarrow> Claims option \<Rightarrow> string \<Rightarrow> ExWorld \<Rightarrow> ExperimentRun ApiReply \<times> ExWorld" where
  "apiFailRun env c k = onRun env c k (\<lambda>_ w. callX respondExperimentError (FailRunX env k w) (\<lambda>r w. (ApiOK r, w)))"

definition apiCancelRun :: "ExEnv \<Rightarrow> Claims option \<Rightarrow> string \<Rightarrow> ExWorld \<Rightarrow> ExperimentRun ApiReply \<times> ExWorld" where
  "apiCancelRun env c k = onRun env c k (\<lambda>_ w. callX respondExperimentError (CancelRun env k w) (\<lambda>r w. (ApiOK r, w)))"

section \<open>Comparison\<close>

record CompareRow =
  cw_ID :: string
  cw_Name :: string
  cw_Objective :: string
  cw_BestRun :: "ExperimentRun option"
  cw_IsOverallBest :: bool

record CompareResponse =
  cr_MetricName :: string
  cr_Objective :: string
  cr_Rows :: "CompareRow list"
  cr_OverallBest :: string

fun splitComma :: "string \<Rightarrow> string list" where
  "splitComma [] = [[]]"
| "splitComma (c # s) =
     (if c = CHR '','' then [] # splitComma s
      else case splitComma s of [] \<Rightarrow> [[c]] | x # xs \<Rightarrow> (c # x) # xs)"

definition betterVal :: "string \<Rightarrow> f64 \<Rightarrow> f64 \<Rightarrow> bool" where
  "betterVal objective a b = (if objective = ''minimize'' then flt a b else flt b a)"

primrec bestMeasured :: "string \<Rightarrow> ExperimentRun option \<Rightarrow> ExperimentRun list \<Rightarrow> ExperimentRun option" where
  "bestMeasured objective best [] = best"
| "bestMeasured objective best (r # rs) =
     bestMeasured objective
       (case er_MetricValue r of
          None \<Rightarrow> best
        | Some v \<Rightarrow> (case best of
            None \<Rightarrow> Some r
          | Some b \<Rightarrow> if betterVal objective v (the (er_MetricValue b)) then Some r else best)) rs"

definition bestRun :: "ExEnv \<Rightarrow> string \<Rightarrow> string \<Rightarrow> ExWorld \<Rightarrow> ExperimentRun option \<times> ExWorld" where
  "bestRun env k objective w =
     (case ListRuns env k w of
        (Inl _, w) \<Rightarrow> (None, w)
      | (Inr runs, w) \<Rightarrow> (bestMeasured objective None runs, w))"

definition betterThan :: "string \<Rightarrow> ExperimentRun option \<Rightarrow> ExperimentRun option \<Rightarrow> bool" where
  "betterThan objective a b =
     (case a of
        None \<Rightarrow> False
      | Some a \<Rightarrow> (case er_MetricValue a of
          None \<Rightarrow> False
        | Some x \<Rightarrow> (case b of
            None \<Rightarrow> True
          | Some b \<Rightarrow> (case er_MetricValue b of None \<Rightarrow> True | Some y \<Rightarrow> betterVal objective x y))))"

definition compareRow :: "Experiment \<Rightarrow> ExperimentRun option \<Rightarrow> CompareRow" where
  "compareRow e best = \<lparr>cw_ID = ex_ID e, cw_Name = ex_Name e, cw_Objective = ex_Objective e, cw_BestRun = best,
     cw_IsOverallBest = False\<rparr>"

text \<open>
  The rows of the answer are copies: the pointer to the overall best row points to the variable of its round of the loop,
  so what is written through it later does not reach the rows.
\<close>

fun compareLoop ::
    "ExEnv \<Rightarrow> Claims option \<Rightarrow> (Experiment \<Rightarrow> string) \<Rightarrow> string \<Rightarrow> CompareRow list \<Rightarrow> CompareRow option \<Rightarrow> string list \<Rightarrow> ExWorld
      \<Rightarrow> CompareResponse ApiReply \<times> ExWorld" where
  "compareLoop env c mismatch metric rows best [] w =
     (let overall = map_option (cw_IsOverallBest_update (\<lambda>_. True)) best in
      (ApiOK \<lparr>cr_MetricName = metric, cr_Objective = (case overall of Some b \<Rightarrow> cw_Objective b | None \<Rightarrow> []),
         cr_Rows = rows, cr_OverallBest = (case overall of Some b \<Rightarrow> cw_ID b | None \<Rightarrow> [])\<rparr>, w))"
| "compareLoop env c mismatch metric rows best (k # ks) w =
     (let k = TrimSpace k in
      if k = [] then compareLoop env c mismatch metric rows best ks w
      else case GetExperiment env k w of
        (Inl e, w) \<Rightarrow> (respondExperimentError e, w)
      | (Inr e, w) \<Rightarrow>
          if \<not> canAccessTenant (ex_TenantID e) c then (ApiFail 404 ''experiment not found'', w)
          else if ex_MetricName e \<noteq> metric then (ApiFail 400 (mismatch e), w)
          else case bestRun env k (ex_Objective e) w of (run, w) \<Rightarrow>
            (let row = compareRow e run;
                 better = (run \<noteq> None \<and>
                   (case best of None \<Rightarrow> True | Some b \<Rightarrow> betterThan (ex_Objective e) run (cw_BestRun b))) in
             compareLoop env c mismatch metric (rows @ [row]) (if better then Some row else best) ks w))"

definition CompareExperiments ::
    "ExEnv \<Rightarrow> Claims option \<Rightarrow> (Experiment \<Rightarrow> string) \<Rightarrow> string \<Rightarrow> string \<Rightarrow> ExWorld \<Rightarrow> CompareResponse ApiReply \<times> ExWorld" where
  "CompareExperiments env c mismatch ids metric w =
     (if TrimSpace ids = [] then (ApiFail 400 ''ids required'', w)
      else if TrimSpace metric = [] then (ApiFail 400 ''metric_name required'', w)
      else compareLoop env c mismatch metric [] None (splitComma ids) w)"

section \<open>Reproduction\<close>

definition ReproduceRun ::
    "ExEnv \<Rightarrow> TrainEnv \<Rightarrow> (TrainSvcError \<Rightarrow> string) \<Rightarrow> Claims option \<Rightarrow> string \<Rightarrow> ExWorld \<times> TrWorld
      \<Rightarrow> ExperimentRun ApiReply \<times> ExWorld \<times> TrWorld" where
  "ReproduceRun env tenv trText c k wt =
     (let (w, t) = wt in
      case GetRun env k w of
        (Inl e, w) \<Rightarrow> (respondExperimentError e, w, t)
      | (Inr source, w) \<Rightarrow>
          if \<not> canAccessTenant (er_TenantID source) c then (ApiFail 404 ''run not found'', w, t)
          else if er_SourceJobID source = [] then (ApiFail 400 ''run has no source_job_id to reproduce'', w, t)
          else case getJob (te_job tenv) (er_SourceJobID source) (tw_job t) of
            (Inl e, jw) \<Rightarrow> (ApiFail 500 (''load source job: '' @ errText e), w, t\<lparr>tw_job := jw\<rparr>)
          | (Inr job, jw) \<Rightarrow>
              let inp = plainSubmit (er_Name source @ ''-repro'') (tj_Spec (TrainingFromModel job)) in
              case trSubmit tenv (er_TenantID source) inp (t\<lparr>tw_job := jw\<rparr>) of
                (Inl e, t) \<Rightarrow> (ApiFail 500 (''submit reproduction job: '' @ trText e), w, t)
              | (Inr newJob, t) \<Rightarrow>
                  let (r, w) = callX respondExperimentError (CreateReproductionRun env source (jr_ID newJob) w) (\<lambda>r w. (ApiOK r, w))
                  in (r, w, t))"

record ReproReply =
  rp_SourceRunID :: string
  rp_ReproRunID :: string
  rp_MetricName :: string
  rp_Result :: ReproResult
  rp_Pending :: bool
  rp_State :: string

definition derefMetric :: "f64 option \<Rightarrow> f64" where
  "derefMetric v = (case v of None \<Rightarrow> pZero | Some x \<Rightarrow> x)"

definition isTerminalRun :: "string \<Rightarrow> bool" where
  "isTerminalRun st = (st = ''completed'' \<or> st = ''failed'' \<or> st = ''cancelled'')"

definition evaluateDefault :: "'a HpoFloats_scheme \<Rightarrow> f64 \<Rightarrow> f64 \<Rightarrow> ReproResult" where
  "evaluateDefault ops = EvaluateRepro ops (fo_lit ops (1 / 100)) (fo_lit ops (5 / 100))"

text \<open>The answer on a reproduction that has no metric yet is pending and not reproducible, whatever the check says of 0.\<close>

definition GetReproduction :: "'a HpoFloats_scheme \<Rightarrow> ExEnv \<Rightarrow> Claims option \<Rightarrow> string \<Rightarrow> ExWorld \<Rightarrow> ReproReply ApiReply \<times> ExWorld" where
  "GetReproduction ops env c k w =
     onRun env c k (\<lambda>repro w.
       if er_ParentRunID repro = [] then (ApiFail 400 ''run is not a reproduction run'', w)
       else callX respondExperimentError (GetRun env (er_ParentRunID repro) w) (\<lambda>source w.
       callX respondExperimentError (GetExperiment env (er_ExperimentID repro) w) (\<lambda>e w.
         let reply = (\<lambda>res pending st. ApiOK \<lparr>rp_SourceRunID = er_ID source, rp_ReproRunID = er_ID repro,
               rp_MetricName = ex_MetricName e, rp_Result = res, rp_Pending = pending, rp_State = st\<rparr>) in
         case er_MetricValue repro of
           None \<Rightarrow> (reply ((evaluateDefault ops (derefMetric (er_MetricValue source)) pZero)\<lparr>rr_Reproducible := False\<rparr>)
                      True (er_ReproductionState repro), w)
         | Some v \<Rightarrow>
             let res = evaluateDefault ops (derefMetric (er_MetricValue source)) v;
                 st = (if rr_Reproducible res then ''matched'' else ''diverged'') in
             if isTerminalRun (er_Status repro) \<and> er_ReproductionState repro \<noteq> st
             then callX (\<lambda>e. ApiFail 500 (''update reproduction state: '' @ exText e))
                    (UpdateExpRunRow env (repro\<lparr>er_ReproductionState := st\<rparr>) w) (\<lambda>_ w. (reply res False st, w))
             else (reply res False (er_ReproductionState repro), w)))) w"

section \<open>Properties\<close>

lemma zero_source_reproducible:
  assumes "fle pZero relTol"
  shows "rr_Reproducible (EvaluateRepro ops absTol relTol pZero repro)"
  using assms by (simp add: EvaluateRepro_def Let_def pZero_def)

definition healthyX :: "ExEnv \<Rightarrow> bool" where
  "healthyX env = (\<forall>n. xe_fault env n = None)"

lemma stepX_healthy: "healthyX env \<Longrightarrow> stepX env op w = (let (r, w) = op w in (r, tickX w))"
  by (simp add: stepX_def healthyX_def)

text \<open>a reproduction is matched with a source that has no metric.  When the source run of a finished reproduction has
  no metric value, or the value 0, the deviation relative to it counts as 0: the reproduction is stored and answered as
  matched, whatever it measured.\<close>
theorem missing_source_metric_matches:
  assumes "healthyX env" and "fle pZero (fo_lit ops (5 / 100))"
    and "tfind er_ID (xw_runs w) k = Some repro" and "canAccessTenant (er_TenantID repro) c"
    and "er_ParentRunID repro \<noteq> []" and "tfind er_ID (xw_runs w) (er_ParentRunID repro) = Some source"
    and "er_MetricValue source = None \<or> er_MetricValue source = Some pZero"
    and "tfind ex_ID (xw_experiments w) (er_ExperimentID repro) = Some e"
    and "er_MetricValue repro = Some v" and "isTerminalRun (er_Status repro)"
  shows "\<exists>reply w'. GetReproduction ops env c k w = (ApiOK reply, w') \<and> rr_Reproducible (rp_Result reply) \<and>
           (er_ReproductionState repro \<noteq> ''matched'' \<longrightarrow> rp_State reply = ''matched'' \<and>
              tfind er_ID (xw_runs w') k = Some (repro\<lparr>er_ReproductionState := ''matched''\<rparr>))"
proof -
  have "derefMetric (er_MetricValue source) = pZero" using assms(7) by (auto simp: derefMetric_def)
  then have rep: "rr_Reproducible (evaluateDefault ops (derefMetric (er_MetricValue source)) v)"
    using zero_source_reproducible [OF assms(2)] by (simp add: evaluateDefault_def)
  have key: "er_ID repro = k" using assms(3) tfind_key by metis
  show ?thesis using assms rep key
    by (auto simp: GetReproduction_def onRun_def callX_def GetRun_def GetExperiment_def GetExpRunRow_def GetExperimentRow_def
        UpdateExpRunRow_def stepX_healthy mapErr_def Let_def tfind_tupsert)
qed

definition demoRun :: "string \<Rightarrow> f64 option \<Rightarrow> string \<Rightarrow> ExperimentRun" where
  "demoRun k v parent = emptyRun\<lparr>er_ID := k, er_ExperimentID := ''exp_1'', er_TenantID := ''acme'', er_Name := k,
     er_MetricValue := v, er_ParentRunID := parent, er_Status := RunStatusCompleted\<rparr>"

definition demoExperiment :: Experiment where
  "demoExperiment = \<lparr>ex_ID = ''exp_1'', ex_TenantID = ''acme'', ex_Name = ''lr'', ex_Description = [],
     ex_Objective = ObjectiveMinimize, ex_MetricName = ''loss'', ex_Status = StatusActive, ex_Tags = [], ex_BestRunID = [],
     ex_CreatedAt = 1, ex_UpdatedAt = 1\<rparr>"

definition demoXEnv :: ExEnv where
  "demoXEnv = \<lparr>xe_time = int, xe_id = (\<lambda>n. ''id'' @ showNat n), xe_fault = (\<lambda>_. None)\<rparr>"

definition demoXWorld :: ExWorld where
  "demoXWorld = \<lparr>xw_experiments = [demoExperiment],
     xw_runs = [demoRun ''run_1'' None [], demoRun ''run_2'' (Some (Fin 1000)) ''run_1''], xw_tick = 0\<rparr>"

lemma demoXEnv_healthy: "healthyX demoXEnv"
  by (simp add: healthyX_def demoXEnv_def)

theorem missing_source_metric_matches_witness:
  "\<exists>reply w'. GetReproduction exactOps demoXEnv (Some SyntheticAdmin) ''run_2'' demoXWorld = (ApiOK reply, w') \<and>
     rr_Reproducible (rp_Result reply) \<and>
     (er_ReproductionState (demoRun ''run_2'' (Some (Fin 1000)) ''run_1'') \<noteq> ''matched'' \<longrightarrow> rp_State reply = ''matched'' \<and>
        tfind er_ID (xw_runs w') ''run_2'' =
          Some ((demoRun ''run_2'' (Some (Fin 1000)) ''run_1'')\<lparr>er_ReproductionState := ''matched''\<rparr>))"
  by (rule missing_source_metric_matches [OF demoXEnv_healthy,
        where source = "demoRun ''run_1'' None []" and e = demoExperiment and v = "Fin 1000"])
    (auto simp: demoXWorld_def demoRun_def emptyRun_def demoExperiment_def exactOps_def fle_def pZero_def canAccessTenant_def
      isPlatformAdmin_def claimsOf_def SyntheticAdmin_def isTerminalRun_def RunStatusCompleted_def)

text \<open>The comparison answers with an overall best experiment, but never flags its row.\<close>

lemma compareLoop_unflagged:
  assumes "compareLoop env c mismatch metric rows best ks w = (ApiOK resp, w')" and "\<forall>r \<in> set rows. \<not> cw_IsOverallBest r"
  shows "\<forall>r \<in> set (cr_Rows resp). \<not> cw_IsOverallBest r"
  using assms
proof (induction env c mismatch metric rows best ks w rule: compareLoop.induct)
  case (2 env c mismatch metric rows best k ks w)
  have flag: "\<not> cw_IsOverallBest (compareRow e r)" for e r by (simp add: compareRow_def)
  show ?case
  proof (cases "TrimSpace k = []")
    case True
    then show ?thesis using 2 by (simp add: Let_def)
  next
    case False
    obtain r w1 where g: "GetExperiment env (TrimSpace k) w = (r, w1)" by fastforce
    show ?thesis
    proof (cases r)
      case (Inl e)
      then show ?thesis using 2(3) False g by (auto simp: Let_def respondExperimentError_def split: ExErr.splits)
    next
      case (Inr e)
      obtain b w2 where b: "bestRun env (TrimSpace k) (ex_Objective e) w1 = (b, w2)" by fastforce
      let ?row = "compareRow e b"
      have ok: "canAccessTenant (ex_TenantID e) c" "ex_MetricName e = metric"
        using 2(3) False g Inr by (auto simp: Let_def split: if_splits)
      have run: "compareLoop env c mismatch metric (rows @ [?row])
          (if b \<noteq> None \<and> (case best of None \<Rightarrow> True | Some y \<Rightarrow> betterThan (ex_Objective e) b (cw_BestRun y)) then Some ?row else best)
          ks w2 = (ApiOK resp, w')"
        using 2(3) False g Inr ok b by (simp add: Let_def)
      show ?thesis
        by (rule "2.IH"(2) [OF refl False g [symmetric] Inr _ _ b [symmetric] refl refl run]) (use ok 2(4) flag in auto)
    qed
  qed
qed (auto simp: Let_def)

lemma compare_flags_no_row:
  assumes "CompareExperiments env c mismatch ids metric w = (ApiOK resp, w')"
  shows "\<forall>r \<in> set (cr_Rows resp). \<not> cw_IsOverallBest r"
  using assms compareLoop_unflagged [of env c mismatch metric "[]" None "splitComma ids" w resp w']
  by (auto simp: CompareExperiments_def split: if_splits)

text \<open>A platform administrator lists the experiments of the tenant with the empty name: none.\<close>

lemma admin_lists_no_experiments:
  assumes "isPlatformAdmin c" and "\<forall>e \<in> set (xw_experiments w). ex_TenantID e \<noteq> []" and "healthyX env"
  shows "fst (apiListExperiments env c w) = ApiOK []"
  using assms by (simp add: apiListExperiments_def tenantScope_def ListExperiments_def GetExperiments_def stepX_healthy
      callX_def filter_empty_conv)


end
