(* ===== verification/HpoServiceProofs.thy ===== *)
theory HpoServiceProofs
  imports HpoService HpoDomainProofs ExperimentApi TrainingServiceProofs
begin

text \<open>
  What the scheduling of studies promises and what it does not: a study never gets more trials than it may have; a study
  whose trials are used up with one of them cancelled is never completed; deleting a study leaves its jobs.
\<close>

section \<open>Effects of the operations\<close>

lemma stepH_effect:
  "stepH env op w = (r, w') \<Longrightarrow> (\<exists>e. r = Inl e \<and> w' = tickH w) \<or> (\<exists>w1. op w = (r, w1) \<and> w' = tickH w1)"
  by (auto simp: stepH_def split: option.splits prod.splits)

lemma tickH_simps [simp]:
  "hw_studies (tickH w) = hw_studies w" "hw_trials (tickH w) = hw_trials w" "hw_train (tickH w) = hw_train w"
  "trialsOf k (tickH w) = trialsOf k w"
  by (simp_all add: tickH_def trialsOf_def)

lemma GetTrialRow_effect:
  "GetTrialRow env k w = (r, w') \<Longrightarrow> w' = tickH w \<and> (\<forall>t. r = Inr t \<longrightarrow> tfind tr_ID (hw_trials w) k = Some t)"
  by (auto simp: GetTrialRow_def dest!: stepH_effect split: option.splits)

lemma GetStudyRow_effect:
  "GetStudyRow env k w = (r, w') \<Longrightarrow> w' = tickH w \<and> (\<forall>m. r = Inr m \<longrightarrow> tfind sr_ID (hw_studies w) k = Some m)"
  by (auto simp: GetStudyRow_def dest!: stepH_effect split: option.splits)

lemma ListTrialRows_effect:
  "ListTrialRows env k w = (r, w') \<Longrightarrow> w' = tickH w \<and> (\<forall>ts. r = Inr ts \<longrightarrow> ts = trialsOf k w)"
  by (auto simp: ListTrialRows_def dest!: stepH_effect)

lemma toModelTrial_keys: "toModelTrial ops t = Some row \<Longrightarrow>
    tr_ID row = tr_ID t \<and> tr_StudyID row = tr_StudyID t \<and> tr_Status row = tr_Status t"
  by (auto simp: toModelTrial_def split: option.splits if_splits)

lemma saveTrial_effect:
  "saveTrial env t w = (r, w') \<Longrightarrow> hw_studies w' = hw_studies w \<and> hw_train w' = hw_train w \<and>
     (hw_trials w' = hw_trials w \<or>
      (\<exists>row. toModelTrial (hx_ops env) t = Some row \<and> hw_trials w' = tupsert tr_ID row (hw_trials w)))"
  by (auto simp: saveTrial_def UpdateTrialRow_def split: option.splits dest!: stepH_effect)

text \<open>The number of the trials of a study, which an update of a trial does not change.\<close>

definition trialCount :: "string \<Rightarrow> HpoWorld \<Rightarrow> nat" where
  "trialCount k w = length (trialsOf k w)"

lemma trialCount_filter: "trialCount k w = length (filter (\<lambda>t. tr_StudyID t = k) (hw_trials w))"
  by (simp add: trialCount_def trialsOf_def)

lemma tupsert_count:
  assumes "tunique tr_ID rows" and "tfind tr_ID rows (tr_ID row) = Some t" and "tr_StudyID t = tr_StudyID row"
  shows "length (filter (\<lambda>t. tr_StudyID t = k) (tupsert tr_ID row rows)) = length (filter (\<lambda>t. tr_StudyID t = k) rows)"
proof -
  have same: "tr_StudyID x = tr_StudyID row" if "x \<in> set rows" "tr_ID x = tr_ID row" for x
    using tfind_unique [OF assms(1) that(1)] that(2) assms(2, 3) by simp
  have "length (filter (\<lambda>t. tr_StudyID t = k) (tsave tr_ID row rows')) = length (filter (\<lambda>t. tr_StudyID t = k) rows')"
    if "set rows' \<subseteq> set rows" for rows'
    using that same by (induction rows') auto
  moreover have "list_ex (\<lambda>x. tr_ID x = tr_ID row) rows"
    using tfind_mem [OF assms(2)] tfind_key [OF assms(2)] by (auto simp: list_ex_iff)
  ultimately show ?thesis by (simp add: tupsert_def)
qed

definition sameCounts :: "HpoWorld \<Rightarrow> HpoWorld \<Rightarrow> bool" where
  "sameCounts w w' =
     ((tunique tr_ID (hw_trials w) \<longrightarrow> tunique tr_ID (hw_trials w') \<and> (\<forall>k. trialCount k w' = trialCount k w)) \<and>
      (\<forall>k. map_option sr_MaxTrials (tfind sr_ID (hw_studies w') k) = map_option sr_MaxTrials (tfind sr_ID (hw_studies w) k)))"

lemma sameCounts_refl: "hw_trials w' = hw_trials w \<Longrightarrow> hw_studies w' = hw_studies w \<Longrightarrow> sameCounts w w'"
  by (simp add: sameCounts_def trialCount_filter)

lemma sameCounts_trans: "sameCounts w w1 \<Longrightarrow> sameCounts w1 w2 \<Longrightarrow> sameCounts w w2"
  by (simp add: sameCounts_def)

lemma saveTrial_counts:
  assumes "saveTrial env t w = (r, w')" and "tfind tr_ID (hw_trials w) (tr_ID t) = Some old" and "tr_StudyID old = tr_StudyID t"
  shows "sameCounts w w'"
proof -
  from saveTrial_effect [OF assms(1)] consider "hw_trials w' = hw_trials w" "hw_studies w' = hw_studies w"
    | row where "toModelTrial (hx_ops env) t = Some row" "hw_trials w' = tupsert tr_ID row (hw_trials w)"
        "hw_studies w' = hw_studies w" by auto
  then show ?thesis
  proof cases
    case 1 then show ?thesis by (rule sameCounts_refl)
  next
    case 2
    then show ?thesis using toModelTrial_keys [OF 2(1)] assms(2, 3) tupsert_count [of "hw_trials w" row old]
      by (simp add: sameCounts_def trialCount_filter tupsert_unique)
  qed
qed

lemma stopTrial_counts: "stopTrial env k w = (r, w') \<Longrightarrow> sameCounts w w'"
proof -
  assume run: "stopTrial env k w = (r, w')"
  obtain g w1 where g: "GetTrialRow env k w = (g, w1)" by fastforce
  note eff = GetTrialRow_effect [OF g]
  show ?thesis
  proof (cases g)
    case (Inl e)
    then show ?thesis using run g eff by (auto simp: stopTrial_def bindH_def intro: sameCounts_refl)
  next
    case (Inr t)
    then have found: "tfind tr_ID (hw_trials w) k = Some t" using eff by simp
    then have key: "tr_ID t = k" by (rule tfind_key)
    show ?thesis
    proof (cases "tr_Status t = TrialRunning")
      case False
      then show ?thesis using run g eff Inr by (auto simp: stopTrial_def bindH_def intro: sameCounts_refl)
    next
      case True
      obtain e w2 where c: "(if tr_JobID t = [] then (None, w1)
          else let (e, tw) = trCancel (hx_train env) (tr_JobID t) (hw_train w1) in (e, w1\<lparr>hw_train := tw\<rparr>)) = (e, w2)"
        by fastforce
      then have w2: "hw_trials w2 = hw_trials w" "hw_studies w2 = hw_studies w"
        using eff by (auto simp: case_prod_unfold Let_def split: if_splits)
      then have 12: "sameCounts w w2" by (rule sameCounts_refl)
      show ?thesis
      proof (cases e)
        case None
        then have "saveTrial env (t\<lparr>tr_Status := TrialPruned\<rparr>) w2 = (r, w')"
          using run g Inr True c by (simp add: stopTrial_def bindH_def)
        from saveTrial_counts [OF this, of t] have "sameCounts w2 w'" using found key w2 by simp
        then show ?thesis using 12 sameCounts_trans by blast
      next
        case (Some x)
        then show ?thesis using run g Inr True c 12 by (simp add: stopTrial_def bindH_def)
      qed
    qed
  qed
qed

lemma toModelStudy_max: "toModelStudy ops s = Some m \<Longrightarrow> sr_MaxTrials m = sy_MaxTrials s \<and> sr_ID m = sy_ID s"
  by (auto simp: toModelStudy_def split: if_splits)

lemma completeStudy_counts:
  assumes "completeStudy env s w = (r, w')" and "tfind sr_ID (hw_studies w) (sy_ID s) = Some m" and "sr_MaxTrials m = sy_MaxTrials s"
  shows "sameCounts w w'"
proof -
  obtain ts w1 where a: "allDomainTrials env (sy_ID s) w = (ts, w1)" by fastforce
  then have w1: "w1 = tickH w"
    by (auto simp: allDomainTrials_def split: prod.splits sum.splits dest: ListTrialRows_effect)
  show ?thesis using assms a w1
    by (auto simp: completeStudy_def sameCounts_def trialCount_filter UpdateStudyRow_def tfind_tupsert Let_def
        split: option.splits dest!: stepH_effect toModelStudy_max)
qed

section \<open>The budget of trials\<close>

definition budgets :: "HpoWorld \<Rightarrow> bool" where
  "budgets w =
     (tunique tr_ID (hw_trials w) \<and>
      (\<forall>k m. tfind sr_ID (hw_studies w) k = Some m \<longrightarrow> 0 < sr_MaxTrials m \<longrightarrow> int (trialCount k w) \<le> sr_MaxTrials m))"

lemma budgets_same: "budgets w \<Longrightarrow> sameCounts w w' \<Longrightarrow> budgets w'"
proof -
  assume b: "budgets w" and s: "sameCounts w w'"
  have "int (trialCount k w') \<le> sr_MaxTrials m'" if "tfind sr_ID (hw_studies w') k = Some m'" "0 < sr_MaxTrials m'" for k m'
  proof -
    have "map_option sr_MaxTrials (tfind sr_ID (hw_studies w) k) = Some (sr_MaxTrials m')"
      using s that(1) unfolding sameCounts_def by (metis option.simps(9))
    then show ?thesis using b s that(2) unfolding budgets_def sameCounts_def by fastforce
  qed
  then show ?thesis using b s by (simp add: budgets_def sameCounts_def)
qed

lemma spawnTrial_budget:
  assumes run: "spawnTrial env s ps w = (r, w')" and b: "budgets w"
    and room: "\<forall>m. tfind sr_ID (hw_studies w) (sy_ID s) = Some m \<longrightarrow> 0 < sr_MaxTrials m \<longrightarrow>
      int (trialCount (sy_ID s) w) < sr_MaxTrials m"
  shows "budgets w'"
proof -
  obtain num w1 where n: "studySpawnNumber env (sy_ID s) w = (num, w1)" by fastforce
  obtain l w0 where l: "ListTrialRows env (sy_ID s) w = (l, w0)" by fastforce
  have "w1 = w0" using n l by (cases l) (simp_all add: studySpawnNumber_def)
  then have w1: "hw_trials w1 = hw_trials w" "hw_studies w1 = hw_studies w"
    using ListTrialRows_effect [OF l] by simp_all
  define t where "t = \<lparr>tr_ID = hx_id env (hw_tick w1), tr_StudyID = sy_ID s, tr_Number = num, tr_Params = ps,
     tr_Status = TrialPending, tr_Value = None, tr_Intermediate = [], tr_RunID = [], tr_JobID = []\<rparr>"
  have b1: "budgets w1" by (rule budgets_same [OF b sameCounts_refl]) (use w1 in auto)
  show ?thesis
  proof (cases "toModelTrial (hx_ops env) t")
    case None
    then show ?thesis using run n b1 by (simp add: spawnTrial_def Let_def flip: t_def)
  next
    case (Some row)
    have row: "tr_ID row = tr_ID t" "tr_StudyID row = sy_ID s" using toModelTrial_keys [OF Some] by (auto simp: t_def)
    obtain c w2 where c: "CreateTrialRow env row w1 = (c, w2)" by fastforce
    have c2: "(\<exists>e. c = Inl e) \<and> hw_trials w2 = hw_trials w1 \<and> hw_studies w2 = hw_studies w1 \<or>
        c = Inr () \<and> tfind tr_ID (hw_trials w1) (tr_ID row) = None \<and> hw_trials w2 = tadd row (hw_trials w1) \<and> hw_studies w2 = hw_studies w1"
      using c by (auto simp: CreateTrialRow_def split: if_splits dest!: stepH_effect)
    show ?thesis
    proof (cases c)
      case (Inl e)
      then show ?thesis using run n Some c c2 budgets_same [OF b1 sameCounts_refl]
        by (auto simp: spawnTrial_def Let_def bindH_def simp flip: t_def)
    next
      case (Inr u)
      then have new: "tfind tr_ID (hw_trials w1) (tr_ID row) = None" "hw_trials w2 = tadd row (hw_trials w1)"
          "hw_studies w2 = hw_studies w1" using c2 by auto
      have count: "trialCount k w2 = trialCount k w1 + (if k = sy_ID s then 1 else 0)" for k
        by (simp add: trialCount_filter new tadd_def row)
      have c1: "trialCount k w1 = trialCount k w" for k by (simp add: trialCount_filter w1)
      have b2: "budgets w2"
        using b1 new count room w1 c1 unfolding budgets_def
        by (auto simp: tadd_unique)
      have found: "tfind tr_ID (hw_trials w2) (tr_ID t) = Some row"
        using new row by (simp add: tfind_tadd)
      have tstudy: "tr_StudyID row = tr_StudyID t" by (simp add: row t_def)
      define spec where "spec = (trainingSpecFromTemplate (hx_ops env) (sy_Template s))
                \<lparr>sp_Command := renderCommand (hx_show env) (sy_Template s) ps\<rparr>"
      obtain j tw where j: "trSubmit (hx_train env) (sy_TenantID s) (plainSubmit (sy_Name s @ ''-'' @ showInt num) spec) (hw_train w2) = (j, tw)"
        by fastforce
      let ?w3 = "w2\<lparr>hw_train := tw\<rparr>"
      have 23: "sameCounts w2 ?w3" by (rule sameCounts_refl) simp_all
      have "sameCounts w2 w'"
      proof (cases j)
        case (Inl e)
        obtain q w4 where q: "saveTrial env (t\<lparr>tr_Status := TrialFailed\<rparr>) ?w3 = (q, w4)" by fastforce
        have "w4 = w'" using run n Some c Inr j Inl q
          by (simp add: spawnTrial_def Let_def bindH_def flip: t_def spec_def)
        moreover have "sameCounts ?w3 w4" by (rule saveTrial_counts [OF q, where old = row]) (use found tstudy in auto)
        ultimately show ?thesis using 23 sameCounts_trans by blast
      next
        case (Inr job)
        obtain t' w4 where tr: "trackRun env s ps num (jr_ID job) t ?w3 = (t', w4)" by fastforce
        have t': "tr_ID t' = tr_ID t" "tr_StudyID t' = tr_StudyID t" "hw_trials w4 = hw_trials ?w3" "hw_studies w4 = hw_studies ?w3"
          using tr by (auto simp: trackRun_def Let_def split: if_splits prod.splits sum.splits)
        have "saveTrial env (t'\<lparr>tr_Status := TrialRunning, tr_JobID := jr_ID job\<rparr>) w4 = (r, w')"
          using run n Some c \<open>c = Inr u\<close> j Inr tr by (simp add: spawnTrial_def Let_def bindH_def flip: t_def spec_def)
        then have "sameCounts w4 w'" by (rule saveTrial_counts [where old = row]) (use found tstudy t' in auto)
        moreover have "sameCounts ?w3 w4" by (rule sameCounts_refl) (use t' in auto)
        ultimately show ?thesis using 23 sameCounts_trans by blast
      qed
      then show ?thesis using b2 budgets_same by blast
    qed
  qed
qed

lemma applyActions_counts:
  assumes "applyActions env s acts w = (r, w')" and "\<forall>p. SpawnTrial p \<notin> set acts"
    and "map_option sr_MaxTrials (tfind sr_ID (hw_studies w) (sy_ID s)) = Some (sy_MaxTrials s)"
  shows "sameCounts w w'"
  using assms
proof (induction acts arbitrary: w)
  case Nil
  then show ?case by (auto intro: sameCounts_refl)
next
  case (Cons a acts)
  obtain q w1 where q: "applyAction env s a w = (q, w1)" by fastforce
  have 1: "sameCounts w w1"
  proof (cases a)
    case (StopTrial k x)
    then show ?thesis using q stopTrial_counts [of env k w q w1] by (simp add: applyAction_def)
  next
    case (CompleteStudy x)
    then show ?thesis using q Cons.prems(3) completeStudy_counts [of env s w q w1] by (auto simp: applyAction_def)
  next
    case (Noop x)
    then show ?thesis using q by (auto simp: applyAction_def intro: sameCounts_refl)
  qed (use Cons.prems(2) in auto)
  show ?case
  proof (cases q)
    case (Inl e)
    then show ?thesis using Cons.prems(1) q 1 by (simp add: bindH_def)
  next
    case (Inr u)
    then have rest: "applyActions env s acts w1 = (r, w')" using Cons.prems(1) q by (simp add: bindH_def)
    have "map_option sr_MaxTrials (tfind sr_ID (hw_studies w1) (sy_ID s)) = Some (sy_MaxTrials s)"
      using 1 Cons.prems(3) by (simp add: sameCounts_def)
    from Cons.IH [OF rest _ this] Cons.prems(2) show ?thesis using 1 sameCounts_trans by auto
  qed
qed

lemma quotaAvailable_effect: "quotaAvailable env tenant w = (b, w') \<Longrightarrow> w' = w \<or> w' = tickH w"
  by (auto simp: quotaAvailable_def split: if_splits option.splits)

lemma toDomainStudy_simps [simp]:
  "sy_ID (toDomainStudy m) = sr_ID m" "sy_MaxTrials (toDomainStudy m) = sr_MaxTrials m"
  "sy_TenantID (toDomainStudy m) = sr_TenantID m" "sy_Status (toDomainStudy m) = sr_Status m"
  by (simp_all add: toDomainStudy_def)

text \<open>A scheduling step either fails or does nothing, or carries out the actions of the scheduler on what it has read.\<close>

lemma RunOnce_cases:
  assumes "RunOnce env tenant k w = Some (r, w')"
  obtains (idle) "hw_trials w' = hw_trials w" "hw_studies w' = hw_studies w" "hw_train w' = hw_train w"
  | (acts) m acts ctx w1 where "tfind sr_ID (hw_studies w) k = Some m" "studyIsActive (toDomainStudy m)"
      "NextActions (hx_ops env) (hx_text env) (toDomainStudy m) (trialsOf k w) ctx = Some acts"
      "applyActions env (toDomainStudy m) acts w1 = (r, w')"
      "hw_trials w1 = hw_trials w" "hw_studies w1 = hw_studies w" "hw_train w1 = hw_train w"
proof -
  obtain g w1 where g: "GetStudyRow env k w = (g, w1)" by fastforce
  note g' = GetStudyRow_effect [OF g]
  show thesis
  proof (cases g)
    case (Inl e)
    then show thesis using assms g g' idle by (auto simp: RunOnce_def)
  next
    case (Inr m)
    show thesis
    proof (cases "(tenant \<noteq> [] \<and> sr_TenantID m \<noteq> tenant) \<or> \<not> studyIsActive (toDomainStudy m)")
      case True
      then show thesis using assms g g' Inr idle by (auto simp: RunOnce_def Let_def split: if_splits)
    next
      case False
      obtain l w2 where l: "ListTrialRows env k w1 = (l, w2)" by fastforce
      note l' = ListTrialRows_effect [OF l]
      show thesis
      proof (cases l)
        case (Inl e)
        then show thesis using assms g g' Inr False l l' idle by (auto simp: RunOnce_def Let_def)
      next
        case (Inr ts)
        obtain b w3 where b: "quotaAvailable env (sr_TenantID m) w2 = (b, w3)" by fastforce
        note b' = quotaAvailable_effect [OF b]
        define ctx where "ctx = \<lparr>sc_QuotaAvailable = b, sc_Now = hx_time env (hw_tick w3), sc_Rand = hx_rand env (hw_tick w3)\<rparr>"
        have "(case NextActions (hx_ops env) (hx_text env) (toDomainStudy m) ts ctx of
            None \<Rightarrow> None | Some acts \<Rightarrow> Some (applyActions env (toDomainStudy m) acts (tickH w3))) = Some (r, w')"
        proof -
          have "(tenant \<noteq> [] \<and> sr_TenantID m \<noteq> tenant) = False" and "studyIsActive (toDomainStudy m)" using False by auto
          then show ?thesis using assms g Inr l b \<open>g = Inr m\<close>
            by (cases "tenant = []") (simp_all add: RunOnce_def Let_def ctx_def)
        qed
        then obtain as where as: "NextActions (hx_ops env) (hx_text env) (toDomainStudy m) ts ctx = Some as"
            "applyActions env (toDomainStudy m) as (tickH w3) = (r, w')" by (auto split: option.splits)
        have w3: "hw_trials w3 = hw_trials w" "hw_studies w3 = hw_studies w" "hw_train w3 = hw_train w"
          using g' l' b' by auto
        have ts: "ts = trialsOf k w" using g' l' Inr by simp
        show thesis
          by (rule acts [of m ctx as "tickH w3"]) (use as ts w3 g' \<open>g = Inr m\<close> False in auto)
      qed
    qed
  qed
qed

lemma RunOnce_budget:
  assumes "RunOnce env tenant k w = Some (r, w')" and "budgets w"
  shows "budgets w'"
  using assms(1)
proof (cases rule: RunOnce_cases)
  case idle
  then show ?thesis using assms(2) budgets_same sameCounts_refl by blast
next
  case (acts m as ctx w1)
  have key: "sr_ID m = k" using acts(1) by (rule tfind_key)
  have b1: "budgets w1" using budgets_same [OF assms(2) sameCounts_refl] acts by simp
  have c1: "trialCount k w1 = trialCount k w" by (simp add: trialCount_filter acts(5))
  show ?thesis
  proof (cases "\<exists>p. SpawnTrial p \<in> set as")
    case True
    then obtain p where p: "SpawnTrial p \<in> set as" by blast
    from NextActions_spawn [OF acts(3) this] have as: "as = [SpawnTrial p]"
        and room: "0 < sr_MaxTrials m \<longrightarrow> int (trialCount k w) < sr_MaxTrials m" by (auto simp: trialCount_def)
    obtain q w2 where q: "spawnTrial env (toDomainStudy m) p w1 = (q, w2)" by fastforce
    have "w2 = w'" using acts(4) q as by (auto simp: applyAction_def bindH_def split: sum.splits)
    then show ?thesis
      using spawnTrial_budget [OF q b1] room acts(1) key c1 by (auto simp: acts(6))
  next
    case False
    have "sameCounts w1 w'"
      by (rule applyActions_counts [OF acts(4)]) (use False acts key in auto)
    then show ?thesis using b1 budgets_same by blast
  qed
qed

text \<open>What happens to studies and trials after they have been created.\<close>

datatype HpoOp = OpRun string string | OpReport string string int f64 | OpFinal string string f64 | OpJobEnd string string

definition runOp :: "HpoEnv \<Rightarrow> HpoOp \<Rightarrow> HpoWorld \<Rightarrow> HpoWorld option" where
  "runOp env op w =
     (case op of
        OpRun tenant k \<Rightarrow> map_option snd (RunOnce env tenant k w)
      | OpReport tenant k step v \<Rightarrow> map_option snd (ReportH env tenant k step v w)
      | OpFinal tenant k v \<Rightarrow> Some (snd (ReportFinal env tenant k v w))
      | OpJobEnd jobID st \<Rightarrow> map_option snd (OnJobTerminal env jobID st w))"

primrec runOps :: "HpoEnv \<Rightarrow> HpoOp list \<Rightarrow> HpoWorld \<Rightarrow> HpoWorld option" where
  "runOps env [] w = Some w"
| "runOps env (op # ops) w = (case runOp env op w of None \<Rightarrow> None | Some w \<Rightarrow> runOps env ops w)"

lemma ReportFinal_counts: "sameCounts w (snd (ReportFinal env tenant k v w))"
proof -
  obtain g w1 where g: "GetTrialRow env k w = (g, w1)" by fastforce
  note g' = GetTrialRow_effect [OF g]
  show ?thesis
  proof (cases g)
    case (Inl e)
    then show ?thesis using g g' by (auto simp: ReportFinal_def bindH_def intro: sameCounts_refl)
  next
    case (Inr t)
    obtain q w2 where q: "saveTrial env (t\<lparr>tr_Value := Some v, tr_Status := TrialCompleted\<rparr>) w1 = (q, w2)" by fastforce
    from saveTrial_counts [OF q, of t] have "sameCounts w1 w2" using g' Inr by (auto dest: tfind_key)
    moreover have "sameCounts w w1" using g' by (auto intro: sameCounts_refl)
    moreover have "sameCounts w2 (syncRunFinal env x y w2)" for x y by (rule sameCounts_refl) (simp_all add: syncRunFinal_def)
    ultimately show ?thesis using g Inr q
      by (auto simp: ReportFinal_def bindH_def split: sum.splits intro: sameCounts_trans)
  qed
qed

lemma shouldPrune_effect: "shouldPrune env t w = Some (b, w') \<Longrightarrow> hw_trials w' = hw_trials w \<and> hw_studies w' = hw_studies w"
  by (auto simp: shouldPrune_def Let_def split: prod.splits sum.splits if_splits dest!: GetStudyRow_effect ListTrialRows_effect)

lemma persistReport_effect: "hw_trials (snd (persistReport env rep w)) = hw_trials w \<and> hw_studies (snd (persistReport env rep w)) = hw_studies w"
proof -
  obtain r w' where "persistReport env rep w = (r, w')" by fastforce
  then show ?thesis by (auto simp: persistReport_def CreateReport_def split: if_splits dest!: stepH_effect)
qed

lemma ReportH_counts:
  assumes "ReportH env tenant k step v w = Some (r, w')"
  shows "sameCounts w w'"
proof -
  obtain g w1 where g: "GetTrialRow env k w = (g, w1)" by fastforce
  note g' = GetTrialRow_effect [OF g]
  have 1: "sameCounts w w1" using g' by (auto intro: sameCounts_refl)
  show ?thesis
  proof (cases g)
    case (Inl e)
    then show ?thesis using assms g 1 by (simp add: ReportH_def)
  next
    case (Inr t)
    let ?t = "t\<lparr>tr_Intermediate := tr_Intermediate t @ [\<lparr>rp_Step = step, rp_Value = v\<rparr>]\<rparr>"
    obtain q w2 where q: "saveTrial env ?t w1 = (q, w2)" by fastforce
    from saveTrial_counts [OF q, of t] have 2: "sameCounts w1 w2" using g' Inr by (auto dest: tfind_key)
    show ?thesis
    proof (cases q)
      case (Inl e)
      then show ?thesis using assms g \<open>g = Inr t\<close> q 1 2 by (auto simp: ReportH_def Let_def intro: sameCounts_trans)
    next
      case (Inr u)
      define rep where "rep = \<lparr>rw_ID = hx_id env (hw_tick w1), rw_TrialID = k, rw_StudyID = tr_StudyID ?t, rw_Step = step, rw_Value = v\<rparr>"
      have "(case shouldPrune env ?t (snd (persistReport env rep w2)) of None \<Rightarrow> None
            | Some (stop, w) \<Rightarrow> Some (Inr stop, if stop then snd (stopTrialByID env ?t w) else w)) = Some (r, w')"
        using assms g \<open>g = Inr t\<close> q Inr by (simp add: ReportH_def Let_def rep_def)
      then obtain stop w3 where 3: "shouldPrune env ?t (snd (persistReport env rep w2)) = Some (stop, w3)"
          and w': "w' = (if stop then snd (stopTrialByID env ?t w3) else w3)" by (auto split: option.splits)
      have 23: "sameCounts w2 w3" using shouldPrune_effect [OF 3] persistReport_effect [of env rep w2] by (auto intro: sameCounts_refl)
      have "sameCounts w3 w'"
      proof (cases stop)
        case True
        obtain m w4 where m: "GetStudyRow env (tr_StudyID ?t) w3 = (m, w4)" by fastforce
        have 4: "sameCounts w3 w4" using GetStudyRow_effect [OF m] by (auto intro: sameCounts_refl)
        obtain x w5 where x: "stopTrial env (tr_ID ?t) w4 = (x, w5)" by fastforce
        show ?thesis using True w' m x 4 stopTrial_counts [OF x]
          by (auto simp: stopTrialByID_def bindH_def split: sum.splits intro: sameCounts_trans)
      qed (use w' in \<open>auto intro: sameCounts_refl\<close>)
      then show ?thesis using 1 2 23 sameCounts_trans by blast
    qed
  qed
qed

lemma OnJobTerminal_cases:
  assumes "OnJobTerminal env jobID st w = Some (r, w')"
  obtains (same) "hw_trials w' = hw_trials w" "hw_studies w' = hw_studies w"
  | (saved) t t' q w1 w2 where "t \<in> set (hw_trials w)" "tr_JobID t = jobID" "tfind tr_ID (hw_trials w) (tr_ID t) = Some t'"
      "hw_trials w1 = hw_trials w" "hw_studies w1 = hw_studies w"
      "saveTrial env (t'\<lparr>tr_Status := statusOfRun st\<rparr>) w1 = (q, w2)"
      "w' = w2 \<or> RunOnce env [] (tr_StudyID t') w2 = Some (r, w')"
proof -
  obtain g w0 where g: "GetTrialByJobID env jobID w = (g, w0)" by fastforce
  have g': "w0 = tickH w \<and> (\<forall>t. g = Inr t \<longrightarrow> t \<in> set (hw_trials w) \<and> tr_JobID t = jobID)"
  proof -
    define ts where "ts = sort_key tr_ID (filter (\<lambda>t. tr_JobID t = jobID) (hw_trials w))"
    have mem: "\<forall>t \<in> set ts. t \<in> set (hw_trials w) \<and> tr_JobID t = jobID" by (auto simp: ts_def)
    from stepH_effect [OF g [unfolded GetTrialByJobID_def]] show ?thesis
      by (simp only: ts_def [symmetric]) (use mem in \<open>cases ts; auto\<close>)
  qed
  show thesis
  proof (cases g)
    case (Inl e)
    then show thesis using assms g g' same by (cases e) (auto simp: OnJobTerminal_def)
  next
    case (Inr t)
    obtain h w1 where h: "GetTrialRow env (tr_ID t) w0 = (h, w1)" by fastforce
    note h' = GetTrialRow_effect [OF h]
    have run: "OnRunCompleted env (tr_ID t) st None w0 = Some (r, w')" using assms g Inr by (simp add: OnJobTerminal_def)
    show thesis
    proof (cases h)
      case (Inl e)
      then show thesis using run h h' g' same by (auto simp: OnRunCompleted_def)
    next
      case (Inr t')
      obtain q w2 where q: "saveTrial env (t'\<lparr>tr_Status := statusOfRun st\<rparr>) w1 = (q, w2)" by fastforce
      have "w' = w2 \<or> RunOnce env [] (tr_StudyID t') w2 = Some (r, w')"
        using run h Inr q by (cases q) (auto simp: OnRunCompleted_def Let_def)
      then show thesis using saved [of t t' w1 q w2] q g' h' Inr \<open>g = Inr t\<close> by auto
    qed
  qed
qed

lemma runOp_budget:
  assumes "runOp env op w = Some w'" and "budgets w"
  shows "budgets w'"
proof (cases op)
  case (OpRun tenant k)
  then show ?thesis using assms RunOnce_budget by (fastforce simp: runOp_def)
next
  case (OpReport tenant k step v)
  then show ?thesis using assms ReportH_counts budgets_same by (fastforce simp: runOp_def)
next
  case (OpFinal tenant k v)
  then show ?thesis using assms ReportFinal_counts budgets_same by (auto simp: runOp_def)
next
  case (OpJobEnd jobID st)
  then obtain r where "OnJobTerminal env jobID st w = Some (r, w')" using assms(1) by (auto simp: runOp_def)
  then show ?thesis
  proof (cases rule: OnJobTerminal_cases)
    case same
    then show ?thesis using assms(2) budgets_same sameCounts_refl by blast
  next
    case (saved t t' q w1 w2)
    have "sameCounts w w1" using saved by (auto intro: sameCounts_refl)
    moreover have "sameCounts w1 w2" using saveTrial_counts [OF saved(6), of t'] tfind_key [OF saved(3)] saved(3, 4) by simp
    ultimately have "budgets w2" using assms(2) budgets_same by blast
    then show ?thesis using saved(7) RunOnce_budget by auto
  qed
qed

text \<open>C27: a study never has more trials than it may have.  When every study is within its number of trials, it stays so
  through any sequence of scheduling steps, reports, final reports and ends of jobs, whatever the statuses, the faults of the
  store, the refusals of the training service and the draws of the sampler.\<close>
theorem trial_budget_kept:
  assumes "budgets w" and "runOps env ops w = Some w'"
  shows "budgets w'"
  using assms
  by (induction ops arbitrary: w) (auto split: option.splits intro: runOp_budget)

section \<open>Studies that are never completed\<close>

definition healthyH :: "HpoEnv \<Rightarrow> bool" where
  "healthyH env = (\<forall>n. hx_fault env n = None)"

lemma stepH_healthy: "healthyH env \<Longrightarrow> stepH env op w = (let (r, w) = op w in (r, tickH w))"
  by (simp add: stepH_def healthyH_def faultH_def)

text \<open>All trials have been spawned and none runs, but fewer of them count as finished than the study asks for.\<close>

definition blocked :: "string \<Rightarrow> HpoWorld \<Rightarrow> bool" where
  "blocked k w =
     (\<exists>m. tfind sr_ID (hw_studies w) k = Some m \<and> studyIsActive (toDomainStudy m) \<and> sy_MaxDuration (toDomainStudy m) \<le> 0 \<and>
        0 < sr_MaxTrials m \<and> sr_MaxTrials m \<le> int (length (trialsOf k w)) \<and>
        filter isRunning (trialsOf k w) = [] \<and>
        int (completedCount (trialsOf k w) + failedCount (trialsOf k w)) < sr_MaxTrials m)"

lemma NextActions_blocked:
  assumes "studyIsActive s" and "sy_MaxDuration s \<le> 0" and "0 < sy_MaxTrials s" and "sy_MaxTrials s \<le> int (length trials)"
    and "filter isRunning trials = []" and "int (completedCount trials + failedCount trials) < sy_MaxTrials s"
  shows "\<exists>r. NextActions ops text s trials ctx = Some [Noop r]"
proof -
  have "runningCount trials = 0" using assms(5) by (simp add: runningCount_filter)
  then show ?thesis using assms by (auto simp: NextActions_def spawnOrWait_def expired_def Let_def)
qed

lemma RunOnce_blocked:
  assumes "blocked k w"
  shows "\<exists>r w'. RunOnce env tenant k w = Some (r, w') \<and> hw_trials w' = hw_trials w \<and> hw_studies w' = hw_studies w"
proof -
  obtain m where m: "tfind sr_ID (hw_studies w) k = Some m" "studyIsActive (toDomainStudy m)" "sy_MaxDuration (toDomainStudy m) \<le> 0"
      "0 < sr_MaxTrials m" "sr_MaxTrials m \<le> int (length (trialsOf k w))" "filter isRunning (trialsOf k w) = []"
      "int (completedCount (trialsOf k w) + failedCount (trialsOf k w)) < sr_MaxTrials m"
    using assms unfolding blocked_def by blast
  have noop: "\<exists>r. NextActions (hx_ops env) (hx_text env) (toDomainStudy m) (trialsOf k w) ctx = Some [Noop r]" for ctx
    by (rule NextActions_blocked) (use m in auto)
  have "RunOnce env tenant k w \<noteq> None"
  proof -
    obtain g w1 where g: "GetStudyRow env k w = (g, w1)" by fastforce
    obtain l w2 where l: "ListTrialRows env k w1 = (l, w2)" by fastforce
    obtain b w3 where b: "quotaAvailable env (sr_TenantID m) w2 = (b, w3)" by fastforce
    have "g = Inr m" if "g = Inr m'" for m' using GetStudyRow_effect [OF g] that m(1) by simp
    moreover have "l = Inr (trialsOf k w)" if "l = Inr ts" for ts
      using GetStudyRow_effect [OF g] ListTrialRows_effect [OF l] that by simp
    ultimately show ?thesis using g l b
        noop [of "\<lparr>sc_QuotaAvailable = b, sc_Now = hx_time env (hw_tick w3), sc_Rand = hx_rand env (hw_tick w3)\<rparr>"]
      by (cases g; cases l) (auto simp: RunOnce_def Let_def)
  qed
  then obtain r w' where run: "RunOnce env tenant k w = Some (r, w')" by auto
  then show ?thesis
  proof (cases rule: RunOnce_cases)
    case idle
    then show ?thesis using run by blast
  next
    case (acts m' as ctx w1)
    then have "m' = m" using m(1) by simp
    then obtain x where "as = [Noop x]" using noop [of ctx] acts(3) by auto
    then have "w' = w1" using acts(4) by (simp add: applyAction_def bindH_def)
    then show ?thesis using run acts(5, 6) by auto
  qed
qed

lemma blocked_same: "blocked k w \<Longrightarrow> hw_trials w' = hw_trials w \<Longrightarrow> hw_studies w' = hw_studies w \<Longrightarrow> blocked k w'"
  by (simp add: blocked_def trialsOf_def)

primrec schedule :: "HpoEnv \<Rightarrow> string \<Rightarrow> string list \<Rightarrow> HpoWorld \<Rightarrow> HpoWorld option" where
  "schedule env k [] w = Some w"
| "schedule env k (tenant # ts) w = (case RunOnce env tenant k w of None \<Rightarrow> None | Some (_, w) \<Rightarrow> schedule env k ts w)"

lemma schedule_blocked:
  assumes "blocked k w"
  shows "\<exists>w'. schedule env k ts w = Some w' \<and> blocked k w' \<and> hw_trials w' = hw_trials w \<and> hw_studies w' = hw_studies w"
  using assms
proof (induction ts arbitrary: w)
  case (Cons t ts)
  obtain r w1 where w1: "RunOnce env t k w = Some (r, w1)" "hw_trials w1 = hw_trials w" "hw_studies w1 = hw_studies w"
    using RunOnce_blocked [OF Cons.prems] by blast
  from Cons.IH [OF blocked_same [OF Cons.prems w1(2, 3)]] show ?case using w1 by auto
qed simp

lemma countStatus_less:
  assumes "t \<in> set ts" and "tr_Status t \<notin> S"
  shows "countStatus S ts < length ts"
  using assms by (induction ts) (auto simp: countStatus_def less_Suc_eq_le)

lemma finished_less:
  assumes "t \<in> set ts" and "tr_Status t = TrialCancelled"
  shows "completedCount ts + failedCount ts < length ts"
proof -
  have "completedCount ts + failedCount ts = countStatus {TrialCompleted, TrialFailed, TrialPruned} ts"
    unfolding completedCount_def failedCount_def countStatus_def by (induction ts) auto
  then show ?thesis using countStatus_less [OF assms(1)] assms(2) by simp
qed

text \<open>a pruned trial keeps its study open for ever.  Early stopping cancels the job of a trial and marks the trial pruned,
  which counts as finished; the event of the cancelled job then marks it cancelled, which does not.  With all trials of the
  study spawned and none running, no later scheduling step, at any time, changes a trial or the study: it stays active and is
  never completed, where without the event it would have been.\<close>
theorem pruned_trial_blocks_study:
  assumes "healthyH env" and "tunique tr_ID (hw_trials w)"
    and study: "tfind sr_ID (hw_studies w) k = Some m" "studyIsActive (toDomainStudy m)" "sr_MaxDurationSec m = 0"
      "0 < sr_MaxTrials m" "int (length (trialsOf k w)) = sr_MaxTrials m" "filter isRunning (trialsOf k w) = []"
    and trial: "t \<in> set (hw_trials w)" "tr_StudyID t = k" "tr_Status t = TrialPruned" "toModelTrial (hx_ops env) t = Some t"
    and job: "filter (\<lambda>x. tr_JobID x = tr_JobID t) (hw_trials w) = [t]"
  shows "\<exists>r w1. OnJobTerminal env (tr_JobID t) ''cancelled'' w = Some (r, w1) \<and>
     (\<forall>tenants. \<exists>w2. schedule env k tenants w1 = Some w2 \<and> hw_studies w2 = hw_studies w \<and> hw_trials w2 = hw_trials w1)"
proof -
  have found: "tfind tr_ID (hw_trials w) (tr_ID t) = Some t" using tfind_unique assms(2) trial(1) by fastforce
  define row where "row = t\<lparr>tr_Status := TrialCancelled\<rparr>"
  have st: "statusOfRun ''cancelled'' = TrialCancelled" by (simp add: statusOfRun_def Let_def)
  have model: "toModelTrial (hx_ops env) row = Some row"
    using trial(4) by (cases t) (auto simp: toModelTrial_def row_def split: option.splits if_splits)
  define w1 where "w1 = tickH ((tickH (tickH w))\<lparr>hw_trials := tupsert tr_ID row (hw_trials w)\<rparr>)"
  have event: "OnJobTerminal env (tr_JobID t) ''cancelled'' w = RunOnce env [] k w1"
    using job found model trial(2)
    by (simp add: OnJobTerminal_def OnRunCompleted_def GetTrialByJobID_def GetTrialRow_def stepH_healthy [OF assms(1)] st
        saveTrial_def UpdateTrialRow_def w1_def Let_def flip: row_def)
  have trials: "hw_trials w1 = tsave tr_ID row (hw_trials w)"
    using trial(1) by (auto simp: w1_def tupsert_def list_ex_iff row_def)
  have mem: "x = row \<or> x \<in> set (hw_trials w) \<and> x \<noteq> t" if "x \<in> set (hw_trials w1)" for x
    using that by (auto simp: trials tsave_def row_def)
  have rowin: "row \<in> set (trialsOf k w1)"
    using trial(1, 2) by (auto simp: trialsOf_def trials tsave_def row_def image_iff)
  have "length (trialsOf k w1) = length (trialsOf k w)"
    using tupsert_count [OF assms(2), of row t k] found by (simp add: trialsOf_def row_def w1_def)
  moreover have "filter isRunning (trialsOf k w1) = []"
    using study(6) mem by (fastforce simp: filter_empty_conv trialsOf_def row_def isRunning_def)
  moreover have "completedCount (trialsOf k w1) + failedCount (trialsOf k w1) < length (trialsOf k w1)"
    by (rule finished_less [OF rowin]) (simp add: row_def)
  moreover have "hw_studies w1 = hw_studies w" by (simp add: w1_def)
  moreover have "sy_MaxDuration (toDomainStudy m) = 0" using study(3) by (simp add: toDomainStudy_def i64_def)
  ultimately have b: "blocked k w1" using study by (simp add: blocked_def)
  obtain r w2 where w2: "RunOnce env [] k w1 = Some (r, w2)" "hw_trials w2 = hw_trials w1" "hw_studies w2 = hw_studies w1"
    using RunOnce_blocked [OF b] by blast
  have "\<exists>w3. schedule env k tenants w2 = Some w3 \<and> hw_studies w3 = hw_studies w \<and> hw_trials w3 = hw_trials w2" for tenants
    using schedule_blocked [OF blocked_same [OF b w2(2, 3)]] w2 \<open>hw_studies w1 = hw_studies w\<close> by metis
  then show ?thesis using event w2 by auto
qed

definition demoHEnv :: HpoEnv where
  "demoHEnv = \<lparr>hx_ops = exactOps, hx_time = (\<lambda>n. int n + 1), hx_id = (\<lambda>n. ''id'' @ showNat n), hx_fault = (\<lambda>_. None),
     hx_rand = (\<lambda>_. \<lparr>rd_Float = (\<lambda>_. Fin 0), rd_Intn = (\<lambda>_ _. 0)\<rparr>),
     hx_text = (\<lambda>e. case e of SamplerExhausted _ _ \<Rightarrow> ''search space exhausted'' | _ \<Rightarrow> ''invalid''), hx_show = (\<lambda>_. ''v''),
     hx_train = demoTrainEnv, hx_runs = demoXEnv, hx_hasQuota = False, hx_hasReports = False\<rparr>"

definition demoRow :: StudyRow where
  "demoRow = \<lparr>sr_ID = ''study_1'', sr_TenantID = ''acme'', sr_ExperimentID = [], sr_Name = ''lr'', sr_Algorithm = ''grid'',
     sr_Objective = \<lparr>ob_MetricName = ''acc'', ob_Direction = DirectionMaximize\<rparr>, sr_Space = demoSpace, sr_MaxTrials = 1,
     sr_MaxParallel = 1, sr_MaxDurationSec = 0, sr_EarlyStop = None, sr_Template = None, sr_Status = StudyPending,
     sr_BestTrialID = [], sr_CreatedAt = 1, sr_UpdatedAt = 1\<rparr>"

definition demoHWorld :: "Trial list \<Rightarrow> HpoWorld" where
  "demoHWorld ts = \<lparr>hw_studies = [demoRow], hw_trials = ts, hw_reports = [], hw_runs = demoXWorld, hw_train = demoTrWorld, hw_tick = 0\<rparr>"

lemma demoHEnv_healthy: "healthyH demoHEnv"
  by (simp add: healthyH_def demoHEnv_def)

lemmas demo_hpo = demoHEnv_def demoRow_def demoHWorld_def demoTrial_def tunique_def trialsOf_def

theorem trial_budget_kept_witness:
  "(case runOps demoHEnv [OpFinal ''acme'' ''a'' (Fin 1), OpRun ''acme'' ''study_1'']
       (demoHWorld [demoTrial ''a'' 1 TrialRunning None]) of None \<Rightarrow> False | Some w \<Rightarrow> budgets w)"
proof -
  let ?w = "demoHWorld [demoTrial ''a'' 1 TrialRunning None]"
  have b: "budgets ?w" by (simp add: budgets_def trialCount_def demo_hpo)
  have "runOps demoHEnv [OpFinal ''acme'' ''a'' (Fin 1), OpRun ''acme'' ''study_1''] ?w \<noteq> None"
    by (simp add: runOp_def ReportFinal_def RunOnce_def bindH_def GetTrialRow_def GetStudyRow_def ListTrialRows_def
        stepH_def faultH_def saveTrial_def toModelTrial_def UpdateTrialRow_def tupsert_def demo_hpo tickH_def toDomainStudy_def
        studyIsActive_def quotaAvailable_def NextActions_def isRunning_def expired_def completedCount_def failedCount_def
        countStatus_def i64_def Let_def split: option.split prod.split)
  then show ?thesis using trial_budget_kept [OF b] by (auto split: option.split simp del: runOps.simps)
qed

theorem pruned_trial_blocks_study_witness:
  "\<exists>r w1. OnJobTerminal demoHEnv ''job_1'' ''cancelled''
       (demoHWorld [(demoTrial ''a'' 1 TrialPruned None)\<lparr>tr_JobID := ''job_1''\<rparr>]) = Some (r, w1) \<and>
     (\<forall>tenants. \<exists>w2. schedule demoHEnv ''study_1'' tenants w1 = Some w2 \<and> hw_studies w2 = [demoRow] \<and> hw_trials w2 = hw_trials w1)"
proof -
  let ?t = "(demoTrial ''a'' 1 TrialPruned None)\<lparr>tr_JobID := ''job_1''\<rparr>"
  have "\<exists>r w1. OnJobTerminal demoHEnv (tr_JobID ?t) ''cancelled'' (demoHWorld [?t]) = Some (r, w1) \<and>
     (\<forall>tenants. \<exists>w2. schedule demoHEnv ''study_1'' tenants w1 = Some w2 \<and> hw_studies w2 = hw_studies (demoHWorld [?t])
        \<and> hw_trials w2 = hw_trials w1)"
    by (rule pruned_trial_blocks_study [OF demoHEnv_healthy, where m = demoRow])
      (simp_all add: demo_hpo studyIsActive_def toDomainStudy_def isRunning_def toModelTrial_def)
  then show ?thesis by (simp add: demoHWorld_def)
qed

section \<open>Tenants\<close>

text \<open>reports are not bound to the tenant.  A trial that the caller's tenant cannot read, because its study belongs to
  another tenant, is completed by that caller with any value: the final report never looks at the tenant it is given.\<close>
theorem final_report_crosses_tenants:
  assumes "healthyH env" and "tfind tr_ID (hw_trials w) k = Some t" and "toModelTrial (hx_ops env) t = Some t"
    and "tfind sr_ID (hw_studies w) (tr_StudyID t) = Some m" and "sr_TenantID m \<noteq> tenant"
  shows "fst (GetTrial env tenant (tr_StudyID t) k w) = Inl HeNotFound \<and>
         fst (ReportFinal env tenant k v w) = Inr () \<and>
         tfind tr_ID (hw_trials (snd (ReportFinal env tenant k v w))) k = Some (t\<lparr>tr_Value := Some v, tr_Status := TrialCompleted\<rparr>)"
proof -
  have key: "tr_ID t = k" using assms(2) by (rule tfind_key)
  have "toModelTrial (hx_ops env) (t\<lparr>tr_Value := Some v, tr_Status := TrialCompleted\<rparr>) =
      Some (t\<lparr>tr_Value := Some v, tr_Status := TrialCompleted\<rparr>)"
    using assms(3) by (cases t) (auto simp: toModelTrial_def split: option.splits if_splits)
  then show ?thesis using assms key
    by (simp add: GetTrial_def GetStudy_def ReportFinal_def GetStudyRow_def GetTrialRow_def saveTrial_def UpdateTrialRow_def
        stepH_healthy bindH_def Let_def syncRunFinal_def tfind_tupsert)
qed

theorem final_report_crosses_tenants_witness:
  "fst (ReportFinal demoHEnv ''rival'' ''a'' (Fin 99) (demoHWorld [demoTrial ''a'' 1 TrialRunning None])) = Inr ()"
  using final_report_crosses_tenants [OF demoHEnv_healthy,
      of "demoHWorld [demoTrial ''a'' 1 TrialRunning None]" "''a''" "demoTrial ''a'' 1 TrialRunning None" demoRow "''rival''" "Fin 99"]
  by (simp add: demo_hpo toModelTrial_def)

section \<open>What is left behind\<close>

text \<open>Deleting a study cancels none of its training jobs.\<close>

lemma stepH_train: "(\<And>w. hw_train (snd (op w)) = hw_train w) \<Longrightarrow> hw_train (snd (stepH env op w)) = hw_train w"
  by (auto simp: stepH_def case_prod_unfold Let_def split: option.split)

lemma bindH_train:
  "hw_train (snd m) = t \<Longrightarrow> (\<And>x w. hw_train (snd (f x w)) = hw_train w) \<Longrightarrow> hw_train (snd (bindH m f)) = t"
  by (auto simp: bindH_def split: prod.splits sum.splits)

lemma DeleteStudy_keeps_jobs: "hw_train (snd (DeleteStudy env tenant k w)) = hw_train w"
  unfolding DeleteStudy_def DeleteTrialsByStudy_def GetStudyRow_def DeleteStudyRow_def
  by (auto intro!: bindH_train stepH_train)

text \<open>A grid study is closed as exhausted while a trial of it still runs.\<close>

lemma grid_study_closed_early:
  assumes "studyIsActive s" and "\<not> expired s (sc_Now ctx)" and "sc_QuotaAvailable ctx" and "sy_Algorithm s = ''grid''"
    and "int (runningCount trials) < sy_MaxParallel s" and "runningCount trials \<noteq> 0" and "int (length trials) < sy_MaxTrials s"
    and "SpaceValidate ops (sy_Space s) = None" and "totalCombinations ops (sy_Space s) \<le> int (length trials)"
    and "\<And>i n. isExhausted text (SamplerExhausted i n)"
  shows "NextActions ops text s trials ctx = Some [CompleteStudy ''search space exhausted'']"
proof -
  have "spawnOrWait ops text s trials ctx = Some [CompleteStudy ''search space exhausted'']"
    using assms by (simp add: spawnOrWait_def suggestBy_def gridSuggest_def Let_def)
  then show ?thesis using assms(1, 2, 5, 6) by (auto simp: NextActions_def Let_def runningCount_filter)
qed

end
