(* ===== verification/Evaluation.thy ===== *)
theory Evaluation
  imports HpoDomain "HOL-Library.AList"
begin

text \<open>
  Evaluations and their reviews: \<^verbatim>\<open>domain/evaluation\<close> and the judge client \<^verbatim>\<open>llmjudge/client.go\<close>.  Reading and writing
  JSON, the formatting of numbers and quoted names and the HTTP call are arguments; the arithmetic that rounds is the
  argument \<^verbatim>\<open>HpoFloats\<close>.  A map is an association list in the order a loop visits it.
\<close>

section \<open>Data\<close>

definition EvalPending :: string where "EvalPending = ''pending''"
definition EvalRunning :: string where "EvalRunning = ''running''"
definition EvalCompleted :: string where "EvalCompleted = ''completed''"
definition EvalFailed :: string where "EvalFailed = ''failed''"
definition JudgeModeThreshold :: string where "JudgeModeThreshold = ''threshold''"
definition JudgeModeHuman :: string where "JudgeModeHuman = ''human''"
definition JudgeModeLLM :: string where "JudgeModeLLM = ''llm''"
definition JudgeModeHybrid :: string where "JudgeModeHybrid = ''hybrid''"
definition JudgeTypeHuman :: string where "JudgeTypeHuman = ''human''"
definition JudgeTypeLLM :: string where "JudgeTypeLLM = ''llm''"
definition VerdictPass :: string where "VerdictPass = ''pass''"
definition VerdictFail :: string where "VerdictFail = ''fail''"
definition VerdictPending :: string where "VerdictPending = ''pending''"

lemmas ev_consts = EvalPending_def EvalRunning_def EvalCompleted_def EvalFailed_def JudgeModeThreshold_def JudgeModeHuman_def
  JudgeModeLLM_def JudgeModeHybrid_def JudgeTypeHuman_def JudgeTypeLLM_def VerdictPass_def VerdictFail_def VerdictPending_def

record Criterion =
  ct_Op :: string
  ct_Value :: f64

record Dimension =
  dm_Name :: string
  dm_Weight :: f64
  dm_Description :: string

record DimensionReport =
  dr_Name :: string
  dr_Description :: string
  dr_Weight :: f64
  dr_Average :: f64
  dr_ByJudgeType :: "(string \<times> f64) list"

record JudgeTypeSummary =
  js_Count :: int
  js_Overall :: f64

record Review =
  rv_ID :: string
  rv_EvaluationID :: string
  rv_TenantID :: string
  rv_JudgeType :: string
  rv_JudgeID :: string
  rv_Scores :: string
  rv_Comment :: string
  rv_CreatedAt :: time

record EvReport =
  rp_EvaluationID :: string
  rp_JudgeMode :: string
  rp_Status :: string
  rp_Verdict :: string
  rp_Dimensions :: "DimensionReport list"
  rp_Overall :: f64
  rp_ByJudgeType :: "(string \<times> JudgeTypeSummary) list"
  rp_Reviews :: "Review list"
  rp_Criteria :: string
  rp_GeneratedAt :: time

record Eval =
  ev_ID :: string
  ev_Name :: string
  ev_Task :: string
  ev_Dataset :: string
  ev_ExperimentID :: string
  ev_RunID :: string
  ev_ModelID :: string
  ev_Criteria :: string
  ev_Metrics :: string
  ev_Score :: f64
  ev_Passed :: bool
  ev_Status :: string
  ev_FailReason :: string
  ev_TenantID :: string
  ev_CreatedBy :: string
  ev_JudgeMode :: string
  ev_Dimensions :: string
  ev_Report :: string
  ev_CreatedAt :: time

record EvCreateInput =
  ei_ID :: string
  ei_Name :: string
  ei_Task :: string
  ei_Dataset :: string
  ei_ExperimentID :: string
  ei_RunID :: string
  ei_ModelID :: string
  ei_Criteria :: string
  ei_TenantID :: string
  ei_CreatedBy :: string
  ei_JudgeMode :: string
  ei_Dimensions :: string

text \<open>What the standard library does with JSON and formats.\<close>

record EvText =
  et_dims :: "string \<Rightarrow> string + Dimension list"
  et_criteria :: "string \<Rightarrow> string + (string \<times> Criterion) list"
  et_scores :: "string \<Rightarrow> string \<Rightarrow> f64 option"
  et_metricsJSON :: "(string \<times> f64) list \<Rightarrow> string option"
  et_reportJSON :: "EvReport \<Rightarrow> string option"
  et_reportOf :: "string \<Rightarrow> EvReport option"
  et_scoresJSON :: "(string \<times> f64) list \<Rightarrow> string + string"
  et_num :: "f64 \<Rightarrow> string"
  et_quote :: "string \<Rightarrow> string"

definition mustJSON :: "string option \<Rightarrow> string" where
  "mustJSON r = (case r of None \<Rightarrow> ''{}'' | Some s \<Rightarrow> s)"

section \<open>Dimensions and criteria\<close>

primrec weightLoop :: "'a HpoFloats_scheme \<Rightarrow> EvText \<Rightarrow> f64 \<Rightarrow> Dimension list \<Rightarrow> string + f64" where
  "weightLoop ops tx acc [] = Inr acc"
| "weightLoop ops tx acc (d # ds) =
     (if fle (dm_Weight d) pZero
      then Inl (''dimension '' @ et_quote tx (dm_Name d) @ '' has non-positive weight '' @ et_num tx (dm_Weight d))
      else weightLoop ops tx (fo_add ops acc (dm_Weight d)) ds)"

definition ParseDimensions :: "'a HpoFloats_scheme \<Rightarrow> EvText \<Rightarrow> string \<Rightarrow> string + Dimension list" where
  "ParseDimensions ops tx raw =
     (let raw = TrimSpace raw in
      if raw = [] then Inr []
      else case et_dims tx raw of
        Inl e \<Rightarrow> Inl e
      | Inr dims \<Rightarrow> (case weightLoop ops tx pZero dims of
          Inl e \<Rightarrow> Inl e
        | Inr wsum \<Rightarrow> Inr (if flt pZero wsum \<and> \<not> feq wsum (Fin 1)
                         then map (\<lambda>d. d\<lparr>dm_Weight := fo_div ops (dm_Weight d) wsum\<rparr>) dims else dims)))"

definition parseCriteria :: "EvText \<Rightarrow> string \<Rightarrow> string + (string \<times> Criterion) list" where
  "parseCriteria tx raw = (let raw = TrimSpace raw in if raw = [] then Inr [] else et_criteria tx raw)"

definition ParseCriteria :: "EvText \<Rightarrow> string \<Rightarrow> string + (string \<times> Criterion) list" where
  "ParseCriteria = parseCriteria"

definition satisfies :: "f64 \<Rightarrow> Criterion \<Rightarrow> bool" where
  "satisfies v c =
     (if ct_Op c = ''>='' then fle (ct_Value c) v
      else if ct_Op c = ''<='' then fle v (ct_Value c)
      else if ct_Op c = ''>'' then flt (ct_Value c) v
      else if ct_Op c = ''<'' then flt v (ct_Value c)
      else if ct_Op c = ''=='' then feq v (ct_Value c)
      else False)"

primrec spaced :: "string list \<Rightarrow> string" where
  "spaced [] = []"
| "spaced (x # xs) = (if xs = [] then x else x @ '' '' @ spaced xs)"

definition undefinedDim :: "Dimension list \<Rightarrow> (string \<times> Criterion) list \<Rightarrow> string option" where
  "undefinedDim dims criteria =
     map_option fst (List.find (\<lambda>(name, _). name \<notin> {''overall'', ''score''} \<and> name \<notin> set (map dm_Name dims)) criteria)"

definition validateCriteriaDimensions :: "EvText \<Rightarrow> string \<Rightarrow> Dimension list \<Rightarrow> string option" where
  "validateCriteriaDimensions tx raw dims =
     (case parseCriteria tx raw of
        Inl e \<Rightarrow> Some (''parse criteria: '' @ e)
      | Inr criteria \<Rightarrow> (case undefinedDim dims criteria of
          None \<Rightarrow> None
        | Some name \<Rightarrow> Some (''criteria references undefined dimension '' @ et_quote tx name @ '' (available: ['' @
            spaced (map dm_Name dims) @ ''])'')))"

section \<open>The evaluation\<close>

definition NewEval :: "EvCreateInput \<Rightarrow> Eval" where
  "NewEval inp =
     \<lparr>ev_ID = ei_ID inp, ev_Name = ei_Name inp, ev_Task = ei_Task inp, ev_Dataset = ei_Dataset inp,
      ev_ExperimentID = ei_ExperimentID inp, ev_RunID = ei_RunID inp, ev_ModelID = ei_ModelID inp,
      ev_Criteria = ei_Criteria inp, ev_Metrics = [], ev_Score = pZero, ev_Passed = False, ev_Status = EvalPending,
      ev_FailReason = [], ev_TenantID = ei_TenantID inp, ev_CreatedBy = ei_CreatedBy inp,
      ev_JudgeMode = (if ei_JudgeMode inp = [] then JudgeModeThreshold else ei_JudgeMode inp),
      ev_Dimensions = ei_Dimensions inp, ev_Report = [], ev_CreatedAt = 0\<rparr>"

definition evFinal :: "Eval \<Rightarrow> bool" where
  "evFinal e = (ev_Status e = EvalCompleted \<or> ev_Status e = EvalFailed)"

definition finalized :: string where "finalized = ''evaluation already finalized''"

definition evMarkRunning :: "Eval \<Rightarrow> string + Eval" where
  "evMarkRunning e =
     (if ev_Status e \<noteq> EvalPending then Inl ''evaluation must be pending to start running''
      else Inr (e\<lparr>ev_Status := EvalRunning\<rparr>))"

definition evaluateMetrics :: "EvText \<Rightarrow> Eval \<Rightarrow> (string \<times> f64) list \<Rightarrow> bool" where
  "evaluateMetrics tx e metrics =
     (case parseCriteria tx (ev_Criteria e) of
        Inl _ \<Rightarrow> True
      | Inr criteria \<Rightarrow>
          list_all (\<lambda>(name, c). case map_of metrics name of None \<Rightarrow> False | Some v \<Rightarrow> satisfies v c) criteria)"

definition evRecordResult :: "EvText \<Rightarrow> (string \<times> f64) list \<Rightarrow> f64 \<Rightarrow> Eval \<Rightarrow> string + Eval" where
  "evRecordResult tx metrics score e =
     (if evFinal e then Inl finalized
      else Inr (let e = e\<lparr>ev_Metrics := mustJSON (et_metricsJSON tx metrics), ev_Score := score, ev_Status := EvalCompleted\<rparr>
                in e\<lparr>ev_Passed := evaluateMetrics tx e metrics\<rparr>))"

definition evFail :: "string \<Rightarrow> Eval \<Rightarrow> string + Eval" where
  "evFail reason e =
     (if evFinal e then Inl finalized
      else Inr (e\<lparr>ev_Status := EvalFailed, ev_FailReason := reason, ev_Passed := False\<rparr>))"

definition modeOf :: "Eval \<Rightarrow> string" where
  "modeOf e = (if ev_JudgeMode e = [] then JudgeModeThreshold else ev_JudgeMode e)"

definition modeRefuses :: "EvText \<Rightarrow> string \<Rightarrow> string \<Rightarrow> string option" where
  "modeRefuses tx mode judge =
     (if mode = JudgeModeThreshold then Some ''threshold-mode evaluation does not accept reviews''
      else if mode = JudgeModeHuman
      then (if judge \<noteq> JudgeTypeHuman then Some ''human-mode evaluation only accepts human reviews'' else None)
      else if mode = JudgeModeLLM
      then (if judge \<noteq> JudgeTypeLLM then Some ''llm-mode evaluation only accepts llm reviews'' else None)
      else if mode = JudgeModeHybrid
      then (if judge \<noteq> JudgeTypeHuman \<and> judge \<noteq> JudgeTypeLLM
            then Some ''hybrid-mode evaluation accepts only human or llm reviews'' else None)
      else Some (''unknown judge mode '' @ et_quote tx mode))"

definition AddReview :: "EvText \<Rightarrow> Review \<Rightarrow> Eval \<Rightarrow> string option" where
  "AddReview tx r e =
     (if evFinal e then Some finalized
      else case modeRefuses tx (modeOf e) (rv_JudgeType r) of
        Some err \<Rightarrow> Some err
      | None \<Rightarrow> if rv_JudgeType r = [] \<or> rv_JudgeID r = [] then Some ''review judge_type and judge_id are required''
                else None)"

section \<open>The report\<close>

type_synonym sumCount = "f64 \<times> f64"

definition accZero :: sumCount where "accZero = (pZero, pZero)"

definition accAdd :: "'a HpoFloats_scheme \<Rightarrow> f64 \<Rightarrow> sumCount \<Rightarrow> sumCount" where
  "accAdd ops v a = (fo_add ops (fst a) v, fo_add ops (snd a) (Fin 1))"

definition accMean :: "'a HpoFloats_scheme \<Rightarrow> sumCount \<Rightarrow> f64" where
  "accMean ops a = (if flt pZero (snd a) then fo_div ops (fst a) (snd a) else pZero)"

definition accOf :: "(string \<times> sumCount) list \<Rightarrow> string \<Rightarrow> sumCount" where
  "accOf m k = (case map_of m k of None \<Rightarrow> accZero | Some a \<Rightarrow> a)"

definition accAt :: "'a HpoFloats_scheme \<Rightarrow> string \<Rightarrow> f64 \<Rightarrow> (string \<times> sumCount) list \<Rightarrow> (string \<times> sumCount) list" where
  "accAt ops k v m = AList.update k (accAdd ops v (accOf m k)) m"

primrec dimLoop ::
    "'a HpoFloats_scheme \<Rightarrow> EvText \<Rightarrow> string \<Rightarrow> sumCount \<Rightarrow> (string \<times> sumCount) list \<Rightarrow> Review list \<Rightarrow>
     sumCount \<times> (string \<times> sumCount) list" where
  "dimLoop ops tx name every byType [] = (every, byType)"
| "dimLoop ops tx name every byType (rv # rvs) =
     (case et_scores tx (rv_Scores rv) name of
        None \<Rightarrow> dimLoop ops tx name every byType rvs
      | Some v \<Rightarrow> dimLoop ops tx name (accAdd ops v every) (accAt ops (rv_JudgeType rv) v byType) rvs)"

definition dimReport :: "'a HpoFloats_scheme \<Rightarrow> EvText \<Rightarrow> Review list \<Rightarrow> Dimension \<Rightarrow> DimensionReport" where
  "dimReport ops tx reviews d =
     (let (every, byType) = dimLoop ops tx (dm_Name d) accZero [] reviews in
      \<lparr>dr_Name = dm_Name d, dr_Description = dm_Description d, dr_Weight = dm_Weight d, dr_Average = accMean ops every,
       dr_ByJudgeType = map (\<lambda>(jt, a). (jt, fo_div ops (fst a) (snd a))) (filter (\<lambda>(jt, a). flt pZero (snd a)) byType)\<rparr>)"

primrec overallLoop :: "'a HpoFloats_scheme \<Rightarrow> f64 \<Rightarrow> DimensionReport list \<Rightarrow> f64" where
  "overallLoop ops acc [] = acc"
| "overallLoop ops acc (d # ds) = overallLoop ops (fo_add ops acc (fo_mul ops (dr_Average d) (dr_Weight d))) ds"

primrec reviewOverall :: "'a HpoFloats_scheme \<Rightarrow> (string \<Rightarrow> f64 option) \<Rightarrow> f64 \<Rightarrow> Dimension list \<Rightarrow> f64" where
  "reviewOverall ops scores acc [] = acc"
| "reviewOverall ops scores acc (d # ds) =
     reviewOverall ops scores
       (fo_add ops acc (fo_mul ops (case scores (dm_Name d) of None \<Rightarrow> pZero | Some v \<Rightarrow> v) (dm_Weight d))) ds"

primrec typeLoop ::
    "'a HpoFloats_scheme \<Rightarrow> EvText \<Rightarrow> Dimension list \<Rightarrow> (string \<times> sumCount) list \<Rightarrow> Review list \<Rightarrow> (string \<times> sumCount) list" where
  "typeLoop ops tx dims m [] = m"
| "typeLoop ops tx dims m (rv # rvs) =
     typeLoop ops tx dims (accAt ops (rv_JudgeType rv) (reviewOverall ops (et_scores tx (rv_Scores rv)) pZero dims) m) rvs"

definition typeSummary :: "'a HpoFloats_scheme \<Rightarrow> sumCount \<Rightarrow> JudgeTypeSummary" where
  "typeSummary ops a = \<lparr>js_Count = intOf ops (snd a), js_Overall = accMean ops a\<rparr>"

definition evVerdict :: "EvText \<Rightarrow> string \<Rightarrow> f64 \<Rightarrow> bool \<Rightarrow> string" where
  "evVerdict tx criteria overall hasReviews =
     (let rest = (if hasReviews then VerdictPass else VerdictPending);
          judge = (\<lambda>c. if satisfies overall c then VerdictPass else VerdictFail) in
      case parseCriteria tx criteria of
        Inl _ \<Rightarrow> rest
      | Inr cs \<Rightarrow> (case map_of cs ''overall'' of
          Some c \<Rightarrow> judge c
        | None \<Rightarrow> (case map_of cs ''score'' of Some c \<Rightarrow> judge c | None \<Rightarrow> rest)))"

definition AggregateReport ::
    "'a HpoFloats_scheme \<Rightarrow> EvText \<Rightarrow> time \<Rightarrow> Review list \<Rightarrow> Eval \<Rightarrow> string + EvReport" where
  "AggregateReport ops tx now reviews e =
     (case ParseDimensions ops tx (ev_Dimensions e) of
        Inl err \<Rightarrow> Inl (''parse dimensions: '' @ err)
      | Inr dims \<Rightarrow>
          if dims = [] then Inl ''no dimensions defined for report aggregation''
          else case validateCriteriaDimensions tx (ev_Criteria e) dims of
            Some err \<Rightarrow> Inl err
          | None \<Rightarrow>
              (let reports = map (dimReport ops tx reviews) dims; overall = overallLoop ops pZero reports in
               Inr \<lparr>rp_EvaluationID = ev_ID e, rp_JudgeMode = modeOf e, rp_Status = ev_Status e,
                 rp_Verdict = evVerdict tx (ev_Criteria e) overall (0 < length reviews), rp_Dimensions = reports,
                 rp_Overall = overall,
                 rp_ByJudgeType = map (\<lambda>(jt, a). (jt, typeSummary ops a)) (typeLoop ops tx dims [] reviews),
                 rp_Reviews = reviews, rp_Criteria = ev_Criteria e, rp_GeneratedAt = now\<rparr>))"

definition evFinalize :: "EvText \<Rightarrow> EvReport \<Rightarrow> Eval \<Rightarrow> string + Eval" where
  "evFinalize tx report e =
     (if evFinal e then Inl finalized
      else Inr (e\<lparr>ev_Report := mustJSON (et_reportJSON tx report), ev_Score := rp_Overall report, ev_Status := EvalCompleted,
                  ev_Passed := (rp_Verdict report = VerdictPass)\<rparr>))"

section \<open>The judge\<close>

record JudgeRequest =
  jq_Task :: string
  jq_Dataset :: string
  jq_Dimensions :: "Dimension list"
  jq_ModelOutput :: string
  jq_Reference :: string

record JudgeResponse =
  jr_Scores :: "(string \<times> f64) list option"
  jr_Overall :: f64
  jr_Comment :: string

record JudgeClient =
  jc_model :: string
  jc_payload :: "JudgeRequest \<Rightarrow> string"
  jc_send :: "nat \<Rightarrow> string \<Rightarrow> string \<Rightarrow> string + nat \<times> string"
  jc_choices :: "string \<Rightarrow> string + string list"
  jc_read :: "string \<Rightarrow> JudgeResponse \<Rightarrow> bool \<times> JudgeResponse"

definition truncateText :: "string \<Rightarrow> nat \<Rightarrow> string" where
  "truncateText s n = (if length s \<le> n then s else take n s @ ''...'')"

definition buildPrompt :: "JudgeClient \<Rightarrow> JudgeRequest \<Rightarrow> string \<times> string" where
  "buildPrompt cl req =
     (''You are a strict evaluation judge. Score the model output on each dimension with a float in [0,1]. Respond with a single JSON object only, no markdown, no prose.'',
      jc_payload cl req @ [CHR 0x0A, CHR 0x0A] @ ''Return JSON shape: {'' @ [CHR 0x22] @ ''scores'' @ [CHR 0x22] @ '':{'' @ [CHR 0x22]
        @ ''<dim>'' @ [CHR 0x22] @ '':<0..1>},'' @ [CHR 0x22] @ ''overall'' @ [CHR 0x22] @ '':<0..1>,'' @ [CHR 0x22] @ ''comment''
        @ [CHR 0x22] @ '':'' @ [CHR 0x22] @ ''<short>'' @ [CHR 0x22] @ ''}'')"

definition extractContent :: "JudgeClient \<Rightarrow> string \<Rightarrow> string + string" where
  "extractContent cl body =
     (case jc_choices cl body of
        Inl e \<Rightarrow> Inl (''unmarshal choices: '' @ e)
      | Inr [] \<Rightarrow> Inl ''no choices in response''
      | Inr (c # _) \<Rightarrow> Inr c)"

text \<open>The greedy match of a brace, anything, and a brace: from the first opening one to the last closing one after it.\<close>

definition jsonObject :: "string \<Rightarrow> string" where
  "jsonObject s =
     rev (dropWhile (\<lambda>c. c \<noteq> CHR 0x7D) (rev (dropWhile (\<lambda>c. c \<noteq> CHR 0x7B) s)))"

definition emptyResponse :: JudgeResponse where
  "emptyResponse = \<lparr>jr_Scores = None, jr_Overall = pZero, jr_Comment = []\<rparr>"

definition unparseable :: "string \<Rightarrow> JudgeResponse" where
  "unparseable content = emptyResponse\<lparr>jr_Comment := ''unparseable: '' @ truncateText content 200\<rparr>"

definition clamp01 :: "f64 \<Rightarrow> f64" where
  "clamp01 v = (let v = (if flt v pZero then pZero else v) in if flt (Fin 1) v then Fin 1 else v)"

primrec clampScores ::
    "'a HpoFloats_scheme \<Rightarrow> (string \<times> f64) list \<Rightarrow> f64 \<Rightarrow> f64 \<Rightarrow> Dimension list \<Rightarrow> (string \<times> f64) list \<times> f64 \<times> f64" where
  "clampScores ops scores weighted weightSum [] = (scores, weighted, weightSum)"
| "clampScores ops scores weighted weightSum (d # ds) =
     (let v = clamp01 (case map_of scores (dm_Name d) of None \<Rightarrow> pZero | Some v \<Rightarrow> v) in
      clampScores ops (AList.update (dm_Name d) v scores) (fo_add ops weighted (fo_mul ops v (dm_Weight d)))
        (fo_add ops weightSum (dm_Weight d)) ds)"

definition finishResponse :: "'a HpoFloats_scheme \<Rightarrow> Dimension list \<Rightarrow> JudgeResponse \<Rightarrow> JudgeResponse" where
  "finishResponse ops dims jr =
     (let (scores, weighted, weightSum) = clampScores ops (case jr_Scores jr of None \<Rightarrow> [] | Some m \<Rightarrow> m) pZero pZero dims;
          overall = (if fle (jr_Overall jr) pZero \<and> flt pZero weightSum then fo_div ops weighted weightSum else jr_Overall jr) in
      jr\<lparr>jr_Scores := Some scores, jr_Overall := clamp01 overall\<rparr>)"

definition parseJudgeResponse :: "'a HpoFloats_scheme \<Rightarrow> JudgeClient \<Rightarrow> string \<Rightarrow> Dimension list \<Rightarrow> JudgeResponse" where
  "parseJudgeResponse ops cl content dims =
     (case jc_read cl content emptyResponse of
        (True, jr) \<Rightarrow> finishResponse ops dims jr
      | (False, jr) \<Rightarrow>
          (if jsonObject content \<noteq> [] then
             (case jc_read cl (jsonObject content) jr of
                (True, jr) \<Rightarrow> finishResponse ops dims jr
              | (False, _) \<Rightarrow> unparseable content)
           else unparseable content))"

definition JudgeCall :: "'a HpoFloats_scheme \<Rightarrow> JudgeClient \<Rightarrow> nat \<Rightarrow> JudgeRequest \<Rightarrow> string + JudgeResponse" where
  "JudgeCall ops cl n req =
     (if jq_Dimensions req = [] then Inl ''llmjudge: no dimensions to judge''
      else let (system, user) = buildPrompt cl req in
        case jc_send cl n system user of
          Inl e \<Rightarrow> Inl e
        | Inr (code, body) \<Rightarrow>
            if code \<noteq> 200 then Inl (''llmjudge: llm returned '' @ showNat code @ '': '' @ truncateText body 300)
            else (case extractContent cl body of
                Inl e \<Rightarrow> Inl (''llmjudge: parse response: '' @ e)
              | Inr content \<Rightarrow> Inr (parseJudgeResponse ops cl content (jq_Dimensions req))))"

end
