(* ===== verification/Store.thy ===== *)
theory Store
  imports Prelude
begin

text \<open>
  Operations of a service over its tables: an operation takes the state and the number of the next step, and gives an
  error or a result with the new state and number.  A step that talks to the outside (the database, the clock, a generator
  of identifiers, another system) asks the environment by its number.  What every operation keeps is a preorder on states;
  the locale collects the rules by which a composed operation keeps it.
\<close>

type_synonym ('s, 'e, 'a) act = "'s \<times> nat \<Rightarrow> ('e + 'a) \<times> 's \<times> nat"

definition retS :: "'a \<Rightarrow> ('s, 'e, 'a) act" where
  "retS x = (\<lambda>w. (Inr x, w))"

definition failS :: "'e \<Rightarrow> ('s, 'e, 'a) act" where
  "failS e = (\<lambda>w. (Inl e, w))"

definition bindS :: "('s, 'e, 'a) act \<Rightarrow> ('a \<Rightarrow> ('s, 'e, 'b) act) \<Rightarrow> ('s, 'e, 'b) act" where
  "bindS m f = (\<lambda>w. case m w of (Inl e, w) \<Rightarrow> (Inl e, w) | (Inr x, w) \<Rightarrow> f x w)"

text \<open>Go on whether the operation fails or not.\<close>

definition handleS :: "('s, 'e, 'a) act \<Rightarrow> ('e + 'a \<Rightarrow> ('s, 'f, 'b) act) \<Rightarrow> ('s, 'f, 'b) act" where
  "handleS m f = (\<lambda>w. case m w of (r, w) \<Rightarrow> f r w)"

definition askS :: "(nat \<Rightarrow> 'a) \<Rightarrow> ('s, 'e, 'a) act" where
  "askS g = (\<lambda>(s, n). (Inr (g n), s, Suc n))"

definition dbS :: "(nat \<Rightarrow> 'e option) \<Rightarrow> ('s \<Rightarrow> ('e + 'a) \<times> 's) \<Rightarrow> ('s, 'e, 'a) act" where
  "dbS fault f = (\<lambda>(s, n). case fault n of
     Some e \<Rightarrow> (Inl e, s, Suc n)
   | None \<Rightarrow> (case f s of (r, s) \<Rightarrow> (r, s, Suc n)))"

definition readS :: "(nat \<Rightarrow> 'e option) \<Rightarrow> ('s \<Rightarrow> 'e + 'a) \<Rightarrow> ('s, 'e, 'a) act" where
  "readS fault f = dbS fault (\<lambda>s. (f s, s))"

definition writeS :: "(nat \<Rightarrow> 'e option) \<Rightarrow> ('s \<Rightarrow> 's) \<Rightarrow> ('s, 'e, unit) act" where
  "writeS fault f = dbS fault (\<lambda>s. (Inr (), f s))"

primrec foreachS :: "('x \<Rightarrow> ('s, 'e, unit) act) \<Rightarrow> 'x list \<Rightarrow> ('s, 'e, unit) act" where
  "foreachS f [] = retS ()"
| "foreachS f (x # xs) = bindS (f x) (\<lambda>_. foreachS f xs)"

text \<open>The state an operation leaves.\<close>

definition after :: "('s, 'e, 'a) act \<Rightarrow> 's \<times> nat \<Rightarrow> 's" where
  "after m w = fst (snd (m w))"

lemmas act_defs = retS_def failS_def bindS_def handleS_def askS_def dbS_def readS_def writeS_def

lemma after_simps [simp]:
  "after (retS x) w = fst w" "after (failS e) w = fst w" "after (askS g) w = fst w"
  "after (readS fault f) w = fst w"
  by (auto simp: after_def act_defs case_prod_unfold split: option.split)

lemma bind_retS [simp]: "bindS (retS x) f = f x"
  by (simp add: bindS_def retS_def)

lemma bindS_Inr:
  "bindS m f w = (Inr y, w') \<Longrightarrow> \<exists>x w1. m w = (Inr x, w1) \<and> f x w1 = (Inr y, w')"
  by (auto simp: bindS_def split: prod.splits sum.splits)

lemma readS_Inr: "readS fault f w = (Inr x, w') \<Longrightarrow> f (fst w) = Inr x \<and> fst w' = fst w \<and> snd w' = Suc (snd w)"
  by (auto simp: readS_def dbS_def case_prod_unfold split: option.splits)

lemma writeS_Inr: "writeS fault f w = (Inr x, w') \<Longrightarrow> fst w' = f (fst w) \<and> snd w' = Suc (snd w)"
  by (auto simp: writeS_def dbS_def case_prod_unfold split: option.splits)

text \<open>A bind whose first part does not touch the state, and one that reads first.\<close>

lemma after_bind: "after (bindS m f) w = (case m w of (Inl e, w1) \<Rightarrow> fst w1 | (Inr x, w1) \<Rightarrow> after (f x) w1)"
  by (auto simp: after_def bindS_def split: prod.splits sum.splits)

lemma after_bind_ret [simp]: "after (bindS m (\<lambda>x. retS (g x))) w = after m w"
  by (auto simp: after_def bindS_def retS_def split: prod.splits sum.splits)

lemma after_bind_still:
  assumes "after m w = fst w" and "\<And>x w1. m w = (Inr x, w1) \<Longrightarrow> after (f x) w1 = fst w1"
  shows "after (bindS m f) w = fst w"
proof -
  obtain r w1 where "m w = (r, w1)" by (metis surj_pair)
  then show ?thesis using assms by (cases r) (auto simp: after_bind, auto simp: after_def)
qed

lemma after_handle_ret [simp]: "after (handleS m (\<lambda>r. retS (g r))) w = after m w"
  by (auto simp: after_def handleS_def retS_def split: prod.splits)

lemma after_writeS: "after (writeS fault f) w = (if fault (snd w) = None then f (fst w) else fst w)"
  by (auto simp: after_def writeS_def dbS_def case_prod_unfold split: option.split)

locale kept =
  fixes R :: "'s \<Rightarrow> 's \<Rightarrow> bool"
  assumes kept_refl: "R s s"
    and kept_trans: "R s t \<Longrightarrow> R t u \<Longrightarrow> R s u"
begin

lemma keep_still: "after m w = fst w \<Longrightarrow> R (fst w) (after m w)"
  by (simp add: kept_refl)

lemma keep_bind:
  assumes "R (fst w) (after m w)" and "\<And>x w1. m w = (Inr x, w1) \<Longrightarrow> R (fst w1) (after (f x) w1)"
  shows "R (fst w) (after (bindS m f) w)"
proof -
  obtain r w1 where "m w = (r, w1)" by (metis surj_pair)
  then show ?thesis using assms kept_trans [of "fst w" "fst w1"]
    by (cases r) (auto simp: after_bind, auto simp: after_def)
qed

lemma keep_handle:
  assumes "R (fst w) (after m w)" and "\<And>r w1. m w = (r, w1) \<Longrightarrow> R (fst w1) (after (f r) w1)"
  shows "R (fst w) (after (handleS m f) w)"
proof -
  obtain r w1 where "m w = (r, w1)" by (metis surj_pair)
  then show ?thesis using assms kept_trans [of "fst w" "fst w1"]
    by (auto simp: after_def handleS_def)
qed

lemma keep_first:
  assumes "fst w = s" and "after m w = fst w" and "\<And>x w1. m w = (Inr x, w1) \<Longrightarrow> fst w1 = s \<Longrightarrow> R s (after (f x) w1)"
  shows "R s (after (bindS m f) w)"
proof -
  obtain r w1 where "m w = (r, w1)" by (metis surj_pair)
  then show ?thesis using assms kept_refl by (cases r) (auto simp: after_bind, auto simp: after_def)
qed

lemma keep_write: "R (fst w) (f (fst w)) \<Longrightarrow> R (fst w) (after (writeS fault f) w)"
  by (simp add: after_writeS kept_refl)

lemma keep_db: "R (fst w) (snd (f (fst w))) \<Longrightarrow> R (fst w) (after (dbS fault f) w)"
  by (auto simp: after_def dbS_def case_prod_unfold kept_refl split: option.split)

lemma keep_foreach:
  assumes "\<And>x w. x \<in> set xs \<Longrightarrow> R (fst w) (after (f x) w)"
  shows "R (fst w) (after (foreachS f xs) w)"
  using assms
proof (induction xs arbitrary: w)
  case Nil
  then show ?case by (simp add: kept_refl)
next
  case (Cons x xs)
  show ?case unfolding foreachS.simps by (rule keep_bind) (simp_all add: Cons)
qed

lemma keep_foreach_inv:
  assumes "P xs w"
    and step: "\<And>x xs w. P (x # xs) w \<Longrightarrow> R (fst w) (after (f x) w) \<and> (\<forall>y w1. f x w = (Inr y, w1) \<longrightarrow> P xs w1)"
  shows "R (fst w) (after (foreachS f xs) w)"
  using assms(1)
proof (induction xs arbitrary: w)
  case (Cons x xs)
  show ?case unfolding foreachS.simps
    by (rule keep_bind) (use step [OF Cons.prems] Cons.IH in auto)
qed (simp add: kept_refl)

lemmas keep_rules = keep_bind keep_handle keep_write keep_db keep_foreach

end

end
