(* ===== verification/EvaluationService.thy ===== *)
theory EvaluationService
  imports Evaluation Store Experiments
begin

text \<open>
  Rows and service of evaluations, \<^verbatim>\<open>storage/evaluation.go\<close> and \<^verbatim>\<open>app/evaluation/service.go\<close>, as operations of
  \<^verbatim>\<open>Store\<close>: identifiers, the clock, the faults of the database and the judge are asked by the number of the step.  A panic
  is an error of its own.
\<close>

datatype EvErr = EvNotFound | EvText string | EvPanic

record EvWorld =
  ew_evals :: "Eval list"
  ew_reviews :: "Review list"

record EvEnv =
  ee_text :: EvText
  ee_ops :: HpoFloats
  ee_time :: "nat \<Rightarrow> time"
  ee_evalID :: "nat \<Rightarrow> string"
  ee_reviewID :: "nat \<Rightarrow> string"
  ee_fault :: "nat \<Rightarrow> EvErr option"
  ee_judge :: "JudgeClient option"

type_synonym 'a evop = "(EvWorld, EvErr, 'a) act"

definition liftE :: "string + 'a \<Rightarrow> 'a evop" where
  "liftE r = (case r of Inl e \<Rightarrow> failS (EvText e) | Inr x \<Rightarrow> retS x)"

definition checkE :: "string option \<Rightarrow> unit evop" where
  "checkE r = (case r of Some e \<Rightarrow> failS (EvText e) | None \<Rightarrow> retS ())"

section \<open>Rows\<close>

definition CreateEvalRow :: "EvEnv \<Rightarrow> Eval \<Rightarrow> Eval evop" where
  "CreateEvalRow env e =
     bindS (askS (ee_time env)) (\<lambda>now. let e = e\<lparr>ev_CreatedAt := now\<rparr> in
     dbS (ee_fault env) (\<lambda>w.
       if tfind ev_ID (ew_evals w) (ev_ID e) \<noteq> None then (Inl (EvText ''duplicate key''), w)
       else (Inr e, w\<lparr>ew_evals := tadd e (ew_evals w)\<rparr>)))"

definition GetEvalRow :: "EvEnv \<Rightarrow> string \<Rightarrow> Eval evop" where
  "GetEvalRow env k =
     readS (ee_fault env) (\<lambda>w. case tfind ev_ID (ew_evals w) k of None \<Rightarrow> Inl EvNotFound | Some e \<Rightarrow> Inr e)"

definition newestFirst :: "Eval list \<Rightarrow> Eval list" where
  "newestFirst = sort_key (\<lambda>e. - ev_CreatedAt e)"

definition ListEvalRows :: "EvEnv \<Rightarrow> string \<Rightarrow> Eval list evop" where
  "ListEvalRows env tenant =
     readS (ee_fault env) (\<lambda>w. Inr (newestFirst (filter (\<lambda>e. tenant = [] \<or> ev_TenantID e = tenant) (ew_evals w))))"

definition ListEvalsByExperiment :: "EvEnv \<Rightarrow> string \<Rightarrow> Eval list evop" where
  "ListEvalsByExperiment env k =
     readS (ee_fault env) (\<lambda>w. Inr (newestFirst (filter (\<lambda>e. ev_ExperimentID e = k) (ew_evals w))))"

definition ListEvalsByModel :: "EvEnv \<Rightarrow> string \<Rightarrow> Eval list evop" where
  "ListEvalsByModel env k =
     readS (ee_fault env) (\<lambda>w. Inr (newestFirst (filter (\<lambda>e. ev_ModelID e = k) (ew_evals w))))"

definition UpdateEvalRow :: "EvEnv \<Rightarrow> Eval \<Rightarrow> unit evop" where
  "UpdateEvalRow env e = writeS (ee_fault env) (\<lambda>w. w\<lparr>ew_evals := tupsert ev_ID e (ew_evals w)\<rparr>)"

definition DeleteEvalRow :: "EvEnv \<Rightarrow> string \<Rightarrow> unit evop" where
  "DeleteEvalRow env k = dbS (ee_fault env) (\<lambda>w.
     (if tfind ev_ID (ew_evals w) k = None then Inl EvNotFound else Inr (),
      w\<lparr>ew_evals := tdelete ev_ID k (ew_evals w)\<rparr>))"

definition CreateReviewRow :: "EvEnv \<Rightarrow> Review \<Rightarrow> Review evop" where
  "CreateReviewRow env r =
     bindS (askS (ee_time env)) (\<lambda>now. let r = r\<lparr>rv_CreatedAt := now\<rparr> in
     dbS (ee_fault env) (\<lambda>w.
       if tfind rv_ID (ew_reviews w) (rv_ID r) \<noteq> None then (Inl (EvText ''duplicate key''), w)
       else (Inr r, w\<lparr>ew_reviews := tadd r (ew_reviews w)\<rparr>)))"

definition ListReviewRows :: "EvEnv \<Rightarrow> string \<Rightarrow> Review list evop" where
  "ListReviewRows env k =
     readS (ee_fault env) (\<lambda>w. Inr (sort_key rv_CreatedAt (filter (\<lambda>r. rv_EvaluationID r = k) (ew_reviews w))))"

section \<open>Service\<close>

definition createChecks :: "EvEnv \<Rightarrow> EvCreateInput \<Rightarrow> string option" where
  "createChecks env inp =
     (if ei_Name inp = [] then Some ''evaluation name is required''
      else if ei_ExperimentID inp = [] \<and> ei_ModelID inp = []
      then Some ''evaluation must reference an experiment run or a model''
      else if ei_ExperimentID inp \<noteq> [] \<and> ei_RunID inp = [] then Some ''experiment-linked evaluation requires run_id''
      else let mode = (if ei_JudgeMode inp = [] then JudgeModeThreshold else ei_JudgeMode inp) in
        if mode = JudgeModeThreshold
        then (case ParseCriteria (ee_text env) (ei_Criteria inp) of
            Inl e \<Rightarrow> Some (''invalid criteria JSON: '' @ e)
          | Inr _ \<Rightarrow> None)
        else if mode \<in> {JudgeModeHuman, JudgeModeLLM, JudgeModeHybrid}
        then (case ParseDimensions (ee_ops env) (ee_text env) (ei_Dimensions inp) of
            Inl e \<Rightarrow> Some (''invalid dimensions JSON: '' @ e)
          | Inr dims \<Rightarrow> if dims = [] then Some (mode @ ''-mode evaluation requires at least one dimension'') else None)
        else Some (''unsupported judge_mode: '' @ mode))"

definition CreateEval :: "EvEnv \<Rightarrow> EvCreateInput \<Rightarrow> Eval evop" where
  "CreateEval env inp =
     bindS (checkE (createChecks env inp)) (\<lambda>_.
     bindS (askS (ee_evalID env)) (\<lambda>fresh.
     CreateEvalRow env (NewEval (inp\<lparr>ei_ID := fresh,
       ei_JudgeMode := if ei_JudgeMode inp = [] then JudgeModeThreshold else ei_JudgeMode inp\<rparr>))))"

text \<open>Read an evaluation, change it by an operation of the domain, write it back.\<close>

definition changeEval :: "EvEnv \<Rightarrow> string \<Rightarrow> (Eval \<Rightarrow> string + Eval) \<Rightarrow> unit evop" where
  "changeEval env k f =
     bindS (GetEvalRow env k) (\<lambda>e. bindS (liftE (f e)) (\<lambda>e. UpdateEvalRow env e))"

definition RecordResult :: "EvEnv \<Rightarrow> string \<Rightarrow> (string \<times> f64) list \<Rightarrow> f64 \<Rightarrow> unit evop" where
  "RecordResult env k metrics score = changeEval env k (evRecordResult (ee_text env) metrics score)"

definition FailEval :: "EvEnv \<Rightarrow> string \<Rightarrow> string \<Rightarrow> unit evop" where
  "FailEval env k reason = changeEval env k (evFail reason)"

definition GetEval :: "EvEnv \<Rightarrow> string \<Rightarrow> Eval evop" where
  "GetEval = GetEvalRow"

definition ListEvals :: "EvEnv \<Rightarrow> string \<Rightarrow> Eval list evop" where
  "ListEvals = ListEvalRows"

definition ListByExperiment :: "EvEnv \<Rightarrow> string \<Rightarrow> Eval list evop" where
  "ListByExperiment = ListEvalsByExperiment"

definition ListByModel :: "EvEnv \<Rightarrow> string \<Rightarrow> Eval list evop" where
  "ListByModel = ListEvalsByModel"

definition DeleteEval :: "EvEnv \<Rightarrow> string \<Rightarrow> unit evop" where
  "DeleteEval = DeleteEvalRow"

definition ListReviews :: "EvEnv \<Rightarrow> string \<Rightarrow> Review list evop" where
  "ListReviews = ListReviewRows"

record ReviewInput =
  vi_JudgeID :: string
  vi_Scores :: string
  vi_Comment :: string

definition SubmitReview :: "EvEnv \<Rightarrow> string \<Rightarrow> ReviewInput \<Rightarrow> Review evop" where
  "SubmitReview env k inp =
     bindS (GetEvalRow env k) (\<lambda>e.
     bindS (askS (ee_reviewID env)) (\<lambda>fresh.
     let rv = \<lparr>rv_ID = fresh, rv_EvaluationID = k, rv_TenantID = ev_TenantID e, rv_JudgeType = JudgeTypeHuman,
               rv_JudgeID = vi_JudgeID inp, rv_Scores = vi_Scores inp, rv_Comment = vi_Comment inp, rv_CreatedAt = 0\<rparr> in
     bindS (checkE (AddReview (ee_text env) rv e)) (\<lambda>_. CreateReviewRow env rv)))"

text \<open>The scores the judge left out are written as 0 into its map; writing into a nil map panics.\<close>

primrec fillScores :: "(string \<times> f64) list option \<Rightarrow> Dimension list \<Rightarrow> (string \<times> f64) list option" where
  "fillScores m [] = Some (case m of None \<Rightarrow> [] | Some s \<Rightarrow> s)"
| "fillScores m (d # ds) =
     (case m of
        None \<Rightarrow> None
      | Some s \<Rightarrow> fillScores (Some (if map_of s (dm_Name d) = None then AList.update (dm_Name d) pZero s else s)) ds)"

definition panicE :: "'a option \<Rightarrow> 'a evop" where
  "panicE r = (case r of None \<Rightarrow> failS EvPanic | Some x \<Rightarrow> retS x)"

definition tagged :: "string \<Rightarrow> string + 'a \<Rightarrow> string + 'a" where
  "tagged prefix r = (case r of Inl e \<Rightarrow> Inl (prefix @ e) | Inr x \<Rightarrow> Inr x)"

definition RunLLMJudge :: "EvEnv \<Rightarrow> string \<Rightarrow> string \<Rightarrow> string \<Rightarrow> Review evop" where
  "RunLLMJudge env k modelOutput reference =
     (case ee_judge env of
        None \<Rightarrow> failS (EvText ''llm judge not configured'')
      | Some cl \<Rightarrow>
     bindS (GetEvalRow env k) (\<lambda>e.
     bindS (liftE (tagged ''parse dimensions: '' (ParseDimensions (ee_ops env) (ee_text env) (ev_Dimensions e)))) (\<lambda>dims.
     bindS (checkE (if dims = [] then Some ''no dimensions defined for llm judge'' else None)) (\<lambda>_.
     bindS (askS (\<lambda>n. JudgeCall (ee_ops env) cl n \<lparr>jq_Task = ev_Task e, jq_Dataset = ev_Dataset e, jq_Dimensions = dims,
              jq_ModelOutput = modelOutput, jq_Reference = reference\<rparr>)) (\<lambda>answer.
     bindS (liftE (tagged ''llm judge failed: '' answer)) (\<lambda>resp.
     bindS (panicE (fillScores (jr_Scores resp) dims)) (\<lambda>scores.
     bindS (liftE (tagged ''marshal llm scores: '' (et_scoresJSON (ee_text env) scores))) (\<lambda>json.
     bindS (askS (ee_reviewID env)) (\<lambda>fresh.
     let rv = \<lparr>rv_ID = fresh, rv_EvaluationID = k, rv_TenantID = ev_TenantID e, rv_JudgeType = JudgeTypeLLM,
               rv_JudgeID = jc_model cl, rv_Scores = json, rv_Comment = jr_Comment resp, rv_CreatedAt = 0\<rparr> in
     bindS (checkE (AddReview (ee_text env) rv e)) (\<lambda>_. CreateReviewRow env rv))))))))))"

definition FinalizeReport :: "EvEnv \<Rightarrow> string \<Rightarrow> EvReport evop" where
  "FinalizeReport env k =
     bindS (GetEvalRow env k) (\<lambda>e.
     bindS (ListReviewRows env k) (\<lambda>reviews.
     bindS (askS (ee_time env)) (\<lambda>now.
     bindS (liftE (AggregateReport (ee_ops env) (ee_text env) now reviews e)) (\<lambda>report.
     bindS (liftE (evFinalize (ee_text env) report e)) (\<lambda>e.
     bindS (UpdateEvalRow env e) (\<lambda>_. retS report))))))"

definition pendingReport :: "time \<Rightarrow> Review list \<Rightarrow> Eval \<Rightarrow> EvReport" where
  "pendingReport now reviews e =
     \<lparr>rp_EvaluationID = ev_ID e, rp_JudgeMode = ev_JudgeMode e, rp_Status = ev_Status e, rp_Verdict = VerdictPending,
      rp_Dimensions = [], rp_Overall = pZero, rp_ByJudgeType = [], rp_Reviews = reviews, rp_Criteria = [],
      rp_GeneratedAt = now\<rparr>"

definition freshReport :: "EvEnv \<Rightarrow> string \<Rightarrow> Eval \<Rightarrow> EvReport evop" where
  "freshReport env k e =
     bindS (ListReviewRows env k) (\<lambda>reviews.
     bindS (askS (ee_time env)) (\<lambda>now.
       retS (case AggregateReport (ee_ops env) (ee_text env) now reviews e of
               Inl _ \<Rightarrow> pendingReport now reviews e
             | Inr report \<Rightarrow> report)))"

definition GetReport :: "EvEnv \<Rightarrow> string \<Rightarrow> EvReport evop" where
  "GetReport env k =
     bindS (GetEvalRow env k) (\<lambda>e.
     case (if ev_Report e \<noteq> [] then et_reportOf (ee_text env) (ev_Report e) else None) of
       Some rep \<Rightarrow> retS rep
     | None \<Rightarrow> freshReport env k e)"

lemmas ev_rows = CreateEvalRow_def GetEvalRow_def ListEvalRows_def ListEvalsByExperiment_def ListEvalsByModel_def
  UpdateEvalRow_def DeleteEvalRow_def CreateReviewRow_def ListReviewRows_def
lemmas ev_service = CreateEval_def changeEval_def RecordResult_def FailEval_def GetEval_def ListEvals_def
  ListByExperiment_def ListByModel_def DeleteEval_def ListReviews_def SubmitReview_def RunLLMJudge_def FinalizeReport_def
  freshReport_def GetReport_def

end
