(* ===== verification/EvaluationApi.thy ===== *)
theory EvaluationApi
  imports EvaluationService ApiAccess ExperimentApi
begin

text \<open>
  \<^verbatim>\<open>api/evaluation.go\<close>: the handlers of evaluations.  A handler answers; only a panic leaves it as an error.  A body that
  cannot be bound is None, or the text of the error where the handler shows it.
\<close>

type_synonym 'a evhandler = "(EvWorld, EvErr, 'a ApiReply) act"

fun respondEvalError :: "EvErr \<Rightarrow> 'a evhandler" where
  "respondEvalError EvNotFound = retS (ApiFail 404 ''evaluation not found'')"
| "respondEvalError (EvText e) = retS (ApiFail 400 e)"
| "respondEvalError EvPanic = failS EvPanic"

fun evFail500 :: "EvErr \<Rightarrow> 'a evhandler" where
  "evFail500 EvNotFound = retS (ApiFail 500 ''ports: not found'')"
| "evFail500 (EvText e) = retS (ApiFail 500 e)"
| "evFail500 EvPanic = failS EvPanic"

definition answerE :: "(EvErr \<Rightarrow> 'b evhandler) \<Rightarrow> 'a evop \<Rightarrow> ('a \<Rightarrow> 'b evhandler) \<Rightarrow> 'b evhandler" where
  "answerE bad m f = handleS m (\<lambda>r. case r of Inl e \<Rightarrow> bad e | Inr x \<Rightarrow> f x)"

definition okE :: "'a \<Rightarrow> 'a evhandler" where
  "okE x = retS (ApiOK x)"

text \<open>Every operation on one evaluation starts with the check of its tenant.\<close>

definition onEvaluation :: "EvEnv \<Rightarrow> Claims option \<Rightarrow> string \<Rightarrow> (Eval \<Rightarrow> 'b evhandler) \<Rightarrow> 'b evhandler" where
  "onEvaluation env c k f =
     answerE respondEvalError (GetEval env k) (\<lambda>e.
       if \<not> canAccessTenant (ev_TenantID e) c then retS (ApiFail 404 ''evaluation not found'') else f e)"

definition apiListEvaluations :: "EvEnv \<Rightarrow> Claims option \<Rightarrow> Eval list evhandler" where
  "apiListEvaluations env c =
     answerE respondEvalError (ListEvals env (if \<not> isPlatformAdmin c then principalTenant c else [])) okE"

definition apiCreateEvaluation :: "EvEnv \<Rightarrow> Claims option \<Rightarrow> EvCreateInput option \<Rightarrow> Eval evhandler" where
  "apiCreateEvaluation env c body =
     (case body of
        None \<Rightarrow> retS (ApiFail 400 ''invalid request body'')
      | Some inp \<Rightarrow> (case requireWriteTenant c of
          None \<Rightarrow> retS (ApiFail 400 ''missing tenant context'')
        | Some tenant \<Rightarrow> handleS (CreateEval env (inp\<lparr>ei_TenantID := tenant, ei_CreatedBy := cl_UserID (claimsOf c)\<rparr>))
            (\<lambda>r. case r of
                Inr e \<Rightarrow> okE e
              | Inl (EvText e) \<Rightarrow> retS (ApiFail 400 e)
              | Inl EvNotFound \<Rightarrow> retS (ApiFail 400 ''ports: not found'')
              | Inl EvPanic \<Rightarrow> failS EvPanic)))"

definition apiGetEvaluation :: "EvEnv \<Rightarrow> Claims option \<Rightarrow> string \<Rightarrow> Eval evhandler" where
  "apiGetEvaluation env c k = onEvaluation env c k okE"

definition apiRecordEvaluationResult ::
    "EvEnv \<Rightarrow> Claims option \<Rightarrow> string \<Rightarrow> ((string \<times> f64) list \<times> f64) option \<Rightarrow> unit evhandler" where
  "apiRecordEvaluationResult env c k body =
     onEvaluation env c k (\<lambda>_. case body of
       None \<Rightarrow> retS (ApiFail 400 ''invalid request body'')
     | Some (metrics, score) \<Rightarrow> answerE respondEvalError (RecordResult env k metrics score) okE)"

definition apiFailEvaluation :: "EvEnv \<Rightarrow> Claims option \<Rightarrow> string \<Rightarrow> string + string \<Rightarrow> unit evhandler" where
  "apiFailEvaluation env c k body =
     onEvaluation env c k (\<lambda>_. case body of
       Inl e \<Rightarrow> retS (ApiFail 400 e)
     | Inr reason \<Rightarrow> answerE respondEvalError (FailEval env k reason) okE)"

definition apiDeleteEvaluation :: "EvEnv \<Rightarrow> Claims option \<Rightarrow> string \<Rightarrow> string evhandler" where
  "apiDeleteEvaluation env c k =
     onEvaluation env c k (\<lambda>_. answerE respondEvalError (DeleteEval env k) (\<lambda>_. okE k))"

definition apiListExperimentEvaluations ::
    "ExEnv \<Rightarrow> EvEnv \<Rightarrow> Claims option \<Rightarrow> string \<Rightarrow> ExWorld \<Rightarrow> EvWorld \<times> nat \<Rightarrow> (EvErr + Eval list ApiReply) \<times> ExWorld \<times> EvWorld \<times> nat" where
  "apiListExperimentEvaluations xenv env c k x w =
     (case GetExperiment xenv k x of
        (Inl e, x) \<Rightarrow> (Inr (respondExperimentError e), x, w)
      | (Inr ex, x) \<Rightarrow>
          (if \<not> canAccessTenant (ex_TenantID ex) c then (Inr (ApiFail 404 ''experiment not found''), x, w)
           else case answerE evFail500 (ListByExperiment env k) okE w of (r, w) \<Rightarrow> (r, x, w)))"

definition apiListEvaluationReviews :: "EvEnv \<Rightarrow> Claims option \<Rightarrow> string \<Rightarrow> Review list evhandler" where
  "apiListEvaluationReviews env c k = onEvaluation env c k (\<lambda>_. answerE evFail500 (ListReviews env k) okE)"

definition apiSubmitEvaluationReview :: "EvEnv \<Rightarrow> Claims option \<Rightarrow> string \<Rightarrow> (string \<times> string) option \<Rightarrow> Review evhandler" where
  "apiSubmitEvaluationReview env c k body =
     onEvaluation env c k (\<lambda>_. case body of
       None \<Rightarrow> retS (ApiFail 400 ''invalid request body'')
     | Some (scores, comment) \<Rightarrow> answerE respondEvalError
         (SubmitReview env k \<lparr>vi_JudgeID = cl_UserID (claimsOf c), vi_Scores = scores, vi_Comment = comment\<rparr>) okE)"

definition apiRunEvaluationLLMJudge :: "EvEnv \<Rightarrow> Claims option \<Rightarrow> string \<Rightarrow> string + string \<times> string \<Rightarrow> Review evhandler" where
  "apiRunEvaluationLLMJudge env c k body =
     onEvaluation env c k (\<lambda>_. case body of
       Inl e \<Rightarrow> retS (ApiFail 400 e)
     | Inr (modelOutput, reference) \<Rightarrow> answerE respondEvalError (RunLLMJudge env k modelOutput reference) okE)"

definition apiGetEvaluationReport :: "EvEnv \<Rightarrow> Claims option \<Rightarrow> string \<Rightarrow> EvReport evhandler" where
  "apiGetEvaluationReport env c k = onEvaluation env c k (\<lambda>_. answerE respondEvalError (GetReport env k) okE)"

definition apiFinalizeEvaluationReport :: "EvEnv \<Rightarrow> Claims option \<Rightarrow> string \<Rightarrow> EvReport evhandler" where
  "apiFinalizeEvaluationReport env c k = onEvaluation env c k (\<lambda>_. answerE respondEvalError (FinalizeReport env k) okE)"

end
