(* ===== verification/EvaluationProofs.thy ===== *)
theory EvaluationProofs
  imports EvaluationService
begin

text \<open>What evaluations promise: a finalized one is never changed, and what a verdict depends on.\<close>

section \<open>Finalized evaluations\<close>

definition frozen :: "EvWorld \<Rightarrow> EvWorld \<Rightarrow> bool" where
  "frozen s t = (\<forall>k e. tfind ev_ID (ew_evals s) k = Some e \<longrightarrow> evFinal e \<longrightarrow> tfind ev_ID (ew_evals t) k = Some e)"

interpretation fz: kept frozen
  by unfold_locales (simp_all add: frozen_def)

lemma liftE_still [simp]: "after (liftE r) w = fst w"
  by (cases r) (simp_all add: liftE_def)

lemma checkE_still [simp]: "after (checkE r) w = fst w"
  by (cases r) (simp_all add: checkE_def)

lemma panicE_still [simp]: "after (panicE r) w = fst w"
  by (cases r) (simp_all add: panicE_def)

lemma read_still [simp]:
  "after (GetEvalRow env k) w = fst w" "after (ListReviewRows env k) w = fst w" "after (ListEvalRows env k) w = fst w"
  by (simp_all add: GetEvalRow_def ListReviewRows_def ListEvalRows_def)

lemma GetEvalRow_Inr:
  "GetEvalRow env k w = (Inr e, w1) \<Longrightarrow> tfind ev_ID (ew_evals (fst w)) k = Some e \<and> fst w1 = fst w"
  by (auto simp: GetEvalRow_def dest!: readS_Inr split: option.splits)

lemma liftE_Inr: "liftE r w = (Inr x, w1) \<Longrightarrow> r = Inr x \<and> w1 = w"
  by (cases r) (simp_all add: liftE_def act_defs)

lemma frozen_update:
  assumes "tfind ev_ID (ew_evals (fst w)) k = Some e" and "\<not> evFinal e" and "ev_ID e' = k"
  shows "frozen (fst w) (after (UpdateEvalRow env e') w)"
  using assms unfolding UpdateEvalRow_def
  by (intro fz.keep_write) (auto simp: frozen_def tfind_tupsert)

lemma frozen_create: "frozen (fst w) (after (CreateEvalRow env e) w)"
  unfolding CreateEvalRow_def Let_def
  by (intro fz.keep_bind fz.keep_still fz.keep_db after_simps) (auto simp: frozen_def tfind_tadd split: option.splits)

lemma frozen_review: "frozen (fst w) (after (CreateReviewRow env r) w)"
  unfolding CreateReviewRow_def Let_def
  by (intro fz.keep_bind fz.keep_still fz.keep_db after_simps) (auto simp: frozen_def)

definition guarded :: "(Eval \<Rightarrow> string + Eval) \<Rightarrow> bool" where
  "guarded f = (\<forall>e e'. f e = Inr e' \<longrightarrow> \<not> evFinal e \<and> ev_ID e' = ev_ID e)"

lemma guarded_ops: "guarded (evRecordResult tx ms sc)" "guarded (evFail reason)" "guarded (evFinalize tx rep)"
  by (auto simp: guarded_def evRecordResult_def evFail_def evFinalize_def Let_def split: if_splits)

lemma frozen_write:
  assumes "GetEvalRow env k w = (Inr e, w1)" and "fst w2 = fst w" and "guarded f" and "f e = Inr e'"
  shows "frozen (fst w) (after (UpdateEvalRow env e') w2)"
  using assms GetEvalRow_Inr [OF assms(1)] frozen_update [of w2 k e e' env]
  by (auto simp: guarded_def dest: tfind_key)

lemma frozen_change:
  assumes "guarded f"
  shows "frozen (fst w) (after (changeEval env k f) w)"
  unfolding changeEval_def
proof (rule fz.keep_first [OF refl read_still(1)])
  fix e w1 assume get: "GetEvalRow env k w = (Inr e, w1)" and eq: "fst w1 = fst w"
  show "frozen (fst w) (after (bindS (liftE (f e)) (UpdateEvalRow env)) w1)"
    by (rule fz.keep_first [OF eq liftE_still]) (auto dest!: liftE_Inr intro: frozen_write [OF get _ assms])
qed

lemma frozen_finalize: "frozen (fst w) (after (FinalizeReport env k) w)"
  unfolding FinalizeReport_def
proof (rule fz.keep_first [OF refl read_still(1)])
  fix e w1 assume get: "GetEvalRow env k w = (Inr e, w1)" and eq: "fst w1 = fst w"
  let ?rest = "\<lambda>report. bindS (liftE (evFinalize (ee_text env) report e))
      (\<lambda>e. bindS (UpdateEvalRow env e) (\<lambda>_. retS report))"
  have fin: "frozen (fst w) (after (?rest report) w2)" if same: "fst w2 = fst w" for report w2
  proof (rule fz.keep_first [OF same liftE_still])
    fix e' w3 assume "liftE (evFinalize (ee_text env) report e) w2 = (Inr e', w3)" and still: "fst w3 = fst w"
    then have "evFinalize (ee_text env) report e = Inr e'" by (auto dest: liftE_Inr)
    from frozen_write [OF get still guarded_ops(3) this]
    show "frozen (fst w) (after (bindS (UpdateEvalRow env e') (\<lambda>_. retS report)) w3)"
      by simp
  qed
  show "frozen (fst w) (after (bindS (ListReviewRows env k) (\<lambda>reviews. bindS (askS (ee_time env)) (\<lambda>now.
      bindS (liftE (AggregateReport (ee_ops env) (ee_text env) now reviews e)) ?rest))) w1)"
    by (rule fz.keep_first [OF eq read_still(2)], erule fz.keep_first [OF _ after_simps(3)],
        erule fz.keep_first [OF _ liftE_still], rule fin)
qed

lemma frozen_submit: "frozen (fst w) (after (SubmitReview env k inp) w)"
  unfolding SubmitReview_def Let_def
  by (intro fz.keep_bind fz.keep_still read_still after_simps checkE_still frozen_review)

lemma frozen_judge: "frozen (fst w) (after (RunLLMJudge env k out ref) w)"
  unfolding RunLLMJudge_def Let_def
  by (cases "ee_judge env")
    (simp add: fz.kept_refl,
     simp only: option.case, intro fz.keep_bind fz.keep_still read_still after_simps checkE_still liftE_still panicE_still frozen_review)

lemma report_still: "after (GetReport env k) w = fst w"
  unfolding GetReport_def freshReport_def
  by (intro after_bind_still read_still)
    (auto split: option.split intro!: after_bind_still)

lemma frozen_CreateEval: "frozen (fst w) (after (CreateEval env inp) w)"
  unfolding CreateEval_def by (intro fz.keep_bind fz.keep_still checkE_still after_simps frozen_create)

text \<open>The operations of the service, without the deletion.\<close>

datatype EvStep = StCreate EvCreateInput | StRecord string "(string \<times> f64) list" f64 | StFail string string
  | StReview string ReviewInput | StJudge string string string | StFinalize string | StReport string

fun evStep :: "EvEnv \<Rightarrow> EvStep \<Rightarrow> EvWorld \<times> nat \<Rightarrow> EvWorld \<times> nat" where
  "evStep env (StCreate inp) w = snd (CreateEval env inp w)"
| "evStep env (StRecord k ms sc) w = snd (RecordResult env k ms sc w)"
| "evStep env (StFail k reason) w = snd (FailEval env k reason w)"
| "evStep env (StReview k inp) w = snd (SubmitReview env k inp w)"
| "evStep env (StJudge k out ref) w = snd (RunLLMJudge env k out ref w)"
| "evStep env (StFinalize k) w = snd (FinalizeReport env k w)"
| "evStep env (StReport k) w = snd (GetReport env k w)"

lemma evStep_frozen: "frozen (fst w) (fst (evStep env st w))"
  using frozen_CreateEval frozen_change frozen_finalize frozen_submit frozen_judge report_still guarded_ops fz.kept_refl
  by (cases st) (simp_all add: RecordResult_def FailEval_def flip: after_def)

lemma evSteps_frozen: "frozen (fst w) (fst (fold (evStep env) steps w))"
proof (induction steps arbitrary: w)
  case (Cons st steps)
  show ?case using fz.kept_trans [OF evStep_frozen [of w env st] Cons.IH [of "evStep env st w"]] by simp
qed (simp add: fz.kept_refl)

text \<open>C29: a finalized evaluation is immutable: whatever operations of the service follow (results, failures, reviews by people
  or the judge, finalizations, reports, new evaluations), under any faults of the database and any answers of the judge, its row
  with status, score, verdict and report stays as it is; only a deletion removes it.\<close>
theorem finalized_evaluation_frozen:
  assumes "tfind ev_ID (ew_evals (fst w)) k = Some e" and "ev_Status e = EvalCompleted \<or> ev_Status e = EvalFailed"
  shows "tfind ev_ID (ew_evals (fst (fold (evStep env) steps w))) k = Some e"
  using assms evSteps_frozen [of w env steps] unfolding frozen_def evFinal_def by blast

section \<open>The judge\<close>

lemma unparseable_scores [simp]: "jr_Scores (unparseable content) = None"
  by (simp add: unparseable_def emptyResponse_def)

lemma fill_nil: "dims \<noteq> [] \<Longrightarrow> fillScores None dims = None"
  by (cases dims) simp_all

lemma judge_unreadable:
  assumes "jq_Dimensions req \<noteq> []" and "\<And>sys usr. jc_send cl n sys usr = Inr (200, body)"
    and "jc_choices cl body = Inr [content]" and "\<And>s jr. fst (jc_read cl s jr) = False"
  shows "JudgeCall ops cl n req = Inr (unparseable content)"
proof -
  have bad: "\<exists>jr'. jc_read cl s jr = (False, jr')" for s jr using assms(4) by (metis prod.collapse)
  have "parseJudgeResponse ops cl content dims = unparseable content" for dims
  proof -
    obtain jr where one: "jc_read cl content emptyResponse = (False, jr)" using bad by blast
    obtain jr' where "jc_read cl (jsonObject content) jr = (False, jr')" using bad by blast
    then show ?thesis by (simp add: parseJudgeResponse_def one)
  qed
  then show ?thesis using assms by (simp add: JudgeCall_def extractContent_def case_prod_unfold)
qed

text \<open>C30: an answer of the judge that is no JSON crashes the call: the client reports it as scores nil with a comment, and the
  service writes the missing scores into that nil map, a panic. Nothing is stored, whatever the evaluation.\<close>
theorem unreadable_judgement_panics:
  assumes "ee_judge env = Some cl" and "ee_fault env n = None" and "tfind ev_ID (ew_evals s) k = Some e"
    and "ParseDimensions (ee_ops env) (ee_text env) (ev_Dimensions e) = Inr (d # ds)"
    and "\<And>sys usr. jc_send cl (Suc n) sys usr = Inr (200, body)"
    and "jc_choices cl body = Inr [content]" and "\<And>text jr. fst (jc_read cl text jr) = False"
  shows "RunLLMJudge env k out ref (s, n) = (Inl EvPanic, s, n + 2)"
  using assms(1-4) judge_unreadable [OF _ assms(5-7), where ops = "ee_ops env"]
  by (simp add: RunLLMJudge_def GetEvalRow_def act_defs liftE_def checkE_def panicE_def tagged_def fill_nil)

section \<open>Verdicts\<close>

text \<open>in a report built from reviews only the criteria \<open>overall\<close> and \<open>score\<close> count: the criteria on dimensions are checked
  to name defined dimensions and then never compared, so without those two any review, however bad its scores, gives the
  verdict pass, and finalizing marks the evaluation as passed.\<close>
theorem dimension_criteria_never_fail:
  assumes "AggregateReport ops tx now reviews e = Inr rep" and "reviews \<noteq> []"
    and "parseCriteria tx (ev_Criteria e) = Inr cs" and "\<And>c. (''overall'', c) \<notin> set cs" and "\<And>c. (''score'', c) \<notin> set cs"
    and "\<not> evFinal e"
  shows "rp_Verdict rep = VerdictPass \<and> (\<exists>e'. evFinalize tx rep e = Inr e' \<and> ev_Passed e' \<and> ev_Status e' = EvalCompleted)"
proof -
  have "map_of cs ''overall'' = None" "map_of cs ''score'' = None" using assms(4,5) by (metis map_of_SomeD not_None_eq)+
  then have "rp_Verdict rep = VerdictPass"
    using assms(1-3) by (auto simp: AggregateReport_def evVerdict_def Let_def split: sum.splits option.splits if_splits)
  then show ?thesis using assms(6) by (simp add: evFinalize_def)
qed

lemma unreadable_criteria_pass:
  assumes "parseCriteria tx (ev_Criteria e) = Inl err" and "evRecordResult tx ms sc e = Inr e'"
  shows "ev_Passed e' = True"
  using assms by (auto simp: evRecordResult_def evaluateMetrics_def Let_def split: if_splits)

lemma threshold_passes_iff:
  assumes "parseCriteria tx (ev_Criteria e) = Inr cs" and "evRecordResult tx ms sc e = Inr e'"
  shows "ev_Passed e' \<longleftrightarrow> (\<forall>(name, c) \<in> set cs. \<exists>v. map_of ms name = Some v \<and> satisfies v c)"
  using assms by (fastforce simp: evRecordResult_def evaluateMetrics_def Let_def list_all_iff split: if_splits option.splits)

section \<open>A concrete evaluation\<close>

definition evOps :: HpoFloats where
  "evOps = \<lparr>fo_add = (\<lambda>x y. case (x, y) of (Fin a, Fin b) \<Rightarrow> Fin (a + b) | _ \<Rightarrow> NaN),
     fo_mul = (\<lambda>x y. case (x, y) of (Fin a, Fin b) \<Rightarrow> Fin (a * b) | _ \<Rightarrow> NaN),
     fo_div = (\<lambda>x y. case (x, y) of (Fin a, Fin b) \<Rightarrow> Fin (a / b) | _ \<Rightarrow> NaN), fo_sqrt = id, fo_ofInt = (\<lambda>n. Fin (of_int n)),
     fo_sub = (\<lambda>x y. NaN), fo_pow = (\<lambda>x y. NaN), fo_log10 = id, fo_exp = id, fo_lit = Fin, fo_sortPeers = (\<lambda>_. id),
     fo_wild = (\<lambda>_. 0)\<rparr>"

definition evText :: EvText where
  "evText = \<lparr>et_dims = (\<lambda>_. Inr [\<lparr>dm_Name = ''style'', dm_Weight = Fin 1, dm_Description = []\<rparr>]),
     et_criteria = (\<lambda>_. Inr [(''style'', \<lparr>ct_Op = ''>='', ct_Value = Fin 1\<rparr>)]),
     et_scores = (\<lambda>_ _. Some (Fin 0)), et_metricsJSON = (\<lambda>_. Some ''{}''), et_reportJSON = (\<lambda>_. Some ''{...}''),
     et_reportOf = (\<lambda>_. None), et_scoresJSON = (\<lambda>_. Inr ''{}''), et_num = (\<lambda>_. []), et_quote = (\<lambda>s. s)\<rparr>"

definition evJudge :: JudgeClient where
  "evJudge = \<lparr>jc_model = ''gpt'', jc_payload = (\<lambda>_. ''{}''), jc_send = (\<lambda>_ _ _. Inr (200, ''{...}'')),
     jc_choices = (\<lambda>_. Inr [''I would say good'']), jc_read = (\<lambda>_ jr. (False, jr))\<rparr>"

definition evEnv :: EvEnv where
  "evEnv = \<lparr>ee_text = evText, ee_ops = evOps, ee_time = int, ee_evalID = (\<lambda>_. ''eval-1''), ee_reviewID = (\<lambda>_. ''rev-1''),
     ee_fault = (\<lambda>_. None), ee_judge = Some evJudge\<rparr>"

definition evDemo :: Eval where
  "evDemo = NewEval \<lparr>ei_ID = ''e'', ei_Name = ''n'', ei_Task = ''t'', ei_Dataset = ''d'', ei_ExperimentID = [], ei_RunID = [],
     ei_ModelID = ''m'', ei_Criteria = ''{...}'', ei_TenantID = ''acme'', ei_CreatedBy = ''u'', ei_JudgeMode = ''hybrid'',
     ei_Dimensions = ''[...]''\<rparr>"

definition evReview :: Review where
  "evReview = \<lparr>rv_ID = ''r'', rv_EvaluationID = ''e'', rv_TenantID = ''acme'', rv_JudgeType = ''human'', rv_JudgeID = ''u'',
     rv_Scores = ''{...}'', rv_Comment = [], rv_CreatedAt = 0\<rparr>"

lemmas ev_demo = evOps_def evText_def evJudge_def evEnv_def evDemo_def evReview_def NewEval_def

lemma demo_trim: "TrimSpace ''{...}'' = ''{...}''" "TrimSpace ''[...]'' = ''[...]''"
  by code_simp+

lemma demo_dims: "ParseDimensions evOps evText ''[...]'' = Inr [\<lparr>dm_Name = ''style'', dm_Weight = Fin 1, dm_Description = []\<rparr>]"
  by (simp add: ParseDimensions_def demo_trim evOps_def evText_def fle_def pZero_def)

theorem unreadable_judgement_panics_witness:
  "RunLLMJudge evEnv ''e'' ''out'' ''ref'' (\<lparr>ew_evals = [evDemo], ew_reviews = []\<rparr>, 0) =
     (Inl EvPanic, \<lparr>ew_evals = [evDemo], ew_reviews = []\<rparr>, 0 + 2)"
  by (rule unreadable_judgement_panics [where cl = evJudge and e = evDemo and body = "''{...}''" and content = "''I would say good''"
        and d = "\<lparr>dm_Name = ''style'', dm_Weight = Fin 1, dm_Description = []\<rparr>" and ds = "[]"])
    (use demo_dims in \<open>simp_all add: ev_demo\<close>)

theorem dimension_criteria_never_fail_witness:
  "\<exists>rep. AggregateReport evOps evText 0 [evReview] evDemo = Inr rep \<and> rp_Overall rep = Fin 0 \<and> rp_Verdict rep = VerdictPass"
proof -
  obtain rep where rep: "AggregateReport evOps evText 0 [evReview] evDemo = Inr rep" "rp_Overall rep = Fin 0"
    using demo_dims by (auto simp: AggregateReport_def evDemo_def NewEval_def validateCriteriaDimensions_def parseCriteria_def
        demo_trim undefinedDim_def evText_def evReview_def evOps_def dimReport_def accZero_def accAdd_def accMean_def pZero_def Let_def)
  have "parseCriteria evText (ev_Criteria evDemo) = Inr [(''style'', \<lparr>ct_Op = ''>='', ct_Value = Fin 1\<rparr>)]"
    by (simp add: parseCriteria_def evDemo_def NewEval_def demo_trim evText_def)
  from dimension_criteria_never_fail [OF rep(1) _ this] show ?thesis
    using rep by (auto simp: evDemo_def NewEval_def evFinal_def ev_consts)
qed

theorem finalized_evaluation_frozen_witness:
  "tfind ev_ID (ew_evals (fst (fold (evStep evEnv) [StRecord ''e'' [] (Fin 1), StFail ''e'' ''late'', StFinalize ''e'']
     (\<lparr>ew_evals = [evDemo\<lparr>ev_Status := EvalCompleted\<rparr>], ew_reviews = []\<rparr>, 0)))) ''e'' = Some (evDemo\<lparr>ev_Status := EvalCompleted\<rparr>)"
  by (rule finalized_evaluation_frozen) (simp_all add: evDemo_def NewEval_def)

end
