(* ===== verification/DataPipeline.thy ===== *)
theory DataPipeline
  imports HpoDomain Evaluation Store JobStore
begin

text \<open>
  Data pipelines: \<^verbatim>\<open>domain/data\<close> (statuses, the check of the step graph, the builtin operators), \<^verbatim>\<open>adapter/data.go\<close>,
  the rows of \<^verbatim>\<open>storage/data_repo.go\<close> and \<^verbatim>\<open>app/data/service.go\<close>.  JSON columns are read and written by arguments.  The
  steps of \<^verbatim>\<open>domain/data\<close> and of \<^verbatim>\<open>models\<close> have the same fields and are one record, as are their status strings.
\<close>

section \<open>Statuses and rows\<close>

datatype PipelineStatus = PipelineStatusDraft | PipelineStatusPending | PipelineStatusRunning | PipelineStatusCompleted
  | PipelineStatusFailed | PipelineStatusCancelled | OtherPipelineStatus string

datatype StepStatus = StepStatusPending | StepStatusRunning | StepStatusSucceeded | StepStatusFailed | StepStatusSkipped
  | OtherStepStatus string

datatype StepKind = StepKindClean | StepKindAugment | StepKindETL | StepKindAnnotation | OtherStepKind string

definition pipelineTerminal :: "PipelineStatus \<Rightarrow> bool" where
  "pipelineTerminal s = (s = PipelineStatusCompleted \<or> s = PipelineStatusFailed \<or> s = PipelineStatusCancelled)"

definition stepTerminal :: "StepStatus \<Rightarrow> bool" where
  "stepTerminal s = (s = StepStatusSucceeded \<or> s = StepStatusFailed \<or> s = StepStatusSkipped)"

record PipelineStep =
  st_ID :: string
  st_PipelineID :: string
  st_Name :: string
  st_Kind :: StepKind
  st_Operator :: string
  st_DependsOn :: string
  st_InputPath :: string
  st_OutputPath :: string
  st_Params :: string
  st_Image :: string
  st_Command :: string
  st_GPUs :: int
  st_Memory :: int
  st_Status :: StepStatus
  st_JobID :: string
  st_FailureReason :: string
  st_CreatedAt :: time

record DataPipeline =
  dp_ID :: string
  dp_TenantID :: string
  dp_Name :: string
  dp_Description :: string
  dp_DatasetName :: string
  dp_MountPath :: string
  dp_Status :: PipelineStatus
  dp_Priority :: int
  dp_QueueName :: string
  dp_ClusterID :: string
  dp_CreatedAt :: time

record PipelineStepRun =
  pr_ID :: string
  pr_StepID :: string
  pr_PipelineID :: string
  pr_Status :: StepStatus

record DataJobSpec =
  js_Operator :: string
  js_Params :: "(string \<times> PVal) list"
  js_Input :: string
  js_Output :: string

text \<open>Reading and writing JSON; a map of parameters comes in the order a loop visits it.\<close>

record DataText =
  dx_deps :: "string \<Rightarrow> string + string list"
  dx_depsRead :: "string \<Rightarrow> string list"
  dx_params :: "string \<Rightarrow> string + (string \<times> PVal) list"
  dx_specJSON :: "DataJobSpec \<Rightarrow> string + string"
  dx_quote :: "string \<Rightarrow> string"

section \<open>Status machines\<close>

definition CanTransitionPipeline :: "PipelineStatus \<Rightarrow> PipelineStatus \<Rightarrow> bool" where
  "CanTransitionPipeline old to =
     (if old = to then True
      else if pipelineTerminal old then False
      else case to of
        PipelineStatusPending \<Rightarrow> True
      | PipelineStatusRunning \<Rightarrow> True
      | PipelineStatusCancelled \<Rightarrow> True
      | PipelineStatusCompleted \<Rightarrow> old = PipelineStatusRunning
      | PipelineStatusFailed \<Rightarrow> old = PipelineStatusRunning
      | _ \<Rightarrow> False)"

definition StepStatusFromJobStatus :: "JobStatus \<Rightarrow> StepStatus" where
  "StepStatusFromJobStatus js =
     (case js of
        JobStatusPending \<Rightarrow> StepStatusPending
      | JobStatusPaused \<Rightarrow> StepStatusPending
      | JobStatusRunning \<Rightarrow> StepStatusRunning
      | JobStatusRetrying \<Rightarrow> StepStatusRunning
      | JobStatusCompleted \<Rightarrow> StepStatusSucceeded
      | JobStatusFailed \<Rightarrow> StepStatusFailed
      | JobStatusCancelled \<Rightarrow> StepStatusSkipped
      | _ \<Rightarrow> StepStatusPending)"

definition depsRead :: "DataText \<Rightarrow> PipelineStep \<Rightarrow> string list" where
  "depsRead dx s = (if st_DependsOn s \<noteq> [] then dx_depsRead dx (st_DependsOn s) else [])"

definition stepState :: "PipelineStep list \<Rightarrow> string \<Rightarrow> StepStatus" where
  "stepState steps k =
     (case List.find (\<lambda>s. st_ID s = k) (rev steps) of None \<Rightarrow> OtherStepStatus [] | Some s \<Rightarrow> st_Status s)"

definition ReadySteps :: "DataText \<Rightarrow> PipelineStep list \<Rightarrow> PipelineStep list" where
  "ReadySteps dx steps =
     filter (\<lambda>s. st_Status s = StepStatusPending \<and>
       list_all (\<lambda>d. stepState steps d = StepStatusSucceeded) (depsRead dx s)) steps"

definition DerivePipelineStatus :: "PipelineStep list \<Rightarrow> PipelineStatus \<Rightarrow> PipelineStatus" where
  "DerivePipelineStatus steps current =
     (if pipelineTerminal current then current
      else if list_ex (\<lambda>s. st_Status s = StepStatusFailed) steps then PipelineStatusFailed
      else if list_all (\<lambda>s. stepTerminal (st_Status s)) steps then PipelineStatusCompleted
      else if current = PipelineStatusPending then PipelineStatusRunning
      else current)"

section \<open>The check of the graph\<close>

text \<open>The dependencies of a step, or the error: the JSON cannot be read, or a name is no step.\<close>

definition depsOf :: "DataText \<Rightarrow> string list \<Rightarrow> PipelineStep \<Rightarrow> string + string list" where
  "depsOf dx ids s =
     (case (if st_DependsOn s \<noteq> [] then dx_deps dx (st_DependsOn s) else Inr []) of
        Inl e \<Rightarrow> Inl (''step '' @ st_ID s @ '': invalid depends_on json: '' @ e)
      | Inr ds \<Rightarrow> (case List.find (\<lambda>d. d \<notin> set ids) ds of
          Some d \<Rightarrow> Inl (''step '' @ st_ID s @ '' depends on missing step '' @ dx_quote dx d)
        | None \<Rightarrow> Inr ds))"

primrec collectDeps ::
    "DataText \<Rightarrow> string list \<Rightarrow> (string \<Rightarrow> string list) \<Rightarrow> PipelineStep list \<Rightarrow> string + (string \<Rightarrow> string list)" where
  "collectDeps dx ids deps [] = Inr deps"
| "collectDeps dx ids deps (s # ss) =
     (case depsOf dx ids s of
        Inl e \<Rightarrow> Inl e
      | Inr ds \<Rightarrow> collectDeps dx ids (deps(st_ID s := ds)) ss)"

datatype color = White | Gray | Black

text \<open>
  The depth-first search.  The fuel bounds the depth of the recursion; None would be a search that runs out of it, which
  never happens with as many units as there are steps and one more.
\<close>

fun visitAll ::
    "(string \<Rightarrow> string list) \<Rightarrow> nat \<Rightarrow> string list \<Rightarrow> string list \<Rightarrow> (string \<Rightarrow> color) \<Rightarrow> (string + (string \<Rightarrow> color)) option" where
  "visitAll deps n stack [] col = Some (Inr col)"
| "visitAll deps 0 stack (d # ds) col = None"
| "visitAll deps (Suc n) stack (d # ds) col =
     (case col d of
        Gray \<Rightarrow> Some (Inl (''cycle detected: ['' @ spaced stack @ ''] -> '' @ d))
      | Black \<Rightarrow> visitAll deps (Suc n) stack ds col
      | White \<Rightarrow> (case visitAll deps n (stack @ [d]) (deps d) (col(d := Gray)) of
          None \<Rightarrow> None
        | Some (Inl e) \<Rightarrow> Some (Inl e)
        | Some (Inr col) \<Rightarrow> visitAll deps (Suc n) stack ds (col(d := Black))))"

primrec visitRoots ::
    "(string \<Rightarrow> string list) \<Rightarrow> nat \<Rightarrow> PipelineStep list \<Rightarrow> (string \<Rightarrow> color) \<Rightarrow> (string + (string \<Rightarrow> color)) option" where
  "visitRoots deps n [] col = Some (Inr col)"
| "visitRoots deps n (s # ss) col =
     (if col (st_ID s) = White
      then case visitAll deps n [st_ID s] (deps (st_ID s)) (col(st_ID s := Gray)) of
          None \<Rightarrow> None
        | Some (Inl e) \<Rightarrow> Some (Inl e)
        | Some (Inr col) \<Rightarrow> visitRoots deps n ss (col(st_ID s := Black))
      else visitRoots deps n ss col)"

definition ValidateDAG :: "DataText \<Rightarrow> PipelineStep list \<Rightarrow> string option option" where
  "ValidateDAG dx steps =
     (case collectDeps dx (map st_ID steps) (\<lambda>_. []) steps of
        Inl e \<Rightarrow> Some (Some e)
      | Inr deps \<Rightarrow> (case visitRoots deps (Suc (length steps)) steps (\<lambda>_. White) of
          None \<Rightarrow> None
        | Some (Inl e) \<Rightarrow> Some (Some e)
        | Some (Inr _) \<Rightarrow> Some None))"

section \<open>Operators\<close>

record OperatorSpec =
  os_Kind :: StepKind
  os_DefaultImage :: string
  os_Required :: "string list"
  os_Allowed :: "string list"

definition builtinImage :: string where "builtinImage = ''registry.local/fuze/data-operator:latest''"

definition BuiltinOperators :: "(string \<times> OperatorSpec) list" where
  "BuiltinOperators =
     [(''dedup'', \<lparr>os_Kind = StepKindClean, os_DefaultImage = builtinImage, os_Required = [''method''], os_Allowed = [''method'', ''key'']\<rparr>),
      (''fillna'', \<lparr>os_Kind = StepKindClean, os_DefaultImage = builtinImage, os_Required = [''strategy''],
         os_Allowed = [''strategy'', ''columns'', ''value'']\<rparr>),
      (''drop_outlier'', \<lparr>os_Kind = StepKindClean, os_DefaultImage = builtinImage, os_Required = [''method''],
         os_Allowed = [''method'', ''columns'', ''threshold'']\<rparr>),
      (''normalize'', \<lparr>os_Kind = StepKindClean, os_DefaultImage = builtinImage, os_Required = [], os_Allowed = [''rules'']\<rparr>),
      (''img_flip'', \<lparr>os_Kind = StepKindAugment, os_DefaultImage = builtinImage, os_Required = [], os_Allowed = [''mode'']\<rparr>),
      (''img_crop'', \<lparr>os_Kind = StepKindAugment, os_DefaultImage = builtinImage, os_Required = [], os_Allowed = [''ratio'']\<rparr>),
      (''text_synonym'', \<lparr>os_Kind = StepKindAugment, os_DefaultImage = builtinImage, os_Required = [], os_Allowed = [''ratio'', ''dict_uri'']\<rparr>),
      (''text_backtranslate'', \<lparr>os_Kind = StepKindAugment, os_DefaultImage = builtinImage, os_Required = [], os_Allowed = [''target_lang'']\<rparr>),
      (''format_convert'', \<lparr>os_Kind = StepKindETL, os_DefaultImage = builtinImage, os_Required = [''from'', ''to''], os_Allowed = [''from'', ''to'']\<rparr>),
      (''split'', \<lparr>os_Kind = StepKindETL, os_DefaultImage = builtinImage, os_Required = [], os_Allowed = [''train_ratio'', ''seed'']\<rparr>),
      (''sample'', \<lparr>os_Kind = StepKindETL, os_DefaultImage = builtinImage, os_Required = [], os_Allowed = [''n'', ''frac'']\<rparr>)]"

definition ValidateOperator :: "DataText \<Rightarrow> string \<Rightarrow> string \<Rightarrow> string option" where
  "ValidateOperator dx operator paramsJSON =
     (if operator = [] then None
      else case map_of BuiltinOperators operator of
        None \<Rightarrow> Some (''unknown operator '' @ dx_quote dx operator @ '' (not builtin; use empty operator for custom image)'')
      | Some spec \<Rightarrow> (case dx_params dx (if paramsJSON = [] then ''{}'' else paramsJSON) of
          Inl e \<Rightarrow> Some (''operator '' @ operator @ '': invalid params json: '' @ e)
        | Inr params \<Rightarrow> (case List.find (\<lambda>r. r \<notin> set (map fst params)) (os_Required spec) of
            Some r \<Rightarrow> Some (''operator '' @ operator @ '': missing required param '' @ dx_quote dx r)
          | None \<Rightarrow> (case List.find (\<lambda>k. k \<notin> set (os_Allowed spec)) (map fst params) of
              Some k \<Rightarrow> Some (''operator '' @ operator @ '': unexpected param '' @ dx_quote dx k @ '' (allowed: ['' @
                  spaced (os_Allowed spec) @ ''])'')
            | None \<Rightarrow> None))))"

definition OperatorImage :: "string \<Rightarrow> string \<Rightarrow> string" where
  "OperatorImage operator customImage =
     (if operator = [] \<and> customImage \<noteq> [] then customImage
      else case map_of BuiltinOperators operator of Some spec \<Rightarrow> os_DefaultImage spec | None \<Rightarrow> builtinImage)"

definition StepKindToJobType :: "StepKind \<Rightarrow> ModelJobType" where
  "StepKindToJobType k =
     (case k of
        StepKindClean \<Rightarrow> MJDataClean
      | StepKindAugment \<Rightarrow> MJDataAugment
      | StepKindETL \<Rightarrow> MJDataETL
      | StepKindAnnotation \<Rightarrow> MJDataAnnotation
      | _ \<Rightarrow> MJDataETL)"

section \<open>The search is a check for cycles\<close>

definition edges :: "(string \<Rightarrow> string list) \<Rightarrow> (string \<times> string) set" where
  "edges deps = {(s, d). d \<in> set (deps s)}"

text \<open>The black steps are closed under dependencies and carry no cycle; white and gray ones are the others.\<close>

definition blackOK :: "(string \<Rightarrow> string list) \<Rightarrow> (string \<Rightarrow> color) \<Rightarrow> bool" where
  "blackOK deps col =
     ((\<forall>s d. col s = Black \<longrightarrow> d \<in> set (deps s) \<longrightarrow> col d = Black) \<and>
      (\<forall>s. col s = Black \<longrightarrow> (s, s) \<notin> (edges deps)\<^sup>+))"

definition grays :: "(string \<Rightarrow> color) \<Rightarrow> string set" where
  "grays col = {s. col s = Gray}"

lemma black_reach:
  assumes "blackOK deps col" and "(s, d) \<in> (edges deps)\<^sup>+" and "col s = Black"
  shows "col d = Black"
  using assms(2,3) by (induction rule: trancl_induct) (use assms(1) in \<open>auto simp: blackOK_def edges_def\<close>)

lemma blacken:
  assumes ok: "blackOK deps col" and gray: "col s \<noteq> Black" and all: "\<And>d. d \<in> set (deps s) \<Longrightarrow> col d = Black"
  shows "blackOK deps (col(s := Black))"
proof -
  have "(s, s) \<notin> (edges deps)\<^sup>+"
  proof
    assume "(s, s) \<in> (edges deps)\<^sup>+"
    then obtain d where "d \<in> set (deps s)" and "d = s \<or> (d, s) \<in> (edges deps)\<^sup>+"
      by (auto simp: edges_def elim: converse_tranclE)
    then show False using all black_reach [OF ok] gray by blast
  qed
  then show ?thesis using ok all gray by (auto simp: blackOK_def)
qed

lemma after_visit:
  assumes "blackOK deps c1 \<and> grays c1 = grays (col(d := Gray)) \<and> (\<forall>x \<in> set (deps d). c1 x = Black) \<and>
      (\<forall>s. (col(d := Gray)) s = Black \<longrightarrow> c1 s = Black)"
    and "col d = White"
  shows "blackOK deps (c1(d := Black))" and "grays (c1(d := Black)) = grays col" and "\<And>s. col s = Black \<Longrightarrow> c1 s = Black"
proof -
  have "c1 d = Gray" using assms(1) by (auto simp: grays_def)
  then show "blackOK deps (c1(d := Black))" using assms by (intro blacken) auto
  have "grays c1 = insert d (grays col)" using assms by (auto simp: grays_def)
  then show "grays (c1(d := Black)) = grays col" using assms(2) by (auto simp: grays_def)
  fix s assume "col s = Black"
  then have "(col(d := Gray)) s = Black" using assms(2) by auto
  then show "c1 s = Black" using assms(1) by blast
qed

lemma visitAll_sound:
  assumes "visitAll deps n stack ds col = Some (Inr col')" and "blackOK deps col"
  shows "blackOK deps col' \<and> grays col' = grays col \<and> (\<forall>d \<in> set ds. col' d = Black) \<and> (\<forall>s. col s = Black \<longrightarrow> col' s = Black)"
  using assms
proof (induction deps n stack ds col arbitrary: col' rule: visitAll.induct)
  case (3 deps n stack d ds col)
  show ?case
  proof (cases "col d")
    case White
    then obtain c1 where rec: "visitAll deps n (stack @ [d]) (deps d) (col(d := Gray)) = Some (Inr c1)"
      and go: "visitAll deps (Suc n) stack ds (c1(d := Black)) = Some (Inr col')"
      using 3(4) by (auto split: option.splits sum.splits)
    have "blackOK deps (col(d := Gray))" using 3(5) White by (auto simp: blackOK_def)
    note c1 = after_visit [OF 3(1) [OF White rec this] White]
    note c2 = 3(2) [OF White rec refl go c1(1)]
    have "grays col' = grays col" using c2 c1(2) by metis
    moreover have "col' d = Black" using c2 by (metis fun_upd_same)
    moreover have "\<forall>s. col s = Black \<longrightarrow> col' s = Black" using c2 c1(3) by (metis fun_upd_apply)
    ultimately show ?thesis using c2 by simp
  next
    case Gray
    then show ?thesis using 3(4) by simp
  next
    case Black
    then have "visitAll deps (Suc n) stack ds col = Some (Inr col')" using 3(4) by simp
    from 3(3) [OF Black this 3(5)] show ?thesis using Black by simp
  qed
qed simp_all

lemma visitAll_cycle:
  assumes "visitAll deps n stack ds col = Some (Inl e)" and "blackOK deps col"
    and "\<And>g. col g = Gray \<Longrightarrow> (g, u) \<in> (edges deps)\<^sup>*" and "set ds \<subseteq> set (deps u)"
  shows "\<exists>s. (s, s) \<in> (edges deps)\<^sup>+"
  using assms
proof (induction deps n stack ds col arbitrary: u e rule: visitAll.induct)
  case (3 deps n stack d ds col)
  have step: "(u, d) \<in> edges deps" using 3(7) by (simp add: edges_def)
  show ?case
  proof (cases "col d")
    case Gray
    then show ?thesis using 3(6) [of d] step by (meson rtrancl_into_trancl1)
  next
    case White
    have ok: "blackOK deps (col(d := Gray))" using 3(5) White by (auto simp: blackOK_def)
    show ?thesis
    proof (cases "visitAll deps n (stack @ [d]) (deps d) (col(d := Gray))")
      case None
      then show ?thesis using 3(4) White by simp
    next
      case (Some r)
      show ?thesis
      proof (cases r)
        case (Inl e')
        have "(g, d) \<in> (edges deps)\<^sup>*" if "(col(d := Gray)) g = Gray" for g
          using that 3(6) step by (cases "g = d") (auto intro: rtrancl_into_rtrancl)
        from 3(1) [OF White Some [unfolded Inl] ok this subset_refl] show ?thesis .
      next
        case (Inr c1)
        note c1 = after_visit [OF visitAll_sound [OF Some [unfolded Inr] ok] White]
        define c2 where "c2 = c1(d := Black)"
        have "visitAll deps (Suc n) stack ds c2 = Some (Inl e)" using 3(4) White Some Inr by (simp add: c2_def)
        moreover have "blackOK deps c2" using c1(1) by (simp only: c2_def)
        moreover have "(g, u) \<in> (edges deps)\<^sup>*" if "c2 g = Gray" for g
          using that c1(2) 3(6) unfolding grays_def c2_def by blast
        ultimately show ?thesis using 3(2) [OF White Some Inr, where u = u, folded c2_def] 3(7) by simp
      qed
    qed
  next
    case Black
    then show ?thesis using 3(3) [OF Black, of e u] 3(4-7) by simp
  qed
qed auto

definition whites :: "string set \<Rightarrow> (string \<Rightarrow> color) \<Rightarrow> string set" where
  "whites ids col = {s \<in> ids. col s = White}"

lemma whites_after:
  assumes "grays c1 = grays c0" and "\<And>s. c0 s = Black \<Longrightarrow> c1 s = Black"
  shows "whites ids c1 \<subseteq> whites ids c0"
proof
  fix s assume "s \<in> whites ids c1"
  then show "s \<in> whites ids c0" using assms by (cases "c0 s") (force simp: whites_def grays_def set_eq_iff)+
qed

lemma visitAll_returns:
  assumes "finite ids" and "\<And>s. set (deps s) \<subseteq> ids" and "set ds \<subseteq> ids" and "card (whites ids col) < n" and "blackOK deps col"
  shows "visitAll deps n stack ds col \<noteq> None"
  using assms
proof (induction deps n stack ds col rule: visitAll.induct)
  case (3 deps n stack d ds col)
  show ?case
  proof (cases "col d")
    case White
    have ok: "blackOK deps (col(d := Gray))" using 3(8) White by (auto simp: blackOK_def)
    have "whites ids (col(d := Gray)) = whites ids col - {d}" by (auto simp: whites_def)
    moreover have "d \<in> whites ids col" "finite (whites ids col)" using 3(4,6) White by (auto simp: whites_def)
    ultimately have fewer: "card (whites ids (col(d := Gray))) < n"
      using 3(7) card_Suc_Diff1 [of "whites ids col" d] by simp
    have "visitAll deps n (stack @ [d]) (deps d) (col(d := Gray)) \<noteq> None"
      using 3(1) [OF White 3(4,5) 3(5) fewer ok] .
    then obtain r where r: "visitAll deps n (stack @ [d]) (deps d) (col(d := Gray)) = Some r" by blast
    show ?thesis
    proof (cases r)
      case (Inr c1)
      note c1 = after_visit [OF visitAll_sound [OF r [unfolded Inr] ok] White]
      define c2 where "c2 = c1(d := Black)"
      have ok2: "blackOK deps c2" using c1(1) by (simp only: c2_def)
      have "whites ids c2 \<subseteq> whites ids col"
        using c1(2,3) by (intro whites_after) (auto simp: c2_def)
      moreover have "finite (whites ids col)" using 3(4) by (simp add: whites_def)
      ultimately have "card (whites ids c2) < Suc n" using 3(7) by (meson card_mono le_less_trans)
      then have "visitAll deps (Suc n) stack ds c2 \<noteq> None"
        using 3(2) [OF White r Inr 3(4,5), folded c2_def] 3(6) ok2 by simp
      then show ?thesis using White r Inr by (simp add: c2_def)
    qed (use White r in simp)
  qed (use 3 in auto)
qed auto

lemma visitRoots_correct:
  assumes "finite ids" and "\<And>s. set (deps s) \<subseteq> ids" and "set (map st_ID steps) \<subseteq> ids" and "card ids < n"
    and "blackOK deps col" and "grays col = {}"
  shows "\<exists>r. visitRoots deps n steps col = Some r \<and>
    (case r of Inl _ \<Rightarrow> \<exists>s. (s, s) \<in> (edges deps)\<^sup>+
     | Inr col' \<Rightarrow> blackOK deps col' \<and> (\<forall>s \<in> set steps. col' (st_ID s) = Black) \<and> (\<forall>k. col k = Black \<longrightarrow> col' k = Black))"
  using assms
proof (induction steps arbitrary: col)
  case (Cons s ss)
  show ?case
  proof (cases "col (st_ID s)")
    case White
    let ?c = "col(st_ID s := Gray)"
    have ok: "blackOK deps ?c" using Cons.prems(5) White by (auto simp: blackOK_def)
    have "whites ids ?c \<subseteq> ids" by (auto simp: whites_def)
    then have "card (whites ids ?c) < n" using Cons.prems(1,4) by (meson card_mono le_less_trans)
    then obtain r where r: "visitAll deps n [st_ID s] (deps (st_ID s)) ?c = Some r"
      using visitAll_returns [of ids deps "deps (st_ID s)" ?c n] Cons.prems(1,2) ok by blast
    show ?thesis
    proof (cases r)
      case (Inl e)
      have "(g, st_ID s) \<in> (edges deps)\<^sup>*" if "?c g = Gray" for g
        using that Cons.prems(6) by (auto simp: grays_def split: if_splits)
      from visitAll_cycle [OF r [unfolded Inl] ok this subset_refl] show ?thesis using White r Inl by simp
    next
      case (Inr c1)
      note c1 = after_visit [OF visitAll_sound [OF r [unfolded Inr] ok] White]
      define c2 where "c2 = c1(st_ID s := Black)"
      have "blackOK deps c2" "grays c2 = {}" using c1(1,2) Cons.prems(6) by (simp_all only: c2_def)
      then obtain r' where r': "visitRoots deps n ss c2 = Some r'"
        "case r' of Inl _ \<Rightarrow> \<exists>s. (s, s) \<in> (edges deps)\<^sup>+
         | Inr col' \<Rightarrow> blackOK deps col' \<and> (\<forall>s \<in> set ss. col' (st_ID s) = Black) \<and> (\<forall>k. c2 k = Black \<longrightarrow> col' k = Black)"
        using Cons.IH [OF Cons.prems(1,2) _ Cons.prems(4), of c2] Cons.prems(3) by auto
      have "c2 (st_ID s) = Black" "\<And>k. col k = Black \<Longrightarrow> c2 k = Black" using c1(3) by (simp_all add: c2_def)
      then show ?thesis using White r Inr r' by (cases r') (simp_all flip: c2_def)
    qed
  next
    case Gray
    then show ?thesis using Cons.prems(6) by (auto simp: grays_def)
  next
    case Black
    then obtain r' where "visitRoots deps n ss col = Some r'" and
      "case r' of Inl _ \<Rightarrow> \<exists>s. (s, s) \<in> (edges deps)\<^sup>+
       | Inr col' \<Rightarrow> blackOK deps col' \<and> (\<forall>s \<in> set ss. col' (st_ID s) = Black) \<and> (\<forall>k. col k = Black \<longrightarrow> col' k = Black)"
      using Cons.IH [of col] Cons.prems by auto
    then show ?thesis using Black by (cases r') auto
  qed
qed simp

lemma depsOf_known: "depsOf dx ids s = Inr ds \<Longrightarrow> set ds \<subseteq> set ids"
  by (auto simp: depsOf_def find_None_iff split: sum.splits option.splits if_splits)

lemma collectDeps_spec:
  assumes "distinct (map st_ID steps)" and "\<And>s. s \<in> set steps \<Longrightarrow> deps (st_ID s) = []"
  shows "case collectDeps dx ids deps steps of
     Inl _ \<Rightarrow> \<exists>s \<in> set steps. \<forall>ds. depsOf dx ids s \<noteq> Inr ds
   | Inr deps' \<Rightarrow> (\<forall>s \<in> set steps. depsOf dx ids s = Inr (deps' (st_ID s))) \<and>
       (\<forall>k. k \<notin> st_ID ` set steps \<longrightarrow> deps' k = deps k)"
  using assms
proof (induction steps arbitrary: deps)
  case (Cons s ss)
  show ?case
  proof (cases "depsOf dx ids s")
    case (Inr ds)
    define deps1 where "deps1 = deps(st_ID s := ds)"
    have "\<And>t. t \<in> set ss \<Longrightarrow> deps1 (st_ID t) = []" using Cons.prems by (fastforce simp: deps1_def image_iff)
    then have "case collectDeps dx ids deps1 ss of
       Inl _ \<Rightarrow> \<exists>s \<in> set ss. \<forall>ds. depsOf dx ids s \<noteq> Inr ds
     | Inr deps' \<Rightarrow> (\<forall>s \<in> set ss. depsOf dx ids s = Inr (deps' (st_ID s))) \<and>
         (\<forall>k. k \<notin> st_ID ` set ss \<longrightarrow> deps' k = deps1 k)"
      using Cons.prems(1) by (intro Cons.IH) simp_all
    then show ?thesis using Cons.prems(1)
      by (cases "collectDeps dx ids deps1 ss") (simp_all add: Inr flip: deps1_def, simp add: deps1_def)
  qed simp
qed simp

definition dependsOn :: "DataText \<Rightarrow> PipelineStep list \<Rightarrow> (string \<times> string) set" where
  "dependsOn dx steps =
     {(k, d). \<exists>s ds. s \<in> set steps \<and> st_ID s = k \<and> depsOf dx (map st_ID steps) s = Inr ds \<and> d \<in> set ds}"

text \<open>C31: the check of a pipeline's graph always returns, and accepts a list of steps with distinct identifiers exactly when the
  dependencies of every step can be read and name steps of the list and no step depends on itself, over any number of
  steps.\<close>
theorem validate_dag_correct:
  assumes "distinct (map st_ID steps)"
  shows "\<exists>r. ValidateDAG dx steps = Some r \<and>
    (r = None \<longleftrightarrow> (\<forall>s \<in> set steps. \<exists>ds. depsOf dx (map st_ID steps) s = Inr ds) \<and> acyclic (dependsOn dx steps))"
proof (cases "collectDeps dx (map st_ID steps) (\<lambda>_. []) steps")
  case (Inl e)
  then show ?thesis using collectDeps_spec [OF assms, of "\<lambda>_. []" dx "map st_ID steps"]
    by (fastforce simp: ValidateDAG_def)
next
  case (Inr deps)
  let ?ids = "set (map st_ID steps)"
  have deps: "\<forall>s \<in> set steps. depsOf dx (map st_ID steps) s = Inr (deps (st_ID s))" "\<forall>k. k \<notin> ?ids \<longrightarrow> deps k = []"
    using collectDeps_spec [OF assms, of "\<lambda>_. []" dx "map st_ID steps"] Inr by auto
  have known: "set (deps k) \<subseteq> ?ids" for k
    using deps depsOf_known [of dx "map st_ID steps"] by (cases "k \<in> ?ids") force+
  have rel: "dependsOn dx steps = edges deps"
  proof (intro set_eqI)
    fix x :: "string \<times> string"
    obtain k d where x: "x = (k, d)" by (cases x)
    show "x \<in> dependsOn dx steps \<longleftrightarrow> x \<in> edges deps"
      using deps by (cases "k \<in> ?ids") (force simp: x dependsOn_def edges_def)+
  qed
  have "card ?ids < Suc (length steps)" using card_length [of "map st_ID steps"] by simp
  moreover have "blackOK deps (\<lambda>_. White)" "grays (\<lambda>_. White) = {}" by (simp_all add: blackOK_def grays_def)
  ultimately have "\<exists>r. visitRoots deps (Suc (length steps)) steps (\<lambda>_. White) = Some r \<and>
    (case r of Inl _ \<Rightarrow> \<exists>s. (s, s) \<in> (edges deps)\<^sup>+
     | Inr col' \<Rightarrow> blackOK deps col' \<and> (\<forall>s \<in> set steps. col' (st_ID s) = Black) \<and> (\<forall>k. White = Black \<longrightarrow> col' k = Black))"
    using known by (intro visitRoots_correct [where ids = ?ids]) simp_all
  then obtain r where r: "visitRoots deps (Suc (length steps)) steps (\<lambda>_. White) = Some r"
    and fin: "case r of Inl _ \<Rightarrow> \<exists>s. (s, s) \<in> (edges deps)\<^sup>+
     | Inr col' \<Rightarrow> blackOK deps col' \<and> (\<forall>s \<in> set steps. col' (st_ID s) = Black) \<and> (\<forall>k. White = Black \<longrightarrow> col' k = Black)"
    by blast
  have "acyclic (edges deps) \<longleftrightarrow> (\<exists>c. r = Inr c)"
  proof (cases r)
    case (Inr c)
    have "(k, k) \<notin> (edges deps)\<^sup>+" for k
    proof
      assume loop: "(k, k) \<in> (edges deps)\<^sup>+"
      then obtain d where "d \<in> set (deps k)" by (auto simp: edges_def dest: tranclD)
      then have "k \<in> ?ids" using deps(2) by fastforce
      then show False using loop fin Inr by (auto simp: blackOK_def)
    qed
    then show ?thesis using Inr by (simp add: acyclic_def)
  qed (use fin in \<open>auto simp: acyclic_def\<close>)
  then show ?thesis using deps(1) r Inr rel by (cases r) (auto simp: ValidateDAG_def)
qed


text \<open>Two steps, the second after the first.\<close>

definition dataText :: DataText where
  "dataText = \<lparr>dx_deps = (\<lambda>t. Inr [t]), dx_depsRead = (\<lambda>t. [t]), dx_params = (\<lambda>_. Inr []), dx_specJSON = (\<lambda>_. Inr ''{}''),
     dx_quote = (\<lambda>t. t)\<rparr>"

definition demoStep :: "string \<Rightarrow> string \<Rightarrow> PipelineStep" where
  "demoStep k dep = \<lparr>st_ID = k, st_PipelineID = ''p'', st_Name = k, st_Kind = StepKindClean, st_Operator = [], st_DependsOn = dep,
     st_InputPath = [], st_OutputPath = [], st_Params = [], st_Image = ''img'', st_Command = ''run'', st_GPUs = 0, st_Memory = 1,
     st_Status = StepStatusPending, st_JobID = [], st_FailureReason = [], st_CreatedAt = 0\<rparr>"

theorem validate_dag_correct_witness:
  "ValidateDAG dataText [demoStep ''a'' ''b'', demoStep ''b'' ''a''] \<noteq> Some None \<and>
   (\<exists>r. ValidateDAG dataText [demoStep ''a'' ''b'', demoStep ''b'' ''a''] = Some r)"
proof -
  let ?s = "[demoStep ''a'' ''b'', demoStep ''b'' ''a'']"
  have d: "distinct (map st_ID ?s)" by (simp add: demoStep_def)
  have "(''a'', ''b'') \<in> dependsOn dataText ?s" "(''b'', ''a'') \<in> dependsOn dataText ?s"
  proof -
    have "depsOf dataText (map st_ID ?s) (demoStep ''a'' ''b'') = Inr [''b'']" "depsOf dataText (map st_ID ?s) (demoStep ''b'' ''a'') = Inr [''a'']"
      by (simp_all add: depsOf_def dataText_def demoStep_def)
    moreover have "st_ID (demoStep k x) = k" for k x by (simp add: demoStep_def)
    ultimately show "(''a'', ''b'') \<in> dependsOn dataText ?s" "(''b'', ''a'') \<in> dependsOn dataText ?s"
      unfolding dependsOn_def by force+
  qed
  then have "\<not> acyclic (dependsOn dataText ?s)" unfolding acyclic_def by (meson trancl.intros trancl_trans)
  then show ?thesis using validate_dag_correct [OF d, of dataText] by auto
qed

end
