(* ===== verification/PipelineService.thy ===== *)
theory PipelineService
  imports DataPipeline ApiAccess
begin

text \<open>
  The tables of \<^verbatim>\<open>storage/data_repo.go\<close>, the pipelines of \<^verbatim>\<open>app/data/service.go\<close>, the scheduler's round over them
  (\<^verbatim>\<open>scheduler/scheduler.go\<close>) and the handlers of \<^verbatim>\<open>api/data_handlers.go\<close> on pipelines.  Time stamps of the last update
  and of step runs are left out.
\<close>

section \<open>Tables\<close>

datatype DataErr = DataStore StoreError | DataText string | DataPanic

record DataWorld =
  dw_pipelines :: "DataPipeline list"
  dw_steps :: "PipelineStep list"
  dw_runs :: "PipelineStepRun list"
  dw_jobs :: "JobRow list"

record DataEnv =
  de_text :: DataText
  de_time :: "nat \<Rightarrow> time"
  de_id :: "nat \<Rightarrow> string"
  de_fault :: "nat \<Rightarrow> DataErr option"

type_synonym 'a dataop = "(DataWorld, DataErr, 'a) act"

definition notFoundD :: DataErr where "notFoundD = DataStore RecordNotFound"
definition duplicateD :: DataErr where "duplicateD = DataStore (DbError ''unique constraint'')"

definition CreatePipelineRow :: "DataEnv \<Rightarrow> DataPipeline \<Rightarrow> DataPipeline dataop" where
  "CreatePipelineRow env p =
     bindS (askS (de_time env)) (\<lambda>now.
     let p = p\<lparr>dp_Status := if dp_Status p = OtherPipelineStatus [] then PipelineStatusDraft else dp_Status p, dp_CreatedAt := now\<rparr> in
     dbS (de_fault env) (\<lambda>w.
       if tfind dp_ID (dw_pipelines w) (dp_ID p) \<noteq> None then (Inl duplicateD, w)
       else (Inr p, w\<lparr>dw_pipelines := tadd p (dw_pipelines w)\<rparr>)))"

definition GetPipelineRow :: "DataEnv \<Rightarrow> string \<Rightarrow> DataPipeline dataop" where
  "GetPipelineRow env k =
     readS (de_fault env) (\<lambda>w. case tfind dp_ID (dw_pipelines w) k of None \<Rightarrow> Inl notFoundD | Some p \<Rightarrow> Inr p)"

definition ListPipelineRows :: "DataEnv \<Rightarrow> string \<Rightarrow> DataPipeline list dataop" where
  "ListPipelineRows env tenant =
     readS (de_fault env) (\<lambda>w. Inr (sort_key (\<lambda>p. - dp_CreatedAt p) (filter (\<lambda>p. dp_TenantID p = tenant) (dw_pipelines w))))"

definition ListActivePipelineRows :: "DataEnv \<Rightarrow> DataPipeline list dataop" where
  "ListActivePipelineRows env =
     readS (de_fault env) (\<lambda>w. Inr (sort_key dp_CreatedAt (filter (\<lambda>p. \<not> pipelineTerminal (dp_Status p)) (dw_pipelines w))))"

definition pipelineColumns :: "DataPipeline \<Rightarrow> DataPipeline \<Rightarrow> DataPipeline" where
  "pipelineColumns p r = r\<lparr>dp_Status := dp_Status p, dp_Priority := dp_Priority p, dp_QueueName := dp_QueueName p,
     dp_ClusterID := dp_ClusterID p, dp_Description := dp_Description p\<rparr>"

definition UpdatePipelineRow :: "DataEnv \<Rightarrow> DataPipeline \<Rightarrow> unit dataop" where
  "UpdatePipelineRow env p = writeS (de_fault env) (\<lambda>w.
     w\<lparr>dw_pipelines := map (\<lambda>r. if dp_ID r = dp_ID p then pipelineColumns p r else r) (dw_pipelines w)\<rparr>)"

definition CreateStepRow :: "DataEnv \<Rightarrow> PipelineStep \<Rightarrow> unit dataop" where
  "CreateStepRow env st =
     bindS (askS (de_time env)) (\<lambda>now.
     let st = st\<lparr>st_Status := if st_Status st = OtherStepStatus [] then StepStatusPending else st_Status st, st_CreatedAt := now\<rparr> in
     dbS (de_fault env) (\<lambda>w.
       if tfind st_ID (dw_steps w) (st_ID st) \<noteq> None then (Inl duplicateD, w)
       else (Inr (), w\<lparr>dw_steps := tadd st (dw_steps w)\<rparr>)))"

definition stepsOf :: "string \<Rightarrow> DataWorld \<Rightarrow> PipelineStep list" where
  "stepsOf k w = sort_key st_CreatedAt (filter (\<lambda>s. st_PipelineID s = k) (dw_steps w))"

definition GetSteps :: "DataEnv \<Rightarrow> string \<Rightarrow> PipelineStep list dataop" where
  "GetSteps env k = readS (de_fault env) (\<lambda>w. Inr (stepsOf k w))"

definition stepColumns :: "PipelineStep \<Rightarrow> PipelineStep \<Rightarrow> PipelineStep" where
  "stepColumns st r = r\<lparr>st_Status := st_Status st, st_JobID := st_JobID st, st_FailureReason := st_FailureReason st\<rparr>"

definition UpdateStepRow :: "DataEnv \<Rightarrow> PipelineStep \<Rightarrow> unit dataop" where
  "UpdateStepRow env st = writeS (de_fault env) (\<lambda>w.
     w\<lparr>dw_steps := map (\<lambda>r. if st_ID r = st_ID st then stepColumns st r else r) (dw_steps w)\<rparr>)"

definition CreateStepRun :: "DataEnv \<Rightarrow> PipelineStepRun \<Rightarrow> unit dataop" where
  "CreateStepRun env r = dbS (de_fault env) (\<lambda>w.
     if tfind pr_ID (dw_runs w) (pr_ID r) \<noteq> None then (Inl duplicateD, w)
     else (Inr (), w\<lparr>dw_runs := tadd r (dw_runs w)\<rparr>))"

definition UpdateStepRun :: "DataEnv \<Rightarrow> PipelineStepRun \<Rightarrow> unit dataop" where
  "UpdateStepRun env r = writeS (de_fault env) (\<lambda>w.
     w\<lparr>dw_runs := map (\<lambda>x. if pr_ID x = pr_ID r then x\<lparr>pr_Status := pr_Status r\<rparr> else x) (dw_runs w)\<rparr>)"

definition GetStepRuns :: "DataEnv \<Rightarrow> string \<Rightarrow> PipelineStepRun list dataop" where
  "GetStepRuns env k = readS (de_fault env) (\<lambda>w. Inr (filter (\<lambda>r. pr_StepID r = k) (dw_runs w)))"

text \<open>The job table is that of \<^verbatim>\<open>JobStore\<close>.\<close>

definition jobCreate :: "DataEnv \<Rightarrow> JobRow \<Rightarrow> JobRow dataop" where
  "jobCreate env job =
     bindS (askS (de_id env)) (\<lambda>fresh. bindS (askS (de_time env)) (\<lambda>now.
     dbS (de_fault env) (\<lambda>w.
       case CreateJob None fresh now job (dw_jobs w) of
         (Some e, _, jobs) \<Rightarrow> (Inl (DataStore e), w\<lparr>dw_jobs := jobs\<rparr>)
       | (None, job, jobs) \<Rightarrow> (Inr job, w\<lparr>dw_jobs := jobs\<rparr>))))"

definition jobGet :: "DataEnv \<Rightarrow> string \<Rightarrow> JobRow dataop" where
  "jobGet env k =
     readS (de_fault env) (\<lambda>w. case GetJob None k (dw_jobs w) of Inl e \<Rightarrow> Inl (DataStore e) | Inr j \<Rightarrow> Inr j)"

definition jobSetStatus :: "DataEnv \<Rightarrow> JobRow \<Rightarrow> unit dataop" where
  "jobSetStatus env job =
     bindS (askS (de_time env)) (\<lambda>now.
     dbS (de_fault env) (\<lambda>w.
       case UpdateJobStatus None now job (dw_jobs w) of
         (Some e, _, jobs) \<Rightarrow> (Inl (DataStore e), w\<lparr>dw_jobs := jobs\<rparr>)
       | (None, _, jobs) \<Rightarrow> (Inr (), w\<lparr>dw_jobs := jobs\<rparr>)))"

section \<open>Creation\<close>

definition failText :: "string option \<Rightarrow> unit dataop" where
  "failText r = (case r of None \<Rightarrow> retS () | Some e \<Rightarrow> failS (DataText e))"

primrec checkSteps :: "DataText \<Rightarrow> PipelineStep list \<Rightarrow> string option" where
  "checkSteps dx [] = None"
| "checkSteps dx (s # ss) =
     (case ValidateOperator dx (st_Operator s) (st_Params s) of
        Some e \<Rightarrow> Some (''step '' @ st_Name s @ '': '' @ e)
      | None \<Rightarrow> checkSteps dx ss)"

definition CreatePipeline :: "DataEnv \<Rightarrow> DataPipeline \<Rightarrow> PipelineStep list \<Rightarrow> DataPipeline dataop" where
  "CreatePipeline env p steps =
     bindS (failText (map_option (\<lambda>e. ''invalid DAG: '' @ e) (the (ValidateDAG (de_text env) steps)))) (\<lambda>_.
     bindS (failText (checkSteps (de_text env) steps)) (\<lambda>_.
     let steps = map (\<lambda>s. s\<lparr>st_PipelineID := dp_ID p, st_Status := StepStatusPending\<rparr>) steps in
     bindS (CreatePipelineRow env p) (\<lambda>p.
     bindS (foreachS (CreateStepRow env) steps) (\<lambda>_. retS p))))"

section \<open>Dispatch\<close>

definition joinPath :: "string \<Rightarrow> string \<Rightarrow> string" where
  "joinPath mount sub =
     (if sub = [] then mount
      else if 0 < length mount \<and> mount ! (length mount - 1) = CHR ''/'' then mount @ sub
      else mount @ ''/'' @ sub)"

definition mustParseParams :: "DataText \<Rightarrow> string \<Rightarrow> (string \<times> PVal) list" where
  "mustParseParams dx raw =
     (if raw = [] then [] else case dx_params dx raw of Inl _ \<Rightarrow> [] | Inr m \<Rightarrow> m)"

definition zeroJob :: JobRow where
  "zeroJob = \<lparr>jr_ID = [], jr_ClusterID = [], jr_Name = [], jr_Type = OtherModelJobType [], jr_Status = NoStatus, jr_Priority = 0,
     jr_Image = [], jr_Command = [], jr_GPUs = 0, jr_Memory = 0, jr_GPUMemory = 0, jr_GPUCores = 0, jr_Distributed = False,
     jr_Framework = [], jr_Replicas = 0, jr_MinAvailable = 0, jr_DatasetName = [], jr_MountPath = [], jr_TenantID = [],
     jr_VolcanoJobName = [], jr_QueueName = [], jr_CreatedAt = 0, jr_UpdatedAt = 0, jr_FailureReason = [],
     jr_SubmitAttempts = 0, jr_LastSubmitAt = 0, jr_MaxRuntime = 0, jr_StartedAt = None, jr_CheckpointEnabled = False,
     jr_CheckpointInterval = 0, jr_CheckpointMaxRetries = 0, jr_LatestCheckpointURI = [], jr_LatestCheckpointStep = 0,
     jr_LatestCheckpointAt = None, jr_LatestCheckpointHash = [], jr_LatestCheckpointSizeBytes = 0, jr_ResumeFrom = [],
     jr_RetryAttempts = 0, jr_RegisterModelEnabled = False, jr_RegisterModelID = [], jr_RegisterVersionTag = [],
     jr_RegisteredVersionID = [], jr_RegisterAdapterEnabled = False, jr_AdapterBaseModel = [], jr_AdapterMethod = [],
     jr_AdapterRank = 0, jr_RegisteredAdapterID = [], jr_CodeCommit = [], jr_CodeRepo = [], jr_TemplateID = [],
     jr_DatasetID = [], jr_DatasetVersion = [], jr_DataSpecJSON = []\<rparr>"

definition buildStepJob :: "DataText \<Rightarrow> DataPipeline \<Rightarrow> PipelineStep \<Rightarrow> string + JobRow" where
  "buildStepJob dx p st =
     (case dx_specJSON dx \<lparr>js_Operator = st_Operator st, js_Params = mustParseParams dx (st_Params st),
          js_Input = joinPath (dp_MountPath p) (st_InputPath st), js_Output = joinPath (dp_MountPath p) (st_OutputPath st)\<rparr> of
        Inl e \<Rightarrow> Inl e
      | Inr json \<Rightarrow> Inr (zeroJob
          \<lparr>jr_Name := dp_Name p @ ''-'' @ st_Name st, jr_Type := StepKindToJobType (st_Kind st), jr_Status := JobStatusPending,
           jr_Image := if st_Image st = [] then OperatorImage (st_Operator st) [] else st_Image st,
           jr_Command := if st_Image st = [] then ''data-operator'' else st_Command st,
           jr_GPUs := st_GPUs st, jr_Memory := st_Memory st, jr_DatasetName := dp_DatasetName p, jr_MountPath := dp_MountPath p,
           jr_TenantID := dp_TenantID p, jr_ClusterID := dp_ClusterID p, jr_QueueName := dp_QueueName p, jr_DataSpecJSON := json\<rparr>))"

text \<open>The error of a job that could not be created, wrapped with the step.\<close>

definition wrapD :: "string \<Rightarrow> 'a dataop \<Rightarrow> 'a dataop" where
  "wrapD prefix m = handleS m (\<lambda>r. case r of
     Inl (DataStore e) \<Rightarrow> failS (DataText (prefix @ errText e))
   | Inl e \<Rightarrow> failS e
   | Inr x \<Rightarrow> retS x)"

definition dispatchStep :: "DataEnv \<Rightarrow> DataPipeline \<Rightarrow> PipelineStep \<Rightarrow> unit dataop" where
  "dispatchStep env p st =
     (if st_JobID st \<noteq> [] then retS ()
      else case buildStepJob (de_text env) p st of
        Inl e \<Rightarrow> failS (DataText e)
      | Inr job \<Rightarrow>
          bindS (wrapD (''dispatch step '' @ st_ID st @ '': '') (jobCreate env job)) (\<lambda>job.
          bindS (UpdateStepRow env (st\<lparr>st_JobID := jr_ID job, st_Status := StepStatusPending\<rparr>)) (\<lambda>_.
          handleS (CreateStepRun env \<lparr>pr_ID = ''run-'' @ st_ID st, pr_StepID = st_ID st, pr_PipelineID = st_PipelineID st,
            pr_Status = StepStatusPending\<rparr>) (\<lambda>_. retS ()))))"

definition dispatchSteps :: "DataEnv \<Rightarrow> DataPipeline \<Rightarrow> PipelineStep list \<Rightarrow> unit dataop" where
  "dispatchSteps env p = foreachS (dispatchStep env p)"

definition statusText :: "PipelineStatus \<Rightarrow> string" where
  "statusText s = (case s of
     PipelineStatusDraft \<Rightarrow> ''draft'' | PipelineStatusPending \<Rightarrow> ''pending'' | PipelineStatusRunning \<Rightarrow> ''running''
   | PipelineStatusCompleted \<Rightarrow> ''completed'' | PipelineStatusFailed \<Rightarrow> ''failed'' | PipelineStatusCancelled \<Rightarrow> ''cancelled''
   | OtherPipelineStatus t \<Rightarrow> t)"

definition SubmitPipeline :: "DataEnv \<Rightarrow> string \<Rightarrow> unit dataop" where
  "SubmitPipeline env k =
     bindS (GetPipelineRow env k) (\<lambda>p.
     if pipelineTerminal (dp_Status p)
     then failS (DataText (''pipeline '' @ k @ '' is in terminal state '' @ statusText (dp_Status p)))
     else bindS (GetSteps env k) (\<lambda>steps.
       let ready = ReadySteps (de_text env) steps in
       if ready = [] then failS (DataText (''pipeline '' @ k @ '' has no runnable step''))
       else bindS (dispatchSteps env p ready) (\<lambda>_.
         UpdatePipelineRow env (p\<lparr>dp_Status := PipelineStatusRunning\<rparr>))))"

section \<open>Synchronisation\<close>

definition syncStep :: "DataEnv \<Rightarrow> PipelineStep \<Rightarrow> unit dataop" where
  "syncStep env st =
     (if st_JobID st = [] then retS ()
      else handleS (jobGet env (st_JobID st)) (\<lambda>r. case r of
          Inl _ \<Rightarrow> retS ()
        | Inr job \<Rightarrow>
            let new = StepStatusFromJobStatus (jr_Status job) in
            if new = st_Status st then retS ()
            else UpdateStepRow env (st\<lparr>st_Status := new,
              st_FailureReason := if new = StepStatusFailed then jr_FailureReason job else st_FailureReason st\<rparr>)))"

definition SyncPipeline :: "DataEnv \<Rightarrow> string \<Rightarrow> unit dataop" where
  "SyncPipeline env k =
     bindS (GetPipelineRow env k) (\<lambda>p.
     if pipelineTerminal (dp_Status p) then retS ()
     else bindS (GetSteps env k) (\<lambda>steps.
       bindS (foreachS (syncStep env) steps) (\<lambda>_.
       bindS (GetSteps env k) (\<lambda>reread.
       bindS (dispatchSteps env p (ReadySteps (de_text env) reread)) (\<lambda>_.
       bindS (GetSteps env k) (\<lambda>steps.
       let derived = DerivePipelineStatus steps (dp_Status p) in
       if derived \<noteq> dp_Status p then UpdatePipelineRow env (p\<lparr>dp_Status := derived\<rparr>) else retS ()))))))"

definition cancelStep :: "DataEnv \<Rightarrow> PipelineStep \<Rightarrow> unit dataop" where
  "cancelStep env st =
     (if st_JobID st = [] then retS ()
      else handleS (jobGet env (st_JobID st)) (\<lambda>r. case r of
          Inl _ \<Rightarrow> retS ()
        | Inr job \<Rightarrow>
            bindS (if \<not> IsTerminal (jr_Status job) then jobSetStatus env (job\<lparr>jr_Status := JobStatusCancelled\<rparr>) else retS ()) (\<lambda>_.
            if st_Status st \<noteq> StepStatusSucceeded
            then handleS (UpdateStepRow env (st\<lparr>st_Status := StepStatusSkipped\<rparr>)) (\<lambda>_. retS ())
            else retS ())))"

definition CancelPipeline :: "DataEnv \<Rightarrow> string \<Rightarrow> unit dataop" where
  "CancelPipeline env k =
     bindS (GetPipelineRow env k) (\<lambda>p.
     if pipelineTerminal (dp_Status p) then retS ()
     else bindS (GetSteps env k) (\<lambda>steps.
       bindS (foreachS (cancelStep env) steps) (\<lambda>_.
       UpdatePipelineRow env (p\<lparr>dp_Status := PipelineStatusCancelled\<rparr>))))"

definition GetPipelineAndSteps :: "DataEnv \<Rightarrow> string \<Rightarrow> (DataPipeline \<times> PipelineStep list) dataop" where
  "GetPipelineAndSteps env k = bindS (GetPipelineRow env k) (\<lambda>p. bindS (GetSteps env k) (\<lambda>steps. retS (p, steps)))"

definition ListPipelines :: "DataEnv \<Rightarrow> string \<Rightarrow> DataPipeline list dataop" where
  "ListPipelines = ListPipelineRows"

definition ListActivePipelines :: "DataEnv \<Rightarrow> DataPipeline list dataop" where
  "ListActivePipelines = ListActivePipelineRows"

text \<open>A round of the scheduler: an error skips the pipeline.\<close>

definition syncDataPipelines :: "DataEnv \<Rightarrow> unit dataop" where
  "syncDataPipelines env =
     handleS (ListActivePipelines env) (\<lambda>r. case r of
       Inl _ \<Rightarrow> retS ()
     | Inr active \<Rightarrow> foreachS (\<lambda>p. handleS (SyncPipeline env (dp_ID p)) (\<lambda>_. retS ())) active)"

section \<open>Handlers\<close>

type_synonym 'a datahandler = "(DataWorld, DataErr, 'a ApiReply) act"

fun dataErrText :: "DataErr \<Rightarrow> string" where
  "dataErrText (DataStore e) = errText e"
| "dataErrText (DataText e) = e"
| "dataErrText DataPanic = []"

definition answerD :: "(string \<Rightarrow> 'b ApiReply) \<Rightarrow> 'a dataop \<Rightarrow> ('a \<Rightarrow> 'b datahandler) \<Rightarrow> 'b datahandler" where
  "answerD bad m f = handleS m (\<lambda>r. case r of
     Inl DataPanic \<Rightarrow> failS DataPanic
   | Inl e \<Rightarrow> retS (bad (dataErrText e))
   | Inr x \<Rightarrow> f x)"

record PipelineRequest =
  pq_Name :: string
  pq_Description :: string
  pq_DatasetName :: string
  pq_MountPath :: string
  pq_Priority :: int
  pq_QueueName :: string
  pq_ClusterID :: string
  pq_Steps :: "PipelineStep list"

text \<open>
  The handler makes a slice of length 0 (its capacity is the number of steps) and assigns to index \<^verbatim>\<open>i\<close> of it: the first
  step panics.
\<close>

definition copySteps :: "PipelineStep list \<Rightarrow> PipelineStep list dataop" where
  "copySteps steps = (case steps of [] \<Rightarrow> retS [] | _ # _ \<Rightarrow> failS DataPanic)"

definition CreateDataPipeline :: "DataEnv \<Rightarrow> Claims option \<Rightarrow> string + PipelineRequest \<Rightarrow> DataPipeline datahandler" where
  "CreateDataPipeline env c body =
     (case body of
        Inl e \<Rightarrow> retS (ApiFail 400 e)
      | Inr req \<Rightarrow> (case requireWriteTenant c of
          None \<Rightarrow> retS (ApiFail 400 ''missing tenant context'')
        | Some tenant \<Rightarrow>
            bindS (askS (de_id env)) (\<lambda>fresh.
            bindS (copySteps (pq_Steps req)) (\<lambda>steps.
            answerD (ApiFail 400) (CreatePipeline env
              \<lparr>dp_ID = ''pipe-'' @ fresh, dp_TenantID = tenant, dp_Name = pq_Name req, dp_Description = pq_Description req,
               dp_DatasetName = pq_DatasetName req, dp_MountPath = if pq_MountPath req = [] then ''/mnt/data'' else pq_MountPath req,
               dp_Status = PipelineStatusDraft, dp_Priority = pq_Priority req, dp_QueueName = pq_QueueName req,
               dp_ClusterID = pq_ClusterID req, dp_CreatedAt = 0\<rparr> steps) (\<lambda>p. retS (ApiOK p))))))"

definition ListDataPipelines :: "DataEnv \<Rightarrow> Claims option \<Rightarrow> DataPipeline list datahandler" where
  "ListDataPipelines env c = answerD (ApiFail 500) (ListPipelines env (tenantScope c)) (\<lambda>ps. retS (ApiOK ps))"

definition onPipeline ::
    "DataEnv \<Rightarrow> Claims option \<Rightarrow> string \<Rightarrow> (DataPipeline \<Rightarrow> PipelineStep list \<Rightarrow> 'b datahandler) \<Rightarrow> 'b datahandler" where
  "onPipeline env c k f =
     answerD (\<lambda>_. ApiFail 404 ''pipeline not found'') (GetPipelineAndSteps env k) (\<lambda>(p, steps).
       if \<not> canAccessTenant (dp_TenantID p) c then retS (ApiFail 404 ''pipeline not found'') else f p steps)"

definition GetDataPipeline :: "DataEnv \<Rightarrow> Claims option \<Rightarrow> string \<Rightarrow> (DataPipeline \<times> PipelineStep list) datahandler" where
  "GetDataPipeline env c k = onPipeline env c k (\<lambda>p steps. retS (ApiOK (p, steps)))"

definition SubmitDataPipeline :: "DataEnv \<Rightarrow> Claims option \<Rightarrow> string \<Rightarrow> string datahandler" where
  "SubmitDataPipeline env c k = onPipeline env c k (\<lambda>_ _. answerD (ApiFail 400) (SubmitPipeline env k) (\<lambda>_. retS (ApiOK k)))"

definition CancelDataPipeline :: "DataEnv \<Rightarrow> Claims option \<Rightarrow> string \<Rightarrow> string datahandler" where
  "CancelDataPipeline env c k = onPipeline env c k (\<lambda>_ _. answerD (ApiFail 400) (CancelPipeline env k) (\<lambda>_. retS (ApiOK k)))"

end
