(* ===== verification/PipelineProofs.thy ===== *)
theory PipelineProofs
  imports PipelineService
begin

text \<open>
  What the pipelines promise: a step is given at most one job, a pipeline that ended stays as it is.  And what the
  handlers do to them: no pipeline created over the interface has a step.
\<close>

section \<open>What the operations leave alone\<close>

definition sameSteps :: "DataWorld \<Rightarrow> DataWorld \<Rightarrow> bool" where
  "sameSteps s t = (dw_steps t = dw_steps s)"

definition samePipes :: "DataWorld \<Rightarrow> DataWorld \<Rightarrow> bool" where
  "samePipes s t = (dw_pipelines t = dw_pipelines s)"

definition othersSame :: "string \<Rightarrow> DataWorld \<Rightarrow> DataWorld \<Rightarrow> bool" where
  "othersSame k s t = (\<forall>k'. k' \<noteq> k \<longrightarrow> tfind st_ID (dw_steps t) k' = tfind st_ID (dw_steps s) k')"

definition jobsFixed :: "DataWorld \<Rightarrow> DataWorld \<Rightarrow> bool" where
  "jobsFixed s t = (\<forall>k r. tfind st_ID (dw_steps s) k = Some r \<longrightarrow> st_JobID r \<noteq> [] \<longrightarrow>
     (\<exists>r'. tfind st_ID (dw_steps t) k = Some r' \<and> st_JobID r' = st_JobID r))"

definition endsFixed :: "DataWorld \<Rightarrow> DataWorld \<Rightarrow> bool" where
  "endsFixed s t = (\<forall>k p. tfind dp_ID (dw_pipelines s) k = Some p \<longrightarrow> pipelineTerminal (dp_Status p) \<longrightarrow>
     tfind dp_ID (dw_pipelines t) k = Some p)"

definition keyed :: "DataWorld \<Rightarrow> bool" where
  "keyed s = (tunique st_ID (dw_steps s) \<and> tunique dp_ID (dw_pipelines s))"

definition keyedKept :: "DataWorld \<Rightarrow> DataWorld \<Rightarrow> bool" where
  "keyedKept s t = (keyed s \<longrightarrow> keyed t)"

interpretation kk: kept keyedKept by unfold_locales (simp_all add: keyedKept_def)
interpretation ss: kept sameSteps by unfold_locales (simp_all add: sameSteps_def)
interpretation sp: kept samePipes by unfold_locales (simp_all add: samePipes_def)
interpretation os: kept "othersSame k" for k by unfold_locales (simp_all add: othersSame_def)
interpretation jf: kept jobsFixed by unfold_locales (auto simp: jobsFixed_def, metis)
interpretation ef: kept endsFixed by unfold_locales (simp_all add: endsFixed_def)

lemma tfind_map:
  assumes "\<And>r. key (f r) = key r"
  shows "tfind key (map (\<lambda>r. if key r = k then f r else r) rows) k' =
    (if k' = k then map_option f (tfind key rows k) else tfind key rows k')"
  by (induction rows) (auto simp: assms)

lemma sameSteps_fixed: "sameSteps s t \<Longrightarrow> jobsFixed s t \<and> othersSame k s t"
  by (simp add: sameSteps_def jobsFixed_def othersSame_def)

lemma samePipes_fixed: "samePipes s t \<Longrightarrow> endsFixed s t"
  by (simp add: samePipes_def endsFixed_def)

section \<open>Rows\<close>

lemma data_still [simp]:
  "after (GetPipelineRow env k) w = fst w" "after (GetSteps env k) w = fst w" "after (jobGet env k) w = fst w"
  "after (failText r) w = fst w" "after (ListPipelineRows env k) w = fst w" "after (ListActivePipelineRows env) w = fst w"
  by (simp_all add: GetPipelineRow_def GetSteps_def jobGet_def failText_def ListPipelineRows_def ListActivePipelineRows_def
      split: option.split)

lemma wrapD_after [simp]: "after (wrapD t m) w = after m w"
  by (auto simp: wrapD_def after_def handleS_def retS_def failS_def split: prod.splits sum.splits DataErr.splits)

lemma jobCreate_same: "sameSteps (fst w) (after (jobCreate env job) w)" "samePipes (fst w) (after (jobCreate env job) w)"
  unfolding jobCreate_def
  by (intro ss.keep_bind ss.keep_still ss.keep_db after_simps sp.keep_bind sp.keep_still sp.keep_db;
      auto simp: sameSteps_def samePipes_def split: prod.splits option.splits)+

lemma jobSetStatus_same: "sameSteps (fst w) (after (jobSetStatus env job) w)" "samePipes (fst w) (after (jobSetStatus env job) w)"
  unfolding jobSetStatus_def
  by (intro ss.keep_bind ss.keep_still ss.keep_db after_simps sp.keep_bind sp.keep_still sp.keep_db;
      auto simp: sameSteps_def samePipes_def split: prod.splits option.splits)+

lemma CreateStepRun_same: "sameSteps (fst w) (after (CreateStepRun env r) w)" "samePipes (fst w) (after (CreateStepRun env r) w)"
  unfolding CreateStepRun_def by (intro ss.keep_db sp.keep_db; auto simp: sameSteps_def samePipes_def)+

lemma UpdateStepRow_pipes: "samePipes (fst w) (after (UpdateStepRow env st) w)"
  unfolding UpdateStepRow_def by (intro sp.keep_write) (simp add: samePipes_def)

lemma UpdateStepRow_others: "othersSame (st_ID st) (fst w) (after (UpdateStepRow env st) w)"
  unfolding UpdateStepRow_def
  by (intro os.keep_write) (simp add: othersSame_def tfind_map stepColumns_def)

lemma UpdateStepRow_fixed:
  assumes "\<And>r. tfind st_ID (dw_steps (fst w)) (st_ID st) = Some r \<Longrightarrow> st_JobID r = st_JobID st \<or> st_JobID r = []"
  shows "jobsFixed (fst w) (after (UpdateStepRow env st) w)"
  unfolding UpdateStepRow_def
  by (intro jf.keep_write) (use assms in \<open>auto simp: jobsFixed_def tfind_map stepColumns_def\<close>)

lemma UpdatePipelineRow_same: "sameSteps (fst w) (after (UpdatePipelineRow env p) w)"
  unfolding UpdatePipelineRow_def by (intro ss.keep_write) (simp add: sameSteps_def)

lemma UpdatePipelineRow_ends:
  assumes "\<And>r. tfind dp_ID (dw_pipelines (fst w)) (dp_ID p) = Some r \<Longrightarrow> \<not> pipelineTerminal (dp_Status r)"
  shows "endsFixed (fst w) (after (UpdatePipelineRow env p) w)"
  unfolding UpdatePipelineRow_def
  by (intro ef.keep_write) (use assms in \<open>auto simp: endsFixed_def tfind_map pipelineColumns_def\<close>)

lemma map_keys:
  assumes "\<And>r. key (f r) = key r"
  shows "tunique key (map (\<lambda>r. if key r = k then f r else r) rows) = tunique key rows"
  by (simp add: tunique_def comp_def assms if_distrib [of key] cong: if_cong)

lemma UpdateStepRow_keyed: "keyedKept (fst w) (after (UpdateStepRow env st) w)"
  unfolding UpdateStepRow_def
  by (intro kk.keep_write) (simp add: keyedKept_def keyed_def map_keys stepColumns_def)

lemma UpdatePipelineRow_keyed: "keyedKept (fst w) (after (UpdatePipelineRow env p) w)"
  unfolding UpdatePipelineRow_def
  by (intro kk.keep_write) (simp add: keyedKept_def keyed_def map_keys pipelineColumns_def)

lemma same_keyed: "sameSteps s t \<Longrightarrow> samePipes s t \<Longrightarrow> keyedKept s t"
  by (simp add: sameSteps_def samePipes_def keyedKept_def keyed_def)

section \<open>One step\<close>

text \<open>The copies a loop still has to handle are of different steps and carry the job the row has.\<close>

definition agrees :: "PipelineStep list \<Rightarrow> DataWorld \<times> nat \<Rightarrow> bool" where
  "agrees xs w = (distinct (map st_ID xs) \<and>
     (\<forall>st \<in> set xs. \<exists>r. tfind st_ID (dw_steps (fst w)) (st_ID st) = Some r \<and> st_JobID r = st_JobID st))"

lemma agrees_next:
  assumes "agrees (x # xs) w" and "othersSame (st_ID x) (fst w) (fst w1)"
  shows "agrees xs w1"
proof -
  have "st_ID st \<noteq> st_ID x" if "st \<in> set xs" for st
  proof -
    have "st_ID x \<notin> st_ID ` set xs" using assms(1) by (simp add: agrees_def)
    then show ?thesis using that by (metis image_eqI)
  qed
  then show ?thesis using assms by (simp add: agrees_def othersSame_def)
qed

lemma after_eq: "m w = (r, w1) \<Longrightarrow> after m w = fst w1"
  by (simp add: after_def)

lemma agrees_row: "agrees (x # xs) w \<Longrightarrow> tfind st_ID (dw_steps (fst w)) (st_ID x) = Some r \<Longrightarrow> st_JobID r = st_JobID x"
  by (auto simp: agrees_def)

definition cautious :: "(PipelineStep \<Rightarrow> unit dataop) \<Rightarrow> bool" where
  "cautious f = (\<forall>st w. keyedKept (fst w) (after (f st) w) \<and> samePipes (fst w) (after (f st) w) \<and> othersSame (st_ID st) (fst w) (after (f st) w) \<and>
     ((\<forall>r. tfind st_ID (dw_steps (fst w)) (st_ID st) = Some r \<longrightarrow> st_JobID r = st_JobID st) \<longrightarrow> jobsFixed (fst w) (after (f st) w)))"

lemma cautious_loop:
  assumes "cautious f"
  shows "keyedKept (fst w) (after (foreachS f xs) w)" and "samePipes (fst w) (after (foreachS f xs) w)"
    and "agrees xs w \<Longrightarrow> jobsFixed (fst w) (after (foreachS f xs) w)"
proof -
  show "keyedKept (fst w) (after (foreachS f xs) w)"
    using assms unfolding cautious_def by (intro kk.keep_foreach) blast
  show "samePipes (fst w) (after (foreachS f xs) w)"
    using assms unfolding cautious_def by (intro sp.keep_foreach) blast
  assume "agrees xs w"
  then show "jobsFixed (fst w) (after (foreachS f xs) w)"
  proof (rule jf.keep_foreach_inv [of agrees])
    fix x xs w assume "agrees (x # xs) w"
    moreover from this have "jobsFixed (fst w) (after (f x) w)" "othersSame (st_ID x) (fst w) (after (f x) w)"
      using assms agrees_row unfolding cautious_def by blast+
    ultimately show "jobsFixed (fst w) (after (f x) w) \<and> (\<forall>y w1. f x w = (Inr y, w1) \<longrightarrow> agrees xs w1)"
      by (metis after_eq agrees_next)
  qed
qed

text \<open>Synchronisation and cancellation change jobs and then at most write the step with the job it has.\<close>

definition viaRow :: "DataEnv \<Rightarrow> PipelineStep \<Rightarrow> DataWorld \<Rightarrow> DataWorld \<Rightarrow> bool" where
  "viaRow env st s t = (\<exists>w. sameSteps s (fst w) \<and> samePipes s (fst w) \<and>
     (t = fst w \<or> (\<exists>st'. st_ID st' = st_ID st \<and> st_JobID st' = st_JobID st \<and> t = after (UpdateStepRow env st') w)))"

lemma viaRow_stop: "sameSteps s (fst (w :: DataWorld \<times> nat)) \<Longrightarrow> samePipes s (fst w) \<Longrightarrow> viaRow env st s (fst w)"
  unfolding viaRow_def by (rule exI [of _ w]) simp

lemma viaRow_write:
  "sameSteps s (fst w) \<Longrightarrow> samePipes s (fst w) \<Longrightarrow> st_ID st' = st_ID st \<Longrightarrow> st_JobID st' = st_JobID st \<Longrightarrow>
    viaRow env st s (after (UpdateStepRow env st') w)"
  unfolding viaRow_def by blast

lemma viaRow_pipes: "viaRow env st s t \<Longrightarrow> samePipes s t"
  unfolding viaRow_def using UpdateStepRow_pipes sp.kept_trans by metis

lemma viaRow_keyed: "viaRow env st s t \<Longrightarrow> keyedKept s t"
  unfolding viaRow_def using UpdateStepRow_keyed same_keyed kk.kept_trans by metis

lemma viaRow_others: "viaRow env st s t \<Longrightarrow> othersSame (st_ID st) s t"
  unfolding viaRow_def using UpdateStepRow_others sameSteps_fixed os.kept_trans by metis

lemma viaRow_jobs:
  assumes "viaRow env st s t" and "\<And>r. tfind st_ID (dw_steps s) (st_ID st) = Some r \<Longrightarrow> st_JobID r = st_JobID st"
  shows "jobsFixed s t"
proof -
  obtain w where w: "sameSteps s (fst w)" and t: "t = fst w \<or> (\<exists>st'. st_ID st' = st_ID st \<and> st_JobID st' = st_JobID st \<and>
      t = after (UpdateStepRow env st') w)"
    using assms(1) unfolding viaRow_def by blast
  from t show ?thesis
  proof
    assume "\<exists>st'. st_ID st' = st_ID st \<and> st_JobID st' = st_JobID st \<and> t = after (UpdateStepRow env st') w"
    then obtain st' where st': "st_ID st' = st_ID st" "st_JobID st' = st_JobID st" "t = after (UpdateStepRow env st') w" by blast
    have "jobsFixed (fst w) t" unfolding st'(3)
      by (rule UpdateStepRow_fixed) (use assms(2) w st'(1,2) in \<open>auto simp: sameSteps_def\<close>)
    then show ?thesis using sameSteps_fixed [OF w] jf.kept_trans by blast
  qed (use sameSteps_fixed [OF w] in simp)
qed

lemma cautious_via: "(\<And>st w. viaRow env st (fst w) (after (f st) w)) \<Longrightarrow> cautious f"
  unfolding cautious_def using viaRow_keyed viaRow_pipes viaRow_others viaRow_jobs by blast

lemma after_handle: "m w = (r, w1) \<Longrightarrow> after (handleS m f) w = after (f r) w1"
  by (simp add: after_def handleS_def)

lemma cautious_sync: "cautious (syncStep env)"
proof (rule cautious_via)
  fix st :: PipelineStep and w :: "DataWorld \<times> nat"
  obtain r w1 where r: "jobGet env (st_JobID st) w = (r, w1)" by (metis surj_pair)
  then have same: "sameSteps (fst w) (fst w1)" "samePipes (fst w) (fst w1)" "sameSteps (fst w) (fst w)" "samePipes (fst w) (fst w)"
    using after_eq [of "jobGet env (st_JobID st)", OF r] by (simp_all add: ss.kept_refl sp.kept_refl)
  then show "viaRow env st (fst w) (after (syncStep env st) w)"
    by (cases r) (auto simp: syncStep_def after_handle [where m = "jobGet env (st_JobID st)", OF r] Let_def intro: viaRow_stop viaRow_write)
qed

lemma cautious_cancel: "cautious (cancelStep env)"
proof (rule cautious_via)
  fix st :: PipelineStep and w :: "DataWorld \<times> nat"
  obtain r w1 where r: "jobGet env (st_JobID st) w = (r, w1)" by (metis surj_pair)
  then have same: "sameSteps (fst w) (fst w1)" "samePipes (fst w) (fst w1)" "sameSteps (fst w) (fst w)" "samePipes (fst w) (fst w)"
    using after_eq [of "jobGet env (st_JobID st)", OF r] by (simp_all add: ss.kept_refl sp.kept_refl)
  show "viaRow env st (fst w) (after (cancelStep env st) w)"
  proof (cases "st_JobID st = [] \<or> (\<exists>e. r = Inl e)")
    case True
    then show ?thesis using same by (auto simp: cancelStep_def after_handle [where m = "jobGet env (st_JobID st)", OF r] intro: viaRow_stop)
  next
    case False
    then obtain job where job: "r = Inr job" by (cases r) auto
    define first where "first = (if \<not> IsTerminal (jr_Status job) then jobSetStatus env (job\<lparr>jr_Status := JobStatusCancelled\<rparr>) else retS ())"
    obtain r2 w2 where r2: "first w1 = (r2, w2)" by (metis surj_pair)
    have "sameSteps (fst w1) (after first w1)" "samePipes (fst w1) (after first w1)"
      using jobSetStatus_same by (simp_all add: first_def ss.kept_refl sp.kept_refl)
    then have "sameSteps (fst w) (fst w2)" "samePipes (fst w) (fst w2)"
      using same after_eq [of first, OF r2] ss.kept_trans sp.kept_trans by metis+
    then show ?thesis using False job
      by (cases r2) (auto simp: cancelStep_def after_handle [where m = "jobGet env (st_JobID st)", OF r] after_bind r2 simp flip: first_def intro: viaRow_stop viaRow_write)
  qed
qed

lemma sameSteps_others: "sameSteps s t \<Longrightarrow> othersSame k s t"
  by (simp add: sameSteps_fixed)

lemma dispatch_frame:
  "keyedKept (fst w) (after (dispatchStep env p st) w)" "samePipes (fst w) (after (dispatchStep env p st) w)" "othersSame (st_ID st) (fst w) (after (dispatchStep env p st) w)"
proof -
  have "othersSame (st_ID st) (fst w) (after (UpdateStepRow env (st\<lparr>st_JobID := j, st_Status := x\<rparr>)) w)" for j x w
    using UpdateStepRow_others [of "st\<lparr>st_JobID := j, st_Status := x\<rparr>"] by simp
  note upd = this
  show "othersSame (st_ID st) (fst w) (after (dispatchStep env p st) w)"
  proof (cases "st_JobID st = [] \<and> (\<exists>job. buildStepJob (de_text env) p st = Inr job)")
    case True
    then obtain job where job: "buildStepJob (de_text env) p st = Inr job" by blast
    show ?thesis unfolding dispatchStep_def job using True
      by (simp only: if_False simp_thms sum.case)
        (intro os.keep_bind upd; simp add: sameSteps_others jobCreate_same CreateStepRun_same)
  qed (cases "buildStepJob (de_text env) p st", auto simp: dispatchStep_def os.kept_refl)
  show "keyedKept (fst w) (after (dispatchStep env p st) w)"
  proof (cases "st_JobID st = [] \<and> (\<exists>job. buildStepJob (de_text env) p st = Inr job)")
    case True
    then obtain job where job: "buildStepJob (de_text env) p st = Inr job" by blast
    show ?thesis unfolding dispatchStep_def job using True
      by (simp only: if_False simp_thms sum.case)
        (intro kk.keep_bind UpdateStepRow_keyed; simp add: jobCreate_same CreateStepRun_same same_keyed)
  qed (cases "buildStepJob (de_text env) p st", auto simp: dispatchStep_def kk.kept_refl)
  show "samePipes (fst w) (after (dispatchStep env p st) w)"
  proof (cases "st_JobID st = [] \<and> (\<exists>job. buildStepJob (de_text env) p st = Inr job)")
    case True
    then obtain job where job: "buildStepJob (de_text env) p st = Inr job" by blast
    show ?thesis unfolding dispatchStep_def job using True
      by (simp only: if_False simp_thms sum.case)
        (intro sp.keep_bind UpdateStepRow_pipes; simp add: jobCreate_same CreateStepRun_same)
  qed (cases "buildStepJob (de_text env) p st", auto simp: dispatchStep_def sp.kept_refl)
qed

lemma cautious_dispatch: "cautious (dispatchStep env p)"
  unfolding cautious_def
proof (intro allI conjI impI)
  fix st :: PipelineStep and w :: "DataWorld \<times> nat"
  assume row: "\<forall>r. tfind st_ID (dw_steps (fst w)) (st_ID st) = Some r \<longrightarrow> st_JobID r = st_JobID st"
  show "jobsFixed (fst w) (after (dispatchStep env p st) w)"
  proof (cases "st_JobID st = []")
    case True
    then show ?thesis using row dispatch_frame(3) [of st w env p] unfolding jobsFixed_def othersSame_def by metis
  qed (simp add: dispatchStep_def jf.kept_refl)
qed (rule dispatch_frame)+

section \<open>The operations of the service\<close>

lemma GetPipelineRow_Inr:
  "GetPipelineRow env k w = (Inr p, w1) \<Longrightarrow> tfind dp_ID (dw_pipelines (fst w)) k = Some p \<and> fst w1 = fst w"
  by (auto simp: GetPipelineRow_def dest!: readS_Inr split: option.splits)

lemma GetSteps_Inr: "GetSteps env k w = (Inr xs, w1) \<Longrightarrow> xs = stepsOf k (fst w) \<and> fst w1 = fst w"
  by (auto simp: GetSteps_def dest!: readS_Inr)

lemma stepsOf_agrees:
  assumes "keyed (fst w)" and "set xs \<subseteq> set (stepsOf k (fst w))" and "distinct (map st_ID xs)"
  shows "agrees xs w"
  using assms tfind_unique [of st_ID "dw_steps (fst w)"]
  by (fastforce simp: agrees_def keyed_def stepsOf_def)

lemma stepsOf_distinct: "keyed s \<Longrightarrow> distinct (map st_ID (filter P (stepsOf k s)))"
proof -
  assume "keyed s"
  then have "distinct (map st_ID (stepsOf k s))"
    unfolding keyed_def tunique_def stepsOf_def
    by (auto simp: distinct_map intro: inj_on_subset)
  then show ?thesis by (rule distinct_map_filter)
qed


text \<open>What every operation keeps, on a state whose tables have unique keys.\<close>

definition careful :: "DataWorld \<Rightarrow> DataWorld \<Rightarrow> bool" where
  "careful s t = (keyed s \<longrightarrow> keyed t \<and> jobsFixed s t \<and> endsFixed s t)"

interpretation cf: kept careful
  by unfold_locales (auto simp: careful_def jf.kept_refl ef.kept_refl intro: jf.kept_trans ef.kept_trans)

lemma careful_same: "sameSteps s t \<Longrightarrow> samePipes s t \<Longrightarrow> careful s t"
  using same_keyed [of s t] by (simp add: careful_def keyedKept_def sameSteps_fixed samePipes_fixed)

lemma careful_loop:
  assumes "cautious f" and "fst w = s"
  shows "careful s (after (foreachS f (filter P (stepsOf k s))) w)"
proof -
  have "keyed s \<Longrightarrow> agrees (filter P (stepsOf k s)) w"
    using stepsOf_agrees [of w "filter P (stepsOf k s)" k] stepsOf_distinct [of s P k] assms(2) by auto
  then show ?thesis
    using cautious_loop [OF assms(1), where w = w and xs = "filter P (stepsOf k s)"] assms(2)
    unfolding careful_def keyedKept_def by (auto intro: samePipes_fixed)
qed

lemma loop_pipes: "cautious f \<Longrightarrow> foreachS f xs w = (r, w1) \<Longrightarrow> dw_pipelines (fst w1) = dw_pipelines (fst w)"
  using cautious_loop(2) [where f = f and w = w and xs = xs] after_eq [of "foreachS f xs" w] by (simp add: samePipes_def)

lemma careful_update:
  assumes "tfind dp_ID (dw_pipelines (fst w)) (dp_ID p) = Some r" and "\<not> pipelineTerminal (dp_Status r)"
  shows "careful (fst w) (after (UpdatePipelineRow env p) w)"
  using UpdatePipelineRow_same [of w env p] UpdatePipelineRow_keyed [of w env p] UpdatePipelineRow_ends [of w p env] assms
  by (simp add: careful_def keyedKept_def sameSteps_fixed)

lemmas loops = cautious_sync cautious_cancel cautious_dispatch

lemma careful_submit: "careful (fst w) (after (SubmitPipeline env k) w)"
  unfolding SubmitPipeline_def
proof (rule cf.keep_first [OF refl data_still(1)])
  fix p w1 assume get: "GetPipelineRow env k w = (Inr p, w1)" and eq: "fst w1 = fst w"
  from GetPipelineRow_Inr [OF get] have p: "tfind dp_ID (dw_pipelines (fst w)) (dp_ID p) = Some p" by (auto dest: tfind_key)
  show "careful (fst w) (after (if pipelineTerminal (dp_Status p)
      then failS (DataText (''pipeline '' @ k @ '' is in terminal state '' @ statusText (dp_Status p)))
      else bindS (GetSteps env k) (\<lambda>steps. let ready = ReadySteps (de_text env) steps in
        if ready = [] then failS (DataText (''pipeline '' @ k @ '' has no runnable step''))
        else bindS (dispatchSteps env p ready) (\<lambda>_. UpdatePipelineRow env (p\<lparr>dp_Status := PipelineStatusRunning\<rparr>)))) w1)"
  proof (cases "pipelineTerminal (dp_Status p)")
    case False
    have "careful (fst w) (after (bindS (dispatchSteps env p (ReadySteps (de_text env) (stepsOf k (fst w))))
        (\<lambda>_. UpdatePipelineRow env (p\<lparr>dp_Status := PipelineStatusRunning\<rparr>))) w2)" if w2: "fst w2 = fst w" for w2
      unfolding w2 [symmetric]
    proof (rule cf.keep_bind)
      show "careful (fst w2) (after (dispatchSteps env p (ReadySteps (de_text env) (stepsOf k (fst w2)))) w2)"
        unfolding dispatchSteps_def ReadySteps_def by (rule careful_loop [OF cautious_dispatch refl])
      fix u w3 assume "dispatchSteps env p (ReadySteps (de_text env) (stepsOf k (fst w2))) w2 = (Inr u, w3)"
      then have "dw_pipelines (fst w3) = dw_pipelines (fst w)"
        using loop_pipes [OF cautious_dispatch, of env p _ w2 "Inr u" w3] w2 by (simp add: dispatchSteps_def)
      then show "careful (fst w3) (after (UpdatePipelineRow env (p\<lparr>dp_Status := PipelineStatusRunning\<rparr>)) w3)"
        using p False by (intro careful_update) simp_all
    qed
    then show ?thesis using False
      by (simp, intro cf.keep_first [OF eq data_still(2)]) (auto dest!: GetSteps_Inr simp: eq Let_def cf.kept_refl)
  qed (simp add: eq cf.kept_refl)
qed

text \<open>The parts of a synchronisation, from the last one on; the pipeline read at the start is still the row.\<close>

definition isRow :: "string \<Rightarrow> DataPipeline \<Rightarrow> DataWorld \<Rightarrow> bool" where
  "isRow k p s = (tfind dp_ID (dw_pipelines s) k = Some p \<and> dp_ID p = k \<and> \<not> pipelineTerminal (dp_Status p))"

lemma isRow_loop: "isRow k p (fst w) \<Longrightarrow> cautious f \<Longrightarrow> foreachS f xs w = (r, w1) \<Longrightarrow> isRow k p (fst w1)"
  using loop_pipes by (simp add: isRow_def)

lemma careful_status: "isRow k p (fst w) \<Longrightarrow> careful (fst w) (after (UpdatePipelineRow env (p\<lparr>dp_Status := x\<rparr>)) w)"
  by (intro careful_update [of w _ p]) (simp_all add: isRow_def)

definition deriveTail :: "DataEnv \<Rightarrow> string \<Rightarrow> DataPipeline \<Rightarrow> unit dataop" where
  "deriveTail env k p = bindS (GetSteps env k) (\<lambda>steps.
     let derived = DerivePipelineStatus steps (dp_Status p) in
     if derived \<noteq> dp_Status p then UpdatePipelineRow env (p\<lparr>dp_Status := derived\<rparr>) else retS ())"

definition dispatchTail :: "DataEnv \<Rightarrow> string \<Rightarrow> DataPipeline \<Rightarrow> unit dataop" where
  "dispatchTail env k p = bindS (GetSteps env k) (\<lambda>reread.
     bindS (dispatchSteps env p (ReadySteps (de_text env) reread)) (\<lambda>_. deriveTail env k p))"

definition syncTail :: "DataEnv \<Rightarrow> string \<Rightarrow> DataPipeline \<Rightarrow> unit dataop" where
  "syncTail env k p = bindS (GetSteps env k) (\<lambda>steps.
     bindS (foreachS (syncStep env) steps) (\<lambda>_. dispatchTail env k p))"

lemma SyncPipeline_tail:
  "SyncPipeline env k = bindS (GetPipelineRow env k) (\<lambda>p. if pipelineTerminal (dp_Status p) then retS () else syncTail env k p)"
  unfolding SyncPipeline_def syncTail_def dispatchTail_def deriveTail_def ..

lemma careful_derive: "isRow k p (fst w) \<Longrightarrow> careful (fst w) (after (deriveTail env k p) w)"
  unfolding deriveTail_def Let_def
proof (rule cf.keep_first [OF refl data_still(2)])
  fix steps and w1 :: "DataWorld \<times> nat" assume "isRow k p (fst w)" and eq: "fst w1 = fst w"
  then have "isRow k p (fst w1)" by simp
  then show "careful (fst w) (after (if DerivePipelineStatus steps (dp_Status p) \<noteq> dp_Status p
      then UpdatePipelineRow env (p\<lparr>dp_Status := DerivePipelineStatus steps (dp_Status p)\<rparr>) else retS ()) w1)"
    unfolding eq [symmetric] by (simp add: careful_status cf.kept_refl)
qed

lemma stepsOf_filter: "stepsOf k s = filter (\<lambda>_. True) (stepsOf k s)"
  by simp

lemma careful_then:
  assumes "isRow k p (fst w)" and "cautious f" and "careful (fst w) (after (foreachS f xs) w)"
    and "\<And>w. isRow k p (fst w) \<Longrightarrow> careful (fst w) (after (rest :: unit dataop) w)"
  shows "careful (fst w) (after (bindS (foreachS f xs) (\<lambda>_. rest)) w)"
  using assms isRow_loop by (intro cf.keep_bind) blast+

lemma careful_dispatch: "isRow k p (fst w) \<Longrightarrow> careful (fst w) (after (dispatchTail env k p) w)"
  unfolding dispatchTail_def dispatchSteps_def
proof (rule cf.keep_first [OF refl data_still(2)])
  fix xs w1 assume row: "isRow k p (fst w)" and get: "GetSteps env k w = (Inr xs, w1)" and eq: "fst w1 = fst w"
  then have xs: "xs = stepsOf k (fst w1)" and row1: "isRow k p (fst w1)" by (auto dest: GetSteps_Inr)
  have "careful (fst w1) (after (foreachS (dispatchStep env p) (ReadySteps (de_text env) xs)) w1)"
    unfolding ReadySteps_def xs by (rule careful_loop [OF cautious_dispatch refl])
  from careful_then [OF row1 cautious_dispatch this careful_derive]
  show "careful (fst w) (after (bindS (foreachS (dispatchStep env p) (ReadySteps (de_text env) xs)) (\<lambda>_. deriveTail env k p)) w1)"
    unfolding eq .
qed

lemma careful_syncTail: "isRow k p (fst w) \<Longrightarrow> careful (fst w) (after (syncTail env k p) w)"
  unfolding syncTail_def
proof (rule cf.keep_first [OF refl data_still(2)])
  fix xs w1 assume row: "isRow k p (fst w)" and get: "GetSteps env k w = (Inr xs, w1)" and eq: "fst w1 = fst w"
  then have xs: "xs = stepsOf k (fst w1)" and row1: "isRow k p (fst w1)" by (auto dest: GetSteps_Inr)
  have "careful (fst w1) (after (foreachS (syncStep env) xs) w1)"
    unfolding xs by (subst stepsOf_filter) (rule careful_loop [OF cautious_sync refl])
  from careful_then [OF row1 cautious_sync this careful_dispatch]
  show "careful (fst w) (after (bindS (foreachS (syncStep env) xs) (\<lambda>_. dispatchTail env k p)) w1)"
    unfolding eq .
qed

lemma read_isRow:
  "GetPipelineRow env k w = (Inr p, w1) \<Longrightarrow> \<not> pipelineTerminal (dp_Status p) \<Longrightarrow> isRow k p (fst w1)"
  by (auto dest!: GetPipelineRow_Inr dest: tfind_key simp: isRow_def)

lemma careful_read:
  assumes "\<And>p w. isRow k p (fst w) \<Longrightarrow> careful (fst w) (after (f p) w)"
  shows "careful (fst w) (after (bindS (GetPipelineRow env k)
    (\<lambda>p. if pipelineTerminal (dp_Status p) then retS () else f p)) w)"
proof (rule cf.keep_first [OF refl data_still(1)])
  fix p w1 assume get: "GetPipelineRow env k w = (Inr p, w1)" and eq: "fst w1 = fst w"
  show "careful (fst w) (after (if pipelineTerminal (dp_Status p) then retS () else f p) w1)"
    using assms read_isRow [OF get] unfolding eq [symmetric] by (simp add: cf.kept_refl)
qed

lemma careful_sync: "careful (fst w) (after (SyncPipeline env k) w)"
  unfolding SyncPipeline_tail by (rule careful_read) (rule careful_syncTail)

lemma careful_cancel: "careful (fst w) (after (CancelPipeline env k) w)"
  unfolding CancelPipeline_def
proof (rule careful_read)
  fix p and w :: "DataWorld \<times> nat" assume row: "isRow k p (fst w)"
  show "careful (fst w) (after (bindS (GetSteps env k) (\<lambda>steps. bindS (foreachS (cancelStep env) steps)
      (\<lambda>_. UpdatePipelineRow env (p\<lparr>dp_Status := PipelineStatusCancelled\<rparr>)))) w)"
  proof (rule cf.keep_first [OF refl data_still(2)])
    fix xs w1 assume get: "GetSteps env k w = (Inr xs, w1)" and eq: "fst w1 = fst w"
    then have xs: "xs = stepsOf k (fst w1)" and row1: "isRow k p (fst w1)" using row by (auto dest: GetSteps_Inr)
    have "careful (fst w1) (after (foreachS (cancelStep env) xs) w1)"
      unfolding xs by (subst stepsOf_filter) (rule careful_loop [OF cautious_cancel refl])
    from careful_then [OF row1 cautious_cancel this careful_status]
    show "careful (fst w) (after (bindS (foreachS (cancelStep env) xs)
        (\<lambda>_. UpdatePipelineRow env (p\<lparr>dp_Status := PipelineStatusCancelled\<rparr>))) w1)"
      unfolding eq .
  qed
qed

lemma careful_addStep: "careful (fst w) (after (CreateStepRow env st) w)"
  unfolding CreateStepRow_def Let_def
  by (intro cf.keep_bind cf.keep_still cf.keep_db after_simps)
    (auto simp: careful_def keyed_def jobsFixed_def endsFixed_def tfind_tadd tadd_unique cf.kept_refl split: option.splits)

lemma careful_addPipeline: "careful (fst w) (after (CreatePipelineRow env p) w)"
  unfolding CreatePipelineRow_def Let_def
  by (intro cf.keep_bind cf.keep_still cf.keep_db after_simps)
    (auto simp: careful_def keyed_def jobsFixed_def endsFixed_def tfind_tadd tadd_unique cf.kept_refl split: option.splits)

lemma careful_create: "careful (fst w) (after (CreatePipeline env p steps) w)"
  unfolding CreatePipeline_def Let_def
  by (intro cf.keep_bind cf.keep_foreach careful_addStep careful_addPipeline)
    (simp_all add: cf.kept_refl careful_addStep cf.keep_foreach)

text \<open>The operations on pipelines, and whatever the other components do to the job table.\<close>

datatype PipeStep = PsCreate DataPipeline "PipelineStep list" | PsSubmit string | PsSync string | PsCancel string
  | PsJobs "JobRow list"

fun pipeStep :: "DataEnv \<Rightarrow> PipeStep \<Rightarrow> DataWorld \<times> nat \<Rightarrow> DataWorld \<times> nat" where
  "pipeStep env (PsCreate p steps) w = snd (CreatePipeline env p steps w)"
| "pipeStep env (PsSubmit k) w = snd (SubmitPipeline env k w)"
| "pipeStep env (PsSync k) w = snd (SyncPipeline env k w)"
| "pipeStep env (PsCancel k) w = snd (CancelPipeline env k w)"
| "pipeStep env (PsJobs jobs) w = ((fst w)\<lparr>dw_jobs := jobs\<rparr>, snd w)"

lemma pipeStep_careful: "careful (fst w) (fst (pipeStep env op w))"
  using careful_create careful_submit careful_sync careful_cancel careful_same
  by (cases op) (simp_all add: sameSteps_def samePipes_def flip: after_def)

lemma pipeSteps_careful: "careful (fst w) (fst (fold (pipeStep env) ops w))"
proof (induction ops arbitrary: w)
  case (Cons op ops)
  show ?case using cf.kept_trans [OF pipeStep_careful [of w env op] Cons.IH [of "pipeStep env op w"]] by simp
qed (simp add: cf.kept_refl)

text \<open>C32: a step is dispatched at most once and an ended pipeline stays ended: over any sequence of creations, submissions,
  synchronisations and cancellations of any pipelines, with any changes of the job table in between and any faults, a step that
  carries a job carries that same job ever after, and the row of a completed, failed or cancelled pipeline never changes.\<close>
theorem steps_dispatched_once:
  assumes "tunique st_ID (dw_steps (fst w))" and "tunique dp_ID (dw_pipelines (fst w))"
  shows "(tfind st_ID (dw_steps (fst w)) k = Some st \<longrightarrow> st_JobID st \<noteq> [] \<longrightarrow>
      (\<exists>st'. tfind st_ID (dw_steps (fst (fold (pipeStep env) ops w))) k = Some st' \<and> st_JobID st' = st_JobID st)) \<and>
    (tfind dp_ID (dw_pipelines (fst w)) k' = Some p \<longrightarrow> pipelineTerminal (dp_Status p) \<longrightarrow>
      tfind dp_ID (dw_pipelines (fst (fold (pipeStep env) ops w))) k' = Some p)"
  using pipeSteps_careful [of w env ops] assms unfolding careful_def keyed_def jobsFixed_def endsFixed_def by blast


section \<open>The handlers\<close>

definition noSteps :: "DataWorld \<Rightarrow> DataWorld \<Rightarrow> bool" where
  "noSteps s t = (dw_steps s = [] \<longrightarrow> dw_steps t = [] \<and> dw_jobs t = dw_jobs s)"

interpretation ns: kept noSteps by unfold_locales (simp_all add: noSteps_def)

lemma none_update: "noSteps (fst w) (after (UpdatePipelineRow env p) w)"
  unfolding UpdatePipelineRow_def by (intro ns.keep_write) (simp add: noSteps_def)

lemma none_read:
  assumes "\<And>p (w1 :: DataWorld \<times> nat). fst w1 = fst w \<Longrightarrow> noSteps (fst w) (after (f p) w1)"
  shows "noSteps (fst w) (after (bindS (GetPipelineRow env k) f) w)"
  by (rule ns.keep_first [OF refl data_still(1)]) (rule assms)

lemma none_steps:
  assumes "fst w = s" and "\<And>w1 :: DataWorld \<times> nat. fst w1 = s \<Longrightarrow> noSteps s (after (f []) w1)"
  shows "noSteps s (after (bindS (GetSteps env k) f) w)"
proof (cases "dw_steps s = []")
  case True
  show ?thesis
    by (rule ns.keep_first [OF assms(1) data_still(2)]) (auto dest!: GetSteps_Inr simp: assms True stepsOf_def)
qed (simp add: noSteps_def)

lemma none_submit: "noSteps (fst w) (after (SubmitPipeline env k) w)"
  unfolding SubmitPipeline_def
  by (rule none_read) (auto intro!: none_steps simp: ReadySteps_def ns.kept_refl)

lemma none_sync: "noSteps (fst w) (after (SyncPipeline env k) w)"
proof -
  have derive: "noSteps s (after (deriveTail env k p) w)" if "fst w = s" for s p w
    unfolding deriveTail_def
    by (rule none_steps [OF that]) (use none_update in \<open>auto simp: Let_def ns.kept_refl\<close>)
  have dispatch: "noSteps s (after (dispatchTail env k p) w)" if "fst w = s" for s p w
    unfolding dispatchTail_def
    by (rule none_steps [OF that]) (simp add: ReadySteps_def dispatchSteps_def derive)
  have "noSteps s (after (syncTail env k p) w)" if "fst w = s" for s p w
    unfolding syncTail_def
    by (rule none_steps [OF that]) (simp add: dispatch)
  then show ?thesis unfolding SyncPipeline_tail by (intro none_read) (simp add: ns.kept_refl)
qed

lemma none_cancel: "noSteps (fst w) (after (CancelPipeline env k) w)"
  unfolding CancelPipeline_def
proof (rule none_read)
  fix p and w1 :: "DataWorld \<times> nat" assume eq: "fst w1 = fst w"
  have "noSteps (fst w) (after (bindS (foreachS (cancelStep env) []) (\<lambda>_. UpdatePipelineRow env q)) w2)"
    if "fst w2 = fst w" for q w2
    using none_update [of w2 env q] that by simp
  then show "noSteps (fst w) (after (if pipelineTerminal (dp_Status p) then retS ()
      else bindS (GetSteps env k) (\<lambda>steps. bindS (foreachS (cancelStep env) steps)
        (\<lambda>_. UpdatePipelineRow env (p\<lparr>dp_Status := PipelineStatusCancelled\<rparr>)))) w1)"
    by (simp add: eq ns.kept_refl none_steps)
qed

lemma none_addPipeline: "noSteps (fst w) (after (CreatePipelineRow env p) w)"
  unfolding CreatePipelineRow_def Let_def
  by (intro ns.keep_bind ns.keep_still ns.keep_db after_simps) (auto simp: noSteps_def)

lemma none_create: "noSteps (fst w) (after (CreatePipeline env p []) w)"
  unfolding CreatePipeline_def Let_def
  by (intro ns.keep_bind none_addPipeline) (simp_all add: ns.kept_refl)

lemma none_round: "noSteps (fst w) (after (syncDataPipelines env) w)"
  unfolding syncDataPipelines_def ListActivePipelines_def
  by (intro ns.keep_handle)
    (simp_all add: ns.kept_refl none_sync ns.keep_foreach split: sum.split)

lemma none_answer:
  assumes "noSteps (fst w) (after m w)" and "\<And>x w1. noSteps (fst w1) (after (f x) w1)"
  shows "noSteps (fst w) (after (answerD bad m f) w)"
  unfolding answerD_def
  by (intro ns.keep_handle assms(1)) (auto simp: ns.kept_refl assms(2) split: sum.split DataErr.split)

lemma none_onPipeline:
  assumes "\<And>p steps w. noSteps (fst w) (after (f p steps) w)"
  shows "noSteps (fst w) (after (onPipeline env c k f) w)"
  unfolding onPipeline_def
proof (rule none_answer)
  show "noSteps (fst w) (after (GetPipelineAndSteps env k) w)"
    unfolding GetPipelineAndSteps_def by (intro ns.keep_bind) (simp_all add: ns.kept_refl)
qed (simp add: case_prod_unfold assms ns.kept_refl)

lemma copySteps_Inr: "copySteps steps w = (Inr xs, w1) \<Longrightarrow> xs = []"
  by (cases steps) (simp_all add: copySteps_def retS_def failS_def)

lemma copySteps_still [simp]: "after (copySteps steps) w = fst w"
  by (simp add: copySteps_def split: list.split)

lemma none_copy:
  "noSteps (fst w) (after (bindS (askS g) (\<lambda>fresh. bindS (copySteps steps) (\<lambda>xs.
     answerD bad (CreatePipeline env (mk fresh) xs) (\<lambda>p. retS (ApiOK p))))) w)"
proof (intro ns.keep_bind)
  fix xs and w1 w2 :: "DataWorld \<times> nat" and fresh assume "copySteps steps w1 = (Inr xs, w2)"
  then have "xs = []" by (rule copySteps_Inr)
  then show "noSteps (fst w2) (after (answerD bad (CreatePipeline env (mk fresh) xs) (\<lambda>p. retS (ApiOK p))) w2)"
    by (simp add: none_answer none_create ns.kept_refl)
qed (simp_all add: ns.kept_refl)

lemma none_apiCreate: "noSteps (fst w) (after (CreateDataPipeline env c body) w)"
proof (cases body)
  case (Inr req)
  then show ?thesis
    by (cases "requireWriteTenant c")
      (simp add: CreateDataPipeline_def ns.kept_refl, simp only: CreateDataPipeline_def sum.case option.case none_copy)
qed (simp add: CreateDataPipeline_def ns.kept_refl)

datatype DataRequest = RqCreate "Claims option" "string + PipelineRequest" | RqSubmit "Claims option" string
  | RqCancel "Claims option" string | RqGet "Claims option" string | RqRound

fun dataRequest :: "DataEnv \<Rightarrow> DataRequest \<Rightarrow> DataWorld \<times> nat \<Rightarrow> DataWorld \<times> nat" where
  "dataRequest env (RqCreate c body) w = snd (CreateDataPipeline env c body w)"
| "dataRequest env (RqSubmit c k) w = snd (SubmitDataPipeline env c k w)"
| "dataRequest env (RqCancel c k) w = snd (CancelDataPipeline env c k w)"
| "dataRequest env (RqGet c k) w = snd (GetDataPipeline env c k w)"
| "dataRequest env RqRound w = snd (syncDataPipelines env w)"

lemma request_none: "noSteps (fst w) (fst (dataRequest env rq w))"
proof (cases rq)
  case (RqCreate c body)
  then show ?thesis using none_apiCreate by (simp add: flip: after_def)
next
  case (RqSubmit c k)
  then show ?thesis unfolding SubmitDataPipeline_def
    by (simp add: SubmitDataPipeline_def none_onPipeline none_answer none_submit ns.kept_refl flip: after_def)
next
  case (RqCancel c k)
  then show ?thesis
    by (simp add: CancelDataPipeline_def none_onPipeline none_answer none_cancel ns.kept_refl flip: after_def)
next
  case (RqGet c k)
  then show ?thesis by (simp add: GetDataPipeline_def none_onPipeline ns.kept_refl flip: after_def)
next
  case RqRound
  then show ?thesis using none_round by (simp add: flip: after_def)
qed

lemma requests_none: "noSteps (fst w) (fst (fold (dataRequest env) rqs w))"
proof (induction rqs arbitrary: w)
  case (Cons rq rqs)
  show ?case using ns.kept_trans [OF request_none [of w env rq] Cons.IH [of "dataRequest env rq w"]] by simp
qed (simp add: ns.kept_refl)

text \<open>C33: no pipeline of the interface ever runs: a request with a step panics, since the handler assigns to an index of an
  empty slice, so that starting without steps no sequence of requests and of rounds of the scheduler, under any faults, stores a
  step or creates a job.\<close>
theorem api_pipelines_never_run:
  assumes "dw_steps (fst w) = []" and "pq_Steps req \<noteq> []" and "requireWriteTenant c = Some tenant"
  shows "dw_steps (fst (fold (dataRequest env) rqs w)) = [] \<and> dw_jobs (fst (fold (dataRequest env) rqs w)) = dw_jobs (fst w) \<and>
    fst (CreateDataPipeline env c (Inr req) w) = Inl DataPanic"
  using requests_none [of w env rqs] assms
  by (cases "pq_Steps req") (auto simp: noSteps_def CreateDataPipeline_def copySteps_def act_defs case_prod_unfold)

section \<open>A concrete run\<close>

definition dataEnv :: DataEnv where
  "dataEnv = \<lparr>de_text = dataText, de_time = int, de_id = (\<lambda>_. ''1''), de_fault = (\<lambda>_. None)\<rparr>"

definition demoPipe :: DataPipeline where
  "demoPipe = \<lparr>dp_ID = ''p'', dp_TenantID = ''t'', dp_Name = ''n'', dp_Description = [], dp_DatasetName = [], dp_MountPath = [],
     dp_Status = PipelineStatusRunning, dp_Priority = 0, dp_QueueName = [], dp_ClusterID = [], dp_CreatedAt = 0\<rparr>"

definition demoData :: "PipelineStep list \<Rightarrow> DataWorld" where
  "demoData steps = \<lparr>dw_pipelines = [demoPipe], dw_steps = steps, dw_runs = [], dw_jobs = []\<rparr>"

theorem steps_dispatched_once_witness:
  "\<exists>st'. tfind st_ID (dw_steps (fst (fold (pipeStep dataEnv) [PsSubmit ''p'', PsSync ''p'', PsCancel ''p'']
     (demoData [(demoStep ''a'' [])\<lparr>st_JobID := ''j''\<rparr>], 0)))) ''a'' = Some st' \<and> st_JobID st' = ''j''"
proof -
  let ?st = "(demoStep ''a'' [])\<lparr>st_JobID := ''j''\<rparr>"
  have "tunique st_ID (dw_steps (fst (demoData [?st], 0 :: nat)))" "tunique dp_ID (dw_pipelines (fst (demoData [?st], 0 :: nat)))"
    "tfind st_ID (dw_steps (fst (demoData [?st], 0 :: nat))) ''a'' = Some ?st"
    by (simp_all add: demoData_def tunique_def demoStep_def)
  then show ?thesis
    using steps_dispatched_once [where w = "(demoData [?st], 0)" and k = "''a''" and st = ?st and env = dataEnv
        and ops = "[PsSubmit ''p'', PsSync ''p'', PsCancel ''p'']"] by simp
qed

theorem api_pipelines_never_run_witness:
  "fst (CreateDataPipeline dataEnv (Some \<lparr>cl_UserID = ''u'', cl_Username = ''u'', cl_Role = RoleDeveloper, cl_TenantID = ''t''\<rparr>)
     (Inr \<lparr>pq_Name = ''n'', pq_Description = [], pq_DatasetName = [], pq_MountPath = [], pq_Priority = 0, pq_QueueName = [],
       pq_ClusterID = [], pq_Steps = [demoStep ''a'' []]\<rparr>) (demoData [], 0)) = Inl DataPanic"
  by (rule api_pipelines_never_run [THEN conjunct2, THEN conjunct2]) (simp_all add: demoData_def requireWriteTenant_def)

lemma skipped_step_blocks:
  assumes "a \<in> set steps" and "b \<in> set steps" and "distinct (map st_ID steps)" and "st_Status a = StepStatusSkipped"
    and "st_Status b = StepStatusPending" and "st_ID a \<in> set (depsRead dx b)" and "cur = PipelineStatusRunning"
    and "\<forall>s \<in> set steps. st_Status s \<noteq> StepStatusFailed"
  shows "b \<notin> set (ReadySteps dx steps) \<and> DerivePipelineStatus steps cur = PipelineStatusRunning"
proof -
  have "stepState steps (st_ID a) = StepStatusSkipped"
    using tfind_unique [of st_ID "rev steps" a] assms(1,3,4) by (simp add: stepState_def tfind_def tunique_def distinct_rev flip: rev_map)
  then have "b \<notin> set (ReadySteps dx steps)" using assms(6)
    by (auto simp: ReadySteps_def list_all_iff intro!: bexI [of _ "st_ID a"])
  moreover have "\<not> list_all (\<lambda>s. stepTerminal (st_Status s)) steps"
    using assms(2,5) by (auto simp: list_all_iff stepTerminal_def intro!: bexI [of _ b])
  ultimately show ?thesis using assms(7,8) by (auto simp: DerivePipelineStatus_def pipelineTerminal_def list_ex_iff)
qed

end
