(* ===== verification/Annotation.thy ===== *)
theory Annotation
  imports PipelineService "HOL-Library.AList"
begin

text \<open>
  Annotation tasks: \<^verbatim>\<open>domain/data/annotation.go\<close> (reading and writing the formats), their rows, \<^verbatim>\<open>app/data/annotation.go\<close>
  and their handlers.  Decoding and encoding of JSON and CSV, numbers as text, paths and the artifact store are
  arguments; files are a table of path and contents.
\<close>

section \<open>Formats\<close>

record AnnotationRecord =
  an_ID :: string
  an_Image :: string
  an_Text :: string
  an_Category :: string
  an_Score :: f64
  an_BBox :: "f64 list"
  an_Attributes :: "(string \<times> string) list"

record CocoImg =
  ci_ID :: int
  ci_FileName :: string

record CocoCat =
  cc_ID :: int
  cc_Name :: string

record CocoAnn =
  ca_ID :: int
  ca_ImageID :: int
  ca_CategoryID :: int
  ca_BBox :: "f64 list"
  ca_Score :: f64

record Coco =
  co_Images :: "CocoImg list"
  co_Categories :: "CocoCat list"
  co_Annotations :: "CocoAnn list"

record AnnText =
  ax_record :: "string \<Rightarrow> string + AnnotationRecord"
  ax_recordJSON :: "AnnotationRecord \<Rightarrow> string"
  ax_coco :: "string \<Rightarrow> string + Coco"
  ax_cocoJSON :: "Coco \<Rightarrow> string"
  ax_csv :: "string \<Rightarrow> string + string list list"
  ax_csvText :: "string list list \<Rightarrow> string"
  ax_scan :: "string \<Rightarrow> f64 option"
  ax_num :: "f64 \<Rightarrow> string"
  ax_quote :: "string \<Rightarrow> string"

definition emptyRecord :: AnnotationRecord where
  "emptyRecord = \<lparr>an_ID = [], an_Image = [], an_Text = [], an_Category = [], an_Score = pZero, an_BBox = [], an_Attributes = []\<rparr>"

fun splitLines :: "string \<Rightarrow> string list" where
  "splitLines [] = []"
| "splitLines (c # s) =
     (if c = CHR 0x0A then [] # splitLines s
      else case splitLines s of
        [] \<Rightarrow> [[c]]
      | x # xs \<Rightarrow> (c # x) # xs)"

primrec jsonlLoop :: "AnnText \<Rightarrow> string list \<Rightarrow> string + AnnotationRecord list" where
  "jsonlLoop ax [] = Inr []"
| "jsonlLoop ax (line # ls) =
     (if line = [] then jsonlLoop ax ls
      else case ax_record ax line of
        Inl e \<Rightarrow> Inl (''parse jsonl: '' @ e)
      | Inr r \<Rightarrow> (case jsonlLoop ax ls of Inl e \<Rightarrow> Inl e | Inr rs \<Rightarrow> Inr (r # rs)))"

definition parseJSONL :: "AnnText \<Rightarrow> string \<Rightarrow> string + AnnotationRecord list" where
  "parseJSONL ax raw = jsonlLoop ax (splitLines raw)"

text \<open>The column of a name is the last header that equals it in lower case.\<close>

definition columnOf :: "string list \<Rightarrow> string \<Rightarrow> nat option" where
  "columnOf header key = map_of (rev (zip (map lowerSearch header) [0..<length header])) key"

definition cell :: "string list \<Rightarrow> string list \<Rightarrow> string \<Rightarrow> string" where
  "cell header row key =
     (case columnOf header key of Some i \<Rightarrow> if i < length row then row ! i else [] | None \<Rightarrow> [])"

fun splitOn :: "char \<Rightarrow> string \<Rightarrow> string list" where
  "splitOn sep [] = [[]]"
| "splitOn sep (c # s) =
     (if c = sep then [] # splitOn sep s
      else case splitOn sep s of [] \<Rightarrow> [[c]] | x # xs \<Rightarrow> (c # x) # xs)"

definition parseFloats :: "AnnText \<Rightarrow> string \<Rightarrow> f64 list" where
  "parseFloats ax s = List.map_filter (\<lambda>p. let p = TrimSpace p in if p = [] then None else ax_scan ax p) (splitOn (CHR '','') s)"

definition csvRecord :: "AnnText \<Rightarrow> string list \<Rightarrow> string list \<Rightarrow> AnnotationRecord" where
  "csvRecord ax header row =
     emptyRecord\<lparr>an_Image := cell header row ''image'', an_Text := cell header row ''text'',
       an_Category := cell header row ''category'',
       an_Score := (let v = cell header row ''score'' in
         if v \<noteq> [] then (case ax_scan ax v of None \<Rightarrow> pZero | Some x \<Rightarrow> x) else pZero),
       an_BBox := (let v = cell header row ''bbox'' in if v \<noteq> [] then parseFloats ax v else [])\<rparr>"

definition parseCSV :: "AnnText \<Rightarrow> string \<Rightarrow> string + AnnotationRecord list" where
  "parseCSV ax raw =
     (case ax_csv ax raw of
        Inl e \<Rightarrow> Inl (''parse csv: '' @ e)
      | Inr [] \<Rightarrow> Inr []
      | Inr (header # rows) \<Rightarrow> Inr (map (csvRecord ax header) rows))"

definition nameOf :: "(int \<times> string) list \<Rightarrow> int \<Rightarrow> string" where
  "nameOf m k = (case map_of (rev m) k of None \<Rightarrow> [] | Some n \<Rightarrow> n)"

definition cocoRecord :: "Coco \<Rightarrow> CocoAnn \<Rightarrow> AnnotationRecord" where
  "cocoRecord c a =
     emptyRecord\<lparr>an_ID := showInt (ca_ID a),
       an_Image := nameOf (map (\<lambda>i. (ci_ID i, ci_FileName i)) (co_Images c)) (ca_ImageID a),
       an_Category := nameOf (map (\<lambda>i. (cc_ID i, cc_Name i)) (co_Categories c)) (ca_CategoryID a),
       an_Score := ca_Score a, an_BBox := ca_BBox a\<rparr>"

definition parseCOCO :: "AnnText \<Rightarrow> string \<Rightarrow> string + AnnotationRecord list" where
  "parseCOCO ax raw =
     (case ax_coco ax raw of
        Inl e \<Rightarrow> Inl (''parse coco: '' @ e)
      | Inr c \<Rightarrow> Inr (map (cocoRecord c) (co_Annotations c)))"

definition ParseAnnotations :: "AnnText \<Rightarrow> string \<Rightarrow> string \<Rightarrow> string + AnnotationRecord list" where
  "ParseAnnotations ax format raw =
     (let f = lowerSearch format in
      if f = ''jsonl'' then parseJSONL ax raw
      else if f = ''coco'' then parseCOCO ax raw
      else if f = ''csv'' then parseCSV ax raw
      else Inl (''unsupported annotation input format '' @ ax_quote ax format))"

definition toJSONL :: "AnnText \<Rightarrow> AnnotationRecord list \<Rightarrow> string" where
  "toJSONL ax rs = concat (map (\<lambda>r. ax_recordJSON ax r @ [CHR 0x0A]) rs)"

definition bboxText :: "AnnText \<Rightarrow> f64 list \<Rightarrow> string" where
  "bboxText ax box = spaced (map (ax_num ax) box)"

definition toCSV :: "AnnText \<Rightarrow> AnnotationRecord list \<Rightarrow> string" where
  "toCSV ax rs = ax_csvText ax
     ([''id'', ''image'', ''text'', ''category'', ''score'', ''bbox''] #
      map (\<lambda>r. [an_ID r, an_Image r, an_Text r, an_Category r, ax_num ax (an_Score r), bboxText ax (an_BBox r)]) rs)"

text \<open>Names are numbered in the order they first appear.\<close>

definition numberName :: "string \<Rightarrow> string list \<Rightarrow> string list" where
  "numberName n seen = (if n \<in> set seen then seen else seen @ [n])"

primrec positionFrom :: "int \<Rightarrow> string list \<Rightarrow> string \<Rightarrow> int" where
  "positionFrom i [] n = 0"
| "positionFrom i (x # xs) n = (if x = n then i else positionFrom (i + 1) xs n)"

primrec cocoLoop :: "string list \<Rightarrow> string list \<Rightarrow> int \<Rightarrow> AnnotationRecord list \<Rightarrow> string list \<times> string list \<times> CocoAnn list" where
  "cocoLoop imgs cats n [] = (imgs, cats, [])"
| "cocoLoop imgs cats n (r # rs) =
     (let imgs = numberName (an_Image r) imgs; cats = numberName (an_Category r) cats;
          (imgs', cats', anns) = cocoLoop imgs cats (n + 1) rs in
      (imgs', cats', \<lparr>ca_ID = n + 1, ca_ImageID = positionFrom 1 imgs (an_Image r),
         ca_CategoryID = positionFrom 1 cats (an_Category r), ca_BBox = an_BBox r, ca_Score = an_Score r\<rparr> # anns))"

primrec numbered :: "(int \<Rightarrow> string \<Rightarrow> 'a) \<Rightarrow> int \<Rightarrow> string list \<Rightarrow> 'a list" where
  "numbered mk i [] = []"
| "numbered mk i (x # xs) = mk i x # numbered mk (i + 1) xs"

definition cocoOf :: "AnnotationRecord list \<Rightarrow> Coco" where
  "cocoOf rs =
     (let (imgs, cats, anns) = cocoLoop [] [] 0 rs in
      \<lparr>co_Images = numbered (\<lambda>i n. \<lparr>ci_ID = i, ci_FileName = n\<rparr>) 1 imgs,
       co_Categories = numbered (\<lambda>i n. \<lparr>cc_ID = i, cc_Name = n\<rparr>) 1 cats, co_Annotations = anns\<rparr>)"

definition toCOCO :: "AnnText \<Rightarrow> AnnotationRecord list \<Rightarrow> string" where
  "toCOCO ax rs = ax_cocoJSON ax (cocoOf rs)"

definition ConvertAnnotations :: "AnnText \<Rightarrow> AnnotationRecord list \<Rightarrow> string \<Rightarrow> string + string" where
  "ConvertAnnotations ax rs format =
     (let f = lowerSearch format in
      if f = ''jsonl'' then Inr (toJSONL ax rs)
      else if f = ''csv'' then Inr (toCSV ax rs)
      else if f = ''coco'' then Inr (toCOCO ax rs)
      else Inl (''unsupported annotation output format '' @ ax_quote ax format))"

section \<open>Tasks\<close>

datatype AnnotationStatus = AnnotationStatusOpen | AnnotationStatusInProgress | AnnotationStatusReviewing
  | AnnotationStatusCompleted | AnnotationStatusExported | OtherAnnotationStatus string

record AnnotationTask =
  at_ID :: string
  at_TenantID :: string
  at_Name :: string
  at_DatasetName :: string
  at_DataGlob :: string
  at_TaskType :: string
  at_Categories :: string
  at_Assignee :: string
  at_Status :: AnnotationStatus
  at_Progress :: int
  at_OutputFormat :: string
  at_ExportedURI :: string
  at_CreatedAt :: time

record AnnWorld =
  aw_tasks :: "AnnotationTask list"
  aw_files :: "(string \<times> string) list"

record AnnEnv =
  ae_text :: AnnText
  ae_time :: "nat \<Rightarrow> time"
  ae_id :: "nat \<Rightarrow> string"
  ae_fault :: "nat \<Rightarrow> DataErr option"
  ae_io :: "nat \<Rightarrow> string option"
  ae_put :: "(nat \<Rightarrow> string \<Rightarrow> string \<Rightarrow> string + string) option"
  ae_root :: string
  ae_rel :: "string \<Rightarrow> string \<Rightarrow> string + string"

type_synonym 'a annop = "(AnnWorld, DataErr, 'a) act"

definition CreateAnnotationRow :: "AnnEnv \<Rightarrow> AnnotationTask \<Rightarrow> AnnotationTask annop" where
  "CreateAnnotationRow env a =
     bindS (askS (ae_time env)) (\<lambda>now.
     let a = a\<lparr>at_Status := if at_Status a = OtherAnnotationStatus [] then AnnotationStatusOpen else at_Status a, at_CreatedAt := now\<rparr> in
     dbS (ae_fault env) (\<lambda>w.
       if tfind at_ID (aw_tasks w) (at_ID a) \<noteq> None then (Inl duplicateD, w)
       else (Inr a, w\<lparr>aw_tasks := tadd a (aw_tasks w)\<rparr>)))"

definition GetAnnotationRow :: "AnnEnv \<Rightarrow> string \<Rightarrow> AnnotationTask annop" where
  "GetAnnotationRow env k =
     readS (ae_fault env) (\<lambda>w. case tfind at_ID (aw_tasks w) k of None \<Rightarrow> Inl notFoundD | Some a \<Rightarrow> Inr a)"

definition ListAnnotationRows :: "AnnEnv \<Rightarrow> string \<Rightarrow> AnnotationTask list annop" where
  "ListAnnotationRows env tenant =
     readS (ae_fault env) (\<lambda>w. Inr (sort_key (\<lambda>a. - at_CreatedAt a) (filter (\<lambda>a. at_TenantID a = tenant) (aw_tasks w))))"

definition annotationColumns :: "AnnotationTask \<Rightarrow> AnnotationTask \<Rightarrow> AnnotationTask" where
  "annotationColumns a r = r\<lparr>at_Status := at_Status a, at_Progress := at_Progress a, at_Assignee := at_Assignee a,
     at_ExportedURI := at_ExportedURI a\<rparr>"

definition UpdateAnnotationRow :: "AnnEnv \<Rightarrow> AnnotationTask \<Rightarrow> unit annop" where
  "UpdateAnnotationRow env a = writeS (ae_fault env) (\<lambda>w.
     w\<lparr>aw_tasks := map (\<lambda>r. if at_ID r = at_ID a then annotationColumns a r else r) (aw_tasks w)\<rparr>)"

definition CreateAnnotationTask :: "AnnEnv \<Rightarrow> AnnotationTask \<Rightarrow> AnnotationTask annop" where
  "CreateAnnotationTask env a =
     CreateAnnotationRow env (if at_Status a = OtherAnnotationStatus [] then a\<lparr>at_Status := AnnotationStatusOpen\<rparr> else a)"

definition UpdateAnnotationProgress :: "AnnEnv \<Rightarrow> string \<Rightarrow> int \<Rightarrow> AnnotationStatus \<Rightarrow> unit annop" where
  "UpdateAnnotationProgress env k progress status =
     bindS (GetAnnotationRow env k) (\<lambda>a.
       UpdateAnnotationRow env (a\<lparr>at_Progress := progress,
         at_Status := if status \<noteq> OtherAnnotationStatus [] then status else at_Status a\<rparr>))"

definition validateExportPath :: "AnnEnv \<Rightarrow> string \<Rightarrow> string option" where
  "validateExportPath env p =
     (if p = [] then Some ''path must not be empty''
      else if ae_root env = [] then None
      else case ae_rel env (ae_root env) p of
        Inl e \<Rightarrow> Some e
      | Inr rel \<Rightarrow>
          if rel = ''..'' \<or> take 3 rel = ''../''
          then Some (''path '' @ ax_quote (ae_text env) p @ '' escapes export root '' @ ax_quote (ae_text env) (ae_root env))
          else None)"

definition failA :: "string option \<Rightarrow> unit annop" where
  "failA r = (case r of None \<Rightarrow> retS () | Some e \<Rightarrow> failS (DataText e))"

definition liftA :: "string + 'a \<Rightarrow> 'a annop" where
  "liftA r = (case r of Inl e \<Rightarrow> failS (DataText e) | Inr x \<Rightarrow> retS x)"

definition ioFault :: "AnnEnv \<Rightarrow> string \<Rightarrow> nat \<Rightarrow> DataErr option" where
  "ioFault env what n = map_option (\<lambda>e. DataText (what @ e)) (ae_io env n)"

definition readFile :: "AnnEnv \<Rightarrow> string \<Rightarrow> string annop" where
  "readFile env p = (let what = ''read annotation source '' @ p @ '': '' in
     readS (ioFault env what) (\<lambda>w. case map_of (aw_files w) p of
       None \<Rightarrow> Inl (DataText (what @ ''no such file or directory'')) | Some text \<Rightarrow> Inr text))"

definition writeFile :: "AnnEnv \<Rightarrow> string \<Rightarrow> string \<Rightarrow> unit annop" where
  "writeFile env p text =
     bindS (writeS (ioFault env []) (\<lambda>w. w)) (\<lambda>_.
       writeS (ioFault env (''write annotation export '' @ p @ '': '')) (\<lambda>w. w\<lparr>aw_files := AList.update p text (aw_files w)\<rparr>))"

definition exportKey :: "string \<Rightarrow> AnnotationTask \<Rightarrow> string" where
  "exportKey k a = ''annotations/'' @ k @ ''/export.'' @ at_OutputFormat a"

definition registerArtifact :: "AnnEnv \<Rightarrow> string \<Rightarrow> string \<Rightarrow> string \<Rightarrow> string annop" where
  "registerArtifact env key text path =
     (case ae_put env of
        None \<Rightarrow> retS path
      | Some put \<Rightarrow> bindS (askS (\<lambda>n. put n key text)) (\<lambda>r.
          case r of Inl e \<Rightarrow> failS (DataText (''register annotation artifact: '' @ e)) | Inr uri \<Rightarrow> retS uri))"

definition ExportAnnotation :: "AnnEnv \<Rightarrow> string \<Rightarrow> string \<Rightarrow> string \<Rightarrow> string \<Rightarrow> unit annop" where
  "ExportAnnotation env k srcFormat inputPath outputPath =
     bindS (GetAnnotationRow env k) (\<lambda>a.
     bindS (failA (if at_Status a = AnnotationStatusExported then Some (''annotation '' @ k @ '' already exported'') else None)) (\<lambda>_.
     bindS (failA (map_option (\<lambda>e. ''invalid input_path: '' @ e) (validateExportPath env inputPath))) (\<lambda>_.
     bindS (failA (map_option (\<lambda>e. ''invalid output_path: '' @ e) (validateExportPath env outputPath))) (\<lambda>_.
     bindS (readFile env inputPath) (\<lambda>raw.
     bindS (liftA (ParseAnnotations (ae_text env) srcFormat raw)) (\<lambda>records.
     bindS (liftA (ConvertAnnotations (ae_text env) records (at_OutputFormat a))) (\<lambda>out.
     bindS (writeFile env outputPath out) (\<lambda>_.
     bindS (registerArtifact env (exportKey k a) out outputPath) (\<lambda>uri.
     UpdateAnnotationRow env (a\<lparr>at_ExportedURI := uri, at_Status := AnnotationStatusExported\<rparr>))))))))))"

section \<open>Handlers\<close>

type_synonym 'a annhandler = "(AnnWorld, DataErr, 'a ApiReply) act"

definition answerA :: "(string \<Rightarrow> 'b ApiReply) \<Rightarrow> 'a annop \<Rightarrow> ('a \<Rightarrow> 'b annhandler) \<Rightarrow> 'b annhandler" where
  "answerA bad m f = handleS m (\<lambda>r. case r of
     Inl DataPanic \<Rightarrow> failS DataPanic
   | Inl e \<Rightarrow> retS (bad (dataErrText e))
   | Inr x \<Rightarrow> f x)"

definition apiCreateAnnotation :: "AnnEnv \<Rightarrow> Claims option \<Rightarrow> string + AnnotationTask \<Rightarrow> AnnotationTask annhandler" where
  "apiCreateAnnotation env c body =
     (case body of
        Inl e \<Rightarrow> retS (ApiFail 400 e)
      | Inr req \<Rightarrow> (case requireWriteTenant c of
          None \<Rightarrow> retS (ApiFail 400 ''missing tenant context'')
        | Some tenant \<Rightarrow>
            bindS (askS (ae_id env)) (\<lambda>fresh.
            answerA (ApiFail 500) (CreateAnnotationTask env (req\<lparr>at_ID := ''ann-'' @ fresh, at_TenantID := tenant,
              at_Status := AnnotationStatusOpen, at_Progress := 0, at_ExportedURI := [],
              at_OutputFormat := if at_OutputFormat req = [] then ''coco'' else at_OutputFormat req\<rparr>)) (\<lambda>a. retS (ApiOK a)))))"

definition apiListAnnotations :: "AnnEnv \<Rightarrow> Claims option \<Rightarrow> AnnotationTask list annhandler" where
  "apiListAnnotations env c = answerA (ApiFail 500) (ListAnnotationRows env (tenantScope c)) (\<lambda>as. retS (ApiOK as))"

definition onAnnotation :: "AnnEnv \<Rightarrow> Claims option \<Rightarrow> string \<Rightarrow> (AnnotationTask \<Rightarrow> 'b annhandler) \<Rightarrow> 'b annhandler" where
  "onAnnotation env c k f =
     answerA (\<lambda>_. ApiFail 404 ''annotation not found'') (GetAnnotationRow env k) (\<lambda>a.
       if \<not> canAccessTenant (at_TenantID a) c then retS (ApiFail 404 ''annotation not found'') else f a)"

definition apiGetAnnotation :: "AnnEnv \<Rightarrow> Claims option \<Rightarrow> string \<Rightarrow> AnnotationTask annhandler" where
  "apiGetAnnotation env c k = onAnnotation env c k (\<lambda>a. retS (ApiOK a))"

text \<open>After the export the task is read again and used without a look at the error.\<close>

definition apiExportAnnotation ::
    "AnnEnv \<Rightarrow> Claims option \<Rightarrow> string \<Rightarrow> string + string \<times> string \<times> string \<Rightarrow> (string \<times> AnnotationStatus) annhandler" where
  "apiExportAnnotation env c k body =
     onAnnotation env c k (\<lambda>_. case body of
       Inl e \<Rightarrow> retS (ApiFail 400 e)
     | Inr (srcFormat, inputPath, outputPath) \<Rightarrow>
         answerA (ApiFail 400) (ExportAnnotation env k srcFormat inputPath outputPath) (\<lambda>_.
         handleS (GetAnnotationRow env k) (\<lambda>r. case r of
           Inl _ \<Rightarrow> failS DataPanic
         | Inr a \<Rightarrow> retS (ApiOK (at_ExportedURI a, at_Status a)))))"


section \<open>The COCO format keeps what it can hold\<close>

definition pairsFrom :: "int \<Rightarrow> string list \<Rightarrow> (int \<times> string) list" where
  "pairsFrom = numbered Pair"

lemma numbered_map: "map f (numbered mk i xs) = numbered (\<lambda>i x. f (mk i x)) i xs"
  by (induction xs arbitrary: i) simp_all

lemma pairsFrom_bound: "(k, n) \<in> set (pairsFrom i xs) \<Longrightarrow> i \<le> k"
  unfolding pairsFrom_def by (induction xs arbitrary: i) fastforce+

lemma pairsFrom_distinct: "distinct (map fst (pairsFrom i xs))"
proof (induction xs arbitrary: i)
  case (Cons x xs)
  have "i \<notin> fst ` set (pairsFrom (i + 1) xs)" using pairsFrom_bound [of i _ "i + 1" xs] by force
  then show ?case using Cons [of "i + 1"] by (simp add: pairsFrom_def)
qed (simp add: pairsFrom_def)

lemma position_bound: "n \<in> set xs \<Longrightarrow> i \<le> positionFrom i xs n"
proof (induction xs arbitrary: i)
  case (Cons x xs)
  show ?case using Cons.IH [of "i + 1"] Cons.prems by auto
qed simp

lemma map_of_position: "n \<in> set xs \<Longrightarrow> map_of (pairsFrom i xs) (positionFrom i xs n) = Some n"
proof (induction xs arbitrary: i)
  case (Cons x xs)
  then show ?case using position_bound [of n xs "i + 1"] by (auto simp: pairsFrom_def)
qed simp

lemma nameOf_position: "n \<in> set xs \<Longrightarrow> nameOf (pairsFrom i xs) (positionFrom i xs n) = n"
proof -
  assume "n \<in> set xs"
  moreover have "map_of (rev (pairsFrom i xs)) = map_of (pairsFrom i xs)"
    using map_of_inject_set [of "rev (pairsFrom i xs)" "pairsFrom i xs"] pairsFrom_distinct [of i xs] by (simp flip: rev_map)
  ultimately show ?thesis by (simp add: nameOf_def map_of_position)
qed

lemma position_append: "n \<in> set xs \<Longrightarrow> positionFrom i (xs @ ys) n = positionFrom i xs n"
  by (induction xs arbitrary: i) auto

lemma numberName_mem: "n \<in> set (numberName n seen)" "\<exists>ex. numberName n seen = seen @ ex"
  by (auto simp: numberName_def)

lemma cocoLoop_spec:
  assumes "cocoLoop imgs cats n rs = (imgs', cats', anns)"
  shows "(\<exists>ex. imgs' = imgs @ ex) \<and> (\<exists>ex. cats' = cats @ ex) \<and>
    map (\<lambda>a. (ca_ID a, nameOf (pairsFrom 1 imgs') (ca_ImageID a), nameOf (pairsFrom 1 cats') (ca_CategoryID a), ca_BBox a, ca_Score a)) anns =
    map (\<lambda>(i, r). (n + 1 + int i, an_Image r, an_Category r, an_BBox r, an_Score r)) (enumerate 0 rs)"
  using assms
proof (induction rs arbitrary: imgs cats n anns)
  case (Cons r rs)
  define i1 where "i1 = numberName (an_Image r) imgs"
  define c1 where "c1 = numberName (an_Category r) cats"
  obtain anns1 where rec: "cocoLoop i1 c1 (n + 1) rs = (imgs', cats', anns1)" and
    anns: "anns = \<lparr>ca_ID = n + 1, ca_ImageID = positionFrom 1 i1 (an_Image r), ca_CategoryID = positionFrom 1 c1 (an_Category r),
      ca_BBox = an_BBox r, ca_Score = an_Score r\<rparr> # anns1"
    using Cons.prems by (auto simp: Let_def i1_def c1_def split: prod.splits)
  from Cons.IH [OF rec] obtain ei ec where ext: "imgs' = i1 @ ei" "cats' = c1 @ ec" and
    tail: "map (\<lambda>a. (ca_ID a, nameOf (pairsFrom 1 imgs') (ca_ImageID a), nameOf (pairsFrom 1 cats') (ca_CategoryID a), ca_BBox a, ca_Score a)) anns1 =
      map (\<lambda>(i, r). (n + 1 + 1 + int i, an_Image r, an_Category r, an_BBox r, an_Score r)) (enumerate 0 rs)" by blast
  have mem: "an_Image r \<in> set i1" "an_Category r \<in> set c1" by (simp_all add: i1_def c1_def numberName_mem)
  then have "positionFrom 1 i1 (an_Image r) = positionFrom 1 imgs' (an_Image r)"
    "positionFrom 1 c1 (an_Category r) = positionFrom 1 cats' (an_Category r)"
    by (simp_all add: ext position_append)
  then have head: "nameOf (pairsFrom 1 imgs') (positionFrom 1 i1 (an_Image r)) = an_Image r"
    "nameOf (pairsFrom 1 cats') (positionFrom 1 c1 (an_Category r)) = an_Category r"
    using mem by (simp_all add: nameOf_position ext)
  have shift: "map (\<lambda>(i, r). (n + 1 + 1 + int i, an_Image r, an_Category r, an_BBox r, an_Score r)) (enumerate 0 rs) =
      map (\<lambda>(i, r). (n + 1 + int i, an_Image r, an_Category r, an_BBox r, an_Score r)) (enumerate (Suc 0) rs)"
    by (rule nth_equalityI) (simp_all add: nth_enumerate_eq)
  have "\<exists>ex. imgs' = imgs @ ex" "\<exists>ex. cats' = cats @ ex"
    using numberName_mem(2) [of "an_Image r" imgs] numberName_mem(2) [of "an_Category r" cats] ext by (auto simp: i1_def c1_def)
  moreover have "map (\<lambda>a. (ca_ID a, nameOf (pairsFrom 1 imgs') (ca_ImageID a), nameOf (pairsFrom 1 cats') (ca_CategoryID a), ca_BBox a, ca_Score a)) anns =
      (n + 1, an_Image r, an_Category r, an_BBox r, an_Score r) #
      map (\<lambda>(i, r). (n + 1 + int i, an_Image r, an_Category r, an_BBox r, an_Score r)) (enumerate (Suc 0) rs)"
    unfolding tail [unfolded shift, symmetric] by (simp add: anns head)
  ultimately show ?case by simp
qed simp

text \<open>C34: writing annotations in COCO and reading them back returns one record per record, in order, with the image, the
  category, the box and the score of the original and its number as identifier: names are numbered consistently. Text,
  attributes and the original identifier are not part of the format.\<close>
theorem coco_roundtrip:
  assumes "ax_coco ax (ax_cocoJSON ax (cocoOf rs)) = Inr (cocoOf rs)"
  shows "\<exists>out. ConvertAnnotations ax rs ''COCO'' = Inr out \<and> ParseAnnotations ax ''coco'' out =
    Inr (map (\<lambda>(i, r). emptyRecord\<lparr>an_ID := showInt (int i + 1), an_Image := an_Image r, an_Category := an_Category r,
      an_Score := an_Score r, an_BBox := an_BBox r\<rparr>) (enumerate 0 rs))"
proof -
  have low: "lowerSearch ''COCO'' = ''coco''" "lowerSearch ''coco'' = ''coco''" by code_simp+
  obtain imgs cats anns where loop: "cocoLoop [] [] 0 rs = (imgs, cats, anns)" by (metis prod_cases3)
  let ?c = "cocoOf rs"
  let ?mk = "\<lambda>(i, img, cat, box, sc). emptyRecord\<lparr>an_ID := showInt i, an_Image := img, an_Category := cat, an_Score := sc, an_BBox := box\<rparr>"
  have imgs: "map (\<lambda>i. (ci_ID i, ci_FileName i)) (co_Images ?c) = pairsFrom 1 imgs"
    and cats: "map (\<lambda>i. (cc_ID i, cc_Name i)) (co_Categories ?c) = pairsFrom 1 cats" and anns: "co_Annotations ?c = anns"
    by (simp_all add: cocoOf_def loop numbered_map pairsFrom_def)
  from cocoLoop_spec [OF loop]
  have "map ?mk (map (\<lambda>a. (ca_ID a, nameOf (pairsFrom 1 imgs) (ca_ImageID a), nameOf (pairsFrom 1 cats) (ca_CategoryID a), ca_BBox a, ca_Score a)) anns) =
      map ?mk (map (\<lambda>(i, r). (0 + 1 + int i, an_Image r, an_Category r, an_BBox r, an_Score r)) (enumerate 0 rs))" by simp
  moreover have "map (cocoRecord ?c) anns =
      map ?mk (map (\<lambda>a. (ca_ID a, nameOf (pairsFrom 1 imgs) (ca_ImageID a), nameOf (pairsFrom 1 cats) (ca_CategoryID a), ca_BBox a, ca_Score a)) anns)"
    by (simp add: cocoRecord_def imgs cats comp_def)
  ultimately have "map (cocoRecord ?c) anns = map (\<lambda>(i, r). emptyRecord\<lparr>an_ID := showInt (int i + 1), an_Image := an_Image r,
      an_Category := an_Category r, an_Score := an_Score r, an_BBox := an_BBox r\<rparr>) (enumerate 0 rs)"
    by (simp add: comp_def case_prod_unfold add.commute)
  then show ?thesis
    unfolding ConvertAnnotations_def ParseAnnotations_def low Let_def
    using assms by (simp add: toCOCO_def parseCOCO_def anns)
qed

definition demoAnn :: "string \<Rightarrow> string \<Rightarrow> AnnotationRecord" where
  "demoAnn img cat = emptyRecord\<lparr>an_ID := ''x'', an_Image := img, an_Category := cat, an_BBox := [Fin 1, Fin 2]\<rparr>"

definition demoAnnText :: "AnnotationRecord list \<Rightarrow> AnnText" where
  "demoAnnText rs = \<lparr>ax_record = (\<lambda>_. Inl []), ax_recordJSON = (\<lambda>_. []), ax_coco = (\<lambda>_. Inr (cocoOf rs)), ax_cocoJSON = (\<lambda>_. ''{...}''),
     ax_csv = (\<lambda>_. Inr [[''image'', ''bbox''], [''a.png'', ''1 2'']]), ax_csvText = (\<lambda>_. ''image,bbox''), ax_scan = (\<lambda>_. Some (Fin 1)),
     ax_num = (\<lambda>_. ''1''), ax_quote = (\<lambda>s. s)\<rparr>"

theorem coco_roundtrip_witness:
  "\<exists>out. ConvertAnnotations (demoAnnText [demoAnn ''a'' ''cat'', demoAnn ''b'' ''dog'', demoAnn ''a'' ''dog''])
      [demoAnn ''a'' ''cat'', demoAnn ''b'' ''dog'', demoAnn ''a'' ''dog''] ''COCO'' = Inr out \<and>
    (\<exists>rs. ParseAnnotations (demoAnnText [demoAnn ''a'' ''cat'', demoAnn ''b'' ''dog'', demoAnn ''a'' ''dog'']) ''coco'' out = Inr rs \<and>
      map an_Image rs = [''a'', ''b'', ''a''] \<and> map an_Category rs = [''cat'', ''dog'', ''dog''])"
proof -
  let ?rs = "[demoAnn ''a'' ''cat'', demoAnn ''b'' ''dog'', demoAnn ''a'' ''dog'']"
  have "ax_coco (demoAnnText ?rs) (ax_cocoJSON (demoAnnText ?rs) (cocoOf ?rs)) = Inr (cocoOf ?rs)" by (simp add: demoAnnText_def)
  from coco_roundtrip [OF this] show ?thesis by (auto simp: demoAnn_def emptyRecord_def)
qed

text \<open>CSV loses boxes: the numbers are joined by blanks and read back as separated by commas, where the scan stops at the blank.\<close>

lemma csv_loses_boxes:
  assumes "ax_csv ax (ax_csvText ax rows) = Inr rows"
    and "rows = [[''id'', ''image'', ''text'', ''category'', ''score'', ''bbox''],
      [an_ID r, an_Image r, an_Text r, an_Category r, ax_num ax (an_Score r), bboxText ax (an_BBox r)]]"
    and "splitOn (CHR '','') (bboxText ax (an_BBox r)) = [bboxText ax (an_BBox r)]"
    and "TrimSpace (bboxText ax (an_BBox r)) = bboxText ax (an_BBox r)" and "bboxText ax (an_BBox r) \<noteq> []"
    and "ax_scan ax (bboxText ax (an_BBox r)) = Some (hd (an_BBox r))"
  shows "\<exists>r'. parseCSV ax (toCSV ax [r]) = Inr [r'] \<and> an_BBox r' = [hd (an_BBox r)]"
proof -
  have col: "columnOf [''id'', ''image'', ''text'', ''category'', ''score'', ''bbox''] ''bbox'' = Some 5" by code_simp
  have "cell (rows ! 0) (rows ! 1) ''bbox'' = bboxText ax (an_BBox r)" by (simp add: cell_def assms(2) col)
  then have "an_BBox (csvRecord ax (rows ! 0) (rows ! 1)) = [hd (an_BBox r)]"
    using assms(3-6) by (simp add: csvRecord_def parseFloats_def List.map_filter_def)
  then show ?thesis using assms(1,2) by (simp add: parseCSV_def toCSV_def)
qed

end
