(* ===== verification/Operators.thy ===== *)
theory Operators
  imports Annotation
begin

text \<open>
  The builtin data operators, \<^verbatim>\<open>data/operator/operator.go\<close>.  Files are a table of path and contents; a line of a file is read
  and written by arguments (JSON), as are the \<^verbatim>\<open>%v\<close> text of a value, CSV, the order in which a map is visited, the
  permutations and draws of the generator and the faults of the file system, asked by the number of the step.  A JSON
  line \<^verbatim>\<open>null\<close> gives a nil map, into which a write panics.
\<close>

section \<open>Values\<close>

datatype OpVal = ONum f64 | OStr string | OBool bool | ONil | OArr "OpVal list" | OObj string

type_synonym oprow = "(string \<times> OpVal) list option"
type_synonym opparams = "(string \<times> OpVal) list"

datatype OpErr = OpFail string | OpPanic

record OpEnv =
  oe_ops :: HpoFloats
  oe_parse :: "string \<Rightarrow> string + oprow"
  oe_json :: "oprow \<Rightarrow> string + string"
  oe_show :: "OpVal \<Rightarrow> string"
  oe_csv :: "string list list \<Rightarrow> string"
  oe_quote :: "string \<Rightarrow> string"
  oe_visit :: "(string \<times> nat) list \<Rightarrow> (string \<times> nat) list"
  oe_perm :: "int \<Rightarrow> nat \<Rightarrow> nat list"
  oe_draw :: "nat \<Rightarrow> f64"
  oe_io :: "nat \<Rightarrow> string option"
  oe_isDir :: "string \<Rightarrow> bool"
  oe_walk :: "string \<Rightarrow> (string \<times> bool) list"
  oe_dst :: "string \<Rightarrow> string \<Rightarrow> string \<Rightarrow> string"

type_synonym opfiles = "(string \<times> string) list"
type_synonym 'a opact = "(opfiles, OpErr, 'a) act"

definition opFault :: "OpEnv \<Rightarrow> nat \<Rightarrow> OpErr option" where
  "opFault env n = map_option OpFail (oe_io env n)"

definition field :: "oprow \<Rightarrow> string \<Rightarrow> OpVal" where
  "field r k = (case r of None \<Rightarrow> ONil | Some m \<Rightarrow> (case map_of m k of None \<Rightarrow> ONil | Some v \<Rightarrow> v))"

definition setField :: "string \<Rightarrow> OpVal \<Rightarrow> oprow \<Rightarrow> oprow option" where
  "setField k v r = (case r of None \<Rightarrow> None | Some m \<Rightarrow> Some (Some (AList.update k v m)))"

definition strParam :: "opparams \<Rightarrow> string \<Rightarrow> string" where
  "strParam p key = (case map_of p key of Some (OStr s) \<Rightarrow> s | _ \<Rightarrow> [])"

definition floatParam :: "opparams \<Rightarrow> string \<Rightarrow> f64 option" where
  "floatParam p key = (case map_of p key of Some (ONum x) \<Rightarrow> Some x | _ \<Rightarrow> None)"

definition arrParam :: "opparams \<Rightarrow> string \<Rightarrow> OpVal list option" where
  "arrParam p key = (case map_of p key of Some (OArr vs) \<Rightarrow> Some vs | _ \<Rightarrow> None)"

definition opToFloat :: "OpVal \<Rightarrow> f64 option" where
  "opToFloat v = (case v of ONum x \<Rightarrow> Some x | _ \<Rightarrow> None)"

section \<open>Files\<close>

definition maxLine :: nat where "maxLine = 16777216"

definition dropCR :: "string \<Rightarrow> string" where
  "dropCR s = (if s \<noteq> [] \<and> List.last s = CHR 0x0D then butlast s else s)"

primrec rowLoop :: "OpEnv \<Rightarrow> string list \<Rightarrow> string + oprow list" where
  "rowLoop env [] = Inr []"
| "rowLoop env (raw # rest) =
     (if maxLine \<le> length raw then Inl ''bufio.Scanner: token too long''
      else let line = dropCR raw in
        if line = [] then rowLoop env rest
        else case oe_parse env line of
          Inl e \<Rightarrow> Inl (''parse jsonl: '' @ e)
        | Inr r \<Rightarrow> (case rowLoop env rest of Inl e \<Rightarrow> Inl e | Inr rs \<Rightarrow> Inr (r # rs)))"

definition readJSONL :: "OpEnv \<Rightarrow> string \<Rightarrow> oprow list opact" where
  "readJSONL env path = readS (opFault env) (\<lambda>fs. case map_of fs path of
     None \<Rightarrow> Inl (OpFail (''open '' @ path @ '': no such file or directory''))
   | Some text \<Rightarrow> (case rowLoop env (splitLines text) of Inl e \<Rightarrow> Inl (OpFail e) | Inr rs \<Rightarrow> Inr rs))"

primrec writeLoop :: "OpEnv \<Rightarrow> oprow list \<Rightarrow> string \<times> string option" where
  "writeLoop env [] = ([], None)"
| "writeLoop env (r # rs) =
     (case oe_json env r of
        Inl e \<Rightarrow> ([], Some e)
      | Inr line \<Rightarrow> (case writeLoop env rs of (text, err) \<Rightarrow> (line @ CHR 0x0A # text, err)))"

text \<open>What was written before an error is flushed when the function returns.\<close>

definition writeJSONL :: "OpEnv \<Rightarrow> string \<Rightarrow> oprow list \<Rightarrow> unit opact" where
  "writeJSONL env path rows =
     bindS (writeS (opFault env) (\<lambda>fs. fs)) (\<lambda>_.
     dbS (opFault env) (\<lambda>fs. case writeLoop env rows of (text, err) \<Rightarrow>
       (case err of None \<Rightarrow> Inr () | Some e \<Rightarrow> Inl (OpFail e), AList.update path text fs)))"

definition copyJSONL :: "OpEnv \<Rightarrow> string \<Rightarrow> string \<Rightarrow> unit opact" where
  "copyJSONL env src dst = bindS (readJSONL env src) (\<lambda>rows. writeJSONL env dst rows)"

definition copyEntry :: "OpEnv \<Rightarrow> string \<Rightarrow> string \<Rightarrow> string \<times> bool \<Rightarrow> unit opact" where
  "copyEntry env src dst e =
     (if snd e then writeS (opFault env) (\<lambda>fs. fs)
      else bindS (readS (opFault env) (\<lambda>fs. case map_of fs (fst e) of
          None \<Rightarrow> Inl (OpFail (''open '' @ fst e @ '': no such file or directory'')) | Some text \<Rightarrow> Inr text)) (\<lambda>text.
        writeS (opFault env) (\<lambda>fs. AList.update (oe_dst env src dst (fst e)) text fs)))"

definition copyTree :: "OpEnv \<Rightarrow> string \<Rightarrow> string \<Rightarrow> unit opact" where
  "copyTree env src dst =
     bindS (writeS (opFault env) (\<lambda>fs. fs)) (\<lambda>_.
     bindS (writeS (opFault env) (\<lambda>fs. fs)) (\<lambda>_.
       if \<not> oe_isDir env src then copyJSONL env src dst
       else foreachS (copyEntry env src dst) (oe_walk env src)))"

definition rowOf :: "OpEnv \<Rightarrow> string list \<Rightarrow> oprow \<Rightarrow> string list" where
  "rowOf env cols r = map (\<lambda>c. oe_show env (field r c)) cols"

definition writeCSV :: "OpEnv \<Rightarrow> string \<Rightarrow> oprow list \<Rightarrow> unit opact" where
  "writeCSV env path rows =
     bindS (writeS (opFault env) (\<lambda>fs. fs)) (\<lambda>_.
     case rows of
       [] \<Rightarrow> retS ()
     | r # _ \<Rightarrow>
         let cols = sort (map fst (case r of None \<Rightarrow> [] | Some m \<Rightarrow> m)) in
         writeS (opFault env) (\<lambda>fs. AList.update path (oe_csv env (cols # map (rowOf env cols) rows)) fs))"

text \<open>\<^verbatim>\<open>filepath.Ext\<close>: from the last dot of the last element.\<close>

definition extOf :: "string \<Rightarrow> string" where
  "extOf p = (let tail = rev (takeWhile (\<lambda>c. c \<noteq> CHR ''/'') (rev p)) in
     if CHR ''.'' \<in> set tail then CHR ''.'' # rev (takeWhile (\<lambda>c. c \<noteq> CHR ''.'') (rev tail)) else [])"

definition extToFormat :: "string \<Rightarrow> string" where
  "extToFormat p = (if extOf p = ''.csv'' then ''csv'' else ''jsonl'')"

definition deriveSiblingPath :: "string \<Rightarrow> string \<Rightarrow> string" where
  "deriveSiblingPath out suffix = take (length out - length (extOf out)) out @ ''.'' @ suffix @ extOf out"

section \<open>Cleaning\<close>

definition dedupKey :: "OpEnv \<Rightarrow> string \<Rightarrow> oprow \<Rightarrow> string" where
  "dedupKey env key r =
     (if key \<noteq> [] then oe_show env (field r key) else case oe_json env r of Inl _ \<Rightarrow> [] | Inr s \<Rightarrow> s)"

primrec dedupLoop :: "(oprow \<Rightarrow> string) \<Rightarrow> string list \<Rightarrow> oprow list \<Rightarrow> oprow list" where
  "dedupLoop key seen [] = []"
| "dedupLoop key seen (r # rs) =
     (if key r \<in> set seen then dedupLoop key seen rs else r # dedupLoop key (key r # seen) rs)"

definition Dedup :: "OpEnv \<Rightarrow> string \<Rightarrow> string \<Rightarrow> opparams \<Rightarrow> unit opact" where
  "Dedup env src dst p =
     bindS (readJSONL env src) (\<lambda>rows. writeJSONL env dst (dedupLoop (dedupKey env (strParam p ''key'')) [] rows))"

text \<open>Set the column of the rows that have none; None is a panic.\<close>

primrec fillWith :: "string \<Rightarrow> OpVal \<Rightarrow> oprow list \<Rightarrow> oprow list option" where
  "fillWith col v [] = Some []"
| "fillWith col v (r # rs) =
     (if field r col = ONil
      then case setField col v r of
          None \<Rightarrow> None
        | Some r \<Rightarrow> map_option ((#) r) (fillWith col v rs)
      else map_option ((#) r) (fillWith col v rs))"

primrec sumCol :: "OpEnv \<Rightarrow> string \<Rightarrow> f64 \<Rightarrow> int \<Rightarrow> oprow list \<Rightarrow> f64 \<times> int" where
  "sumCol env col s n [] = (s, n)"
| "sumCol env col s n (r # rs) =
     (case opToFloat (field r col) of
        Some v \<Rightarrow> sumCol env col (fo_add (oe_ops env) s v) (n + 1) rs
      | None \<Rightarrow> sumCol env col s n rs)"

primrec freqOf :: "OpEnv \<Rightarrow> string \<Rightarrow> (string \<times> nat) list \<Rightarrow> oprow list \<Rightarrow> (string \<times> nat) list" where
  "freqOf env col m [] = m"
| "freqOf env col m (r # rs) =
     (if field r col = ONil then freqOf env col m rs
      else let k = oe_show env (field r col) in
        freqOf env col (AList.update k (Suc (case map_of m k of None \<Rightarrow> 0 | Some n \<Rightarrow> n)) m) rs)"

primrec bestOf :: "string \<Rightarrow> int \<Rightarrow> (string \<times> nat) list \<Rightarrow> string" where
  "bestOf best n [] = best"
| "bestOf best n (e # es) = (if n < int (snd e) then bestOf (fst e) (int (snd e)) es else bestOf best n es)"

definition fillColumn :: "OpEnv \<Rightarrow> string \<Rightarrow> opparams \<Rightarrow> string \<Rightarrow> oprow list \<Rightarrow> OpErr + oprow list" where
  "fillColumn env strategy p col rows =
     (let filled = (\<lambda>v. case fillWith col v rows of None \<Rightarrow> Inl OpPanic | Some rows \<Rightarrow> Inr rows) in
      if strategy = ''const'' then filled (case map_of p ''value'' of None \<Rightarrow> ONil | Some v \<Rightarrow> v)
      else if strategy = ''mean''
      then (case sumCol env col pZero 0 rows of (s, n) \<Rightarrow>
          if 0 < n then filled (ONum (fo_div (oe_ops env) s (fo_ofInt (oe_ops env) n))) else Inr rows)
      else if strategy = ''mode'' then filled (OStr (bestOf [] (- 1) (oe_visit env (freqOf env col [] rows))))
      else Inl (OpFail (''fillna: unsupported strategy '' @ oe_quote env strategy)))"

primrec fillLoop :: "OpEnv \<Rightarrow> string \<Rightarrow> opparams \<Rightarrow> OpVal list \<Rightarrow> oprow list \<Rightarrow> OpErr + oprow list" where
  "fillLoop env strategy p [] rows = Inr rows"
| "fillLoop env strategy p (c # cs) rows =
     (case fillColumn env strategy p (oe_show env c) rows of
        Inl e \<Rightarrow> Inl e
      | Inr rows \<Rightarrow> fillLoop env strategy p cs rows)"

definition columnsOr :: "opparams \<Rightarrow> oprow list \<Rightarrow> OpVal list" where
  "columnsOr p rows =
     (case arrParam p ''columns'' of
        Some cs \<Rightarrow> cs
      | None \<Rightarrow> (case rows of Some m # _ \<Rightarrow> map (\<lambda>e. OStr (fst e)) m | _ \<Rightarrow> []))"

definition liftOp :: "OpErr + 'a \<Rightarrow> 'a opact" where
  "liftOp r = (case r of Inl e \<Rightarrow> failS e | Inr x \<Rightarrow> retS x)"

definition Fillna :: "OpEnv \<Rightarrow> string \<Rightarrow> string \<Rightarrow> opparams \<Rightarrow> unit opact" where
  "Fillna env src dst p =
     bindS (readJSONL env src) (\<lambda>rows.
     bindS (liftOp (fillLoop env (strParam p ''strategy'') p (columnsOr p rows) rows)) (\<lambda>rows. writeJSONL env dst rows))"

definition absF :: "f64 \<Rightarrow> f64" where
  "absF x = (if flt x pZero then negF x else x)"

text \<open>Twenty steps of Newton's method.\<close>

definition newton :: "HpoFloats \<Rightarrow> f64 \<Rightarrow> f64 \<Rightarrow> f64" where
  "newton ops x z = fo_sub ops z (fo_div ops (fo_sub ops (fo_mul ops z z) x) (fo_mul ops (Fin 2) z))"

definition sqrtF :: "HpoFloats \<Rightarrow> f64 \<Rightarrow> f64" where
  "sqrtF ops x = (if flt x pZero then pZero else (newton ops x ^^ 20) x)"

primrec varLoop :: "OpEnv \<Rightarrow> string \<Rightarrow> f64 \<Rightarrow> f64 \<Rightarrow> oprow list \<Rightarrow> f64" where
  "varLoop env col mu s [] = s"
| "varLoop env col mu s (r # rs) =
     (case opToFloat (field r col) of
        Some v \<Rightarrow> (let d = fo_sub (oe_ops env) v mu in varLoop env col mu (fo_add (oe_ops env) s (fo_mul (oe_ops env) d d)) rs)
      | None \<Rightarrow> varLoop env col mu s rs)"

definition meanStd :: "OpEnv \<Rightarrow> oprow list \<Rightarrow> string \<Rightarrow> f64 \<times> f64" where
  "meanStd env rows col =
     (case sumCol env col pZero 0 rows of (s, n) \<Rightarrow>
       if n = 0 then (pZero, pZero)
       else let ops = oe_ops env; count = fo_ofInt ops n; mu = fo_div ops s count in
         (mu, sqrtF ops (fo_div ops (varLoop env col mu pZero rows) count)))"

definition isOutlier :: "OpEnv \<Rightarrow> oprow list \<Rightarrow> string \<Rightarrow> f64 \<Rightarrow> string \<Rightarrow> oprow \<Rightarrow> bool" where
  "isOutlier env rows method threshold col r =
     (case opToFloat (field r col) of
        None \<Rightarrow> False
      | Some v \<Rightarrow> method = ''zscore'' \<and>
          (case meanStd env rows col of (mu, sd) \<Rightarrow>
             flt pZero sd \<and> flt threshold (absF (fo_div (oe_ops env) (fo_sub (oe_ops env) v mu) sd))))"

definition paramOr :: "f64 \<Rightarrow> f64 option \<Rightarrow> f64" where
  "paramOr d v = (case v of None \<Rightarrow> d | Some x \<Rightarrow> if feq x pZero then d else x)"

definition DropOutlier :: "OpEnv \<Rightarrow> string \<Rightarrow> string \<Rightarrow> opparams \<Rightarrow> unit opact" where
  "DropOutlier env src dst p =
     bindS (readJSONL env src) (\<lambda>rows.
     let cols = (case arrParam p ''columns'' of None \<Rightarrow> [] | Some cs \<Rightarrow> cs); method = strParam p ''method'';
         threshold = paramOr (Fin 3) (floatParam p ''threshold'') in
     writeJSONL env dst (filter (\<lambda>r. \<not> list_ex (\<lambda>c. isOutlier env rows method threshold (oe_show env c) r) cols) rows))"

definition lowerRune :: "char \<Rightarrow> char" where
  "lowerRune c = (let n = of_char c :: nat in if 65 \<le> n \<and> n \<le> 90 then char_of (n + 32) else c)"

definition normalizeString :: "string \<Rightarrow> string" where
  "normalizeString s = map lowerRune s"

definition normalizeRow :: "string list \<Rightarrow> oprow \<Rightarrow> oprow" where
  "normalizeRow rules r =
     map_option (map (\<lambda>(k, v). (k, case v of
       OStr s \<Rightarrow> if rules \<noteq> [] \<and> k \<notin> set rules then v else OStr (normalizeString s)
     | _ \<Rightarrow> v))) r"

definition Normalize :: "OpEnv \<Rightarrow> string \<Rightarrow> string \<Rightarrow> opparams \<Rightarrow> unit opact" where
  "Normalize env src dst p =
     bindS (readJSONL env src) (\<lambda>rows.
     let rules = map (oe_show env) (case arrParam p ''rules'' of None \<Rightarrow> [] | Some rs \<Rightarrow> rs) in
     writeJSONL env dst (map (normalizeRow rules) rows))"

section \<open>Augmentation\<close>

definition ImgFlip :: "OpEnv \<Rightarrow> string \<Rightarrow> string \<Rightarrow> opparams \<Rightarrow> unit opact" where
  "ImgFlip env src dst p = copyTree env src dst"

definition ImgCrop :: "OpEnv \<Rightarrow> string \<Rightarrow> string \<Rightarrow> opparams \<Rightarrow> unit opact" where
  "ImgCrop env src dst p = copyTree env src dst"

definition synonymDict :: "(string \<times> string) list" where
  "synonymDict = [(''good'', ''great''), (''bad'', ''poor''), (''fast'', ''quick''), (''big'', ''large''), (''small'', ''tiny'')]"

definition isBreak :: "char \<Rightarrow> bool" where
  "isBreak c = (c = CHR '' '' \<or> c = CHR 0x09 \<or> c = CHR '','' \<or> c = CHR ''.'')"

primrec wordLoop :: "string \<Rightarrow> string \<Rightarrow> string list" where
  "wordLoop cur [] = (if cur = [] then [] else [cur])"
| "wordLoop cur (c # s) =
     (if isBreak c then (if cur = [] then wordLoop [] s else cur # wordLoop [] s) else wordLoop (cur @ [c]) s)"

definition splitWords :: "string \<Rightarrow> string list" where
  "splitWords s = wordLoop [] s"

definition joinWords :: "string list \<Rightarrow> string" where
  "joinWords ws = spaced ws"

text \<open>The draws are numbered over all rows; a word that has no synonym takes none.\<close>

primrec replaceLoop :: "OpEnv \<Rightarrow> f64 \<Rightarrow> nat \<Rightarrow> string list \<Rightarrow> string list \<times> nat" where
  "replaceLoop env ratio n [] = ([], n)"
| "replaceLoop env ratio n (w # ws) =
     (case map_of synonymDict w of
        None \<Rightarrow> (case replaceLoop env ratio n ws of (rest, n) \<Rightarrow> (w # rest, n))
      | Some syn \<Rightarrow> (case replaceLoop env ratio (Suc n) ws of (rest, m) \<Rightarrow>
          ((if flt (oe_draw env n) ratio then syn else w) # rest, m)))"

definition synonymReplace :: "OpEnv \<Rightarrow> f64 \<Rightarrow> nat \<Rightarrow> string \<Rightarrow> string \<times> nat" where
  "synonymReplace env ratio n s = (case replaceLoop env ratio n (splitWords s) of (ws, m) \<Rightarrow> (joinWords ws, m))"

primrec synonymRows :: "OpEnv \<Rightarrow> f64 \<Rightarrow> nat \<Rightarrow> oprow list \<Rightarrow> oprow list" where
  "synonymRows env ratio n [] = []"
| "synonymRows env ratio n (r # rs) =
     (case field r ''text'' of
        OStr s \<Rightarrow> (case synonymReplace env ratio n s of (t, m) \<Rightarrow>
          (case setField ''text'' (OStr t) r of None \<Rightarrow> r | Some r \<Rightarrow> r) # synonymRows env ratio m rs)
      | _ \<Rightarrow> r # synonymRows env ratio n rs)"

definition TextSynonym :: "OpEnv \<Rightarrow> string \<Rightarrow> string \<Rightarrow> opparams \<Rightarrow> unit opact" where
  "TextSynonym env src dst p =
     bindS (readJSONL env src) (\<lambda>rows.
       writeJSONL env dst (synonymRows env (paramOr (Fin (3 / 10)) (floatParam p ''ratio'')) 0 rows))"

definition TextBacktranslate :: "OpEnv \<Rightarrow> string \<Rightarrow> string \<Rightarrow> opparams \<Rightarrow> unit opact" where
  "TextBacktranslate env src dst p = copyJSONL env src dst"

section \<open>Conversion, split, sample\<close>

definition FormatConvert :: "OpEnv \<Rightarrow> string \<Rightarrow> string \<Rightarrow> opparams \<Rightarrow> unit opact" where
  "FormatConvert env src dst p =
     (let to = (if strParam p ''to'' = [] then extToFormat dst else strParam p ''to'') in
      bindS (readJSONL env src) (\<lambda>rows.
        if to = ''jsonl'' then writeJSONL env dst rows
        else if to = ''csv'' then writeCSV env dst rows
        else failS (OpFail (''format_convert: unsupported target '' @ oe_quote env to))))"

definition trainRows :: "nat list \<Rightarrow> int \<Rightarrow> oprow list \<Rightarrow> oprow list" where
  "trainRows perm n rows = map ((!) rows) (take (nat n) perm)"

definition valRows :: "nat list \<Rightarrow> int \<Rightarrow> oprow list \<Rightarrow> oprow list" where
  "valRows perm n rows = map ((!) rows) (drop (nat n) perm)"

definition splitAt :: "OpEnv \<Rightarrow> opparams \<Rightarrow> nat \<Rightarrow> int" where
  "splitAt env p len = intOf (oe_ops env) (fo_mul (oe_ops env) (fo_ofInt (oe_ops env) (int len))
     (paramOr (Fin (8 / 10)) (floatParam p ''train_ratio'')))"

definition seedOf :: "OpEnv \<Rightarrow> opparams \<Rightarrow> int" where
  "seedOf env p = (case floatParam p ''seed'' of None \<Rightarrow> 0 | Some s \<Rightarrow> intOf (oe_ops env) s)"

definition SplitDispatch :: "OpEnv \<Rightarrow> string \<Rightarrow> string \<Rightarrow> opparams \<Rightarrow> unit opact" where
  "SplitDispatch env src dst p =
     bindS (readJSONL env src) (\<lambda>rows.
     let perm = oe_perm env (seedOf env p) (length rows); n = splitAt env p (length rows) in
     bindS (writeJSONL env dst (trainRows perm n rows)) (\<lambda>_.
       writeJSONL env (deriveSiblingPath dst ''val'') (valRows perm n rows)))"

definition sampleSize :: "OpEnv \<Rightarrow> opparams \<Rightarrow> nat \<Rightarrow> int" where
  "sampleSize env p len =
     (let n = (case floatParam p ''frac'' of
          Some f \<Rightarrow> intOf (oe_ops env) (fo_mul (oe_ops env) (fo_ofInt (oe_ops env) (int len)) f)
        | None \<Rightarrow> (case floatParam p ''n'' of Some v \<Rightarrow> intOf (oe_ops env) v | None \<Rightarrow> int len)) in
      if int len < n then int len else n)"

definition Sample :: "OpEnv \<Rightarrow> string \<Rightarrow> string \<Rightarrow> opparams \<Rightarrow> unit opact" where
  "Sample env src dst p =
     bindS (readJSONL env src) (\<lambda>rows.
       writeJSONL env dst (trainRows (oe_perm env 7 (length rows)) (sampleSize env p (length rows)) rows))"

record OpSpec =
  op_Operator :: string
  op_Params :: opparams
  op_Input :: string
  op_Output :: string

definition RunOp :: "OpEnv \<Rightarrow> OpSpec \<Rightarrow> unit opact" where
  "RunOp env spec =
     (let run = (\<lambda>f. f env (op_Input spec) (op_Output spec) (op_Params spec)); op = op_Operator spec in
      if op = ''dedup'' then run Dedup
      else if op = ''fillna'' then run Fillna
      else if op = ''drop_outlier'' then run DropOutlier
      else if op = ''normalize'' then run Normalize
      else if op = ''img_flip'' then run ImgFlip
      else if op = ''img_crop'' then run ImgCrop
      else if op = ''text_synonym'' then run TextSynonym
      else if op = ''text_backtranslate'' then run TextBacktranslate
      else if op = ''format_convert'' then run FormatConvert
      else if op = ''split'' then run SplitDispatch
      else if op = ''sample'' then run Sample
      else failS (OpFail (''unknown operator '' @ oe_quote env op)))"

end
