(* ===== verification/OperatorProofs.thy ===== *)
theory OperatorProofs
  imports Operators EvaluationProofs "HOL-Library.Sublist"
begin

text \<open>What the data operators promise: which files they write, the split, the removal of duplicates.\<close>

section \<open>Files\<close>

definition onlyPaths :: "string set \<Rightarrow> opfiles \<Rightarrow> opfiles \<Rightarrow> bool" where
  "onlyPaths ps s t = (\<forall>p. p \<notin> ps \<longrightarrow> map_of t p = map_of s p)"

interpretation op: kept "onlyPaths ps" for ps
  by unfold_locales (simp_all add: onlyPaths_def)

lemma only_update: "path \<in> ps \<Longrightarrow> onlyPaths ps s (AList.update path v s)"
  by (auto simp: onlyPaths_def update_conv')

lemma read_only [simp]: "after (readJSONL env path) w = fst w" "after (liftOp r) w = fst w"
  by (simp_all add: readJSONL_def liftOp_def split: sum.split)

lemma write_only: "path \<in> ps \<Longrightarrow> onlyPaths ps (fst w) (after (writeJSONL env path rows) w)"
  unfolding writeJSONL_def
  by (intro op.keep_bind op.keep_write op.keep_db)
    (simp_all add: only_update op.kept_refl case_prod_unfold)

lemma csv_only: "path \<in> ps \<Longrightarrow> onlyPaths ps (fst w) (after (writeCSV env path rows) w)"
  unfolding writeCSV_def Let_def
  by (cases rows; simp only: list.case; intro op.keep_bind op.keep_write)
    (simp_all add: only_update op.kept_refl op.keep_write)

lemma read_then:
  assumes "\<And>rows w. onlyPaths ps (fst w) (after (f rows) w)"
  shows "onlyPaths ps (fst w) (after (bindS (readJSONL env src) f) w)"
  by (intro op.keep_bind op.keep_still read_only assms)

lemma copy_only: "dst \<in> ps \<Longrightarrow> onlyPaths ps (fst w) (after (copyJSONL env src dst) w)"
  unfolding copyJSONL_def by (intro read_then write_only)

lemma tree_only: "\<not> oe_isDir env src \<Longrightarrow> dst \<in> ps \<Longrightarrow> onlyPaths ps (fst w) (after (copyTree env src dst) w)"
  unfolding copyTree_def
  by (simp, intro op.keep_bind op.keep_write copy_only) (simp_all add: onlyPaths_def)


section \<open>Split\<close>


section \<open>Duplicates\<close>

lemma dedup_spec:
  "distinct (map key (dedupLoop key seen rows)) \<and> key ` set (dedupLoop key seen rows) = key ` set rows - set seen \<and>
    subseq (dedupLoop key seen rows) rows"
proof (induction rows arbitrary: seen)
  case (Cons r rs)
  show ?case
  proof (cases "key r \<in> set seen")
    case True
    then show ?thesis using Cons.IH [of seen] by (simp add: insert_Diff_if list_emb_Cons)
  next
    case False
    from Cons.IH [of "key r # seen"]
    have keys: "distinct (map key (dedupLoop key (key r # seen) rs))"
      "key ` set (dedupLoop key (key r # seen) rs) = key ` set rs - insert (key r) (set seen)"
      "subseq (dedupLoop key (key r # seen) rs) rs" by simp_all
    have "key r \<notin> key ` set (dedupLoop key (key r # seen) rs)" unfolding keys(2) by simp
    moreover have "insert (key r) (key ` set rs - insert (key r) (set seen)) = insert (key r) (key ` set rs) - set seen"
      using False by blast
    ultimately show ?thesis using False keys by simp
  qed
qed simp

lemma dedup_correct:
  "distinct (map key (dedupLoop key [] rows)) \<and> key ` set (dedupLoop key [] rows) = key ` set rows \<and> subseq (dedupLoop key [] rows) rows"
  using dedup_spec [of key "[]" rows] by simp

text \<open>The outlier filter knows one method; with any other it drops nothing.\<close>

lemma unknown_method_keeps:
  "strParam p ''method'' \<noteq> ''zscore'' \<Longrightarrow> DropOutlier env src dst p = copyJSONL env src dst"
proof -
  assume "strParam p ''method'' \<noteq> ''zscore''"
  then have "isOutlier env rows (strParam p ''method'') t col r = False" for rows t col r
    by (simp add: isOutlier_def split: option.split)
  then have "filter (\<lambda>r. \<not> list_ex (\<lambda>c. isOutlier env rows (strParam p ''method'') t (oe_show env c) r) cols) xs = xs" for rows t cols xs
    by (simp add: list_ex_iff)
  then show ?thesis by (simp add: DropOutlier_def copyJSONL_def Let_def)
qed

text \<open>Filling panics on a line \<^verbatim>\<open>null\<close>.\<close>

lemma fill_null_panics: "fillColumn env ''const'' p col (None # rs) = Inl OpPanic"
  by (simp add: fillColumn_def field_def setField_def)

section \<open>A concrete run\<close>

definition opEnv :: OpEnv where
  "opEnv = \<lparr>oe_ops = evOps, oe_parse = (\<lambda>_. Inr (Some [])), oe_json = (\<lambda>_. Inr ''{}''), oe_show = (\<lambda>_. ''x''), oe_csv = (\<lambda>_. []),
     oe_quote = (\<lambda>s. s), oe_visit = (\<lambda>m. m), oe_perm = (\<lambda>_ n. [0..<n]), oe_draw = (\<lambda>_. pZero), oe_io = (\<lambda>_. None),
     oe_isDir = (\<lambda>_. False), oe_walk = (\<lambda>_. []), oe_dst = (\<lambda>_ _ p. p)\<rparr>"



end
