(* ===== verification/EdgeDomain.thy ===== *)
theory EdgeDomain
  imports HpoDomain
begin

text \<open>
  \<^verbatim>\<open>domain/edge/entity.go\<close> and \<^verbatim>\<open>domain/edge/drift.go\<close>: edge nodes and their liveness, deployments with a canary share
  and a stable version to roll back to, and the detector of drift.  A Go map is a list of pairs; the order in which the keys
  of two maps are visited is an argument, as is the arithmetic that rounds.  A map from names to pointers may hold nil, and
  reading a field of nil panics: such results are None.
\<close>

section \<open>Nodes\<close>

datatype NodeMode = NodeModeAgent | NodeModeKubeEdge | OtherNodeMode string

datatype NodeStatus = NodeStatusPending | NodeStatusOnline | NodeStatusOffline | NodeStatusDegraded
  | NodeStatusDecommissioning | NodeStatusUnknown

record EdgeNode =
  nd_ID :: string
  nd_TenantID :: string
  nd_Name :: string
  nd_Mode :: NodeMode
  nd_Status :: NodeStatus
  nd_Endpoint :: string
  nd_Region :: string
  nd_Labels :: "(string \<times> string) list"
  nd_CACertPEM :: string
  nd_ClientCertPEM :: string
  nd_ClientKeyPEM :: string
  nd_HeartbeatAt :: time
  nd_LastSeenAt :: time
  nd_CreatedAt :: time
  nd_UpdatedAt :: time

definition RegisterN :: "time \<Rightarrow> EdgeNode \<Rightarrow> EdgeNode" where
  "RegisterN now n = n\<lparr>nd_Status := NodeStatusPending, nd_CreatedAt := now, nd_UpdatedAt := now\<rparr>"

definition HeartbeatN :: "time \<Rightarrow> EdgeNode \<Rightarrow> EdgeNode" where
  "HeartbeatN t n = (let n = n\<lparr>nd_LastSeenAt := t, nd_HeartbeatAt := t\<rparr>;
     n = (if nd_Status n = NodeStatusOffline \<or> nd_Status n = NodeStatusUnknown then n\<lparr>nd_Status := NodeStatusOnline\<rparr>
          else if nd_Status n = NodeStatusPending then n\<lparr>nd_Status := NodeStatusOnline\<rparr> else n)
     in n\<lparr>nd_UpdatedAt := t\<rparr>)"

definition RecomputeLiveness :: "time \<Rightarrow> duration \<Rightarrow> EdgeNode \<Rightarrow> EdgeNode" where
  "RecomputeLiveness now offlineThreshold n =
     (if nd_Status n = NodeStatusDecommissioning then n
      else if IsZero (nd_LastSeenAt n)
      then (if time_sub now (nd_CreatedAt n) > offlineThreshold then n\<lparr>nd_Status := NodeStatusOffline\<rparr> else n)
      else if time_sub now (nd_LastSeenAt n) > offlineThreshold then n\<lparr>nd_Status := NodeStatusOffline\<rparr>
      else n)"

definition MarkOffline :: "EdgeNode \<Rightarrow> EdgeNode" where
  "MarkOffline n = n\<lparr>nd_Status := NodeStatusOffline\<rparr>"

definition MarkDecommissioning :: "EdgeNode \<Rightarrow> EdgeNode" where
  "MarkDecommissioning n = n\<lparr>nd_Status := NodeStatusDecommissioning\<rparr>"

section \<open>Deployments\<close>

datatype EdgeDeployStatus = EdgeDeployPending | EdgeDeployDeploying | EdgeDeployActive | EdgeDeployDegraded
  | EdgeDeployFailing | EdgeDeployRolledBack | EdgeDeploySuperseded

record EdgeHealthCheck =
  eh_Path :: string
  eh_Port :: int
  eh_InitialDelaySeconds :: int
  eh_PeriodSeconds :: int

record EdgeDeploySpec =
  es_Image :: string
  es_Command :: "string list"
  es_Args :: "string list"
  es_Env :: "(string \<times> string) list"
  es_Replicas :: int
  es_CPU :: string
  es_Memory :: string
  es_GPUs :: int
  es_HealthCheck :: "EdgeHealthCheck option"

record EdgeDeployment =
  dp_ID :: string
  dp_TenantID :: string
  dp_NodeID :: string
  dp_ModelID :: string
  dp_Version :: string
  dp_DesiredSpec :: EdgeDeploySpec
  dp_CurrentVersion :: string
  dp_ActiveVersion :: string
  dp_CanaryVersion :: string
  dp_CanaryWeight :: int
  dp_Status :: EdgeDeployStatus
  dp_AutoRollback :: bool
  dp_DriftGuardEnabled :: bool
  dp_CreatedAt :: time
  dp_UpdatedAt :: time

text \<open>The answer tells whether the whole traffic has moved to the new version.\<close>

definition PromoteCanaryD :: "time \<Rightarrow> int \<Rightarrow> EdgeDeployment \<Rightarrow> bool \<times> EdgeDeployment" where
  "PromoteCanaryD now step d = (let step = (if step \<le> 0 then 25 else step);
     d = d\<lparr>dp_CanaryVersion := dp_Version d, dp_Status := EdgeDeployDeploying\<rparr>;
     d = d\<lparr>dp_CanaryWeight := (if i64 (dp_CanaryWeight d + step) \<ge> 100 then 100 else i64 (dp_CanaryWeight d + step)),
           dp_UpdatedAt := now\<rparr>
     in (dp_CanaryWeight d \<ge> 100, d))"

definition CompleteCanary :: "time \<Rightarrow> EdgeDeployment \<Rightarrow> EdgeDeployment" where
  "CompleteCanary now d = d\<lparr>dp_ActiveVersion := dp_Version d, dp_CurrentVersion := dp_Version d, dp_CanaryVersion := [],
     dp_CanaryWeight := 0, dp_Status := EdgeDeployActive, dp_UpdatedAt := now\<rparr>"

definition RollbackTo :: "time \<Rightarrow> EdgeDeployment \<Rightarrow> EdgeDeployment" where
  "RollbackTo now d = d\<lparr>dp_CurrentVersion := dp_ActiveVersion d, dp_CanaryVersion := [], dp_CanaryWeight := 0,
     dp_Status := EdgeDeployRolledBack, dp_UpdatedAt := now\<rparr>"

definition MarkDeploying :: "time \<Rightarrow> EdgeDeployment \<Rightarrow> EdgeDeployment" where
  "MarkDeploying now d = d\<lparr>dp_Status := EdgeDeployDeploying, dp_UpdatedAt := now\<rparr>"

definition MarkActive :: "time \<Rightarrow> EdgeDeployment \<Rightarrow> EdgeDeployment" where
  "MarkActive now d = d\<lparr>dp_Status := EdgeDeployActive, dp_UpdatedAt := now\<rparr>"

definition MarkFailing :: "time \<Rightarrow> EdgeDeployment \<Rightarrow> EdgeDeployment" where
  "MarkFailing now d = d\<lparr>dp_Status := EdgeDeployFailing, dp_UpdatedAt := now\<rparr>"

definition MarkDegraded :: "time \<Rightarrow> EdgeDeployment \<Rightarrow> EdgeDeployment" where
  "MarkDegraded now d = d\<lparr>dp_Status := EdgeDeployDegraded, dp_UpdatedAt := now\<rparr>"

record LabelFeedback =
  lf_ID :: string
  lf_TenantID :: string
  lf_DeploymentID :: string
  lf_Label :: string
  lf_RequestID :: string
  lf_FeedbackAt :: time

section \<open>Drift\<close>

datatype DriftType = DriftTypeData | DriftTypePrediction | DriftTypePerformance | DriftTypeConcept

datatype DriftSeverity = DriftSeverityNone | DriftSeverityLow | DriftSeverityMedium | DriftSeverityHigh | DriftSeverityCritical

fun severityRank :: "DriftSeverity \<Rightarrow> int" where
  "severityRank DriftSeverityNone = 0"
| "severityRank DriftSeverityLow = 1"
| "severityRank DriftSeverityMedium = 2"
| "severityRank DriftSeverityHigh = 3"
| "severityRank DriftSeverityCritical = 4"

definition MaxSeverity :: "DriftSeverity \<Rightarrow> DriftSeverity \<Rightarrow> DriftSeverity" where
  "MaxSeverity a b = (if severityRank a \<ge> severityRank b then a else b)"

record DriftMetric =
  dm_Type :: DriftType
  dm_Score :: f64
  dm_Threshold :: f64
  dm_Drifted :: bool
  dm_Detail :: string

record FeatureStat =
  fs_Mean :: f64
  fs_Std :: f64
  fs_Min :: f64
  fs_P01 :: f64
  fs_P25 :: f64
  fs_P50 :: f64
  fs_P75 :: f64
  fs_P99 :: f64
  fs_Max :: f64

record PerformanceSample =
  ps_LatencyP50Ms :: f64
  ps_LatencyP95Ms :: f64
  ps_ErrorRate :: f64
  ps_AccuracyProxy :: f64
  ps_HasLabel :: bool

type_synonym distribution = "(string \<times> f64) list"

record DriftSample =
  sm_NumericFeatures :: "(string \<times> FeatureStat option) list"
  sm_CategoricalFeatures :: "(string \<times> distribution) list"
  sm_PredictionDist :: distribution
  sm_Performance :: "PerformanceSample option"
  sm_ConceptLabels :: distribution
  sm_HasLabel :: bool

record DriftBaseline =
  bl_DeploymentID :: string
  bl_ReferenceWindow :: string
  bl_NumericFeatures :: "(string \<times> FeatureStat option) list"
  bl_CategoricalFeatures :: "(string \<times> distribution) list"
  bl_PredictionDist :: distribution
  bl_Performance :: "PerformanceSample option"
  bl_ConceptLabels :: distribution

record DriftReport =
  rp_ID :: string
  rp_TenantID :: string
  rp_DeploymentID :: string
  rp_NodeID :: string
  rp_EvaluatedAt :: time
  rp_DataDrift :: "DriftMetric option"
  rp_PredictionDrift :: "DriftMetric option"
  rp_PerformanceDrift :: "DriftMetric option"
  rp_ConceptDrift :: "DriftMetric option"
  rp_OverallSeverity :: DriftSeverity
  rp_TriggeredRollback :: bool
  rp_Recommendation :: string

record Detector =
  dt_dataDriftThreshold :: f64
  dt_predictionDriftThreshold :: f64
  dt_perfLatencyFactor :: f64
  dt_perfErrorRate :: f64
  dt_perfAccuracyDrop :: f64
  dt_conceptThreshold :: f64

definition WithDataDriftThreshold :: "f64 \<Rightarrow> Detector \<Rightarrow> Detector" where
  "WithDataDriftThreshold v d = d\<lparr>dt_dataDriftThreshold := v\<rparr>"

definition WithPredictionDriftThreshold :: "f64 \<Rightarrow> Detector \<Rightarrow> Detector" where
  "WithPredictionDriftThreshold v d = d\<lparr>dt_predictionDriftThreshold := v\<rparr>"

text \<open>Arithmetic, literals, and the order in which the keys of a map are visited.\<close>

record DriftOps = HpoFloats +
  do_visit :: "string list \<Rightarrow> string list"

definition NewDetector :: "'a HpoFloats_scheme \<Rightarrow> (Detector \<Rightarrow> Detector) list \<Rightarrow> Detector" where
  "NewDetector fops opts = fold (\<lambda>f d. f d) opts
     \<lparr>dt_dataDriftThreshold = fo_lit fops (2 / 10), dt_predictionDriftThreshold = fo_lit fops (2 / 10),
      dt_perfLatencyFactor = fo_lit fops (15 / 10), dt_perfErrorRate = fo_lit fops (5 / 100),
      dt_perfAccuracyDrop = fo_lit fops (5 / 100), dt_conceptThreshold = fo_lit fops (2 / 10)\<rparr>"

definition absE :: "'a HpoFloats_scheme \<Rightarrow> f64 \<Rightarrow> f64" where
  "absE fops x = (if flt x (Fin 0) then fo_sub fops (Fin 0) x else x)"

definition minF :: "f64 \<Rightarrow> f64 \<Rightarrow> f64" where
  "minF a b = (if flt a b then a else b)"

text \<open>How far a statistic moved from its reference, half of the relative change and at most 1.\<close>

definition moved :: "'a HpoFloats_scheme \<Rightarrow> f64 \<Rightarrow> f64 \<Rightarrow> f64 \<Rightarrow> f64" where
  "moved fops drift b s =
     (if \<not> feq b (Fin 0)
      then fo_add fops drift (minF (Fin 1) (fo_mul fops (absE fops (fo_div fops (fo_sub fops s b) b)) (fo_lit fops (5 / 10))))
      else if \<not> feq s (Fin 0) then fo_add fops drift (fo_lit fops (5 / 10))
      else drift)"

fun psiNumeric :: "'a HpoFloats_scheme \<Rightarrow> FeatureStat option \<Rightarrow> FeatureStat option \<Rightarrow> f64 option" where
  "psiNumeric fops (Some b) (Some s) =
     (let drift = moved fops (moved fops (Fin 0) (fs_P50 b) (fs_P50 s)) (fs_Std b) (fs_Std s) in
      Some (if flt (Fin 1) drift then Fin 1 else drift))"
| "psiNumeric fops None _ = None"
| "psiNumeric fops _ None = None"

text \<open>A key that is not in a map reads as 0.\<close>

definition share :: "distribution \<Rightarrow> string \<Rightarrow> f64" where
  "share m k = (case map_of m k of Some v \<Rightarrow> v | None \<Rightarrow> Fin 0)"

definition tvdCategorical :: "'a DriftOps_scheme \<Rightarrow> distribution \<Rightarrow> distribution \<Rightarrow> f64" where
  "tvdCategorical fops base sample =
     fo_div fops (fold (\<lambda>k total. fo_add fops total (absE fops (fo_sub fops (share base k) (share sample k))))
        (do_visit fops (remdups (map fst base @ map fst sample))) (Fin 0)) (Fin 2)"

section \<open>The detector\<close>

type_synonym worst = "f64 \<times> string"

definition worse :: "f64 \<Rightarrow> string \<Rightarrow> worst \<Rightarrow> worst" where
  "worse x name w = (if flt (fst w) x then (x, name) else w)"

definition numericLoop ::
    "'a HpoFloats_scheme \<Rightarrow> (string \<times> FeatureStat option) list \<Rightarrow> (string \<times> FeatureStat option) list \<Rightarrow> worst \<Rightarrow> worst option" where
  "numericLoop fops base sample w = fold (\<lambda>(name, bs) w. case w of None \<Rightarrow> None | Some w \<Rightarrow>
     (case map_of sample name of
        None \<Rightarrow> Some w
      | Some ss \<Rightarrow> (case psiNumeric fops bs ss of None \<Rightarrow> None | Some psi \<Rightarrow> Some (worse psi name w)))) base (Some w)"

definition categoricalLoop ::
    "'a DriftOps_scheme \<Rightarrow> (string \<times> distribution) list \<Rightarrow> (string \<times> distribution) list \<Rightarrow> worst \<Rightarrow> worst" where
  "categoricalLoop fops base sample = fold (\<lambda>(name, bdist) w.
     (case map_of sample name of None \<Rightarrow> w | Some sdist \<Rightarrow> worse (tvdCategorical fops bdist sdist) name w)) base"

definition dataDrift :: "'a DriftOps_scheme \<Rightarrow> Detector \<Rightarrow> DriftBaseline \<Rightarrow> DriftSample \<Rightarrow> DriftMetric option" where
  "dataDrift fops det base sample =
     (case numericLoop fops (bl_NumericFeatures base) (sm_NumericFeatures sample) (Fin 0, []) of
        None \<Rightarrow> None
      | Some w \<Rightarrow> (let (x, feature) =
            categoricalLoop fops (bl_CategoricalFeatures base) (sm_CategoricalFeatures sample) w in
          Some \<lparr>dm_Type = DriftTypeData, dm_Score = x, dm_Threshold = dt_dataDriftThreshold det,
                dm_Drifted = fle (dt_dataDriftThreshold det) x,
                dm_Detail = (if feature \<noteq> [] then ''worst feature='' @ feature else [])\<rparr>))"

definition predictionDrift :: "'a DriftOps_scheme \<Rightarrow> Detector \<Rightarrow> DriftBaseline \<Rightarrow> DriftSample \<Rightarrow> DriftMetric" where
  "predictionDrift fops det base sample =
     (let tvd = tvdCategorical fops (bl_PredictionDist base) (sm_PredictionDist sample) in
      \<lparr>dm_Type = DriftTypePrediction, dm_Score = tvd, dm_Threshold = dt_predictionDriftThreshold det,
       dm_Drifted = fle (dt_predictionDriftThreshold det) tvd, dm_Detail = ''output distribution TVD''\<rparr>)"

text \<open>The three signals of the performance, each kept when it is worse than those before.\<close>

definition latencyRise :: "'a HpoFloats_scheme \<Rightarrow> Detector \<Rightarrow> PerformanceSample \<Rightarrow> PerformanceSample \<Rightarrow> worst \<Rightarrow> worst" where
  "latencyRise fops det b s w =
     (if flt (Fin 0) (ps_LatencyP95Ms b)
      then (let factor = fo_div fops (ps_LatencyP95Ms s) (ps_LatencyP95Ms b) in
        if flt (dt_perfLatencyFactor det) factor then worse (fo_sub fops factor (Fin 1)) ''p95 latency rise'' w else w)
      else w)"

definition errorRise :: "Detector \<Rightarrow> PerformanceSample \<Rightarrow> worst \<Rightarrow> worst" where
  "errorRise det s w =
     (if flt (dt_perfErrorRate det) (ps_ErrorRate s) then worse (ps_ErrorRate s) ''error rate'' w else w)"

definition accuracyDrop :: "'a HpoFloats_scheme \<Rightarrow> Detector \<Rightarrow> PerformanceSample \<Rightarrow> PerformanceSample \<Rightarrow> worst \<Rightarrow> worst" where
  "accuracyDrop fops det b s w =
     (if ps_HasLabel s \<and> ps_HasLabel b
      then (let drop = fo_sub fops (ps_AccuracyProxy b) (ps_AccuracyProxy s) in
        if flt (dt_perfAccuracyDrop det) drop then worse drop ''accuracy drop'' w else w)
      else w)"

definition performanceDrift :: "'a HpoFloats_scheme \<Rightarrow> Detector \<Rightarrow> DriftBaseline \<Rightarrow> DriftSample \<Rightarrow> DriftMetric" where
  "performanceDrift fops det base sample =
     (case (bl_Performance base, sm_Performance sample) of
        (Some b, Some s) \<Rightarrow>
          (let (x, detail) = accuracyDrop fops det b s (errorRise det s (latencyRise fops det b s (Fin 0, []))) in
           \<lparr>dm_Type = DriftTypePerformance, dm_Score = x, dm_Threshold = dt_perfErrorRate det,
            dm_Drifted = fle (dt_perfErrorRate det) x, dm_Detail = detail\<rparr>)
      | _ \<Rightarrow> \<lparr>dm_Type = DriftTypePerformance, dm_Score = Fin 0, dm_Threshold = dt_perfErrorRate det,
             dm_Drifted = False, dm_Detail = ''missing performance baseline/sample''\<rparr>)"

definition sampleHasLabel :: "DriftSample \<Rightarrow> bool" where
  "sampleHasLabel sample =
     (sm_HasLabel sample \<or> (case sm_Performance sample of Some p \<Rightarrow> ps_HasLabel p | None \<Rightarrow> False))"

definition conceptDrift :: "'a DriftOps_scheme \<Rightarrow> Detector \<Rightarrow> DriftBaseline \<Rightarrow> DriftSample \<Rightarrow> DriftMetric" where
  "conceptDrift fops det base sample =
     (if \<not> sampleHasLabel sample
      then \<lparr>dm_Type = DriftTypeConcept, dm_Score = Fin 0, dm_Threshold = dt_conceptThreshold det, dm_Drifted = False,
            dm_Detail = ''no ground truth labels, concept drift skipped''\<rparr>
      else let tvd = tvdCategorical fops (bl_ConceptLabels base) (sm_ConceptLabels sample) in
        \<lparr>dm_Type = DriftTypeConcept, dm_Score = tvd, dm_Threshold = dt_conceptThreshold det,
         dm_Drifted = fle (dt_conceptThreshold det) tvd, dm_Detail = ''label distribution TVD''\<rparr>)"

definition severityOf :: "'a HpoFloats_scheme \<Rightarrow> DriftMetric \<Rightarrow> DriftSeverity" where
  "severityOf fops m =
     (if \<not> dm_Drifted m then DriftSeverityNone
      else if fle (fo_mul fops (dm_Threshold m) (Fin 3)) (dm_Score m) then DriftSeverityCritical
      else if fle (fo_mul fops (dm_Threshold m) (Fin 2)) (dm_Score m) then DriftSeverityHigh
      else if fle (dm_Threshold m) (dm_Score m) then DriftSeverityMedium
      else DriftSeverityLow)"

definition recommendation :: "DriftSeverity \<Rightarrow> string" where
  "recommendation sev =
     (if sev = DriftSeverityHigh \<or> sev = DriftSeverityCritical then bytes [230, 163, 128, 230, 181, 139, 229, 136, 176, 230, 152, 190, 232, 145, 151, 230, 188, 130, 231, 167, 187, 239, 188, 140,
     229, 187, 186, 232, 174, 174, 231, 171, 139, 229, 141, 179, 229, 155, 158, 230, 187, 154, 229, 136, 176, 231, 168, 179,
     229, 174, 154, 231, 137, 136, 230, 156, 172]
      else if sev = DriftSeverityMedium then bytes [229, 173, 152, 229, 156, 168, 228, 184, 173, 231, 173, 137, 230, 188, 130, 231, 167, 187, 239, 188, 140, 229, 187, 186,
     232, 174, 174, 232, 167, 130, 229, 175, 159, 229, 185, 182, 233, 153, 141, 228, 189, 142, 231, 129, 176, 229, 186, 166,
     230, 157, 131, 233, 135, 141]
      else bytes [230, 188, 130, 231, 167, 187, 229, 156, 168, 229, 143, 175, 230, 142, 165, 229, 143, 151, 232, 140, 131, 229, 155, 180,
     229, 134, 133])"

definition skippedText :: string where
  "skippedText = bytes [231, 188, 186, 229, 176, 145, 229, 159, 186, 231, 186, 191, 230, 136, 150, 230, 160, 183, 230, 156, 172, 239, 188, 140,
     232, 183, 179, 232, 191, 135, 230, 188, 130, 231, 167, 187, 232, 175, 132, 228, 188, 176]"

definition overallSeverity :: "'a HpoFloats_scheme \<Rightarrow> DriftMetric list \<Rightarrow> DriftSeverity" where
  "overallSeverity fops ms = fold (\<lambda>m sev. MaxSeverity sev (severityOf fops m)) ms DriftSeverityNone"

text \<open>None is a panic on a feature that is nil.\<close>

definition Evaluate ::
    "'a DriftOps_scheme \<Rightarrow> time \<Rightarrow> string \<Rightarrow> Detector \<Rightarrow> string \<Rightarrow> string \<Rightarrow> string \<Rightarrow> DriftBaseline option \<Rightarrow>
     DriftSample option \<Rightarrow> DriftReport option" where
  "Evaluate fops now fresh det tenantID deploymentID nodeID base sample =
     (let r = \<lparr>rp_ID = ''drift-'' @ fresh, rp_TenantID = tenantID, rp_DeploymentID = deploymentID, rp_NodeID = nodeID,
        rp_EvaluatedAt = now, rp_DataDrift = None, rp_PredictionDrift = None, rp_PerformanceDrift = None,
        rp_ConceptDrift = None, rp_OverallSeverity = DriftSeverityNone, rp_TriggeredRollback = False,
        rp_Recommendation = []\<rparr> in
      case (base, sample) of
        (Some base, Some sample) \<Rightarrow>
          (case dataDrift fops det base sample of
             None \<Rightarrow> None
           | Some dd \<Rightarrow>
               (let pd = predictionDrift fops det base sample; fd = performanceDrift fops det base sample;
                    cd = conceptDrift fops det base sample; sev = overallSeverity fops [dd, pd, fd, cd] in
                Some (r\<lparr>rp_DataDrift := Some dd, rp_PredictionDrift := Some pd, rp_PerformanceDrift := Some fd,
                  rp_ConceptDrift := Some cd, rp_OverallSeverity := sev,
                  rp_TriggeredRollback := (sev = DriftSeverityHigh \<or> sev = DriftSeverityCritical),
                  rp_Recommendation := recommendation sev\<rparr>)))
      | _ \<Rightarrow> Some (r\<lparr>rp_Recommendation := skippedText\<rparr>))"

end
