(* ===== verification/EdgeStore.thy ===== *)
theory EdgeStore
  imports EdgeDomain Store
begin

text \<open>
  The tables of the edge, \<^verbatim>\<open>storage/edge.go\<close> with the rows of \<^verbatim>\<open>models/edge.go\<close>: nodes, deployments, drift reports,
  baselines and label feedback.  The JSON columns are written and read by functions of the environment, which may fail (a
  number that is not finite has no JSON).  A row whose status is a Go string keeps the status of the domain.
\<close>

datatype EdgeErr = EgNodeNotFound | EgDeployNotFound | EgReportNotFound | EgBaselineNotFound | EgNoSource | EgNoLabels
  | EgNoMetrics | EgText string | EgPanic

definition egText :: "EdgeErr \<Rightarrow> string" where
  "egText e = (case e of
     EgNodeNotFound \<Rightarrow> ''edge node not found'' | EgDeployNotFound \<Rightarrow> ''edge deployment not found''
   | EgReportNotFound \<Rightarrow> ''drift report not found'' | EgBaselineNotFound \<Rightarrow> ''drift baseline not found''
   | EgNoSource \<Rightarrow> ''drift sample source not configured''
   | EgNoLabels \<Rightarrow> ''label feedback repository not configured''
   | EgNoMetrics \<Rightarrow> ''no drift metrics available for window'' | EgText s \<Rightarrow> s | EgPanic \<Rightarrow> [])"

record EdgeNodeRow =
  nr_ID :: string
  nr_TenantID :: string
  nr_Name :: string
  nr_Mode :: NodeMode
  nr_Status :: NodeStatus
  nr_Endpoint :: string
  nr_Region :: string
  nr_Labels :: string
  nr_CACertPEM :: string
  nr_ClientCertPEM :: string
  nr_ClientKeyPEM :: string
  nr_HeartbeatAt :: time
  nr_LastSeenAt :: time
  nr_CreatedAt :: time
  nr_UpdatedAt :: time

record EdgeDeploymentRow =
  er_ID :: string
  er_TenantID :: string
  er_NodeID :: string
  er_ModelID :: string
  er_Version :: string
  er_DesiredSpec :: string
  er_CurrentVersion :: string
  er_ActiveVersion :: string
  er_CanaryVersion :: string
  er_CanaryWeight :: int
  er_Status :: EdgeDeployStatus
  er_AutoRollback :: bool
  er_DriftGuardEnabled :: bool
  er_CreatedAt :: time
  er_UpdatedAt :: time

record DriftReportRow =
  rr_ID :: string
  rr_TenantID :: string
  rr_DeploymentID :: string
  rr_NodeID :: string
  rr_EvaluatedAt :: time
  rr_DataDrift :: string
  rr_PredictionDrift :: string
  rr_PerformanceDrift :: string
  rr_ConceptDrift :: string
  rr_OverallSeverity :: DriftSeverity
  rr_TriggeredRollback :: bool
  rr_Recommendation :: string

record DriftBaselineRow =
  br_DeploymentID :: string
  br_ReferenceWindow :: string
  br_NumericFeatures :: string
  br_CategoricalFeatures :: string
  br_PredictionDist :: string
  br_Performance :: string
  br_ConceptLabels :: string

record EdgePushResult =
  pu_Accepted :: bool
  pu_Message :: string
  pu_RuntimeID :: string

text \<open>The runtime is asked to push or roll back, events are published; both are kept as logs.\<close>

datatype EdgeCall = CallPush EdgeNode EdgeDeployment | CallRollback EdgeNode EdgeDeployment string

record DriftDetectedEv =
  de_DeploymentID :: string
  de_NodeID :: string
  de_TenantID :: string
  de_Severity :: DriftSeverity
  de_TriggeredRollback :: bool
  de_EvaluatedAt :: time

record RolledBackEv =
  ro_DeploymentID :: string
  ro_NodeID :: string
  ro_TenantID :: string
  ro_FromVersion :: string
  ro_ToVersion :: string
  ro_Reason :: string
  ro_At :: time

datatype EdgeEvent = DriftDetected DriftDetectedEv | DeploymentRolledBack RolledBackEv

record EdgeWorld =
  gw_nodes :: "EdgeNodeRow list"
  gw_deploys :: "EdgeDeploymentRow list"
  gw_reports :: "DriftReportRow list"
  gw_baselines :: "DriftBaselineRow list"
  gw_labels :: "LabelFeedback list"
  gw_calls :: "EdgeCall list"
  gw_events :: "EdgeEvent list"

record MetricSeries =
  me_Labels :: "(string \<times> string) list"
  me_Samples :: "(int \<times> f64) list"

record MetricQuery =
  mq_Query :: string
  mq_Labels :: "(string \<times> string) list"
  mq_Start :: int
  mq_End :: int
  mq_Step :: int

text \<open>A column of type \<^typ>\<open>'a\<close>: its text and its reading, \<^verbatim>\<open>json.Marshal\<close> and \<^verbatim>\<open>json.Unmarshal\<close>.\<close>

record 'a Codec =
  co_enc :: "'a \<Rightarrow> EdgeErr + string"
  co_dec :: "string \<Rightarrow> EdgeErr + 'a"

record EdgeEnv =
  gy_ops :: DriftOps
  gy_time :: "nat \<Rightarrow> time"
  gy_uuid :: "nat \<Rightarrow> string"
  gy_fault :: "nat \<Rightarrow> EdgeErr option"
  gy_labels :: "(string \<times> string) list Codec"
  gy_spec :: "EdgeDeploySpec Codec"
  gy_metric :: "DriftMetric Codec"
  gy_numeric :: "(string \<times> FeatureStat option) list Codec"
  gy_categorical :: "(string \<times> distribution) list Codec"
  gy_dist :: "distribution Codec"
  gy_perf :: "PerformanceSample option Codec"
  gy_quote :: "string \<Rightarrow> string"
  gy_duration :: "string \<Rightarrow> EdgeErr + duration"
  gy_query :: "nat \<Rightarrow> MetricQuery \<Rightarrow> EdgeErr + MetricSeries list"
  gy_push :: "nat \<Rightarrow> EdgeNode \<Rightarrow> EdgeDeployment \<Rightarrow> EdgeErr + EdgePushResult"
  gy_rollback :: "nat \<Rightarrow> EdgeNode \<Rightarrow> EdgeDeployment \<Rightarrow> string \<Rightarrow> EdgeErr option"

type_synonym 'a egop = "(EdgeWorld, EdgeErr, 'a) act"

definition liftG :: "EdgeErr + 'a \<Rightarrow> 'a egop" where
  "liftG r = (case r of Inl e \<Rightarrow> failS e | Inr x \<Rightarrow> retS x)"

text \<open>
  gorm's \<^verbatim>\<open>Save\<close>: a row without a key is inserted, any other replaces the row of its key or is inserted; the time of the
  change is stamped.
\<close>

definition saveRow :: "('r \<Rightarrow> string) \<Rightarrow> 'r \<Rightarrow> 'r list \<Rightarrow> (EdgeErr + unit) \<times> 'r list" where
  "saveRow key r rows =
     (if key r \<noteq> [] then (Inr (), tupsert key r rows)
      else if tfind key rows [] \<noteq> None then (Inl (EgText ''duplicate key''), rows)
      else (Inr (), tadd r rows))"

definition createRow :: "('r \<Rightarrow> string) \<Rightarrow> 'r \<Rightarrow> 'r list \<Rightarrow> (EdgeErr + unit) \<times> 'r list" where
  "createRow key r rows =
     (if tfind key rows (key r) \<noteq> None then (Inl (EgText ''duplicate key''), rows) else (Inr (), tadd r rows))"

section \<open>Nodes\<close>

definition nodeRowFromDomain :: "EdgeEnv \<Rightarrow> EdgeNode \<Rightarrow> EdgeErr + EdgeNodeRow" where
  "nodeRowFromDomain env n = (case co_enc (gy_labels env) (nd_Labels n) of
     Inl e \<Rightarrow> Inl e
   | Inr labels \<Rightarrow> Inr \<lparr>nr_ID = nd_ID n, nr_TenantID = nd_TenantID n, nr_Name = nd_Name n, nr_Mode = nd_Mode n,
       nr_Status = nd_Status n, nr_Endpoint = nd_Endpoint n, nr_Region = nd_Region n, nr_Labels = labels,
       nr_CACertPEM = nd_CACertPEM n, nr_ClientCertPEM = nd_ClientCertPEM n, nr_ClientKeyPEM = nd_ClientKeyPEM n,
       nr_HeartbeatAt = nd_HeartbeatAt n, nr_LastSeenAt = nd_LastSeenAt n, nr_CreatedAt = nd_CreatedAt n,
       nr_UpdatedAt = nd_UpdatedAt n\<rparr>)"

definition nodeToDomain :: "EdgeEnv \<Rightarrow> EdgeNodeRow \<Rightarrow> EdgeErr + EdgeNode" where
  "nodeToDomain env row = (case (if nr_Labels row \<noteq> [] then co_dec (gy_labels env) (nr_Labels row) else Inr []) of
     Inl e \<Rightarrow> Inl e
   | Inr labels \<Rightarrow> Inr \<lparr>nd_ID = nr_ID row, nd_TenantID = nr_TenantID row, nd_Name = nr_Name row, nd_Mode = nr_Mode row,
       nd_Status = nr_Status row, nd_Endpoint = nr_Endpoint row, nd_Region = nr_Region row, nd_Labels = labels,
       nd_CACertPEM = nr_CACertPEM row, nd_ClientCertPEM = nr_ClientCertPEM row, nd_ClientKeyPEM = nr_ClientKeyPEM row,
       nd_HeartbeatAt = nr_HeartbeatAt row, nd_LastSeenAt = nr_LastSeenAt row, nd_CreatedAt = nr_CreatedAt row,
       nd_UpdatedAt = nr_UpdatedAt row\<rparr>)"

definition SaveNode :: "EdgeEnv \<Rightarrow> EdgeNode \<Rightarrow> unit egop" where
  "SaveNode env n =
     bindS (liftG (nodeRowFromDomain env n)) (\<lambda>row.
     bindS (askS (gy_time env)) (\<lambda>now.
     dbS (gy_fault env) (\<lambda>w. case saveRow nr_ID (row\<lparr>nr_UpdatedAt := now\<rparr>) (gw_nodes w) of
       (r, rows) \<Rightarrow> (r, w\<lparr>gw_nodes := rows\<rparr>))))"

definition GetNodeRow :: "EdgeEnv \<Rightarrow> string \<Rightarrow> EdgeNode egop" where
  "GetNodeRow env k = readS (gy_fault env) (\<lambda>w. case tfind nr_ID (gw_nodes w) k of
     None \<Rightarrow> Inl EgNodeNotFound | Some row \<Rightarrow> nodeToDomain env row)"

primrec allInr :: "('e + 'a) list \<Rightarrow> 'e + 'a list" where
  "allInr [] = Inr []"
| "allInr (r # rs) = (case r of Inl e \<Rightarrow> Inl e
     | Inr x \<Rightarrow> (case allInr rs of Inl e \<Rightarrow> Inl e | Inr xs \<Rightarrow> Inr (x # xs)))"

definition ListNodeRows :: "EdgeEnv \<Rightarrow> string \<Rightarrow> EdgeNode list egop" where
  "ListNodeRows env tenant = readS (gy_fault env) (\<lambda>w.
     allInr (map (nodeToDomain env) (sort_key (\<lambda>r. - nr_CreatedAt r)
       (filter (\<lambda>r. tenant = [] \<or> nr_TenantID r = tenant) (gw_nodes w)))))"

definition DeleteNodeRow :: "EdgeEnv \<Rightarrow> string \<Rightarrow> unit egop" where
  "DeleteNodeRow env k = writeS (gy_fault env) (\<lambda>w. w\<lparr>gw_nodes := tdelete nr_ID k (gw_nodes w)\<rparr>)"

section \<open>Deployments\<close>

definition deployRowFromDomain :: "EdgeEnv \<Rightarrow> EdgeDeployment \<Rightarrow> EdgeErr + EdgeDeploymentRow" where
  "deployRowFromDomain env d = (case co_enc (gy_spec env) (dp_DesiredSpec d) of
     Inl e \<Rightarrow> Inl e
   | Inr spec \<Rightarrow> Inr \<lparr>er_ID = dp_ID d, er_TenantID = dp_TenantID d, er_NodeID = dp_NodeID d, er_ModelID = dp_ModelID d,
       er_Version = dp_Version d, er_DesiredSpec = spec, er_CurrentVersion = dp_CurrentVersion d,
       er_ActiveVersion = dp_ActiveVersion d, er_CanaryVersion = dp_CanaryVersion d,
       er_CanaryWeight = dp_CanaryWeight d, er_Status = dp_Status d, er_AutoRollback = dp_AutoRollback d,
       er_DriftGuardEnabled = dp_DriftGuardEnabled d, er_CreatedAt = dp_CreatedAt d, er_UpdatedAt = dp_UpdatedAt d\<rparr>)"

definition emptyEdgeSpec :: EdgeDeploySpec where
  "emptyEdgeSpec = \<lparr>es_Image = [], es_Command = [], es_Args = [], es_Env = [], es_Replicas = 0, es_CPU = [], es_Memory = [],
     es_GPUs = 0, es_HealthCheck = None\<rparr>"

definition deployToDomain :: "EdgeEnv \<Rightarrow> EdgeDeploymentRow \<Rightarrow> EdgeErr + EdgeDeployment" where
  "deployToDomain env row =
     (case (if er_DesiredSpec row \<noteq> [] then co_dec (gy_spec env) (er_DesiredSpec row) else Inr emptyEdgeSpec) of
     Inl e \<Rightarrow> Inl e
   | Inr spec \<Rightarrow> Inr \<lparr>dp_ID = er_ID row, dp_TenantID = er_TenantID row, dp_NodeID = er_NodeID row,
       dp_ModelID = er_ModelID row, dp_Version = er_Version row, dp_DesiredSpec = spec,
       dp_CurrentVersion = er_CurrentVersion row, dp_ActiveVersion = er_ActiveVersion row,
       dp_CanaryVersion = er_CanaryVersion row, dp_CanaryWeight = er_CanaryWeight row, dp_Status = er_Status row,
       dp_AutoRollback = er_AutoRollback row, dp_DriftGuardEnabled = er_DriftGuardEnabled row,
       dp_CreatedAt = er_CreatedAt row, dp_UpdatedAt = er_UpdatedAt row\<rparr>)"

definition SaveDeployment :: "EdgeEnv \<Rightarrow> EdgeDeployment \<Rightarrow> unit egop" where
  "SaveDeployment env d =
     bindS (liftG (deployRowFromDomain env d)) (\<lambda>row.
     bindS (askS (gy_time env)) (\<lambda>now.
     dbS (gy_fault env) (\<lambda>w. case saveRow er_ID (row\<lparr>er_UpdatedAt := now\<rparr>) (gw_deploys w) of
       (r, rows) \<Rightarrow> (r, w\<lparr>gw_deploys := rows\<rparr>))))"

definition GetDeploymentRow :: "EdgeEnv \<Rightarrow> string \<Rightarrow> EdgeDeployment egop" where
  "GetDeploymentRow env k = readS (gy_fault env) (\<lambda>w. case tfind er_ID (gw_deploys w) k of
     None \<Rightarrow> Inl EgDeployNotFound | Some row \<Rightarrow> deployToDomain env row)"

definition deployRowsToDomain :: "EdgeEnv \<Rightarrow> EdgeDeploymentRow list \<Rightarrow> EdgeErr + EdgeDeployment list" where
  "deployRowsToDomain env rows = allInr (map (deployToDomain env) rows)"

definition ListByNode :: "EdgeEnv \<Rightarrow> string \<Rightarrow> EdgeDeployment list egop" where
  "ListByNode env node = readS (gy_fault env) (\<lambda>w.
     deployRowsToDomain env (sort_key (\<lambda>r. - er_CreatedAt r) (filter (\<lambda>r. er_NodeID r = node) (gw_deploys w))))"

definition ListDeploymentRows :: "EdgeEnv \<Rightarrow> string \<Rightarrow> EdgeDeployment list egop" where
  "ListDeploymentRows env tenant = readS (gy_fault env) (\<lambda>w.
     deployRowsToDomain env (sort_key (\<lambda>r. - er_CreatedAt r)
       (filter (\<lambda>r. tenant = [] \<or> er_TenantID r = tenant) (gw_deploys w))))"

section \<open>Reports and baselines\<close>

definition marshalMetricPtr :: "EdgeEnv \<Rightarrow> DriftMetric option \<Rightarrow> EdgeErr + string" where
  "marshalMetricPtr env m = (case m of None \<Rightarrow> Inr [] | Some m \<Rightarrow> co_enc (gy_metric env) m)"

definition unmarshalMetric :: "EdgeEnv \<Rightarrow> string \<Rightarrow> EdgeErr + DriftMetric option" where
  "unmarshalMetric env s =
     (if s = [] then Inr None else case co_dec (gy_metric env) s of Inl e \<Rightarrow> Inl e | Inr m \<Rightarrow> Inr (Some m))"

definition reportRowFromDomain :: "EdgeEnv \<Rightarrow> DriftReport \<Rightarrow> EdgeErr + DriftReportRow" where
  "reportRowFromDomain env r =
     (case allInr (map (marshalMetricPtr env)
        [rp_DataDrift r, rp_PredictionDrift r, rp_PerformanceDrift r, rp_ConceptDrift r]) of
       Inl e \<Rightarrow> Inl e
     | Inr ms \<Rightarrow> Inr \<lparr>rr_ID = rp_ID r, rr_TenantID = rp_TenantID r, rr_DeploymentID = rp_DeploymentID r,
         rr_NodeID = rp_NodeID r, rr_EvaluatedAt = rp_EvaluatedAt r, rr_DataDrift = ms ! 0, rr_PredictionDrift = ms ! 1,
         rr_PerformanceDrift = ms ! 2, rr_ConceptDrift = ms ! 3, rr_OverallSeverity = rp_OverallSeverity r,
         rr_TriggeredRollback = rp_TriggeredRollback r, rr_Recommendation = rp_Recommendation r\<rparr>)"

definition reportToDomain :: "EdgeEnv \<Rightarrow> DriftReportRow \<Rightarrow> EdgeErr + DriftReport" where
  "reportToDomain env row =
     (case allInr (map (unmarshalMetric env)
        [rr_DataDrift row, rr_PredictionDrift row, rr_PerformanceDrift row, rr_ConceptDrift row]) of
       Inl e \<Rightarrow> Inl e
     | Inr ms \<Rightarrow> Inr \<lparr>rp_ID = rr_ID row, rp_TenantID = rr_TenantID row, rp_DeploymentID = rr_DeploymentID row,
         rp_NodeID = rr_NodeID row, rp_EvaluatedAt = rr_EvaluatedAt row, rp_DataDrift = ms ! 0,
         rp_PredictionDrift = ms ! 1, rp_PerformanceDrift = ms ! 2, rp_ConceptDrift = ms ! 3,
         rp_OverallSeverity = rr_OverallSeverity row, rp_TriggeredRollback = rr_TriggeredRollback row,
         rp_Recommendation = rr_Recommendation row\<rparr>)"

definition SaveReport :: "EdgeEnv \<Rightarrow> DriftReport \<Rightarrow> unit egop" where
  "SaveReport env r =
     bindS (liftG (reportRowFromDomain env r)) (\<lambda>row.
     dbS (gy_fault env) (\<lambda>w. case createRow rr_ID row (gw_reports w) of (r, rows) \<Rightarrow> (r, w\<lparr>gw_reports := rows\<rparr>)))"

definition reportsOf :: "EdgeWorld \<Rightarrow> string \<Rightarrow> DriftReportRow list" where
  "reportsOf w k = sort_key (\<lambda>r. - rr_EvaluatedAt r) (filter (\<lambda>r. rr_DeploymentID r = k) (gw_reports w))"

definition LatestByDeployment :: "EdgeEnv \<Rightarrow> string \<Rightarrow> DriftReport egop" where
  "LatestByDeployment env k = readS (gy_fault env) (\<lambda>w. case reportsOf w k of
     [] \<Rightarrow> Inl EgReportNotFound | row # _ \<Rightarrow> reportToDomain env row)"

definition ListByDeployment :: "EdgeEnv \<Rightarrow> string \<Rightarrow> int \<Rightarrow> DriftReport list egop" where
  "ListByDeployment env k limit = readS (gy_fault env) (\<lambda>w.
     allInr (map (reportToDomain env) (if limit > 0 then take (nat limit) (reportsOf w k) else reportsOf w k)))"

definition marshalAs :: "string \<Rightarrow> EdgeErr + 'a \<Rightarrow> EdgeErr + 'a" where
  "marshalAs prefix r = (case r of Inl e \<Rightarrow> Inl (EgText (prefix @ egText e)) | Inr x \<Rightarrow> Inr x)"

definition baselineRowFromDomain :: "EdgeEnv \<Rightarrow> DriftBaseline \<Rightarrow> EdgeErr + DriftBaselineRow" where
  "baselineRowFromDomain env b =
     (case allInr [
        marshalAs ''marshal NumericFeatures: '' (co_enc (gy_numeric env) (bl_NumericFeatures b)),
        marshalAs ''marshal CategoricalFeatures: '' (co_enc (gy_categorical env) (bl_CategoricalFeatures b)),
        marshalAs ''marshal PredictionDist: '' (co_enc (gy_dist env) (bl_PredictionDist b)),
        marshalAs ''marshal Performance: '' (co_enc (gy_perf env) (bl_Performance b)),
        marshalAs ''marshal ConceptLabels: '' (co_enc (gy_dist env) (bl_ConceptLabels b))] of
       Inl e \<Rightarrow> Inl e
     | Inr ts \<Rightarrow> Inr \<lparr>br_DeploymentID = bl_DeploymentID b, br_ReferenceWindow = bl_ReferenceWindow b,
         br_NumericFeatures = ts ! 0, br_CategoricalFeatures = ts ! 1, br_PredictionDist = ts ! 2,
         br_Performance = ts ! 3, br_ConceptLabels = ts ! 4\<rparr>)"

definition unmarshalInto :: "'a Codec \<Rightarrow> 'a \<Rightarrow> string \<Rightarrow> EdgeErr + 'a" where
  "unmarshalInto codec zero s = (if s = [] then Inr zero else co_dec codec s)"

definition baselineToDomain :: "EdgeEnv \<Rightarrow> DriftBaselineRow \<Rightarrow> EdgeErr + DriftBaseline" where
  "baselineToDomain env row = (let pre = ''baseline '' @ br_DeploymentID row in
     case marshalAs (pre @ '': decode NumericFeatures: '') (unmarshalInto (gy_numeric env) [] (br_NumericFeatures row)) of
       Inl e \<Rightarrow> Inl e
     | Inr num \<Rightarrow> (case marshalAs (pre @ '': decode CategoricalFeatures: '')
           (unmarshalInto (gy_categorical env) [] (br_CategoricalFeatures row)) of
         Inl e \<Rightarrow> Inl e
       | Inr cat \<Rightarrow> (case marshalAs (pre @ '': decode PredictionDist: '')
             (unmarshalInto (gy_dist env) [] (br_PredictionDist row)) of
           Inl e \<Rightarrow> Inl e
         | Inr pred \<Rightarrow> (case marshalAs (pre @ '': decode ConceptLabels: '')
               (unmarshalInto (gy_dist env) [] (br_ConceptLabels row)) of
             Inl e \<Rightarrow> Inl e
           | Inr conc \<Rightarrow> (case marshalAs (pre @ '': decode Performance: '')
                 (unmarshalInto (gy_perf env) None (br_Performance row)) of
               Inl e \<Rightarrow> Inl e
             | Inr perf \<Rightarrow> Inr \<lparr>bl_DeploymentID = br_DeploymentID row, bl_ReferenceWindow = br_ReferenceWindow row,
                 bl_NumericFeatures = num, bl_CategoricalFeatures = cat, bl_PredictionDist = pred,
                 bl_Performance = perf, bl_ConceptLabels = conc\<rparr>)))))"

definition SaveBaseline :: "EdgeEnv \<Rightarrow> DriftBaseline \<Rightarrow> unit egop" where
  "SaveBaseline env b =
     bindS (liftG (baselineRowFromDomain env b)) (\<lambda>row.
     dbS (gy_fault env) (\<lambda>w. case saveRow br_DeploymentID row (gw_baselines w) of
       (r, rows) \<Rightarrow> (r, w\<lparr>gw_baselines := rows\<rparr>)))"

definition GetBaseline :: "EdgeEnv \<Rightarrow> string \<Rightarrow> DriftBaseline egop" where
  "GetBaseline env k = readS (gy_fault env) (\<lambda>w. case tfind br_DeploymentID (gw_baselines w) k of
     None \<Rightarrow> Inl EgBaselineNotFound | Some row \<Rightarrow> baselineToDomain env row)"

section \<open>Label feedback\<close>

definition RecordLabel :: "EdgeEnv \<Rightarrow> LabelFeedback \<Rightarrow> unit egop" where
  "RecordLabel env f =
     bindS (if lf_ID f = [] then askS (gy_uuid env) else retS (lf_ID f)) (\<lambda>k.
     bindS (if IsZero (lf_FeedbackAt f) then askS (gy_time env) else retS (lf_FeedbackAt f)) (\<lambda>t.
     dbS (gy_fault env) (\<lambda>w. case createRow lf_ID (f\<lparr>lf_ID := k, lf_FeedbackAt := t\<rparr>) (gw_labels w) of
       (r, rows) \<Rightarrow> (r, w\<lparr>gw_labels := rows\<rparr>))))"

definition labelCounts :: "LabelFeedback list \<Rightarrow> (string \<times> int) list" where
  "labelCounts fs = map (\<lambda>l. (l, int (length (filter (\<lambda>f. lf_Label f = l) fs)))) (remdups (map lf_Label fs))"

definition AggregateLabels :: "EdgeEnv \<Rightarrow> string \<Rightarrow> string \<Rightarrow> time \<Rightarrow> (string \<times> int) list egop" where
  "AggregateLabels env tenant k since = readS (gy_fault env) (\<lambda>w.
     Inr (filter (\<lambda>(l, _). l \<noteq> []) (labelCounts (filter (\<lambda>f. lf_TenantID f = tenant \<and> lf_DeploymentID f = k \<and>
       since \<le> lf_FeedbackAt f) (gw_labels w)))))"

end
