(* ===== verification/EdgeSample.thy ===== *)
theory EdgeSample
  imports EdgeStore
begin

text \<open>
  \<^verbatim>\<open>app/edge/metrics_sample_source.go\<close>: the sample of a deployment, read from the metric store by range queries, and the
  distribution of labels from the feedback table (\<^verbatim>\<open>repoConceptLabelSource\<close> of \<^verbatim>\<open>app/edge/service.go\<close>).  What the store
  answers is asked of the environment.
\<close>

record SampleMetricNames =
  mn_FeatureMean :: string
  mn_FeatureStd :: string
  mn_FeatureP01 :: string
  mn_FeatureP25 :: string
  mn_FeatureP50 :: string
  mn_FeatureP75 :: string
  mn_FeatureP99 :: string
  mn_FeatureMin :: string
  mn_FeatureMax :: string
  mn_FeatureCatRatio :: string
  mn_PredictionRatio :: string
  mn_LatencyP50MS :: string
  mn_LatencyP95MS :: string
  mn_ErrorRate :: string
  mn_Accuracy :: string
  mn_ConceptLabelRatio :: string
  mn_GroundTruthAvailableGauge :: string

definition DefaultSampleMetricNames :: SampleMetricNames where
  "DefaultSampleMetricNames = \<lparr>mn_FeatureMean = ''edge_feature_mean'', mn_FeatureStd = ''edge_feature_std'',
     mn_FeatureP01 = ''edge_feature_p01'', mn_FeatureP25 = ''edge_feature_p25'', mn_FeatureP50 = ''edge_feature_p50'',
     mn_FeatureP75 = ''edge_feature_p75'', mn_FeatureP99 = ''edge_feature_p99'', mn_FeatureMin = ''edge_feature_min'',
     mn_FeatureMax = ''edge_feature_max'', mn_FeatureCatRatio = ''edge_feature_cat_ratio'',
     mn_PredictionRatio = ''edge_prediction_ratio'', mn_LatencyP50MS = ''edge_latency_p50_ms'',
     mn_LatencyP95MS = ''edge_latency_p95_ms'', mn_ErrorRate = ''edge_inference_error_rate'',
     mn_Accuracy = ''edge_inference_accuracy'', mn_ConceptLabelRatio = ''edge_concept_label_ratio'',
     mn_GroundTruthAvailableGauge = ''edge_ground_truth_available''\<rparr>"

record MetricsSource =
  mz_names :: SampleMetricNames
  mz_defaultStep :: int
  mz_hasConcept :: bool

definition NewMetricsBackedSampleSource :: "SampleMetricNames \<Rightarrow> MetricsSource" where
  "NewMetricsBackedSampleSource names =
     \<lparr>mz_names = (if mn_FeatureMean names = [] then DefaultSampleMetricNames else names), mz_defaultStep = 60,
      mz_hasConcept = False\<rparr>"

definition WithConceptSource :: "MetricsSource \<Rightarrow> MetricsSource" where
  "WithConceptSource src = src\<lparr>mz_hasConcept := True\<rparr>"

definition scopeLabels :: "EdgeDeployment \<Rightarrow> (string \<times> string) list" where
  "scopeLabels d = [(''deployment_id'', dp_ID d), (''tenant_id'', dp_TenantID d)]"

section \<open>Queries\<close>

text \<open>Milliseconds since 1970; the clock counts nanoseconds since the year 1.\<close>

definition UnixMilli :: "time \<Rightarrow> int" where
  "UnixMilli t = (t - 62135596800 * Second) div 1000000"

definition latestSeries ::
    "EdgeEnv \<Rightarrow> MetricsSource \<Rightarrow> string \<Rightarrow> (string \<times> string) list \<Rightarrow> duration \<Rightarrow> int \<Rightarrow> MetricSeries list egop" where
  "latestSeries env src metric labels window step =
     bindS (askS (gy_time env)) (\<lambda>now.
     bindS (askS (\<lambda>n. gy_query env n \<lparr>mq_Query = metric, mq_Labels = labels, mq_Start = UnixMilli (now - window),
       mq_End = UnixMilli now, mq_Step = (if step \<le> 0 then mz_defaultStep src else step)\<rparr>)) liftG)"

definition lastValue :: "MetricSeries \<Rightarrow> f64" where
  "lastValue sr = snd (last (me_Samples sr))"

definition latestValue ::
    "EdgeEnv \<Rightarrow> MetricsSource \<Rightarrow> string \<Rightarrow> (string \<times> string) list \<Rightarrow> duration \<Rightarrow> f64 option egop" where
  "latestValue env src metric labels window =
     bindS (latestSeries env src metric labels window 0) (\<lambda>series.
     retS (map_option lastValue (List.find (\<lambda>sr. me_Samples sr \<noteq> []) series)))"

definition labelOf :: "MetricSeries \<Rightarrow> string \<Rightarrow> string" where
  "labelOf sr k = (case map_of (me_Labels sr) k of Some v \<Rightarrow> v | None \<Rightarrow> [])"

definition putKey :: "string \<Rightarrow> 'a \<Rightarrow> (string \<times> 'a) list \<Rightarrow> (string \<times> 'a) list" where
  "putKey k v m = (if k \<in> set (map fst m) then map (\<lambda>(k', v'). (k', if k' = k then v else v')) m else m @ [(k, v)])"

definition notNegative :: "f64 \<Rightarrow> f64" where
  "notNegative x = (if flt x (Fin 0) then Fin 0 else x)"

definition lastValueByLabel :: "MetricSeries list \<Rightarrow> string \<Rightarrow> distribution" where
  "lastValueByLabel series dimKey = fold (\<lambda>sr out.
     if labelOf sr dimKey = [] \<or> me_Samples sr = [] then out
     else putKey (labelOf sr dimKey) (notNegative (lastValue sr)) out) series []"

definition normalizeDist :: "'a DriftOps_scheme \<Rightarrow> distribution \<Rightarrow> distribution" where
  "normalizeDist fops m =
     (if m = [] then m
      else let total = fold (\<lambda>k acc. if flt (Fin 0) (share m k) then fo_add fops acc (share m k) else acc)
             (do_visit fops (map fst m)) (Fin 0) in
        if fle total (Fin 0) then m else map (\<lambda>(k, v). (k, fo_div fops v total)) m)"

definition parseWindow :: "EdgeEnv \<Rightarrow> string \<Rightarrow> EdgeErr + duration" where
  "parseWindow env window =
     (if TrimSpace window = [] then Inr (15 * Minute)
      else case gy_duration env (TrimSpace window) of
        Inl e \<Rightarrow> Inl (EgText (''invalid drift window '' @ gy_quote env window @ '': '' @ egText e))
      | Inr d \<Rightarrow> if d \<le> 0 then Inl (EgText (''drift window must be positive: '' @ gy_quote env window)) else Inr d)"

section \<open>Statistics of the features\<close>

datatype StatField = StdField | P01Field | P25Field | P50Field | P75Field | P99Field | MinField | MaxField

fun metricFor :: "SampleMetricNames \<Rightarrow> StatField \<Rightarrow> string" where
  "metricFor names StdField = mn_FeatureStd names"
| "metricFor names P01Field = mn_FeatureP01 names"
| "metricFor names P25Field = mn_FeatureP25 names"
| "metricFor names P50Field = mn_FeatureP50 names"
| "metricFor names P75Field = mn_FeatureP75 names"
| "metricFor names P99Field = mn_FeatureP99 names"
| "metricFor names MinField = mn_FeatureMin names"
| "metricFor names MaxField = mn_FeatureMax names"

fun setStat :: "StatField \<Rightarrow> f64 \<Rightarrow> FeatureStat \<Rightarrow> FeatureStat" where
  "setStat StdField v st = st\<lparr>fs_Std := v\<rparr>"
| "setStat P01Field v st = st\<lparr>fs_P01 := v\<rparr>"
| "setStat P25Field v st = st\<lparr>fs_P25 := v\<rparr>"
| "setStat P50Field v st = st\<lparr>fs_P50 := v\<rparr>"
| "setStat P75Field v st = st\<lparr>fs_P75 := v\<rparr>"
| "setStat P99Field v st = st\<lparr>fs_P99 := v\<rparr>"
| "setStat MinField v st = st\<lparr>fs_Min := v\<rparr>"
| "setStat MaxField v st = st\<lparr>fs_Max := v\<rparr>"

definition meanStat :: "f64 \<Rightarrow> FeatureStat" where
  "meanStat v = \<lparr>fs_Mean = v, fs_Std = Fin 0, fs_Min = Fin 0, fs_P01 = Fin 0, fs_P25 = Fin 0, fs_P50 = Fin 0,
     fs_P75 = Fin 0, fs_P99 = Fin 0, fs_Max = Fin 0\<rparr>"

definition startStats :: "MetricSeries list \<Rightarrow> (string \<times> FeatureStat) list" where
  "startStats series = fold (\<lambda>sr stats.
     if labelOf sr ''feature'' = [] \<or> me_Samples sr = [] then stats
     else putKey (labelOf sr ''feature'') (meanStat (lastValue sr)) stats) series []"

definition putStat :: "StatField \<Rightarrow> MetricSeries list \<Rightarrow> (string \<times> FeatureStat) list \<Rightarrow> (string \<times> FeatureStat) list" where
  "putStat fld series = (\<lambda>stats. fold (\<lambda>sr stats. case map_of stats (labelOf sr ''feature'') of
     None \<Rightarrow> stats
   | Some st \<Rightarrow> if me_Samples sr = [] then stats
       else putKey (labelOf sr ''feature'') (setStat fld (lastValue sr) st) stats) series stats)"

definition boundsOf :: "FeatureStat \<Rightarrow> FeatureStat" where
  "boundsOf st =
     (let st = (if feq (fs_Min st) (Fin 0) \<and> \<not> feq (fs_P01 st) (Fin 0) then st\<lparr>fs_Min := fs_P01 st\<rparr> else st);
          st = (if feq (fs_Max st) (Fin 0) \<and> \<not> feq (fs_P99 st) (Fin 0) then st\<lparr>fs_Max := fs_P99 st\<rparr> else st)
      in if feq (fs_Min st) (Fin 0) \<and> feq (fs_Max st) (Fin 0) then st\<lparr>fs_Min := NInf, fs_Max := PInf\<rparr> else st)"

primrec fieldLoop ::
    "EdgeEnv \<Rightarrow> MetricsSource \<Rightarrow> (string \<times> string) list \<Rightarrow> duration \<Rightarrow> StatField list \<Rightarrow> (string \<times> FeatureStat) list \<Rightarrow>
     (string \<times> FeatureStat) list egop" where
  "fieldLoop env src labels window [] stats = retS stats"
| "fieldLoop env src labels window (fld # flds) stats =
     bindS (latestSeries env src (metricFor (mz_names src) fld) labels window 0) (\<lambda>series.
     fieldLoop env src labels window flds (putStat fld series stats))"

definition numericByFeature ::
    "EdgeEnv \<Rightarrow> MetricsSource \<Rightarrow> (string \<times> string) list \<Rightarrow> duration \<Rightarrow> (string \<times> FeatureStat) list egop" where
  "numericByFeature env src labels window =
     bindS (latestSeries env src (mn_FeatureMean (mz_names src)) labels window 0) (\<lambda>means.
     if startStats means = [] then retS []
     else bindS (fieldLoop env src labels window
         [StdField, P01Field, P25Field, P50Field, P75Field, P99Field, MinField, MaxField] (startStats means)) (\<lambda>stats.
       retS (map (\<lambda>(f, st). (f, boundsOf st)) stats)))"

section \<open>The sample\<close>

definition categoricalOf :: "'a DriftOps_scheme \<Rightarrow> MetricSeries list \<Rightarrow> (string \<times> distribution) list" where
  "categoricalOf fops series = fold (\<lambda>sr cat.
     (let f = labelOf sr ''feature''; v = labelOf sr ''value'' in
      if f = [] \<or> v = [] \<or> me_Samples sr = [] then cat
      else let sub = (case map_of cat f of Some m \<Rightarrow> m | None \<Rightarrow> []) in
        putKey f (putKey v (fo_add fops (share sub v) (notNegative (lastValue sr))) sub) cat)) series []"

definition perfOf :: "(EdgeErr + f64 option) list \<Rightarrow> PerformanceSample option" where
  "perfOf rs = (case allInr rs of
     Inl _ \<Rightarrow> None
   | Inr vs \<Rightarrow> if list_all (\<lambda>v. v = None) vs then None
       else let value = (\<lambda>i. case vs ! i of Some v \<Rightarrow> v | None \<Rightarrow> Fin 0) in
         Some \<lparr>ps_LatencyP50Ms = value 0, ps_LatencyP95Ms = value 1, ps_ErrorRate = value 2, ps_AccuracyProxy = value 3,
               ps_HasLabel = False\<rparr>)"

definition tryS :: "'a egop \<Rightarrow> (EdgeErr + 'a) egop" where
  "tryS m = handleS m retS"

definition repoConceptLabels :: "EdgeEnv \<Rightarrow> string \<Rightarrow> string \<Rightarrow> duration \<Rightarrow> (distribution \<times> bool) egop" where
  "repoConceptLabels env tenant k window =
     bindS (askS (gy_time env)) (\<lambda>now.
     bindS (AggregateLabels env tenant k (now - window)) (\<lambda>counts.
     let total = sum64 0 (map snd counts) in
     if total = 0 then retS ([], False)
     else retS (map (\<lambda>(l, c). (l, fo_div (gy_ops env) (fo_ofInt (gy_ops env) c) (fo_ofInt (gy_ops env) total))) counts,
       True)))"

definition conceptOf ::
    "EdgeEnv \<Rightarrow> MetricsSource \<Rightarrow> EdgeDeployment \<Rightarrow> duration \<Rightarrow> (distribution \<times> bool) egop" where
  "conceptOf env src d w =
     bindS (if mz_hasConcept src then tryS (repoConceptLabels env (dp_TenantID d) (dp_ID d) w)
            else retS (Inr ([], False))) (\<lambda>r.
     case r of
       Inr (labels, True) \<Rightarrow> retS (labels, True)
     | _ \<Rightarrow>
         bindS (latestSeries env src (mn_ConceptLabelRatio (mz_names src)) (scopeLabels d) w 0) (\<lambda>series.
         let concept = normalizeDist (gy_ops env) (lastValueByLabel series ''label''); hasLabel = (concept \<noteq> []) in
         bindS (tryS (latestValue env src (mn_GroundTruthAvailableGauge (mz_names src)) (scopeLabels d) w)) (\<lambda>g.
         retS (concept, case g of
           Inr (Some gt) \<Rightarrow> hasLabel \<or> flt (fo_lit (gy_ops env) (5 / 10)) gt
         | _ \<Rightarrow> hasLabel))))"

definition MetricsSampleOf :: "EdgeEnv \<Rightarrow> MetricsSource \<Rightarrow> EdgeDeployment \<Rightarrow> string \<Rightarrow> DriftSample egop" where
  "MetricsSampleOf env src d window =
     bindS (liftG (parseWindow env window)) (\<lambda>w. let labels = scopeLabels d; names = mz_names src in
     bindS (numericByFeature env src labels w) (\<lambda>numeric.
     bindS (latestSeries env src (mn_FeatureCatRatio names) labels w 0) (\<lambda>catSeries.
     let categorical = map (\<lambda>(f, m). (f, normalizeDist (gy_ops env) m)) (categoricalOf (gy_ops env) catSeries) in
     bindS (latestSeries env src (mn_PredictionRatio names) labels w 0) (\<lambda>predSeries.
     let predictionDist = normalizeDist (gy_ops env) (lastValueByLabel predSeries ''label'') in
     bindS (tryS (latestValue env src (mn_LatencyP50MS names) labels w)) (\<lambda>p50.
     bindS (tryS (latestValue env src (mn_LatencyP95MS names) labels w)) (\<lambda>p95.
     bindS (tryS (latestValue env src (mn_ErrorRate names) labels w)) (\<lambda>err.
     bindS (tryS (latestValue env src (mn_Accuracy names) labels w)) (\<lambda>acc.
     let perf = perfOf [p50, p95, err, acc] in
     bindS (conceptOf env src d w) (\<lambda>(concept, hasLabel).
     if numeric = [] \<and> categorical = [] \<and> predictionDist = [] \<and> perf = None \<and> concept = [] then failS EgNoMetrics
     else retS \<lparr>sm_NumericFeatures = map (\<lambda>(f, st). (f, Some st)) numeric, sm_CategoricalFeatures = categorical,
       sm_PredictionDist = predictionDist, sm_Performance = perf, sm_ConceptLabels = concept,
       sm_HasLabel = hasLabel\<rparr>)))))))))"

end
