(* ===== verification/EdgeService.thy ===== *)
theory EdgeService
  imports EdgeSample
begin

text \<open>
  \<^verbatim>\<open>app/edge/service.go\<close>: nodes, deployments with canary promotion and rollback, and the evaluation of drift that may
  roll a deployment back by itself.  Each operation is one sequence of steps; the mutex of the evaluations is not modelled.
  Where the code returns a deployment or report beside an error, only the error is kept: the handlers look at nothing else.
\<close>

datatype SampleSource = SourceMetrics MetricsSource | SourceOwn "nat \<Rightarrow> EdgeDeployment \<Rightarrow> string \<Rightarrow> EdgeErr + DriftSample"

record EdgeSvc =
  sv_detector :: Detector
  sv_sampleSrc :: "SampleSource option"
  sv_hasLabels :: bool
  sv_hasPub :: bool
  sv_OfflineThreshold :: duration

text \<open>
  A metric store replaces the sample source given; it reads concept labels from the feedback table when there is one.
  (Without a metric store the code sets a label source that nothing reads.)
\<close>

definition NewEdgeService ::
    "EdgeEnv \<Rightarrow> SampleSource option \<Rightarrow> bool \<Rightarrow> duration \<Rightarrow> (Detector \<Rightarrow> Detector) list \<Rightarrow> bool \<Rightarrow> bool \<Rightarrow>
     SampleMetricNames \<Rightarrow> EdgeSvc" where
  "NewEdgeService env src hasLabels offline opts hasPub hasMetrics names =
     \<lparr>sv_detector = NewDetector (gy_ops env) opts,
      sv_sampleSrc = (if hasMetrics
        then Some (SourceMetrics (if hasLabels then WithConceptSource (NewMetricsBackedSampleSource names)
          else NewMetricsBackedSampleSource names))
        else src),
      sv_hasLabels = hasLabels, sv_hasPub = hasPub,
      sv_OfflineThreshold = (if offline \<le> 0 then 2 * Minute else offline)\<rparr>"

definition SetSampleSource :: "SampleSource option \<Rightarrow> EdgeSvc \<Rightarrow> EdgeSvc" where
  "SetSampleSource src sv = sv\<lparr>sv_sampleSrc := src\<rparr>"

section \<open>Nodes\<close>

record RegisterNodeInput =
  ri_ID :: string
  ri_Name :: string
  ri_Mode :: NodeMode
  ri_Endpoint :: string
  ri_Region :: string
  ri_Labels :: "(string \<times> string) list"
  ri_CACertPEM :: string
  ri_ClientCertPEM :: string
  ri_ClientKeyPEM :: string

definition nodeOfInput :: "string \<Rightarrow> RegisterNodeInput \<Rightarrow> EdgeNode" where
  "nodeOfInput tenant inp = \<lparr>nd_ID = ri_ID inp, nd_TenantID = tenant, nd_Name = ri_Name inp, nd_Mode = ri_Mode inp,
     nd_Status = NodeStatusUnknown, nd_Endpoint = ri_Endpoint inp, nd_Region = ri_Region inp,
     nd_Labels = ri_Labels inp, nd_CACertPEM = ri_CACertPEM inp, nd_ClientCertPEM = ri_ClientCertPEM inp,
     nd_ClientKeyPEM = ri_ClientKeyPEM inp, nd_HeartbeatAt = 0, nd_LastSeenAt = 0, nd_CreatedAt = 0, nd_UpdatedAt = 0\<rparr>"

definition RegisterNode :: "EdgeEnv \<Rightarrow> string \<Rightarrow> RegisterNodeInput \<Rightarrow> EdgeNode egop" where
  "RegisterNode env tenant inp =
     bindS (askS (gy_time env)) (\<lambda>now. let n = RegisterN now (nodeOfInput tenant inp) in
     bindS (SaveNode env n) (\<lambda>_. retS n))"

definition ListNodes :: "EdgeEnv \<Rightarrow> string \<Rightarrow> EdgeNode list egop" where
  "ListNodes = ListNodeRows"

definition GetNode :: "EdgeEnv \<Rightarrow> string \<Rightarrow> string \<Rightarrow> EdgeNode egop" where
  "GetNode env tenant k =
     bindS (GetNodeRow env k) (\<lambda>n. if nd_TenantID n \<noteq> tenant then failS EgNodeNotFound else retS n)"

definition DeregisterNode :: "EdgeEnv \<Rightarrow> string \<Rightarrow> string \<Rightarrow> unit egop" where
  "DeregisterNode env tenant k = bindS (GetNode env tenant k) (\<lambda>n. SaveNode env (MarkDecommissioning n))"

definition HeartbeatNode :: "EdgeEnv \<Rightarrow> string \<Rightarrow> string \<Rightarrow> EdgeNode egop" where
  "HeartbeatNode env tenant k =
     bindS (GetNode env tenant k) (\<lambda>n.
     bindS (askS (gy_time env)) (\<lambda>now. let n = HeartbeatN now n in
     bindS (SaveNode env n) (\<lambda>_. retS n)))"

definition ReconcileNode :: "EdgeEnv \<Rightarrow> EdgeSvc \<Rightarrow> string \<Rightarrow> string \<Rightarrow> time \<Rightarrow> EdgeNode egop" where
  "ReconcileNode env sv tenant k asOf =
     bindS (GetNode env tenant k) (\<lambda>n. let n = RecomputeLiveness asOf (sv_OfflineThreshold sv) n in
     bindS (SaveNode env n) (\<lambda>_. retS n))"

section \<open>Deployments\<close>

definition GetDeployment :: "EdgeEnv \<Rightarrow> string \<Rightarrow> string \<Rightarrow> EdgeDeployment egop" where
  "GetDeployment env tenant k =
     bindS (GetDeploymentRow env k) (\<lambda>d. if dp_TenantID d \<noteq> tenant then failS EgDeployNotFound else retS d)"

definition ListDeployments :: "EdgeEnv \<Rightarrow> string \<Rightarrow> EdgeDeployment list egop" where
  "ListDeployments = ListDeploymentRows"

definition publishE :: "EdgeSvc \<Rightarrow> EdgeEvent \<Rightarrow> unit egop" where
  "publishE sv e = (\<lambda>(w, n). (Inr (), if sv_hasPub sv then w\<lparr>gw_events := gw_events w @ [e]\<rparr> else w, n))"

text \<open>A call to the runtime is logged and answered by the environment.\<close>

definition callPush :: "EdgeEnv \<Rightarrow> EdgeNode \<Rightarrow> EdgeDeployment \<Rightarrow> EdgePushResult egop" where
  "callPush env node d = (\<lambda>(w, n). (gy_push env n node d, w\<lparr>gw_calls := gw_calls w @ [CallPush node d]\<rparr>, Suc n))"

definition callRollback :: "EdgeEnv \<Rightarrow> EdgeNode \<Rightarrow> EdgeDeployment \<Rightarrow> string \<Rightarrow> unit egop" where
  "callRollback env node d v = (\<lambda>(w, n).
     (case gy_rollback env n node d v of None \<Rightarrow> Inr () | Some e \<Rightarrow> Inl e,
      w\<lparr>gw_calls := gw_calls w @ [CallRollback node d v]\<rparr>, Suc n))"

definition previousIn :: "string \<Rightarrow> string \<Rightarrow> EdgeDeployment list \<Rightarrow> string" where
  "previousIn modelID currentVersion ds =
     (case List.find (\<lambda>p. dp_ModelID p = modelID \<and> dp_Version p \<noteq> currentVersion) ds of
        None \<Rightarrow> []
      | Some p \<Rightarrow> if dp_ActiveVersion p \<noteq> [] then dp_ActiveVersion p else dp_Version p)"

definition previousActiveVersion :: "EdgeEnv \<Rightarrow> string \<Rightarrow> string \<Rightarrow> string \<Rightarrow> string egop" where
  "previousActiveVersion env nodeID modelID currentVersion =
     handleS (ListByNode env nodeID) (\<lambda>r. case r of
       Inl _ \<Rightarrow> retS []
     | Inr ds \<Rightarrow> retS (previousIn modelID currentVersion ds))"

record DeployInput =
  di_NodeID :: string
  di_ModelID :: string
  di_Version :: string
  di_Spec :: EdgeDeploySpec
  di_CanaryWeight :: int
  di_AutoRollback :: bool
  di_DriftGuard :: bool

definition newDeployment :: "string \<Rightarrow> string \<Rightarrow> time \<Rightarrow> DeployInput \<Rightarrow> EdgeDeployment" where
  "newDeployment tenant fresh now inp =
     (let d = \<lparr>dp_ID = ''edge-dep-'' @ fresh, dp_TenantID = tenant, dp_NodeID = di_NodeID inp, dp_ModelID = di_ModelID inp,
        dp_Version = di_Version inp, dp_DesiredSpec = di_Spec inp, dp_CurrentVersion = di_Version inp,
        dp_ActiveVersion = di_Version inp, dp_CanaryVersion = [], dp_CanaryWeight = di_CanaryWeight inp,
        dp_Status = EdgeDeployPending, dp_AutoRollback = di_AutoRollback inp,
        dp_DriftGuardEnabled = di_DriftGuard inp, dp_CreatedAt = now, dp_UpdatedAt = now\<rparr>
      in if di_CanaryWeight inp > 0 then d\<lparr>dp_CanaryVersion := di_Version inp, dp_Status := EdgeDeployDeploying\<rparr> else d)"

text \<open>What follows when the runtime refuses, and when it answers.\<close>

definition pushFailed :: "EdgeEnv \<Rightarrow> EdgeDeployment \<Rightarrow> EdgeErr \<Rightarrow> EdgeDeployment egop" where
  "pushFailed env d e =
     bindS (askS (gy_time env)) (\<lambda>now.
     handleS (SaveDeployment env (MarkFailing now d)) (\<lambda>r. case r of
       Inl se \<Rightarrow> failS (EgText (''push deployment failed: '' @ egText e @ ''; persist failing status: '' @ egText se))
     | Inr _ \<Rightarrow> failS e))"

definition pushDone :: "EdgeEnv \<Rightarrow> int \<Rightarrow> EdgeDeployment \<Rightarrow> EdgePushResult \<Rightarrow> EdgeDeployment egop" where
  "pushDone env weight d res =
     bindS (if pu_Accepted res
            then bindS (askS (gy_time env)) (\<lambda>now. retS (if weight > 0 then MarkDeploying now d else MarkActive now d))
            else retS d) (\<lambda>d.
     bindS (SaveDeployment env d) (\<lambda>_. retS d))"

definition deployNew :: "EdgeEnv \<Rightarrow> DeployInput \<Rightarrow> EdgeDeployment \<Rightarrow> EdgeDeployment egop" where
  "deployNew env inp d =
     bindS (SaveDeployment env d) (\<lambda>_.
     bindS (GetNodeRow env (di_NodeID inp)) (\<lambda>node.
     handleS (callPush env node d) (\<lambda>r. case r of
       Inl e \<Rightarrow> pushFailed env d e
     | Inr res \<Rightarrow> pushDone env (di_CanaryWeight inp) d res)))"

text \<open>The stable version is that of an earlier deployment of the model, if there is one.\<close>

definition toStable :: "string \<Rightarrow> EdgeDeployment \<Rightarrow> EdgeDeployment" where
  "toStable prev d = (if prev \<noteq> [] then d\<lparr>dp_ActiveVersion := prev\<rparr> else d)"

definition DeployE :: "EdgeEnv \<Rightarrow> string \<Rightarrow> DeployInput \<Rightarrow> EdgeDeployment egop" where
  "DeployE env tenant inp =
     bindS (GetNode env tenant (di_NodeID inp)) (\<lambda>_.
     bindS (askS (gy_time env)) (\<lambda>now.
     bindS (askS (gy_uuid env)) (\<lambda>fresh.
     bindS (previousActiveVersion env (di_NodeID inp) (di_ModelID inp) (di_Version inp)) (\<lambda>prev.
     deployNew env inp (toStable prev (newDeployment tenant fresh now inp))))))"

text \<open>The new version takes the whole traffic; a push that fails only degrades the deployment.\<close>

definition pushOrDegrade :: "EdgeEnv \<Rightarrow> EdgeNode \<Rightarrow> EdgeDeployment \<Rightarrow> EdgeDeployment egop" where
  "pushOrDegrade env node d = handleS (callPush env node d) (\<lambda>r. case r of
     Inl _ \<Rightarrow> bindS (askS (gy_time env)) (\<lambda>now. retS (MarkDegraded now d))
   | Inr _ \<Rightarrow> retS d)"

definition pushComplete :: "EdgeEnv \<Rightarrow> EdgeNode \<Rightarrow> EdgeDeployment \<Rightarrow> EdgeDeployment egop" where
  "pushComplete env node d =
     bindS (pushOrDegrade env node d) (\<lambda>d. bindS (SaveDeployment env d) (\<lambda>_. retS d))"

definition promoted :: "EdgeEnv \<Rightarrow> EdgeNode \<Rightarrow> bool \<times> EdgeDeployment \<Rightarrow> EdgeDeployment egop" where
  "promoted env node fd =
     bindS (SaveDeployment env (snd fd)) (\<lambda>_.
     if fst fd then bindS (askS (gy_time env)) (\<lambda>now. pushComplete env node (CompleteCanary now (snd fd)))
     else retS (snd fd))"

definition PromoteCanary :: "EdgeEnv \<Rightarrow> string \<Rightarrow> string \<Rightarrow> int \<Rightarrow> EdgeDeployment egop" where
  "PromoteCanary env tenant k step =
     bindS (GetDeployment env tenant k) (\<lambda>d.
     bindS (GetNodeRow env (dp_NodeID d)) (\<lambda>node.
     bindS (askS (gy_time env)) (\<lambda>now. promoted env node (PromoteCanaryD now step d))))"

text \<open>The deployment goes back to its stable version once the runtime has done so.\<close>

definition rollBack :: "EdgeEnv \<Rightarrow> EdgeSvc \<Rightarrow> string \<Rightarrow> EdgeDeployment \<Rightarrow> EdgeDeployment egop" where
  "rollBack env sv reason d =
     bindS (askS (gy_time env)) (\<lambda>now. let d' = RollbackTo now d in
     bindS (SaveDeployment env d') (\<lambda>_.
     bindS (if sv_hasPub sv then askS (gy_time env) else retS 0) (\<lambda>t.
     bindS (publishE sv (DeploymentRolledBack \<lparr>ro_DeploymentID = dp_ID d', ro_NodeID = dp_NodeID d',
       ro_TenantID = dp_TenantID d', ro_FromVersion = dp_CurrentVersion d, ro_ToVersion = dp_ActiveVersion d',
       ro_Reason = reason, ro_At = t\<rparr>)) (\<lambda>_. retS d'))))"

definition RollbackE :: "EdgeEnv \<Rightarrow> EdgeSvc \<Rightarrow> string \<Rightarrow> string \<Rightarrow> string \<Rightarrow> EdgeDeployment egop" where
  "RollbackE env sv tenant k reason =
     bindS (GetDeployment env tenant k) (\<lambda>d.
     bindS (GetNodeRow env (dp_NodeID d)) (\<lambda>node.
     bindS (callRollback env node d (dp_ActiveVersion d)) (\<lambda>_. rollBack env sv reason d)))"

definition SetGuard :: "EdgeEnv \<Rightarrow> string \<Rightarrow> string \<Rightarrow> bool \<Rightarrow> bool \<Rightarrow> EdgeDeployment egop" where
  "SetGuard env tenant k driftGuard autoRollback =
     bindS (GetDeployment env tenant k) (\<lambda>d.
     let d = d\<lparr>dp_DriftGuardEnabled := driftGuard, dp_AutoRollback := autoRollback\<rparr> in
     bindS (SaveDeployment env d) (\<lambda>_. retS d))"

section \<open>Drift\<close>

definition mapErrG :: "(EdgeErr \<Rightarrow> EdgeErr) \<Rightarrow> 'a egop \<Rightarrow> 'a egop" where
  "mapErrG f m = handleS m (\<lambda>r. case r of Inl e \<Rightarrow> failS (f e) | Inr x \<Rightarrow> retS x)"

definition severityText :: "DriftSeverity \<Rightarrow> string" where
  "severityText s = (case s of DriftSeverityNone \<Rightarrow> ''none'' | DriftSeverityLow \<Rightarrow> ''low'' | DriftSeverityMedium \<Rightarrow> ''medium''
     | DriftSeverityHigh \<Rightarrow> ''high'' | DriftSeverityCritical \<Rightarrow> ''critical'')"

text \<open>
  Only the errors of the row are rewritten when the rollback is stored; publishing does not fail, so the rewriting covers
  the rest of the operation.
\<close>

definition autoRollback :: "EdgeEnv \<Rightarrow> EdgeSvc \<Rightarrow> EdgeDeployment \<Rightarrow> DriftReport \<Rightarrow> EdgeDeployment egop" where
  "autoRollback env sv d report =
     bindS (mapErrG (\<lambda>e. EgText (''drift auto-rollback: node lookup failed: '' @ egText e))
       (GetNodeRow env (dp_NodeID d))) (\<lambda>node.
     bindS (mapErrG (\<lambda>e. EgText (''drift auto-rollback to '' @ dp_ActiveVersion d @ '' failed: '' @ egText e))
       (callRollback env node d (dp_ActiveVersion d))) (\<lambda>_.
     mapErrG (\<lambda>e. EgText (''runtime rolled back to '' @ dp_ActiveVersion d @ '' but persist failed: '' @ egText e))
       (rollBack env sv (''auto-rollback on drift ('' @ severityText (rp_OverallSeverity report) @ '')'') d)))"

definition sampleFrom :: "EdgeEnv \<Rightarrow> EdgeSvc \<Rightarrow> EdgeDeployment \<Rightarrow> DriftSample egop" where
  "sampleFrom env sv d = (case sv_sampleSrc sv of
     None \<Rightarrow> failS EgNoSource
   | Some (SourceMetrics src) \<Rightarrow> MetricsSampleOf env src d ''15m''
   | Some (SourceOwn f) \<Rightarrow> bindS (askS (\<lambda>n. f n d ''15m'')) liftG)"

text \<open>The report is stored, the deployment rolled back if its guards are on, and the drift published.\<close>

definition settleReport :: "EdgeEnv \<Rightarrow> EdgeSvc \<Rightarrow> EdgeDeployment \<Rightarrow> DriftReport \<Rightarrow> DriftReport egop" where
  "settleReport env sv d report =
     bindS (SaveReport env report) (\<lambda>_.
     bindS (if rp_TriggeredRollback report \<and> dp_DriftGuardEnabled d \<and> dp_AutoRollback d
            then bindS (autoRollback env sv d report) (\<lambda>_. retS ()) else retS ()) (\<lambda>_.
     bindS (publishE sv (DriftDetected \<lparr>de_DeploymentID = dp_ID d, de_NodeID = dp_NodeID d,
       de_TenantID = dp_TenantID d, de_Severity = rp_OverallSeverity report,
       de_TriggeredRollback = rp_TriggeredRollback report, de_EvaluatedAt = rp_EvaluatedAt report\<rparr>)) (\<lambda>_.
     retS report)))"

definition evaluateDrift :: "EdgeEnv \<Rightarrow> EdgeSvc \<Rightarrow> EdgeDeployment \<Rightarrow> DriftSample option \<Rightarrow> DriftReport egop" where
  "evaluateDrift env sv d sample =
     bindS (GetBaseline env (dp_ID d)) (\<lambda>base.
     bindS (case sample of Some s \<Rightarrow> retS s | None \<Rightarrow> sampleFrom env sv d) (\<lambda>s.
     bindS (askS (gy_time env)) (\<lambda>now.
     bindS (askS (gy_uuid env)) (\<lambda>fresh.
     case Evaluate (gy_ops env) now fresh (sv_detector sv) (dp_TenantID d) (dp_ID d) (dp_NodeID d) (Some base) (Some s) of
       None \<Rightarrow> failS EgPanic
     | Some report \<Rightarrow> settleReport env sv d report))))"

definition EvaluateDrift :: "EdgeEnv \<Rightarrow> EdgeSvc \<Rightarrow> string \<Rightarrow> string \<Rightarrow> DriftReport egop" where
  "EvaluateDrift env sv tenant k = bindS (GetDeployment env tenant k) (\<lambda>d. evaluateDrift env sv d None)"

definition SubmitSample :: "EdgeEnv \<Rightarrow> EdgeSvc \<Rightarrow> string \<Rightarrow> string \<Rightarrow> DriftSample option \<Rightarrow> DriftReport egop" where
  "SubmitSample env sv tenant k sample = bindS (GetDeployment env tenant k) (\<lambda>d. evaluateDrift env sv d sample)"

definition SubmitLabelFeedback :: "EdgeEnv \<Rightarrow> EdgeSvc \<Rightarrow> string \<Rightarrow> string \<Rightarrow> string \<Rightarrow> string \<Rightarrow> unit egop" where
  "SubmitLabelFeedback env sv tenant k label requestID =
     (if \<not> sv_hasLabels sv then failS EgNoLabels
      else bindS (GetDeployment env tenant k) (\<lambda>_.
           bindS (askS (gy_uuid env)) (\<lambda>fresh.
           RecordLabel env \<lparr>lf_ID = fresh, lf_TenantID = tenant, lf_DeploymentID = k, lf_Label = label,
             lf_RequestID = requestID, lf_FeedbackAt = 0\<rparr>)))"

definition LatestDrift :: "EdgeEnv \<Rightarrow> string \<Rightarrow> string \<Rightarrow> DriftReport egop" where
  "LatestDrift env tenant k = bindS (GetDeployment env tenant k) (\<lambda>_. LatestByDeployment env k)"

definition SetBaseline :: "EdgeEnv \<Rightarrow> string \<Rightarrow> string \<Rightarrow> DriftBaseline \<Rightarrow> unit egop" where
  "SetBaseline env tenant k b =
     bindS (GetDeployment env tenant k) (\<lambda>_. SaveBaseline env (b\<lparr>bl_DeploymentID := k\<rparr>))"

end
