(* ===== verification/EdgeApi.thy ===== *)
theory EdgeApi
  imports EdgeService ApiAccess
begin

text \<open>
  \<^verbatim>\<open>api/edge.go\<close>: the handlers of nodes, deployments and drift.  A handler answers; only a panic leaves it as an error.
  A body is bound or the text of the error is shown.  The service may be missing.
\<close>

type_synonym 'a eghandler = "(EdgeWorld, EdgeErr, 'a ApiReply) act"

definition requireEdge :: "EdgeSvc option \<Rightarrow> (EdgeSvc \<Rightarrow> 'a eghandler) \<Rightarrow> 'a eghandler" where
  "requireEdge sv f =
     (case sv of None \<Rightarrow> retS (ApiFail 501 ''edge deployment not configured'') | Some sv \<Rightarrow> f sv)"

definition edgeTenant :: "Claims option \<Rightarrow> (string \<Rightarrow> 'a eghandler) \<Rightarrow> 'a eghandler" where
  "edgeTenant c f =
     (case requireWriteTenant c of None \<Rightarrow> retS (ApiFail 400 ''missing tenant context'') | Some t \<Rightarrow> f t)"

definition bound :: "string + 'b \<Rightarrow> ('b \<Rightarrow> 'a eghandler) \<Rightarrow> 'a eghandler" where
  "bound body f = (case body of Inl e \<Rightarrow> retS (ApiFail 400 e) | Inr b \<Rightarrow> f b)"

definition answerG :: "(EdgeErr \<Rightarrow> 'a ApiReply) \<Rightarrow> 'a egop \<Rightarrow> 'a eghandler" where
  "answerG bad m = handleS m (\<lambda>r. case r of
     Inl EgPanic \<Rightarrow> failS EgPanic | Inl e \<Rightarrow> retS (bad e) | Inr x \<Rightarrow> retS (ApiOK x))"

definition edgeFail500 :: "EdgeErr \<Rightarrow> 'a ApiReply" where
  "edgeFail500 e = ApiFail 500 (egText e)"

definition noNode :: "EdgeErr \<Rightarrow> 'a ApiReply" where
  "noNode e = ApiFail 404 ''edge node not found''"

definition noDeployment :: "EdgeErr \<Rightarrow> 'a ApiReply" where
  "noDeployment e = ApiFail 404 ''edge deployment not found''"

section \<open>Nodes\<close>

definition modeOr :: "NodeMode \<Rightarrow> NodeMode" where
  "modeOr m = (if m \<noteq> NodeModeAgent \<and> m \<noteq> NodeModeKubeEdge then NodeModeAgent else m)"

definition edgeRegisterNode ::
    "EdgeEnv \<Rightarrow> EdgeSvc option \<Rightarrow> Claims option \<Rightarrow> string + RegisterNodeInput \<Rightarrow> EdgeNode eghandler" where
  "edgeRegisterNode env sv c body = requireEdge sv (\<lambda>_. bound body (\<lambda>b. edgeTenant c (\<lambda>tenant.
     answerG edgeFail500 (RegisterNode env tenant (b\<lparr>ri_Mode := modeOr (ri_Mode b)\<rparr>)))))"

definition edgeListNodes :: "EdgeEnv \<Rightarrow> EdgeSvc option \<Rightarrow> Claims option \<Rightarrow> EdgeNode list eghandler" where
  "edgeListNodes env sv c = requireEdge sv (\<lambda>_. answerG edgeFail500 (ListNodes env (principalTenant c)))"

definition edgeGetNode :: "EdgeEnv \<Rightarrow> EdgeSvc option \<Rightarrow> Claims option \<Rightarrow> string \<Rightarrow> EdgeNode eghandler" where
  "edgeGetNode env sv c k = requireEdge sv (\<lambda>_. answerG noNode (GetNode env (principalTenant c) k))"

definition edgeDeregisterNode :: "EdgeEnv \<Rightarrow> EdgeSvc option \<Rightarrow> Claims option \<Rightarrow> string \<Rightarrow> unit eghandler" where
  "edgeDeregisterNode env sv c k =
     requireEdge sv (\<lambda>_. edgeTenant c (\<lambda>tenant. answerG noNode (DeregisterNode env tenant k)))"

definition edgeNodeHeartbeat :: "EdgeEnv \<Rightarrow> EdgeSvc option \<Rightarrow> Claims option \<Rightarrow> string \<Rightarrow> EdgeNode eghandler" where
  "edgeNodeHeartbeat env sv c k =
     requireEdge sv (\<lambda>_. edgeTenant c (\<lambda>tenant. answerG noNode (HeartbeatNode env tenant k)))"

section \<open>Deployments\<close>

definition edgeDeploy ::
    "EdgeEnv \<Rightarrow> EdgeSvc option \<Rightarrow> Claims option \<Rightarrow> string + DeployInput \<Rightarrow> EdgeDeployment eghandler" where
  "edgeDeploy env sv c body = requireEdge sv (\<lambda>_. bound body (\<lambda>b.
     if di_NodeID b = [] \<or> di_ModelID b = [] \<or> di_Version b = []
     then retS (ApiFail 400 ''nodeId, modelId and version are required'')
     else edgeTenant c (\<lambda>tenant. answerG edgeFail500 (DeployE env tenant
       (b\<lparr>di_Spec := (di_Spec b)\<lparr>es_Replicas := (if es_Replicas (di_Spec b) \<le> 0 then 1 else es_Replicas (di_Spec b)),
                              es_HealthCheck := None\<rparr>\<rparr>)))))"

definition edgeListDeployments :: "EdgeEnv \<Rightarrow> EdgeSvc option \<Rightarrow> Claims option \<Rightarrow> EdgeDeployment list eghandler" where
  "edgeListDeployments env sv c = requireEdge sv (\<lambda>_. answerG edgeFail500 (ListDeployments env (principalTenant c)))"

definition edgeGetDeployment :: "EdgeEnv \<Rightarrow> EdgeSvc option \<Rightarrow> Claims option \<Rightarrow> string \<Rightarrow> EdgeDeployment eghandler" where
  "edgeGetDeployment env sv c k =
     requireEdge sv (\<lambda>_. answerG noDeployment (GetDeployment env (principalTenant c) k))"

definition edgePromoteCanary ::
    "EdgeEnv \<Rightarrow> EdgeSvc option \<Rightarrow> Claims option \<Rightarrow> string \<Rightarrow> string + int \<Rightarrow> EdgeDeployment eghandler" where
  "edgePromoteCanary env sv c k body = requireEdge sv (\<lambda>_. bound body (\<lambda>step.
     if step < 1 \<or> step > 100 then retS (ApiFail 400 ''step must be between 1 and 100'')
     else edgeTenant c (\<lambda>tenant. answerG noDeployment (PromoteCanary env tenant k step))))"

definition edgeRollback ::
    "EdgeEnv \<Rightarrow> EdgeSvc option \<Rightarrow> Claims option \<Rightarrow> string \<Rightarrow> string \<Rightarrow> EdgeDeployment eghandler" where
  "edgeRollback env sv c k reason = requireEdge sv (\<lambda>sv. edgeTenant c (\<lambda>tenant.
     answerG noDeployment (RollbackE env sv tenant k (if reason = [] then ''manual rollback'' else reason))))"

definition edgeSetGuard ::
    "EdgeEnv \<Rightarrow> EdgeSvc option \<Rightarrow> Claims option \<Rightarrow> string \<Rightarrow> string + (bool \<times> bool) \<Rightarrow> EdgeDeployment eghandler" where
  "edgeSetGuard env sv c k body = requireEdge sv (\<lambda>_. bound body (\<lambda>(driftGuard, auto). edgeTenant c (\<lambda>tenant.
     answerG noDeployment (SetGuard env tenant k driftGuard auto))))"

section \<open>Drift\<close>

definition edgeSetBaseline ::
    "EdgeEnv \<Rightarrow> EdgeSvc option \<Rightarrow> Claims option \<Rightarrow> string \<Rightarrow> string + DriftBaseline \<Rightarrow> unit eghandler" where
  "edgeSetBaseline env sv c k body = requireEdge sv (\<lambda>_. bound body (\<lambda>b. edgeTenant c (\<lambda>tenant.
     answerG edgeFail500 (SetBaseline env tenant k b))))"

definition edgeRunDrift :: "EdgeEnv \<Rightarrow> EdgeSvc option \<Rightarrow> Claims option \<Rightarrow> string \<Rightarrow> DriftReport eghandler" where
  "edgeRunDrift env sv c k =
     requireEdge sv (\<lambda>sv. edgeTenant c (\<lambda>tenant. answerG edgeFail500 (EvaluateDrift env sv tenant k)))"

definition edgeSubmitSample ::
    "EdgeEnv \<Rightarrow> EdgeSvc option \<Rightarrow> Claims option \<Rightarrow> string \<Rightarrow> string + DriftSample \<Rightarrow> DriftReport eghandler" where
  "edgeSubmitSample env sv c k body = requireEdge sv (\<lambda>sv. bound body (\<lambda>s. edgeTenant c (\<lambda>tenant.
     answerG edgeFail500 (SubmitSample env sv tenant k (Some s)))))"

definition edgeSubmitLabelFeedback ::
    "EdgeEnv \<Rightarrow> EdgeSvc option \<Rightarrow> Claims option \<Rightarrow> string \<Rightarrow> string + (string \<times> string) \<Rightarrow> unit eghandler" where
  "edgeSubmitLabelFeedback env sv c k body = requireEdge sv (\<lambda>sv. bound body (\<lambda>(label, requestID).
     if label = [] then retS (ApiFail 400 ''label required'')
     else edgeTenant c (\<lambda>tenant. answerG
       (\<lambda>e. if e = EgNoLabels then ApiFail 501 ''label feedback not configured'' else edgeFail500 e)
       (SubmitLabelFeedback env sv tenant k label requestID))))"

definition edgeLatestDrift :: "EdgeEnv \<Rightarrow> EdgeSvc option \<Rightarrow> Claims option \<Rightarrow> string \<Rightarrow> DriftReport eghandler" where
  "edgeLatestDrift env sv c k =
     requireEdge sv (\<lambda>_. answerG (\<lambda>_. ApiFail 404 ''no drift report'') (LatestDrift env (principalTenant c) k))"

section \<open>Events on the bus\<close>

text \<open>\<^verbatim>\<open>bootstrap/bootstrap.go\<close>: an event of the edge as the bus sees it.\<close>

fun edgeEventType :: "EdgeEvent option \<Rightarrow> string" where
  "edgeEventType None = ''edge.unknown''"
| "edgeEventType (Some (DriftDetected _)) = ''edge.drift.detected''"
| "edgeEventType (Some (DeploymentRolledBack _)) = ''edge.deployment.rolled_back''"

fun edgeOccurredAt :: "EdgeEvent option \<Rightarrow> time" where
  "edgeOccurredAt (Some (DriftDetected e)) = de_EvaluatedAt e"
| "edgeOccurredAt (Some (DeploymentRolledBack e)) = ro_At e"
| "edgeOccurredAt None = 0"

fun edgeAggregateID :: "EdgeEvent option \<Rightarrow> string" where
  "edgeAggregateID (Some (DriftDetected e)) = de_DeploymentID e"
| "edgeAggregateID (Some (DeploymentRolledBack e)) = ro_DeploymentID e"
| "edgeAggregateID None = []"

end
