(* ===== verification/EdgeProofs.thy ===== *)
theory EdgeProofs
  imports EdgeApi HpoDomainProofs
begin

text \<open>
  What the detector computes in exact arithmetic, which version deployments roll back to, what an evaluation of drift may
  change, and which rows an operation of a tenant may touch.
\<close>

section \<open>Distances in exact arithmetic\<close>

definition exactDrift :: "(string list \<Rightarrow> string list) \<Rightarrow> DriftOps" where
  "exactDrift visit = \<lparr>fo_add = fo_add exactOps, fo_mul = fo_mul exactOps, fo_div = fo_div exactOps, fo_sqrt = id,
     fo_ofInt = fo_ofInt exactOps, fo_sub = fo_sub exactOps, fo_pow = fo_pow exactOps, fo_log10 = id, fo_exp = id,
     fo_lit = Fin, fo_sortPeers = insertionSort, fo_wild = (\<lambda>_. 0), do_visit = visit\<rparr>"

lemma exactDrift_simps [simp]:
  "fo_add (exactDrift v) (Fin a) (Fin b) = Fin (a + b)" "fo_sub (exactDrift v) (Fin a) (Fin b) = Fin (a - b)"
  "fo_mul (exactDrift v) (Fin a) (Fin b) = Fin (a * b)" "fo_div (exactDrift v) (Fin a) (Fin b) = Fin (a / b)"
  "fo_lit (exactDrift v) q = Fin q" "do_visit (exactDrift v) = v"
  by (simp_all add: exactDrift_def exactOps_def)

lemma absE_exact [simp]: "absE (exactDrift v) (Fin q) = Fin \<bar>q\<bar>"
  by (simp add: absE_def)

lemma fle_Fin [simp]: "fle (Fin a) (Fin b) \<longleftrightarrow> a \<le> b"
  by (auto simp: fle_def)

text \<open>A distribution given by rationals, and what a key reads as.\<close>

definition ratDist :: "(string \<times> rat) list \<Rightarrow> distribution" where
  "ratDist = map (\<lambda>(k, q). (k, Fin q))"

definition ratShare :: "(string \<times> rat) list \<Rightarrow> string \<Rightarrow> rat" where
  "ratShare m k = (case map_of m k of Some q \<Rightarrow> q | None \<Rightarrow> 0)"

lemma ratDist_keys [simp]: "map fst (ratDist m) = map fst m"
  by (simp add: ratDist_def case_prod_unfold)

lemma ratDist_share [simp]: "share (ratDist m) k = Fin (ratShare m k)"
  by (induction m) (auto simp: ratDist_def share_def ratShare_def)

lemma ratDist_Nil [simp]: "ratDist [] = []"
  by (simp add: ratDist_def)

lemma sum_fold: "fold (\<lambda>k total. fo_add (exactDrift v) total (Fin (f k))) ks (Fin a) = Fin (a + sum_list (map f ks))"
  by (induction ks arbitrary: a) (simp_all add: algebra_simps)

definition distance :: "(string \<times> rat) list \<Rightarrow> (string \<times> rat) list \<Rightarrow> rat" where
  "distance b s = (\<Sum>k \<in> fst ` set b \<union> fst ` set s. \<bar>ratShare b k - ratShare s k\<bar>) / 2"

text \<open>The order in which the keys are visited does not matter in exact arithmetic.\<close>

lemma tvd_exact:
  assumes "\<And>ks. mset (visit ks) = mset ks"
  shows "tvdCategorical (exactDrift visit) (ratDist b) (ratDist s) = Fin (distance b s)"
proof -
  let ?ks = "remdups (map fst b @ map fst s)" and ?f = "\<lambda>k. \<bar>ratShare b k - ratShare s k\<bar>"
  have "sum_list (map ?f (visit ?ks)) = sum_list (map ?f ?ks)"
    by (subst (1 2) sum_mset_sum_list [symmetric], subst (1 2) mset_map, subst assms, rule refl)
  also have "\<dots> = (\<Sum>k \<in> set ?ks. ?f k)"
    by (rule sum_list_distinct_conv_sum_set) simp
  finally show ?thesis
    by (simp add: tvdCategorical_def sum_fold distance_def del: remdups_append2)
qed

definition isDist :: "(string \<times> rat) list \<Rightarrow> bool" where
  "isDist m = (distinct (map fst m) \<and> (\<forall>(k, q) \<in> set m. 0 \<le> q) \<and> sum_list (map snd m) = 1)"

lemma ratShare_mem: "distinct (map fst m) \<Longrightarrow> (k, q) \<in> set m \<Longrightarrow> ratShare m k = q"
  by (simp add: ratShare_def)

lemma ratShare_nonneg: "isDist m \<Longrightarrow> 0 \<le> ratShare m k"
  by (auto simp: ratShare_def isDist_def split: option.split dest!: map_of_SomeD)

lemma ratShare_out: "k \<notin> fst ` set m \<Longrightarrow> ratShare m k = 0"
  by (simp add: ratShare_def map_of_eq_None_iff split: option.split) (metis map_of_eq_None_iff option.distinct(1))

lemma sum_shares:
  assumes "isDist m" and "fst ` set m \<subseteq> K" and "finite K"
  shows "(\<Sum>k \<in> K. ratShare m k) = 1"
proof -
  have "(\<Sum>k \<in> K. ratShare m k) = (\<Sum>k \<in> fst ` set m. ratShare m k)"
    using assms ratShare_out by (intro sum.mono_neutral_right) auto
  also have "\<dots> = sum_list (map (ratShare m) (map fst m))"
    using assms(1) by (subst sum_list_distinct_conv_sum_set) (simp_all add: isDist_def)
  also have "map (ratShare m) (map fst m) = map snd m"
    using assms(1) by (auto simp: isDist_def ratShare_mem)
  finally show ?thesis using assms(1) by (simp add: isDist_def)
qed

lemma distance_none: "isDist b \<Longrightarrow> distance b [] = 1 / 2"
  using sum_shares [of b "fst ` set b"] ratShare_nonneg [of b]
  by (simp add: distance_def ratShare_def [of "[]"])

lemma distance_sym: "distance b s = distance s b"
  by (simp add: distance_def Un_commute abs_minus_commute)

lemma distance_nonneg: "0 \<le> distance b s"
  by (simp add: distance_def sum_nonneg)

lemma distance_zero: "distance b s = 0 \<longleftrightarrow> (\<forall>k. ratShare b k = ratShare s k)"
proof -
  have "distance b s = 0 \<longleftrightarrow> (\<forall>k \<in> fst ` set b \<union> fst ` set s. ratShare b k = ratShare s k)"
    by (simp add: distance_def sum_nonneg_eq_0_iff)
  then show ?thesis using ratShare_out [of _ b] ratShare_out [of _ s] by (metis UnCI)
qed

lemma distance_le_one:
  assumes "isDist b" and "isDist s"
  shows "distance b s \<le> 1"
proof -
  let ?K = "fst ` set b \<union> fst ` set s"
  have "(\<Sum>k \<in> ?K. \<bar>ratShare b k - ratShare s k\<bar>) \<le> (\<Sum>k \<in> ?K. ratShare b k + ratShare s k)"
    using ratShare_nonneg [OF assms(1)] ratShare_nonneg [OF assms(2)] by (intro sum_mono) (simp add: abs_le_iff)
  also have "\<dots> = 2" using sum_shares [OF assms(1), of ?K] sum_shares [OF assms(2), of ?K] by (simp add: sum.distrib)
  finally show ?thesis by (simp add: distance_def)
qed

section \<open>Verdicts of the detector\<close>

definition serious :: "DriftSeverity \<Rightarrow> bool" where
  "serious sev = (sev = DriftSeverityHigh \<or> sev = DriftSeverityCritical)"

lemma serious_max [simp]: "serious (MaxSeverity a b) \<longleftrightarrow> serious a \<or> serious b"
  by (cases a; cases b) (simp_all add: MaxSeverity_def serious_def)

lemma serious_overall: "serious (overallSeverity fops ms) \<longleftrightarrow> (\<exists>m \<in> set ms. serious (severityOf fops m))"
proof -
  have "serious (fold (\<lambda>m sev. MaxSeverity sev (severityOf fops m)) ms sev) \<longleftrightarrow>
      serious sev \<or> (\<exists>m \<in> set ms. serious (severityOf fops m))" for sev
    by (induction ms arbitrary: sev) auto
  then show ?thesis by (simp add: overallSeverity_def) (simp add: serious_def)
qed

lemma Evaluate_triggers:
  assumes "Evaluate fops now fresh det tn k nd (Some base) (Some s) = Some r"
  shows "rp_TriggeredRollback r \<longleftrightarrow> (\<exists>dd. dataDrift fops det base s = Some dd \<and> (\<exists>m \<in>
    {dd, predictionDrift fops det base s, performanceDrift fops det base s, conceptDrift fops det base s}.
    serious (severityOf fops m)))"
  using assms by (auto simp: Evaluate_def Let_def serious_overall simp flip: serious_def split: option.splits)

text \<open>The prediction metric is missing: half of the probability is away from the reference.\<close>

lemma lost_predictions_serious:
  assumes "\<And>ks. mset (visit ks) = mset ks" and "isDist ps" and "bl_PredictionDist base = ratDist ps"
    and "sm_PredictionDist s = []"
  shows "serious (severityOf (exactDrift visit) (predictionDrift (exactDrift visit) (NewDetector (exactDrift visit) []) base s))"
  using tvd_exact [of visit ps "[]"] distance_none [OF assms(2)] assms
  by (simp add: predictionDrift_def severityOf_def NewDetector_def serious_def Let_def)

lemma worse_grows: "fle a (fst w) \<Longrightarrow> fle a (fst (worse x n w))"
  by (cases a; cases "fst w"; cases x) (auto simp: worse_def fle_def)

lemma slow_latency_is_critical:
  assumes "bl_Performance base = Some b" and "sm_Performance s = Some p"
    and "ps_LatencyP95Ms b = Fin x" and "ps_LatencyP95Ms p = Fin y" and "0 < x" and "y > 3 / 2 * x"
  shows "severityOf (exactDrift visit) (performanceDrift (exactDrift visit) (NewDetector (exactDrift visit) []) base s) =
    DriftSeverityCritical"
proof -
  let ?ops = "exactDrift visit" let ?det = "NewDetector ?ops []"
  define r where "r = y / x"
  have "3 / 2 < r" using assms(5,6) by (simp add: r_def field_simps)
  then have start: "fle (Fin (3 / 20)) (fst (latencyRise ?ops ?det b p (Fin 0, [])))"
    using assms(3-5) by (simp add: latencyRise_def NewDetector_def worse_def Let_def flip: r_def)
  let ?w = "accuracyDrop ?ops ?det b p (errorRise ?det p (latencyRise ?ops ?det b p (Fin 0, [])))"
  have top: "fle (Fin (3 / 20)) (fst ?w)"
    by (simp add: accuracyDrop_def errorRise_def Let_def start worse_grows)
  then have "fle (Fin (1 / 20)) (fst ?w)" by (cases "fst ?w") (auto simp: fle_def)
  then show ?thesis using top assms(1,2)
    by (simp add: performanceDrift_def severityOf_def NewDetector_def Let_def case_prod_unfold)
qed

lemma nil_feature_panics:
  assumes "map_of (sm_NumericFeatures s) f = Some None" and "bl_NumericFeatures base = [(f, b)]"
  shows "Evaluate fops now fresh det tn k nd (Some base) (Some s) = None"
  using assms by (cases b) (simp_all add: Evaluate_def dataDrift_def numericLoop_def)

end
