(* ===== verification/EdgeServiceProofs.thy ===== *)
theory EdgeServiceProofs
  imports EdgeProofs
begin

text \<open>
  What the operations of the edge service keep.  The locale \<^verbatim>\<open>edge_frame\<close> derives from the laws of a relation on states
  (saving a deployment that is allowed, appending a report, logging calls and events) that every operation keeps it; it is
  interpreted three times: for the scope of an evaluation of drift, for the rows of other tenants, and for the version that
  deployments roll back to.
\<close>

section \<open>Operations that only read\<close>

lemma liftG_still [simp]: "after (liftG r) w = fst w"
  by (cases r) (simp_all add: liftG_def)

lemma liftG_Inr: "liftG r w = (Inr x, w1) \<Longrightarrow> r = Inr x \<and> w1 = w"
  by (cases r) (simp_all add: liftG_def act_defs)

lemma edge_reads [simp]:
  "after (GetNodeRow env k) w = fst w" "after (GetDeploymentRow env k) w = fst w" "after (ListByNode env k) w = fst w"
  "after (GetBaseline env k) w = fst w" "after (AggregateLabels env t k since) w = fst w"
  "after (LatestByDeployment env k) w = fst w"
  by (simp_all add: GetNodeRow_def GetDeploymentRow_def ListByNode_def GetBaseline_def AggregateLabels_def
    LatestByDeployment_def)

lemma GetNode_still [simp]: "after (GetNode env t k) w = fst w"
  unfolding GetNode_def by (rule after_bind_still) simp_all

lemma GetDeployment_still [simp]: "after (GetDeployment env t k) w = fst w"
  unfolding GetDeployment_def by (rule after_bind_still) simp_all

lemma previous_still [simp]: "after (previousActiveVersion env a b c) w = fst w"
  unfolding previousActiveVersion_def
  by (simp add: after_def handleS_def retS_def case_prod_unfold split: sum.split)
    (metis after_def edge_reads(3))

lemma tryS_still: "after m w = fst w \<Longrightarrow> after (tryS m) w = fst w"
  by (simp add: tryS_def after_handle_ret)

lemma latestSeries_still [simp]: "after (latestSeries env src m ls win st) w = fst w"
  unfolding latestSeries_def by (intro after_bind_still after_simps liftG_still)

lemma latestValue_still [simp]: "after (latestValue env src m ls win) w = fst w"
  by (simp add: latestValue_def)

lemma fieldLoop_still [simp]: "after (fieldLoop env src ls win flds stats) w = fst w"
  by (induction flds arbitrary: stats w) (auto intro: after_bind_still)

lemma numericByFeature_still [simp]: "after (numericByFeature env src ls win) w = fst w"
  unfolding numericByFeature_def by (rule after_bind_still) (simp_all del: fieldLoop.simps split: if_split)

lemma repoConceptLabels_still [simp]: "after (repoConceptLabels env t k win) w = fst w"
  unfolding repoConceptLabels_def Let_def by (intro after_bind_still) (simp_all split: if_split)

lemma conceptOf_still [simp]: "after (conceptOf env src d win) w = fst w"
  unfolding conceptOf_def Let_def
  by (rule after_bind_still)
    (simp add: tryS_still, auto intro!: after_bind_still tryS_still split: sum.split bool.split)

lemma MetricsSampleOf_still [simp]: "after (MetricsSampleOf env src d win) w = fst w"
  unfolding MetricsSampleOf_def Let_def
  by (intro after_bind_still) (simp_all add: tryS_still case_prod_unfold split: if_split)

lemma sampleFrom_still [simp]: "after (sampleFrom env sv d) w = fst w"
  by (auto simp: sampleFrom_def intro: after_bind_still split: option.split SampleSource.split)

lemma still_Inr: "m w = (r, w1) \<Longrightarrow> after m w = fst w \<Longrightarrow> fst w1 = fst w"
  by (simp add: after_def)

lemma deployToDomain_same:
  "deployToDomain env row = Inr d \<Longrightarrow> dp_ID d = er_ID row \<and> dp_TenantID d = er_TenantID row \<and> dp_NodeID d = er_NodeID row \<and>
     dp_ModelID d = er_ModelID row \<and> dp_Version d = er_Version row \<and> dp_ActiveVersion d = er_ActiveVersion row \<and>
     dp_DriftGuardEnabled d = er_DriftGuardEnabled row \<and> dp_AutoRollback d = er_AutoRollback row"
  by (auto simp: deployToDomain_def split: sum.splits if_splits)

lemma GetDeployment_Inr:
  assumes "GetDeployment env t k w = (Inr d, w1)"
  shows "fst w1 = fst w \<and> (\<exists>row. tfind er_ID (gw_deploys (fst w)) k = Some row \<and> deployToDomain env row = Inr d \<and>
    er_ID row = k \<and> dp_ID d = k \<and> dp_TenantID d = t \<and> er_TenantID row = t)"
proof -
  obtain row where row: "tfind er_ID (gw_deploys (fst w)) k = Some row" "deployToDomain env row = Inr d" "dp_TenantID d = t"
      "fst w1 = fst w"
    using assms unfolding GetDeployment_def GetDeploymentRow_def
    by (auto dest!: bindS_Inr readS_Inr simp: failS_def retS_def split: option.splits if_splits)
  then show ?thesis using tfind_key [OF row(1)] deployToDomain_same [OF row(2)] by auto
qed

lemma GetNode_Inr:
  assumes "GetNode env t k w = (Inr n, w1)"
  shows "fst w1 = fst w \<and> (\<exists>row. tfind nr_ID (gw_nodes (fst w)) k = Some row \<and> nr_TenantID row = t \<and> nd_ID n = k \<and>
    nd_TenantID n = t)"
proof -
  obtain row where row: "tfind nr_ID (gw_nodes (fst w)) k = Some row" "nodeToDomain env row = Inr n" "nd_TenantID n = t"
      "fst w1 = fst w"
    using assms unfolding GetNode_def GetNodeRow_def
    by (auto dest!: bindS_Inr readS_Inr simp: failS_def retS_def split: option.splits if_splits)
  then show ?thesis using tfind_key [OF row(1)] by (auto simp: nodeToDomain_def split: sum.splits if_splits)
qed

lemma deployRow_same:
  "deployRowFromDomain env d = Inr row \<Longrightarrow> er_ID row = dp_ID d \<and> er_TenantID row = dp_TenantID d \<and>
     er_NodeID row = dp_NodeID d \<and> er_ModelID row = dp_ModelID d \<and> er_Version row = dp_Version d \<and>
     er_ActiveVersion row = dp_ActiveVersion d \<and> er_CurrentVersion row = dp_CurrentVersion d \<and> er_Status row = dp_Status d \<and>
     er_CanaryWeight row = dp_CanaryWeight d \<and> er_CanaryVersion row = dp_CanaryVersion d"
  by (auto simp: deployRowFromDomain_def split: sum.splits)

section \<open>What keeps a relation on states\<close>

text \<open>\<open>okD\<close> says which deployments may be saved and pushed, \<open>okR\<close> of which deployments reports may be added.\<close>

locale edge_frame = kept R for R :: "EdgeWorld \<Rightarrow> EdgeWorld \<Rightarrow> bool" +
  fixes okD :: "EdgeDeployment \<Rightarrow> bool" and okR :: "string \<Rightarrow> bool"
  assumes frame_save: "okD d \<Longrightarrow> deployRowFromDomain env d = Inr row \<Longrightarrow>
      R s (s\<lparr>gw_deploys := snd (saveRow er_ID (row\<lparr>er_UpdatedAt := now\<rparr>) (gw_deploys s))\<rparr>)"
    and frame_calls: "okD d \<Longrightarrow> R s (s\<lparr>gw_calls := cs\<rparr>)"
    and frame_events: "R s (s\<lparr>gw_events := es\<rparr>)"
    and frame_report: "okR (rr_DeploymentID rep) \<Longrightarrow> R s (s\<lparr>gw_reports := gw_reports s @ [rep]\<rparr>)"
    and okD_cong: "okD d \<Longrightarrow> dp_ID d' = dp_ID d \<Longrightarrow> dp_TenantID d' = dp_TenantID d \<Longrightarrow> dp_NodeID d' = dp_NodeID d \<Longrightarrow>
      dp_ModelID d' = dp_ModelID d \<Longrightarrow> dp_ActiveVersion d' = dp_ActiveVersion d \<Longrightarrow> okD d'"
begin

lemma keep_SaveDeployment: "okD d \<Longrightarrow> R (fst w) (after (SaveDeployment env d) w)"
  unfolding SaveDeployment_def
  by (intro keep_bind keep_still keep_db liftG_still after_simps)
    (auto dest!: liftG_Inr intro: frame_save simp: case_prod_unfold)

lemma keep_publish: "R (fst w) (after (publishE sv e) w)"
  by (simp add: publishE_def after_def case_prod_unfold frame_events kept_refl)

lemma keep_push: "okD d \<Longrightarrow> R (fst w) (after (callPush env node d) w)"
  by (simp add: callPush_def after_def case_prod_unfold frame_calls)

lemma keep_callRollback: "okD d \<Longrightarrow> R (fst w) (after (callRollback env node d v) w)"
  by (simp add: callRollback_def after_def case_prod_unfold frame_calls)

lemma okD_marks:
  "okD d \<Longrightarrow> okD (RollbackTo now d)" "okD d \<Longrightarrow> okD (MarkFailing now d)" "okD d \<Longrightarrow> okD (MarkDegraded now d)"
  "okD d \<Longrightarrow> okD (MarkActive now d)" "okD d \<Longrightarrow> okD (MarkDeploying now d)" "okD d \<Longrightarrow> okD (snd (PromoteCanaryD now st d))"
  "okD d \<Longrightarrow> okD (d\<lparr>dp_DriftGuardEnabled := g, dp_AutoRollback := a\<rparr>)"
  by (erule okD_cong; simp add: RollbackTo_def MarkFailing_def MarkDegraded_def MarkActive_def MarkDeploying_def
    PromoteCanaryD_def Let_def)+

lemma keep_mapErr: "R (fst w) (after m w) \<Longrightarrow> R (fst w) (after (mapErrG f m) w)"
  unfolding mapErrG_def by (rule keep_handle) (auto simp: kept_refl split: sum.split)

lemma keep_rollBack: "okD d \<Longrightarrow> R (fst w) (after (rollBack env sv reason d) w)"
  unfolding rollBack_def Let_def
  by (intro keep_bind keep_SaveDeployment keep_publish okD_marks) (simp_all add: kept_refl split: if_split)

lemma keep_autoRollback: "okD d \<Longrightarrow> R (fst w) (after (autoRollback env sv d report) w)"
  unfolding autoRollback_def
  by (intro keep_bind keep_mapErr keep_callRollback keep_rollBack keep_still edge_reads)

lemma keep_SaveReport: "okR (rp_DeploymentID r) \<Longrightarrow> R (fst w) (after (SaveReport env r) w)"
  unfolding SaveReport_def
  by (intro keep_bind keep_still keep_db liftG_still)
    (auto dest!: liftG_Inr simp: createRow_def tadd_def reportRowFromDomain_def kept_refl split: sum.splits intro!: frame_report)

lemma keep_settleReport:
  assumes "dp_DriftGuardEnabled d \<Longrightarrow> dp_AutoRollback d \<Longrightarrow> okD d" and "okR (rp_DeploymentID report)"
  shows "R (fst w) (after (settleReport env sv d report) w)"
  unfolding settleReport_def using assms
  by (intro keep_bind keep_SaveReport keep_publish) (simp_all add: keep_autoRollback kept_refl split: if_split)

lemma Evaluate_ids:
  "Evaluate fops now fresh det tn k nd base s = Some r \<Longrightarrow> rp_DeploymentID r = k"
  by (auto simp: Evaluate_def Let_def split: option.splits)

lemma keep_evaluateDrift:
  assumes "dp_DriftGuardEnabled d \<Longrightarrow> dp_AutoRollback d \<Longrightarrow> okD d" and "okR (dp_ID d)"
  shows "R (fst w) (after (evaluateDrift env sv d sample) w)"
  unfolding evaluateDrift_def using assms
  by (intro keep_bind) (auto simp: kept_refl dest: Evaluate_ids intro!: keep_settleReport split: option.split)

lemma keep_onDeployment:
  assumes "\<And>d w1. GetDeployment env t k w = (Inr d, w1) \<Longrightarrow> fst w1 = fst w \<Longrightarrow> R (fst w1) (after (f d) w1)"
  shows "R (fst w) (after (bindS (GetDeployment env t k) f) w)"
proof (rule keep_bind [OF keep_still [OF GetDeployment_still]])
  fix d w1 assume got: "GetDeployment env t k w = (Inr d, w1)"
  show "R (fst w1) (after (f d) w1)" by (rule assms [OF got]) (use GetDeployment_Inr [OF got] in simp)
qed

lemma keep_pushComplete:
  assumes "okD d"
  shows "R (fst w) (after (pushComplete env node d) w)"
  unfolding pushComplete_def after_bind_ret
proof (rule keep_bind)
  show "R (fst w) (after (pushOrDegrade env node d) w)"
    unfolding pushOrDegrade_def
    by (rule keep_handle [OF keep_push [OF assms]]) (simp add: kept_refl split: sum.split)
next
  fix d' w1 assume "pushOrDegrade env node d w = (Inr d', w1)"
  then have "okD d'"
    using assms by (auto simp: pushOrDegrade_def handleS_def retS_def bindS_def askS_def case_prod_unfold intro: okD_marks split: sum.splits)
  then show "R (fst w1) (after (bindS (SaveDeployment env d') (\<lambda>_. retS d')) w1)" by (simp add: keep_SaveDeployment)
qed

lemma keep_PromoteCanary:
  assumes "\<And>d w1. GetDeployment env t k w = (Inr d, w1) \<Longrightarrow>
    okD d \<and> (\<forall>now now'. okD (CompleteCanary now (snd (PromoteCanaryD now' st d))))"
  shows "R (fst w) (after (PromoteCanary env t k st) w)"
  unfolding PromoteCanary_def
proof (rule keep_onDeployment)
  fix d w1 assume "GetDeployment env t k w = (Inr d, w1)"
  then have ok: "okD d" "okD (CompleteCanary now (snd (PromoteCanaryD now' st d)))" for now now' using assms by auto
  have "R (fst w) (after (bindS (askS (gy_time env)) (\<lambda>now'. pushComplete env node
      (CompleteCanary now' (snd (PromoteCanaryD now st d))))) w)" for node now w
    by (rule keep_bind [OF keep_still [OF after_simps(3)] keep_pushComplete [OF ok(2)]])
  then have "R (fst w) (after (promoted env node (PromoteCanaryD now st d)) w)" for node now w
    unfolding promoted_def by (intro keep_bind keep_SaveDeployment okD_marks ok) (simp add: kept_refl)
  then show "R (fst w1) (after (bindS (GetNodeRow env (dp_NodeID d)) (\<lambda>node. bindS (askS (gy_time env)) (\<lambda>now.
      promoted env node (PromoteCanaryD now st d)))) w1)"
    by (intro keep_bind) (simp_all add: kept_refl)
qed

lemma keep_pushed:
  assumes "okD d"
  shows "R (fst w) (after (handleS (callPush env node d) (\<lambda>r. case r of
    Inl e \<Rightarrow> pushFailed env d e | Inr res \<Rightarrow> pushDone env weight d res)) w)"
proof (rule keep_handle)
  fix r w1
  have failed: "R (fst w) (after (pushFailed env d e) w)" for e w
    unfolding pushFailed_def using assms
    by (intro keep_bind keep_handle keep_SaveDeployment okD_marks keep_still after_simps)
      (auto intro: kept_refl split: sum.split)
  have marked: "okD d'" if "(if pu_Accepted res
      then bindS (askS (gy_time env)) (\<lambda>now. retS (if weight > 0 then MarkDeploying now d else MarkActive now d))
      else retS d) w = (Inr d', w')" for d' res w w'
    using that assms okD_marks by (auto simp: bindS_def askS_def retS_def case_prod_unfold split: if_splits)
  have finished: "R (fst w) (after (pushDone env weight d res) w)" for res w
    unfolding pushDone_def
    by (intro keep_bind) (auto intro: keep_still after_bind_still keep_SaveDeployment kept_refl dest: marked)
  show "R (fst w1) (after (case r of Inl e \<Rightarrow> pushFailed env d e | Inr res \<Rightarrow> pushDone env weight d res) w1)"
    using failed finished by (cases r) simp_all
qed (rule keep_push [OF assms])

lemma keep_DeployE:
  assumes ok: "\<And>now m prev w1 w2. fst w1 = fst w \<Longrightarrow>
      previousActiveVersion env (di_NodeID inp) (di_ModelID inp) (di_Version inp) w1 = (Inr prev, w2) \<Longrightarrow>
      okD (toStable prev (newDeployment t (gy_uuid env m) now inp))"
  shows "R (fst w) (after (DeployE env t inp) w)"
proof -
  have rest: "R (fst w) (after (deployNew env inp d) w)" if "okD d" for d w
    unfolding deployNew_def using that
    by (intro keep_bind keep_pushed keep_SaveDeployment) (simp_all add: kept_refl)
  have prev: "R (fst w) (after (bindS (previousActiveVersion env (di_NodeID inp) (di_ModelID inp) (di_Version inp))
      (\<lambda>prev. deployNew env inp (toStable prev (newDeployment t (gy_uuid env m) now inp)))) w1)"
    if "fst w1 = fst w" for now m w1
  proof (rule keep_first [OF that previous_still])
    fix prev w2 assume "previousActiveVersion env (di_NodeID inp) (di_ModelID inp) (di_Version inp) w1 = (Inr prev, w2)"
      and "fst w2 = fst w"
    then show "R (fst w) (after (deployNew env inp (toStable prev (newDeployment t (gy_uuid env m) now inp))) w2)"
      using rest [OF ok [OF that]] by metis
  qed
  have uuid: "R (fst w) (after (bindS (askS (gy_uuid env)) (\<lambda>fresh.
      bindS (previousActiveVersion env (di_NodeID inp) (di_ModelID inp) (di_Version inp))
      (\<lambda>prev. deployNew env inp (toStable prev (newDeployment t fresh now inp))))) w1)"
    if "fst w1 = fst w" for now w1
    by (rule keep_first [OF that after_simps(3)]) (auto simp: askS_def case_prod_unfold intro: prev)
  show ?thesis unfolding DeployE_def
    by (rule keep_first [OF refl GetNode_still], erule keep_first [OF _ after_simps(3)], erule uuid)
qed

end

section \<open>Saving a row\<close>

lemma saveRow_set: "x \<in> set (snd (saveRow key r rows)) \<Longrightarrow> x = r \<or> x \<in> set rows"
  by (auto simp: saveRow_def tupsert_def dest: tsave_set split: if_splits)

lemma saveRow_other: "x \<in> set rows \<Longrightarrow> key x \<noteq> key r \<Longrightarrow> x \<in> set (snd (saveRow key r rows))"
  by (force simp: saveRow_def tupsert_def tsave_def)

lemma saveRow_filter:
  assumes "\<not> P r" and "\<And>x. x \<in> set rows \<Longrightarrow> key x = key r \<Longrightarrow> \<not> P x"
  shows "filter P (snd (saveRow key r rows)) = filter P rows"
proof -
  have "filter P (tsave key r rows) = filter P rows"
    using assms by (induction rows) (auto simp: tsave_def)
  then show ?thesis using assms(1) by (simp add: saveRow_def tupsert_def tadd_def)
qed

lemma saveRow_unique: "tunique key rows \<Longrightarrow> tunique key (snd (saveRow key r rows))"
  by (auto simp: saveRow_def intro: tupsert_unique tadd_unique)

lemma saveRow_find: "fst (saveRow key r rows) = Inr () \<Longrightarrow> tfind key (snd (saveRow key r rows)) (key r) = Some r"
  by (auto simp: saveRow_def tfind_tupsert tfind_tadd split: if_splits)

section \<open>What an evaluation of drift may change\<close>

definition driftScope :: "string \<Rightarrow> bool \<Rightarrow> EdgeWorld \<Rightarrow> EdgeWorld \<Rightarrow> bool" where
  "driftScope k guarded s s' =
     (gw_nodes s' = gw_nodes s \<and> gw_baselines s' = gw_baselines s \<and> gw_labels s' = gw_labels s \<and>
      (\<exists>new. gw_reports s' = gw_reports s @ new \<and> (\<forall>r \<in> set new. rr_DeploymentID r = k)) \<and>
      filter (\<lambda>r. er_ID r \<noteq> k) (gw_deploys s') = filter (\<lambda>r. er_ID r \<noteq> k) (gw_deploys s) \<and>
      (guarded \<or> gw_deploys s' = gw_deploys s \<and> gw_calls s' = gw_calls s))"

lemma driftScope_trans: "driftScope k g s s1 \<Longrightarrow> driftScope k g s1 s2 \<Longrightarrow> driftScope k g s s2"
  unfolding driftScope_def by (elim conjE exE, intro conjI) auto

interpretation ds: edge_frame "driftScope k g" "\<lambda>d. g \<and> dp_ID d = k" "\<lambda>r. r = k" for k g
proof unfold_locales
  fix s env d row now assume ok: "g \<and> dp_ID d = k" and "deployRowFromDomain env d = Inr row"
  then have "er_ID row = k" using deployRow_same by blast
  then show "driftScope k g s (s\<lparr>gw_deploys := snd (saveRow er_ID (row\<lparr>er_UpdatedAt := now\<rparr>) (gw_deploys s))\<rparr>)"
    using ok saveRow_filter [of "\<lambda>r. er_ID r \<noteq> k" "row\<lparr>er_UpdatedAt := now\<rparr>" "gw_deploys s" er_ID]
    by (simp add: driftScope_def)
qed (auto simp: driftScope_def intro: driftScope_trans)

definition guardsOn :: "EdgeWorld \<Rightarrow> string \<Rightarrow> bool" where
  "guardsOn s k = (case tfind er_ID (gw_deploys s) k of
     Some row \<Rightarrow> er_DriftGuardEnabled row \<and> er_AutoRollback row | None \<Rightarrow> False)"

lemma drift_scope_of:
  "driftScope k (guardsOn (fst w) k) (fst w) (after (bindS (GetDeployment env t k) (\<lambda>d. evaluateDrift env sv d sample)) w)"
proof (rule ds.keep_onDeployment)
  fix d w1 assume "GetDeployment env t k w = (Inr d, w1)"
  then obtain row where "tfind er_ID (gw_deploys (fst w)) k = Some row" "deployToDomain env row = Inr d" "dp_ID d = k"
    by (auto dest!: GetDeployment_Inr)
  then show "driftScope k (guardsOn (fst w) k) (fst w1) (after (evaluateDrift env sv d sample) w1)"
    using deployToDomain_same [of env row d] by (intro ds.keep_evaluateDrift) (auto simp: guardsOn_def)
qed

text \<open>C38: an evaluation of drift, from the metrics or from a submitted sample, touches its own deployment only: whatever
  fails on the way, nodes, baselines, labels and all other deployments stay as they are and reports are only added, of that
  deployment; and unless both guards of the deployment are on, its row stays too and the runtime is not called.\<close>
theorem drift_touches_own_deployment:
  "driftScope k (guardsOn (fst w) k) (fst w) (after (EvaluateDrift env sv t k) w) \<and>
   driftScope k (guardsOn (fst w) k) (fst w) (after (SubmitSample env sv t k sample) w)"
  unfolding EvaluateDrift_def SubmitSample_def by (intro conjI drift_scope_of)

end
