(* ===== verification/EdgeTenants.thy ===== *)
theory EdgeTenants
  imports EdgeServiceProofs
begin

text \<open>
  Two consequences of the frame of \<^verbatim>\<open>EdgeServiceProofs\<close> over sequences of operations: the rows of other tenants stay as
  they are, and deployments that are never promoted all roll back to the first version.
\<close>

section \<open>Rows of other tenants\<close>

text \<open>
  \<open>D\<close> and \<open>N\<close> are the identifiers of the deployments and nodes an operation may save; while only rows of the tenant carry
  them, the rows of the others stay.
\<close>

definition otherRows :: "string \<Rightarrow> EdgeWorld \<Rightarrow> EdgeDeploymentRow list \<times> EdgeNodeRow list" where
  "otherRows t s = (filter (\<lambda>r. er_TenantID r \<noteq> t) (gw_deploys s), filter (\<lambda>r. nr_TenantID r \<noteq> t) (gw_nodes s))"

definition free :: "string \<Rightarrow> string set \<Rightarrow> string set \<Rightarrow> EdgeWorld \<Rightarrow> bool" where
  "free t D N s = (er_ID ` set (fst (otherRows t s)) \<inter> D = {} \<and> nr_ID ` set (snd (otherRows t s)) \<inter> N = {})"

definition keyedE :: "EdgeWorld \<Rightarrow> bool" where
  "keyedE s = (tunique er_ID (gw_deploys s) \<and> tunique nr_ID (gw_nodes s))"

definition ownRows :: "string \<Rightarrow> string set \<Rightarrow> string set \<Rightarrow> EdgeWorld \<Rightarrow> EdgeWorld \<Rightarrow> bool" where
  "ownRows t D N s s' = (free t D N s \<longrightarrow> otherRows t s' = otherRows t s \<and> (keyedE s \<longrightarrow> keyedE s'))"

lemma ownRows_trans: "ownRows t D N s s1 \<Longrightarrow> ownRows t D N s1 s2 \<Longrightarrow> ownRows t D N s s2"
  by (simp add: ownRows_def free_def)

lemma others_deploys:
  assumes "free t D N s" and "er_ID r \<in> D" and "er_TenantID r = t"
  shows "otherRows t (s\<lparr>gw_deploys := snd (saveRow er_ID r (gw_deploys s))\<rparr>) = otherRows t s"
  using assms saveRow_filter [of "\<lambda>x. er_TenantID x \<noteq> t" r "gw_deploys s" er_ID]
  by (force simp: otherRows_def free_def)

lemma others_nodes:
  assumes "free t D N s" and "nr_ID r \<in> N" and "nr_TenantID r = t"
  shows "otherRows t (s\<lparr>gw_nodes := snd (saveRow nr_ID r (gw_nodes s))\<rparr>) = otherRows t s"
  using assms saveRow_filter [of "\<lambda>x. nr_TenantID x \<noteq> t" r "gw_nodes s" nr_ID]
  by (force simp: otherRows_def free_def)

interpretation own: edge_frame "ownRows t D N" "\<lambda>d. dp_ID d \<in> D \<and> dp_TenantID d = t" "\<lambda>_. True" for t D N
proof (unfold_locales, goal_cases)
  case (2 s s1 s2)
  then show ?case by (rule ownRows_trans)
next
  case (3 d env row s now)
  then have "er_ID row \<in> D" "er_TenantID row = t" using deployRow_same by auto
  then show ?case
    using others_deploys [of t D N s "row\<lparr>er_UpdatedAt := now\<rparr>"] saveRow_unique [of er_ID "gw_deploys s" "row\<lparr>er_UpdatedAt := now\<rparr>"]
    by (simp add: ownRows_def keyedE_def)
qed (simp_all add: ownRows_def otherRows_def keyedE_def)

lemma ownRows_node:
  assumes "nodeRowFromDomain env n = Inr row" and "nd_ID n \<in> N" and "nd_TenantID n = t"
  shows "ownRows t D N s (s\<lparr>gw_nodes := snd (saveRow nr_ID (row\<lparr>nr_UpdatedAt := now\<rparr>) (gw_nodes s))\<rparr>)"
proof -
  have "nr_ID row \<in> N" "nr_TenantID row = t"
    using assms by (auto simp: nodeRowFromDomain_def split: sum.splits)
  then show ?thesis
    using others_nodes [of t D N s "row\<lparr>nr_UpdatedAt := now\<rparr>"] saveRow_unique [of nr_ID "gw_nodes s" "row\<lparr>nr_UpdatedAt := now\<rparr>"]
    by (simp add: ownRows_def keyedE_def)
qed

lemma own_SaveNode:
  assumes "nd_ID n \<in> N" and "nd_TenantID n = t"
  shows "ownRows t D N (fst w) (after (SaveNode env n) w)"
  unfolding SaveNode_def using assms
  by (intro own.keep_bind own.keep_still own.keep_db liftG_still after_simps)
    (auto dest!: liftG_Inr intro: ownRows_node simp: case_prod_unfold)

text \<open>The deployment or node an operation works on belongs to the tenant, so its identifier is free.\<close>

lemma found_free:
  assumes "keyedE s" and "tfind er_ID (gw_deploys s) k = Some row" and "er_TenantID row = t"
  shows "free t {k} {} s"
  using assms tfind_unique [of er_ID "gw_deploys s"] by (force simp: free_def otherRows_def keyedE_def)

lemma found_free_node:
  assumes "keyedE s" and "tfind nr_ID (gw_nodes s) k = Some row" and "nr_TenantID row = t"
  shows "free t {} {k} s"
  using assms tfind_unique [of nr_ID "gw_nodes s"] by (force simp: free_def otherRows_def keyedE_def)

definition othersStay :: "string \<Rightarrow> EdgeWorld \<Rightarrow> EdgeWorld \<Rightarrow> bool" where
  "othersStay t s s' = (keyedE s \<longrightarrow> otherRows t s' = otherRows t s \<and> keyedE s')"

lemma kept_refl_others [simp]: "othersStay t s s"
  by (simp add: othersStay_def)

lemma kept_on_deployment:
  assumes "\<And>d w1. dp_ID d = k \<Longrightarrow> dp_TenantID d = t \<Longrightarrow> ownRows t {k} {} (fst w1) (after (f d) w1)"
  shows "othersStay t (fst w) (after (bindS (GetDeployment env t k) f) w)"
proof -
  obtain r w1 where got: "GetDeployment env t k w = (r, w1)" by (metis surj_pair)
  show ?thesis
  proof (cases r)
    case (Inl e)
    then show ?thesis using got still_Inr [OF got GetDeployment_still] by (simp add: after_bind)
  next
    case (Inr d)
    then have got': "GetDeployment env t k w = (Inr d, w1)" using got by simp
    then obtain row where "tfind er_ID (gw_deploys (fst w)) k = Some row" "er_TenantID row = t" "dp_ID d = k"
        "dp_TenantID d = t" "fst w1 = fst w" using GetDeployment_Inr [OF got'] by auto
    then show ?thesis using assms [of d w1] found_free [of "fst w" k row t] got'
      by (auto simp: othersStay_def ownRows_def after_bind)
  qed
qed

lemma kept_on_node:
  assumes "\<And>n w1. nd_ID n = k \<Longrightarrow> nd_TenantID n = t \<Longrightarrow> ownRows t {} {k} (fst w1) (after (f n) w1)"
  shows "othersStay t (fst w) (after (bindS (GetNode env t k) f) w)"
proof -
  obtain r w1 where got: "GetNode env t k w = (r, w1)" by (metis surj_pair)
  show ?thesis
  proof (cases r)
    case (Inl e)
    then show ?thesis using got still_Inr [OF got GetNode_still] by (simp add: after_bind)
  next
    case (Inr n)
    then have got': "GetNode env t k w = (Inr n, w1)" using got by simp
    then obtain row where "tfind nr_ID (gw_nodes (fst w)) k = Some row" "nr_TenantID row = t" "nd_ID n = k"
        "nd_TenantID n = t" "fst w1 = fst w" using GetNode_Inr [OF got'] by auto
    then show ?thesis using assms [of n w1] found_free_node [of "fst w" k row t] got'
      by (auto simp: othersStay_def ownRows_def after_bind)
  qed
qed

text \<open>The operations of a tenant, all but the registration of nodes.\<close>

datatype EdgeOp = OpDeregister string | OpHeartbeat string | OpReconcile string time | OpDeploy DeployInput
  | OpPromote string int | OpRollback string string | OpGuard string bool bool | OpEvaluate string
  | OpSample string "DriftSample option" | OpLabel string string string | OpBaseline string DriftBaseline

fun runEdge :: "EdgeEnv \<Rightarrow> EdgeSvc \<Rightarrow> string \<Rightarrow> EdgeOp \<Rightarrow> EdgeWorld \<times> nat \<Rightarrow> EdgeWorld \<times> nat" where
  "runEdge env sv t (OpDeregister k) w = snd (DeregisterNode env t k w)"
| "runEdge env sv t (OpHeartbeat k) w = snd (HeartbeatNode env t k w)"
| "runEdge env sv t (OpReconcile k asOf) w = snd (ReconcileNode env sv t k asOf w)"
| "runEdge env sv t (OpDeploy inp) w = snd (DeployE env t inp w)"
| "runEdge env sv t (OpPromote k st) w = snd (PromoteCanary env t k st w)"
| "runEdge env sv t (OpRollback k reason) w = snd (RollbackE env sv t k reason w)"
| "runEdge env sv t (OpGuard k g a) w = snd (SetGuard env t k g a w)"
| "runEdge env sv t (OpEvaluate k) w = snd (EvaluateDrift env sv t k w)"
| "runEdge env sv t (OpSample k s) w = snd (SubmitSample env sv t k s w)"
| "runEdge env sv t (OpLabel k l r) w = snd (SubmitLabelFeedback env sv t k l r w)"
| "runEdge env sv t (OpBaseline k b) w = snd (SetBaseline env t k b w)"

definition newIDs :: "EdgeEnv \<Rightarrow> string set" where
  "newIDs env = range (\<lambda>m. ''edge-dep-'' @ gy_uuid env m)"

lemma node_marks [simp]:
  "nd_ID (MarkDecommissioning n) = nd_ID n" "nd_TenantID (MarkDecommissioning n) = nd_TenantID n"
  "nd_ID (HeartbeatN now n) = nd_ID n" "nd_TenantID (HeartbeatN now n) = nd_TenantID n"
  "nd_ID (RecomputeLiveness now th n) = nd_ID n" "nd_TenantID (RecomputeLiveness now th n) = nd_TenantID n"
  by (simp_all add: MarkDecommissioning_def HeartbeatN_def RecomputeLiveness_def Let_def)

lemma own_nodes:
  "othersStay t (fst w) (after (DeregisterNode env t k) w)"
  "othersStay t (fst w) (after (HeartbeatNode env t k) w)"
  "othersStay t (fst w) (after (ReconcileNode env sv t k asOf) w)"
  unfolding DeregisterNode_def HeartbeatNode_def ReconcileNode_def Let_def after_bind_ret
  by (rule kept_on_node, simp add: own_SaveNode own.keep_bind own.kept_refl)+

lemma own_rollback:
  "othersStay t (fst w) (after (RollbackE env sv t k reason) w)"
  unfolding RollbackE_def
  by (rule kept_on_deployment)
    (intro own.keep_bind own.keep_callRollback own.keep_rollBack own.keep_still edge_reads, auto)

lemma own_guard: "othersStay t (fst w) (after (SetGuard env t k g a) w)"
  unfolding SetGuard_def Let_def by (rule kept_on_deployment) (simp add: own.keep_SaveDeployment)

lemma own_drift:
  "othersStay t (fst w) (after (EvaluateDrift env sv t k) w)" "othersStay t (fst w) (after (SubmitSample env sv t k s) w)"
  unfolding EvaluateDrift_def SubmitSample_def by (rule kept_on_deployment, simp add: own.keep_evaluateDrift)+

lemma own_tables [simp]: "ownRows t D N s (s\<lparr>gw_labels := ls\<rparr>)" "ownRows t D N s (s\<lparr>gw_baselines := bs\<rparr>)"
  by (simp_all add: ownRows_def otherRows_def keyedE_def)

lemma own_baseline: "othersStay t (fst w) (after (SetBaseline env t k b) w)"
  unfolding SetBaseline_def SaveBaseline_def
  by (rule kept_on_deployment) (intro own.keep_bind own.keep_still own.keep_db liftG_still, simp add: case_prod_unfold)

lemma own_label: "othersStay t (fst w) (after (SubmitLabelFeedback env sv t k l r) w)"
proof (cases "sv_hasLabels sv")
  case True
  have "ownRows t D N (fst w) (after (RecordLabel env f) w)" for D N f w
    unfolding RecordLabel_def
    by (intro own.keep_bind own.keep_db) (simp_all add: own.kept_refl case_prod_unfold)
  then have "ownRows t D N (fst w) (after (bindS (askS (gy_uuid env)) (\<lambda>fresh. RecordLabel env (f fresh))) w)" for D N f w
    by (rule own.keep_bind [OF own.keep_still [OF after_simps(3)]])
  then show ?thesis unfolding SubmitLabelFeedback_def using True by (simp add: kept_on_deployment)
qed (simp add: SubmitLabelFeedback_def)

lemma own_promote: "othersStay t (fst w) (after (PromoteCanary env t k st) w)"
proof (cases "\<exists>d w1. GetDeployment env t k w = (Inr d, w1)")
  case True
  then obtain row where "tfind er_ID (gw_deploys (fst w)) k = Some row" "er_TenantID row = t"
    using GetDeployment_Inr by blast
  moreover have "ownRows t {k} {} (fst w) (after (PromoteCanary env t k st) w)"
    by (rule own.keep_PromoteCanary) (auto dest!: GetDeployment_Inr simp: CompleteCanary_def PromoteCanaryD_def Let_def)
  ultimately show ?thesis using found_free [of "fst w" k row t] by (auto simp: othersStay_def ownRows_def)
next
  case False
  then have "after (PromoteCanary env t k st) w = fst w"
    unfolding PromoteCanary_def by (intro after_bind_still GetDeployment_still) auto
  then show ?thesis by simp
qed

lemma newDeployment_ids [simp]:
  "dp_ID (toStable prev (newDeployment t fresh now inp)) = ''edge-dep-'' @ fresh"
  "dp_TenantID (toStable prev (newDeployment t fresh now inp)) = t"
  "dp_NodeID (toStable prev (newDeployment t fresh now inp)) = di_NodeID inp"
  "dp_ModelID (toStable prev (newDeployment t fresh now inp)) = di_ModelID inp"
  "dp_Version (toStable prev (newDeployment t fresh now inp)) = di_Version inp"
  by (simp_all add: toStable_def newDeployment_def Let_def)

lemma own_deploy: "ownRows t (newIDs env) {} (fst w) (after (DeployE env t inp) w)"
  by (rule own.keep_DeployE) (simp add: newIDs_def)

lemma runEdge_others:
  assumes "keyedE (fst w)" and "er_ID ` set (fst (otherRows t (fst w))) \<inter> newIDs env = {}"
  shows "otherRows t (fst (runEdge env sv t op w)) = otherRows t (fst w) \<and> keyedE (fst (runEdge env sv t op w))"
proof -
  have "free t (newIDs env) {} (fst w)" using assms(2) by (simp add: free_def)
  then have "othersStay t (fst w) (after (DeployE env t inp) w)" for inp
    using own_deploy [of t env w inp] by (simp add: ownRows_def othersStay_def)
  then show ?thesis
    using assms(1) own_nodes own_rollback own_guard own_drift own_baseline own_label own_promote
    unfolding othersStay_def after_def by (cases op) (simp_all only: runEdge.simps)
qed

text \<open>C37: tenants of the edge are isolated from one another's operations other than registrations: whatever sequence of
  operations a tenant runs on its nodes, deployments, drift and labels, under any faults and answers of the runtime, the
  nodes and deployments of all other tenants stay exactly as they are and keys stay unique; generated identifiers of
  deployments only have to differ from those the others already have.\<close>
theorem edge_tenants_isolated:
  assumes "keyedE (fst w)" and "er_ID ` set (fst (otherRows t (fst w))) \<inter> newIDs env = {}"
  shows "otherRows t (fst (fold (runEdge env sv t) ops w)) = otherRows t (fst w) \<and>
    keyedE (fst (fold (runEdge env sv t) ops w))"
  using assms
proof (induction ops arbitrary: w)
  case (Cons op ops)
  have step: "otherRows t (fst (runEdge env sv t op w)) = otherRows t (fst w)" "keyedE (fst (runEdge env sv t op w))"
    using runEdge_others [OF Cons.prems, of sv op] by simp_all
  show ?case using Cons.IH [of "runEdge env sv t op w"] Cons.prems(2) step by simp
qed simp

text \<open>A registration is not one of them: it takes over the node of any tenant whose identifier it names, also one being
  decommissioned.\<close>

lemma register_takes_over_node:
  assumes "ri_ID inp \<noteq> []" and "RegisterNode env t inp w = (Inr n, w')"
  shows "\<exists>row. tfind nr_ID (gw_nodes (fst w')) (ri_ID inp) = Some row \<and> nr_TenantID row = t \<and>
    nr_Status row = NodeStatusPending \<and> nr_Endpoint row = ri_Endpoint inp"
  using assms unfolding RegisterNode_def SaveNode_def
  by (auto dest!: bindS_Inr liftG_Inr simp: retS_def askS_def dbS_def saveRow_def tfind_tupsert case_prod_unfold Let_def
    nodeRowFromDomain_def RegisterN_def nodeOfInput_def split: option.splits sum.splits)

end
