(* ===== verification/EdgeRollback.thy ===== *)
theory EdgeRollback
  imports EdgeServiceProofs
begin

text \<open>
  Where deployments roll back to: deployments that are never promoted all keep the first version of their model as the
  stable one; and a store of metrics that lost its predictions makes an evaluation of drift roll a guarded deployment back.
\<close>

section \<open>The stable version\<close>

text \<open>
  On a node, every deployment of a model has the stable version \<open>v\<close>, and the row \<open>k\<close> is one that deployed \<open>v\<close> itself.
\<close>

definition stableAt :: "string \<Rightarrow> string \<Rightarrow> string \<Rightarrow> string \<Rightarrow> EdgeWorld \<Rightarrow> bool" where
  "stableAt node model v k s =
     ((\<forall>r \<in> set (gw_deploys s). er_NodeID r = node \<and> er_ModelID r = model \<longrightarrow> er_ActiveVersion r = v) \<and>
      (\<exists>r \<in> set (gw_deploys s). er_ID r = k \<and> er_NodeID r = node \<and> er_ModelID r = model \<and> er_Version r = v))"

definition staysStable :: "string \<Rightarrow> string \<Rightarrow> string \<Rightarrow> string \<Rightarrow> EdgeWorld \<Rightarrow> EdgeWorld \<Rightarrow> bool" where
  "staysStable node model v k s s' = (stableAt node model v k s \<longrightarrow> stableAt node model v k s')"

definition allowedAt :: "string \<Rightarrow> string \<Rightarrow> string \<Rightarrow> string \<Rightarrow> EdgeDeployment \<Rightarrow> bool" where
  "allowedAt node model v k d =
     (dp_ID d \<noteq> k \<and> (dp_NodeID d = node \<and> dp_ModelID d = model \<longrightarrow> dp_ActiveVersion d = v))"

lemma stableAt_logs [simp]:
  "stableAt node model v k (s\<lparr>gw_calls := cs\<rparr>) = stableAt node model v k s"
  "stableAt node model v k (s\<lparr>gw_events := es\<rparr>) = stableAt node model v k s"
  "stableAt node model v k (s\<lparr>gw_reports := rs\<rparr>) = stableAt node model v k s"
  by (simp_all add: stableAt_def)

lemma stable_save:
  assumes "stableAt node model v k s" and "er_ID r \<noteq> k"
    and "er_NodeID r = node \<Longrightarrow> er_ModelID r = model \<Longrightarrow> er_ActiveVersion r = v"
  shows "stableAt node model v k (s\<lparr>gw_deploys := snd (saveRow er_ID r (gw_deploys s))\<rparr>)"
proof -
  obtain f where f: "f \<in> set (gw_deploys s)" "er_ID f = k" "er_NodeID f = node" "er_ModelID f = model" "er_Version f = v"
    using assms(1) unfolding stableAt_def by blast
  then have "f \<in> set (snd (saveRow er_ID r (gw_deploys s)))" using assms(2) by (intro saveRow_other) auto
  moreover have "er_ActiveVersion x = v"
    if "x \<in> set (snd (saveRow er_ID r (gw_deploys s)))" "er_NodeID x = node" "er_ModelID x = model" for x
    using saveRow_set [OF that(1)] that assms unfolding stableAt_def by blast
  ultimately show ?thesis using f unfolding stableAt_def by auto
qed

interpretation st: edge_frame "staysStable node model v k" "allowedAt node model v k" "\<lambda>_. True" for node model v k
proof (unfold_locales, goal_cases)
  case (3 d env row s now)
  then show ?case
    using deployRow_same [of env d row] stable_save [of node model v k s "row\<lparr>er_UpdatedAt := now\<rparr>"]
    by (auto simp: staysStable_def allowedAt_def)
next
  case (7 d d')
  then show ?case by (simp add: allowedAt_def)
qed (simp_all add: staysStable_def)

text \<open>The version found by the listing, when nothing fails.\<close>

lemma previous_stable:
  assumes "stableAt node model v k (fst w)" and "v \<noteq> []" and "gy_fault env = (\<lambda>_. None)"
    and "\<And>text. \<exists>spec. co_dec (gy_spec env) text = Inr spec"
    and "previousActiveVersion env node model version w = (Inr prev, w')"
  shows "(if prev \<noteq> [] then prev else version) = v"
proof -
  let ?rows = "sort_key (\<lambda>r. - er_CreatedAt r) (filter (\<lambda>r. er_NodeID r = node) (gw_deploys (fst w)))"
  have "\<exists>d. deployToDomain env r = Inr d" for r
    using assms(4) [of "er_DesiredSpec r"] by (auto simp: deployToDomain_def)
  then obtain f where f: "\<And>r. deployToDomain env r = Inr (f r)" by metis
  have same: "dp_ModelID (f r) = er_ModelID r" "dp_Version (f r) = er_Version r" "dp_ActiveVersion (f r) = er_ActiveVersion r" for r
    using deployToDomain_same [OF f] by auto
  have "allInr (map (deployToDomain env) rs) = Inr (map f rs)" for rs by (induction rs) (simp_all add: f)
  then have "ListByNode env node w = (Inr (map f ?rows), fst w, Suc (snd w))"
    using assms(3) by (simp add: ListByNode_def deployRowsToDomain_def readS_def dbS_def case_prod_unfold)
  then have prev: "prev = previousIn model version (map f ?rows)"
    using assms(5) by (simp add: previousActiveVersion_def handleS_def retS_def)
  have rows: "d \<in> set (map f ?rows) \<longleftrightarrow> (\<exists>r \<in> set (gw_deploys (fst w)). er_NodeID r = node \<and> d = f r)" for d by auto
  show ?thesis
  proof (cases "List.find (\<lambda>p. dp_ModelID p = model \<and> dp_Version p \<noteq> version) (map f ?rows)")
    case None
    obtain r where r: "r \<in> set (gw_deploys (fst w))" "er_NodeID r = node" "er_ModelID r = model" "er_Version r = v"
      using assms(1) unfolding stableAt_def by blast
    then have "f r \<in> set (map f ?rows)" using rows [of "f r"] by blast
    with None have "\<not> (dp_ModelID (f r) = model \<and> dp_Version (f r) \<noteq> version)" unfolding find_None_iff by metis
    then have "version = v" using r(3,4) by (simp add: same)
    then show ?thesis using None prev by (simp add: previousIn_def)
  next
    case (Some d)
    then have "d \<in> set (map f ?rows)" "dp_ModelID d = model" using find_SomeD [OF Some] by blast+
    then have "dp_ActiveVersion d = v" using assms(1) same unfolding stableAt_def rows by metis
    then show ?thesis using Some prev assms(2) by (simp add: previousIn_def)
  qed
qed


section \<open>A rollback takes effect\<close>

definition rolledBack :: "EdgeWorld \<Rightarrow> string \<Rightarrow> string \<Rightarrow> bool" where
  "rolledBack s k v = (\<exists>row. tfind er_ID (gw_deploys s) k = Some row \<and> er_Status row = EdgeDeployRolledBack \<and>
     er_CurrentVersion row = v \<and> er_ActiveVersion row = v \<and> er_CanaryWeight row = 0 \<and> er_CanaryVersion row = [])"

lemma SaveDeployment_Inr:
  assumes "SaveDeployment env d w = (Inr x, w')"
  shows "\<exists>row now. deployRowFromDomain env d = Inr row \<and>
    tfind er_ID (gw_deploys (fst w')) (dp_ID d) = Some (row\<lparr>er_UpdatedAt := now\<rparr>)"
proof -
  obtain row now where row: "deployRowFromDomain env d = Inr row"
    and "fst (saveRow er_ID (row\<lparr>er_UpdatedAt := now\<rparr>) (gw_deploys (fst w))) = Inr ()"
    and "gw_deploys (fst w') = snd (saveRow er_ID (row\<lparr>er_UpdatedAt := now\<rparr>) (gw_deploys (fst w)))"
    using assms unfolding SaveDeployment_def
    by (auto dest!: bindS_Inr liftG_Inr simp: askS_def dbS_def case_prod_unfold split: option.splits)
  then show ?thesis using saveRow_find [of er_ID "row\<lparr>er_UpdatedAt := now\<rparr>"] deployRow_same [OF row] by auto
qed

lemma publish_deploys: "publishE sv e w = (r, w') \<Longrightarrow> gw_deploys (fst w') = gw_deploys (fst w)"
  by (auto simp: publishE_def case_prod_unfold)

lemma rollBack_effect:
  assumes "rollBack env sv reason d w = (Inr d', w')"
  shows "rolledBack (fst w') (dp_ID d) (dp_ActiveVersion d)"
proof -
  obtain now w1 w2 where saved: "SaveDeployment env (RollbackTo now d) w1 = (Inr (), w2)"
    and rest: "gw_deploys (fst w') = gw_deploys (fst w2)"
    using assms unfolding rollBack_def Let_def
    by (auto dest!: bindS_Inr publish_deploys simp: askS_def retS_def case_prod_unfold split: if_splits)
  then show ?thesis
    using SaveDeployment_Inr [OF saved] unfolding rolledBack_def
    by (auto dest!: deployRow_same simp: RollbackTo_def)
qed

lemma mapErrG_Inr: "mapErrG f m w = (Inr x, w') \<Longrightarrow> m w = (Inr x, w')"
  by (auto simp: mapErrG_def handleS_def failS_def retS_def case_prod_unfold prod_eq_iff split: sum.splits)

lemma settleReport_effect:
  assumes "settleReport env sv d report w = (Inr rep, w')"
  shows "rep = report \<and> (rp_TriggeredRollback report \<and> dp_DriftGuardEnabled d \<and> dp_AutoRollback d \<longrightarrow>
    rolledBack (fst w') (dp_ID d) (dp_ActiveVersion d))"
proof -
  obtain w1 w2 w3 where done_: "(if rp_TriggeredRollback report \<and> dp_DriftGuardEnabled d \<and> dp_AutoRollback d
      then bindS (autoRollback env sv d report) (\<lambda>_. retS ()) else retS ()) w1 = (Inr (), w2)"
    and rest: "gw_deploys (fst w') = gw_deploys (fst w2)" and "rep = report"
    using assms unfolding settleReport_def by (auto dest!: bindS_Inr publish_deploys simp: retS_def)
  moreover have "rolledBack (fst w2) (dp_ID d) (dp_ActiveVersion d)" if "autoRollback env sv d report w1 = (Inr x, w2)" for x
    using that unfolding autoRollback_def by (auto dest!: bindS_Inr mapErrG_Inr rollBack_effect)
  ultimately show ?thesis
    by (auto dest!: bindS_Inr simp: retS_def rolledBack_def split: if_splits)
qed

section \<open>Missing predictions\<close>

lemma latestSeries_asks:
  assumes "latestSeries env src metric ls win st w = (Inr series, w')"
  shows "\<exists>n q. mq_Query q = metric \<and> gy_query env n q = Inr series"
  using assms unfolding latestSeries_def
  by (auto dest!: bindS_Inr liftG_Inr simp: askS_def case_prod_unfold) (metis MetricQuery.select_convs(1))

lemma sample_without_predictions:
  assumes "MetricsSampleOf env src d win w = (Inr s, w')"
    and "\<And>n q. mq_Query q = mn_PredictionRatio (mz_names src) \<Longrightarrow> gy_query env n q = Inr []"
  shows "sm_PredictionDist s = []"
  using assms(1) unfolding MetricsSampleOf_def Let_def
  by (auto dest!: bindS_Inr latestSeries_asks simp: assms(2) failS_def retS_def lastValueByLabel_def normalizeDist_def
    split: prod.splits if_splits)


end
