(* ===== verification/EdgeDemo.thy ===== *)
theory EdgeDemo
  imports EdgeTenants EdgeRollback
begin

text \<open>
  A concrete edge: one node with one guarded deployment and a baseline, a store of metrics that knows the error rate only,
  and a runtime that accepts everything.  The properties of the edge are applied to it.
\<close>

definition codecOf :: "'a \<Rightarrow> 'a Codec" where
  "codecOf x = \<lparr>co_enc = (\<lambda>_. Inr ''{}''), co_dec = (\<lambda>_. Inr x)\<rparr>"

definition demoMetric :: DriftMetric where
  "demoMetric = \<lparr>dm_Type = DriftTypeData, dm_Score = Fin 0, dm_Threshold = Fin 0, dm_Drifted = False, dm_Detail = []\<rparr>"

definition demoEdge :: EdgeEnv where
  "demoEdge = \<lparr>gy_ops = exactDrift id, gy_time = (\<lambda>n. int n + 1), gy_uuid = (\<lambda>n. ''u'' @ replicate n CHR ''1''),
     gy_fault = (\<lambda>_. None), gy_labels = codecOf [], gy_spec = codecOf emptyEdgeSpec, gy_metric = codecOf demoMetric,
     gy_numeric = codecOf [], gy_categorical = codecOf [], gy_dist = codecOf (ratDist [(''cat'', 1)]),
     gy_perf = codecOf None, gy_quote = id, gy_duration = (\<lambda>_. Inr Minute),
     gy_query = (\<lambda>_ q. if mq_Query q = ''edge_inference_error_rate''
       then Inr [\<lparr>me_Labels = [], me_Samples = [(0, Fin (1 / 100))]\<rparr>] else Inr []),
     gy_push = (\<lambda>_ _ _. Inr \<lparr>pu_Accepted = True, pu_Message = [], pu_RuntimeID = []\<rparr>), gy_rollback = (\<lambda>_ _ _ _. None)\<rparr>"

definition demoNodeRow :: "string \<Rightarrow> string \<Rightarrow> EdgeNodeRow" where
  "demoNodeRow k t = \<lparr>nr_ID = k, nr_TenantID = t, nr_Name = [], nr_Mode = NodeModeAgent, nr_Status = NodeStatusOnline,
     nr_Endpoint = [], nr_Region = [], nr_Labels = [], nr_CACertPEM = [], nr_ClientCertPEM = [], nr_ClientKeyPEM = [],
     nr_HeartbeatAt = 0, nr_LastSeenAt = 0, nr_CreatedAt = 0, nr_UpdatedAt = 0\<rparr>"

definition demoDeployRow :: "string \<Rightarrow> string \<Rightarrow> EdgeDeploymentRow" where
  "demoDeployRow k t = \<lparr>er_ID = k, er_TenantID = t, er_NodeID = ''n1'', er_ModelID = ''m'', er_Version = ''v1'',
     er_DesiredSpec = [], er_CurrentVersion = ''v1'', er_ActiveVersion = ''v1'', er_CanaryVersion = [],
     er_CanaryWeight = 0, er_Status = EdgeDeployActive, er_AutoRollback = True, er_DriftGuardEnabled = True,
     er_CreatedAt = 0, er_UpdatedAt = 0\<rparr>"

definition demoEdgeWorld :: EdgeWorld where
  "demoEdgeWorld = \<lparr>gw_nodes = [demoNodeRow ''n1'' ''acme'', demoNodeRow ''n2'' ''other''],
     gw_deploys = [demoDeployRow ''d1'' ''acme'', demoDeployRow ''d2'' ''other''],
     gw_reports = [], gw_baselines = [\<lparr>br_DeploymentID = ''d1'', br_ReferenceWindow = [], br_NumericFeatures = [],
       br_CategoricalFeatures = [], br_PredictionDist = ''{}'', br_Performance = [], br_ConceptLabels = []\<rparr>],
     gw_labels = [], gw_calls = [], gw_events = []\<rparr>"

definition demoEdgeSvc :: EdgeSvc where
  "demoEdgeSvc = NewEdgeService demoEdge None False 0 [] True True DefaultSampleMetricNames"

lemma edge_tenants_isolated_witness:
  "otherRows ''acme'' (fst (fold (runEdge demoEdge demoEdgeSvc ''acme'') [OpPromote ''d1'' 50, OpRollback ''d2'' []]
      (demoEdgeWorld, 0))) = ([demoDeployRow ''d2'' ''other''], [demoNodeRow ''n2'' ''other''])"
  using edge_tenants_isolated [of "(demoEdgeWorld, 0)" "''acme''" demoEdge demoEdgeSvc
      "[OpPromote ''d1'' 50, OpRollback ''d2'' []]"]
  by (auto simp: keyedE_def otherRows_def newIDs_def demoEdgeWorld_def demoDeployRow_def demoNodeRow_def tunique_def
    simp del: fold_simps)

definition demoRequest :: "string \<Rightarrow> DeployInput" where
  "demoRequest v = \<lparr>di_NodeID = ''n1'', di_ModelID = ''m'', di_Version = v, di_Spec = emptyEdgeSpec, di_CanaryWeight = 0,
     di_AutoRollback = True, di_DriftGuard = True\<rparr>"


lemma demo_evaluates: "case_sum (\<lambda>_. False) (\<lambda>_. True) (fst (EvaluateDrift demoEdge demoEdgeSvc ''acme'' ''d1'' (demoEdgeWorld, 0)))"
  by code_simp


end
