(* ===== verification/Spec2Isabelle.thy ===== *)
theory Spec2Isabelle
  imports AgentDag LlmRoute LlmPrompt JobServiceProofs TrainingServiceProofs QuotaWiring KnowledgeService LlmGatewayProofs AgentTools AgentApi HpoServiceProofs EvaluationApi EvaluationProofs PipelineProofs OperatorProofs EdgeDemo
begin

text \<open>
  The core of the FuzeAIPaaS backend: a platform on which tenants train models, search hyperparameters, keep
  experiments and evaluations, prepare data, work in interactive workspaces, call language models and
  deploy models to edge devices.  The Go code is under
  \<^verbatim>\<open>src/backend/internal\<close>; paths below are relative to it.

  \<^bold>\<open>The program and its parts.\<close>  Handlers (\<^verbatim>\<open>api\<close>) take the tenant from the request and call services (\<^verbatim>\<open>app\<close>).  Services
  apply the rules of the domain (\<^verbatim>\<open>domain\<close>) and keep rows through repositories (\<^verbatim>\<open>storage\<close>, with the interfaces in \<^verbatim>\<open>ports\<close>
  and the rows in \<^verbatim>\<open>models\<close>).  Work runs as jobs of a Kubernetes cluster behind a port.  Ends of jobs and workspaces are
  published on an event bus (\<^verbatim>\<open>events\<close>), to which the quota ledger and its recount are subscribed (\<^verbatim>\<open>bootstrap\<close>).  A scheduler
  calls the services in rounds.

  \<^bold>\<open>Shared ground.\<close>  \<^verbatim>\<open>Prelude\<close>: 64-bit signed integers with wrap-around written out (\<^verbatim>\<open>i64\<close>), time, floats as
  rationals with infinities and NaN (comparison exact, rounding arithmetic an argument), white space and decimal texts, and
  tables as lists of rows found by a key.  \<^verbatim>\<open>Utf8\<close>: runes of byte strings.  \<^verbatim>\<open>Store\<close>: operations that thread a state and the
  number of the step, by which the environment (faults of the database, clock, identifiers, other systems) is asked, so that a
  statement over all environments covers every fault at every step; its locale \<^verbatim>\<open>kept\<close> proves from the parts of an operation
  that it keeps a preorder on states.  \<^verbatim>\<open>ApiAccess\<close>: claims, roles and the tenant checks of the handlers
  (\<^verbatim>\<open>auth/auth.go\<close>, \<^verbatim>\<open>api/handler.go\<close>).

  \<^bold>\<open>Jobs and quotas.\<close>  \<^verbatim>\<open>JobDomain\<close> is \<^verbatim>\<open>domain/job\<close> (status machine, entity, resources, allocation), \<^verbatim>\<open>Models\<close> the job and
  quota rows, \<^verbatim>\<open>QuotaStore\<close> the ledger of \<^verbatim>\<open>storage/enterprise.go\<close> with its retried transactions and the reconciler of
  \<^verbatim>\<open>quota\<close>, \<^verbatim>\<open>JobStore\<close> the job and resource tables of \<^verbatim>\<open>storage/storage.go\<close>, \<^verbatim>\<open>JobService\<close> the submission pass, status
  synchronisation and termination of \<^verbatim>\<open>app/job\<close>.  \<^verbatim>\<open>EventBus\<close> is \<^verbatim>\<open>events/bus.go\<close> as a step relation, \<^verbatim>\<open>QuotaWiring\<close> what
  \<^verbatim>\<open>bootstrap\<close> subscribes.  Shown: ended jobs stay ended; usage never exceeds a limit; a reservation is all or nothing and is
  undone by its release; the recount computes the totals of the active jobs; a submission pass leaves no unrecorded object;
  the bus loses nothing it does not count; and that the recount after an event erases reservations not yet backed by a job.

  \<^bold>\<open>Training.\<close>  \<^verbatim>\<open>TrainingDomain\<close> (\<^verbatim>\<open>domain/training\<close>) and \<^verbatim>\<open>TrainingService\<close> (\<^verbatim>\<open>app/training\<close>, \<^verbatim>\<open>adapter/training.go\<close>).
  Shown: the retry budget; a failed submission costs nothing; the quota follows the life of the job.

  \<^bold>\<open>Workspaces.\<close>  \<^verbatim>\<open>WorkspaceDomain\<close> (\<^verbatim>\<open>domain/workspace\<close>) and \<^verbatim>\<open>WorkspaceService\<close> (\<^verbatim>\<open>app/workspace\<close>, \<^verbatim>\<open>storage/workspace.go\<close>).
  Shown: the ledger carries exactly the active workspaces over any sequence of operations and faults but a lost compensating
  release; a workspace in \<^verbatim>\<open>stopping\<close> never leaves it.

  \<^bold>\<open>Language models.\<close>  \<^verbatim>\<open>LlmChat\<close>, \<^verbatim>\<open>LlmRoute\<close>, \<^verbatim>\<open>LlmPrompt\<close>, \<^verbatim>\<open>LlmRag\<close>, \<^verbatim>\<open>LlmGuard\<close>, \<^verbatim>\<open>LlmTrace\<close>, \<^verbatim>\<open>LlmBilling\<close>: the files of the same names
  under \<^verbatim>\<open>domain/llm\<close> with their in-memory and stored tables; \<^verbatim>\<open>LlmGateway\<close>: a guarded completion or stream with failover and
  settlement (\<^verbatim>\<open>app/llmgateway/service.go\<close>); \<^verbatim>\<open>KnowledgeStore\<close> and \<^verbatim>\<open>KnowledgeService\<close>: knowledge bases.  Shown: rendering of
  prompts characterised; splitting of documents ends and covers them; what is guarded; a backend marked unhealthy is never asked
  again; tenants of knowledge bases do not touch each other.

  \<^bold>\<open>Agents.\<close>  \<^verbatim>\<open>AgentDag\<close> and \<^verbatim>\<open>AgentRun\<close> (\<^verbatim>\<open>domain/agent\<close>), \<^verbatim>\<open>AgentStore\<close>, \<^verbatim>\<open>AgentService\<close>, \<^verbatim>\<open>AgentTools\<close> (\<^verbatim>\<open>app/agent\<close>), \<^verbatim>\<open>AgentApi\<close>.
  Shown: the topological sort and the compiler of graphs; runs follow the graph, pauses keep their place; rendering of outputs
  may pump for ever; the address guard of tools can be misled; tenants are isolated at any depth of sub-agents.

  \<^bold>\<open>Search and experiments.\<close>  \<^verbatim>\<open>HpoDomain\<close> (\<^verbatim>\<open>domain/hpo\<close>), \<^verbatim>\<open>HpoService\<close> (\<^verbatim>\<open>app/hpo\<close>, over the training and experiment
  services), \<^verbatim>\<open>Experiments\<close> and \<^verbatim>\<open>ExperimentApi\<close>.  Shown: the grid enumerates every point once; successive halving; the loop over
  rungs ends for an eta of at least 2; the trial budget; exactly one best run is flagged; a cancelled trial blocks its study.

  \<^bold>\<open>Evaluations.\<close>  \<^verbatim>\<open>Evaluation\<close> (\<^verbatim>\<open>domain/evaluation\<close> and the judge client \<^verbatim>\<open>llmjudge\<close>), \<^verbatim>\<open>EvaluationService\<close>,
  \<^verbatim>\<open>EvaluationApi\<close>.  Shown: a finalized evaluation never changes; an unreadable judgement panics; criteria on dimensions decide
  nothing.

  \<^bold>\<open>Data.\<close>  \<^verbatim>\<open>DataPipeline\<close> (\<^verbatim>\<open>domain/data\<close>), \<^verbatim>\<open>PipelineService\<close> (\<^verbatim>\<open>app/data\<close>, \<^verbatim>\<open>storage/data_repo.go\<close>, the handlers and the
  scheduler's round), \<^verbatim>\<open>Annotation\<close> (formats and export of annotations), \<^verbatim>\<open>Operators\<close> (\<^verbatim>\<open>data/operator\<close>).  Shown: the graph
  check accepts exactly the acyclic graphs; a step is dispatched once and an ended pipeline stays ended; a pipeline of the
  interface never has a step; COCO round trip; the split partitions; operators write their output only.

  \<^bold>\<open>The edge.\<close>  \<^verbatim>\<open>EdgeDomain\<close> (\<^verbatim>\<open>domain/edge\<close>: nodes, deployments with a canary share, the detector of drift), \<^verbatim>\<open>EdgeStore\<close>
  (\<^verbatim>\<open>storage/edge.go\<close>), \<^verbatim>\<open>EdgeSample\<close> (samples from the metric store), \<^verbatim>\<open>EdgeService\<close> (\<^verbatim>\<open>app/edge/service.go\<close>), \<^verbatim>\<open>EdgeApi\<close>.
  \<^verbatim>\<open>EdgeProofs\<close>: the distance of distributions in exact arithmetic and the verdicts of the detector; \<^verbatim>\<open>EdgeServiceProofs\<close>: what an
  evaluation of drift may change; \<^verbatim>\<open>EdgeTenants\<close>: isolation of tenants, registrations apart; \<^verbatim>\<open>EdgeRollback\<close>: the version
  deployments roll back to, and the rollback caused by missing predictions; \<^verbatim>\<open>EdgeDemo\<close>: the concrete edge of the witnesses.

  The theories ending in \<^verbatim>\<open>Proofs\<close> hold the lemmas and properties of the theory they are named after, the others prove theirs
  beside the definitions.  A property stands under its number (C1, C2, ...) with its statement in words, and is followed or, where
  it needs demonstration data, later followed by a witness: the property applied to a concrete state.

  \<^bold>\<open>Interfaces.\<close>  Contracts between components are locales, each interpreted on the code's own definitions: \<^verbatim>\<open>lifecycle\<close> (a status
  machine with ends), \<^verbatim>\<open>repository\<close> (a table found by key), \<^verbatim>\<open>ledger\<close> (reserve and release, used by workspaces), \<^verbatim>\<open>gateway_frame\<close>
  (what a step of the gateway leaves alone), \<^verbatim>\<open>kept\<close> (what every operation keeps: finalized evaluations, jobs of steps, ended
  pipelines, other files) and its extension \<^verbatim>\<open>edge_frame\<close> (what every operation of the edge keeps: the scope of an evaluation of
  drift, the rows of other tenants, the stable version).

  \<^bold>\<open>Bounds and fuel.\<close>  Loops whose end depends on data are \<^verbatim>\<open>partial_function (option)\<close>, where None is a run that does not return
  (the rung loop, the rendering of agent outputs, which indeed may not end).  Sub-agents take the nesting depth as fuel, and the
  statements hold for every depth.  The depth-first search over a pipeline has one unit more than there are steps, proved to
  suffice.  Transactions are retried ten times, submissions of jobs five, as in the code.

  \<^bold>\<open>Arguments of the model.\<close>  Code that is not in the repository enters as an argument with its documented behaviour as a named
  hypothesis where a property needs it: JSON, CSV and number formats, the arithmetic that rounds, sorting of equal elements,
  generators, hashes, HTTP exchanges with backends and the judge, the cluster.  A service is run one operation at a time;
  interleavings are modelled where the code splits an operation over steps (the bus, the scheduling of studies, faults between
  steps).

  \<^bold>\<open>Not modelled.\<close>  The clients of Kubernetes, Volcano, KServe and the edge runtime, the model backends and the metric stores
  (\<^verbatim>\<open>k8s\<close>, \<^verbatim>\<open>llmgw\<close>, \<^verbatim>\<open>metrics\<close>, \<^verbatim>\<open>metricsquery\<close>, \<^verbatim>\<open>runtime\<close>, \<^verbatim>\<open>telemetry\<close>): they turn calls into requests of other systems.  Sign-in
  (\<^verbatim>\<open>auth\<close> beyond the claims, \<^verbatim>\<open>crypto\<close>): it rests on libraries for tokens, hashes and directories.  Inference services,
  model compression, lineage, tokens, cost, datasets, clusters, alerts and notifications, the remaining handlers and repositories
  and the start-up: further resources kept in the same pattern of handler, service and row.  Audit records are left out of the
  handlers that are modelled.  The frontend, the SDK and the scripts are not Go code of the backend.
\<close>

end
